(* ===== verification/HG_Prelude.thy ===== *)
theory HG_Prelude
  imports
    Complex_Main
    "HOL-Library.Finite_Map"
    "HOL-Library.Multiset"
    "HOL-Library.Signed_Division"
    "HOL-Library.Word"
begin

text \<open>
  Shared vocabulary of the development: how the Go language appears in the model.

  \<^item> Go's signed machine integers are \<open>int\<close> values with the wrap-around written out
    (\<open>wrap32\<close>, \<open>wrap64\<close>); unsigned ones are words.
  \<^item> A call ends in a value, an error or a panic: type \<open>outcome\<close>.
  \<^item> A Go map is a finite map; \<open>for k, v := range m\<close> visits the keys in an unspecified
    order, which every operation that ranges over a map takes as an argument
    (\<open>iter_order\<close> says that a list of keys is such an order).
  \<^item> Instants and durations are nanoseconds in \<open>int\<close>; \<open>time_sub\<close> saturates as
    \<open>time.Time.Sub\<close> does.
  \<^item> \<open>scan_best\<close> is the loop "keep the best element seen so far" that the schedulers
    share.
\<close>

named_theorems go_int "range and wrap-around facts of Go's machine integers"
named_theorems go_map "facts about Go maps and ranging over them"

subsection \<open>Outcomes of a call\<close>

datatype ('e, 'a) outcome = Ok 'a | Err 'e | Panic

fun outcome_bind :: "('e, 'a) outcome \<Rightarrow> ('a \<Rightarrow> ('e, 'b) outcome) \<Rightarrow> ('e, 'b) outcome" where
  "outcome_bind (Ok a) f = f a"
| "outcome_bind (Err e) f = Err e"
| "outcome_bind Panic f = Panic"

lemma outcome_bind_eq_Ok:
  "outcome_bind x f = Ok b \<longleftrightarrow> (\<exists>a. x = Ok a \<and> f a = Ok b)"
  by (cases x) auto

subsection \<open>Machine integers\<close>

definition wrap32 :: "int \<Rightarrow> int" where
  "wrap32 x = (x + 2 ^ 31) mod 2 ^ 32 - 2 ^ 31"

definition wrap64 :: "int \<Rightarrow> int" where
  "wrap64 x = (x + 2 ^ 63) mod 2 ^ 64 - 2 ^ 63"

definition is_int32 :: "int \<Rightarrow> bool" where
  "is_int32 x \<longleftrightarrow> - (2 ^ 31) \<le> x \<and> x < 2 ^ 31"

definition is_int64 :: "int \<Rightarrow> bool" where
  "is_int64 x \<longleftrightarrow> - (2 ^ 63) \<le> x \<and> x < 2 ^ 63"

lemma wrap32_id [go_int]: "is_int32 x \<Longrightarrow> wrap32 x = x"
  by (simp add: wrap32_def is_int32_def)

lemma wrap64_id [go_int]: "is_int64 x \<Longrightarrow> wrap64 x = x"
  by (simp add: wrap64_def is_int64_def)

lemma wrap32_range [go_int, simp]: "is_int32 (wrap32 x)"
proof -
  have "0 \<le> (x + 2 ^ 31) mod 2 ^ 32" "(x + 2 ^ 31) mod 2 ^ 32 < (2 ^ 32 :: int)"
    by simp_all
  then show ?thesis by (simp add: wrap32_def is_int32_def)
qed

lemma wrap64_range [go_int, simp]: "is_int64 (wrap64 x)"
proof -
  have "0 \<le> (x + 2 ^ 63) mod 2 ^ 64" "(x + 2 ^ 63) mod 2 ^ 64 < (2 ^ 64 :: int)"
    by simp_all
  then show ?thesis by (simp add: wrap64_def is_int64_def)
qed

text \<open>Wrapping commutes with addition: intermediate wraps are absorbed.\<close>

lemma wrap_add_absorb:
  fixes a b h m :: int
  shows "((a + h) mod m - h + b + h) mod m = (a + b + h) mod m"
proof -
  have "(a + h) mod m - h + b + h = (a + h) mod m + b" by simp
  also have "\<dots> mod m = (a + h + b) mod m" by (simp add: mod_add_left_eq)
  finally show ?thesis by (simp add: ac_simps)
qed

lemma wrap64_add_left [simp]: "wrap64 (wrap64 a + b) = wrap64 (a + b)"
  unfolding wrap64_def using wrap_add_absorb[of a "2 ^ 63" "2 ^ 64" b] by simp

lemma wrap64_add_right [simp]: "wrap64 (a + wrap64 b) = wrap64 (a + b)"
  using wrap64_add_left[of b a] by (simp add: add.commute)

lemma wrap32_add_left [simp]: "wrap32 (wrap32 a + b) = wrap32 (a + b)"
  unfolding wrap32_def using wrap_add_absorb[of a "2 ^ 31" "2 ^ 32" b] by simp

lemma wrap64_idem [simp]: "wrap64 (wrap64 a) = wrap64 a"
  using wrap64_add_left[of a 0] by simp

lemma wrap64_diff_left [simp]: "wrap64 (wrap64 a - b) = wrap64 (a - b)"
  using wrap64_add_left[of a "- b"] by simp

subsection \<open>Instants and durations\<close>

definition maxDuration :: int where "maxDuration = 2 ^ 63 - 1"
definition minDuration :: int where "minDuration = - (2 ^ 63)"

definition time_sub :: "int \<Rightarrow> int \<Rightarrow> int" where
  "time_sub t u = max minDuration (min maxDuration (t - u))"

definition Second :: int where "Second = 1000000000"
definition Millisecond :: int where "Millisecond = 1000000"

text \<open>\<open>Duration.Milliseconds\<close> truncates towards zero.\<close>

definition Milliseconds :: "int \<Rightarrow> int" where
  "Milliseconds d = d sdiv Millisecond"

lemma time_sub_mono: "t \<le> t' \<Longrightarrow> time_sub t u \<le> time_sub t' u"
  by (simp add: time_sub_def max_def min_def)

lemma time_sub_gt_mono: "time_sub t u > d \<Longrightarrow> t \<le> t' \<Longrightarrow> time_sub t' u > d"
  using time_sub_mono[of t t' u] by linarith

lemma time_sub_self [simp]: "time_sub t t = 0"
  by (simp add: time_sub_def maxDuration_def minDuration_def)

subsection \<open>Go maps\<close>

definition iter_order :: "('k, 'v) fmap \<Rightarrow> 'k list \<Rightarrow> bool" where
  "iter_order m ks \<longleftrightarrow> distinct ks \<and> fset_of_list ks = fmdom m"

primrec range_vals :: "('k, 'v) fmap \<Rightarrow> 'k list \<Rightarrow> 'v list" where
  "range_vals m [] = []"
| "range_vals m (k # ks) =
     (case fmlookup m k of None \<Rightarrow> range_vals m ks | Some v \<Rightarrow> v # range_vals m ks)"

definition map_len :: "('k, 'v) fmap \<Rightarrow> nat" where
  "map_len m = fcard (fmdom m)"

lemma iter_order_distinct [go_map]: "iter_order m ks \<Longrightarrow> distinct ks"
  by (simp add: iter_order_def)

lemma iter_order_mem [go_map]: "iter_order m ks \<Longrightarrow> k \<in> set ks \<longleftrightarrow> fmlookup m k \<noteq> None"
  unfolding iter_order_def
  by (metis fmdom_notI fmdom_notD fset_of_list_elem)

lemma range_vals_set: "v \<in> set (range_vals m ks) \<longleftrightarrow> (\<exists>k \<in> set ks. fmlookup m k = Some v)"
  by (induction ks) (auto split: option.split)

lemma range_vals_mem [go_map]:
  assumes "iter_order m ks"
  shows "v \<in> set (range_vals m ks) \<longleftrightarrow> (\<exists>k. fmlookup m k = Some v)"
  using iter_order_mem[OF assms] by (auto simp: range_vals_set)

lemma map_len_0 [go_map]: "map_len m = 0 \<longleftrightarrow> (\<forall>k. fmlookup m k = None)"
proof -
  have "fcard (fmdom m) = 0 \<longleftrightarrow> fmdom m = {||}"
    by (metis fcard_fempty fcard_finsert_disjoint finite.emptyI fset_strong_cases nat.distinct(1))
  also have "\<dots> \<longleftrightarrow> (\<forall>k. fmlookup m k = None)"
    by (metis fempty_iff fmdom_notD fmdom_notI fset_eqI)
  finally show ?thesis by (simp add: map_len_def)
qed

lemma range_vals_length [go_map]:
  assumes "iter_order m ks"
  shows "length (range_vals m ks) = map_len m"
proof -
  have len: "length (range_vals m ks) = length ks"
    if "\<forall>k \<in> set ks. fmlookup m k \<noteq> None" for ks
    using that by (induction ks) (auto split: option.split)
  have "length ks = fcard (fset_of_list ks)"
    using assms unfolding iter_order_def
    by (metis distinct_card fcard.rep_eq fset_of_list.rep_eq)
  moreover have "\<forall>k \<in> set ks. fmlookup m k \<noteq> None"
    using iter_order_mem[OF assms] by blast
  ultimately show ?thesis
    using assms len[of ks] by (simp add: map_len_def iter_order_def)
qed

lemma range_vals_empty [go_map]:
  assumes "iter_order m ks"
  shows "range_vals m ks = [] \<longleftrightarrow> map_len m = 0"
  using range_vals_length[OF assms] by (metis length_0_conv)

text \<open>A finite map has an iteration order.\<close>

lemma iter_order_exists: "\<exists>ks. iter_order m ks"
proof -
  obtain ks where "set ks = fset (fmdom m)" "distinct ks"
    using finite_distinct_list[of "fset (fmdom m)"] by auto
  then have "iter_order m ks"
    by (simp add: iter_order_def fset_of_list.rep_eq fset_inject[symmetric])
  then show ?thesis ..
qed

subsection \<open>Keeping the best element of a list\<close>

text \<open>
  \<^verbatim>\<open>for _, w := range ws { if best == nil || better(w, best) { best = w } }\<close>
\<close>

fun scan_best_from :: "('a \<Rightarrow> 'a \<Rightarrow> bool) \<Rightarrow> 'a option \<Rightarrow> 'a list \<Rightarrow> 'a option" where
  "scan_best_from better best [] = best"
| "scan_best_from better best (w # ws) =
     scan_best_from better
       (case best of None \<Rightarrow> Some w | Some b \<Rightarrow> if better w b then Some w else Some b) ws"

definition scan_best :: "('a \<Rightarrow> 'a \<Rightarrow> bool) \<Rightarrow> 'a list \<Rightarrow> 'a option" where
  "scan_best better ws = scan_best_from better None ws"

lemma scan_best_from_mem:
  "scan_best_from better best ws = Some b \<Longrightarrow> b \<in> set ws \<or> best = Some b"
  by (induction better best ws rule: scan_best_from.induct)
    (auto split: option.splits if_splits)

lemma scan_best_mem: "scan_best better ws = Some b \<Longrightarrow> b \<in> set ws"
  using scan_best_from_mem by (fastforce simp: scan_best_def)

lemma scan_best_from_Some: "scan_best_from better (Some b) ws \<noteq> None"
  by (induction ws arbitrary: b) auto

lemma scan_best_None [simp]: "scan_best better ws = None \<longleftrightarrow> ws = []"
  unfolding scan_best_def using scan_best_from_Some by (cases ws) force+

lemma scan_best_from_le:
  fixes f :: "'a \<Rightarrow> 'b :: linorder"
  assumes "scan_best_from (\<lambda>a b. f a < f b) (Some b0) ws = Some b"
  shows "f b \<le> f b0 \<and> (\<forall>w \<in> set ws. f b \<le> f w)"
  using assms
proof (induction ws arbitrary: b0)
  case (Cons w ws)
  then show ?case by (cases "f w < f b0") fastforce+
qed simp

lemma scan_best_least:
  fixes f :: "'a \<Rightarrow> 'b :: linorder"
  assumes "scan_best (\<lambda>a b. f a < f b) ws = Some b" and "w \<in> set ws"
  shows "f b \<le> f w"
  using assms scan_best_from_le[of f] by (cases ws) (fastforce simp: scan_best_def)+

text \<open>Ties go to the element met first.\<close>

lemma scan_best_from_first:
  fixes f :: "'a \<Rightarrow> 'b :: linorder"
  assumes "scan_best_from (\<lambda>a b. f a < f b) (Some b0) ws = Some b"
  shows "b = b0 \<and> (\<forall>w \<in> set ws. f b0 \<le> f w) \<or>
         f b < f b0 \<and> (\<exists>xs ys. ws = xs @ b # ys \<and> (\<forall>x \<in> set xs. f b < f x))"
  using assms
proof (induction ws arbitrary: b0)
  case (Cons w ws)
  show ?case
  proof (cases "f w < f b0")
    case True
    with Cons.prems have r: "scan_best_from (\<lambda>a b. f a < f b) (Some w) ws = Some b" by simp
    from Cons.IH[OF r] consider
        "b = w" | xs ys where "f b < f w" "ws = xs @ b # ys" "\<forall>x \<in> set xs. f b < f x"
      by blast
    then show ?thesis
    proof cases
      case 1
      then have "w # ws = [] @ b # ws" by simp
      with 1 True show ?thesis by fastforce
    next
      case (2 xs ys)
      then have "w # ws = (w # xs) @ b # ys" "\<forall>x \<in> set (w # xs). f b < f x" by auto
      with 2 True show ?thesis by (metis order.strict_trans)
    qed
  next
    case False
    with Cons.prems have r: "scan_best_from (\<lambda>a b. f a < f b) (Some b0) ws = Some b" by simp
    from Cons.IH[OF r] consider
        "b = b0" "\<forall>w \<in> set ws. f b0 \<le> f w"
      | xs ys where "f b < f b0" "ws = xs @ b # ys" "\<forall>x \<in> set xs. f b < f x"
      by blast
    then show ?thesis
    proof cases
      case 1
      with False show ?thesis by simp
    next
      case (2 xs ys)
      with False have "w # ws = (w # xs) @ b # ys" "\<forall>x \<in> set (w # xs). f b < f x" by auto
      with 2 show ?thesis by blast
    qed
  qed
qed simp

lemma scan_best_first:
  fixes f :: "'a \<Rightarrow> 'b :: linorder"
  assumes "scan_best (\<lambda>a b. f a < f b) ws = Some b"
  shows "\<exists>xs ys. ws = xs @ b # ys \<and> (\<forall>x \<in> set xs. f b < f x)"
proof (cases ws)
  case Nil
  with assms show ?thesis by (simp add: scan_best_def)
next
  case (Cons w ws')
  with assms have r: "scan_best_from (\<lambda>a b. f a < f b) (Some w) ws' = Some b"
    by (simp add: scan_best_def)
  from scan_best_from_first[OF r] show ?thesis
  proof
    assume "b = w \<and> (\<forall>w'\<in>set ws'. f w \<le> f w')"
    with Cons have "ws = [] @ b # ws'" by simp
    then show ?thesis by fastforce
  next
    assume "f b < f w \<and> (\<exists>xs ys. ws' = xs @ b # ys \<and> (\<forall>x\<in>set xs. f b < f x))"
    then obtain xs ys where "f b < f w" "ws' = xs @ b # ys" "\<forall>x\<in>set xs. f b < f x" by blast
    with Cons have "ws = (w # xs) @ b # ys" "\<forall>x \<in> set (w # xs). f b < f x" by auto
    then show ?thesis by blast
  qed
qed

end
