(* ===== verification/Ledger.thy ===== *)
theory Ledger
  imports HG_Prelude
begin

text \<open>
  What the coordinator's bookkeeping promises, as an abstract machine. The state is the set of
  counters and two multisets of worker names: the tasks that have a worker but are not booked
  yet (\<open>waiting\<close>) and those that are (\<open>running\<close>). The steps are what the handlers do between
  two points where other calls may run. The invariant says that every counter is a function
  of the two multisets, however the steps interleave. The theory \<^verbatim>\<open>Coordinator\<close> shows that
  the handlers refine this machine.
\<close>

record ledger =
  lg_active :: int
  lg_queued :: int
  lg_total :: int
  lg_success :: int
  lg_failed :: int
  lg_byWorker :: "string \<rightharpoonup> int"
  lg_load :: "string \<rightharpoonup> int"

definition emptyLedger :: ledger where
  "emptyLedger =
     \<lparr>lg_active = 0, lg_queued = 0, lg_total = 0, lg_success = 0, lg_failed = 0,
      lg_byWorker = Map.empty, lg_load = Map.empty\<rparr>"

definition enqueue :: "ledger \<Rightarrow> ledger" where
  "enqueue l = l\<lparr>lg_queued := wrap64 (lg_queued l + 1)\<rparr>"

definition dequeue :: "ledger \<Rightarrow> ledger" where
  "dequeue l = l\<lparr>lg_queued := wrap64 (lg_queued l - 1)\<rparr>"

definition settle :: "bool \<Rightarrow> ledger \<Rightarrow> ledger" where
  "settle ok l =
     (if ok then l\<lparr>lg_success := wrap64 (lg_success l + 1)\<rparr> else l\<lparr>lg_failed := wrap64 (lg_failed l + 1)\<rparr>)"

definition instant :: "bool \<Rightarrow> ledger \<Rightarrow> ledger" where
  "instant ok l = settle ok (l\<lparr>lg_total := wrap64 (lg_total l + 1)\<rparr>)"

definition book :: "string \<Rightarrow> ledger \<Rightarrow> ledger" where
  "book w l =
     l\<lparr>lg_active := wrap64 (lg_active l + 1),
       lg_total := wrap64 (lg_total l + 1),
       lg_byWorker := (lg_byWorker l)(w \<mapsto> wrap64 ((case lg_byWorker l w of None \<Rightarrow> 0 | Some n \<Rightarrow> n) + 1)),
       lg_load := (lg_load l)(w := map_option (\<lambda>n. wrap32 (n + 1)) (lg_load l w))\<rparr>"

definition unbook :: "string \<Rightarrow> ledger \<Rightarrow> ledger" where
  "unbook w l =
     l\<lparr>lg_active := wrap64 (lg_active l - 1),
       lg_queued := wrap64 (lg_queued l - 1),
       lg_byWorker := (lg_byWorker l)(w := map_option (\<lambda>n. wrap64 (n - 1)) (lg_byWorker l w)),
       lg_load := (lg_load l)(w := map_option (\<lambda>n. if n > 0 then wrap32 (n - 1) else n) (lg_load l w))\<rparr>"

record lstate =
  ls_ledger :: ledger
  ls_waiting :: "string multiset"
  ls_running :: "string multiset"

text \<open>
  The bound on \<open>start\<close>: a worker's own counter is an \<^verbatim>\<open>int32\<close>, and the coordinator does not
  check it. \<open>2 ^ 31 - 1\<close> calls in progress are out of reach of a process that holds a request in
  memory for each.
\<close>

inductive ledger_step :: "lstate \<Rightarrow> lstate \<Rightarrow> bool" where
  register: "lg_load l w = None \<Longrightarrow>
    ledger_step \<lparr>ls_ledger = l, ls_waiting = W, ls_running = R\<rparr>
      \<lparr>ls_ledger = l\<lparr>lg_load := (lg_load l)(w \<mapsto> 0)\<rparr>, ls_waiting = W, ls_running = R\<rparr>"
| refuse:
    "ledger_step \<lparr>ls_ledger = l, ls_waiting = W, ls_running = R\<rparr>
      \<lparr>ls_ledger = dequeue (enqueue l), ls_waiting = W, ls_running = R\<rparr>"
| answer:
    "ledger_step \<lparr>ls_ledger = l, ls_waiting = W, ls_running = R\<rparr>
      \<lparr>ls_ledger = instant ok l, ls_waiting = W, ls_running = R\<rparr>"
| turn_away:
    "ledger_step \<lparr>ls_ledger = l, ls_waiting = W, ls_running = R\<rparr>
      \<lparr>ls_ledger = dequeue (instant False (enqueue l)), ls_waiting = W, ls_running = R\<rparr>"
| admit: "lg_load l w \<noteq> None \<Longrightarrow>
    ledger_step \<lparr>ls_ledger = l, ls_waiting = W, ls_running = R\<rparr>
      \<lparr>ls_ledger = enqueue l, ls_waiting = add_mset w W, ls_running = R\<rparr>"
| abandon:
    "ledger_step \<lparr>ls_ledger = l, ls_waiting = add_mset w W, ls_running = R\<rparr>
      \<lparr>ls_ledger = dequeue l, ls_waiting = W, ls_running = R\<rparr>"
| start: "size R < 2 ^ 31 - 1 \<Longrightarrow>
    ledger_step \<lparr>ls_ledger = l, ls_waiting = add_mset w W, ls_running = R\<rparr>
      \<lparr>ls_ledger = book w l, ls_waiting = W, ls_running = add_mset w R\<rparr>"
| finish:
    "ledger_step \<lparr>ls_ledger = l, ls_waiting = W, ls_running = add_mset w R\<rparr>
      \<lparr>ls_ledger = unbook w (settle ok l), ls_waiting = W, ls_running = R\<rparr>"

definition ledger_init :: "lstate \<Rightarrow> bool" where
  "ledger_init st \<longleftrightarrow> st = \<lparr>ls_ledger = emptyLedger, ls_waiting = {#}, ls_running = {#}\<rparr>"

definition counters_ok :: "lstate \<Rightarrow> bool" where
  "counters_ok st \<longleftrightarrow>
     lg_active (ls_ledger st) = wrap64 (int (size (ls_running st))) \<and>
     lg_queued (ls_ledger st) = wrap64 (int (size (ls_waiting st)) + int (size (ls_running st))) \<and>
     lg_total (ls_ledger st) =
       wrap64 (lg_success (ls_ledger st) + lg_failed (ls_ledger st) + int (size (ls_running st)))"

fun byWorker_cell :: "int option \<Rightarrow> nat \<Rightarrow> bool" where
  "byWorker_cell None r = (r = 0)"
| "byWorker_cell (Some n) r = (n = wrap64 (int r))"

definition byWorker_ok :: "lstate \<Rightarrow> bool" where
  "byWorker_ok st \<longleftrightarrow> (\<forall>w. byWorker_cell (lg_byWorker (ls_ledger st) w) (count (ls_running st) w))"

fun load_cell :: "int option \<Rightarrow> nat \<Rightarrow> nat \<Rightarrow> bool" where
  "load_cell None q r = (q = 0 \<and> r = 0)"
| "load_cell (Some n) q r = (n = int r)"

definition load_ok :: "lstate \<Rightarrow> bool" where
  "load_ok st \<longleftrightarrow>
     size (ls_running st) < 2 ^ 31 \<and>
     (\<forall>w. load_cell (lg_load (ls_ledger st) w) (count (ls_waiting st) w) (count (ls_running st) w))"

definition ledger_inv :: "lstate \<Rightarrow> bool" where
  "ledger_inv st \<longleftrightarrow> counters_ok st \<and> byWorker_ok st \<and> load_ok st"

subsection \<open>The invariant\<close>

lemmas ledger_ops = enqueue_def dequeue_def settle_def instant_def book_def unbook_def

lemma wrap64_0 [simp]: "wrap64 0 = 0"
  by (simp add: wrap64_def)

lemma wrap64_add_mid [simp]: "wrap64 (a + wrap64 b + c) = wrap64 (a + b + c)"
  by (metis add.assoc add.commute wrap64_add_left)

lemma wrap64_add_nested [simp]: "wrap64 (a + (b + wrap64 c)) = wrap64 (a + (b + c))"
  using wrap64_add_right[of "a + b" c] by (simp add: add.assoc)

lemma init_inv: "ledger_init st \<Longrightarrow> ledger_inv st"
  by (simp add: ledger_init_def ledger_inv_def counters_ok_def byWorker_ok_def load_ok_def emptyLedger_def)

lemma step_counters: "ledger_step st st' \<Longrightarrow> counters_ok st \<Longrightarrow> counters_ok st'"
  by (induction rule: ledger_step.induct)
    (auto simp: counters_ok_def ledger_ops ac_simps)

lemma byWorker_cell_book:
  "byWorker_cell x r \<Longrightarrow> wrap64 ((case x of None \<Rightarrow> 0 | Some n \<Rightarrow> n) + 1) = wrap64 (1 + int r)"
  by (cases x) (simp_all add: add.commute)

lemma byWorker_cell_unbook:
  "byWorker_cell x (Suc r) \<Longrightarrow> byWorker_cell (map_option (\<lambda>n. wrap64 (n - 1)) x) r"
  by (cases x) simp_all

lemma step_byWorker: "ledger_step st st' \<Longrightarrow> byWorker_ok st \<Longrightarrow> byWorker_ok st'"
proof (induction rule: ledger_step.induct)
  case (start R l w W)
  then show ?case by (simp add: byWorker_ok_def book_def byWorker_cell_book)
next
  case (finish l W w R ok)
  then have "byWorker_cell (lg_byWorker l w) (Suc (count R w))"
    and "\<forall>v. v \<noteq> w \<longrightarrow> byWorker_cell (lg_byWorker l v) (count R v)"
    by (simp_all add: byWorker_ok_def) metis+
  then show ?case by (auto simp: byWorker_ok_def unbook_def settle_def byWorker_cell_unbook)
qed (simp_all add: byWorker_ok_def enqueue_def dequeue_def instant_def settle_def)

lemma count_le_size: "count M x \<le> size M"
  by (metis count_le_replicate_mset_subset_eq size_mset_mono size_replicate_mset order_refl)

lemma load_cell_book:
  assumes "load_cell x (Suc q) r" and "r < 2 ^ 31 - 1"
  shows "load_cell (map_option (\<lambda>n. wrap32 (n + 1)) x) q (Suc r)"
  using assms by (cases x) (simp_all add: wrap32_id is_int32_def)

lemma load_cell_unbook:
  assumes "load_cell x q (Suc r)" and "r < 2 ^ 31"
  shows "load_cell (map_option (\<lambda>n. if n > 0 then wrap32 (n - 1) else n) x) q r"
  using assms by (cases x) (simp_all add: wrap32_id is_int32_def)

lemma load_cell_known: "load_cell x q r \<Longrightarrow> x \<noteq> None \<Longrightarrow> load_cell x q' r"
  by (cases x) simp_all

lemma load_cell_less: "load_cell x (Suc q) r \<Longrightarrow> load_cell x q r"
  by (cases x) simp_all

text \<open>The steps change the cell of one worker.\<close>

lemma load_okI:
  assumes "load_ok st" and "size (ls_running st') < 2 ^ 31"
    and "load_cell (lg_load (ls_ledger st') w) (count (ls_waiting st') w) (count (ls_running st') w)"
    and "\<And>v. v \<noteq> w \<Longrightarrow> lg_load (ls_ledger st') v = lg_load (ls_ledger st) v \<and>
      count (ls_waiting st') v = count (ls_waiting st) v \<and> count (ls_running st') v = count (ls_running st) v"
  shows "load_ok st'"
  unfolding load_ok_def using assms by (metis load_ok_def)

lemma load_ok_cell:
  "load_ok st \<Longrightarrow> load_cell (lg_load (ls_ledger st) w) (count (ls_waiting st) w) (count (ls_running st) w)"
  by (simp add: load_ok_def)

lemma step_load: "ledger_step st st' \<Longrightarrow> load_ok st \<Longrightarrow> load_ok st'"
proof (induction rule: ledger_step.induct)
  case (register l w W R)
  then show ?case
    using load_ok_cell[OF register(2), of w] by (intro load_okI[OF register(2), of _ w]) (auto simp: load_ok_def)
next
  case (admit l w W R)
  then show ?case
    using load_ok_cell[OF admit(2), of w]
    by (intro load_okI[OF admit(2), of _ w]) (auto simp: load_ok_def enqueue_def intro: load_cell_known)
next
  case (abandon l w W R)
  then show ?case
    using load_ok_cell[OF abandon, of w]
    by (intro load_okI[OF abandon, of _ w]) (auto simp: load_ok_def dequeue_def intro: load_cell_less)
next
  case (start R l w W)
  have "count R w < 2 ^ 31 - 1" using start(1) count_le_size[of R w] by simp
  then show ?case
    using start(1) load_ok_cell[OF start(2), of w]
    by (intro load_okI[OF start(2), of _ w]) (simp_all add: book_def load_cell_book)
next
  case (finish l W w R ok)
  then have "size R < 2 ^ 31" by (simp add: load_ok_def)
  moreover from this have "count R w < 2 ^ 31" using count_le_size[of R w] by simp
  ultimately show ?case
    using load_ok_cell[OF finish, of w]
    by (intro load_okI[OF finish, of _ w]) (simp_all add: unbook_def settle_def load_cell_unbook)
qed (simp_all add: load_ok_def ledger_ops)

lemma step_inv: "ledger_step st st' \<Longrightarrow> ledger_inv st \<Longrightarrow> ledger_inv st'"
  using step_counters step_byWorker step_load by (auto simp: ledger_inv_def)

lemma steps_inv: "ledger_step\<^sup>*\<^sup>* st st' \<Longrightarrow> ledger_inv st \<Longrightarrow> ledger_inv st'"
  by (induction rule: rtranclp_induct) (auto intro: step_inv)

subsection \<open>The interface of a handler that books tasks\<close>

text \<open>
  A handler has tickets for its calls, a phase that books the task of a ticket and one that ends
  it; \<open>absl\<close> reads the ledger off the state. The laws are the two refinement equations.
\<close>

locale booked_call =
  fixes worker_of :: "'t \<Rightarrow> string"
    and dispatch :: "'i \<Rightarrow> 't \<Rightarrow> 's \<Rightarrow> 's"
    and finish :: "'i \<Rightarrow> 't \<Rightarrow> 'r \<Rightarrow> 's \<Rightarrow> 's"
    and succeeded :: "'r \<Rightarrow> bool"
    and absl :: "'s \<Rightarrow> ledger"
  assumes dispatch_books: "absl (dispatch i t s) = book (worker_of t) (absl s)"
    and finish_unbooks: "absl (finish i t r s) = unbook (worker_of t) (settle (succeeded r) (absl s))"
begin

lemma dispatch_refines:
  assumes "size R < 2 ^ 31 - 1"
  shows "ledger_step \<lparr>ls_ledger = absl s, ls_waiting = add_mset (worker_of t) W, ls_running = R\<rparr>
    \<lparr>ls_ledger = absl (dispatch i t s), ls_waiting = W, ls_running = add_mset (worker_of t) R\<rparr>"
  unfolding dispatch_books by (rule ledger_step.start[OF assms])

lemma finish_refines:
  "ledger_step \<lparr>ls_ledger = absl s, ls_waiting = W, ls_running = add_mset (worker_of t) R\<rparr>
    \<lparr>ls_ledger = absl (finish i t r s), ls_waiting = W, ls_running = R\<rparr>"
  unfolding finish_unbooks by (rule ledger_step.finish)

text \<open>A call that runs alone leaves the load of every worker as it found it.\<close>

lemma call_keeps_load:
  assumes "\<And>v n. lg_load (absl s) v = Some n \<Longrightarrow> 0 \<le> n \<and> n < 2 ^ 31 - 1"
  shows "lg_load (absl (finish j t r (dispatch i t s))) = lg_load (absl s)"
proof
  fix v
  show "lg_load (absl (finish j t r (dispatch i t s))) v = lg_load (absl s) v"
    using assms[of v]
    by (cases "lg_load (absl s) v")
      (auto simp: finish_unbooks dispatch_books book_def unbook_def settle_def wrap32_id is_int32_def)
qed

lemma call_counts:
  "lg_active (absl (finish j t r (dispatch i t s))) = wrap64 (lg_active (absl s))"
  "lg_queued (absl (finish j t r (dispatch i t s))) = wrap64 (lg_queued (absl s) - 1)"
  "lg_total (absl (finish j t r (dispatch i t s))) = wrap64 (lg_total (absl s) + 1)"
  "lg_success (absl (finish j t r (dispatch i t s))) =
     (if succeeded r then wrap64 (lg_success (absl s) + 1) else lg_success (absl s))"
  "lg_failed (absl (finish j t r (dispatch i t s))) =
     (if succeeded r then lg_failed (absl s) else wrap64 (lg_failed (absl s) + 1))"
  by (simp_all add: finish_unbooks dispatch_books book_def unbook_def settle_def)

end

end
