(* ===== verification/Proto_Messages.thy ===== *)
theory Proto_Messages
  imports HG_Prelude
begin

text \<open>
  The protocol buffer messages of \<^verbatim>\<open>proto/hybridgrid/v1/build.proto\<close> that the coordinator
  reads and writes. proto3 enums are open: a number without a name is a legal value, so
  every enum has a constructor for those. A message-typed field is a pointer in Go, hence an
  option. Strings and \<^verbatim>\<open>bytes\<close> are byte sequences, and an Isabelle character is a byte.
\<close>

type_synonym bytes = "char list"

subsection \<open>Decimal numerals\<close>

fun digit_char :: "nat \<Rightarrow> char" where
  "digit_char n = char_of (48 + n)"

fun nat_str :: "nat \<Rightarrow> string" where
  "nat_str n = (if n < 10 then [digit_char n] else nat_str (n div 10) @ [digit_char (n mod 10)])"

declare nat_str.simps [simp del]

definition int_str :: "int \<Rightarrow> string" where
  "int_str i = (if i < 0 then ''-'' @ nat_str (nat (- i)) else nat_str (nat i))"

subsection \<open>Enums\<close>

datatype Architecture = ARCH_UNSPECIFIED | ARCH_X86_64 | ARCH_ARM64 | ARCH_ARMV7 | ARCH_UNNAMED int

datatype BuildType =
    BUILD_TYPE_UNSPECIFIED | BUILD_TYPE_CPP | BUILD_TYPE_FLUTTER | BUILD_TYPE_UNITY
  | BUILD_TYPE_COCOS | BUILD_TYPE_RUST | BUILD_TYPE_GO | BUILD_TYPE_NODEJS
  | BUILD_TYPE_UNNAMED int

datatype TargetPlatform =
    PLATFORM_UNSPECIFIED | PLATFORM_ANDROID | PLATFORM_IOS | PLATFORM_WEB | PLATFORM_WINDOWS
  | PLATFORM_LINUX | PLATFORM_MACOS | PLATFORM_WEBGL | PLATFORM_UNNAMED int

datatype TaskStatus =
    STATUS_UNSPECIFIED | STATUS_QUEUED | STATUS_RUNNING | STATUS_COMPLETED | STATUS_FAILED
  | STATUS_TIMEOUT | STATUS_UNNAMED int

text \<open>The generated \<^verbatim>\<open>String\<close> method: the name, or the number where there is no name.\<close>

fun Architecture_String :: "Architecture \<Rightarrow> string" where
  "Architecture_String ARCH_UNSPECIFIED = ''ARCH_UNSPECIFIED''"
| "Architecture_String ARCH_X86_64 = ''ARCH_X86_64''"
| "Architecture_String ARCH_ARM64 = ''ARCH_ARM64''"
| "Architecture_String ARCH_ARMV7 = ''ARCH_ARMV7''"
| "Architecture_String (ARCH_UNNAMED n) = int_str n"

fun BuildType_String :: "BuildType \<Rightarrow> string" where
  "BuildType_String BUILD_TYPE_UNSPECIFIED = ''BUILD_TYPE_UNSPECIFIED''"
| "BuildType_String BUILD_TYPE_CPP = ''BUILD_TYPE_CPP''"
| "BuildType_String BUILD_TYPE_FLUTTER = ''BUILD_TYPE_FLUTTER''"
| "BuildType_String BUILD_TYPE_UNITY = ''BUILD_TYPE_UNITY''"
| "BuildType_String BUILD_TYPE_COCOS = ''BUILD_TYPE_COCOS''"
| "BuildType_String BUILD_TYPE_RUST = ''BUILD_TYPE_RUST''"
| "BuildType_String BUILD_TYPE_GO = ''BUILD_TYPE_GO''"
| "BuildType_String BUILD_TYPE_NODEJS = ''BUILD_TYPE_NODEJS''"
| "BuildType_String (BUILD_TYPE_UNNAMED n) = int_str n"

fun TargetPlatform_String :: "TargetPlatform \<Rightarrow> string" where
  "TargetPlatform_String PLATFORM_UNSPECIFIED = ''PLATFORM_UNSPECIFIED''"
| "TargetPlatform_String PLATFORM_ANDROID = ''PLATFORM_ANDROID''"
| "TargetPlatform_String PLATFORM_IOS = ''PLATFORM_IOS''"
| "TargetPlatform_String PLATFORM_WEB = ''PLATFORM_WEB''"
| "TargetPlatform_String PLATFORM_WINDOWS = ''PLATFORM_WINDOWS''"
| "TargetPlatform_String PLATFORM_LINUX = ''PLATFORM_LINUX''"
| "TargetPlatform_String PLATFORM_MACOS = ''PLATFORM_MACOS''"
| "TargetPlatform_String PLATFORM_WEBGL = ''PLATFORM_WEBGL''"
| "TargetPlatform_String (PLATFORM_UNNAMED n) = int_str n"

subsection \<open>Worker capabilities\<close>

record CppCapability =
  cpp_Compilers :: "string list"
  cpp_CrossCompile :: bool
  cpp_DockerImages :: "string list"
  cpp_MsvcVersion :: string
  cpp_MsvcArchitectures :: "string list"
  cpp_HasWindowsSdk :: bool

record FlutterCapability =
  fl_SdkVersion :: string
  fl_Platforms :: "TargetPlatform list"
  fl_AndroidSdk :: bool
  fl_XcodeAvailable :: bool

record UnityCapability =
  un_Versions :: "string list"
  un_LicenseType :: string
  un_BuildTargets :: "TargetPlatform list"

record CocosCapability =
  co_Versions :: "string list"
  co_Platforms :: "TargetPlatform list"

record RustCapability =
  ru_Toolchains :: "string list"
  ru_Targets :: "string list"

record GoCapability =
  go_Version :: string
  go_CrossCompile :: bool

record NodeCapability =
  nd_Versions :: "string list"
  nd_PackageManagers :: "string list"

record WorkerCapabilities =
  WorkerId :: string
  Hostname :: string
  CpuCores :: int
  MemoryBytes :: int
  DiskSpaceBytes :: int
  NativeArch :: Architecture
  Os :: string
  DockerAvailable :: bool
  DockerImages :: "string list"
  MaxParallelTasks :: int
  Version :: string
  Cpp :: "CppCapability option"
  Flutter :: "FlutterCapability option"
  Unity :: "UnityCapability option"
  Cocos :: "CocosCapability option"
  Rust :: "RustCapability option"
  Go :: "GoCapability option"
  Nodejs :: "NodeCapability option"

text \<open>The zero message \<^verbatim>\<open>&pb.WorkerCapabilities{}\<close>.\<close>

definition emptyCapabilities :: WorkerCapabilities where
  "emptyCapabilities =
     \<lparr>WorkerId = '''', Hostname = '''', CpuCores = 0, MemoryBytes = 0, DiskSpaceBytes = 0,
      NativeArch = ARCH_UNSPECIFIED, Os = '''', DockerAvailable = False, DockerImages = [],
      MaxParallelTasks = 0, Version = '''', Cpp = None, Flutter = None, Unity = None,
      Cocos = None, Rust = None, Go = None, Nodejs = None\<rparr>"

subsection \<open>Worker registration\<close>

record HandshakeRequest =
  hs_Capabilities :: "WorkerCapabilities option"
  hs_AuthToken :: string
  hs_WorkerAddress :: string

record HandshakeResponse =
  hr_Accepted :: bool
  hr_Message :: string
  hr_AssignedWorkerId :: string
  hr_HeartbeatIntervalSeconds :: int

subsection \<open>Builds\<close>

record FlutterConfig =
  fc_FlutterVersion :: string
  fc_BuildMode :: string
  fc_Flavor :: string
  fc_DartDefines :: "(string, string) fmap"

record UnityConfig =
  uc_UnityVersion :: string
  uc_BuildMethod :: string
  uc_ScriptingBackend :: string
  uc_ExtraArgs :: "(string, string) fmap"

text \<open>
  The \<^verbatim>\<open>oneof config\<close>. The coordinator looks inside the Flutter and the Unity member only;
  of the other members it matters which one is set.
\<close>

datatype BuildConfig =
    NoConfig | CppConfig | FlutterConfig FlutterConfig | UnityConfig UnityConfig
  | CocosConfig | RustConfig | GoConfig | NodeConfig

record BuildRequest =
  br_TaskId :: string
  br_SourceHash :: string
  br_BuildType :: BuildType
  br_TargetPlatform :: TargetPlatform
  br_SourceArchive :: bytes
  br_Config :: BuildConfig
  br_DockerImage :: string
  br_TimeoutSeconds :: int
  br_Priority :: int

record ArtifactInfo =
  ai_Name :: string
  ai_Path :: string
  ai_SizeBytes :: int
  ai_Checksum :: string

record BuildResponse =
  bs_Status :: TaskStatus
  bs_Artifacts :: bytes
  bs_ArtifactList :: "ArtifactInfo list"
  bs_ExitCode :: int
  bs_Stdout :: string
  bs_Stderr :: string
  bs_BuildTimeMs :: int
  bs_QueueTimeMs :: int
  bs_WorkerId :: string
  bs_FromCache :: bool

definition emptyBuildResponse :: BuildResponse where
  "emptyBuildResponse =
     \<lparr>bs_Status = STATUS_UNSPECIFIED, bs_Artifacts = [], bs_ArtifactList = [], bs_ExitCode = 0,
      bs_Stdout = '''', bs_Stderr = '''', bs_BuildTimeMs = 0, bs_QueueTimeMs = 0,
      bs_WorkerId = '''', bs_FromCache = False\<rparr>"

record BuildMetadata =
  bm_TaskId :: string
  bm_SourceHash :: string
  bm_BuildType :: BuildType
  bm_TargetPlatform :: TargetPlatform
  bm_TotalSizeBytes :: int
  bm_ConfigJson :: string
  bm_DockerImage :: string

datatype BuildChunk = NoPayload | ChunkMetadata BuildMetadata | SourceChunk bytes

subsection \<open>Compilation\<close>

record CompileRequest =
  cr_TaskId :: string
  cr_SourceHash :: string
  cr_PreprocessedSource :: bytes
  cr_CompilerArgs :: "string list"
  cr_Compiler :: string
  cr_CompilerVersion :: string
  cr_TargetArch :: Architecture
  cr_DockerImage :: string
  cr_TimeoutSeconds :: int
  cr_ClientOs :: string
  cr_ClientArch :: Architecture
  cr_RawSource :: bytes
  cr_SourceFilename :: string
  cr_IncludeFiles :: "(string, bytes) fmap"
  cr_IncludePaths :: "string list"

record CompileResponse =
  cs_Status :: TaskStatus
  cs_ObjectFile :: bytes
  cs_ExitCode :: int
  cs_Stdout :: string
  cs_Stderr :: string
  cs_CompilationTimeMs :: int
  cs_QueueTimeMs :: int
  cs_WorkerId :: string
  cs_FromCache :: bool

definition emptyCompileResponse :: CompileResponse where
  "emptyCompileResponse =
     \<lparr>cs_Status = STATUS_UNSPECIFIED, cs_ObjectFile = [], cs_ExitCode = 0, cs_Stdout = '''',
      cs_Stderr = '''', cs_CompilationTimeMs = 0, cs_QueueTimeMs = 0, cs_WorkerId = '''',
      cs_FromCache = False\<rparr>"

end
