(* ===== verification/Registry.thy ===== *)
theory Registry
  imports Proto_Messages
begin

text \<open>
  The worker registry, \<^verbatim>\<open>internal/coordinator/registry/registry.go\<close>: the record of a worker,
  the operations of \<^verbatim>\<open>InMemoryRegistry\<close> (each runs under the registry's mutex, so each is one
  function on the state), the background cleanup, and the interface \<open>worker_registry\<close>
  that the schedulers and the server rely on.

  Values are immutable here, so the deep copy \<^verbatim>\<open>cloneWorkerInfo\<close> of the readers is the
  identity. \<open>now\<close> is the reading of the clock during the call.
\<close>

subsection \<open>Workers\<close>

datatype WorkerState = WorkerStateIdle | WorkerStateBusy | WorkerStateUnhealthy

record WorkerInfo =
  ID :: string
  Address :: string
  Capabilities :: "WorkerCapabilities option"
  State :: WorkerState
  DiscoverySource :: string
  LastHeartbeat :: int
  RegisteredAt :: int
  MaxParallel :: int
  ActiveTasks :: int
  TotalTasks :: int
  SuccessfulTasks :: int
  FailedTasks :: int
  AvgCompileTime :: int

definition IsHealthy :: "int \<Rightarrow> int \<Rightarrow> WorkerInfo \<Rightarrow> bool" where
  "IsHealthy now ttl w =
     (if State w = WorkerStateUnhealthy then False
      else time_sub now (LastHeartbeat w) \<le> ttl)"

subsection \<open>The registry\<close>

text \<open>
  \<open>activeGauge\<close> and \<open>totalGauge\<close> are the two Prometheus gauges
  \<^verbatim>\<open>workers_total{state=active|total}\<close> that the registry sets; \<open>stopped\<close> says whether
  \<^verbatim>\<open>stopCh\<close> is closed.
\<close>

record InMemoryRegistry =
  workers :: "(string, WorkerInfo) fmap"
  ttl :: int
  stopped :: bool
  activeGauge :: nat
  totalGauge :: nat

datatype registry_error = WorkerNotFound string

definition NewInMemoryRegistry :: "int \<Rightarrow> InMemoryRegistry" where
  "NewInMemoryRegistry t =
     \<lparr>workers = fmempty, ttl = t, stopped = False, activeGauge = 0, totalGauge = 0\<rparr>"

definition countsAsActive :: "WorkerInfo \<Rightarrow> bool" where
  "countsAsActive w \<longleftrightarrow> State w = WorkerStateIdle \<or> State w = WorkerStateBusy"

definition updateWorkerMetrics :: "InMemoryRegistry \<Rightarrow> InMemoryRegistry" where
  "updateWorkerMetrics r =
     r\<lparr>activeGauge := map_len (fmfilter
         (\<lambda>k. case fmlookup (workers r) k of None \<Rightarrow> False | Some w \<Rightarrow> countsAsActive w) (workers r)),
       totalGauge := map_len (workers r)\<rparr>"

definition Add :: "int \<Rightarrow> WorkerInfo \<Rightarrow> InMemoryRegistry \<Rightarrow> InMemoryRegistry" where
  "Add now worker r =
     (case fmlookup (workers r) (ID worker) of
        Some existing \<Rightarrow>
          r\<lparr>workers := fmupd (ID worker)
              (existing\<lparr>Capabilities := Capabilities worker,
                        Address := Address worker,
                        MaxParallel := MaxParallel worker,
                        LastHeartbeat := now,
                        State := (if State existing = WorkerStateUnhealthy then WorkerStateIdle
                                  else State existing)\<rparr>)
              (workers r)\<rparr>
      | None \<Rightarrow>
          updateWorkerMetrics
            (r\<lparr>workers := fmupd (ID worker)
                 (worker\<lparr>RegisteredAt := now, LastHeartbeat := now, State := WorkerStateIdle\<rparr>)
                 (workers r)\<rparr>))"

definition Remove :: "string \<Rightarrow> InMemoryRegistry \<Rightarrow> (registry_error, InMemoryRegistry) outcome" where
  "Remove wid r =
     (if fmlookup (workers r) wid = None then Err (WorkerNotFound wid)
      else Ok (updateWorkerMetrics (r\<lparr>workers := fmdrop wid (workers r)\<rparr>)))"

definition Get :: "string \<Rightarrow> InMemoryRegistry \<Rightarrow> WorkerInfo option" where
  "Get wid r = fmlookup (workers r) wid"

definition ListWorkers :: "string list \<Rightarrow> InMemoryRegistry \<Rightarrow> WorkerInfo list" where
  "ListWorkers ord r = range_vals (workers r) ord"

definition canCrossCompile :: "WorkerCapabilities \<Rightarrow> bool" where
  "canCrossCompile caps \<longleftrightarrow>
     DockerAvailable caps \<or> (case Cpp caps of None \<Rightarrow> False | Some c \<Rightarrow> cpp_CrossCompile c)"

definition matchesCapability :: "WorkerCapabilities option \<Rightarrow> BuildType \<Rightarrow> Architecture \<Rightarrow> bool" where
  "matchesCapability caps buildType arch =
     (case caps of
        None \<Rightarrow> False
      | Some c \<Rightarrow>
          if arch \<noteq> ARCH_UNSPECIFIED \<and> NativeArch c \<noteq> arch \<and> \<not> canCrossCompile c then False
          else (case buildType of
                  BUILD_TYPE_CPP \<Rightarrow>
                    (case Cpp c of None \<Rightarrow> False | Some cpp \<Rightarrow> length (cpp_Compilers cpp) > 0)
                | BUILD_TYPE_GO \<Rightarrow> Go c \<noteq> None
                | BUILD_TYPE_RUST \<Rightarrow> Rust c \<noteq> None
                | BUILD_TYPE_NODEJS \<Rightarrow> Nodejs c \<noteq> None
                | BUILD_TYPE_FLUTTER \<Rightarrow> Flutter c \<noteq> None
                | BUILD_TYPE_UNSPECIFIED \<Rightarrow> True
                | _ \<Rightarrow> True))"

definition ListByCapability ::
    "int \<Rightarrow> string list \<Rightarrow> BuildType \<Rightarrow> Architecture \<Rightarrow> InMemoryRegistry \<Rightarrow> WorkerInfo list" where
  "ListByCapability now ord buildType arch r =
     filter (\<lambda>w. IsHealthy now (ttl r) w \<and> matchesCapability (Capabilities w) buildType arch)
       (range_vals (workers r) ord)"

text \<open>The operations that update one registered worker share their error path.\<close>

definition updateWorker ::
    "string \<Rightarrow> (WorkerInfo \<Rightarrow> WorkerInfo) \<Rightarrow> InMemoryRegistry \<Rightarrow> (registry_error, InMemoryRegistry) outcome" where
  "updateWorker wid f r =
     (case fmlookup (workers r) wid of
        None \<Rightarrow> Err (WorkerNotFound wid)
      | Some w \<Rightarrow> Ok (r\<lparr>workers := fmupd wid (f w) (workers r)\<rparr>))"

definition UpdateState ::
    "string \<Rightarrow> WorkerState \<Rightarrow> InMemoryRegistry \<Rightarrow> (registry_error, InMemoryRegistry) outcome" where
  "UpdateState wid state = updateWorker wid (\<lambda>w. w\<lparr>State := state\<rparr>)"

definition heartbeatWorker :: "int \<Rightarrow> WorkerInfo \<Rightarrow> WorkerInfo" where
  "heartbeatWorker now w =
     w\<lparr>LastHeartbeat := now,
       State := (if State w = WorkerStateUnhealthy then WorkerStateIdle else State w)\<rparr>"

definition UpdateHeartbeat ::
    "int \<Rightarrow> string \<Rightarrow> InMemoryRegistry \<Rightarrow> (registry_error, InMemoryRegistry) outcome" where
  "UpdateHeartbeat now wid = updateWorker wid (heartbeatWorker now)"

definition incrementWorker :: "WorkerInfo \<Rightarrow> WorkerInfo" where
  "incrementWorker w =
     w\<lparr>ActiveTasks := wrap32 (ActiveTasks w + 1),
       TotalTasks := wrap64 (TotalTasks w + 1),
       State := (if State w = WorkerStateIdle then WorkerStateBusy else State w)\<rparr>"

definition IncrementTasks ::
    "string \<Rightarrow> InMemoryRegistry \<Rightarrow> (registry_error, InMemoryRegistry) outcome" where
  "IncrementTasks wid = updateWorker wid incrementWorker"

definition decrementWorker :: "bool \<Rightarrow> int \<Rightarrow> WorkerInfo \<Rightarrow> WorkerInfo" where
  "decrementWorker success compileTime w =
     (let active = (if ActiveTasks w > 0 then wrap32 (ActiveTasks w - 1) else ActiveTasks w);
          succ = (if success then wrap64 (SuccessfulTasks w + 1) else SuccessfulTasks w);
          failed = (if success then FailedTasks w else wrap64 (FailedTasks w + 1));
          avg = (if succ > 0
                 then wrap64 (wrap64 (AvgCompileTime w * (succ - 1)) + compileTime) sdiv succ
                 else AvgCompileTime w)
      in w\<lparr>ActiveTasks := active,
           SuccessfulTasks := succ,
           FailedTasks := failed,
           AvgCompileTime := avg,
           State := (if active = 0 \<and> State w = WorkerStateBusy then WorkerStateIdle
                     else State w)\<rparr>)"

definition DecrementTasks ::
    "string \<Rightarrow> bool \<Rightarrow> int \<Rightarrow> InMemoryRegistry \<Rightarrow> (registry_error, InMemoryRegistry) outcome" where
  "DecrementTasks wid success compileTime = updateWorker wid (decrementWorker success compileTime)"

definition Count :: "InMemoryRegistry \<Rightarrow> nat" where
  "Count r = map_len (workers r)"

definition staleWorker :: "int \<Rightarrow> int \<Rightarrow> WorkerInfo \<Rightarrow> WorkerInfo" where
  "staleWorker now t w =
     (if time_sub now (LastHeartbeat w) > t then w\<lparr>State := WorkerStateUnhealthy\<rparr> else w)"

definition cleanupStaleWorkers :: "int \<Rightarrow> InMemoryRegistry \<Rightarrow> InMemoryRegistry" where
  "cleanupStaleWorkers now r = r\<lparr>workers := fmmap (staleWorker now (ttl r)) (workers r)\<rparr>"

text \<open>
  The cleanup goroutine. \<^verbatim>\<open>time.NewTicker\<close> panics on a period that is not positive; after
  that the loop serves what arrives first, a tick (with the time it carries) or the stop
  signal. The other operations interleave between two ticks, so one iteration is a function
  on the registry of that moment.
\<close>

datatype loop_event = Tick int | StopSignal

definition cleanupLoop_start :: "InMemoryRegistry \<Rightarrow> (registry_error, unit) outcome" where
  "cleanupLoop_start r = (if ttl r sdiv 2 \<le> 0 then Panic else Ok ())"

fun cleanupLoop_iter :: "loop_event \<Rightarrow> InMemoryRegistry \<Rightarrow> InMemoryRegistry \<times> bool" where
  "cleanupLoop_iter (Tick now) r = (cleanupStaleWorkers now r, True)"
| "cleanupLoop_iter StopSignal r = (r, False)"

text \<open>Closing a closed channel panics.\<close>

definition Stop :: "InMemoryRegistry \<Rightarrow> (registry_error, InMemoryRegistry) outcome" where
  "Stop r = (if stopped r then Panic else Ok (r\<lparr>stopped := True\<rparr>))"

text \<open>Every call that changes the registry, as data: sequences of calls are lists of these.\<close>

datatype registry_op =
    OpAdd int WorkerInfo | OpRemove string | OpUpdateState string WorkerState
  | OpHeartbeat int string | OpIncrement string | OpDecrement string bool int | OpCleanup int

definition or_unchanged :: "'a \<Rightarrow> ('e, 'a) outcome \<Rightarrow> 'a" where
  "or_unchanged r x = (case x of Ok r' \<Rightarrow> r' | _ \<Rightarrow> r)"

fun registry_apply :: "registry_op \<Rightarrow> InMemoryRegistry \<Rightarrow> InMemoryRegistry" where
  "registry_apply (OpAdd now w) r = Add now w r"
| "registry_apply (OpRemove wid) r = or_unchanged r (Remove wid r)"
| "registry_apply (OpUpdateState wid st) r = or_unchanged r (UpdateState wid st r)"
| "registry_apply (OpHeartbeat now wid) r = or_unchanged r (UpdateHeartbeat now wid r)"
| "registry_apply (OpIncrement wid) r = or_unchanged r (IncrementTasks wid r)"
| "registry_apply (OpDecrement wid ok t) r = or_unchanged r (DecrementTasks wid ok t r)"
| "registry_apply (OpCleanup now) r = cleanupStaleWorkers now r"

subsection \<open>The invariant\<close>

text \<open>
  A worker is filed under its own ID, its task count is a non-negative \<^verbatim>\<open>int32\<close>, and it is
  busy only while it has tasks.
\<close>

definition worker_inv :: "string \<Rightarrow> WorkerInfo \<Rightarrow> bool" where
  "worker_inv wid w \<longleftrightarrow>
     ID w = wid \<and> 0 \<le> ActiveTasks w \<and> is_int32 (ActiveTasks w) \<and>
     (State w = WorkerStateBusy \<longrightarrow> ActiveTasks w > 0)"

definition registry_inv :: "InMemoryRegistry \<Rightarrow> bool" where
  "registry_inv r \<longleftrightarrow> (\<forall>wid w. fmlookup (workers r) wid = Some w \<longrightarrow> worker_inv wid w)"

text \<open>
  What the callers provide: a worker is added with a task count that is legal, a state is
  forced to busy only on a worker with tasks, and no worker reaches \<open>2 ^ 31 - 1\<close> tasks.
\<close>

fun op_ok :: "registry_op \<Rightarrow> InMemoryRegistry \<Rightarrow> bool" where
  "op_ok (OpAdd now w) r = (0 \<le> ActiveTasks w \<and> is_int32 (ActiveTasks w))"
| "op_ok (OpUpdateState wid st) r =
     (case fmlookup (workers r) wid of
        None \<Rightarrow> True | Some w \<Rightarrow> st = WorkerStateBusy \<longrightarrow> ActiveTasks w > 0)"
| "op_ok (OpIncrement wid) r =
     (case fmlookup (workers r) wid of None \<Rightarrow> True | Some w \<Rightarrow> ActiveTasks w < 2 ^ 31 - 1)"
| "op_ok _ r = True"

fun registry_run :: "registry_op list \<Rightarrow> InMemoryRegistry \<Rightarrow> InMemoryRegistry" where
  "registry_run [] r = r"
| "registry_run (op # ops) r = registry_run ops (registry_apply op r)"

fun run_ok :: "registry_op list \<Rightarrow> InMemoryRegistry \<Rightarrow> bool" where
  "run_ok [] r = True"
| "run_ok (op # ops) r = (op_ok op r \<and> run_ok ops (registry_apply op r))"

subsection \<open>Shared lemmas\<close>

lemma updateWorker_Ok:
  "updateWorker wid f r = Ok r' \<longleftrightarrow>
     (\<exists>w. fmlookup (workers r) wid = Some w \<and> r' = r\<lparr>workers := fmupd wid (f w) (workers r)\<rparr>)"
  by (auto simp: updateWorker_def split: option.splits)

lemma updateWorker_not_Panic [simp]: "updateWorker wid f r \<noteq> Panic"
  by (simp add: updateWorker_def split: option.splits)

lemma updateWorker_Err:
  "updateWorker wid f r = Err e \<longleftrightarrow> fmlookup (workers r) wid = None \<and> e = WorkerNotFound wid"
  by (auto simp: updateWorker_def split: option.splits)

lemmas worker_updates = UpdateState_def UpdateHeartbeat_def IncrementTasks_def DecrementTasks_def

lemma updateWorker_inv:
  assumes "registry_inv r" and "updateWorker wid f r = Ok r'"
    and "\<And>w. fmlookup (workers r) wid = Some w \<Longrightarrow> worker_inv wid w \<Longrightarrow> worker_inv wid (f w)"
  shows "registry_inv r'"
  using assms by (auto simp: registry_inv_def updateWorker_Ok split: if_splits)

lemma or_unchanged_updateWorker_inv:
  assumes "registry_inv r"
    and "\<And>w. fmlookup (workers r) wid = Some w \<Longrightarrow> worker_inv wid w \<Longrightarrow> worker_inv wid (f w)"
  shows "registry_inv (or_unchanged r (updateWorker wid f r))"
  using assms updateWorker_inv[of r wid f]
  by (cases "updateWorker wid f r") (auto simp: or_unchanged_def)

lemma updateWorkerMetrics_workers [simp]: "workers (updateWorkerMetrics r) = workers r"
  by (simp add: updateWorkerMetrics_def)

lemma updateWorkerMetrics_ttl [simp]: "ttl (updateWorkerMetrics r) = ttl r"
  by (simp add: updateWorkerMetrics_def)

lemma registry_inv_metrics [simp]: "registry_inv (updateWorkerMetrics r) = registry_inv r"
  by (simp add: registry_inv_def)

lemma incrementWorker_inv:
  "worker_inv wid w \<Longrightarrow> ActiveTasks w < 2 ^ 31 - 1 \<Longrightarrow> worker_inv wid (incrementWorker w)"
  by (simp add: worker_inv_def incrementWorker_def wrap32_id is_int32_def)

lemma decrementWorker_active:
  assumes "worker_inv wid w"
  shows "ActiveTasks (decrementWorker ok t w) = max 0 (ActiveTasks w - 1)"
proof -
  have "wrap32 (ActiveTasks w - 1) = ActiveTasks w - 1" if "ActiveTasks w > 0"
    using assms that by (intro wrap32_id) (auto simp: worker_inv_def is_int32_def)
  with assms show ?thesis
    by (auto simp: decrementWorker_def Let_def worker_inv_def)
qed

lemma decrementWorker_inv:
  assumes "worker_inv wid w"
  shows "worker_inv wid (decrementWorker ok t w)"
  using assms decrementWorker_active[OF assms, of ok t]
  by (auto simp: worker_inv_def decrementWorker_def Let_def is_int32_def split: if_splits)

lemma Add_lookup:
  "fmlookup (workers (Add now w r)) wid =
     (if wid = ID w then
        (case fmlookup (workers r) wid of
           None \<Rightarrow> Some (w\<lparr>RegisteredAt := now, LastHeartbeat := now, State := WorkerStateIdle\<rparr>)
         | Some old \<Rightarrow>
             Some (old\<lparr>Capabilities := Capabilities w, Address := Address w,
                       MaxParallel := MaxParallel w, LastHeartbeat := now,
                       State := (if State old = WorkerStateUnhealthy then WorkerStateIdle
                                 else State old)\<rparr>))
      else fmlookup (workers r) wid)"
  by (simp add: Add_def split: option.split)

lemma Add_inv:
  assumes "registry_inv r" and "0 \<le> ActiveTasks w" and "is_int32 (ActiveTasks w)"
  shows "registry_inv (Add now w r)"
  using assms unfolding registry_inv_def
  by (auto simp: Add_lookup worker_inv_def split: if_splits option.splits)

lemma cleanup_inv: "registry_inv r \<Longrightarrow> registry_inv (cleanupStaleWorkers now r)"
  by (auto simp: registry_inv_def cleanupStaleWorkers_def staleWorker_def worker_inv_def)

lemma Remove_inv: "registry_inv r \<Longrightarrow> Remove wid r = Ok r' \<Longrightarrow> registry_inv r'"
  by (auto simp: Remove_def registry_inv_def split: if_splits)

lemma New_inv: "registry_inv (NewInMemoryRegistry t)"
  by (simp add: registry_inv_def NewInMemoryRegistry_def)

lemma registry_apply_inv: "registry_inv r \<Longrightarrow> op_ok op r \<Longrightarrow> registry_inv (registry_apply op r)"
proof (cases op)
  case (OpUpdateState wid st)
  assume "registry_inv r" "op_ok op r"
  with OpUpdateState show ?thesis
    by (auto simp: worker_updates worker_inv_def intro!: or_unchanged_updateWorker_inv)
next
  case (OpIncrement wid)
  assume "registry_inv r" "op_ok op r"
  with OpIncrement show ?thesis
    by (auto simp: worker_updates intro!: or_unchanged_updateWorker_inv incrementWorker_inv)
next
  case (OpRemove wid)
  assume "registry_inv r"
  with OpRemove show ?thesis
    by (cases "Remove wid r") (auto simp: or_unchanged_def Remove_inv)
qed (auto simp: Add_inv cleanup_inv worker_updates heartbeatWorker_def worker_inv_def
       intro!: or_unchanged_updateWorker_inv decrementWorker_inv)

lemma registry_run_keeps_inv: "registry_inv r \<Longrightarrow> run_ok ops r \<Longrightarrow> registry_inv (registry_run ops r)"
  by (induction ops arbitrary: r) (auto simp: registry_apply_inv)

text \<open>The invariant and a legal iteration order make the IDs of a listing unique.\<close>

lemma range_vals_ids:
  assumes "\<And>k v. fmlookup m k = Some v \<Longrightarrow> key v = k"
  shows "distinct ks \<Longrightarrow> distinct (map key (range_vals m ks))"
proof (induction ks)
  case (Cons k ks)
  have "key v \<in> set ks" if "v \<in> set (range_vals m ks)" for v
    using that assms by (auto simp: range_vals_set)
  with Cons assms[of k] show ?case by (auto split: option.split)
qed simp

lemma ListByCapability_ids_distinct:
  assumes "registry_inv r" and "iter_order (workers r) ord"
  shows "distinct (map ID (ListByCapability now ord bt arch r))"
proof -
  have "distinct (map ID (range_vals (workers r) ord))"
    using assms by (intro range_vals_ids) (auto simp: registry_inv_def worker_inv_def iter_order_distinct)
  then show ?thesis
    by (simp add: ListByCapability_def distinct_map_filter)
qed

lemma ListByCapability_mem:
  assumes "iter_order (workers r) ord"
  shows "w \<in> set (ListByCapability now ord bt arch r) \<longleftrightarrow>
    (\<exists>wid. Get wid r = Some w) \<and> IsHealthy now (ttl r) w \<and> matchesCapability (Capabilities w) bt arch"
  using range_vals_mem[OF assms] by (auto simp: ListByCapability_def Get_def)

lemma ListByCapability_order:
  "w \<in> set (ListByCapability now ord bt arch r) \<Longrightarrow>
     (\<exists>wid. Get wid r = Some w) \<and> State w \<noteq> WorkerStateUnhealthy"
  by (auto simp: ListByCapability_def Get_def range_vals_set IsHealthy_def split: if_splits)

lemma staleWorker_healthy:
  assumes "now \<le> now'"
  shows "IsHealthy now' t (staleWorker now t w) = IsHealthy now' t w"
  using time_sub_gt_mono[OF _ assms, of t "LastHeartbeat w"]
  by (auto simp: IsHealthy_def staleWorker_def)

lemma staleWorker_listed:
  "now \<le> now' \<Longrightarrow> IsHealthy now' t w \<Longrightarrow> staleWorker now t w = w"
  using time_sub_gt_mono[of t now "LastHeartbeat w" now']
  by (auto simp: IsHealthy_def staleWorker_def split: if_splits)

lemma range_vals_fmmap: "range_vals (fmmap f m) ks = map f (range_vals m ks)"
  by (induction ks) (auto split: option.split)

lemma filter_map_fixed:
  assumes "\<And>x. P (f x) = P x" and "\<And>x. P x \<Longrightarrow> f x = x"
  shows "filter P (map f xs) = filter P xs"
  using assms by (induction xs) auto

subsection \<open>The interface the schedulers rely on\<close>

locale worker_registry =
  fixes lookup_worker :: "'r \<Rightarrow> string \<Rightarrow> WorkerInfo option"
    and by_capability :: "'r \<Rightarrow> int \<Rightarrow> string list \<Rightarrow> BuildType \<Rightarrow> Architecture \<Rightarrow> WorkerInfo list"
    and size_of :: "'r \<Rightarrow> nat"
    and order_ok :: "'r \<Rightarrow> string list \<Rightarrow> bool"
    and reg_inv :: "'r \<Rightarrow> bool"
  assumes by_capability_sound:
      "reg_inv r \<Longrightarrow> order_ok r ord \<Longrightarrow> w \<in> set (by_capability r now ord bt arch) \<Longrightarrow>
         lookup_worker r (ID w) = Some w \<and> State w \<noteq> WorkerStateUnhealthy \<and>
         matchesCapability (Capabilities w) bt arch"
    and by_capability_ids:
      "reg_inv r \<Longrightarrow> order_ok r ord \<Longrightarrow> distinct (map ID (by_capability r now ord bt arch))"
    and empty_lists_nothing:
      "size_of r = 0 \<Longrightarrow> by_capability r now ord bt arch = []"
begin

lemma listed_unique:
  assumes "reg_inv r" and "order_ok r ord"
    and "w \<in> set (by_capability r now ord bt arch)" and "w' \<in> set (by_capability r now ord bt arch)"
    and "ID w = ID w'"
  shows "w = w'"
  using by_capability_ids[OF assms(1,2), of now bt arch] assms(3-5)
  by (auto simp: distinct_map dest: inj_onD)

lemma listed_has_capabilities:
  assumes "reg_inv r" and "order_ok r ord" and "w \<in> set (by_capability r now ord bt arch)"
  shows "Capabilities w \<noteq> None"
  using by_capability_sound[OF assms] by (cases "Capabilities w") (auto simp: matchesCapability_def)

end

interpretation mem: worker_registry
  "\<lambda>r wid. Get wid r" "\<lambda>r now ord bt arch. ListByCapability now ord bt arch r" Count
  "\<lambda>r ord. iter_order (workers r) ord" registry_inv
proof (unfold_locales, goal_cases)
  case (1 r ord w now bt arch)
  then obtain wid where w: "Get wid r = Some w" "IsHealthy now (ttl r) w"
      "matchesCapability (Capabilities w) bt arch"
    by (auto simp: ListByCapability_mem)
  moreover from w(1) 1 have "ID w = wid"
    by (auto simp: registry_inv_def worker_inv_def Get_def)
  ultimately show ?case by (auto simp: IsHealthy_def)
next
  case (2 r ord now bt arch)
  then show ?case by (rule ListByCapability_ids_distinct)
next
  case (3 r now ord bt arch)
  then have "range_vals (workers r) ord = []"
    by (induction ord) (auto simp: Count_def map_len_0)
  then show ?case by (simp add: ListByCapability_def)
qed

subsection \<open>Properties\<close>

text \<open>A concrete worker, for evaluating the theorems at an input.\<close>

definition sampleCaps :: WorkerCapabilities where
  "sampleCaps = emptyCapabilities\<lparr>WorkerId := ''w1'', CpuCores := 8, MemoryBytes := 2 ^ 34,
     NativeArch := ARCH_X86_64, Os := ''linux'', MaxParallelTasks := 4,
     Cpp := Some \<lparr>cpp_Compilers = [''gcc''], cpp_CrossCompile = False, cpp_DockerImages = [],
       cpp_MsvcVersion = '''', cpp_MsvcArchitectures = [], cpp_HasWindowsSdk = False\<rparr>\<rparr>"

definition sampleWorker :: "string \<Rightarrow> WorkerInfo" where
  "sampleWorker wid = \<lparr>ID = wid, Address = wid, Capabilities = Some sampleCaps,
     State = WorkerStateIdle, DiscoverySource = '''', LastHeartbeat = 0, RegisteredAt = 0,
     MaxParallel = 4, ActiveTasks = 0, TotalTasks = 0, SuccessfulTasks = 0, FailedTasks = 0,
     AvgCompileTime = 0\<rparr>"

text \<open>
  Whatever sequence of calls is made on a fresh registry, with the callers' obligations
  met at every call, each worker is filed under its own ID, its task count stays a
  non-negative \<^verbatim>\<open>int32\<close>, and it is marked busy only while it has tasks.
\<close>

theorem registry_run_inv:
  "run_ok ops (NewInMemoryRegistry t) \<Longrightarrow> registry_inv (registry_run ops (NewInMemoryRegistry t))"
  by (rule registry_run_keeps_inv[OF New_inv])

lemma registry_run_inv_witness:
  "registry_inv (registry_run
     [OpAdd 5 (sampleWorker ''w1''), OpIncrement ''w1'', OpCleanup 100, OpDecrement ''w1'' True 7]
     (NewInMemoryRegistry 60))"
  by (rule registry_run_inv)
    (simp add: sampleWorker_def Add_def NewInMemoryRegistry_def is_int32_def)

text \<open>
  \<^verbatim>\<open>ListByCapability\<close> returns exactly the registered workers that are healthy and match
  the build type and architecture, whatever order the map is ranged over, and no ID twice.
\<close>

theorem ListByCapability_exact:
  assumes "registry_inv r" and "iter_order (workers r) ord"
  shows "set (ListByCapability now ord bt arch r) =
      {w. Get (ID w) r = Some w \<and> IsHealthy now (ttl r) w \<and> matchesCapability (Capabilities w) bt arch}
    \<and> distinct (map ID (ListByCapability now ord bt arch r))"
proof -
  have "Get (ID w) r = Some w \<longleftrightarrow> (\<exists>wid. Get wid r = Some w)" for w
    using assms(1) by (auto simp: Get_def registry_inv_def worker_inv_def)
  then show ?thesis
    using ListByCapability_mem[OF assms(2)] ListByCapability_ids_distinct[OF assms] by auto
qed

lemma ListByCapability_exact_witness:
  "set (ListByCapability 10 [''w1''] BUILD_TYPE_CPP ARCH_X86_64 (Add 5 (sampleWorker ''w1'') (NewInMemoryRegistry 60))) =
     {w. Get (ID w) (Add 5 (sampleWorker ''w1'') (NewInMemoryRegistry 60)) = Some w \<and>
         IsHealthy 10 (ttl (Add 5 (sampleWorker ''w1'') (NewInMemoryRegistry 60))) w \<and>
         matchesCapability (Capabilities w) BUILD_TYPE_CPP ARCH_X86_64}"
proof -
  let ?r = "Add 5 (sampleWorker ''w1'') (NewInMemoryRegistry 60)"
  have inv: "registry_inv ?r"
    by (rule Add_inv[OF New_inv]) (simp_all add: sampleWorker_def is_int32_def)
  have "iter_order (workers ?r) [''w1'']"
    by (simp add: iter_order_def Add_def NewInMemoryRegistry_def sampleWorker_def)
  from ListByCapability_exact[OF inv this] show ?thesis by blast
qed

text \<open>
  The background cleanup never changes what a later query sees: at any instant not
  before the cleanup's, \<^verbatim>\<open>ListByCapability\<close> returns the same list with and without it. (The
  age check of \<^verbatim>\<open>IsHealthy\<close> already hides the workers that the cleanup marks.)
\<close>

theorem cleanup_invisible:
  assumes "now \<le> now'"
  shows "ListByCapability now' ord bt arch (cleanupStaleWorkers now r) = ListByCapability now' ord bt arch r"
proof -
  have "matchesCapability (Capabilities (staleWorker now (ttl r) w)) bt arch =
        matchesCapability (Capabilities w) bt arch" for w
    by (simp add: staleWorker_def)
  with assms show ?thesis
    unfolding ListByCapability_def cleanupStaleWorkers_def
    by (auto simp: range_vals_fmmap staleWorker_healthy staleWorker_listed intro!: filter_map_fixed)
qed

lemma cleanup_invisible_witness:
  "ListByCapability 200 [''w1''] BUILD_TYPE_CPP ARCH_X86_64
     (cleanupStaleWorkers 100 (Add 5 (sampleWorker ''w1'') (NewInMemoryRegistry 60))) =
   ListByCapability 200 [''w1''] BUILD_TYPE_CPP ARCH_X86_64
     (Add 5 (sampleWorker ''w1'') (NewInMemoryRegistry 60))"
  by (rule cleanup_invisible) simp

text \<open>
  A worker that registers again keeps its task counters and its average and is healthy at
  once, also when the cleanup had marked it unhealthy; no other worker changes.
\<close>

theorem Add_existing_keeps_counters:
  assumes "Get (ID w) r = Some old" and "0 \<le> ttl r"
  shows "\<exists>new. Get (ID w) (Add now w r) = Some new \<and> IsHealthy now (ttl r) new \<and>
     Capabilities new = Capabilities w \<and> Address new = Address w \<and>
     ActiveTasks new = ActiveTasks old \<and> TotalTasks new = TotalTasks old \<and>
     SuccessfulTasks new = SuccessfulTasks old \<and> FailedTasks new = FailedTasks old \<and>
     AvgCompileTime new = AvgCompileTime old \<and> RegisteredAt new = RegisteredAt old \<and>
     (\<forall>other. other \<noteq> ID w \<longrightarrow> Get other (Add now w r) = Get other r)"
  using assms by (auto simp: Get_def Add_lookup IsHealthy_def)

lemma Add_existing_keeps_counters_witness:
  "\<exists>new. Get ''w1'' (Add 9 (sampleWorker ''w1'') (Add 5 (sampleWorker ''w1'') (NewInMemoryRegistry 60))) = Some new \<and>
     IsHealthy 9 60 new"
proof -
  let ?r = "Add 5 (sampleWorker ''w1'') (NewInMemoryRegistry 60)"
  have "Get (ID (sampleWorker ''w1'')) ?r =
      Some ((sampleWorker ''w1'')\<lparr>RegisteredAt := 5, LastHeartbeat := 5, State := WorkerStateIdle\<rparr>)"
    by (simp add: Get_def Add_lookup NewInMemoryRegistry_def)
  moreover have "ttl ?r = 60" by (simp add: Add_def NewInMemoryRegistry_def)
  ultimately show ?thesis
    using Add_existing_keeps_counters[of "sampleWorker ''w1''" ?r _ 9] by (auto simp: sampleWorker_def)
qed

text \<open>
  Finding: a failed task changes the average compile time. The running-mean update is
  applied on failures too, without a new sample in the count, so each failure that reports no
  compile time (every failed RPC does) strictly lowers a positive average: failing workers
  look faster.
\<close>

theorem failure_lowers_average:
  assumes "SuccessfulTasks w > 0" and "AvgCompileTime w > 0"
    and "is_int64 (AvgCompileTime w * SuccessfulTasks w)"
  shows "AvgCompileTime (decrementWorker False 0 w) < AvgCompileTime w \<and>
         SuccessfulTasks (decrementWorker False 0 w) = SuccessfulTasks w"
proof -
  let ?a = "AvgCompileTime w" and ?n = "SuccessfulTasks w"
  have le: "0 \<le> ?a * (?n - 1)" "?a * (?n - 1) \<le> ?a * ?n"
    using assms by (auto intro: mult_left_mono)
  with assms(3) have "is_int64 (?a * (?n - 1))" by (simp add: is_int64_def)
  then have "AvgCompileTime (decrementWorker False 0 w) = (?a * (?n - 1)) sdiv ?n"
    using assms by (simp add: decrementWorker_def Let_def wrap64_id)
  also have "\<dots> = (?a * (?n - 1)) div ?n"
    using assms le by (cases "?n = 1") (auto simp: signed_divide_int_def sgn_mult)
  also have "\<dots> < ?a"
  proof (rule ccontr)
    assume "\<not> ?a * (?n - 1) div ?n < ?a"
    then have "?a * ?n \<le> (?a * (?n - 1) div ?n) * ?n"
      using assms(1) by (intro mult_right_mono) auto
    also have "\<dots> \<le> ?a * (?n - 1)"
      using assms(1) by (simp flip: minus_mod_eq_div_mult)
    finally show False using assms(2) by (simp add: right_diff_distrib)
  qed
  finally show ?thesis by (simp add: decrementWorker_def Let_def)
qed

lemma failure_lowers_average_witness:
  "AvgCompileTime (decrementWorker False 0
     ((sampleWorker ''w1'')\<lparr>SuccessfulTasks := 2, AvgCompileTime := 1000\<rparr>)) < 1000"
proof -
  let ?w = "(sampleWorker ''w1'')\<lparr>SuccessfulTasks := 2, AvgCompileTime := 1000\<rparr>"
  have "AvgCompileTime (decrementWorker False 0 ?w) < AvgCompileTime ?w"
    using failure_lowers_average[of ?w] by (simp add: is_int64_def)
  then show ?thesis by simp
qed

text \<open>
  On success the average behaves as a mean: with the values in range it moves from the
  old average towards the new sample and never leaves the interval between them.
\<close>

theorem success_average_between:
  assumes "SuccessfulTasks w \<ge> 0" and "0 \<le> AvgCompileTime w" and "0 \<le> t"
    and "is_int64 (SuccessfulTasks w + 1)" and "is_int64 (AvgCompileTime w * SuccessfulTasks w + t)"
  shows "min (AvgCompileTime w) t \<le> AvgCompileTime (decrementWorker True t w) \<and>
         AvgCompileTime (decrementWorker True t w) \<le> max (AvgCompileTime w) t"
proof -
  let ?a = "AvgCompileTime w" and ?n = "SuccessfulTasks w"
  have nn: "0 \<le> ?a * ?n" using assms by simp
  with assms(3,5) have i: "is_int64 (?a * ?n)" by (simp add: is_int64_def)
  have pos: "0 < ?n + 1" using assms(1) by simp
  have avg: "AvgCompileTime (decrementWorker True t w) = (?a * ?n + t) div (?n + 1)"
    using assms i nn by (simp add: decrementWorker_def Let_def wrap64_id signed_divide_int_def sgn_if)
  have "min ?a t * ?n \<le> ?a * ?n" "?a * ?n \<le> max ?a t * ?n"
    using assms(1) by (auto intro: mult_right_mono)
  then have lo: "min ?a t * (?n + 1) \<le> ?a * ?n + t" and hi: "?a * ?n + t \<le> max ?a t * (?n + 1)"
    by (auto simp: distrib_left)
  show ?thesis
    using zdiv_mono1[OF lo pos] zdiv_mono1[OF hi pos] pos by (simp add: avg)
qed

lemma success_average_between_witness:
  "AvgCompileTime (decrementWorker True 400
     ((sampleWorker ''w1'')\<lparr>SuccessfulTasks := 2, AvgCompileTime := 1000\<rparr>)) \<le> 1000"
proof -
  let ?w = "(sampleWorker ''w1'')\<lparr>SuccessfulTasks := 2, AvgCompileTime := 1000\<rparr>"
  have "AvgCompileTime (decrementWorker True 400 ?w) \<le> max (AvgCompileTime ?w) 400"
    using success_average_between[of ?w 400] by (simp add: is_int64_def sampleWorker_def)
  then show ?thesis by simp
qed

end
