(* ===== verification/Latency.thy ===== *)
theory Latency
  imports HG_Prelude
begin

text \<open>
  \<^verbatim>\<open>internal/coordinator/metrics\<close>: the exponentially weighted moving average (\<^verbatim>\<open>ewma.go\<close>) and
  the per-worker latency tracker built on it (\<^verbatim>\<open>latency.go\<close>). A \<^verbatim>\<open>float64\<close> is a real number:
  the model computes exactly and leaves rounding out.

  The locale \<open>keyed_estimator\<close> is the contract of a table of running estimates, one per
  worker: an observation changes the estimate of its own worker only. The latency tracker
  and the \<open>\<epsilon>\<close>-greedy scheduler's table of action values are its two instances.
\<close>

subsection \<open>EWMA\<close>

record EWMA =
  alpha :: real
  ewma_value :: real
  init :: bool

definition NewEWMA :: "real \<Rightarrow> EWMA" where
  "NewEWMA a = \<lparr>alpha = (if a \<le> 0 \<or> a > 1 then 5 / 10 else a), ewma_value = 0, init = False\<rparr>"

definition EWMA_Update :: "real \<Rightarrow> EWMA \<Rightarrow> EWMA" where
  "EWMA_Update v e =
     (if \<not> init e then e\<lparr>ewma_value := v, init := True\<rparr>
      else e\<lparr>ewma_value := alpha e * v + (1 - alpha e) * ewma_value e\<rparr>)"

definition EWMA_Value :: "EWMA \<Rightarrow> real" where
  "EWMA_Value e = ewma_value e"

definition EWMA_Reset :: "EWMA \<Rightarrow> EWMA" where
  "EWMA_Reset e = e\<lparr>ewma_value := 0, init := False\<rparr>"

definition IsInitialized :: "EWMA \<Rightarrow> bool" where
  "IsInitialized e = init e"

subsection \<open>The latency tracker\<close>

definition DefaultAlpha :: real where "DefaultAlpha = 5 / 10"
definition DefaultLatencyMs :: real where "DefaultLatencyMs = 100"

record LatencyTracker =
  lt_workers :: "(string, EWMA) fmap"
  lt_alpha :: real
  lt_defValue :: real

definition NewLatencyTracker :: LatencyTracker where
  "NewLatencyTracker = \<lparr>lt_workers = fmempty, lt_alpha = DefaultAlpha, lt_defValue = DefaultLatencyMs\<rparr>"

definition NewLatencyTrackerWithConfig :: "real \<Rightarrow> real \<Rightarrow> LatencyTracker" where
  "NewLatencyTrackerWithConfig a d = \<lparr>lt_workers = fmempty, lt_alpha = a, lt_defValue = d\<rparr>"

definition LatencyTracker_Record :: "string \<Rightarrow> real \<Rightarrow> LatencyTracker \<Rightarrow> LatencyTracker" where
  "LatencyTracker_Record wid latencyMs t =
     (let e = (case fmlookup (lt_workers t) wid of None \<Rightarrow> NewEWMA (lt_alpha t) | Some e \<Rightarrow> e)
      in t\<lparr>lt_workers := fmupd wid (EWMA_Update latencyMs e) (lt_workers t)\<rparr>)"

definition LatencyTracker_Get :: "string \<Rightarrow> LatencyTracker \<Rightarrow> real" where
  "LatencyTracker_Get wid t =
     (case fmlookup (lt_workers t) wid of
        Some e \<Rightarrow> if IsInitialized e then EWMA_Value e else lt_defValue t
      | None \<Rightarrow> lt_defValue t)"

definition LatencyTracker_Remove :: "string \<Rightarrow> LatencyTracker \<Rightarrow> LatencyTracker" where
  "LatencyTracker_Remove wid t = t\<lparr>lt_workers := fmdrop wid (lt_workers t)\<rparr>"

definition LatencyTracker_Reset :: "LatencyTracker \<Rightarrow> LatencyTracker" where
  "LatencyTracker_Reset t = t\<lparr>lt_workers := fmempty\<rparr>"

definition LatencyTracker_All :: "LatencyTracker \<Rightarrow> (string, real) fmap" where
  "LatencyTracker_All t = fmmap EWMA_Value (lt_workers t)"

text \<open>Feeding a list of samples, oldest first.\<close>

definition ewma_feed :: "real list \<Rightarrow> EWMA \<Rightarrow> EWMA" where
  "ewma_feed xs e = fold EWMA_Update xs e"

subsection \<open>Lemmas on the average\<close>

lemma EWMA_Update_alpha [simp]: "alpha (EWMA_Update v e) = alpha e"
  by (simp add: EWMA_Update_def)

lemma EWMA_Update_init [simp]: "init (EWMA_Update v e)"
  by (simp add: EWMA_Update_def)

lemma NewEWMA_alpha: "0 < alpha (NewEWMA a) \<and> alpha (NewEWMA a) \<le> 1"
  by (simp add: NewEWMA_def)

lemma ewma_feed_alpha [simp]: "alpha (ewma_feed xs e) = alpha e"
  unfolding ewma_feed_def by (induction xs arbitrary: e) auto

lemma convex_between:
  fixes a x y lo hi :: real
  assumes "0 \<le> a" "a \<le> 1" "lo \<le> x" "x \<le> hi" "lo \<le> y" "y \<le> hi"
  shows "lo \<le> a * x + (1 - a) * y" and "a * x + (1 - a) * y \<le> hi"
proof -
  have "a * lo + (1 - a) * lo \<le> a * x + (1 - a) * y"
    using assms by (intro add_mono mult_left_mono) auto
  then show "lo \<le> a * x + (1 - a) * y" by (simp add: algebra_simps)
  have "a * x + (1 - a) * y \<le> a * hi + (1 - a) * hi"
    using assms by (intro add_mono mult_left_mono) auto
  then show "a * x + (1 - a) * y \<le> hi" by (simp add: algebra_simps)
qed

lemma EWMA_Update_between:
  assumes "0 \<le> alpha e" "alpha e \<le> 1" "lo \<le> v" "v \<le> hi"
    and "init e \<Longrightarrow> lo \<le> ewma_value e \<and> ewma_value e \<le> hi"
  shows "lo \<le> ewma_value (EWMA_Update v e) \<and> ewma_value (EWMA_Update v e) \<le> hi"
  using assms convex_between[of "alpha e" lo v hi "ewma_value e"]
  by (auto simp: EWMA_Update_def)

lemma ewma_feed_between:
  assumes "0 \<le> alpha e" "alpha e \<le> 1" "\<forall>x \<in> set xs. lo \<le> x \<and> x \<le> hi"
    and "init e \<Longrightarrow> lo \<le> ewma_value e \<and> ewma_value e \<le> hi"
  shows "init (ewma_feed xs e) \<Longrightarrow>
    lo \<le> ewma_value (ewma_feed xs e) \<and> ewma_value (ewma_feed xs e) \<le> hi"
  using assms unfolding ewma_feed_def
proof (induction xs arbitrary: e)
  case (Cons x xs)
  have "lo \<le> ewma_value (EWMA_Update x e) \<and> ewma_value (EWMA_Update x e) \<le> hi"
    using Cons.prems by (intro EWMA_Update_between) auto
  then show ?case using Cons.IH[of "EWMA_Update x e"] Cons.prems by simp
qed simp

lemma ewma_feed_init: "xs \<noteq> [] \<Longrightarrow> init (ewma_feed xs e)"
  unfolding ewma_feed_def by (induction xs rule: rev_induct) auto

text \<open>The weights of the samples, newest first: \<open>\<alpha>, \<alpha> (1 - \<alpha>), \<alpha> (1 - \<alpha>)\<^sup>2, \<dots>\<close>\<close>

lemma ewma_feed_started:
  assumes "init e"
  shows "ewma_value (ewma_feed xs e) =
    (1 - alpha e) ^ length xs * ewma_value e +
    (\<Sum>i < length xs. alpha e * (1 - alpha e) ^ (length xs - 1 - i) * xs ! i)"
  using assms
proof (induction xs rule: rev_induct)
  case (snoc x xs)
  let ?a = "alpha e"
  have "init (ewma_feed xs e)"
    using snoc.prems ewma_feed_init[of xs e] by (cases "xs = []") (auto simp: ewma_feed_def)
  then have step: "ewma_value (ewma_feed (xs @ [x]) e) = ?a * x + (1 - ?a) * ewma_value (ewma_feed xs e)"
    using ewma_feed_alpha[of xs e] by (simp add: ewma_feed_def EWMA_Update_def)
  have sum: "(\<Sum>i < length (xs @ [x]). ?a * (1 - ?a) ^ (length (xs @ [x]) - 1 - i) * (xs @ [x]) ! i) =
      (1 - ?a) * (\<Sum>i < length xs. ?a * (1 - ?a) ^ (length xs - 1 - i) * xs ! i) + ?a * x"
  proof -
    have "?a * (1 - ?a) ^ (length xs - i) * (xs @ [x]) ! i =
        (1 - ?a) * (?a * (1 - ?a) ^ (length xs - 1 - i) * xs ! i)" if "i < length xs" for i
      using that by (simp add: nth_append power_eq_if)
    then have "(\<Sum>i < length xs. ?a * (1 - ?a) ^ (length xs - i) * (xs @ [x]) ! i) =
        (\<Sum>i < length xs. (1 - ?a) * (?a * (1 - ?a) ^ (length xs - 1 - i) * xs ! i))"
      by (intro sum.cong) simp_all
    then show ?thesis by (simp add: sum_distrib_left)
  qed
  show ?case
    unfolding step sum snoc.IH[OF snoc.prems] by (simp add: distrib_left)
qed (simp add: ewma_feed_def)

subsection \<open>Tables of estimates, one per worker\<close>

locale keyed_estimator =
  fixes observe :: "string \<Rightarrow> 'v \<Rightarrow> 't \<Rightarrow> 't"
    and peek :: "'t \<Rightarrow> string \<Rightarrow> 's option"
    and learn :: "'t \<Rightarrow> 's option \<Rightarrow> 'v \<Rightarrow> 's"
    and usable :: "string \<Rightarrow> 'v \<Rightarrow> bool"
  assumes peek_same: "usable k v \<Longrightarrow> peek (observe k v t) k = Some (learn t (peek t k) v)"
    and peek_other: "k \<noteq> k' \<Longrightarrow> peek (observe k v t) k' = peek t k'"
    and unusable: "\<not> usable k v \<Longrightarrow> observe k v t = t"
    and learn_stable: "learn (observe k v t) = learn t"
begin

lemma learn_run: "learn (fold (\<lambda>(k, v). observe k v) evs t) = learn t"
  by (induction evs arbitrary: t) (auto simp: learn_stable)

text \<open>After any run of observations, a worker's estimate is determined by its own samples.\<close>

lemma peek_run:
  "peek (fold (\<lambda>(k, v). observe k v) evs t) key =
     fold (\<lambda>v s. Some (learn t s v)) (map snd (filter (\<lambda>(k, v). k = key \<and> usable k v) evs)) (peek t key)"
proof (induction evs rule: rev_induct)
  case (snoc ev evs)
  obtain k v where ev: "ev = (k, v)" by (cases ev)
  show ?case
  proof (cases "usable k v")
    case True
    with snoc ev show ?thesis
      by (cases "k = key") (auto simp: peek_same peek_other learn_run)
  next
    case False
    with snoc ev show ?thesis by (auto simp: unusable)
  qed
qed simp

end

interpretation latencies: keyed_estimator
  LatencyTracker_Record "\<lambda>t k. fmlookup (lt_workers t) k"
  "\<lambda>t s v. EWMA_Update v (case s of None \<Rightarrow> NewEWMA (lt_alpha t) | Some e \<Rightarrow> e)"
  "\<lambda>k v. True"
  by unfold_locales (auto simp: LatencyTracker_Record_def Let_def fun_eq_iff split: option.split)

lemma fold_Some_ewma:
  "fold (\<lambda>v s. Some (EWMA_Update v (case s of None \<Rightarrow> NewEWMA a | Some e \<Rightarrow> e))) xs (Some e) =
     Some (ewma_feed xs e)"
  by (induction xs arbitrary: e) (auto simp: ewma_feed_def)

lemma fold_None_ewma:
  "fold (\<lambda>v s. Some (EWMA_Update v (case s of None \<Rightarrow> NewEWMA a | Some e \<Rightarrow> e))) xs None =
     (if xs = [] then None else Some (ewma_feed xs (NewEWMA a)))"
  by (cases xs) (auto simp: fold_Some_ewma ewma_feed_def)

subsection \<open>Properties\<close>

text \<open>
  The average of any non-empty sequence of samples lies between their bounds, for every
  smoothing factor that is configured (one outside \<open>(0, 1]\<close> is replaced).
\<close>

theorem ewma_between_samples:
  assumes "xs \<noteq> []" and "\<forall>x \<in> set xs. lo \<le> x \<and> x \<le> hi"
  shows "lo \<le> EWMA_Value (ewma_feed xs (NewEWMA a)) \<and> EWMA_Value (ewma_feed xs (NewEWMA a)) \<le> hi"
proof -
  have "\<not> init (NewEWMA a)" by (simp add: NewEWMA_def)
  then show ?thesis
    unfolding EWMA_Value_def
    using assms NewEWMA_alpha[of a] ewma_feed_init[of xs "NewEWMA a"]
    by (intro ewma_feed_between) auto
qed

lemma ewma_between_samples_witness:
  "1 \<le> EWMA_Value (ewma_feed [1, 3, 2] (NewEWMA (1 / 2))) \<and>
   EWMA_Value (ewma_feed [1, 3, 2] (NewEWMA (1 / 2))) \<le> 3"
  by (rule ewma_between_samples) auto

text \<open>
  Closed form: the first sample has weight \<open>(1 - \<alpha>)\<^sup>n\<close> after \<open>n\<close> further ones, and
  the sample \<open>i\<close> places before the newest has weight \<open>\<alpha> (1 - \<alpha>)\<^sup>i\<close>.
\<close>

theorem ewma_closed_form:
  "EWMA_Value (ewma_feed (x # xs) (NewEWMA a)) =
    (let a' = alpha (NewEWMA a) in
       (1 - a') ^ length xs * x + (\<Sum>i < length xs. a' * (1 - a') ^ (length xs - 1 - i) * xs ! i))"
proof -
  let ?e = "EWMA_Update x (NewEWMA a)"
  have "ewma_feed (x # xs) (NewEWMA a) = ewma_feed xs ?e" by (simp add: ewma_feed_def)
  moreover have "ewma_value ?e = x" by (simp add: EWMA_Update_def NewEWMA_def)
  ultimately show ?thesis
    using ewma_feed_started[of ?e xs] by (simp add: EWMA_Value_def Let_def)
qed

text \<open>
  After any sequence of recordings on a new tracker, \<^verbatim>\<open>Get\<close> returns the average of that
  worker's own samples in their order, and the default for a worker without samples.
\<close>

theorem LatencyTracker_Get_after_run:
  "LatencyTracker_Get wid (fold (\<lambda>(k, v). LatencyTracker_Record k v) evs (NewLatencyTrackerWithConfig a d)) =
     (let own = map snd (filter (\<lambda>(k, v). k = wid) evs)
      in if own = [] then d else EWMA_Value (ewma_feed own (NewEWMA a)))"
proof -
  let ?t = "NewLatencyTrackerWithConfig a d"
  let ?own = "map snd (filter (\<lambda>(k, v). k = wid) evs)"
  have def: "lt_defValue (fold (\<lambda>(k, v). LatencyTracker_Record k v) evs t) = lt_defValue t" for t
    by (induction evs arbitrary: t) (auto simp: LatencyTracker_Record_def Let_def)
  have "fmlookup (lt_workers (fold (\<lambda>(k, v). LatencyTracker_Record k v) evs ?t)) wid =
      (if ?own = [] then None else Some (ewma_feed ?own (NewEWMA a)))"
    using latencies.peek_run[of evs ?t wid]
    by (simp add: NewLatencyTrackerWithConfig_def fold_None_ewma case_prod_beta del: filter_cong)
  then show ?thesis
    using ewma_feed_init[of ?own "NewEWMA a"]
    by (auto simp: LatencyTracker_Get_def IsInitialized_def def NewLatencyTrackerWithConfig_def Let_def)
qed

end
