(* ===== verification/Scheduler.thy ===== *)
theory Scheduler
  imports Registry Latency
begin

text \<open>
  Worker selection, \<^verbatim>\<open>internal/coordinator/scheduler/scheduler.go\<close> and \<^verbatim>\<open>feedback.go\<close>: the
  round-robin, least-loaded and power-of-two-choices schedulers, and what the learning
  schedulers of the next theories share with them.

  A selection reads the registry, the clock, the iteration order of the worker table and the
  random source: the record \<open>sched_env\<close>. A random read fails (\<open>None\<close>) or yields a number
  that the library reduces to the requested range. The circuit checker is the function from
  worker IDs to "is open", or \<open>None\<close> where the field is nil.

  The locale \<open>scheduler\<close> is the contract of the Go interface \<^verbatim>\<open>Scheduler\<close>; every
  implementation is an interpretation of it, and \<open>capacity_scheduler\<close> adds that a selected
  worker has a free slot.
\<close>

subsection \<open>Inputs and results\<close>

datatype sched_error = ErrNoWorkers | ErrNoMatchingWorkers

record sched_env =
  env_now :: int
  env_order :: "string list"
  env_draw :: "nat \<Rightarrow> nat option"

record TaskContext =
  SourceSizeBytes :: int
  TaskID :: string

definition emptyTaskContext :: TaskContext where
  "emptyTaskContext = \<lparr>SourceSizeBytes = 0, TaskID = ''''\<rparr>"

record DispatchInfo =
  QValueAtDispatch :: real
  WasExploration :: bool

definition emptyDispatchInfo :: DispatchInfo where
  "emptyDispatchInfo = \<lparr>QValueAtDispatch = 0, WasExploration = False\<rparr>"

type_synonym circuit_checker = "(string \<Rightarrow> bool) option"

definition circuitOpen :: "circuit_checker \<Rightarrow> WorkerInfo \<Rightarrow> bool" where
  "circuitOpen cc w = (case cc of None \<Rightarrow> False | Some isOpen \<Rightarrow> isOpen (ID w))"

text \<open>\<^verbatim>\<open>maxParallel := w.MaxParallel; if maxParallel <= 0 { maxParallel = 4 }\<close>\<close>

definition maxParallel :: "WorkerInfo \<Rightarrow> int" where
  "maxParallel w = (if MaxParallel w \<le> 0 then 4 else MaxParallel w)"

definition filterByOS :: "WorkerInfo list \<Rightarrow> string \<Rightarrow> WorkerInfo list" where
  "filterByOS ws clientOS =
     (if clientOS = '''' then ws
      else filter (\<lambda>w. case Capabilities w of
                         None \<Rightarrow> False
                       | Some c \<Rightarrow> Os c = clientOS \<or> DockerAvailable c) ws)"

text \<open>The common head of every \<^verbatim>\<open>Select\<close>: list, distinguish the errors, filter by OS.\<close>

definition matchingWorkers ::
    "InMemoryRegistry \<Rightarrow> sched_env \<Rightarrow> BuildType \<Rightarrow> Architecture \<Rightarrow> string \<Rightarrow> (sched_error, WorkerInfo list) outcome" where
  "matchingWorkers r env buildType arch clientOS =
     (let ws = ListByCapability (env_now env) (env_order env) buildType arch r
      in if ws = [] then (if Count r = 0 then Err ErrNoWorkers else Err ErrNoMatchingWorkers)
         else if clientOS \<noteq> '''' then
           (let ws' = filterByOS ws clientOS
            in if ws' = [] then Err ErrNoMatchingWorkers else Ok ws')
         else Ok ws)"

subsection \<open>SimpleScheduler\<close>

definition SimpleScheduler_available :: "WorkerInfo list \<Rightarrow> WorkerInfo list" where
  "SimpleScheduler_available ws =
     (let idle = filter (\<lambda>w. ActiveTasks w < maxParallel w \<and> State w = WorkerStateIdle) ws
      in if idle = []
         then filter (\<lambda>w. State w \<noteq> WorkerStateUnhealthy \<and> ActiveTasks w < maxParallel w) ws
         else idle)"

text \<open>
  \<^verbatim>\<open>int(idx) % len(available)\<close>: the counter is unsigned, \<^verbatim>\<open>int\<close> is its two's complement reading,
  the remainder has the sign of the dividend, and a negative index panics.
\<close>

definition roundRobin :: "64 word \<Rightarrow> WorkerInfo list \<Rightarrow> (sched_error, WorkerInfo) outcome" where
  "roundRobin idx available =
     (let i = sint idx smod int (length available)
      in if i < 0 then Panic else Ok (available ! nat i))"

definition SimpleScheduler_Select ::
    "InMemoryRegistry \<Rightarrow> sched_env \<Rightarrow> BuildType \<Rightarrow> Architecture \<Rightarrow> string \<Rightarrow> 64 word \<Rightarrow>
       (sched_error, WorkerInfo) outcome \<times> 64 word" where
  "SimpleScheduler_Select r env buildType arch clientOS counter =
     (case matchingWorkers r env buildType arch clientOS of
        Err e \<Rightarrow> (Err e, counter)
      | Panic \<Rightarrow> (Panic, counter)
      | Ok ws \<Rightarrow>
          let available = SimpleScheduler_available ws
          in if available = [] then (Err ErrNoMatchingWorkers, counter)
             else let idx = counter + 1 in (roundRobin idx available, idx))"

subsection \<open>LeastLoadedScheduler\<close>

definition LeastLoadedScheduler_Select ::
    "InMemoryRegistry \<Rightarrow> sched_env \<Rightarrow> BuildType \<Rightarrow> Architecture \<Rightarrow> string \<Rightarrow> (sched_error, WorkerInfo) outcome" where
  "LeastLoadedScheduler_Select r env buildType arch clientOS =
     (case matchingWorkers r env buildType arch clientOS of
        Err e \<Rightarrow> Err e
      | Panic \<Rightarrow> Panic
      | Ok ws \<Rightarrow>
          (case scan_best (\<lambda>w best. ActiveTasks w < ActiveTasks best)
                  (filter (\<lambda>w. State w \<noteq> WorkerStateUnhealthy) ws) of
             None \<Rightarrow> Err ErrNoMatchingWorkers
           | Some best \<Rightarrow> Ok best))"

subsection \<open>P2CScheduler\<close>

definition ScoreNativeArchMatch :: real where "ScoreNativeArchMatch = 50"
definition ScoreCrossCompile :: real where "ScoreCrossCompile = 25"
definition ScorePerCPUCore :: real where "ScorePerCPUCore = 10"
definition ScorePerGBMemory :: real where "ScorePerGBMemory = 5"
definition ScorePerActiveTask :: real where "ScorePerActiveTask = - 15"
definition ScorePerMsLatency :: real where "ScorePerMsLatency = - (5 / 10)"
definition ScoreLANSource :: real where "ScoreLANSource = 20"

definition P2C_candidates :: "circuit_checker \<Rightarrow> WorkerInfo list \<Rightarrow> WorkerInfo list" where
  "P2C_candidates cc ws =
     (let candidates =
            filter (\<lambda>w. State w \<noteq> WorkerStateUnhealthy \<and> \<not> circuitOpen cc w \<and>
                        \<not> ActiveTasks w \<ge> maxParallel w) ws
      in if candidates = []
         then filter (\<lambda>w. State w \<noteq> WorkerStateUnhealthy \<and> ActiveTasks w < maxParallel w) ws
         else candidates)"

definition scoreWorker :: "LatencyTracker \<Rightarrow> WorkerInfo \<Rightarrow> Architecture \<Rightarrow> real" where
  "scoreWorker lt w targetArch =
     (case Capabilities w of
        None \<Rightarrow> 0
      | Some caps \<Rightarrow>
          let archScore =
                (if targetArch = ARCH_UNSPECIFIED \<or> NativeArch caps = targetArch then ScoreNativeArchMatch
                 else if DockerAvailable caps then ScoreCrossCompile
                 else 0);
              cpuContrib = (if real_of_int (CpuCores caps) > 16 then 16 else real_of_int (CpuCores caps));
              gb = real_of_int (MemoryBytes caps) / (1024 * 1024 * 1024);
              memGB = (if gb > 64 then 64 else gb);
              lan = (if DiscoverySource w = ''mdns'' \<or> DiscoverySource w = ''LAN'' then ScoreLANSource else 0)
          in archScore + cpuContrib * ScorePerCPUCore + memGB * ScorePerGBMemory
             + real_of_int (ActiveTasks w) * ScorePerActiveTask
             + LatencyTracker_Get (ID w) lt * ScorePerMsLatency
             + lan)"

text \<open>\<^verbatim>\<open>rand.Int\<close> returns a number below its bound; on a read error the helper returns 0.\<close>

definition cryptoRandInt :: "nat option \<Rightarrow> int \<Rightarrow> int" where
  "cryptoRandInt draw n =
     (if n \<le> 0 then 0 else case draw of None \<Rightarrow> 0 | Some k \<Rightarrow> int k mod n)"

definition pickTwo :: "nat option \<Rightarrow> nat option \<Rightarrow> int \<Rightarrow> int \<times> int" where
  "pickTwo d1 d2 n =
     (if n < 2 then (0, 0)
      else let idx1 = cryptoRandInt d1 n;
               idx2 = cryptoRandInt d2 (n - 1)
           in (idx1, if idx2 \<ge> idx1 then idx2 + 1 else idx2))"

definition P2CScheduler_Select ::
    "circuit_checker \<Rightarrow> LatencyTracker \<Rightarrow> InMemoryRegistry \<Rightarrow> sched_env \<Rightarrow> BuildType \<Rightarrow> Architecture \<Rightarrow>
       string \<Rightarrow> (sched_error, WorkerInfo) outcome" where
  "P2CScheduler_Select cc lt r env buildType arch clientOS =
     (case matchingWorkers r env buildType arch clientOS of
        Err e \<Rightarrow> Err e
      | Panic \<Rightarrow> Panic
      | Ok ws \<Rightarrow>
          let candidates = P2C_candidates cc ws
          in if candidates = [] then Err ErrNoMatchingWorkers
             else if length candidates = 1 then Ok (candidates ! 0)
             else let (idx1, idx2) = pickTwo (env_draw env 0) (env_draw env 1) (int (length candidates));
                      w1 = candidates ! nat idx1;
                      w2 = candidates ! nat idx2
                  in if scoreWorker lt w1 arch \<ge> scoreWorker lt w2 arch then Ok w1 else Ok w2)"

definition P2CScheduler_ReportSuccess :: "string \<Rightarrow> real \<Rightarrow> LatencyTracker \<Rightarrow> LatencyTracker" where
  "P2CScheduler_ReportSuccess wid latencyMs lt = LatencyTracker_Record wid latencyMs lt"

definition NewP2CScheduler :: "LatencyTracker option \<Rightarrow> LatencyTracker" where
  "NewP2CScheduler lt = (case lt of None \<Rightarrow> NewLatencyTracker | Some t \<Rightarrow> t)"

subsection \<open>What a selection may return\<close>

definition osAdmits :: "string \<Rightarrow> WorkerInfo \<Rightarrow> bool" where
  "osAdmits clientOS w \<longleftrightarrow>
     clientOS = '''' \<or> (\<exists>c. Capabilities w = Some c \<and> (Os c = clientOS \<or> DockerAvailable c))"

definition hasCapacity :: "WorkerInfo \<Rightarrow> bool" where
  "hasCapacity w \<longleftrightarrow> ActiveTasks w < maxParallel w"

definition admissible ::
    "InMemoryRegistry \<Rightarrow> sched_env \<Rightarrow> BuildType \<Rightarrow> Architecture \<Rightarrow> string \<Rightarrow> WorkerInfo \<Rightarrow> bool" where
  "admissible r env bt arch os w \<longleftrightarrow>
     w \<in> set (ListByCapability (env_now env) (env_order env) bt arch r) \<and> osAdmits os w"

locale scheduler =
  fixes select ::
      "InMemoryRegistry \<Rightarrow> sched_env \<Rightarrow> BuildType \<Rightarrow> Architecture \<Rightarrow> string \<Rightarrow> 's \<Rightarrow> (sched_error, WorkerInfo) outcome"
    and ready :: "'s \<Rightarrow> bool"
  assumes select_admissible:
      "select r env bt arch os s = Ok w \<Longrightarrow> admissible r env bt arch os w"
    and select_no_panic: "ready s \<Longrightarrow> select r env bt arch os s \<noteq> Panic"
    and select_no_workers:
      "select r env bt arch os s = Err ErrNoWorkers \<longleftrightarrow> Count r = 0"
begin

text \<open>A selected worker is registered under its ID, not unhealthy, and able to do the build.\<close>

lemma select_registered:
  assumes "registry_inv r" and "iter_order (workers r) (env_order env)"
    and "select r env bt arch os s = Ok w"
  shows "Get (ID w) r = Some w \<and> State w \<noteq> WorkerStateUnhealthy \<and>
    matchesCapability (Capabilities w) bt arch"
  using select_admissible[OF assms(3)] mem.by_capability_sound[OF assms(1,2)]
  by (auto simp: admissible_def)

lemma select_total:
  assumes "ready s"
  shows "(\<exists>w. select r env bt arch os s = Ok w) \<or> (\<exists>e. select r env bt arch os s = Err e)"
  using select_no_panic[OF assms] by (cases "select r env bt arch os s") auto

lemma select_empty_registry:
  assumes "Count r = 0"
  shows "select r env bt arch os s = Err ErrNoWorkers"
  using select_no_workers assms by blast

end

locale capacity_scheduler = scheduler select ready
  for select ::
      "InMemoryRegistry \<Rightarrow> sched_env \<Rightarrow> BuildType \<Rightarrow> Architecture \<Rightarrow> string \<Rightarrow> 's \<Rightarrow> (sched_error, WorkerInfo) outcome"
    and ready :: "'s \<Rightarrow> bool" +
  assumes select_capacity: "select r env bt arch os s = Ok w \<Longrightarrow> hasCapacity w"
    and select_complete:
      "ready s \<Longrightarrow> (\<exists>w. admissible r env bt arch os w \<and> hasCapacity w) \<Longrightarrow> \<exists>w. select r env bt arch os s = Ok w"
begin

text \<open>A capacity-aware scheduler succeeds exactly when some admissible worker has a free slot.\<close>

lemma select_iff:
  assumes "ready s"
  shows "(\<exists>w. select r env bt arch os s = Ok w) \<longleftrightarrow>
    (\<exists>w. admissible r env bt arch os w \<and> hasCapacity w)"
  by (metis assms select_complete select_admissible select_capacity)

end

subsection \<open>Lemmas\<close>

lemma filterByOS_set: "set (filterByOS ws os) = {w \<in> set ws. osAdmits os w}"
  by (auto simp: filterByOS_def osAdmits_def split: option.splits)

lemma matchingWorkers_Ok:
  "matchingWorkers r env bt arch os = Ok ws \<Longrightarrow>
     ws \<noteq> [] \<and> set ws = {w. admissible r env bt arch os w}"
  using filterByOS_set[of _ os]
  by (auto simp: matchingWorkers_def Let_def admissible_def osAdmits_def split: if_splits)

lemma matchingWorkers_not_Panic [simp]: "matchingWorkers r env bt arch os \<noteq> Panic"
  by (simp add: matchingWorkers_def Let_def)

lemma matchingWorkers_Err:
  "matchingWorkers r env bt arch os = Err e \<Longrightarrow> \<not> admissible r env bt arch os w"
  using filterByOS_set[of "ListByCapability (env_now env) (env_order env) bt arch r" os]
  by (auto simp: matchingWorkers_def Let_def admissible_def split: if_splits)

lemma matchingWorkers_NoWorkers:
  "matchingWorkers r env bt arch os = Err ErrNoWorkers \<longleftrightarrow> Count r = 0"
  using mem.empty_lists_nothing[of r "env_now env" "env_order env" bt arch]
  by (auto simp: matchingWorkers_def Let_def)

lemma admissible_not_unhealthy: "admissible r env bt arch os w \<Longrightarrow> State w \<noteq> WorkerStateUnhealthy"
  using ListByCapability_order by (auto simp: admissible_def)

text \<open>
  Every implementation is: take the matching workers, choose among them, fail with
  \<^verbatim>\<open>ErrNoMatchingWorkers\<close>. The three laws of the contract follow from laws of the choice.
\<close>

lemma choose_from_NoWorkers:
  assumes "\<And>ws. choice ws \<noteq> Err ErrNoWorkers"
  shows "outcome_bind (matchingWorkers r env bt arch os) choice = Err ErrNoWorkers \<longleftrightarrow> Count r = 0"
  using assms matchingWorkers_NoWorkers[of r env bt arch os]
  by (cases "matchingWorkers r env bt arch os") auto

lemma choose_from_Ok:
  assumes "outcome_bind (matchingWorkers r env bt arch os) choice = Ok w"
    and "\<And>ws. choice ws = Ok w \<Longrightarrow> w \<in> set ws \<and> P w"
  shows "admissible r env bt arch os w \<and> P w"
  using assms matchingWorkers_Ok[of r env bt arch os]
  by (cases "matchingWorkers r env bt arch os") auto

lemma choose_from_complete:
  assumes "\<And>ws. (\<exists>w \<in> set ws. State w \<noteq> WorkerStateUnhealthy \<and> hasCapacity w) \<Longrightarrow> \<exists>w. choice ws = Ok w"
    and "admissible r env bt arch os w" and "hasCapacity w"
  shows "\<exists>w. outcome_bind (matchingWorkers r env bt arch os) choice = Ok w"
proof (cases "matchingWorkers r env bt arch os")
  case (Ok ws)
  with assms(2,3) have "\<exists>w \<in> set ws. State w \<noteq> WorkerStateUnhealthy \<and> hasCapacity w"
    using matchingWorkers_Ok[OF Ok] admissible_not_unhealthy[OF assms(2)] by blast
  with Ok assms(1) show ?thesis by auto
next
  case (Err e)
  with assms(2) matchingWorkers_Err show ?thesis by blast
qed simp

subsection \<open>The implementations meet the contract\<close>

subsubsection \<open>Round robin\<close>

lemma SimpleScheduler_available_mem:
  assumes "w \<in> set (SimpleScheduler_available ws)"
  shows "w \<in> set ws \<and> hasCapacity w"
  using assms by (auto simp: SimpleScheduler_available_def hasCapacity_def Let_def split: if_splits)

lemma SimpleScheduler_available_nonempty:
  assumes "\<exists>w \<in> set ws. State w \<noteq> WorkerStateUnhealthy \<and> hasCapacity w"
  shows "SimpleScheduler_available ws \<noteq> []"
  using assms by (auto simp: SimpleScheduler_available_def hasCapacity_def Let_def filter_empty_conv)

lemma smod_nonneg:
  fixes a n :: int
  assumes "0 \<le> a" and "0 < n"
  shows "a smod n = a mod n"
  using assms by (cases "a = 0") (auto simp: signed_modulo_int_def abs_if)

lemma smod_less:
  fixes a n :: int
  assumes "0 < n"
  shows "a smod n < n"
proof -
  have "0 \<le> \<bar>a\<bar> mod n" "\<bar>a\<bar> mod n < n" using assms by simp_all
  with assms show ?thesis by (auto simp: signed_modulo_int_def sgn_if)
qed

lemma sint_small:
  fixes c :: "64 word"
  assumes "uint c < 2 ^ 63"
  shows "sint c = uint c"
proof -
  have "signed_take_bit 63 (uint c) = uint c"
    by (rule signed_take_bit_int_eq_self) (use assms uint_ge_0[of c] in linarith)+
  then show ?thesis by (simp add: sint_uint)
qed

lemma sint_large:
  fixes c :: "64 word"
  assumes "uint c \<ge> 2 ^ 63"
  shows "sint c = uint c - 2 ^ 64"
proof -
  have "uint c < 2 ^ 64" using uint_lt2p[of c] by simp
  with assms have "(uint c + 2 ^ 63) mod 2 ^ 64 = uint c - 2 ^ 63"
    by (simp add: mod_pos_neg_trivial mod_if)
      (smt (verit) minus_mod_self2 mod_pos_pos_trivial)
  then show ?thesis
    by (simp add: sint_uint signed_take_bit_eq_take_bit_shift take_bit_eq_mod)
qed

lemma uint_succ:
  fixes c :: "64 word"
  assumes "uint c < 2 ^ 63"
  shows "uint (c + 1) = uint c + 1"
  using assms by (simp add: uint_word_ariths)

lemma roundRobin_Ok:
  assumes "uint idx < 2 ^ 63" and "ws \<noteq> []"
  shows "roundRobin idx ws = Ok (ws ! (unat idx mod length ws))"
proof -
  have "sint idx smod int (length ws) = int (unat idx mod length ws)"
    using assms sint_small[of idx] smod_nonneg[of "uint idx" "int (length ws)"]
    by (simp add: zmod_int)
  then show ?thesis by (simp add: roundRobin_def)
qed

lemma roundRobin_mem:
  assumes "roundRobin idx ws = Ok w" and "ws \<noteq> []"
  shows "w \<in> set ws"
proof -
  let ?i = "sint idx smod int (length ws)"
  have "?i < int (length ws)"
    using assms(2) smod_less by simp
  moreover have "\<not> ?i < 0" and "w = ws ! nat ?i"
    using assms(1) by (auto simp: roundRobin_def Let_def split: if_splits)
  ultimately show ?thesis by (simp add: nat_less_iff)
qed

definition SimpleScheduler_choice :: "64 word \<Rightarrow> WorkerInfo list \<Rightarrow> (sched_error, WorkerInfo) outcome" where
  "SimpleScheduler_choice counter ws =
     (let available = SimpleScheduler_available ws
      in if available = [] then Err ErrNoMatchingWorkers else roundRobin (counter + 1) available)"

lemma SimpleScheduler_bind:
  "fst (SimpleScheduler_Select r env bt arch os counter) =
     outcome_bind (matchingWorkers r env bt arch os) (SimpleScheduler_choice counter)"
  by (cases "matchingWorkers r env bt arch os")
    (auto simp: SimpleScheduler_Select_def SimpleScheduler_choice_def Let_def)

lemma SimpleScheduler_choice_Ok:
  "SimpleScheduler_choice counter ws = Ok w \<Longrightarrow> w \<in> set ws \<and> hasCapacity w"
  using roundRobin_mem SimpleScheduler_available_mem
  by (fastforce simp: SimpleScheduler_choice_def Let_def split: if_splits)

lemma SimpleScheduler_choice_not_NoWorkers: "SimpleScheduler_choice counter ws \<noteq> Err ErrNoWorkers"
  by (simp add: SimpleScheduler_choice_def roundRobin_def Let_def)

definition counter_ready :: "64 word \<Rightarrow> bool" where
  "counter_ready counter \<longleftrightarrow> uint counter < 2 ^ 63 - 1"

lemma counter_ready_succ: "counter_ready counter \<Longrightarrow> uint (counter + 1) < 2 ^ 63"
  using uint_succ[of counter] by (simp add: counter_ready_def)

lemma SimpleScheduler_choice_ready:
  assumes "counter_ready counter"
  shows "SimpleScheduler_choice counter ws =
    (let available = SimpleScheduler_available ws
     in if available = [] then Err ErrNoMatchingWorkers
        else Ok (available ! (unat (counter + 1) mod length available)))"
  using roundRobin_Ok[OF counter_ready_succ[OF assms]]
  by (simp add: SimpleScheduler_choice_def Let_def)

lemma SimpleScheduler_choice_complete:
  assumes "counter_ready counter" and "\<exists>w \<in> set ws. State w \<noteq> WorkerStateUnhealthy \<and> hasCapacity w"
  shows "\<exists>w. SimpleScheduler_choice counter ws = Ok w"
  using SimpleScheduler_available_nonempty[OF assms(2)] SimpleScheduler_choice_ready[OF assms(1)]
  by (simp add: Let_def)

interpretation simple: capacity_scheduler
  "\<lambda>r env bt arch os counter. fst (SimpleScheduler_Select r env bt arch os counter)" counter_ready
proof (unfold_locales, unfold SimpleScheduler_bind)
  fix r env bt arch os counter w
  let ?run = "outcome_bind (matchingWorkers r env bt arch os) (SimpleScheduler_choice counter)"
  show "(?run = Err ErrNoWorkers) = (Count r = 0)"
    by (intro choose_from_NoWorkers SimpleScheduler_choice_not_NoWorkers)
  show "admissible r env bt arch os w" and "hasCapacity w" if "?run = Ok w"
    using choose_from_Ok[OF that] SimpleScheduler_choice_Ok by blast+
  show "?run \<noteq> Panic" if "counter_ready counter"
    by (cases "matchingWorkers r env bt arch os") (simp_all add: SimpleScheduler_choice_ready[OF that] Let_def)
  show "\<exists>w. ?run = Ok w" if "counter_ready counter" "\<exists>w. admissible r env bt arch os w \<and> hasCapacity w"
    using that(2) SimpleScheduler_choice_complete[OF that(1)]
      choose_from_complete[of "SimpleScheduler_choice counter"] by blast
qed

subsubsection \<open>Least loaded\<close>

definition LeastLoaded_choice :: "WorkerInfo list \<Rightarrow> (sched_error, WorkerInfo) outcome" where
  "LeastLoaded_choice ws =
     (case scan_best (\<lambda>w best. ActiveTasks w < ActiveTasks best)
             (filter (\<lambda>w. State w \<noteq> WorkerStateUnhealthy) ws) of
        None \<Rightarrow> Err ErrNoMatchingWorkers
      | Some best \<Rightarrow> Ok best)"

lemma LeastLoaded_bind:
  "LeastLoadedScheduler_Select r env bt arch os =
     outcome_bind (matchingWorkers r env bt arch os) LeastLoaded_choice"
  by (cases "matchingWorkers r env bt arch os")
    (auto simp: LeastLoadedScheduler_Select_def LeastLoaded_choice_def)

lemma LeastLoaded_choice_Ok:
  assumes "LeastLoaded_choice ws = Ok w"
  shows "w \<in> set ws \<and> (\<forall>w' \<in> set ws. State w' \<noteq> WorkerStateUnhealthy \<longrightarrow> ActiveTasks w \<le> ActiveTasks w')"
proof -
  have best: "scan_best (\<lambda>w best. ActiveTasks w < ActiveTasks best)
      (filter (\<lambda>w. State w \<noteq> WorkerStateUnhealthy) ws) = Some w"
    using assms by (auto simp: LeastLoaded_choice_def split: option.splits)
  show ?thesis
    using scan_best_mem[OF best] scan_best_least[OF best] by auto
qed

interpretation leastloaded: scheduler
  "\<lambda>r env bt arch os (_ :: unit). LeastLoadedScheduler_Select r env bt arch os" "\<lambda>_. True"
proof (unfold_locales, unfold LeastLoaded_bind)
  fix r env bt arch os w
  let ?run = "outcome_bind (matchingWorkers r env bt arch os) LeastLoaded_choice"
  show "(?run = Err ErrNoWorkers) = (Count r = 0)"
    by (intro choose_from_NoWorkers) (simp add: LeastLoaded_choice_def split: option.split)
  show "admissible r env bt arch os w" if "?run = Ok w"
    using choose_from_Ok[OF that, of "\<lambda>_. True"] LeastLoaded_choice_Ok by blast
  show "?run \<noteq> Panic"
    by (cases "matchingWorkers r env bt arch os") (simp_all add: LeastLoaded_choice_def split: option.split)
qed

subsubsection \<open>Power of two choices\<close>

lemma P2C_candidates_mem:
  assumes "w \<in> set (P2C_candidates cc ws)"
  shows "w \<in> set ws \<and> State w \<noteq> WorkerStateUnhealthy \<and> hasCapacity w"
  using assms by (auto simp: P2C_candidates_def hasCapacity_def Let_def split: if_splits)

lemma P2C_candidates_nonempty:
  assumes "\<exists>w \<in> set ws. State w \<noteq> WorkerStateUnhealthy \<and> hasCapacity w"
  shows "P2C_candidates cc ws \<noteq> []"
  using assms by (auto simp: P2C_candidates_def hasCapacity_def Let_def filter_empty_conv)

text \<open>A worker behind an open circuit is a candidate only when every worker with room is.\<close>

lemma P2C_candidates_open:
  assumes "w \<in> set (P2C_candidates cc ws)" and "circuitOpen cc w"
    and "w' \<in> set ws" and "State w' \<noteq> WorkerStateUnhealthy" and "hasCapacity w'"
  shows "circuitOpen cc w'"
  using assms
  by (auto simp: P2C_candidates_def hasCapacity_def Let_def filter_empty_conv not_le split: if_splits)

lemma cryptoRandInt_range: "0 < n \<Longrightarrow> 0 \<le> cryptoRandInt d n \<and> cryptoRandInt d n < n"
  by (simp add: cryptoRandInt_def split: option.split)

lemma pickTwo_range:
  assumes "pickTwo d1 d2 n = (i, j)" and "n \<ge> 2"
  shows "0 \<le> i \<and> i < n \<and> 0 \<le> j \<and> j < n \<and> i \<noteq> j"
  using assms cryptoRandInt_range[of n d1] cryptoRandInt_range[of "n - 1" d2]
  by (auto simp: pickTwo_def Let_def split: if_splits)

text \<open>Every ordered pair of distinct positions is drawn by some pair of random numbers.\<close>

lemma pickTwo_surj:
  assumes "0 \<le> i" "i < n" "0 \<le> j" "j < n" "i \<noteq> j"
  shows "\<exists>a b. pickTwo (Some a) (Some b) n = (i, j)"
proof -
  let ?b = "if j > i then j - 1 else j"
  have "pickTwo (Some (nat i)) (Some (nat ?b)) n = (i, j)"
    using assms by (auto simp: pickTwo_def cryptoRandInt_def Let_def)
  then show ?thesis by blast
qed

definition P2C_choice ::
    "circuit_checker \<Rightarrow> LatencyTracker \<Rightarrow> sched_env \<Rightarrow> Architecture \<Rightarrow> WorkerInfo list \<Rightarrow> (sched_error, WorkerInfo) outcome" where
  "P2C_choice cc lt env arch ws =
     (let candidates = P2C_candidates cc ws
      in if candidates = [] then Err ErrNoMatchingWorkers
         else if length candidates = 1 then Ok (candidates ! 0)
         else let (idx1, idx2) = pickTwo (env_draw env 0) (env_draw env 1) (int (length candidates));
                  w1 = candidates ! nat idx1;
                  w2 = candidates ! nat idx2
              in if scoreWorker lt w1 arch \<ge> scoreWorker lt w2 arch then Ok w1 else Ok w2)"

lemma P2C_bind:
  "P2CScheduler_Select cc lt r env bt arch os =
     outcome_bind (matchingWorkers r env bt arch os) (P2C_choice cc lt env arch)"
  by (cases "matchingWorkers r env bt arch os")
    (auto simp: P2CScheduler_Select_def P2C_choice_def)

text \<open>What is drawn: the one candidate, or the better of two different positions.\<close>

lemma P2C_choice_cases:
  assumes "P2C_candidates cc ws \<noteq> []"
  obtains (one) w where "P2C_candidates cc ws = [w]" "P2C_choice cc lt env arch ws = Ok w"
  | (two) i j where "i < length (P2C_candidates cc ws)" "j < length (P2C_candidates cc ws)" "i \<noteq> j"
      "P2C_choice cc lt env arch ws = Ok (P2C_candidates cc ws ! i)"
      "scoreWorker lt (P2C_candidates cc ws ! j) arch \<le> scoreWorker lt (P2C_candidates cc ws ! i) arch"
proof (cases "length (P2C_candidates cc ws) = 1")
  case True
  then obtain w where "P2C_candidates cc ws = [w]"
    by (metis One_nat_def length_0_conv length_Suc_conv)
  with one show ?thesis by (simp add: P2C_choice_def)
next
  case False
  let ?c = "P2C_candidates cc ws"
  obtain a b where p: "pickTwo (env_draw env 0) (env_draw env 1) (int (length ?c)) = (a, b)"
    by (cases "pickTwo (env_draw env 0) (env_draw env 1) (int (length ?c))")
  have "length ?c \<noteq> 0" using assms by simp
  with False have "int (length ?c) \<ge> 2" by linarith
  with p have r: "0 \<le> a" "nat a < length ?c" "0 \<le> b" "nat b < length ?c" "nat a \<noteq> nat b"
    using pickTwo_range[OF p] by (simp_all add: nat_less_iff eq_nat_nat_iff)
  have run: "P2C_choice cc lt env arch ws =
      (if scoreWorker lt (?c ! nat a) arch \<ge> scoreWorker lt (?c ! nat b) arch then Ok (?c ! nat a) else Ok (?c ! nat b))"
    using assms False p by (simp add: P2C_choice_def)
  show ?thesis
    using r run two[of "nat a" "nat b"] two[of "nat b" "nat a"]
    by (cases "scoreWorker lt (?c ! nat a) arch \<ge> scoreWorker lt (?c ! nat b) arch") auto
qed

lemma P2C_choice_Ok:
  assumes "P2C_choice cc lt env arch ws = Ok w"
  shows "w \<in> set (P2C_candidates cc ws)"
proof (cases "P2C_candidates cc ws = []")
  case True
  with assms show ?thesis by (simp add: P2C_choice_def)
next
  case False
  then show ?thesis
    by (cases rule: P2C_choice_cases[of cc ws lt env arch]) (use assms in auto)
qed

lemma P2C_choice_total:
  "P2C_choice cc lt env arch ws \<noteq> Panic \<and> P2C_choice cc lt env arch ws \<noteq> Err ErrNoWorkers \<and>
   (P2C_candidates cc ws \<noteq> [] \<longrightarrow> (\<exists>w. P2C_choice cc lt env arch ws = Ok w))"
proof (cases "P2C_candidates cc ws = []")
  case True
  then show ?thesis by (simp add: P2C_choice_def)
next
  case False
  then show ?thesis by (cases rule: P2C_choice_cases[of cc ws lt env arch]) auto
qed

text \<open>The state that a selection reads: the circuit checker and the latencies.\<close>

interpretation p2c: capacity_scheduler
  "\<lambda>r env bt arch os (cc, lt). P2CScheduler_Select cc lt r env bt arch os" "\<lambda>_. True"
proof (unfold_locales, unfold P2C_bind)
  fix r env bt arch os w and s :: "circuit_checker \<times> LatencyTracker"
  obtain cc lt where s: "s = (cc, lt)" by (cases s)
  let ?run = "case s of (cc, lt) \<Rightarrow> outcome_bind (matchingWorkers r env bt arch os) (P2C_choice cc lt env arch)"
  show "(?run = Err ErrNoWorkers) = (Count r = 0)"
    unfolding s prod.case using P2C_choice_total by (intro choose_from_NoWorkers) blast
  show "admissible r env bt arch os w" and "hasCapacity w" if "?run = Ok w"
    using that unfolding s prod.case
    using choose_from_Ok[of r env bt arch os "P2C_choice cc lt env arch" w hasCapacity]
      P2C_choice_Ok P2C_candidates_mem by blast+
  show "?run \<noteq> Panic"
    unfolding s prod.case using P2C_choice_total[of cc lt env arch]
    by (cases "matchingWorkers r env bt arch os") auto
  show "\<exists>w. ?run = Ok w" if "\<exists>w. admissible r env bt arch os w \<and> hasCapacity w"
    using that unfolding s prod.case
    using choose_from_complete[of "P2C_choice cc lt env arch"] P2C_choice_total P2C_candidates_nonempty
    by (metis (no_types, lifting))
qed

subsection \<open>Properties\<close>

text \<open>Successive calls of the round robin on a registry that does not change.\<close>

primrec SimpleScheduler_run ::
    "nat \<Rightarrow> InMemoryRegistry \<Rightarrow> sched_env \<Rightarrow> BuildType \<Rightarrow> Architecture \<Rightarrow> string \<Rightarrow> 64 word \<Rightarrow>
       (sched_error, WorkerInfo) outcome list" where
  "SimpleScheduler_run 0 r env bt arch os counter = []"
| "SimpleScheduler_run (Suc n) r env bt arch os counter =
     (case SimpleScheduler_Select r env bt arch os counter of
        (w, counter') \<Rightarrow> w # SimpleScheduler_run n r env bt arch os counter')"

definition sampleRegistry :: InMemoryRegistry where
  "sampleRegistry = Add 5 (sampleWorker ''w2'') (Add 5 (sampleWorker ''w1'') (NewInMemoryRegistry 60))"

definition sampleEnv :: sched_env where
  "sampleEnv = \<lparr>env_now = 10, env_order = [''w1'', ''w2''], env_draw = (\<lambda>_. Some 0)\<rparr>"

definition sampleRegistered :: "string \<Rightarrow> WorkerInfo" where
  "sampleRegistered wid = (sampleWorker wid)\<lparr>RegisteredAt := 5, LastHeartbeat := 5\<rparr>"

lemma sampleRegistry_lookup:
  "fmlookup (workers sampleRegistry) wid =
     (if wid = ''w1'' \<or> wid = ''w2'' then Some (sampleRegistered wid) else None)"
  by (simp add: sampleRegistry_def Add_lookup NewInMemoryRegistry_def sampleRegistered_def sampleWorker_def)

lemma sampleRegistry_ttl: "ttl sampleRegistry = 60"
  by (simp add: sampleRegistry_def Add_def NewInMemoryRegistry_def sampleWorker_def)

lemma sampleRegistry_inv: "registry_inv sampleRegistry"
  unfolding sampleRegistry_def
  by (intro Add_inv New_inv) (simp_all add: sampleWorker_def is_int32_def)

lemma sampleRegistry_order: "iter_order (workers sampleRegistry) (env_order sampleEnv)"
  by (auto simp: iter_order_def sampleEnv_def sampleRegistry_def Add_def NewInMemoryRegistry_def sampleWorker_def)

lemma sampleRegistry_listed:
  "ListByCapability (env_now sampleEnv) (env_order sampleEnv) BUILD_TYPE_CPP ARCH_X86_64 sampleRegistry =
     [sampleRegistered ''w1'', sampleRegistered ''w2'']"
  by (simp add: ListByCapability_def sampleEnv_def sampleRegistry_lookup sampleRegistry_ttl
      sampleRegistered_def sampleWorker_def sampleCaps_def IsHealthy_def time_sub_def
      maxDuration_def minDuration_def matchesCapability_def)

lemma sampleRegistry_matching:
  "matchingWorkers sampleRegistry sampleEnv BUILD_TYPE_CPP ARCH_X86_64 '''' =
     Ok [sampleRegistered ''w1'', sampleRegistered ''w2'']"
  by (simp add: matchingWorkers_def sampleRegistry_listed)

lemma sampleRegistered_free: "hasCapacity (sampleRegistered wid)"
  by (simp add: sampleRegistered_def sampleWorker_def hasCapacity_def maxParallel_def)

lemma sampleRegistry_admissible: "admissible sampleRegistry sampleEnv BUILD_TYPE_CPP ARCH_X86_64 '''' (sampleRegistered ''w1'')"
  by (simp add: admissible_def sampleRegistry_listed osAdmits_def)

text \<open>
  The power-of-two-choices scheduler succeeds exactly when some worker that is registered,
  healthy, able to do the build and admitted by the OS filter has a free slot; the worker it returns is
  registered under its ID, is not unhealthy, matches the request and has a free slot.
\<close>

theorem P2C_Select_correct:
  assumes "registry_inv r" and "iter_order (workers r) (env_order env)"
  shows "((\<exists>w. P2CScheduler_Select cc lt r env bt arch os = Ok w) \<longleftrightarrow>
            (\<exists>w. admissible r env bt arch os w \<and> hasCapacity w))
    \<and> (\<forall>w. P2CScheduler_Select cc lt r env bt arch os = Ok w \<longrightarrow>
         Get (ID w) r = Some w \<and> State w \<noteq> WorkerStateUnhealthy \<and>
         matchesCapability (Capabilities w) bt arch \<and> osAdmits os w \<and> ActiveTasks w < maxParallel w)"
proof -
  note run = p2c.select_iff[where s = "(cc, lt)", of r env bt arch os, simplified]
    p2c.select_admissible[of r env bt arch os "(cc, lt)", simplified]
    p2c.select_capacity[of r env bt arch os "(cc, lt)", simplified]
    p2c.select_registered[of r env bt arch os "(cc, lt)", OF assms, simplified]
  show ?thesis
    using run by (auto simp: hasCapacity_def admissible_def)
qed

lemma P2C_Select_correct_witness:
  "\<exists>w. P2CScheduler_Select None NewLatencyTracker sampleRegistry sampleEnv BUILD_TYPE_CPP ARCH_X86_64 '''' = Ok w"
  using P2C_Select_correct[OF sampleRegistry_inv sampleRegistry_order,
      of None NewLatencyTracker BUILD_TYPE_CPP ARCH_X86_64 "''''"]
    sampleRegistry_admissible sampleRegistered_free by blast

text \<open>
  Power of two choices: with two or more candidates the selected one is at one position
  and another position holds a candidate that scores no better; so a candidate whose score
  is strictly below every other position's is never selected, whatever is drawn.
\<close>

theorem P2C_never_strictly_worst:
  assumes "matchingWorkers r env bt arch os = Ok ws" and "length (P2C_candidates cc ws) \<ge> 2"
  shows "\<exists>i j. i < length (P2C_candidates cc ws) \<and> j < length (P2C_candidates cc ws) \<and> i \<noteq> j \<and>
    P2CScheduler_Select cc lt r env bt arch os = Ok (P2C_candidates cc ws ! i) \<and>
    scoreWorker lt (P2C_candidates cc ws ! j) arch \<le> scoreWorker lt (P2C_candidates cc ws ! i) arch"
proof -
  have run: "P2CScheduler_Select cc lt r env bt arch os = P2C_choice cc lt env arch ws"
    using assms(1) by (simp add: P2C_bind)
  have "P2C_candidates cc ws \<noteq> []" using assms(2) by auto
  then show ?thesis
    unfolding run using assms(2) by (cases rule: P2C_choice_cases[of cc ws lt env arch]) auto
qed

lemma sample_candidates:
  "P2C_candidates None [sampleRegistered ''w1'', sampleRegistered ''w2''] = [sampleRegistered ''w1'', sampleRegistered ''w2'']"
  by (simp add: P2C_candidates_def circuitOpen_def sampleRegistered_def sampleWorker_def maxParallel_def)

lemma P2C_never_strictly_worst_witness:
  "\<exists>i < 2. P2CScheduler_Select None NewLatencyTracker sampleRegistry sampleEnv BUILD_TYPE_CPP ARCH_X86_64 '''' =
     Ok ([sampleRegistered ''w1'', sampleRegistered ''w2''] ! i)"
  using P2C_never_strictly_worst[OF sampleRegistry_matching, of None NewLatencyTracker]
  by (fastforce simp: sample_candidates numeral_2_eq_2)

text \<open>
  Circuit breakers are respected as long as there is a choice: a worker behind an open
  circuit is selected only if every admissible worker with a free slot is behind one.
\<close>

theorem P2C_open_only_as_last_resort:
  assumes "P2CScheduler_Select cc lt r env bt arch os = Ok w" and "circuitOpen cc w"
    and "admissible r env bt arch os w'" and "ActiveTasks w' < maxParallel w'"
  shows "circuitOpen cc w'"
proof -
  obtain ws where ws: "matchingWorkers r env bt arch os = Ok ws" "P2C_choice cc lt env arch ws = Ok w"
    using assms(1) by (auto simp: P2C_bind outcome_bind_eq_Ok)
  have "w' \<in> set ws" using matchingWorkers_Ok[OF ws(1)] assms(3) by blast
  then show ?thesis
    using P2C_candidates_open[OF P2C_choice_Ok[OF ws(2)] assms(2)] assms(4)
      admissible_not_unhealthy[OF assms(3)] by (simp add: hasCapacity_def)
qed

lemma P2C_open_only_as_last_resort_witness:
  "circuitOpen (Some (\<lambda>_. True)) (sampleRegistered ''w1'')"
proof -
  obtain w where "P2CScheduler_Select (Some (\<lambda>_. True)) NewLatencyTracker sampleRegistry sampleEnv
      BUILD_TYPE_CPP ARCH_X86_64 '''' = Ok w"
    using p2c.select_complete[where s = "(Some (\<lambda>_. True), NewLatencyTracker)", of sampleRegistry sampleEnv]
      sampleRegistry_admissible sampleRegistered_free by fastforce
  then show ?thesis
    using sampleRegistry_admissible sampleRegistered_free[unfolded hasCapacity_def]
    by (intro P2C_open_only_as_last_resort[where w' = "sampleRegistered ''w1''"])
      (simp_all add: circuitOpen_def)
qed

text \<open>
  \<^verbatim>\<open>pickTwo(n)\<close> returns two different positions below \<open>n\<close> whatever the random source does,
  a failing read included, and every ordered pair of different positions can be drawn.
\<close>

theorem pickTwo_exact:
  "n \<ge> 2 \<Longrightarrow>
     {p. \<exists>d1 d2. pickTwo d1 d2 n = p} = {(i, j). 0 \<le> i \<and> i < n \<and> 0 \<le> j \<and> j < n \<and> i \<noteq> j}"
  using pickTwo_range[of _ _ n] pickTwo_surj[of _ n] by blast

lemma pickTwo_exact_witness:
  "{p. \<exists>d1 d2. pickTwo d1 d2 3 = p} = {(i, j). 0 \<le> i \<and> i < 3 \<and> 0 \<le> j \<and> j < 3 \<and> i \<noteq> j}"
  by (rule pickTwo_exact) simp

lemma SimpleScheduler_step:
  assumes "matchingWorkers r env bt arch os = Ok ws" and "SimpleScheduler_available ws \<noteq> []"
    and "counter_ready counter"
  shows "SimpleScheduler_Select r env bt arch os counter =
    (Ok (SimpleScheduler_available ws ! (unat (counter + 1) mod length (SimpleScheduler_available ws))), counter + 1)"
  using assms roundRobin_Ok[OF counter_ready_succ[OF assms(3)]]
  by (simp add: SimpleScheduler_Select_def Let_def)

lemma SimpleScheduler_run_nth:
  assumes "matchingWorkers r env bt arch os = Ok ws" and "SimpleScheduler_available ws \<noteq> []"
    and "uint counter + int n < 2 ^ 63"
  shows "SimpleScheduler_run n r env bt arch os counter =
    map (\<lambda>i. Ok (SimpleScheduler_available ws ! ((unat counter + 1 + i) mod length (SimpleScheduler_available ws)))) [0..<n]"
  using assms(3)
proof (induction n arbitrary: counter)
  case (Suc n)
  have ready: "counter_ready counter" using Suc.prems by (simp add: counter_ready_def)
  have u: "uint (counter + 1) = uint counter + 1" using Suc.prems by (intro uint_succ) simp
  then have n: "unat (counter + 1) = unat counter + 1"
    by (metis nat_add_distrib nat_one_as_int unat_eq_nat_uint uint_ge_0 zero_le_one)
  have "uint (counter + 1) + int n < 2 ^ 63" using Suc.prems u by simp
  from Suc.IH[OF this] show ?case
    by (simp add: SimpleScheduler_step[OF assms(1,2) ready] n map_upt_Suc del: upt_Suc)
qed simp

text \<open>
  Round robin is fair: as many successive selections as there are available workers, on an
  unchanged registry, return each available worker once, in the order of a rotation.
\<close>

theorem SimpleScheduler_fair:
  assumes "matchingWorkers r env bt arch os = Ok ws" and "SimpleScheduler_available ws \<noteq> []"
    and "uint counter + int (length (SimpleScheduler_available ws)) < 2 ^ 63"
  shows "SimpleScheduler_run (length (SimpleScheduler_available ws)) r env bt arch os counter =
    map Ok (rotate (unat counter + 1) (SimpleScheduler_available ws))"
  unfolding SimpleScheduler_run_nth[OF assms]
  by (rule nth_equalityI) (simp_all add: nth_rotate del: rotate_Suc)

lemma SimpleScheduler_fair_witness:
  "SimpleScheduler_run 2 sampleRegistry sampleEnv BUILD_TYPE_CPP ARCH_X86_64 '''' 0 =
     [Ok (sampleRegistered ''w2''), Ok (sampleRegistered ''w1'')]"
proof -
  have av: "SimpleScheduler_available [sampleRegistered ''w1'', sampleRegistered ''w2''] =
      [sampleRegistered ''w1'', sampleRegistered ''w2'']"
    by (simp add: SimpleScheduler_available_def sampleRegistered_def sampleWorker_def maxParallel_def)
  show ?thesis
    using SimpleScheduler_fair[OF sampleRegistry_matching, of 0] by (simp add: av numeral_2_eq_2)
qed

text \<open>
  Finding: the counter is unsigned but the index is computed with \<^verbatim>\<open>int(idx)\<close>. Once the counter
  has passed \<open>2 ^ 63\<close>, the remainder is negative unless the length divides it, and the
  selection panics with an index out of range.
\<close>

theorem SimpleScheduler_overflow_panics:
  assumes "matchingWorkers r env bt arch os = Ok ws" and "SimpleScheduler_available ws \<noteq> []"
    and "uint (counter + 1) \<ge> 2 ^ 63"
    and "\<not> int (length (SimpleScheduler_available ws)) dvd 2 ^ 64 - uint (counter + 1)"
  shows "fst (SimpleScheduler_Select r env bt arch os counter) = Panic"
proof -
  let ?n = "int (length (SimpleScheduler_available ws))" and ?k = "2 ^ 64 - uint (counter + 1)"
  have k: "sint (counter + 1) = - ?k" "0 < ?k"
    using sint_large[OF assms(3)] uint_lt2p[of "counter + 1"] by simp_all
  have "0 < ?k mod ?n"
    using assms(4) by (metis assms(2) dvd_eq_mod_eq_0 length_0_conv of_nat_0_less_iff
        neq0_conv order_le_less pos_mod_sign)
  then have "sint (counter + 1) smod ?n < 0"
    using k by (simp add: signed_modulo_int_def sgn_if)
  then show ?thesis
    using assms(1,2) by (simp add: SimpleScheduler_Select_def roundRobin_def Let_def)
qed

lemma SimpleScheduler_overflow_panics_witness:
  "fst (SimpleScheduler_Select sampleRegistry sampleEnv BUILD_TYPE_CPP ARCH_X86_64 '''' (2 ^ 63)) = Panic"
  by (rule SimpleScheduler_overflow_panics[OF sampleRegistry_matching])
    (simp_all add: SimpleScheduler_available_def sampleRegistered_def sampleWorker_def maxParallel_def)

text \<open>
  The least-loaded scheduler returns an admissible worker, and no admissible worker has
  fewer active tasks. (It does not look at the workers' capacity.)
\<close>

theorem LeastLoaded_minimal:
  assumes "LeastLoadedScheduler_Select r env bt arch os = Ok w"
  shows "admissible r env bt arch os w \<and>
    (\<forall>w'. admissible r env bt arch os w' \<longrightarrow> ActiveTasks w \<le> ActiveTasks w')"
proof -
  obtain ws where ws: "matchingWorkers r env bt arch os = Ok ws" "LeastLoaded_choice ws = Ok w"
    using assms by (auto simp: LeastLoaded_bind outcome_bind_eq_Ok)
  show ?thesis
    using LeastLoaded_choice_Ok[OF ws(2)] matchingWorkers_Ok[OF ws(1)] admissible_not_unhealthy by auto
qed

lemma LeastLoaded_minimal_witness:
  "LeastLoadedScheduler_Select sampleRegistry sampleEnv BUILD_TYPE_CPP ARCH_X86_64 '''' =
     Ok (sampleRegistered ''w1'') \<and>
   ActiveTasks (sampleRegistered ''w1'') \<le> ActiveTasks (sampleRegistered ''w2'')"
proof -
  have "LeastLoadedScheduler_Select sampleRegistry sampleEnv BUILD_TYPE_CPP ARCH_X86_64 '''' =
      Ok (sampleRegistered ''w1'')"
    by (simp add: LeastLoadedScheduler_Select_def sampleRegistry_matching scan_best_def
        sampleRegistered_def sampleWorker_def)
  moreover have "admissible sampleRegistry sampleEnv BUILD_TYPE_CPP ARCH_X86_64 '''' (sampleRegistered ''w2'')"
    by (simp add: admissible_def sampleRegistry_listed osAdmits_def)
  ultimately show ?thesis using LeastLoaded_minimal by blast
qed

end
