(* ===== verification/Learning.thy ===== *)
theory Learning
  imports Scheduler
begin

text \<open>
  What the three learning schedulers share (\<^verbatim>\<open>scheduler/feedback.go\<close>): the interface
  \<^verbatim>\<open>LearningScheduler\<close> as the locale \<open>learning_scheduler\<close>, the admission rule they all copy
  from the power-of-two-choices scheduler (\<open>eligible\<close>), and the values a reward can have.
  Every learning scheduler is a \<open>capacity_scheduler\<close> through the \<open>sublocale\<close> below.
\<close>

text \<open>A \<^verbatim>\<open>float64\<close> as far as the code distinguishes its values.\<close>

datatype float_value = Fin real | NaN | PosInf | NegInf

fun isNaN :: "float_value \<Rightarrow> bool" where
  "isNaN NaN = True"
| "isNaN _ = False"

fun isInf :: "float_value \<Rightarrow> bool" where
  "isInf PosInf = True"
| "isInf NegInf = True"
| "isInf _ = False"

fun finite_part :: "float_value \<Rightarrow> real" where
  "finite_part (Fin x) = x"
| "finite_part _ = 0"

text \<open>\<^verbatim>\<open>if workerID == "" || math.IsNaN(reward) || math.IsInf(reward, 0) { return }\<close>\<close>

definition usableReward :: "string \<Rightarrow> float_value \<Rightarrow> bool" where
  "usableReward wid reward \<longleftrightarrow> \<not> (wid = '''' \<or> isNaN reward \<or> isInf reward)"

lemma usableReward_Fin: "usableReward wid reward \<longleftrightarrow> wid \<noteq> '''' \<and> (\<exists>x. reward = Fin x)"
  by (cases reward) (auto simp: usableReward_def)

subsection \<open>The admission rule\<close>

definition eligible ::
    "circuit_checker \<Rightarrow> InMemoryRegistry \<Rightarrow> sched_env \<Rightarrow> BuildType \<Rightarrow> Architecture \<Rightarrow> string \<Rightarrow>
       (sched_error, WorkerInfo list) outcome" where
  "eligible cc r env bt arch os =
     outcome_bind (matchingWorkers r env bt arch os)
       (\<lambda>ws. if P2C_candidates cc ws = [] then Err ErrNoMatchingWorkers else Ok (P2C_candidates cc ws))"

lemma eligible_Ok:
  assumes "eligible cc r env bt arch os = Ok cs"
  shows "cs \<noteq> [] \<and> (\<forall>w \<in> set cs. admissible r env bt arch os w \<and> hasCapacity w)"
proof -
  obtain ws where ws: "matchingWorkers r env bt arch os = Ok ws" "cs = P2C_candidates cc ws" "cs \<noteq> []"
    using assms by (auto simp: eligible_def outcome_bind_eq_Ok split: if_splits)
  then show ?thesis
    using matchingWorkers_Ok[OF ws(1)] P2C_candidates_mem by blast
qed

lemma eligible_not_Panic [simp]: "eligible cc r env bt arch os \<noteq> Panic"
  by (cases "matchingWorkers r env bt arch os") (auto simp: eligible_def)

lemma eligible_NoWorkers: "eligible cc r env bt arch os = Err ErrNoWorkers \<longleftrightarrow> Count r = 0"
  unfolding eligible_def by (rule choose_from_NoWorkers) simp

lemma eligible_complete:
  assumes "admissible r env bt arch os w" and "hasCapacity w"
  shows "\<exists>cs. eligible cc r env bt arch os = Ok cs"
proof (cases "matchingWorkers r env bt arch os")
  case (Ok ws)
  have "w \<in> set ws" using matchingWorkers_Ok[OF Ok] assms(1) by blast
  then have "P2C_candidates cc ws \<noteq> []"
    using P2C_candidates_nonempty admissible_not_unhealthy[OF assms(1)] assms(2) by blast
  with Ok show ?thesis by (simp add: eligible_def)
next
  case (Err e)
  with assms(1) matchingWorkers_Err show ?thesis by blast
qed simp

lemma eligible_open:
  assumes "eligible cc r env bt arch os = Ok cs" and "w \<in> set cs" and "circuitOpen cc w"
    and "admissible r env bt arch os w'" and "hasCapacity w'"
  shows "circuitOpen cc w'"
proof -
  obtain ws where ws: "matchingWorkers r env bt arch os = Ok ws" "cs = P2C_candidates cc ws"
    using assms(1) by (auto simp: eligible_def outcome_bind_eq_Ok split: if_splits)
  have "w' \<in> set ws" using matchingWorkers_Ok[OF ws(1)] assms(4) by blast
  then show ?thesis
    using P2C_candidates_open assms(2,3,5) ws(2) admissible_not_unhealthy[OF assms(4)] by blast
qed

subsection \<open>The interface\<close>

fun outcome_map :: "('a \<Rightarrow> 'b) \<Rightarrow> ('e, 'a) outcome \<Rightarrow> ('e, 'b) outcome" where
  "outcome_map f (Ok a) = Ok (f a)"
| "outcome_map f (Err e) = Err e"
| "outcome_map f Panic = Panic"

lemma outcome_map_eq_Ok: "outcome_map f x = Ok b \<longleftrightarrow> (\<exists>a. x = Ok a \<and> b = f a)"
  by (cases x) auto

text \<open>
  \<open>select_info cc r env bt arch os ctx s\<close> is \<^verbatim>\<open>SelectWithDispatchInfo\<close>: the chosen worker with
  the learner's view, and the learner's next state. \<open>record_outcome r wid reward ok ctx s\<close>
  is \<^verbatim>\<open>RecordOutcome\<close>.
\<close>

locale learning_scheduler =
  fixes select_info ::
      "circuit_checker \<Rightarrow> InMemoryRegistry \<Rightarrow> sched_env \<Rightarrow> BuildType \<Rightarrow> Architecture \<Rightarrow> string \<Rightarrow> TaskContext \<Rightarrow> 's \<Rightarrow>
         (sched_error, WorkerInfo \<times> DispatchInfo) outcome \<times> 's"
    and record_outcome ::
      "InMemoryRegistry \<Rightarrow> string \<Rightarrow> float_value \<Rightarrow> bool \<Rightarrow> TaskContext \<Rightarrow> 's \<Rightarrow> 's"
  assumes select_eligible:
      "eligible cc r env bt arch os = Ok cs \<Longrightarrow>
         \<exists>w info. fst (select_info cc r env bt arch os ctx s) = Ok (w, info) \<and> w \<in> set cs"
    and select_rejected:
      "eligible cc r env bt arch os = Err e \<Longrightarrow> select_info cc r env bt arch os ctx s = (Err e, s)"
    and record_anonymous: "record_outcome r '''' reward ok ctx s = s"
begin

lemma select_info_Ok:
  assumes "fst (select_info cc r env bt arch os ctx s) = Ok (w, info)"
  obtains cs where "eligible cc r env bt arch os = Ok cs" "w \<in> set cs"
proof (cases "eligible cc r env bt arch os")
  case (Ok cs)
  from select_eligible[OF Ok, of ctx s] assms show ?thesis
    by (intro that[OF Ok]) auto
next
  case (Err e)
  with assms select_rejected show ?thesis by fastforce
qed simp

text \<open>Open circuits are avoided as long as some admissible worker with room has a closed one.\<close>

lemma select_open_only_as_last_resort:
  assumes "fst (select_info cc r env bt arch os ctx s) = Ok (w, info)" and "circuitOpen cc w"
    and "admissible r env bt arch os w'" and "hasCapacity w'"
  shows "circuitOpen cc w'"
  using assms eligible_open by (metis select_info_Ok)

lemma select_total_info:
  "(\<exists>p. fst (select_info cc r env bt arch os ctx s) = Ok p) \<or>
   (\<exists>e. fst (select_info cc r env bt arch os ctx s) = Err e)"
proof (cases "eligible cc r env bt arch os")
  case (Ok cs)
  then show ?thesis using select_eligible[OF Ok, of ctx s] by auto
next
  case (Err e)
  then show ?thesis using select_rejected by fastforce
qed simp

end

text \<open>
  \<^verbatim>\<open>Select\<close> of a learning scheduler calls \<^verbatim>\<open>SelectWithDispatchInfo\<close> with an empty context and drops
  the introspection: it meets the contract of the plain capacity-aware schedulers.
\<close>

sublocale learning_scheduler \<subseteq> plain: capacity_scheduler
  "\<lambda>r env bt arch os (cc, s). outcome_map fst (fst (select_info cc r env bt arch os emptyTaskContext s))"
  "\<lambda>_. True"
proof (unfold_locales, goal_cases)
  case (1 r env bt arch os cs w)
  obtain cc s where cs: "cs = (cc, s)" by (cases cs)
  with 1 obtain info where "fst (select_info cc r env bt arch os emptyTaskContext s) = Ok (w, info)"
    by (auto simp: outcome_map_eq_Ok)
  then show ?case by (rule select_info_Ok) (use eligible_Ok in blast)
next
  case (2 cs r env bt arch os)
  obtain cc s where cs: "cs = (cc, s)" by (cases cs)
  show ?case using select_total_info[of cc r env bt arch os emptyTaskContext s] by (auto simp: cs)
next
  case (3 r env bt arch os cs)
  obtain cc s where cs: "cs = (cc, s)" by (cases cs)
  show ?case
  proof (cases "eligible cc r env bt arch os")
    case (Ok el)
    with select_eligible[OF Ok, of emptyTaskContext s] eligible_NoWorkers[of cc r env bt arch os]
    show ?thesis by (auto simp: cs)
  next
    case (Err e)
    with select_rejected[OF Err] eligible_NoWorkers[of cc r env bt arch os]
    show ?thesis by (auto simp: cs)
  qed simp
next
  case (4 r env bt arch os cs w)
  obtain cc s where cs: "cs = (cc, s)" by (cases cs)
  with 4 obtain info where "fst (select_info cc r env bt arch os emptyTaskContext s) = Ok (w, info)"
    by (auto simp: outcome_map_eq_Ok)
  then show ?case by (rule select_info_Ok) (use eligible_Ok in blast)
next
  case (5 cs r env bt arch os)
  obtain cc s where cs: "cs = (cc, s)" by (cases cs)
  obtain el where "eligible cc r env bt arch os = Ok el" using 5 eligible_complete by blast
  from select_eligible[OF this, of emptyTaskContext s] show ?case by (auto simp: cs)
qed

end
