(* ===== verification/Epsilon_Greedy.thy ===== *)
theory Epsilon_Greedy
  imports Learning
begin

text \<open>
  The \<open>\<epsilon>\<close>-greedy bandit scheduler, \<^verbatim>\<open>scheduler/epsilon_greedy.go\<close>: a table of running mean
  rewards, one arm per worker, and a selection that explores with probability \<open>\<epsilon>\<close>. The draws
  of a selection are the environment's: draw 0 the eight bytes of \<^verbatim>\<open>uniformFloat\<close>, draw 1 the
  number of \<^verbatim>\<open>uniformInt\<close>. Rewards and averages are real numbers.
\<close>

subsection \<open>State and operations\<close>

record armState =
  arm_q :: real
  arm_n :: int

record EpsilonGreedyScheduler =
  epsilon :: real
  eg_values :: "(string, armState) fmap"

definition NewEpsilonGreedyScheduler :: "real \<Rightarrow> EpsilonGreedyScheduler" where
  "NewEpsilonGreedyScheduler e =
     (let eps = (if e < 0 then 0 else e);
          eps = (if eps > 1 then 1 else eps)
      in \<lparr>epsilon = eps, eg_values = fmempty\<rparr>)"

definition EpsilonGreedy_eligibleWorkers ::
    "circuit_checker \<Rightarrow> InMemoryRegistry \<Rightarrow> sched_env \<Rightarrow> BuildType \<Rightarrow> Architecture \<Rightarrow> string \<Rightarrow>
       (sched_error, WorkerInfo list) outcome" where
  "EpsilonGreedy_eligibleWorkers cc r env buildType arch clientOS =
     (let ws = ListByCapability (env_now env) (env_order env) buildType arch r
      in if ws = [] then (if Count r = 0 then Err ErrNoWorkers else Err ErrNoMatchingWorkers)
         else if clientOS \<noteq> '''' \<and> filterByOS ws clientOS = [] then Err ErrNoMatchingWorkers
         else
           let ws = (if clientOS \<noteq> '''' then filterByOS ws clientOS else ws);
               candidates = filter (\<lambda>w. \<not> (State w = WorkerStateUnhealthy \<or> circuitOpen cc w \<or>
                                          ActiveTasks w \<ge> maxParallel w)) ws;
               candidates = (if candidates = []
                 then filter (\<lambda>w. \<not> State w = WorkerStateUnhealthy \<and> ActiveTasks w < maxParallel w) ws
                 else candidates)
           in if candidates = [] then Err ErrNoMatchingWorkers else Ok candidates)"

text \<open>The top 53 of 64 random bits, scaled to \<open>[0, 1)\<close>; 0 if the read fails.\<close>

definition uniformFloat :: "nat option \<Rightarrow> real" where
  "uniformFloat d =
     (case d of None \<Rightarrow> 0
      | Some k \<Rightarrow> real (unat (drop_bit 11 (of_nat k :: 64 word))) / 2 ^ 53)"

definition uniformInt :: "nat option \<Rightarrow> int \<Rightarrow> int" where
  "uniformInt d n = (if n \<le> 0 then 0 else cryptoRandInt d n)"

definition qValue :: "string \<Rightarrow> EpsilonGreedyScheduler \<Rightarrow> real" where
  "qValue wid s = (case fmlookup (eg_values s) wid of Some st \<Rightarrow> arm_q st | None \<Rightarrow> 0)"

text \<open>\<^verbatim>\<open>bestQ\<close> starts at minus infinity, so the first candidate is always taken.\<close>

definition argmaxQ :: "WorkerInfo list \<Rightarrow> EpsilonGreedyScheduler \<Rightarrow> WorkerInfo option" where
  "argmaxQ candidates s = scan_best (\<lambda>w best. qValue (ID w) s > qValue (ID best) s) candidates"

definition EpsilonGreedy_SelectWithDispatchInfo ::
    "circuit_checker \<Rightarrow> InMemoryRegistry \<Rightarrow> sched_env \<Rightarrow> BuildType \<Rightarrow> Architecture \<Rightarrow> string \<Rightarrow>
       EpsilonGreedyScheduler \<Rightarrow> (sched_error, WorkerInfo \<times> DispatchInfo) outcome" where
  "EpsilonGreedy_SelectWithDispatchInfo cc r env buildType arch clientOS s =
     (case EpsilonGreedy_eligibleWorkers cc r env buildType arch clientOS of
        Err e \<Rightarrow> Err e
      | Panic \<Rightarrow> Panic
      | Ok candidates \<Rightarrow>
          if length candidates = 1 then
            (let w = candidates ! 0
             in Ok (w, \<lparr>QValueAtDispatch = qValue (ID w) s, WasExploration = False\<rparr>))
          else
            let exploring = (epsilon s > 0 \<and> uniformFloat (env_draw env 0) < epsilon s);
                chosen = (if exploring
                          then Some (candidates ! nat (uniformInt (env_draw env 1) (int (length candidates))))
                          else argmaxQ candidates s)
            in (case chosen of
                  None \<Rightarrow> Panic
                | Some w \<Rightarrow> Ok (w, \<lparr>QValueAtDispatch = qValue (ID w) s, WasExploration = exploring\<rparr>)))"

definition EpsilonGreedy_Select ::
    "circuit_checker \<Rightarrow> InMemoryRegistry \<Rightarrow> sched_env \<Rightarrow> BuildType \<Rightarrow> Architecture \<Rightarrow> string \<Rightarrow>
       EpsilonGreedyScheduler \<Rightarrow> (sched_error, WorkerInfo) outcome" where
  "EpsilonGreedy_Select cc r env buildType arch clientOS s =
     outcome_map fst (EpsilonGreedy_SelectWithDispatchInfo cc r env buildType arch clientOS s)"

definition updateArm :: "real \<Rightarrow> armState \<Rightarrow> armState" where
  "updateArm reward st =
     (let n = wrap64 (arm_n st + 1)
      in st\<lparr>arm_n := n, arm_q := arm_q st + (reward - arm_q st) / real_of_int n\<rparr>)"

definition EpsilonGreedy_RecordOutcome ::
    "string \<Rightarrow> float_value \<Rightarrow> EpsilonGreedyScheduler \<Rightarrow> EpsilonGreedyScheduler" where
  "EpsilonGreedy_RecordOutcome wid reward s =
     (if \<not> usableReward wid reward then s
      else let st = (case fmlookup (eg_values s) wid of
                       Some st \<Rightarrow> st | None \<Rightarrow> \<lparr>arm_q = 0, arm_n = 0\<rparr>)
           in s\<lparr>eg_values := fmupd wid (updateArm (finite_part reward) st) (eg_values s)\<rparr>)"

subsection \<open>Selection\<close>

lemma EpsilonGreedy_eligible:
  "EpsilonGreedy_eligibleWorkers cc r env bt arch os = eligible cc r env bt arch os"
  by (auto simp: EpsilonGreedy_eligibleWorkers_def eligible_def matchingWorkers_def P2C_candidates_def Let_def)

lemma uniformFloat_range: "0 \<le> uniformFloat d \<and> uniformFloat d < 1"
proof -
  have "unat (drop_bit 11 (w :: 64 word)) < 2 ^ 53" for w
  proof -
    have "unat w < 2 ^ 64" using unsigned_less[of w] by simp
    then have "unat w div 2 ^ 11 < 2 ^ 53" by (simp add: div_less_iff_less_mult)
    moreover have "unat (drop_bit 11 w) = unat w div 2 ^ 11"
      by (metis drop_bit_eq_div of_nat_drop_bit unat_drop_bit_eq)
    ultimately show ?thesis by simp
  qed
  then have "real (unat (drop_bit 11 (w :: 64 word))) < 2 ^ 53" for w
    by (metis of_nat_less_iff of_nat_numeral of_nat_power)
  moreover have "0 \<le> real (unat (drop_bit 11 (w :: 64 word)))" for w by (rule of_nat_0_le_iff)
  ultimately show ?thesis
    by (cases d) (simp_all only: uniformFloat_def option.case, simp_all add: divide_less_eq)
qed

lemma uniformInt_range: "0 < n \<Longrightarrow> 0 \<le> uniformInt d n \<and> uniformInt d n < n"
  by (simp add: uniformInt_def cryptoRandInt_range)

lemma argmaxQ_best:
  assumes "argmaxQ cs s = Some w" and "w' \<in> set cs"
  shows "qValue (ID w') s \<le> qValue (ID w) s"
  using scan_best_least[of "\<lambda>w. - qValue (ID w) s" cs w w'] assms
  by (simp add: argmaxQ_def)

lemma argmaxQ_first:
  assumes "argmaxQ cs s = Some w"
  shows "\<exists>xs ys. cs = xs @ w # ys \<and> (\<forall>x \<in> set xs. qValue (ID x) s < qValue (ID w) s)"
  using scan_best_first[of "\<lambda>w. - qValue (ID w) s" cs w] assms
  by (simp add: argmaxQ_def)

lemma argmaxQ_nonempty: "cs \<noteq> [] \<Longrightarrow> \<exists>w. argmaxQ cs s = Some w"
  using scan_best_None unfolding argmaxQ_def by (metis option.exhaust)

text \<open>The selection, by what the candidates and the draws are.\<close>

lemma EpsilonGreedy_select_cases:
  assumes "eligible cc r env bt arch os = Ok cs"
  obtains (only) w where "cs = [w]"
      "EpsilonGreedy_SelectWithDispatchInfo cc r env bt arch os s =
         Ok (w, \<lparr>QValueAtDispatch = qValue (ID w) s, WasExploration = False\<rparr>)"
  | (explore) i where "length cs \<ge> 2" "uniformFloat (env_draw env 0) < epsilon s" "i < length cs"
      "i = nat (uniformInt (env_draw env 1) (int (length cs)))"
      "EpsilonGreedy_SelectWithDispatchInfo cc r env bt arch os s =
         Ok (cs ! i, \<lparr>QValueAtDispatch = qValue (ID (cs ! i)) s, WasExploration = True\<rparr>)"
  | (exploit) w where "length cs \<ge> 2" "\<not> uniformFloat (env_draw env 0) < epsilon s" "argmaxQ cs s = Some w"
      "EpsilonGreedy_SelectWithDispatchInfo cc r env bt arch os s =
         Ok (w, \<lparr>QValueAtDispatch = qValue (ID w) s, WasExploration = False\<rparr>)"
proof -
  note sel = EpsilonGreedy_SelectWithDispatchInfo_def EpsilonGreedy_eligible assms Let_def
  have ne: "cs \<noteq> []" using eligible_Ok[OF assms] by blast
  consider w where "cs = [w]" | "length cs \<ge> 2"
    using ne by (cases cs rule: remdups_adj.cases) auto
  then show ?thesis
  proof cases
    case 1
    then show ?thesis by (intro only[OF 1]) (simp add: sel)
  next
    case 2
    then have len: "length cs \<noteq> 1" by simp
    show ?thesis
    proof (cases "uniformFloat (env_draw env 0) < epsilon s")
      case True
      moreover have "epsilon s > 0" using True uniformFloat_range[of "env_draw env 0"] by linarith
      moreover have "nat (uniformInt (env_draw env 1) (int (length cs))) < length cs"
        using uniformInt_range[of "int (length cs)" "env_draw env 1"] ne by (simp add: nat_less_iff)
      ultimately show ?thesis using 2 len by (intro explore) (auto simp: sel)
    next
      case False
      obtain w where "argmaxQ cs s = Some w" using argmaxQ_nonempty[OF ne] by blast
      with False 2 len show ?thesis by (intro exploit[of w]) (auto simp: sel)
    qed
  qed
qed

interpretation epsilon: learning_scheduler
  "\<lambda>cc r env bt arch os ctx s. (EpsilonGreedy_SelectWithDispatchInfo cc r env bt arch os s, s)"
  "\<lambda>r wid reward ok ctx s. EpsilonGreedy_RecordOutcome wid reward s"
proof (unfold_locales, goal_cases)
  case (1 cc r env bt arch os cs ctx s)
  from 1 show ?case
    by (cases rule: EpsilonGreedy_select_cases[of cc r env bt arch os cs s])
      (auto dest: scan_best_mem simp: argmaxQ_def)
next
  case (2 cc r env bt arch os e ctx s)
  then show ?case by (simp add: EpsilonGreedy_SelectWithDispatchInfo_def EpsilonGreedy_eligible)
next
  case (3 r reward ok ctx s)
  then show ?case by (simp add: EpsilonGreedy_RecordOutcome_def usableReward_def)
qed

subsection \<open>Learning\<close>

interpretation arms: keyed_estimator
  EpsilonGreedy_RecordOutcome "\<lambda>s k. fmlookup (eg_values s) k"
  "\<lambda>s st reward. updateArm (finite_part reward) (case st of Some st \<Rightarrow> st | None \<Rightarrow> \<lparr>arm_q = 0, arm_n = 0\<rparr>)"
  usableReward
  by unfold_locales (auto simp: EpsilonGreedy_RecordOutcome_def Let_def split: option.split)

text \<open>The incremental update computes the arithmetic mean.\<close>

lemma updateArm_mean:
  assumes "length xs + length ys < 2 ^ 63"
    and "arm_n st = int (length ys)" and "arm_q st * real (length ys) = sum_list ys"
  shows "arm_n (fold updateArm xs st) = int (length xs + length ys) \<and>
    arm_q (fold updateArm xs st) * real (length xs + length ys) = sum_list xs + sum_list ys"
  using assms
proof (induction xs arbitrary: st ys)
  case (Cons x xs)
  let ?n = "length ys" and ?st = "updateArm x st"
  have n: "wrap64 (int ?n + 1) = int ?n + 1"
    using Cons.prems(1) by (intro wrap64_id) (simp add: is_int64_def)
  have "arm_n ?st = int (length (x # ys))"
    using Cons.prems(2) n by (simp add: updateArm_def Let_def)
  moreover have "arm_q ?st * real (length (x # ys)) = sum_list (x # ys)"
  proof -
    have "arm_q ?st = arm_q st + (x - arm_q st) / (real ?n + 1)"
      using Cons.prems(2) n by (simp add: updateArm_def Let_def)
    then have "arm_q ?st * (real ?n + 1) = arm_q st * (real ?n + 1) + (x - arm_q st)"
      by (simp add: distrib_right)
    also have "\<dots> = arm_q st * real ?n + x" by (simp add: algebra_simps)
    finally show ?thesis using Cons.prems(3) by (simp add: add.commute)
  qed
  ultimately show ?case
    using Cons.IH[of "x # ys" ?st] Cons.prems(1) by (simp add: ac_simps)
qed simp

lemma fold_Some_arm:
  "fold (\<lambda>v st. Some (updateArm (f v) (case st of Some st \<Rightarrow> st | None \<Rightarrow> z))) vs (Some a) =
     Some (fold updateArm (map f vs) a)"
  by (induction vs arbitrary: a) auto

lemma fold_None_arm:
  "fold (\<lambda>v st. Some (updateArm (f v) (case st of Some st \<Rightarrow> st | None \<Rightarrow> z))) vs None =
     (if vs = [] then None else Some (fold updateArm (map f vs) z))"
  by (cases vs) (auto simp: fold_Some_arm)

subsection \<open>Properties\<close>

text \<open>
  After any run of outcomes on a new scheduler, the value of a worker is the arithmetic mean
  of the usable rewards reported for that worker, and 0 if there were none; rewards that are
  not numbers, or infinite, leave no trace.
\<close>

theorem EpsilonGreedy_sample_mean:
  assumes "length evs < 2 ^ 63"
  shows "qValue wid (fold (\<lambda>(k, v). EpsilonGreedy_RecordOutcome k v) evs (NewEpsilonGreedyScheduler e)) =
    (let own = map (finite_part \<circ> snd) (filter (\<lambda>(k, v). k = wid \<and> usableReward k v) evs)
     in sum_list own / real (length own))"
proof -
  let ?z = "\<lparr>arm_q = 0, arm_n = 0\<rparr>"
  define own where "own = map (finite_part \<circ> snd) (filter (\<lambda>(k, v). k = wid \<and> usableReward k v) evs)"
  have "length own < 2 ^ 63"
    unfolding own_def length_map
    using assms length_filter_le[of "\<lambda>(k, v). k = wid \<and> usableReward k v" evs] by (rule le_less_trans[rotated])
  from updateArm_mean[of own "[]" ?z] this
  have mean: "arm_q (fold updateArm own ?z) * real (length own) = sum_list own" by simp
  have "fmlookup (eg_values (fold (\<lambda>(k, v). EpsilonGreedy_RecordOutcome k v) evs (NewEpsilonGreedyScheduler e))) wid =
      (if own = [] then None else Some (fold updateArm own ?z))"
    using arms.peek_run[of evs "NewEpsilonGreedyScheduler e" wid]
    by (simp add: fold_None_arm own_def NewEpsilonGreedyScheduler_def Let_def)
  then show ?thesis
    using mean unfolding own_def[symmetric] Let_def
    by (auto simp: qValue_def field_simps)
qed

lemma EpsilonGreedy_sample_mean_witness:
  "qValue ''w1'' (fold (\<lambda>(k, v). EpsilonGreedy_RecordOutcome k v)
     [(''w1'', Fin 2), (''w2'', Fin 9), (''w1'', NaN), (''w1'', Fin 4)] (NewEpsilonGreedyScheduler 0)) = 3"
  by (subst EpsilonGreedy_sample_mean) (simp_all add: usableReward_def)

text \<open>
  A selection that does not explore returns an eligible worker of the highest value, and it
  reports that value; exploring and a single candidate aside, no eligible worker is better.
\<close>

theorem EpsilonGreedy_greedy:
  assumes "EpsilonGreedy_SelectWithDispatchInfo cc r env bt arch os s = Ok (w, info)"
    and "\<not> WasExploration info"
  shows "\<exists>cs. EpsilonGreedy_eligibleWorkers cc r env bt arch os = Ok cs \<and> w \<in> set cs \<and>
    (\<forall>w' \<in> set cs. qValue (ID w') s \<le> qValue (ID w) s) \<and> QValueAtDispatch info = qValue (ID w) s"
proof -
  obtain cs where cs: "eligible cc r env bt arch os = Ok cs" "w \<in> set cs"
    using epsilon.select_info_Ok[of cc r env bt arch os s w info] assms(1) by auto
  then show ?thesis
    unfolding EpsilonGreedy_eligible
    by (cases rule: EpsilonGreedy_select_cases[OF cs(1), of s]) (use assms argmaxQ_best in auto)
qed

lemma sample_eligible:
  "eligible None sampleRegistry sampleEnv BUILD_TYPE_CPP ARCH_X86_64 '''' =
     Ok [sampleRegistered ''w1'', sampleRegistered ''w2'']"
  by (simp add: eligible_def sampleRegistry_matching sample_candidates)

lemma EpsilonGreedy_greedy_witness:
  "\<exists>cs. EpsilonGreedy_eligibleWorkers None sampleRegistry sampleEnv BUILD_TYPE_CPP ARCH_X86_64 '''' = Ok cs \<and>
     sampleRegistered ''w1'' \<in> set cs"
proof -
  have "EpsilonGreedy_SelectWithDispatchInfo None sampleRegistry sampleEnv BUILD_TYPE_CPP ARCH_X86_64 ''''
      (NewEpsilonGreedyScheduler 0) = Ok (sampleRegistered ''w1'', emptyDispatchInfo)"
    by (simp add: EpsilonGreedy_SelectWithDispatchInfo_def EpsilonGreedy_eligible sample_eligible
        NewEpsilonGreedyScheduler_def argmaxQ_def scan_best_def qValue_def emptyDispatchInfo_def)
  from EpsilonGreedy_greedy[OF this] show ?thesis by (auto simp: emptyDispatchInfo_def)
qed

text \<open>
  Exploration reaches everyone: with \<open>\<epsilon> > 0\<close> and two or more eligible workers, each of them
  is the one selected for some outcome of the two random draws.
\<close>

theorem EpsilonGreedy_explores_all:
  assumes "EpsilonGreedy_eligibleWorkers cc r env bt arch os = Ok cs" and "w \<in> set cs" and "epsilon s > 0"
    and "length cs \<ge> 2"
  shows "\<exists>draw info. EpsilonGreedy_SelectWithDispatchInfo cc r (env\<lparr>env_draw := draw\<rparr>) bt arch os s = Ok (w, info)"
proof -
  obtain i where i: "i < length cs" "w = cs ! i" using assms(2) by (metis in_set_conv_nth)
  let ?env = "env\<lparr>env_draw := (\<lambda>k. if k = 0 then None else Some i)\<rparr>"
  have "eligible cc r ?env bt arch os = Ok cs"
    using assms(1) unfolding EpsilonGreedy_eligible by (simp add: eligible_def matchingWorkers_def)
  then have "\<exists>info. EpsilonGreedy_SelectWithDispatchInfo cc r ?env bt arch os s = Ok (w, info)"
    by (cases rule: EpsilonGreedy_select_cases[of cc r ?env bt arch os cs s])
      (use assms(3,4) i in \<open>auto simp: uniformFloat_def uniformInt_def cryptoRandInt_def\<close>)
  then show ?thesis by blast
qed

lemma EpsilonGreedy_explores_all_witness:
  "\<exists>draw info. EpsilonGreedy_SelectWithDispatchInfo None sampleRegistry (sampleEnv\<lparr>env_draw := draw\<rparr>)
     BUILD_TYPE_CPP ARCH_X86_64 '''' (NewEpsilonGreedyScheduler (1 / 10)) = Ok (sampleRegistered ''w2'', info)"
  by (rule EpsilonGreedy_explores_all[OF sample_eligible[folded EpsilonGreedy_eligible]])
    (simp_all add: NewEpsilonGreedyScheduler_def)

text \<open>
  Finding: a comment calls the tie-break of \<^verbatim>\<open>argmaxQ\<close> "deterministic for a given cluster
  snapshot". The candidates come in the order in which the worker map is ranged over, which Go
  leaves unspecified: on one registry with two cold workers, two iteration orders select
  different workers.
\<close>

theorem argmaxQ_order_dependent:
  "\<exists>order1 order2 w1 w2.
     iter_order (workers sampleRegistry) order1 \<and> iter_order (workers sampleRegistry) order2 \<and>
     EpsilonGreedy_Select None sampleRegistry (sampleEnv\<lparr>env_order := order1\<rparr>) BUILD_TYPE_CPP ARCH_X86_64 ''''
       (NewEpsilonGreedyScheduler 0) = Ok w1 \<and>
     EpsilonGreedy_Select None sampleRegistry (sampleEnv\<lparr>env_order := order2\<rparr>) BUILD_TYPE_CPP ARCH_X86_64 ''''
       (NewEpsilonGreedyScheduler 0) = Ok w2 \<and> ID w1 \<noteq> ID w2"
proof -
  have listed: "ListByCapability 10 [a, b] BUILD_TYPE_CPP ARCH_X86_64 sampleRegistry =
      [sampleRegistered a, sampleRegistered b]" if "{a, b} = {''w1'', ''w2''}" for a b
  proof -
    have "(a = ''w1'' \<or> a = ''w2'') \<and> (b = ''w1'' \<or> b = ''w2'')" using that by blast
    then show ?thesis
      by (auto simp: ListByCapability_def sampleRegistry_lookup sampleRegistry_ttl
        sampleRegistered_def sampleWorker_def sampleCaps_def IsHealthy_def time_sub_def
        maxDuration_def minDuration_def matchesCapability_def)
  qed
  have select: "EpsilonGreedy_Select None sampleRegistry (sampleEnv\<lparr>env_order := [a, b]\<rparr>) BUILD_TYPE_CPP ARCH_X86_64 ''''
      (NewEpsilonGreedyScheduler 0) = Ok (sampleRegistered a)" if "{a, b} = {''w1'', ''w2''}" for a b
    using listed[OF that]
    by (simp add: EpsilonGreedy_Select_def EpsilonGreedy_SelectWithDispatchInfo_def EpsilonGreedy_eligible
        eligible_def matchingWorkers_def sampleEnv_def P2C_candidates_def circuitOpen_def
        NewEpsilonGreedyScheduler_def argmaxQ_def scan_best_def qValue_def
        sampleRegistered_def sampleWorker_def maxParallel_def)
  have "iter_order (workers sampleRegistry) [''w1'', ''w2'']" "iter_order (workers sampleRegistry) [''w2'', ''w1'']"
    using sampleRegistry_order by (auto simp: iter_order_def sampleEnv_def)
  moreover have "EpsilonGreedy_Select None sampleRegistry (sampleEnv\<lparr>env_order := [''w1'', ''w2'']\<rparr>)
      BUILD_TYPE_CPP ARCH_X86_64 '''' (NewEpsilonGreedyScheduler 0) = Ok (sampleRegistered ''w1'')"
    by (rule select) simp
  moreover have "EpsilonGreedy_Select None sampleRegistry (sampleEnv\<lparr>env_order := [''w2'', ''w1'']\<rparr>)
      BUILD_TYPE_CPP ARCH_X86_64 '''' (NewEpsilonGreedyScheduler 0) = Ok (sampleRegistered ''w2'')"
    by (rule select) (rule insert_commute)
  moreover have "ID (sampleRegistered ''w1'') \<noteq> ID (sampleRegistered ''w2'')"
    by (simp add: sampleRegistered_def sampleWorker_def)
  ultimately show ?thesis by blast
qed

end
