(* ===== verification/HEFT.thy ===== *)
theory HEFT
  imports Learning
begin

text \<open>
  The earliest-finish-time scheduler, \<^verbatim>\<open>scheduler/heft.go\<close>: per worker an EWMA of compile times
  in milliseconds, seeded by a hardware prior when a worker is first considered, and a
  selection of the least finish time \<open>(active tasks + 1) * estimate\<close>. A selection changes
  the learner (it seeds priors), so it returns the next state.
\<close>

subsection \<open>State and operations\<close>

record HEFTScheduler =
  wbar :: "(string, EWMA) fmap"
  heft_alpha :: real
  heft_count :: "(string, int) fmap"

definition NewHEFTScheduler :: "real \<Rightarrow> HEFTScheduler" where
  "NewHEFTScheduler a =
     \<lparr>wbar = fmempty, heft_alpha = (if a \<le> 0 \<or> a > 1 then 3 / 10 else a), heft_count = fmempty\<rparr>"

definition wbarLocked :: "string \<Rightarrow> HEFTScheduler \<Rightarrow> EWMA \<times> HEFTScheduler" where
  "wbarLocked wid s =
     (case fmlookup (wbar s) wid of
        Some e \<Rightarrow> (e, s)
      | None \<Rightarrow> let e = NewEWMA (heft_alpha s) in (e, s\<lparr>wbar := fmupd wid e (wbar s)\<rparr>))"

definition HEFT_eligibleWorkers ::
    "circuit_checker \<Rightarrow> InMemoryRegistry \<Rightarrow> sched_env \<Rightarrow> BuildType \<Rightarrow> Architecture \<Rightarrow> string \<Rightarrow>
       (sched_error, WorkerInfo list) outcome" where
  "HEFT_eligibleWorkers cc r env buildType arch clientOS =
     (let ws = ListByCapability (env_now env) (env_order env) buildType arch r
      in if ws = [] then (if Count r = 0 then Err ErrNoWorkers else Err ErrNoMatchingWorkers)
         else if clientOS \<noteq> '''' \<and> filterByOS ws clientOS = [] then Err ErrNoMatchingWorkers
         else
           let ws = (if clientOS \<noteq> '''' then filterByOS ws clientOS else ws);
               cands = filter (\<lambda>w. \<not> (State w = WorkerStateUnhealthy \<or> circuitOpen cc w \<or>
                                     ActiveTasks w \<ge> maxParallel w)) ws;
               cands = (if cands = []
                 then filter (\<lambda>w. \<not> State w = WorkerStateUnhealthy \<and> ActiveTasks w < maxParallel w) ws
                 else cands)
           in if cands = [] then Err ErrNoMatchingWorkers else Ok cands)"

definition heft_prior :: "WorkerInfo \<Rightarrow> real" where
  "heft_prior w =
     (let cores = (case Capabilities w of
                     Some c \<Rightarrow> if CpuCores c > 0 then real_of_int (CpuCores c) else 4
                   | None \<Rightarrow> 4)
      in 800 / sqrt (cores / 4))"

text \<open>The variables of the selection loop, and its body.\<close>

record heft_loop =
  hl_state :: HEFTScheduler
  hl_best :: "(WorkerInfo \<times> real) option"
  hl_allCold :: bool

definition HEFT_visit :: "WorkerInfo \<Rightarrow> heft_loop \<Rightarrow> heft_loop" where
  "HEFT_visit w l =
     (let (e, s) = wbarLocked (ID w) (hl_state l);
          e' = (if \<not> IsInitialized e then EWMA_Update (heft_prior w) e else e);
          cold = (if \<not> IsInitialized e then hl_allCold l else False);
          w_ij = EWMA_Value e';
          avail = real_of_int (ActiveTasks w) * w_ij;
          eft = avail + w_ij
      in \<lparr>hl_state = s\<lparr>wbar := fmupd (ID w) e' (wbar s)\<rparr>,
          hl_best = (case hl_best l of
                       None \<Rightarrow> Some (w, eft)
                     | Some (best, bestEFT) \<Rightarrow> if eft < bestEFT then Some (w, eft) else Some (best, bestEFT)),
          hl_allCold = cold\<rparr>)"

definition HEFT_SelectWithDispatchInfo ::
    "circuit_checker \<Rightarrow> InMemoryRegistry \<Rightarrow> sched_env \<Rightarrow> BuildType \<Rightarrow> Architecture \<Rightarrow> string \<Rightarrow>
       HEFTScheduler \<Rightarrow> (sched_error, WorkerInfo \<times> DispatchInfo) outcome \<times> HEFTScheduler" where
  "HEFT_SelectWithDispatchInfo cc r env buildType arch clientOS s =
     (case HEFT_eligibleWorkers cc r env buildType arch clientOS of
        Err e \<Rightarrow> (Err e, s)
      | Panic \<Rightarrow> (Panic, s)
      | Ok candidates \<Rightarrow>
          if length candidates = 1 then (Ok (candidates ! 0, emptyDispatchInfo), s)
          else let l = fold HEFT_visit candidates \<lparr>hl_state = s, hl_best = None, hl_allCold = True\<rparr>
               in (case hl_best l of
                     None \<Rightarrow> (Panic, hl_state l)
                   | Some (best, bestEFT) \<Rightarrow>
                       (Ok (best, \<lparr>QValueAtDispatch = - bestEFT, WasExploration = hl_allCold l\<rparr>), hl_state l)))"

definition HEFT_Select ::
    "circuit_checker \<Rightarrow> InMemoryRegistry \<Rightarrow> sched_env \<Rightarrow> BuildType \<Rightarrow> Architecture \<Rightarrow> string \<Rightarrow>
       HEFTScheduler \<Rightarrow> (sched_error, WorkerInfo) outcome \<times> HEFTScheduler" where
  "HEFT_Select cc r env buildType arch clientOS s =
     (case HEFT_SelectWithDispatchInfo cc r env buildType arch clientOS s of
        (res, s') \<Rightarrow> (outcome_map fst res, s'))"

text \<open>The reward is ignored; the sample is the registry's average compile time.\<close>

definition HEFT_RecordOutcome :: "InMemoryRegistry \<Rightarrow> string \<Rightarrow> HEFTScheduler \<Rightarrow> HEFTScheduler" where
  "HEFT_RecordOutcome r wid s =
     (if wid = '''' then s
      else case Get wid r of
             None \<Rightarrow> s
           | Some w \<Rightarrow>
               if AvgCompileTime w > 0 then
                 (let ms = real_of_int (Milliseconds (AvgCompileTime w));
                      (e, s') = wbarLocked wid s;
                      n = (case fmlookup (heft_count s') wid of None \<Rightarrow> 0 | Some n \<Rightarrow> n)
                  in s'\<lparr>wbar := fmupd wid (EWMA_Update ms e) (wbar s'),
                       heft_count := fmupd wid (wrap64 (n + 1)) (heft_count s')\<rparr>)
               else s)"

subsection \<open>Estimates\<close>

text \<open>What a selection takes as the compile time of a worker, and the finish time it compares.\<close>

definition heft_estimate :: "HEFTScheduler \<Rightarrow> WorkerInfo \<Rightarrow> real" where
  "heft_estimate s w =
     (case fmlookup (wbar s) (ID w) of
        Some e \<Rightarrow> if IsInitialized e then EWMA_Value e else heft_prior w
      | None \<Rightarrow> heft_prior w)"

definition heft_eft :: "HEFTScheduler \<Rightarrow> WorkerInfo \<Rightarrow> real" where
  "heft_eft s w = (real_of_int (ActiveTasks w) + 1) * heft_estimate s w"

lemma HEFT_eligible: "HEFT_eligibleWorkers cc r env bt arch os = eligible cc r env bt arch os"
  by (auto simp: HEFT_eligibleWorkers_def eligible_def matchingWorkers_def P2C_candidates_def Let_def)

lemma EWMA_first_sample: "\<not> init e \<Longrightarrow> ewma_value (EWMA_Update v e) = v"
  by (simp add: EWMA_Update_def)

lemma HEFT_visit_best:
  "hl_best (HEFT_visit w l) =
     (case hl_best l of
        None \<Rightarrow> Some (w, heft_eft (hl_state l) w)
      | Some (b, beft) \<Rightarrow>
          if heft_eft (hl_state l) w < beft then Some (w, heft_eft (hl_state l) w) else Some (b, beft))"
  by (auto simp: HEFT_visit_def wbarLocked_def heft_eft_def heft_estimate_def IsInitialized_def
      EWMA_Value_def EWMA_first_sample NewEWMA_def Let_def distrib_right split: option.split)

text \<open>Visiting one worker leaves the estimates of the others alone.\<close>

lemma HEFT_visit_other:
  assumes "ID w' \<noteq> ID w"
  shows "heft_eft (hl_state (HEFT_visit w l)) w' = heft_eft (hl_state l) w'"
  using assms
  by (auto simp: HEFT_visit_def wbarLocked_def heft_eft_def heft_estimate_def Let_def split: option.split)

lemma HEFT_scan:
  assumes "distinct (map ID cs)"
    and "\<forall>w \<in> set cs. heft_eft (hl_state l) w = heft_eft s w"
    and "\<forall>b e. hl_best l = Some (b, e) \<longrightarrow> e = heft_eft s b"
  shows "hl_best (fold HEFT_visit cs l) =
    map_option (\<lambda>b. (b, heft_eft s b))
      (scan_best_from (\<lambda>a b. heft_eft s a < heft_eft s b) (map_option fst (hl_best l)) cs)"
  using assms
proof (induction cs arbitrary: l)
  case Nil
  then show ?case by (cases "hl_best l") auto
next
  case (Cons w cs)
  let ?l = "HEFT_visit w l"
  have "\<forall>x \<in> set cs. heft_eft (hl_state ?l) x = heft_eft s x"
  proof
    fix x assume x: "x \<in> set cs"
    then have "ID x \<noteq> ID w" using Cons.prems(1) by (auto simp: image_iff)
    with x Cons.prems(2) show "heft_eft (hl_state ?l) x = heft_eft s x"
      by (simp add: HEFT_visit_other)
  qed
  note seen = this
  define X where "X = (case map_option fst (hl_best l) of None \<Rightarrow> Some w
       | Some b \<Rightarrow> if heft_eft s w < heft_eft s b then Some w else Some b)"
  have best: "hl_best ?l = map_option (\<lambda>b. (b, heft_eft s b)) X"
    using Cons.prems(2,3) by (cases "hl_best l") (auto simp: HEFT_visit_best X_def)
  then have "map_option fst (hl_best ?l) = X" and val: "\<forall>b e. hl_best ?l = Some (b, e) \<longrightarrow> e = heft_eft s b"
    by (cases X; simp)+
  moreover have "distinct (map ID cs)" using Cons.prems(1) by simp
  ultimately show ?case
    using Cons.IH[OF _ seen val] by (simp add: X_def)
qed

lemma HEFT_loop:
  assumes "distinct (map ID cs)"
  shows "hl_best (fold HEFT_visit cs \<lparr>hl_state = s, hl_best = None, hl_allCold = True\<rparr>) =
    map_option (\<lambda>b. (b, heft_eft s b)) (scan_best (\<lambda>a b. heft_eft s a < heft_eft s b) cs)"
  using HEFT_scan[of cs "\<lparr>hl_state = s, hl_best = None, hl_allCold = True\<rparr>" s] assms
  by (simp add: scan_best_def)

lemma HEFT_loop_mem:
  assumes "\<forall>b e. hl_best l = Some (b, e) \<longrightarrow> b \<in> S" and "set cs \<subseteq> S"
    and "cs \<noteq> [] \<or> hl_best l \<noteq> None"
  shows "\<exists>b e. hl_best (fold HEFT_visit cs l) = Some (b, e) \<and> b \<in> S"
  using assms
proof (induction cs arbitrary: l)
  case (Cons w cs)
  have "\<forall>b e. hl_best (HEFT_visit w l) = Some (b, e) \<longrightarrow> b \<in> S" and "hl_best (HEFT_visit w l) \<noteq> None"
    using Cons.prems(1,2) by (auto simp: HEFT_visit_best split: option.splits if_splits)
  with Cons.IH[of "HEFT_visit w l"] Cons.prems(2) show ?case by auto
qed auto

text \<open>A cold worker that is considered gets its prior as the first sample of its average.\<close>

lemma HEFT_visit_wbar:
  "fmlookup (wbar (hl_state (HEFT_visit w l))) wid =
     (if wid = ID w then
        (let e = fst (wbarLocked (ID w) (hl_state l))
         in Some (if IsInitialized e then e else EWMA_Update (heft_prior w) e))
      else fmlookup (wbar (hl_state l)) wid)"
  by (auto simp: HEFT_visit_def wbarLocked_def Let_def split: option.split)

lemma HEFT_visit_alpha [simp]: "heft_alpha (hl_state (HEFT_visit w l)) = heft_alpha (hl_state l)"
  by (auto simp: HEFT_visit_def wbarLocked_def Let_def split: option.split)

lemma HEFT_fold_untouched:
  "wid \<notin> ID ` set cs \<Longrightarrow> fmlookup (wbar (hl_state (fold HEFT_visit cs l))) wid = fmlookup (wbar (hl_state l)) wid"
  by (induction cs arbitrary: l) (auto simp: HEFT_visit_wbar)

lemma HEFT_fold_seeds:
  assumes "distinct (map ID cs)" and "w \<in> set cs" and "fmlookup (wbar (hl_state l)) (ID w) = None"
  shows "fmlookup (wbar (hl_state (fold HEFT_visit cs l))) (ID w) =
    Some (EWMA_Update (heft_prior w) (NewEWMA (heft_alpha (hl_state l))))"
  using assms
proof (induction cs arbitrary: l)
  case (Cons v cs)
  show ?case
  proof (cases "v = w")
    case True
    then have "ID w \<notin> ID ` set cs" using Cons.prems(1) by auto
    with True Cons.prems(3) show ?thesis
      by (simp add: HEFT_fold_untouched HEFT_visit_wbar wbarLocked_def IsInitialized_def NewEWMA_def Let_def)
  next
    case False
    then have w: "w \<in> set cs" using Cons.prems(2) by simp
    then have "ID w \<noteq> ID v" using Cons.prems(1) by (auto simp: image_iff)
    then show ?thesis
      using Cons.IH[of "HEFT_visit v l"] Cons.prems w by (simp add: HEFT_visit_wbar)
  qed
qed simp

interpretation heft: learning_scheduler
  "\<lambda>cc r env bt arch os ctx s. HEFT_SelectWithDispatchInfo cc r env bt arch os s"
  "\<lambda>r wid reward ok ctx s. HEFT_RecordOutcome r wid s"
proof (unfold_locales, goal_cases)
  case (1 cc r env bt arch os cs ctx s)
  have "cs \<noteq> []" using eligible_Ok[OF 1] by blast
  then obtain b e where
      "hl_best (fold HEFT_visit cs \<lparr>hl_state = s, hl_best = None, hl_allCold = True\<rparr>) = Some (b, e)" "b \<in> set cs"
    using HEFT_loop_mem[of "\<lparr>hl_state = s, hl_best = None, hl_allCold = True\<rparr>" "set cs" cs] by auto
  with 1 \<open>cs \<noteq> []\<close> show ?case
    by (auto simp: HEFT_SelectWithDispatchInfo_def HEFT_eligible Let_def)
next
  case (2 cc r env bt arch os e ctx s)
  then show ?case by (simp add: HEFT_SelectWithDispatchInfo_def HEFT_eligible)
next
  case (3 r reward ok ctx s)
  then show ?case by (simp add: HEFT_RecordOutcome_def)
qed

lemma eligible_ids_distinct:
  assumes "registry_inv r" and "iter_order (workers r) (env_order env)"
    and "eligible cc r env bt arch os = Ok cs"
  shows "distinct (map ID cs)"
  using assms(3) ListByCapability_ids_distinct[OF assms(1,2), of "env_now env" bt arch]
  by (auto simp: eligible_def matchingWorkers_def P2C_candidates_def filterByOS_def Let_def
      distinct_map_filter split: if_splits)

subsection \<open>Properties\<close>

text \<open>
  The selected worker has the earliest estimated finish time among the eligible workers, and
  the reported value is the negative of that time. (With one candidate there is no choice and
  the report is empty.)
\<close>

theorem HEFT_earliest_finish:
  assumes "registry_inv r" and "iter_order (workers r) (env_order env)"
    and "fst (HEFT_SelectWithDispatchInfo cc r env bt arch os s) = Ok (w, info)"
  shows "\<exists>cs. HEFT_eligibleWorkers cc r env bt arch os = Ok cs \<and> w \<in> set cs \<and>
    (\<forall>w' \<in> set cs. heft_eft s w \<le> heft_eft s w') \<and>
    (length cs \<noteq> 1 \<longrightarrow> QValueAtDispatch info = - heft_eft s w)"
proof -
  obtain cs where cs: "eligible cc r env bt arch os = Ok cs" "w \<in> set cs"
    using heft.select_info_Ok[of cc r env bt arch os s w info] assms(3) by auto
  have "\<forall>w' \<in> set cs. heft_eft s w \<le> heft_eft s w'" if "length cs = 1"
    using that cs(2) by (cases cs) auto
  moreover have "scan_best (\<lambda>a b. heft_eft s a < heft_eft s b) cs = Some w \<and>
      QValueAtDispatch info = - heft_eft s w" if "length cs \<noteq> 1"
    using assms(3) cs(1) that HEFT_loop[OF eligible_ids_distinct[OF assms(1,2) cs(1)], of s]
    by (auto simp: HEFT_SelectWithDispatchInfo_def HEFT_eligible Let_def split: option.splits)
  ultimately show ?thesis
    unfolding HEFT_eligible using cs scan_best_least[of "heft_eft s" cs w] by metis
qed

lemma HEFT_earliest_finish_witness:
  "\<exists>w info. fst (HEFT_SelectWithDispatchInfo None sampleRegistry sampleEnv BUILD_TYPE_CPP ARCH_X86_64 ''''
      (NewHEFTScheduler 0)) = Ok (w, info) \<and>
    heft_eft (NewHEFTScheduler 0) w \<le> heft_eft (NewHEFTScheduler 0) (sampleRegistered ''w2'')"
proof -
  have el: "eligible None sampleRegistry sampleEnv BUILD_TYPE_CPP ARCH_X86_64 '''' =
      Ok [sampleRegistered ''w1'', sampleRegistered ''w2'']"
    by (simp add: eligible_def sampleRegistry_matching sample_candidates)
  obtain w info where sel: "fst (HEFT_SelectWithDispatchInfo None sampleRegistry sampleEnv BUILD_TYPE_CPP
      ARCH_X86_64 '''' (NewHEFTScheduler 0)) = Ok (w, info)"
    using heft.select_eligible[OF el, of "NewHEFTScheduler 0"] by auto
  from HEFT_earliest_finish[OF sampleRegistry_inv sampleRegistry_order sel] el sel
  show ?thesis by (auto simp: HEFT_eligible)
qed

text \<open>
  Finding: a comment says that the hardware prior is "a one-shot guess; the EWMA replaces it
  after the first real observation". The prior is fed to the average as a sample, so the first
  observation is blended with it and its weight only decays geometrically.
\<close>

theorem HEFT_prior_is_blended:
  assumes "HEFT_eligibleWorkers cc r env bt arch os = Ok cs" and "distinct (map ID cs)" and "length cs \<ge> 2"
    and "w \<in> set cs" and "ID w \<noteq> ''''"
    and "Get (ID w) r' = Some w'" and "ID w' = ID w" and "AvgCompileTime w' > 0"
  shows "heft_estimate (HEFT_RecordOutcome r' (ID w)
      (snd (HEFT_SelectWithDispatchInfo cc r env bt arch os (NewHEFTScheduler a)))) w' =
    (let al = heft_alpha (NewHEFTScheduler a)
     in al * real_of_int (Milliseconds (AvgCompileTime w')) + (1 - al) * heft_prior w)"
proof -
  let ?s = "NewHEFTScheduler a" and ?l = "\<lparr>hl_state = NewHEFTScheduler a, hl_best = None, hl_allCold = True\<rparr>"
  let ?e = "EWMA_Update (heft_prior w) (NewEWMA (heft_alpha ?s))"
  have len: "length cs \<noteq> 1" using assms(3) by simp
  have "snd (HEFT_SelectWithDispatchInfo cc r env bt arch os ?s) = hl_state (fold HEFT_visit cs ?l)"
    using assms(1) len by (simp add: HEFT_SelectWithDispatchInfo_def Let_def split: option.split)
  moreover have "fmlookup (wbar (hl_state (fold HEFT_visit cs ?l))) (ID w) = Some ?e"
    using HEFT_fold_seeds[OF assms(2,4), of ?l] by (simp add: NewHEFTScheduler_def)
  moreover have "init ?e" "ewma_value ?e = heft_prior w" "alpha ?e = heft_alpha ?s"
    by (simp_all add: EWMA_first_sample NewEWMA_def NewHEFTScheduler_def)
  ultimately show ?thesis
    using assms(5-8)
    by (simp add: HEFT_RecordOutcome_def wbarLocked_def heft_estimate_def IsInitialized_def EWMA_Value_def Let_def)
      (simp add: EWMA_Update_def)
qed

lemma HEFT_prior_is_blended_witness:
  "heft_estimate (HEFT_RecordOutcome
      (Add 5 ((sampleWorker ''w1'')\<lparr>AvgCompileTime := 2000000000\<rparr>) (NewInMemoryRegistry 60)) ''w1''
      (snd (HEFT_SelectWithDispatchInfo None sampleRegistry sampleEnv BUILD_TYPE_CPP ARCH_X86_64 '''' (NewHEFTScheduler (1 / 2)))))
    (sampleRegistered ''w1'') = 1 / 2 * 2000 + 1 / 2 * heft_prior (sampleRegistered ''w1'')"
proof -
  let ?r = "Add 5 ((sampleWorker ''w1'')\<lparr>AvgCompileTime := 2000000000\<rparr>) (NewInMemoryRegistry 60)"
  have el: "HEFT_eligibleWorkers None sampleRegistry sampleEnv BUILD_TYPE_CPP ARCH_X86_64 '''' =
      Ok [sampleRegistered ''w1'', sampleRegistered ''w2'']"
    by (simp add: HEFT_eligible eligible_def sampleRegistry_matching sample_candidates)
  have w: "Get (ID (sampleRegistered ''w1'')) ?r = Some ((sampleRegistered ''w1'')\<lparr>AvgCompileTime := 2000000000\<rparr>)"
    by (simp add: Get_def Add_lookup NewInMemoryRegistry_def sampleRegistered_def sampleWorker_def)
  have est: "heft_estimate s (v\<lparr>AvgCompileTime := t\<rparr>) = heft_estimate s v" for s v t
    by (simp add: heft_estimate_def heft_prior_def split: option.split)
  have "ID (sampleRegistered x) = x" for x by (simp add: sampleRegistered_def sampleWorker_def)
  then show ?thesis
    using HEFT_prior_is_blended[OF el _ _ _ _ w, of "1 / 2"]
    by (simp add: est NewHEFTScheduler_def Milliseconds_def Millisecond_def signed_divide_int_def)
qed

end
