(* ===== verification/LinUCB.thy ===== *)
theory LinUCB
  imports Learning
begin

text \<open>
  The contextual bandit scheduler, \<^verbatim>\<open>scheduler/linucb.go\<close>: disjoint LinUCB with one ridge
  regression per worker, whose inverse matrix is maintained incrementally.

  The matrices are those of the third-party library gonum, so the operations the code calls
  are a parameter (record \<open>gonum\<close>, whose fields are named after the library's methods and
  return the receiver's new content), and \<open>gonum_docs\<close> states their documented behaviour.
  \<open>tableGonum\<close> is a concrete instance. Numbers are reals. The mutex-protected sections of
  one selection are taken together.
\<close>

subsection \<open>The matrix library\<close>

record ('m, 'v) gonum =
  NewDense :: "nat \<Rightarrow> nat \<Rightarrow> 'm"
  Dims :: "'m \<Rightarrow> nat \<times> nat"
  At :: "'m \<Rightarrow> nat \<Rightarrow> nat \<Rightarrow> real"
  Set :: "'m \<Rightarrow> nat \<Rightarrow> nat \<Rightarrow> real \<Rightarrow> 'm"
  Sub :: "'m \<Rightarrow> 'm \<Rightarrow> 'm \<Rightarrow> 'm"
  NewVecDense :: "nat \<Rightarrow> 'v"
  Len :: "'v \<Rightarrow> nat"
  AtVec :: "'v \<Rightarrow> nat \<Rightarrow> real"
  SetVec :: "'v \<Rightarrow> nat \<Rightarrow> real \<Rightarrow> 'v"
  MulVec :: "'v \<Rightarrow> 'm \<Rightarrow> 'v \<Rightarrow> 'v"
  Dot :: "'v \<Rightarrow> 'v \<Rightarrow> real"

definition gonum_docs :: "('m, 'v) gonum \<Rightarrow> bool" where
  "gonum_docs G \<longleftrightarrow>
     (\<forall>r c. Dims G (NewDense G r c) = (r, c)) \<and>
     (\<forall>r c i j. i < r \<longrightarrow> j < c \<longrightarrow> At G (NewDense G r c) i j = 0) \<and>
     (\<forall>m i j x. Dims G (Set G m i j x) = Dims G m) \<and>
     (\<forall>m i j x i' j'. i < fst (Dims G m) \<longrightarrow> j < snd (Dims G m) \<longrightarrow> i' < fst (Dims G m) \<longrightarrow> j' < snd (Dims G m) \<longrightarrow>
        At G (Set G m i j x) i' j' = (if i' = i \<and> j' = j then x else At G m i' j')) \<and>
     (\<forall>m a b. Dims G m = Dims G a \<longrightarrow> Dims G b = Dims G a \<longrightarrow>
        Dims G (Sub G m a b) = Dims G a \<and>
        (\<forall>i j. i < fst (Dims G a) \<longrightarrow> j < snd (Dims G a) \<longrightarrow> At G (Sub G m a b) i j = At G a i j - At G b i j)) \<and>
     (\<forall>n. Len G (NewVecDense G n) = n) \<and>
     (\<forall>n i. i < n \<longrightarrow> AtVec G (NewVecDense G n) i = 0) \<and>
     (\<forall>v i x. Len G (SetVec G v i x) = Len G v) \<and>
     (\<forall>v i x i'. i < Len G v \<longrightarrow> i' < Len G v \<longrightarrow>
        AtVec G (SetVec G v i x) i' = (if i' = i then x else AtVec G v i')) \<and>
     (\<forall>v m w. Len G v = fst (Dims G m) \<longrightarrow> Len G w = snd (Dims G m) \<longrightarrow>
        Len G (MulVec G v m w) = fst (Dims G m) \<and>
        (\<forall>i. i < fst (Dims G m) \<longrightarrow> AtVec G (MulVec G v m w) i = (\<Sum>j < snd (Dims G m). At G m i j * AtVec G w j))) \<and>
     (\<forall>v w. Len G v = Len G w \<longrightarrow> Dot G v w = (\<Sum>i < Len G v. AtVec G v i * AtVec G w i))"

text \<open>A matrix as its dimensions and entries, a vector as its length and entries.\<close>

definition tableGonum :: "((nat \<times> nat) \<times> (nat \<Rightarrow> nat \<Rightarrow> real), nat \<times> (nat \<Rightarrow> real)) gonum" where
  "tableGonum =
     \<lparr>NewDense = (\<lambda>r c. ((r, c), \<lambda>i j. 0)),
      Dims = fst,
      At = snd,
      Set = (\<lambda>m i j x. (fst m, \<lambda>i' j'. if i' = i \<and> j' = j then x else snd m i' j')),
      Sub = (\<lambda>m a b. (fst a, \<lambda>i j. snd a i j - snd b i j)),
      NewVecDense = (\<lambda>n. (n, \<lambda>i. 0)),
      Len = fst,
      AtVec = snd,
      SetVec = (\<lambda>v i x. (fst v, \<lambda>i'. if i' = i then x else snd v i')),
      MulVec = (\<lambda>v m w. (fst (fst m), \<lambda>i. \<Sum>j < snd (fst m). snd m i j * snd w j)),
      Dot = (\<lambda>v w. \<Sum>i < fst v. snd v i * snd w i)\<rparr>"

subsection \<open>State\<close>

record ('m, 'v) linUCBArm =
  arm_A :: 'm
  arm_Ainv :: 'm
  arm_b :: 'v
  arm_theta :: 'v
  arm_dirty :: bool
  arm_count :: int

record ('m, 'v) LinUCBScheduler =
  lu_latency :: LatencyTracker
  lu_alpha :: real
  lu_dim :: nat
  lu_arms :: "(string, ('m, 'v) linUCBArm) fmap"
  lu_pendingX :: "(string, 'v) fmap"

definition featureDim :: nat where "featureDim = 9"

definition sizeNormDenom :: real where "sizeNormDenom = ln (1 + 4 * 1024 * 1024)"

definition NewLinUCBScheduler :: "real \<Rightarrow> LatencyTracker option \<Rightarrow> ('m, 'v) LinUCBScheduler" where
  "NewLinUCBScheduler a lt =
     (let al = (if a = 0 then 5 / 10 else a);
          al = (if al < 0 then 0 else al)
      in \<lparr>lu_latency = (case lt of None \<Rightarrow> NewLatencyTracker | Some t \<Rightarrow> t), lu_alpha = al,
          lu_dim = featureDim, lu_arms = fmempty, lu_pendingX = fmempty\<rparr>)"

subsection \<open>Operations\<close>

definition mulMatVec :: "('m, 'v) gonum \<Rightarrow> 'm \<Rightarrow> 'v \<Rightarrow> 'v" where
  "mulMatVec G A v = MulVec G (NewVecDense G (fst (Dims G A))) A v"

text \<open>The unit matrix is written entry by entry.\<close>

definition identityDense :: "('m, 'v) gonum \<Rightarrow> nat \<Rightarrow> 'm" where
  "identityDense G d = fold (\<lambda>i m. Set G m i i 1) [0..<d] (NewDense G d d)"

definition armForLocked ::
    "('m, 'v) gonum \<Rightarrow> string \<Rightarrow> ('m, 'v) LinUCBScheduler \<Rightarrow> ('m, 'v) linUCBArm \<times> ('m, 'v) LinUCBScheduler" where
  "armForLocked G wid s =
     (case fmlookup (lu_arms s) wid of
        Some a \<Rightarrow> (a, s)
      | None \<Rightarrow>
          let d = lu_dim s;
              arm = \<lparr>arm_A = identityDense G d, arm_Ainv = identityDense G d,
                     arm_b = NewVecDense G d, arm_theta = NewVecDense G d,
                     arm_dirty = False, arm_count = 0\<rparr>
          in (arm, s\<lparr>lu_arms := fmupd wid arm (lu_arms s)\<rparr>))"

definition score ::
    "('m, 'v) gonum \<Rightarrow> string \<Rightarrow> 'v \<Rightarrow> ('m, 'v) LinUCBScheduler \<Rightarrow> (real \<times> real) \<times> ('m, 'v) LinUCBScheduler" where
  "score G wid x s =
     (let (arm, s1) = armForLocked G wid s;
          arm = (if arm_dirty arm
                 then arm\<lparr>arm_theta := mulMatVec G (arm_Ainv arm) (arm_b arm), arm_dirty := False\<rparr>
                 else arm);
          mean = Dot G (arm_theta arm) x;
          tmp = mulMatVec G (arm_Ainv arm) x;
          q = Dot G x tmp;
          q = (if q < 0 then 0 else q);
          bonus = lu_alpha s * sqrt q
      in ((mean, bonus), s1\<lparr>lu_arms := fmupd wid arm (lu_arms s1)\<rparr>))"

definition featureVector ::
    "('m, 'v) gonum \<Rightarrow> WorkerInfo \<Rightarrow> Architecture \<Rightarrow> TaskContext \<Rightarrow> ('m, 'v) LinUCBScheduler \<Rightarrow> 'v" where
  "featureVector G w targetArch ctx s =
     (let x = NewVecDense G (lu_dim s);
          x = SetVec G x 0 1;
          logSize = ln (1 + real_of_int (SourceSizeBytes ctx)) / sizeNormDenom;
          logSize = (if logSize > 1 then 1 else logSize);
          x = SetVec G x 1 logSize;
          x = (case targetArch of
                 ARCH_X86_64 \<Rightarrow> SetVec G x 2 1
               | ARCH_ARM64 \<Rightarrow> SetVec G x 3 1
               | _ \<Rightarrow> x);
          (cpuCores, memBytes) =
            (case Capabilities w of
               None \<Rightarrow> (0, 0)
             | Some caps \<Rightarrow>
                 let c = real_of_int (CpuCores caps) / 16;
                     m = real_of_int (MemoryBytes caps) / (64 * 1024 * 1024 * 1024)
                 in (if c > 1 then 1 else c, if m > 1 then 1 else m));
          x = SetVec G x 4 cpuCores;
          x = SetVec G x 5 memBytes;
          x = (case Capabilities w of
                 None \<Rightarrow> x
               | Some caps \<Rightarrow> if NativeArch caps = targetArch then SetVec G x 6 1 else x);
          loadRatio = real_of_int (ActiveTasks w) / real_of_int (maxParallel w);
          loadRatio = (if loadRatio > 1 then 1 else loadRatio);
          x = SetVec G x 7 loadRatio;
          rttNorm = LatencyTracker_Get (ID w) (lu_latency s) / 100;
          rttNorm = (if rttNorm > 1 then 1 else rttNorm)
      in SetVec G x 8 rttNorm)"

definition LinUCB_eligibleWorkers ::
    "circuit_checker \<Rightarrow> InMemoryRegistry \<Rightarrow> sched_env \<Rightarrow> BuildType \<Rightarrow> Architecture \<Rightarrow> string \<Rightarrow>
       (sched_error, WorkerInfo list) outcome" where
  "LinUCB_eligibleWorkers cc r env buildType arch clientOS =
     (let ws = ListByCapability (env_now env) (env_order env) buildType arch r
      in if ws = [] then (if Count r = 0 then Err ErrNoWorkers else Err ErrNoMatchingWorkers)
         else if clientOS \<noteq> '''' \<and> filterByOS ws clientOS = [] then Err ErrNoMatchingWorkers
         else
           let ws = (if clientOS \<noteq> '''' then filterByOS ws clientOS else ws);
               candidates = filter (\<lambda>w. \<not> (State w = WorkerStateUnhealthy \<or> circuitOpen cc w \<or>
                                          ActiveTasks w \<ge> maxParallel w)) ws;
               candidates = (if candidates = []
                 then filter (\<lambda>w. \<not> State w = WorkerStateUnhealthy \<and> ActiveTasks w < maxParallel w) ws
                 else candidates)
           in if candidates = [] then Err ErrNoMatchingWorkers else Ok candidates)"

text \<open>
  The variables of the selection loop: the learner, the best candidate with its feature vector
  and score, and the ID and mean of the candidate that is best by mean alone.
\<close>

record ('m, 'v) linucb_loop =
  ll_state :: "('m, 'v) LinUCBScheduler"
  ll_best :: "(WorkerInfo \<times> 'v \<times> real) option"
  ll_bestMean :: "(string \<times> real) option"

definition LinUCB_visit ::
    "('m, 'v) gonum \<Rightarrow> Architecture \<Rightarrow> TaskContext \<Rightarrow> WorkerInfo \<Rightarrow> ('m, 'v) linucb_loop \<Rightarrow> ('m, 'v) linucb_loop" where
  "LinUCB_visit G arch ctx w l =
     (let x = featureVector G w arch ctx (ll_state l);
          ((mean, bonus), s) = score G (ID w) x (ll_state l);
          p = mean + bonus
      in \<lparr>ll_state = s,
          ll_best = (case ll_best l of
                       None \<Rightarrow> Some (w, x, p)
                     | Some (b, bx, bp) \<Rightarrow> if p > bp then Some (w, x, p) else Some (b, bx, bp)),
          ll_bestMean = (case ll_bestMean l of
                           None \<Rightarrow> Some (ID w, mean)
                         | Some (i, m) \<Rightarrow> if mean > m then Some (ID w, mean) else Some (i, m))\<rparr>)"

definition LinUCB_SelectWithDispatchInfo ::
    "('m, 'v) gonum \<Rightarrow> circuit_checker \<Rightarrow> InMemoryRegistry \<Rightarrow> sched_env \<Rightarrow> BuildType \<Rightarrow> Architecture \<Rightarrow> string \<Rightarrow>
       TaskContext \<Rightarrow> ('m, 'v) LinUCBScheduler \<Rightarrow>
       (sched_error, WorkerInfo \<times> DispatchInfo) outcome \<times> ('m, 'v) LinUCBScheduler" where
  "LinUCB_SelectWithDispatchInfo G cc r env buildType arch clientOS ctx s =
     (case LinUCB_eligibleWorkers cc r env buildType arch clientOS of
        Err e \<Rightarrow> (Err e, s)
      | Panic \<Rightarrow> (Panic, s)
      | Ok candidates \<Rightarrow>
          if length candidates = 1 then
            (Ok (candidates ! 0, \<lparr>QValueAtDispatch = 0, WasExploration = False\<rparr>), s)
          else
            let l = fold (LinUCB_visit G arch ctx) candidates \<lparr>ll_state = s, ll_best = None, ll_bestMean = None\<rparr>
            in (case ll_best l of
                  None \<Rightarrow> (Panic, ll_state l)
                | Some (best, bestX, bestP) \<Rightarrow>
                    let bestMeanID = (case ll_bestMean l of None \<Rightarrow> '''' | Some (i, m) \<Rightarrow> i);
                        wasExploration = (bestMeanID \<noteq> '''' \<and> bestMeanID \<noteq> ID best);
                        s' = (if TaskID ctx \<noteq> ''''
                              then (ll_state l)\<lparr>lu_pendingX := fmupd (TaskID ctx) bestX (lu_pendingX (ll_state l))\<rparr>
                              else ll_state l)
                    in (Ok (best, \<lparr>QValueAtDispatch = bestP, WasExploration = wasExploration\<rparr>), s')))"

definition LinUCB_Select ::
    "('m, 'v) gonum \<Rightarrow> circuit_checker \<Rightarrow> InMemoryRegistry \<Rightarrow> sched_env \<Rightarrow> BuildType \<Rightarrow> Architecture \<Rightarrow> string \<Rightarrow>
       ('m, 'v) LinUCBScheduler \<Rightarrow> (sched_error, WorkerInfo) outcome \<times> ('m, 'v) LinUCBScheduler" where
  "LinUCB_Select G cc r env buildType arch clientOS s =
     (case LinUCB_SelectWithDispatchInfo G cc r env buildType arch clientOS emptyTaskContext s of
        (res, s') \<Rightarrow> (outcome_map fst res, s'))"

text \<open>The loops of \<^verbatim>\<open>RecordOutcome\<close>: \<open>b + r x\<close>, \<open>u u\<^sup>T / denom\<close> and \<open>A + x x\<^sup>T\<close>.\<close>

definition addScaled :: "('m, 'v) gonum \<Rightarrow> nat \<Rightarrow> real \<Rightarrow> 'v \<Rightarrow> 'v \<Rightarrow> 'v" where
  "addScaled G d reward x b =
     fold (\<lambda>i b. SetVec G b i (AtVec G b i + reward * AtVec G x i)) [0..<d] b"

definition outerOver :: "('m, 'v) gonum \<Rightarrow> nat \<Rightarrow> real \<Rightarrow> 'v \<Rightarrow> 'm" where
  "outerOver G d denom u =
     fold (\<lambda>i m. fold (\<lambda>j m. Set G m i j (AtVec G u i * AtVec G u j / denom)) [0..<d] m) [0..<d] (NewDense G d d)"

definition addOuter :: "('m, 'v) gonum \<Rightarrow> nat \<Rightarrow> 'v \<Rightarrow> 'm \<Rightarrow> 'm" where
  "addOuter G d x A =
     fold (\<lambda>i m. fold (\<lambda>j m. Set G m i j (At G m i j + AtVec G x i * AtVec G x j)) [0..<d] m) [0..<d] A"

definition learnArm ::
    "('m, 'v) gonum \<Rightarrow> nat \<Rightarrow> real \<Rightarrow> 'v \<Rightarrow> ('m, 'v) linUCBArm \<Rightarrow> ('m, 'v) linUCBArm" where
  "learnArm G d reward x arm =
     (let arm = arm\<lparr>arm_b := addScaled G d reward x (arm_b arm)\<rparr>;
          u = mulMatVec G (arm_Ainv arm) x;
          denom = 1 + Dot G x u
      in if denom \<le> 0 then arm
         else arm\<lparr>arm_Ainv := Sub G (arm_Ainv arm) (arm_Ainv arm) (outerOver G d denom u),
                  arm_A := addOuter G d x (arm_A arm),
                  arm_count := wrap64 (arm_count arm + 1),
                  arm_dirty := True\<rparr>)"

definition LinUCB_RecordOutcome ::
    "('m, 'v) gonum \<Rightarrow> string \<Rightarrow> float_value \<Rightarrow> TaskContext \<Rightarrow> ('m, 'v) LinUCBScheduler \<Rightarrow> ('m, 'v) LinUCBScheduler" where
  "LinUCB_RecordOutcome G wid reward ctx s =
     (if \<not> usableReward wid reward then s
      else case fmlookup (lu_pendingX s) (TaskID ctx) of
             None \<Rightarrow> s
           | Some x \<Rightarrow>
               let s1 = s\<lparr>lu_pendingX := fmdrop (TaskID ctx) (lu_pendingX s)\<rparr>;
                   (arm, s2) = armForLocked G wid s1
               in s2\<lparr>lu_arms := fmupd wid (learnArm G (lu_dim s) (finite_part reward) x arm) (lu_arms s2)\<rparr>)"

subsection \<open>What the loops compute\<close>

lemma tableGonum_docs: "gonum_docs tableGonum"
  by (auto simp: gonum_docs_def tableGonum_def)

lemma docs_NewDense:
  assumes "gonum_docs G"
  shows "Dims G (NewDense G r c) = (r, c)" and "i < r \<Longrightarrow> j < c \<Longrightarrow> At G (NewDense G r c) i j = 0"
  using assms by (simp_all add: gonum_docs_def)

lemma docs_Set:
  assumes "gonum_docs G"
  shows "Dims G (Set G m i j x) = Dims G m"
    and "Dims G m = (d, d) \<Longrightarrow> i < d \<Longrightarrow> j < d \<Longrightarrow> i' < d \<Longrightarrow> j' < d \<Longrightarrow>
      At G (Set G m i j x) i' j' = (if i' = i \<and> j' = j then x else At G m i' j')"
  using assms by (simp_all add: gonum_docs_def)

lemma docs_Sub:
  assumes "gonum_docs G" and "Dims G m = (d, d)" and "Dims G a = (d, d)" and "Dims G b = (d, d)"
  shows "Dims G (Sub G m a b) = (d, d)"
    and "i < d \<Longrightarrow> j < d \<Longrightarrow> At G (Sub G m a b) i j = At G a i j - At G b i j"
  using assms by (simp_all add: gonum_docs_def)

lemma docs_vec:
  assumes "gonum_docs G"
  shows "Len G (NewVecDense G n) = n" and "i < n \<Longrightarrow> AtVec G (NewVecDense G n) i = 0"
    and "Len G (SetVec G v k x) = Len G v"
    and "k < Len G v \<Longrightarrow> k' < Len G v \<Longrightarrow> AtVec G (SetVec G v k x) k' = (if k' = k then x else AtVec G v k')"
  using assms by (simp_all add: gonum_docs_def)

lemma docs_Dot:
  assumes "gonum_docs G" and "Len G v = d" and "Len G w = d"
  shows "Dot G v w = (\<Sum>i < d. AtVec G v i * AtVec G w i)"
  using assms by (simp add: gonum_docs_def)

lemma mulMatVec_spec:
  assumes "gonum_docs G" and "Dims G m = (d, d)" and "Len G v = d"
  shows "Len G (mulMatVec G m v) = d"
    and "i < d \<Longrightarrow> AtVec G (mulMatVec G m v) i = (\<Sum>j < d. At G m i j * AtVec G v j)"
  using assms by (simp_all add: gonum_docs_def mulMatVec_def)

lemma addScaled_upto:
  assumes "gonum_docs G" and "Len G b = d" and "n \<le> d"
  shows "Len G (addScaled G n reward x b) = d \<and>
    (\<forall>i < d. AtVec G (addScaled G n reward x b) i =
       (if i < n then AtVec G b i + reward * AtVec G x i else AtVec G b i))"
  using assms(3)
proof (induction n)
  case (Suc n)
  then show ?case
    using docs_vec[OF assms(1)] by (auto simp: addScaled_def less_Suc_eq)
qed (simp add: addScaled_def assms)

lemma addScaled_spec:
  assumes "gonum_docs G" and "Len G b = d"
  shows "Len G (addScaled G d reward x b) = d"
    and "i < d \<Longrightarrow> AtVec G (addScaled G d reward x b) i = AtVec G b i + reward * AtVec G x i"
  using addScaled_upto[OF assms order.refl] by simp_all

text \<open>A double loop that rewrites every entry once.\<close>

lemma Set_row:
  assumes "gonum_docs G" and "Dims G m = (d, d)" and "i < d" and "n \<le> d"
  shows "Dims G (fold (\<lambda>j m. Set G m i j (f j (At G m i j))) [0..<n] m) = (d, d) \<and>
    (\<forall>i' < d. \<forall>j' < d. At G (fold (\<lambda>j m. Set G m i j (f j (At G m i j))) [0..<n] m) i' j' =
       (if i' = i \<and> j' < n then f j' (At G m i j') else At G m i' j'))"
  using assms(4)
proof (induction n)
  case (Suc n)
  then show ?case
    using docs_Set[OF assms(1)] assms(3) by (auto simp: less_Suc_eq)
qed (simp add: assms)

lemma Set_rows:
  assumes "gonum_docs G" and "Dims G m = (d, d)" and "n \<le> d"
  shows "Dims G (fold (\<lambda>i m. fold (\<lambda>j m. Set G m i j (f i j (At G m i j))) [0..<d] m) [0..<n] m) = (d, d) \<and>
    (\<forall>i' < d. \<forall>j' < d. At G (fold (\<lambda>i m. fold (\<lambda>j m. Set G m i j (f i j (At G m i j))) [0..<d] m) [0..<n] m) i' j' =
       (if i' < n then f i' j' (At G m i' j') else At G m i' j'))"
  using assms(3)
proof (induction n)
  case (Suc n)
  let ?m = "fold (\<lambda>i m. fold (\<lambda>j m. Set G m i j (f i j (At G m i j))) [0..<d] m) [0..<n] m"
  have dims: "Dims G ?m = (d, d)" and n: "n < d" using Suc by simp_all
  show ?case
    using Suc Set_row[OF assms(1) dims n order.refl, of "f n"] by (auto simp: less_Suc_eq)
qed (simp add: assms)

lemma outerOver_spec:
  assumes "gonum_docs G"
  shows "Dims G (outerOver G d denom u) = (d, d)"
    and "i < d \<Longrightarrow> j < d \<Longrightarrow> At G (outerOver G d denom u) i j = AtVec G u i * AtVec G u j / denom"
  using Set_rows[OF assms docs_NewDense(1)[OF assms, of d d] order.refl, of "\<lambda>i j _. AtVec G u i * AtVec G u j / denom"]
  by (simp_all add: outerOver_def)

lemma addOuter_spec:
  assumes "gonum_docs G" and "Dims G A = (d, d)"
  shows "Dims G (addOuter G d x A) = (d, d)"
    and "i < d \<Longrightarrow> j < d \<Longrightarrow> At G (addOuter G d x A) i j = At G A i j + AtVec G x i * AtVec G x j"
  using Set_rows[OF assms order.refl, of "\<lambda>i j a. a + AtVec G x i * AtVec G x j"]
  by (simp_all add: addOuter_def)

lemma identityDense_upto:
  assumes "gonum_docs G" and "n \<le> d"
  shows "Dims G (fold (\<lambda>i m. Set G m i i 1) [0..<n] (NewDense G d d)) = (d, d) \<and>
    (\<forall>i < d. \<forall>j < d. At G (fold (\<lambda>i m. Set G m i i 1) [0..<n] (NewDense G d d)) i j = (if i = j \<and> i < n then 1 else 0))"
  using assms(2)
proof (induction n)
  case (Suc n)
  then show ?case using docs_Set[OF assms(1)] by (auto simp: less_Suc_eq)
qed (simp add: docs_NewDense[OF assms(1)])

lemma identityDense_spec:
  assumes "gonum_docs G"
  shows "Dims G (identityDense G d) = (d, d)"
    and "i < d \<Longrightarrow> j < d \<Longrightarrow> At G (identityDense G d) i j = (if i = j then 1 else 0)"
  using identityDense_upto[OF assms order.refl, of d] by (simp_all add: identityDense_def)

subsection \<open>Ridge regression over a history\<close>

text \<open>
  A history lists the feature vectors with their rewards, oldest first. Its Gram matrix is
  \<open>I + \<Sum> x x\<^sup>T\<close> and its moment vector \<open>\<Sum> r x\<close>: what Algorithm 1 of the cited paper keeps.
\<close>

type_synonym history = "((nat \<Rightarrow> real) \<times> real) list"

definition gram :: "history \<Rightarrow> nat \<Rightarrow> nat \<Rightarrow> real" where
  "gram h i j = (if i = j then 1 else 0) + (\<Sum>(x, r) \<leftarrow> h. x i * x j)"

definition moment :: "history \<Rightarrow> nat \<Rightarrow> real" where
  "moment h i = (\<Sum>(x, r) \<leftarrow> h. r * x i)"

definition dot :: "nat \<Rightarrow> (nat \<Rightarrow> real) \<Rightarrow> (nat \<Rightarrow> real) \<Rightarrow> real" where
  "dot d u v = (\<Sum>i < d. u i * v i)"

definition inverse_of :: "nat \<Rightarrow> (nat \<Rightarrow> nat \<Rightarrow> real) \<Rightarrow> (nat \<Rightarrow> nat \<Rightarrow> real) \<Rightarrow> bool" where
  "inverse_of d A B \<longleftrightarrow>
     (\<forall>i < d. \<forall>j < d. dot d (A i) (\<lambda>k. B k j) = (if i = j then 1 else 0)) \<and>
     (\<forall>i < d. \<forall>j < d. B i j = B j i)"

lemma gram_snoc [simp]: "gram (h @ [(x, r)]) i j = gram h i j + x i * x j"
  by (simp add: gram_def)

lemma moment_snoc [simp]: "moment (h @ [(x, r)]) i = moment h i + r * x i"
  by (simp add: moment_def)

lemma dot_commute: "dot d u v = dot d v u"
  by (simp add: dot_def mult.commute)

lemma dot_delta: "i < d \<Longrightarrow> dot d (\<lambda>j. if i = j then 1 else 0) v = v i"
  by (simp add: dot_def if_distrib[of "\<lambda>x. x * _"] sum.delta cong: if_cong)

text \<open>\<open>u\<^sup>T A u = |u|\<^sup>2 + \<Sum> (x \<cdot> u)\<^sup>2 \<ge> 0\<close>\<close>

lemma gram_quadratic_step:
  "(\<Sum>i < d. u i * dot d (gram (h @ [(x, r)]) i) u) = (\<Sum>i < d. u i * dot d (gram h i) u) + (dot d x u)\<^sup>2"
proof -
  have "dot d (gram (h @ [(x, r)]) i) u = dot d (gram h i) u + x i * dot d x u" for i
    by (simp add: dot_def sum.distrib sum_distrib_left algebra_simps)
  then show ?thesis
    by (simp add: sum.distrib distrib_left dot_def sum_distrib_left sum_distrib_right power2_eq_square ac_simps)
qed

lemma gram_quadratic_nonneg: "0 \<le> (\<Sum>i < d. u i * dot d (gram h i) u)"
proof (induction h rule: rev_induct)
  case Nil
  have "dot d (gram [] i) u = u i" if "i < d" for i
    using dot_delta[OF that, of u] unfolding gram_def[abs_def] by simp
  then have "(\<Sum>i < d. u i * dot d (gram [] i) u) = (\<Sum>i < d. u i * u i)" by simp
  then show ?case by (simp add: sum_nonneg)
next
  case (snoc xr h)
  then show ?case by (cases xr) (simp add: gram_quadratic_step del: gram_snoc)
qed

text \<open>Applying the matrix undoes applying its inverse.\<close>

lemma inverse_of_apply:
  assumes "inverse_of d A B" and "i < d"
  shows "dot d (A i) (\<lambda>k. dot d (B k) v) = v i"
proof -
  have "dot d (A i) (\<lambda>k. dot d (B k) v) = (\<Sum>k < d. \<Sum>j < d. A i k * (B k j * v j))"
    by (simp add: dot_def sum_distrib_left)
  also have "\<dots> = (\<Sum>j < d. dot d (A i) (\<lambda>k. B k j) * v j)"
    by (subst sum.swap) (simp add: dot_def sum_distrib_right mult.assoc)
  also have "\<dots> = (\<Sum>j < d. (if i = j then 1 else 0) * v j)"
    using assms by (intro sum.cong) (auto simp: inverse_of_def)
  also have "\<dots> = v i" using dot_delta[OF assms(2), of v] by (simp add: dot_def)
  finally show ?thesis .
qed

text \<open>The quadratic form of the inverse is not negative, so the denominator is at least 1.\<close>

lemma inverse_quadratic_nonneg:
  assumes "inverse_of d (gram h) B"
  shows "0 \<le> dot d x (\<lambda>k. dot d (B k) x)"
proof -
  let ?u = "\<lambda>k. dot d (B k) x"
  have "dot d x ?u = (\<Sum>i < d. ?u i * dot d (gram h i) ?u)"
    unfolding dot_def[of d x] using inverse_of_apply[OF assms]
    by (intro sum.cong) (auto simp: mult.commute)
  then show ?thesis using gram_quadratic_nonneg[of ?u d h] by simp
qed

text \<open>The Sherman-Morrison formula.\<close>

lemma sherman_morrison:
  fixes x :: "nat \<Rightarrow> real"
  assumes inv: "inverse_of d A B"
    and u: "u = (\<lambda>k. dot d (B k) x)" and q: "q = 1 + dot d x u" "q > 0"
  shows "inverse_of d (\<lambda>i j. A i j + x i * x j) (\<lambda>i j. B i j - u i * u j / q)"
proof -
  have sym: "B i j = B j i" if "i < d" "j < d" for i j using inv that by (simp add: inverse_of_def)
  have Au: "dot d (A i) u = x i" if "i < d" for i
    unfolding u using inverse_of_apply[OF inv that] .
  have xB: "dot d x (\<lambda>k. B k j) = u j" if "j < d" for j
    unfolding u dot_commute[of d "B j"] using that sym by (auto simp: dot_def intro!: sum.cong)
  have "dot d (\<lambda>k. A i k + x i * x k) (\<lambda>k. B k j - u k * u j / q) = (if i = j then 1 else 0)"
    if "i < d" "j < d" for i j
  proof -
    have "dot d (\<lambda>k. A i k + x i * x k) (\<lambda>k. B k j - u k * u j / q) =
        dot d (A i) (\<lambda>k. B k j) - dot d (A i) u * u j / q + x i * dot d x (\<lambda>k. B k j) - x i * dot d x u * u j / q"
      by (simp add: dot_def sum.distrib sum_subtractf sum_distrib_left sum_distrib_right sum_divide_distrib algebra_simps)
    also have "\<dots> = dot d (A i) (\<lambda>k. B k j) - x i * u j / q + x i * u j - x i * (q - 1) * u j / q"
      using Au[OF that(1)] xB[OF that(2)] q(1) by simp
    also have "\<dots> = dot d (A i) (\<lambda>k. B k j)" using q(2) by (simp add: field_simps)
    finally show ?thesis using inv that by (simp add: inverse_of_def)
  qed
  then show ?thesis using sym by (simp add: inverse_of_def mult.commute)
qed

subsection \<open>What an arm has learned\<close>

definition arm_learned :: "('m, 'v) gonum \<Rightarrow> nat \<Rightarrow> history \<Rightarrow> ('m, 'v) linUCBArm \<Rightarrow> bool" where
  "arm_learned G d h arm \<longleftrightarrow>
     Dims G (arm_A arm) = (d, d) \<and> Dims G (arm_Ainv arm) = (d, d) \<and>
     Len G (arm_b arm) = d \<and> Len G (arm_theta arm) = d \<and>
     (\<forall>i < d. \<forall>j < d. At G (arm_A arm) i j = gram h i j) \<and>
     (\<forall>i < d. AtVec G (arm_b arm) i = moment h i) \<and>
     inverse_of d (gram h) (At G (arm_Ainv arm)) \<and>
     (\<not> arm_dirty arm \<longrightarrow> (\<forall>i < d. AtVec G (arm_theta arm) i = dot d (At G (arm_Ainv arm) i) (moment h))) \<and>
     arm_count arm = wrap64 (int (length h))"

lemma dot_cong: "(\<And>i. i < d \<Longrightarrow> u i = u' i) \<Longrightarrow> (\<And>i. i < d \<Longrightarrow> v i = v' i) \<Longrightarrow> dot d u v = dot d u' v'"
  by (simp add: dot_def)

lemma inverse_of_cong:
  assumes "\<And>i j. i < d \<Longrightarrow> j < d \<Longrightarrow> A i j = A' i j" and "\<And>i j. i < d \<Longrightarrow> j < d \<Longrightarrow> B i j = B' i j"
  shows "inverse_of d A B \<longleftrightarrow> inverse_of d A' B'"
proof -
  have "dot d (A i) (\<lambda>k. B k j) = dot d (A' i) (\<lambda>k. B' k j)" if "i < d" "j < d" for i j
    using assms that by (intro dot_cong) auto
  with assms(2) show ?thesis by (simp add: inverse_of_def)
qed

lemma inverse_of_identity: "inverse_of d (gram []) (\<lambda>i j. if i = j then 1 else 0)"
proof -
  have "dot d (gram [] i) (\<lambda>k. if k = j then 1 else 0) = (if i = j then 1 else 0)" if "i < d" for i j
    using dot_delta[OF that, of "\<lambda>k. if k = j then 1 else 0"] unfolding gram_def[abs_def] by simp
  then show ?thesis by (simp add: inverse_of_def)
qed

lemma new_arm_learned:
  assumes "gonum_docs G"
  shows "arm_learned G d [] \<lparr>arm_A = identityDense G d, arm_Ainv = identityDense G d,
    arm_b = NewVecDense G d, arm_theta = NewVecDense G d, arm_dirty = False, arm_count = 0\<rparr>"
proof -
  have "inverse_of d (gram []) (At G (identityDense G d))"
    using inverse_of_identity[of d] identityDense_spec[OF assms]
      inverse_of_cong[of d "gram []" "gram []" "At G (identityDense G d)" "\<lambda>i j. if i = j then 1 else 0"]
    by simp
  moreover have "wrap64 0 = 0" by (rule wrap64_id) (simp add: is_int64_def)
  ultimately show ?thesis
    using identityDense_spec[OF assms] docs_vec(1,2)[OF assms]
    by (simp add: arm_learned_def gram_def moment_def dot_def)
qed

text \<open>The denominator that the code guards against is never below 1.\<close>

lemma denom_ge_1:
  assumes "gonum_docs G" and "arm_learned G d h arm" and "Len G x = d"
  shows "Dot G x (mulMatVec G (arm_Ainv arm) x) = dot d (AtVec G x) (\<lambda>k. dot d (At G (arm_Ainv arm) k) (AtVec G x))"
    and "0 \<le> Dot G x (mulMatVec G (arm_Ainv arm) x)"
proof -
  have dims: "Dims G (arm_Ainv arm) = (d, d)" and inv: "inverse_of d (gram h) (At G (arm_Ainv arm))"
    using assms(2) by (simp_all add: arm_learned_def)
  show eq: "Dot G x (mulMatVec G (arm_Ainv arm) x) =
      dot d (AtVec G x) (\<lambda>k. dot d (At G (arm_Ainv arm) k) (AtVec G x))"
    using docs_Dot[OF assms(1,3) mulMatVec_spec(1)[OF assms(1) dims assms(3)]]
      mulMatVec_spec(2)[OF assms(1) dims assms(3)] by (simp add: dot_def)
  show "0 \<le> Dot G x (mulMatVec G (arm_Ainv arm) x)"
    unfolding eq using inv by (rule inverse_quadratic_nonneg)
qed

lemma learnArm_learned:
  assumes "gonum_docs G" and "arm_learned G d h arm" and "Len G x = d"
  shows "arm_learned G d (h @ [(AtVec G x, reward)]) (learnArm G d reward x arm)"
proof -
  let ?u = "mulMatVec G (arm_Ainv arm) x" and ?q = "1 + Dot G x (mulMatVec G (arm_Ainv arm) x)"
  have a: "Dims G (arm_A arm) = (d, d)" "Dims G (arm_Ainv arm) = (d, d)" "Len G (arm_b arm) = d"
      "Len G (arm_theta arm) = d" "inverse_of d (gram h) (At G (arm_Ainv arm))"
    using assms(2) by (simp_all add: arm_learned_def)
  note q = denom_ge_1[OF assms]
  note u = mulMatVec_spec[OF assms(1) a(2) assms(3)]
  note out = outerOver_spec[OF assms(1), where d = d and denom = ?q and u = ?u]
  note sub = docs_Sub[OF assms(1) a(2) a(2) out(1)]
  have "inverse_of d (\<lambda>i j. gram h i j + AtVec G x i * AtVec G x j)
      (\<lambda>i j. At G (arm_Ainv arm) i j - dot d (At G (arm_Ainv arm) i) (AtVec G x) * dot d (At G (arm_Ainv arm) j) (AtVec G x) / ?q)"
    using q by (intro sherman_morrison[OF a(5)]) auto
  then have "inverse_of d (gram (h @ [(AtVec G x, reward)])) (At G (Sub G (arm_Ainv arm) (arm_Ainv arm) (outerOver G d ?q ?u)))"
    by (rule inverse_of_cong[THEN iffD1, rotated -1]) (simp_all add: sub(2) out(2) u(2) dot_def)
  then show ?thesis
    using assms(2) q(2) a sub(1) addOuter_spec[OF assms(1) a(1), where x = x]
      addScaled_spec[OF assms(1) a(3), where reward = reward and x = x]
    by (simp add: arm_learned_def learnArm_def Let_def add.commute)
qed

text \<open>What \<^verbatim>\<open>score\<close> computes: the ridge estimate and the exploration bonus.\<close>

definition refreshed :: "('m, 'v) gonum \<Rightarrow> ('m, 'v) linUCBArm \<Rightarrow> ('m, 'v) linUCBArm" where
  "refreshed G arm =
     (if arm_dirty arm
      then arm\<lparr>arm_theta := mulMatVec G (arm_Ainv arm) (arm_b arm), arm_dirty := False\<rparr> else arm)"

lemma score_alt:
  "score G wid x s =
     (let arm = refreshed G (fst (armForLocked G wid s))
      in ((Dot G (arm_theta arm) x,
           lu_alpha s * sqrt (let q = Dot G x (mulMatVec G (arm_Ainv arm) x) in if q < 0 then 0 else q)),
          s\<lparr>lu_arms := fmupd wid arm (lu_arms s)\<rparr>))"
  by (auto simp: score_def refreshed_def armForLocked_def Let_def split: option.split)

lemma refreshed_learned:
  assumes "gonum_docs G" and "arm_learned G d h arm"
  shows "arm_learned G d h (refreshed G arm) \<and> \<not> arm_dirty (refreshed G arm)"
proof (cases "arm_dirty arm")
  case True
  have a: "Dims G (arm_Ainv arm) = (d, d)" "Len G (arm_b arm) = d" "\<forall>i < d. AtVec G (arm_b arm) i = moment h i"
    using assms(2) by (simp_all add: arm_learned_def)
  have "AtVec G (mulMatVec G (arm_Ainv arm) (arm_b arm)) i = dot d (At G (arm_Ainv arm) i) (moment h)" if "i < d" for i
    using mulMatVec_spec(2)[OF assms(1) a(1,2) that] a(3) by (simp add: dot_def)
  with True assms(2) mulMatVec_spec(1)[OF assms(1) a(1,2)] show ?thesis
    by (simp add: arm_learned_def refreshed_def)
qed (simp add: refreshed_def assms)

lemma score_values:
  assumes "gonum_docs G" and "arm_learned G d h (fst (armForLocked G wid s))" and "Len G x = d"
  shows "\<exists>\<theta> B. inverse_of d (gram h) B \<and> (\<forall>i < d. dot d (gram h i) \<theta> = moment h i) \<and>
    fst (score G wid x s) =
      (dot d \<theta> (AtVec G x), lu_alpha s * sqrt (dot d (AtVec G x) (\<lambda>k. dot d (B k) (AtVec G x))))"
proof -
  let ?arm = "refreshed G (fst (armForLocked G wid s))"
  let ?B = "At G (arm_Ainv ?arm)"
  let ?\<theta> = "\<lambda>i. dot d (?B i) (moment h)"
  have arm: "arm_learned G d h ?arm" "\<not> arm_dirty ?arm" using refreshed_learned[OF assms(1,2)] by simp_all
  then have inv: "inverse_of d (gram h) ?B" and th: "Len G (arm_theta ?arm) = d"
      "\<forall>i < d. AtVec G (arm_theta ?arm) i = ?\<theta> i"
    by (simp_all add: arm_learned_def)
  have "Dot G (arm_theta ?arm) x = dot d ?\<theta> (AtVec G x)"
    using docs_Dot[OF assms(1) th(1) assms(3)] th(2) by (simp add: dot_def)
  then have "fst (score G wid x s) =
      (dot d ?\<theta> (AtVec G x), lu_alpha s * sqrt (dot d (AtVec G x) (\<lambda>k. dot d (?B k) (AtVec G x))))"
    using denom_ge_1[OF assms(1) arm(1) assms(3)] by (simp add: score_alt Let_def)
  with inv inverse_of_apply[OF inv] show ?thesis by blast
qed

subsection \<open>Runs of the learner\<close>

datatype ('m, 'v) linucb_event =
    SelectEvent circuit_checker InMemoryRegistry sched_env BuildType Architecture string TaskContext
  | OutcomeEvent string float_value TaskContext

fun linucb_step :: "('m, 'v) gonum \<Rightarrow> ('m, 'v) linucb_event \<Rightarrow> ('m, 'v) LinUCBScheduler \<Rightarrow> ('m, 'v) LinUCBScheduler" where
  "linucb_step G (SelectEvent cc r env bt arch os ctx) s =
     snd (LinUCB_SelectWithDispatchInfo G cc r env bt arch os ctx s)"
| "linucb_step G (OutcomeEvent wid reward ctx) s = LinUCB_RecordOutcome G wid reward ctx s"

text \<open>
  The sample that an event adds to a worker's history: the pending feature vector of the task
  with the observed reward.
\<close>

fun linucb_sample :: "('m, 'v) gonum \<Rightarrow> ('m, 'v) linucb_event \<Rightarrow> ('m, 'v) LinUCBScheduler \<Rightarrow> string \<Rightarrow> history" where
  "linucb_sample G (SelectEvent cc r env bt arch os ctx) s wid = []"
| "linucb_sample G (OutcomeEvent wid' reward ctx) s wid =
     (if wid' = wid \<and> usableReward wid' reward
      then (case fmlookup (lu_pendingX s) (TaskID ctx) of
              None \<Rightarrow> [] | Some x \<Rightarrow> [(AtVec G x, finite_part reward)])
      else [])"

fun linucb_run :: "('m, 'v) gonum \<Rightarrow> ('m, 'v) linucb_event list \<Rightarrow> ('m, 'v) LinUCBScheduler \<Rightarrow> ('m, 'v) LinUCBScheduler" where
  "linucb_run G [] s = s"
| "linucb_run G (ev # evs) s = linucb_run G evs (linucb_step G ev s)"

fun linucb_history :: "('m, 'v) gonum \<Rightarrow> ('m, 'v) linucb_event list \<Rightarrow> ('m, 'v) LinUCBScheduler \<Rightarrow> string \<Rightarrow> history" where
  "linucb_history G [] s wid = []"
| "linucb_history G (ev # evs) s wid =
     linucb_sample G ev s wid @ linucb_history G evs (linucb_step G ev s) wid"

definition linucb_inv :: "('m, 'v) gonum \<Rightarrow> (string \<Rightarrow> history) \<Rightarrow> ('m, 'v) LinUCBScheduler \<Rightarrow> bool" where
  "linucb_inv G hs s \<longleftrightarrow> lu_dim s = featureDim \<and>
     (\<forall>wid. arm_learned G featureDim (hs wid) (fst (armForLocked G wid s))) \<and>
     (\<forall>tid x. fmlookup (lu_pendingX s) tid = Some x \<longrightarrow> Len G x = featureDim)"

lemma armForLocked_arm:
  "fst (armForLocked G wid s) =
     (case fmlookup (lu_arms s) wid of
        Some a \<Rightarrow> a
      | None \<Rightarrow> \<lparr>arm_A = identityDense G (lu_dim s), arm_Ainv = identityDense G (lu_dim s),
                 arm_b = NewVecDense G (lu_dim s), arm_theta = NewVecDense G (lu_dim s),
                 arm_dirty = False, arm_count = 0\<rparr>)"
  by (simp add: armForLocked_def Let_def split: option.split)

lemma armForLocked_upd:
  "fst (armForLocked G wid' (s\<lparr>lu_arms := fmupd wid arm (lu_arms s)\<rparr>)) =
     (if wid' = wid then arm else fst (armForLocked G wid' s))"
  by (simp add: armForLocked_arm split: option.split)

lemma armForLocked_pending [simp]:
  "fst (armForLocked G wid (s\<lparr>lu_pendingX := p\<rparr>)) = fst (armForLocked G wid s)"
  by (simp add: armForLocked_arm split: option.split)

lemma featureVector_Len:
  assumes "gonum_docs G"
  shows "Len G (featureVector G w arch ctx s) = lu_dim s"
  using docs_vec(1,3)[OF assms]
  by (auto simp: featureVector_def Let_def split: option.split Architecture.split)

lemma New_linucb_inv:
  assumes "gonum_docs G"
  shows "linucb_inv G (\<lambda>_. []) (NewLinUCBScheduler a lt)"
  using new_arm_learned[OF assms, of featureDim]
  by (simp add: linucb_inv_def NewLinUCBScheduler_def armForLocked_arm Let_def)

lemma score_inv:
  assumes "gonum_docs G" and "linucb_inv G hs s"
  shows "linucb_inv G hs (snd (score G wid x s))"
proof -
  have "arm_learned G featureDim (hs wid) (refreshed G (fst (armForLocked G wid s)))"
    using assms by (simp add: linucb_inv_def refreshed_learned)
  with assms(2) show ?thesis
    by (auto simp: linucb_inv_def score_alt armForLocked_upd Let_def)
qed

lemma LinUCB_visit_state: "ll_state (LinUCB_visit G arch ctx w l) = snd (score G (ID w) (featureVector G w arch ctx (ll_state l)) (ll_state l))"
  by (simp add: LinUCB_visit_def Let_def case_prod_beta)

lemma LinUCB_fold_inv:
  assumes "gonum_docs G" and "linucb_inv G hs (ll_state l)"
    and "\<forall>w x p. ll_best l = Some (w, x, p) \<longrightarrow> Len G x = featureDim"
  shows "linucb_inv G hs (ll_state (fold (LinUCB_visit G arch ctx) cs l)) \<and>
    (\<forall>w x p. ll_best (fold (LinUCB_visit G arch ctx) cs l) = Some (w, x, p) \<longrightarrow> Len G x = featureDim)"
  using assms(2,3)
proof (induction cs arbitrary: l)
  case (Cons w cs)
  have "Len G (featureVector G w arch ctx (ll_state l)) = featureDim"
    using featureVector_Len[OF assms(1)] Cons.prems(1) by (simp add: linucb_inv_def)
  then have "\<forall>w' x p. ll_best (LinUCB_visit G arch ctx w l) = Some (w', x, p) \<longrightarrow> Len G x = featureDim"
    using Cons.prems(2) by (auto simp: LinUCB_visit_def Let_def case_prod_beta split: option.splits if_splits)
  with Cons.IH[of "LinUCB_visit G arch ctx w l"] Cons.prems(1) show ?case
    by (simp add: LinUCB_visit_state score_inv[OF assms(1)])
qed simp

lemma linucb_inv_pending:
  "linucb_inv G hs s \<Longrightarrow> Len G x = featureDim \<Longrightarrow> linucb_inv G hs (s\<lparr>lu_pendingX := fmupd t x (lu_pendingX s)\<rparr>)"
  by (simp add: linucb_inv_def)

lemma Select_inv:
  assumes "gonum_docs G" and "linucb_inv G hs s"
  shows "linucb_inv G hs (snd (LinUCB_SelectWithDispatchInfo G cc r env bt arch os ctx s))"
proof (cases "LinUCB_eligibleWorkers cc r env bt arch os")
  case (Ok cs)
  let ?l = "fold (LinUCB_visit G arch ctx) cs \<lparr>ll_state = s, ll_best = None, ll_bestMean = None\<rparr>"
  have "linucb_inv G hs (ll_state ?l)" and "\<forall>w x p. ll_best ?l = Some (w, x, p) \<longrightarrow> Len G x = featureDim"
    using LinUCB_fold_inv[OF assms(1), of hs "\<lparr>ll_state = s, ll_best = None, ll_bestMean = None\<rparr>" arch ctx cs] assms(2)
    by simp_all
  then show ?thesis
    using Ok assms(2) by (auto simp: LinUCB_SelectWithDispatchInfo_def Let_def linucb_inv_pending split: option.split)
qed (simp_all add: LinUCB_SelectWithDispatchInfo_def assms)

lemma Record_inv:
  assumes "gonum_docs G" and "linucb_inv G hs s"
  shows "linucb_inv G (\<lambda>wid. hs wid @ linucb_sample G (OutcomeEvent wid' reward ctx) s wid)
    (LinUCB_RecordOutcome G wid' reward ctx s)"
proof (cases "usableReward wid' reward \<and> fmlookup (lu_pendingX s) (TaskID ctx) \<noteq> None")
  case True
  then obtain x where x: "fmlookup (lu_pendingX s) (TaskID ctx) = Some x" and u: "usableReward wid' reward" by blast
  let ?s1 = "s\<lparr>lu_pendingX := fmdrop (TaskID ctx) (lu_pendingX s)\<rparr>"
  have len: "Len G x = featureDim" and dim: "lu_dim s = featureDim" using assms(2) x by (auto simp: linucb_inv_def)
  have run: "LinUCB_RecordOutcome G wid' reward ctx s =
      ?s1\<lparr>lu_arms := fmupd wid' (learnArm G featureDim (finite_part reward) x (fst (armForLocked G wid' s))) (lu_arms ?s1)\<rparr>"
    using x u dim by (auto simp: LinUCB_RecordOutcome_def armForLocked_def Let_def split: option.split)
  have "arm_learned G featureDim (hs wid' @ [(AtVec G x, finite_part reward)])
      (learnArm G featureDim (finite_part reward) x (fst (armForLocked G wid' s)))"
    using assms(2) len by (intro learnArm_learned[OF assms(1)]) (auto simp: linucb_inv_def)
  with assms(2) x u show ?thesis
    unfolding run linucb_inv_def armForLocked_upd by (simp add: dim)
next
  case False
  then have "linucb_sample G (OutcomeEvent wid' reward ctx) s wid = []" for wid
    by (auto split: option.split)
  moreover have "LinUCB_RecordOutcome G wid' reward ctx s = s"
    using False by (auto simp: LinUCB_RecordOutcome_def)
  ultimately show ?thesis using assms(2) by simp
qed

lemma linucb_step_inv:
  assumes "gonum_docs G" and "linucb_inv G hs s"
  shows "linucb_inv G (\<lambda>wid. hs wid @ linucb_sample G ev s wid) (linucb_step G ev s)"
  using Select_inv[OF assms] Record_inv[OF assms] by (cases ev) auto

lemma linucb_run_inv:
  assumes "gonum_docs G" and "linucb_inv G hs s"
  shows "linucb_inv G (\<lambda>wid. hs wid @ linucb_history G evs s wid) (linucb_run G evs s)"
  using assms(2)
proof (induction evs arbitrary: hs s)
  case (Cons ev evs)
  from Cons.IH[OF linucb_step_inv[OF assms(1) Cons.prems]] show ?case by simp
qed simp

subsection \<open>Selection\<close>

lemma LinUCB_eligible: "LinUCB_eligibleWorkers cc r env bt arch os = eligible cc r env bt arch os"
  by (auto simp: LinUCB_eligibleWorkers_def eligible_def matchingWorkers_def P2C_candidates_def Let_def)

text \<open>The upper confidence bound of a worker for a task, in a given state of the learner.\<close>

definition ucb :: "('m, 'v) gonum \<Rightarrow> ('m, 'v) LinUCBScheduler \<Rightarrow> Architecture \<Rightarrow> TaskContext \<Rightarrow> WorkerInfo \<Rightarrow> real" where
  "ucb G s arch ctx w =
     (case fst (score G (ID w) (featureVector G w arch ctx s) s) of (mean, bonus) \<Rightarrow> mean + bonus)"

text \<open>Scoring a worker refreshes caches and changes no score.\<close>

lemma refreshed_idem: "refreshed G (refreshed G arm) = refreshed G arm"
  by (simp add: refreshed_def)

lemma score_stable: "fst (score G wid x (snd (score G wid' x' s))) = fst (score G wid x s)"
  by (cases "wid = wid'") (simp_all add: score_alt armForLocked_upd refreshed_idem Let_def)

lemma featureVector_stable: "featureVector G w arch ctx (snd (score G wid x s)) = featureVector G w arch ctx s"
  by (simp add: featureVector_def score_alt Let_def)

lemma ucb_stable: "ucb G (ll_state (LinUCB_visit G arch ctx w l)) arch' ctx' w' = ucb G (ll_state l) arch' ctx' w'"
  by (simp add: ucb_def LinUCB_visit_state score_stable featureVector_stable)

lemma LinUCB_scan:
  assumes "\<And>w. ucb G (ll_state l) arch ctx w = ucb G s arch ctx w"
    and "map_option (\<lambda>(w, x, p). (w, p)) (ll_best l) = map_option (\<lambda>w. (w, ucb G s arch ctx w)) best"
  shows "map_option (\<lambda>(w, x, p). (w, p)) (ll_best (fold (LinUCB_visit G arch ctx) cs l)) =
    map_option (\<lambda>w. (w, ucb G s arch ctx w))
      (scan_best_from (\<lambda>a b. ucb G s arch ctx a > ucb G s arch ctx b) best cs)"
  using assms
proof (induction cs arbitrary: l best)
  case (Cons w cs)
  let ?l = "LinUCB_visit G arch ctx w l"
  have p: "(let ((mean, bonus), _) = score G (ID w) (featureVector G w arch ctx (ll_state l)) (ll_state l) in mean + bonus) =
      ucb G s arch ctx w"
    using Cons.prems(1)[of w] by (simp add: ucb_def case_prod_beta)
  have "map_option (\<lambda>(w, x, p). (w, p)) (ll_best ?l) =
      map_option (\<lambda>w. (w, ucb G s arch ctx w))
        (case best of None \<Rightarrow> Some w | Some b \<Rightarrow> if ucb G s arch ctx w > ucb G s arch ctx b then Some w else Some b)"
    using Cons.prems(2) p
    by (cases best; cases "ll_best l") (auto simp: LinUCB_visit_def Let_def case_prod_beta)
  from Cons.IH[OF _ this] show ?case by (simp add: ucb_stable Cons.prems(1))
qed simp

lemma LinUCB_loop:
  "map_option (\<lambda>(w, x, p). (w, p)) (ll_best (fold (LinUCB_visit G arch ctx) cs
      \<lparr>ll_state = s, ll_best = None, ll_bestMean = None\<rparr>)) =
    map_option (\<lambda>w. (w, ucb G s arch ctx w)) (scan_best (\<lambda>a b. ucb G s arch ctx a > ucb G s arch ctx b) cs)"
  unfolding scan_best_def by (rule LinUCB_scan) simp_all

lemma LinUCB_chosen:
  assumes "eligible cc r env bt arch os = Ok cs" and "length cs \<noteq> 1"
  obtains w info s' where "LinUCB_SelectWithDispatchInfo G cc r env bt arch os ctx s = (Ok (w, info), s')"
    "scan_best (\<lambda>a b. ucb G s arch ctx a > ucb G s arch ctx b) cs = Some w"
    "QValueAtDispatch info = ucb G s arch ctx w"
proof -
  have "cs \<noteq> []" using eligible_Ok[OF assms(1)] by blast
  then obtain w where w: "scan_best (\<lambda>a b. ucb G s arch ctx a > ucb G s arch ctx b) cs = Some w"
    using scan_best_None by (metis option.exhaust)
  then obtain x where "ll_best (fold (LinUCB_visit G arch ctx) cs
      \<lparr>ll_state = s, ll_best = None, ll_bestMean = None\<rparr>) = Some (w, x, ucb G s arch ctx w)"
    using LinUCB_loop[of G arch ctx cs s] by auto
  with that w assms show ?thesis
    by (auto simp: LinUCB_SelectWithDispatchInfo_def LinUCB_eligible Let_def)
qed

interpretation linucb: learning_scheduler
  "\<lambda>cc r env bt arch os ctx s. LinUCB_SelectWithDispatchInfo G cc r env bt arch os ctx s"
  "\<lambda>r wid reward ok ctx s. LinUCB_RecordOutcome G wid reward ctx s"
  for G :: "('m, 'v) gonum"
proof (unfold_locales, goal_cases)
  case (1 cc r env bt arch os cs ctx s)
  show ?case
  proof (cases "length cs = 1")
    case True
    with 1 show ?thesis by (simp add: LinUCB_SelectWithDispatchInfo_def LinUCB_eligible)
  next
    case False
    from LinUCB_chosen[OF 1 False, of G ctx s] show ?thesis by (metis fst_conv scan_best_mem)
  qed
next
  case (2 cc r env bt arch os e ctx s)
  then show ?case by (simp add: LinUCB_SelectWithDispatchInfo_def LinUCB_eligible)
next
  case (3 r reward ok ctx s)
  then show ?case by (simp add: LinUCB_RecordOutcome_def usableReward_def)
qed

subsection \<open>The feature vector\<close>

definition capped :: "real \<Rightarrow> real" where
  "capped v = (if v > 1 then 1 else v)"

definition feature :: "WorkerInfo \<Rightarrow> Architecture \<Rightarrow> TaskContext \<Rightarrow> LatencyTracker \<Rightarrow> nat \<Rightarrow> real" where
  "feature w arch ctx lt i =
     (if i = 0 then 1
      else if i = 1 then capped (ln (1 + real_of_int (SourceSizeBytes ctx)) / sizeNormDenom)
      else if i = 2 then of_bool (arch = ARCH_X86_64)
      else if i = 3 then of_bool (arch = ARCH_ARM64)
      else if i = 4 then (case Capabilities w of None \<Rightarrow> 0 | Some c \<Rightarrow> capped (real_of_int (CpuCores c) / 16))
      else if i = 5 then (case Capabilities w of None \<Rightarrow> 0 | Some c \<Rightarrow> capped (real_of_int (MemoryBytes c) / (64 * 1024 * 1024 * 1024)))
      else if i = 6 then (case Capabilities w of None \<Rightarrow> 0 | Some c \<Rightarrow> of_bool (NativeArch c = arch))
      else if i = 7 then capped (real_of_int (ActiveTasks w) / real_of_int (maxParallel w))
      else capped (LatencyTracker_Get (ID w) lt / 100))"

definition vec_is :: "('m, 'v) gonum \<Rightarrow> 'v \<Rightarrow> (nat \<Rightarrow> real) \<Rightarrow> bool" where
  "vec_is G v f \<longleftrightarrow> Len G v = 9 \<and> (\<forall>i < 9. AtVec G v i = f i)"

lemma vec_is_steps:
  assumes "gonum_docs G"
  shows "vec_is G (NewVecDense G 9) (\<lambda>_. 0)"
    and "vec_is G v f \<Longrightarrow> k < 9 \<Longrightarrow> vec_is G (SetVec G v k x) (f(k := x))"
  using docs_vec[OF assms] by (simp_all add: vec_is_def)

lemma vec_is_cond:
  assumes "gonum_docs G" and "vec_is G v f" and "k < 9" and "f k = 0"
  shows "vec_is G (if b then SetVec G v k 1 else v) (f(k := of_bool b))"
  using assms(2,4) vec_is_steps(2)[OF assms(1-3), of 1] by (auto simp: fun_upd_idem)

lemma featureVector_entries:
  assumes "gonum_docs G" and "lu_dim s = featureDim" and "i < featureDim"
  shows "AtVec G (featureVector G w arch ctx s) i = feature w arch ctx (lu_latency s) i"
proof -
  let ?f = "feature w arch ctx (lu_latency s)"
  note steps = vec_is_steps[OF assms(1)]
  have dim: "lu_dim s = 9" using assms(2) by (simp add: featureDim_def)
  have "featureVector G w arch ctx s =
      (let x = SetVec G (SetVec G (NewVecDense G 9) 0 (?f 0)) 1 (?f 1);
           x = (if arch = ARCH_X86_64 then SetVec G x 2 1 else x);
           x = (if arch = ARCH_ARM64 then SetVec G x 3 1 else x);
           x = SetVec G (SetVec G x 4 (?f 4)) 5 (?f 5);
           x = (if (case Capabilities w of None \<Rightarrow> False | Some c \<Rightarrow> NativeArch c = arch) then SetVec G x 6 1 else x)
       in SetVec G (SetVec G x 7 (?f 7)) 8 (?f 8))"
    by (cases arch; cases "Capabilities w") (simp_all add: featureVector_def feature_def capped_def dim Let_def)
  then have "vec_is G (featureVector G w arch ctx s) ((\<lambda>_. 0)(0 := ?f 0, 1 := ?f 1, 2 := of_bool (arch = ARCH_X86_64),
      3 := of_bool (arch = ARCH_ARM64), 4 := ?f 4, 5 := ?f 5,
      6 := of_bool (case Capabilities w of None \<Rightarrow> False | Some c \<Rightarrow> NativeArch c = arch), 7 := ?f 7, 8 := ?f 8))"
    unfolding Let_def by (simp only:) (intro steps vec_is_cond[OF assms(1)]; simp)
  then show ?thesis
    using assms(3) unfolding vec_is_def featureDim_def
    by (auto simp: feature_def split: option.split)
qed

lemma capped_bounds: "0 \<le> v \<Longrightarrow> 0 \<le> capped v \<and> capped v \<le> 1"
  by (simp add: capped_def)

subsection \<open>Properties\<close>

text \<open>
  C10. The incremental learner is exact ridge regression. After any run of selections and outcomes
  on a new scheduler, let \<open>h\<close> be the pairs of cached feature vector and reward that the
  outcomes of a worker consumed. Then \<^verbatim>\<open>score\<close> returns \<open>\<theta> \<cdot> x\<close> and \<open>\<alpha> \<surd>(x\<^sup>T B x)\<close> where \<open>B\<close>
  inverts \<open>I + \<Sum> x x\<^sup>T\<close> over \<open>h\<close> and \<open>\<theta>\<close> solves its normal equations with \<open>\<Sum> r x\<close>: the
  Sherman-Morrison updates, the lazy recomputation and the clamp of negative values never
  deviate from the definition.
\<close>

theorem LinUCB_ridge_regression:
  assumes "gonum_docs G" and "Len G x = featureDim"
  shows "let s = linucb_run G evs (NewLinUCBScheduler a lt);
      h = linucb_history G evs (NewLinUCBScheduler a lt) wid
    in \<exists>\<theta> B. inverse_of featureDim (gram h) B \<and>
    (\<forall>i < featureDim. dot featureDim (gram h i) \<theta> = moment h i) \<and>
    fst (score G wid x s) =
      (dot featureDim \<theta> (AtVec G x),
       lu_alpha s * sqrt (dot featureDim (AtVec G x) (\<lambda>k. dot featureDim (B k) (AtVec G x))))"
proof -
  let ?s = "linucb_run G evs (NewLinUCBScheduler a lt)" and ?h = "linucb_history G evs (NewLinUCBScheduler a lt)"
  have "linucb_inv G ?h ?s"
    using linucb_run_inv[OF assms(1) New_linucb_inv[OF assms(1)], of evs a lt] by simp
  then have "arm_learned G featureDim (?h wid) (fst (armForLocked G wid ?s))"
    by (simp add: linucb_inv_def)
  from score_values[OF assms(1) this assms(2)] show ?thesis by (simp add: Let_def)
qed

lemma LinUCB_ridge_regression_witness:
  "\<exists>\<theta> B. inverse_of featureDim (gram []) B \<and>
     (\<forall>i < featureDim. dot featureDim (gram [] i) \<theta> = moment [] i) \<and>
     fst (score tableGonum ''w1'' (featureDim, \<lambda>i. 1) (NewLinUCBScheduler 1 None)) =
       (dot featureDim \<theta> (\<lambda>i. 1), sqrt (dot featureDim (\<lambda>i. 1) (\<lambda>k. dot featureDim (B k) (\<lambda>i. 1))))"
  using LinUCB_ridge_regression[OF tableGonum_docs, where x = "(featureDim, \<lambda>i. 1)" and wid = "''w1''"
      and evs = "[]" and a = 1 and lt = None]
  by (simp add: tableGonum_def NewLinUCBScheduler_def)

text \<open>
  The selected worker has the highest upper confidence bound among the eligible workers, ties
  going to the one listed first, and the reported value is that bound.
\<close>

theorem LinUCB_argmax:
  assumes "LinUCB_eligibleWorkers cc r env bt arch os = Ok cs" and "length cs \<noteq> 1"
  shows "\<exists>w info xs ys. fst (LinUCB_SelectWithDispatchInfo G cc r env bt arch os ctx s) = Ok (w, info) \<and>
    QValueAtDispatch info = ucb G s arch ctx w \<and>
    cs = xs @ w # ys \<and> (\<forall>w' \<in> set xs. ucb G s arch ctx w' < ucb G s arch ctx w) \<and>
    (\<forall>w' \<in> set cs. ucb G s arch ctx w' \<le> ucb G s arch ctx w)"
proof -
  obtain w info s' where w: "LinUCB_SelectWithDispatchInfo G cc r env bt arch os ctx s = (Ok (w, info), s')"
      "scan_best (\<lambda>a b. ucb G s arch ctx a > ucb G s arch ctx b) cs = Some w" "QValueAtDispatch info = ucb G s arch ctx w"
    by (rule LinUCB_chosen[OF assms(1)[unfolded LinUCB_eligible] assms(2), of G ctx s])
  let ?f = "\<lambda>w. - ucb G s arch ctx w"
  have best: "scan_best (\<lambda>a b. ?f a < ?f b) cs = Some w" using w(2) by simp
  obtain xs ys where "cs = xs @ w # ys" "\<forall>x \<in> set xs. ?f w < ?f x" using scan_best_first[OF best] by blast
  then have "cs = xs @ w # ys" "\<forall>x \<in> set xs. ucb G s arch ctx x < ucb G s arch ctx w" by simp_all
  moreover have "\<forall>x \<in> set cs. ucb G s arch ctx x \<le> ucb G s arch ctx w" using scan_best_least[OF best] by simp
  moreover have "fst (LinUCB_SelectWithDispatchInfo G cc r env bt arch os ctx s) = Ok (w, info)" using w(1) by simp
  ultimately show ?thesis using w(3) by blast
qed

lemma LinUCB_argmax_witness:
  "\<exists>w info. fst (LinUCB_SelectWithDispatchInfo tableGonum None sampleRegistry sampleEnv BUILD_TYPE_CPP ARCH_X86_64 ''''
      emptyTaskContext (NewLinUCBScheduler 1 None)) = Ok (w, info) \<and>
    ucb tableGonum (NewLinUCBScheduler 1 None) ARCH_X86_64 emptyTaskContext (sampleRegistered ''w2'') \<le>
    ucb tableGonum (NewLinUCBScheduler 1 None) ARCH_X86_64 emptyTaskContext w"
proof -
  have el: "LinUCB_eligibleWorkers None sampleRegistry sampleEnv BUILD_TYPE_CPP ARCH_X86_64 '''' =
      Ok [sampleRegistered ''w1'', sampleRegistered ''w2'']"
    by (simp add: LinUCB_eligible eligible_def sampleRegistry_matching sample_candidates)
  have two: "length [sampleRegistered ''w1'', sampleRegistered ''w2''] \<noteq> 1" by simp
  have mem: "sampleRegistered ''w2'' \<in> set [sampleRegistered ''w1'', sampleRegistered ''w2'']" by simp
  show ?thesis
    using LinUCB_argmax[OF el two, of tableGonum emptyTaskContext "NewLinUCBScheduler 1 None"]
    by (elim exE conjE) (intro exI conjI, assumption, drule bspec[OF _ mem], assumption)
qed

text \<open>
  The features are normalised: with non-negative sizes, capabilities, loads and latencies,
  every entry of the feature vector lies in \<open>[0, 1]\<close>.
\<close>

theorem featureVector_bounds:
  assumes "gonum_docs G" and "lu_dim s = featureDim" and "i < featureDim"
    and "SourceSizeBytes ctx \<ge> 0" and "ActiveTasks w \<ge> 0" and "LatencyTracker_Get (ID w) (lu_latency s) \<ge> 0"
    and "\<forall>c. Capabilities w = Some c \<longrightarrow> CpuCores c \<ge> 0 \<and> MemoryBytes c \<ge> 0"
  shows "0 \<le> AtVec G (featureVector G w arch ctx s) i \<and> AtVec G (featureVector G w arch ctx s) i \<le> 1"
proof -
  have "0 \<le> ln (1 + real_of_int (SourceSizeBytes ctx)) / sizeNormDenom"
    using assms(4) by (simp add: sizeNormDenom_def)
  moreover have "0 \<le> real_of_int (ActiveTasks w) / real_of_int (maxParallel w)"
    using assms(5) by (simp add: maxParallel_def)
  ultimately show ?thesis
    unfolding featureVector_entries[OF assms(1-3)] feature_def
    using assms(6,7) by (auto simp: capped_bounds split: option.split)
qed

lemma featureVector_bounds_witness:
  "AtVec tableGonum (featureVector tableGonum (sampleWorker ''w1'') ARCH_X86_64 emptyTaskContext
     (NewLinUCBScheduler 1 None)) 4 \<le> 1"
  using featureVector_bounds[OF tableGonum_docs, of "NewLinUCBScheduler 1 None" 4 emptyTaskContext
      "sampleWorker ''w1''" ARCH_X86_64]
  by (simp add: NewLinUCBScheduler_def featureDim_def emptyTaskContext_def sampleWorker_def sampleCaps_def
      LatencyTracker_Get_def NewLatencyTracker_def DefaultLatencyMs_def)

text \<open>
  Finding: with a single eligible worker nothing is learned. The fast path does not cache the
  feature vector, so the outcome of the task is dropped; the comment at the drop names only
  a missing task ID and a restarted scheduler as causes.
\<close>

theorem LinUCB_single_candidate_not_learned:
  assumes "LinUCB_eligibleWorkers cc r env bt arch os = Ok [w]" and "fmlookup (lu_pendingX s) (TaskID ctx) = None"
  shows "fst (LinUCB_SelectWithDispatchInfo G cc r env bt arch os ctx s) = Ok (w, emptyDispatchInfo) \<and>
    LinUCB_RecordOutcome G (ID w) reward ctx (snd (LinUCB_SelectWithDispatchInfo G cc r env bt arch os ctx s)) = s"
  using assms by (simp add: LinUCB_SelectWithDispatchInfo_def LinUCB_RecordOutcome_def emptyDispatchInfo_def)

lemma LinUCB_single_candidate_not_learned_witness:
  "LinUCB_RecordOutcome tableGonum ''w1'' (Fin 1) \<lparr>SourceSizeBytes = 10, TaskID = ''t1''\<rparr>
     (snd (LinUCB_SelectWithDispatchInfo tableGonum None
        (Add 5 (sampleWorker ''w1'') (NewInMemoryRegistry 60)) (sampleEnv\<lparr>env_order := [''w1'']\<rparr>)
        BUILD_TYPE_CPP ARCH_X86_64 '''' \<lparr>SourceSizeBytes = 10, TaskID = ''t1''\<rparr> (NewLinUCBScheduler 1 None))) =
   NewLinUCBScheduler 1 None"
proof -
  have el: "LinUCB_eligibleWorkers None (Add 5 (sampleWorker ''w1'') (NewInMemoryRegistry 60))
      (sampleEnv\<lparr>env_order := [''w1'']\<rparr>) BUILD_TYPE_CPP ARCH_X86_64 '''' = Ok [sampleRegistered ''w1'']"
    by (simp add: LinUCB_eligible eligible_def matchingWorkers_def ListByCapability_def sampleEnv_def Add_def
        NewInMemoryRegistry_def sampleWorker_def sampleRegistered_def sampleCaps_def IsHealthy_def time_sub_def
        maxDuration_def minDuration_def matchesCapability_def P2C_candidates_def circuitOpen_def maxParallel_def
        updateWorkerMetrics_def)
  have "ID (sampleRegistered ''w1'') = ''w1''" by (simp add: sampleRegistered_def sampleWorker_def)
  with LinUCB_single_candidate_not_learned[OF el, of "NewLinUCBScheduler 1 None"
      "\<lparr>SourceSizeBytes = 10, TaskID = ''t1''\<rparr>" tableGonum "Fin 1"]
  show ?thesis by (simp add: NewLinUCBScheduler_def)
qed

end
