(* ===== verification/Scheduling.thy ===== *)
theory Scheduling
  imports Epsilon_Greedy HEFT LinUCB
begin

text \<open>
  The configured scheduler of the coordinator: the factory \<^verbatim>\<open>newScheduler\<close> of
  \<^verbatim>\<open>server/grpc.go\<close> and the dispatch \<^verbatim>\<open>SelectWith\<close> of \<^verbatim>\<open>scheduler/feedback.go\<close>, which asks a
  learning scheduler for its view of the decision and falls back to \<^verbatim>\<open>Select\<close> for the others.
  The interface value is a datatype with one constructor per implementation, holding its state.
\<close>

datatype ('m, 'v) Scheduler =
    SimpleS "64 word" | LeastLoadedS | P2CS LatencyTracker
  | EpsilonGreedyS EpsilonGreedyScheduler | LinUCBS "('m, 'v) LinUCBScheduler" | HEFTS HEFTScheduler

definition newScheduler :: "string \<Rightarrow> real \<Rightarrow> real \<Rightarrow> ('m, 'v) Scheduler" where
  "newScheduler schedulerType epsilonValue alphaValue =
     (if schedulerType = ''simple'' then SimpleS 0
      else if schedulerType = ''p2c'' then P2CS (NewP2CScheduler None)
      else if schedulerType = ''epsilon-greedy'' then
        EpsilonGreedyS (NewEpsilonGreedyScheduler (if epsilonValue = 0 then 1 / 10 else epsilonValue))
      else if schedulerType = ''linucb'' then LinUCBS (NewLinUCBScheduler alphaValue None)
      else if schedulerType = ''heft'' then HEFTS (NewHEFTScheduler 0)
      else LeastLoadedS)"

definition withoutInfo :: "(sched_error, WorkerInfo) outcome \<Rightarrow> (sched_error, WorkerInfo \<times> DispatchInfo) outcome" where
  "withoutInfo = outcome_map (\<lambda>w. (w, emptyDispatchInfo))"

fun SelectWith ::
    "('m, 'v) gonum \<Rightarrow> circuit_checker \<Rightarrow> InMemoryRegistry \<Rightarrow> sched_env \<Rightarrow> BuildType \<Rightarrow> Architecture \<Rightarrow> string \<Rightarrow>
       TaskContext \<Rightarrow> ('m, 'v) Scheduler \<Rightarrow> (sched_error, WorkerInfo \<times> DispatchInfo) outcome \<times> ('m, 'v) Scheduler" where
  "SelectWith G cc r env bt arch os ctx (SimpleS c) =
     (case SimpleScheduler_Select r env bt arch os c of (res, c') \<Rightarrow> (withoutInfo res, SimpleS c'))"
| "SelectWith G cc r env bt arch os ctx LeastLoadedS =
     (withoutInfo (LeastLoadedScheduler_Select r env bt arch os), LeastLoadedS)"
| "SelectWith G cc r env bt arch os ctx (P2CS lt) =
     (withoutInfo (P2CScheduler_Select cc lt r env bt arch os), P2CS lt)"
| "SelectWith G cc r env bt arch os ctx (EpsilonGreedyS s) =
     (EpsilonGreedy_SelectWithDispatchInfo cc r env bt arch os s, EpsilonGreedyS s)"
| "SelectWith G cc r env bt arch os ctx (LinUCBS s) =
     (case LinUCB_SelectWithDispatchInfo G cc r env bt arch os ctx s of (res, s') \<Rightarrow> (res, LinUCBS s'))"
| "SelectWith G cc r env bt arch os ctx (HEFTS s) =
     (case HEFT_SelectWithDispatchInfo cc r env bt arch os s of (res, s') \<Rightarrow> (res, HEFTS s'))"

text \<open>\<^verbatim>\<open>s.scheduler.(scheduler.LearningScheduler)\<close>\<close>

fun isLearning :: "('m, 'v) Scheduler \<Rightarrow> bool" where
  "isLearning (EpsilonGreedyS s) = True"
| "isLearning (LinUCBS s) = True"
| "isLearning (HEFTS s) = True"
| "isLearning _ = False"

fun RecordOutcome ::
    "('m, 'v) gonum \<Rightarrow> InMemoryRegistry \<Rightarrow> string \<Rightarrow> float_value \<Rightarrow> TaskContext \<Rightarrow> ('m, 'v) Scheduler \<Rightarrow> ('m, 'v) Scheduler" where
  "RecordOutcome G r wid reward ctx (EpsilonGreedyS s) = EpsilonGreedyS (EpsilonGreedy_RecordOutcome wid reward s)"
| "RecordOutcome G r wid reward ctx (LinUCBS s) = LinUCBS (LinUCB_RecordOutcome G wid reward ctx s)"
| "RecordOutcome G r wid reward ctx (HEFTS s) = HEFTS (HEFT_RecordOutcome r wid s)"
| "RecordOutcome G r wid reward ctx s = s"

text \<open>Only the round robin has a state in which a selection can panic.\<close>

fun sched_ready :: "('m, 'v) Scheduler \<Rightarrow> bool" where
  "sched_ready (SimpleS c) = counter_ready c"
| "sched_ready _ = True"

fun sched_capacity :: "('m, 'v) Scheduler \<Rightarrow> bool" where
  "sched_capacity LeastLoadedS = False"
| "sched_capacity _ = True"

lemma withoutInfo_simps [simp]:
  "outcome_map fst (withoutInfo x) = x" "withoutInfo x = Ok (w, i) \<longleftrightarrow> x = Ok w \<and> i = emptyDispatchInfo"
  "withoutInfo x = Err e \<longleftrightarrow> x = Err e" "withoutInfo x = Panic \<longleftrightarrow> x = Panic"
  by (cases x; auto simp: withoutInfo_def)+

lemma outcome_map_eqs [simp]:
  "outcome_map f x = Err e \<longleftrightarrow> x = Err e" "outcome_map f x = Panic \<longleftrightarrow> x = Panic"
  by (cases x; auto)+

text \<open>The learning implementations under an arbitrary task context.\<close>

lemma learning_select:
  assumes "learning_scheduler select_info record_outcome"
  shows "fst (select_info cc r env bt arch os ctx s) = Ok (w, i) \<Longrightarrow> admissible r env bt arch os w \<and> hasCapacity w"
    and "fst (select_info cc r env bt arch os ctx s) \<noteq> Panic"
    and "fst (select_info cc r env bt arch os ctx s) = Err ErrNoWorkers \<longleftrightarrow> Count r = 0"
proof -
  note l = learning_scheduler.select_eligible[OF assms, of cc r env bt arch os _ ctx s]
    learning_scheduler.select_rejected[OF assms, of cc r env bt arch os _ ctx s]
  show "admissible r env bt arch os w \<and> hasCapacity w" if "fst (select_info cc r env bt arch os ctx s) = Ok (w, i)"
    using learning_scheduler.select_info_Ok[OF assms that] eligible_Ok by metis
  show "fst (select_info cc r env bt arch os ctx s) \<noteq> Panic"
    using l by (cases "eligible cc r env bt arch os") fastforce+
  show "fst (select_info cc r env bt arch os ctx s) = Err ErrNoWorkers \<longleftrightarrow> Count r = 0"
    using l eligible_NoWorkers[of cc r env bt arch os] by (cases "eligible cc r env bt arch os") fastforce+
qed

lemmas learning_selects =
  learning_select[OF epsilon.learning_scheduler_axioms, simplified]
  learning_select[OF heft.learning_scheduler_axioms]
  learning_select[OF linucb.learning_scheduler_axioms]

text \<open>Whichever scheduler is configured, the coordinator's selection meets the contract.\<close>

interpretation configured: scheduler
  "\<lambda>r env bt arch os (cc, ctx, s). outcome_map fst (fst (SelectWith G cc r env bt arch os ctx s))"
  "\<lambda>(cc, ctx, s). sched_ready s"
  for G :: "('m, 'v) gonum"
proof (unfold_locales, goal_cases)
  case (1 r env bt arch os st w)
  obtain cc ctx s where st: "st = (cc, ctx, s)" by (cases st)
  show ?case
    using 1 simple.select_admissible[of r env bt arch os] leastloaded.select_admissible[of r env bt arch os]
      p2c.select_admissible[of r env bt arch os]
    by (cases s) (auto simp: st outcome_map_eq_Ok case_prod_beta dest: learning_selects(1,4,7))
next
  case (2 st r env bt arch os)
  obtain cc ctx s where st: "st = (cc, ctx, s)" by (cases st)
  show ?case
    using 2 simple.select_no_panic[of _ r env bt arch os] leastloaded.select_no_panic[of r env bt arch os]
      p2c.select_no_panic[of r env bt arch os]
    by (cases s) (auto simp: st case_prod_beta learning_selects(2,5,8))
next
  case (3 r env bt arch os st)
  obtain cc ctx s where st: "st = (cc, ctx, s)" by (cases st)
  show ?case
    using simple.select_no_workers[of r env bt arch os] leastloaded.select_no_workers[of r env bt arch os]
      p2c.select_no_workers[of r env bt arch os]
    by (cases s) (auto simp: st case_prod_beta learning_selects(3,6,9))
qed

lemma SelectWith_capacity:
  assumes "fst (SelectWith G cc r env bt arch os ctx s) = Ok (w, i)" and "sched_capacity s"
  shows "ActiveTasks w < maxParallel w"
  using assms simple.select_capacity[of r env bt arch os] p2c.select_capacity[of r env bt arch os]
  by (cases s) (auto simp: case_prod_beta hasCapacity_def dest: learning_selects(1,4,7))


lemma SelectWith_admissible:
  assumes "fst (SelectWith G cc r env bt arch os ctx s) = Ok (w, i)"
  shows "admissible r env bt arch os w"
  using configured.select_admissible[where s = "(cc, ctx, s)" and G = G] assms by simp

lemma SelectWith_registered:
  assumes "registry_inv r" and "iter_order (workers r) (env_order env)"
    and "fst (SelectWith G cc r env bt arch os ctx s) = Ok (w, i)"
  shows "Get (ID w) r = Some w \<and> matchesCapability (Capabilities w) bt arch"
  using configured.select_registered[where s = "(cc, ctx, s)" and G = G, OF assms(1,2), of bt arch os w] assms(3)
  by simp

text \<open>
  The schedulers that respect capacity succeed on exactly the same requests: those for which an
  admissible worker has a free slot.
\<close>

lemma learning_complete:
  assumes "learning_scheduler select_info record_outcome"
    and "admissible r env bt arch os w" and "hasCapacity w"
  shows "\<exists>p. fst (select_info cc r env bt arch os ctx s) = Ok p"
proof -
  obtain cs where "eligible cc r env bt arch os = Ok cs" using eligible_complete[OF assms(2,3)] by blast
  from learning_scheduler.select_eligible[OF assms(1) this] show ?thesis by blast
qed

lemma SelectWith_iff:
  assumes "sched_capacity s" and "sched_ready s"
  shows "(\<exists>p. fst (SelectWith G cc r env bt arch os ctx s) = Ok p) \<longleftrightarrow>
    (\<exists>w. admissible r env bt arch os w \<and> hasCapacity w)"
proof
  assume "\<exists>p. fst (SelectWith G cc r env bt arch os ctx s) = Ok p"
  then obtain w i where p: "fst (SelectWith G cc r env bt arch os ctx s) = Ok (w, i)" by auto
  from SelectWith_admissible[OF p] SelectWith_capacity[OF p assms(1)] show "\<exists>w. admissible r env bt arch os w \<and> hasCapacity w"
    by (auto simp: hasCapacity_def)
next
  assume "\<exists>w. admissible r env bt arch os w \<and> hasCapacity w"
  then obtain w where w: "admissible r env bt arch os w" "hasCapacity w" by blast
  note complete = simple.select_complete[where r = r and env = env and bt = bt and arch = arch and os = os]
    p2c.select_complete[where r = r and env = env and bt = bt and arch = arch and os = os]
    learning_complete[OF epsilon.learning_scheduler_axioms w, simplified]
    learning_complete[OF heft.learning_scheduler_axioms w]
    learning_complete[OF linucb.learning_scheduler_axioms w]
  show "\<exists>p. fst (SelectWith G cc r env bt arch os ctx s) = Ok p"
    using assms w complete by (cases s) (fastforce simp: case_prod_beta)+
qed

text \<open>The least-loaded scheduler needs no free slot: any admissible worker will do.\<close>

lemma LeastLoaded_complete:
  assumes "admissible r env bt arch os w"
  shows "\<exists>w'. LeastLoadedScheduler_Select r env bt arch os = Ok w'"
proof (cases "matchingWorkers r env bt arch os")
  case (Ok ws)
  then have "w \<in> set (filter (\<lambda>w. State w \<noteq> WorkerStateUnhealthy) ws)"
    using matchingWorkers_Ok[OF Ok] assms admissible_not_unhealthy[OF assms] by simp
  then have "filter (\<lambda>w. State w \<noteq> WorkerStateUnhealthy) ws \<noteq> []" by (metis list.set(1) empty_iff)
  then have "scan_best (\<lambda>w best. ActiveTasks w < ActiveTasks best)
      (filter (\<lambda>w. State w \<noteq> WorkerStateUnhealthy) ws) \<noteq> None" by (simp only: scan_best_None not_False_eq_True)
  then obtain v where "scan_best (\<lambda>w best. ActiveTasks w < ActiveTasks best)
      (filter (\<lambda>w. State w \<noteq> WorkerStateUnhealthy) ws) = Some v" unfolding not_None_eq by (elim exE)
  then show ?thesis by (simp add: LeastLoaded_bind LeastLoaded_choice_def Ok)
qed (use assms matchingWorkers_Err in auto)

lemma SelectWith_iff_any:
  assumes "sched_ready s"
  shows "(\<exists>p. fst (SelectWith G cc r env bt arch os ctx s) = Ok p) \<longleftrightarrow>
    (\<exists>w. admissible r env bt arch os w \<and> (sched_capacity s \<longrightarrow> hasCapacity w))"
proof (cases "sched_capacity s")
  case True
  then show ?thesis using SelectWith_iff[OF True assms] by simp
next
  case False
  then have s: "s = LeastLoadedS" by (cases s) simp_all
  show ?thesis
    using leastloaded.select_admissible[of r env bt arch os] LeastLoaded_complete[of r env bt arch os]
    by (auto simp: s)
qed

lemma SelectWith_refuses_any:
  assumes "sched_ready s"
  shows "fst (SelectWith G cc r env bt arch os ctx s) = Err e \<longleftrightarrow>
      (if Count r = 0 then e = ErrNoWorkers
       else e = ErrNoMatchingWorkers \<and>
         \<not> (\<exists>w. admissible r env bt arch os w \<and> (sched_capacity s \<longrightarrow> hasCapacity w)))"
proof -
  have "fst (SelectWith G cc r env bt arch os ctx s) \<noteq> Panic"
    and "fst (SelectWith G cc r env bt arch os ctx s) = Err ErrNoWorkers \<longleftrightarrow> Count r = 0"
    using configured.select_no_panic[where s = "(cc, ctx, s)" and G = G]
      configured.select_no_workers[where s = "(cc, ctx, s)" and G = G] assms by simp_all
  with SelectWith_iff_any[OF assms, of G cc r env bt arch os ctx] show ?thesis
    by (cases "fst (SelectWith G cc r env bt arch os ctx s)") (auto, (metis sched_error.exhaust)+)
qed

lemma SelectWith_refuses:
  assumes "sched_capacity s" and "sched_ready s"
  shows "fst (SelectWith G cc r env bt arch os ctx s) = Err e \<longleftrightarrow>
      (if Count r = 0 then e = ErrNoWorkers
       else e = ErrNoMatchingWorkers \<and> \<not> (\<exists>w. admissible r env bt arch os w \<and> hasCapacity w))"
  using SelectWith_refuses_any[OF assms(2)] assms(1) by simp

text \<open>
  C9. Whichever scheduler is configured, a worker the coordinator selects is registered under its
  ID, is not stale or marked unhealthy, can do the build, passes the OS filter and, except under
  the least-loaded scheduler, has a free slot. A selection reports an empty registry exactly when
  the registry is empty. Unless the round robin's counter has overflowed, a selection never panics,
  and it reports that no worker matches exactly when the registry has workers but none that meets
  all of these conditions.
\<close>

theorem SelectWith_sound:
  assumes "registry_inv r" and "iter_order (workers r) (env_order env)"
  shows "(\<forall>w i. fst (SelectWith G cc r env bt arch os ctx s) = Ok (w, i) \<longrightarrow>
           Get (ID w) r = Some w \<and> IsHealthy (env_now env) (ttl r) w \<and>
           matchesCapability (Capabilities w) bt arch \<and> osAdmits os w \<and>
           (sched_capacity s \<longrightarrow> ActiveTasks w < maxParallel w))
    \<and> (fst (SelectWith G cc r env bt arch os ctx s) = Err ErrNoWorkers \<longleftrightarrow> Count r = 0)
    \<and> (sched_ready s \<longrightarrow> fst (SelectWith G cc r env bt arch os ctx s) \<noteq> Panic)
    \<and> (sched_ready s \<longrightarrow>
         (fst (SelectWith G cc r env bt arch os ctx s) = Err ErrNoMatchingWorkers \<longleftrightarrow>
            Count r \<noteq> 0 \<and>
            \<not> (\<exists>w. Get (ID w) r = Some w \<and> IsHealthy (env_now env) (ttl r) w \<and>
                  matchesCapability (Capabilities w) bt arch \<and> osAdmits os w \<and>
                  (sched_capacity s \<longrightarrow> ActiveTasks w < maxParallel w))))"
proof (intro conjI allI impI)
  fix w i assume sel: "fst (SelectWith G cc r env bt arch os ctx s) = Ok (w, i)"
  show "IsHealthy (env_now env) (ttl r) w" "osAdmits os w"
    using SelectWith_admissible[OF sel] by (auto simp: admissible_def ListByCapability_def)
  show "Get (ID w) r = Some w" "matchesCapability (Capabilities w) bt arch"
    using SelectWith_registered[OF assms sel] by simp_all
  show "ActiveTasks w < maxParallel w" if "sched_capacity s"
    using SelectWith_capacity[OF sel that] .
next
  show "fst (SelectWith G cc r env bt arch os ctx s) = Err ErrNoWorkers \<longleftrightarrow> Count r = 0"
    using configured.select_no_workers[where s = "(cc, ctx, s)" and G = G] by simp
  show "fst (SelectWith G cc r env bt arch os ctx s) \<noteq> Panic" if "sched_ready s"
    using configured.select_no_panic[where s = "(cc, ctx, s)" and G = G] that by simp
next
  assume ready: "sched_ready s"
  show "fst (SelectWith G cc r env bt arch os ctx s) = Err ErrNoMatchingWorkers \<longleftrightarrow>
      Count r \<noteq> 0 \<and>
      \<not> (\<exists>w. Get (ID w) r = Some w \<and> IsHealthy (env_now env) (ttl r) w \<and>
            matchesCapability (Capabilities w) bt arch \<and> osAdmits os w \<and>
            (sched_capacity s \<longrightarrow> ActiveTasks w < maxParallel w))"
    using ListByCapability_exact[OF assms, of "env_now env" bt arch]
    by (simp add: SelectWith_refuses_any[OF ready] admissible_def hasCapacity_def)
qed

lemma SelectWith_sound_witness:
  "fst (SelectWith tableGonum None sampleRegistry sampleEnv BUILD_TYPE_CPP ARCH_X86_64 '''' emptyTaskContext
     (newScheduler ''leastloaded'' 0 0)) = Ok (sampleRegistered ''w1'', emptyDispatchInfo) \<and>
   IsHealthy 10 60 (sampleRegistered ''w1'')"
proof -
  have sel: "fst (SelectWith tableGonum None sampleRegistry sampleEnv BUILD_TYPE_CPP ARCH_X86_64 '''' emptyTaskContext
      (newScheduler ''leastloaded'' 0 0)) = Ok (sampleRegistered ''w1'', emptyDispatchInfo)"
    by (simp add: newScheduler_def LeastLoadedScheduler_Select_def sampleRegistry_matching scan_best_def
        sampleRegistered_def sampleWorker_def)
  moreover have "env_now sampleEnv = 10" by (simp add: sampleEnv_def)
  ultimately show ?thesis
    using SelectWith_sound[OF sampleRegistry_inv sampleRegistry_order] sampleRegistry_ttl by metis
qed

text \<open>
  The five schedulers that respect capacity answer the same requests: two of them, in any
  state and with any circuit information, refuse a request with the same error.
\<close>

theorem schedulers_refuse_alike:
  assumes "sched_capacity s" and "sched_ready s" and "sched_capacity s'" and "sched_ready s'"
  shows "fst (SelectWith G cc r env bt arch os ctx s) = Err e \<longleftrightarrow>
    fst (SelectWith G' cc' r (env\<lparr>env_draw := draw\<rparr>) bt arch os ctx' s') = Err e"
proof -
  have "admissible r (env\<lparr>env_draw := draw\<rparr>) bt arch os = admissible r env bt arch os"
    by (simp add: admissible_def fun_eq_iff)
  then show ?thesis using SelectWith_refuses[OF assms(1,2)] SelectWith_refuses[OF assms(3,4)] by simp
qed

lemma schedulers_refuse_alike_witness:
  "fst (SelectWith tableGonum None (NewInMemoryRegistry 60) sampleEnv BUILD_TYPE_CPP ARCH_X86_64 '''' emptyTaskContext
     (newScheduler ''heft'' 0 0)) = Err ErrNoWorkers"
  using schedulers_refuse_alike[of "newScheduler ''heft'' 0 0" "newScheduler ''p2c'' 0 0" tableGonum None
      "NewInMemoryRegistry 60" sampleEnv BUILD_TYPE_CPP ARCH_X86_64 "''''" emptyTaskContext ErrNoWorkers
      tableGonum None "env_draw sampleEnv" emptyTaskContext]
  by (simp add: newScheduler_def P2CScheduler_Select_def matchingWorkers_def ListByCapability_def sampleEnv_def
      NewInMemoryRegistry_def Count_def map_len_def range_vals_set)

end
