(* ===== verification/Circuit.thy ===== *)
theory Circuit
  imports HG_Prelude
begin

text \<open>
  The per-worker circuit breakers, \<^verbatim>\<open>internal/coordinator/resilience/circuit.go\<close>. The breaker
  itself is the library \<^verbatim>\<open>sony/gobreaker\<close>: it is a parameter of the model, a record of its
  three entry points over an abstract breaker type. A call into the library also yields the
  state transitions it went through, which the manager reports to its callback.
\<close>

subsection \<open>The library's interface\<close>

datatype gobreaker_State = StateClosed | StateHalfOpen | StateOpen | StateInvalid int

record Counts =
  Requests :: nat
  TotalFailures :: nat

record Settings =
  Name :: string
  st_MaxRequests :: nat
  st_Interval :: int
  st_Timeout :: int
  ReadyToTrip :: "Counts \<Rightarrow> bool"

type_synonym transitions = "(gobreaker_State \<times> gobreaker_State) list"

record ('b, 'e, 'v) gobreaker =
  NewCircuitBreaker :: "Settings \<Rightarrow> 'b"
  gb_Execute :: "int \<Rightarrow> 'e + 'v \<Rightarrow> 'b \<Rightarrow> ('e + 'v) \<times> 'b \<times> transitions"
  gb_State :: "int \<Rightarrow> 'b \<Rightarrow> gobreaker_State \<times> 'b \<times> transitions"

subsection \<open>The manager\<close>

datatype CircuitState = CircuitClosed | CircuitHalfOpen | CircuitOpen

record CircuitConfig =
  MaxRequests :: nat
  Interval :: int
  Timeout :: int
  FailureRatio :: real
  MinRequests :: nat

definition DefaultCircuitConfig :: CircuitConfig where
  "DefaultCircuitConfig =
     \<lparr>MaxRequests = 3, Interval = 10 * Second, Timeout = 60 * Second,
      FailureRatio = 6 / 10, MinRequests = 3\<rparr>"

text \<open>
  \<open>onChange\<close> says whether a callback is set, and \<open>notified\<close> lists the calls it has
  received.
\<close>

record 'b CircuitManager =
  breakers :: "(string, 'b) fmap"
  circuit_config :: CircuitConfig
  onChange :: bool
  notified :: "(string \<times> CircuitState \<times> CircuitState) list"

definition NewCircuitManager :: "CircuitConfig \<Rightarrow> 'b CircuitManager" where
  "NewCircuitManager cfg =
     \<lparr>breakers = fmempty, circuit_config = cfg, onChange = False, notified = []\<rparr>"

definition OnStateChange :: "'b CircuitManager \<Rightarrow> 'b CircuitManager" where
  "OnStateChange m = m\<lparr>onChange := True\<rparr>"

fun gobreakerStateToCircuitState :: "gobreaker_State \<Rightarrow> CircuitState" where
  "gobreakerStateToCircuitState StateClosed = CircuitClosed"
| "gobreakerStateToCircuitState StateHalfOpen = CircuitHalfOpen"
| "gobreakerStateToCircuitState StateOpen = CircuitOpen"
| "gobreakerStateToCircuitState (StateInvalid n) = CircuitClosed"

text \<open>
  The trip condition divides two \<^verbatim>\<open>float64\<close> values: with no requests it is \<open>0/0\<close>, which
  compares false, or a positive number over zero, which is infinite.
\<close>

definition readyToTrip :: "CircuitConfig \<Rightarrow> Counts \<Rightarrow> bool" where
  "readyToTrip cfg counts =
     (if Requests counts < MinRequests cfg then False
      else if Requests counts = 0 then TotalFailures counts > 0
      else real (TotalFailures counts) / real (Requests counts) \<ge> FailureRatio cfg)"

definition breakerSettings :: "CircuitConfig \<Rightarrow> string \<Rightarrow> Settings" where
  "breakerSettings cfg wid =
     \<lparr>Name = wid, st_MaxRequests = MaxRequests cfg, st_Interval = Interval cfg,
      st_Timeout = Timeout cfg, ReadyToTrip = readyToTrip cfg\<rparr>"

text \<open>
  \<^verbatim>\<open>getOrCreate\<close> is two critical sections: a lookup under the read lock, then, if it found
  nothing, a second lookup and the creation under the write lock.
\<close>

definition getOrCreate_read :: "string \<Rightarrow> 'b CircuitManager \<Rightarrow> 'b option" where
  "getOrCreate_read wid m = fmlookup (breakers m) wid"

definition getOrCreate_write ::
    "('b, 'e, 'v) gobreaker \<Rightarrow> string \<Rightarrow> 'b CircuitManager \<Rightarrow> 'b \<times> 'b CircuitManager" where
  "getOrCreate_write lib wid m =
     (case fmlookup (breakers m) wid of
        Some cb \<Rightarrow> (cb, m)
      | None \<Rightarrow>
          let cb = NewCircuitBreaker lib (breakerSettings (circuit_config m) wid)
          in (cb, m\<lparr>breakers := fmupd wid cb (breakers m)\<rparr>))"

definition getOrCreate ::
    "('b, 'e, 'v) gobreaker \<Rightarrow> string \<Rightarrow> 'b CircuitManager \<Rightarrow> 'b \<times> 'b CircuitManager" where
  "getOrCreate lib wid m =
     (case getOrCreate_read wid m of Some cb \<Rightarrow> (cb, m) | None \<Rightarrow> getOrCreate_write lib wid m)"

text \<open>The \<^verbatim>\<open>OnStateChange\<close> hook of the settings, for each transition of a library call.\<close>

definition notify :: "string \<Rightarrow> transitions \<Rightarrow> 'b CircuitManager \<Rightarrow> 'b CircuitManager" where
  "notify wid ts m =
     (if onChange m
      then m\<lparr>notified := notified m @
              map (\<lambda>(from, to). (wid, gobreakerStateToCircuitState from, gobreakerStateToCircuitState to)) ts\<rparr>
      else m)"

text \<open>A library call on a worker's breaker leaves the changed breaker in the table.\<close>

definition withBreaker ::
    "string \<Rightarrow> 'b \<times> transitions \<Rightarrow> 'b CircuitManager \<Rightarrow> 'b CircuitManager" where
  "withBreaker wid r m = notify wid (snd r) (m\<lparr>breakers := fmupd wid (fst r) (breakers m)\<rparr>)"

definition Execute ::
    "('b, 'e, 'v) gobreaker \<Rightarrow> int \<Rightarrow> string \<Rightarrow> 'e + 'v \<Rightarrow> 'b CircuitManager \<Rightarrow> ('e + 'v) \<times> 'b CircuitManager" where
  "Execute lib now wid fn m =
     (let (cb, m') = getOrCreate lib wid m;
          (res, cb', ts) = gb_Execute lib now fn cb
      in (res, withBreaker wid (cb', ts) m'))"

definition IsOpen ::
    "('b, 'e, 'v) gobreaker \<Rightarrow> int \<Rightarrow> string \<Rightarrow> 'b CircuitManager \<Rightarrow> bool \<times> 'b CircuitManager" where
  "IsOpen lib now wid m =
     (case fmlookup (breakers m) wid of
        None \<Rightarrow> (False, m)
      | Some cb \<Rightarrow> let (st, r) = gb_State lib now cb in (st = StateOpen, withBreaker wid r m))"

definition GetState ::
    "('b, 'e, 'v) gobreaker \<Rightarrow> int \<Rightarrow> string \<Rightarrow> 'b CircuitManager \<Rightarrow> CircuitState \<times> 'b CircuitManager" where
  "GetState lib now wid m =
     (case fmlookup (breakers m) wid of
        None \<Rightarrow> (CircuitClosed, m)
      | Some cb \<Rightarrow>
          let (st, r) = gb_State lib now cb
          in (gobreakerStateToCircuitState st, withBreaker wid r m))"

fun GetAllStates ::
    "('b, 'e, 'v) gobreaker \<Rightarrow> int \<Rightarrow> string list \<Rightarrow> 'b CircuitManager \<Rightarrow>
       (string, CircuitState) fmap \<times> 'b CircuitManager" where
  "GetAllStates lib now [] m = (fmempty, m)"
| "GetAllStates lib now (wid # ord) m =
     (if fmlookup (breakers m) wid = None then GetAllStates lib now ord m
      else let (st, m') = GetState lib now wid m;
               (rest, m'') = GetAllStates lib now ord m'
           in (fmupd wid st rest, m''))"

definition CircuitManager_Remove :: "string \<Rightarrow> 'b CircuitManager \<Rightarrow> 'b CircuitManager" where
  "CircuitManager_Remove wid m = m\<lparr>breakers := fmdrop wid (breakers m)\<rparr>"

subsection \<open>Lemmas\<close>

lemma notify_breakers [simp]: "breakers (notify wid ts m) = breakers m"
  by (simp add: notify_def)

lemma withBreaker_lookup:
  "fmlookup (breakers (withBreaker wid r m)) k = (if k = wid then Some (fst r) else fmlookup (breakers m) k)"
  by (simp add: withBreaker_def)

lemma getOrCreate_eq_write: "getOrCreate lib wid m = getOrCreate_write lib wid m"
  by (simp add: getOrCreate_def getOrCreate_read_def getOrCreate_write_def split: option.split)

lemma getOrCreate_lookup:
  assumes "getOrCreate lib wid m = (cb, m')"
  shows "fmlookup (breakers m') wid = Some cb \<and>
    (\<forall>k. k \<noteq> wid \<longrightarrow> fmlookup (breakers m') k = fmlookup (breakers m) k)"
  using assms
  by (auto simp: getOrCreate_eq_write getOrCreate_write_def Let_def split: option.splits)

lemma Execute_other:
  assumes "k \<noteq> wid"
  shows "fmlookup (breakers (snd (Execute lib now wid fn m))) k = fmlookup (breakers m) k"
proof -
  obtain cb m' where goc: "getOrCreate lib wid m = (cb, m')" by (cases "getOrCreate lib wid m")
  obtain res cb' ts where ex: "gb_Execute lib now fn cb = (res, cb', ts)"
    by (cases "gb_Execute lib now fn cb") auto
  from getOrCreate_lookup[OF goc] assms show ?thesis
    by (simp add: Execute_def goc ex withBreaker_lookup)
qed

subsection \<open>Properties\<close>

text \<open>
  Concurrent first calls for one worker agree on one breaker: two callers that both miss
  in the read section and then enter the write section, in either order, receive the same
  breaker, and the second leaves the table as the first made it.
\<close>

theorem getOrCreate_race:
  assumes "getOrCreate_write lib wid m = (cb1, m1)" and "getOrCreate_write lib wid m1 = (cb2, m2)"
  shows "cb2 = cb1 \<and> m2 = m1 \<and> getOrCreate lib wid m = (cb1, m1)"
  using assms
  by (auto simp: getOrCreate_eq_write getOrCreate_write_def Let_def split: option.splits)

text \<open>A counter in place of the library: it counts the calls and opens after two failures.\<close>

definition countingLib :: "(nat, string, nat) gobreaker" where
  "countingLib =
     \<lparr>NewCircuitBreaker = (\<lambda>s. 0),
      gb_Execute = (\<lambda>now fn b. case fn of
          Inl e \<Rightarrow> (Inl e, Suc b, if b = 1 then [(StateClosed, StateOpen)] else [])
        | Inr v \<Rightarrow> (Inr v, b, [])),
      gb_State = (\<lambda>now b. (if b \<ge> 2 then StateOpen else StateClosed, b, []))\<rparr>"

lemma getOrCreate_race_witness:
  "fst (getOrCreate_write countingLib ''w1''
     (snd (getOrCreate_write countingLib ''w1'' (NewCircuitManager DefaultCircuitConfig)))) = 0"
proof -
  let ?m = "NewCircuitManager DefaultCircuitConfig"
  obtain cb1 m1 where 1: "getOrCreate_write countingLib ''w1'' ?m = (cb1, m1)"
    by (cases "getOrCreate_write countingLib ''w1'' ?m")
  obtain cb2 m2 where 2: "getOrCreate_write countingLib ''w1'' m1 = (cb2, m2)"
    by (cases "getOrCreate_write countingLib ''w1'' m1")
  have "cb1 = 0"
    using 1 by (simp add: getOrCreate_write_def NewCircuitManager_def countingLib_def)
  with getOrCreate_race[OF 1 2] 1 2 show ?thesis by simp
qed

text \<open>
  Breakers are independent: executing a call for one worker changes neither whether
  another worker's circuit is open nor the state reported for it.
\<close>

theorem Execute_independent:
  assumes "k \<noteq> wid"
  shows "fst (IsOpen lib t k (snd (Execute lib now wid fn m))) = fst (IsOpen lib t k m) \<and>
         fst (GetState lib t k (snd (Execute lib now wid fn m))) = fst (GetState lib t k m)"
  using Execute_other[OF assms, of lib now fn m]
  by (simp add: IsOpen_def GetState_def Let_def case_prod_beta split: option.split)

lemma Execute_independent_witness:
  "fst (IsOpen countingLib 0 ''w2''
     (snd (Execute countingLib 0 ''w1'' (Inl ''boom'') (NewCircuitManager DefaultCircuitConfig)))) = False"
  using Execute_independent[of "''w2''" "''w1''" countingLib 0 0 "Inl ''boom''"
      "NewCircuitManager DefaultCircuitConfig"]
  by (simp add: IsOpen_def NewCircuitManager_def)

text \<open>
  With the default configuration a breaker is asked to trip exactly when it has counted
  at least three requests of which at least three in five failed.
\<close>

theorem default_trip_condition:
  "readyToTrip DefaultCircuitConfig c \<longleftrightarrow> 3 \<le> Requests c \<and> 3 * Requests c \<le> 5 * TotalFailures c"
proof -
  have "real (TotalFailures c) / real (Requests c) \<ge> 6 / 10 \<longleftrightarrow> 3 * Requests c \<le> 5 * TotalFailures c"
    if "3 \<le> Requests c"
  proof -
    have "real (TotalFailures c) / real (Requests c) \<ge> 6 / 10 \<longleftrightarrow>
        3 * real (Requests c) \<le> 5 * real (TotalFailures c)"
      using that by (simp add: field_simps)
    also have "\<dots> \<longleftrightarrow> 3 * Requests c \<le> 5 * TotalFailures c"
      by (metis of_nat_le_iff of_nat_mult of_nat_numeral)
    finally show ?thesis .
  qed
  then show ?thesis by (auto simp: readyToTrip_def DefaultCircuitConfig_def)
qed

end
