(* ===== verification/Go_Strings.thy ===== *)
theory Go_Strings
  imports HG_Prelude "HOL-Library.Sublist"
begin

text \<open>
  What the modelled code uses of Go's packages \<^verbatim>\<open>strings\<close>, \<^verbatim>\<open>path/filepath\<close> (for Unix) and
  \<^verbatim>\<open>unicode/utf8\<close>. Strings are byte sequences. \<^verbatim>\<open>Clean\<close> is the shortest lexically equivalent
  path; the lemmas say what it does to the components of a path.
\<close>

subsection \<open>Package strings\<close>

definition HasPrefix :: "string \<Rightarrow> string \<Rightarrow> bool" where
  "HasPrefix s p \<longleftrightarrow> take (length p) s = p"

definition HasSuffix :: "string \<Rightarrow> string \<Rightarrow> bool" where
  "HasSuffix s p \<longleftrightarrow> length p \<le> length s \<and> drop (length s - length p) s = p"

fun Contains :: "string \<Rightarrow> string \<Rightarrow> bool" where
  "Contains [] p = (p = [])"
| "Contains (c # s) p = (HasPrefix (c # s) p \<or> Contains s p)"

definition trimPrefix :: "string \<Rightarrow> string \<Rightarrow> string" where
  "trimPrefix s p = (if HasPrefix s p then drop (length p) s else s)"

definition trimSuffix :: "string \<Rightarrow> string \<Rightarrow> string" where
  "trimSuffix s p = (if HasSuffix s p then take (length s - length p) s else s)"

text \<open>\<^verbatim>\<open>strings.Split(s, sep)\<close> for a separator of one byte: never empty.\<close>

fun Split :: "char \<Rightarrow> string \<Rightarrow> string list" where
  "Split sep [] = [[]]"
| "Split sep (c # s) =
     (if c = sep then [] # Split sep s
      else (case Split sep s of [] \<Rightarrow> [[c]] | x # xs \<Rightarrow> (c # x) # xs))"

fun Join :: "string \<Rightarrow> string list \<Rightarrow> string" where
  "Join sep [] = []"
| "Join sep [x] = x"
| "Join sep (x # y # xs) = x @ sep @ Join sep (y # xs)"

definition upper :: "char \<Rightarrow> char" where
  "upper c = (if 97 \<le> (of_char c :: nat) \<and> (of_char c :: nat) \<le> 122 then char_of (of_char c - 32 :: nat) else c)"

definition lower :: "char \<Rightarrow> char" where
  "lower c = (if 65 \<le> (of_char c :: nat) \<and> (of_char c :: nat) \<le> 90 then char_of (of_char c + 32 :: nat) else c)"

text \<open>\<^verbatim>\<open>ToUpper\<close> and \<^verbatim>\<open>ToLower\<close> on ASCII; other bytes stay.\<close>

definition ToUpper :: "string \<Rightarrow> string" where "ToUpper = map upper"
definition ToLower :: "string \<Rightarrow> string" where "ToLower = map lower"

text \<open>The part before the last occurrence of a byte, if there is one.\<close>

definition beforeLast :: "char \<Rightarrow> string \<Rightarrow> string option" where
  "beforeLast c s =
     (if c \<in> set s then Some (rev (tl (dropWhile (\<lambda>d. d \<noteq> c) (rev s)))) else None)"

definition afterLast :: "char \<Rightarrow> string \<Rightarrow> string" where
  "afterLast c s = rev (takeWhile (\<lambda>d. d \<noteq> c) (rev s))"

subsection \<open>Package utf8\<close>

text \<open>
  Ranging over a string decodes UTF-8; a byte that does not start a valid encoding yields the
  replacement character and is skipped alone.
\<close>

definition cont :: "char \<Rightarrow> bool" where
  "cont c \<longleftrightarrow> 128 \<le> (of_char c :: nat) \<and> (of_char c :: nat) < 192"

definition bits6 :: "char \<Rightarrow> nat" where "bits6 c = of_char c mod 64"

definition runeError :: nat where "runeError = 65533"

definition rune2 :: "char \<Rightarrow> char \<Rightarrow> nat" where
  "rune2 a b = (of_char a mod 32) * 64 + bits6 b"

definition rune3 :: "char \<Rightarrow> char \<Rightarrow> char \<Rightarrow> nat" where
  "rune3 a b c = (of_char a mod 16) * 4096 + bits6 b * 64 + bits6 c"

definition rune4 :: "char \<Rightarrow> char \<Rightarrow> char \<Rightarrow> char \<Rightarrow> nat" where
  "rune4 a b c d = (of_char a mod 8) * 262144 + bits6 b * 4096 + bits6 c * 64 + bits6 d"

text \<open>The first rune of a non-empty string and the number of its bytes.\<close>

fun decodeRune :: "string \<Rightarrow> nat \<times> nat" where
  "decodeRune [] = (runeError, 0)"
| "decodeRune (a # s) =
     (let n = (of_char a :: nat)
      in if n < 128 then (n, 1)
         else if 194 \<le> n \<and> n < 224 then
           (case s of b # _ \<Rightarrow> if cont b then (rune2 a b, 2) else (runeError, 1) | [] \<Rightarrow> (runeError, 1))
         else if 224 \<le> n \<and> n < 240 then
           (case s of
              b # c # _ \<Rightarrow>
                if cont b \<and> cont c \<and> 2048 \<le> rune3 a b c \<and> \<not> (55296 \<le> rune3 a b c \<and> rune3 a b c < 57344)
                then (rune3 a b c, 3) else (runeError, 1)
            | _ \<Rightarrow> (runeError, 1))
         else if 240 \<le> n \<and> n < 245 then
           (case s of
              b # c # d # _ \<Rightarrow>
                if cont b \<and> cont c \<and> cont d \<and> 65536 \<le> rune4 a b c d \<and> rune4 a b c d < 1114112
                then (rune4 a b c d, 4) else (runeError, 1)
            | _ \<Rightarrow> (runeError, 1))
         else (runeError, 1))"

lemma decodeRune_width: "s \<noteq> [] \<Longrightarrow> 0 < snd (decodeRune s)"
  by (cases s) (auto simp: Let_def split: list.split)

function runes :: "string \<Rightarrow> nat list" where
  "runes s = (if s = [] then [] else fst (decodeRune s) # runes (drop (snd (decodeRune s)) s))"
  by auto

termination
proof (relation "measure length")
  fix s :: string assume "s \<noteq> []"
  then show "(drop (snd (decodeRune s)) s, s) \<in> measure length"
    using decodeRune_width[of s] by simp
qed simp

declare runes.simps [simp del]

lemma runes_Nil [simp]: "runes [] = []"
  by (simp add: runes.simps)

lemma runes_ascii: "(of_char a :: nat) < 128 \<Longrightarrow> runes (a # s) = of_char a # runes s"
  by (subst runes.simps) simp

text \<open>
  A string cut into the encodings of its runes, and the white space of package \<^verbatim>\<open>unicode\<close>.
\<close>

function chunks :: "string \<Rightarrow> string list" where
  "chunks s = (if s = [] then [] else take (snd (decodeRune s)) s # chunks (drop (snd (decodeRune s)) s))"
  by auto

termination
proof (relation "measure length")
  fix s :: string assume "s \<noteq> []"
  then show "(drop (snd (decodeRune s)) s, s) \<in> measure length"
    using decodeRune_width[of s] by simp
qed simp

declare chunks.simps [simp del]

definition IsSpace :: "nat \<Rightarrow> bool" where
  "IsSpace r \<longleftrightarrow>
     (if r < 128 then r \<in> {9, 10, 11, 12, 13, 32}
      else r \<in> {133, 160, 5760, 8232, 8233, 8239, 8287, 12288} \<or> 8192 \<le> r \<and> r \<le> 8202)"

lemma chunks_Nil [simp]: "chunks [] = []"
  by (simp add: chunks.simps)

lemma chunks_ascii: "(of_char a :: nat) < 128 \<Longrightarrow> chunks (a # s) = [a] # chunks s"
  by (subst chunks.simps) simp

text \<open>
  \<^verbatim>\<open>TrimSpace\<close> removes white space at both ends; \<^verbatim>\<open>Fields\<close> lists the maximal runs of encodings
  that are not white space.
\<close>

definition spaceChunk :: "string \<Rightarrow> bool" where
  "spaceChunk c = IsSpace (fst (decodeRune c))"

definition TrimSpace :: "string \<Rightarrow> string" where
  "TrimSpace s =
     concat (rev (dropWhile spaceChunk (rev (dropWhile spaceChunk (chunks s)))))"

fun chunk_words :: "string list \<Rightarrow> string list" where
  "chunk_words [] = []"
| "chunk_words (c # cs) =
     (if spaceChunk c then chunk_words cs
      else if cs = [] \<or> spaceChunk (hd cs) then c # chunk_words cs
      else (case chunk_words cs of [] \<Rightarrow> [c] | w # ws \<Rightarrow> (c @ w) # ws))"

definition Fields :: "string \<Rightarrow> string list" where
  "Fields s = chunk_words (chunks s)"

definition TrimRight :: "char list \<Rightarrow> string \<Rightarrow> string" where
  "TrimRight cutset s = rev (dropWhile (\<lambda>c. c \<in> set cutset) (rev s))"

text \<open>\<^verbatim>\<open>strings.Replace(s, old, new, 1)\<close> for an \<open>old\<close> of one byte.\<close>

fun Replace1 :: "char \<Rightarrow> string \<Rightarrow> string \<Rightarrow> string" where
  "Replace1 old new [] = []"
| "Replace1 old new (c # s) = (if c = old then new @ s else c # Replace1 old new s)"

subsection \<open>Package filepath on Unix\<close>

abbreviation slash :: char where "slash \<equiv> CHR ''/''"

definition IsAbs :: "string \<Rightarrow> bool" where
  "IsAbs p \<longleftrightarrow> HasPrefix p ''/''"

text \<open>
  \<^verbatim>\<open>Clean\<close> walks over the components with the ones kept so far on a stack: empty and \<open>.\<close>
  components vanish, \<open>..\<close> removes the component before it, and where there is none it is
  kept in a relative path and dropped in an absolute one.
\<close>

fun clean_step :: "bool \<Rightarrow> string list \<Rightarrow> string \<Rightarrow> string list" where
  "clean_step rooted stack c =
     (if c = '''' \<or> c = ''.'' then stack
      else if c = ''..'' then
        (case stack of
           [] \<Rightarrow> if rooted then [] else [c]
         | d # ds \<Rightarrow> if d = ''..'' then c # stack else ds)
      else c # stack)"

definition components :: "string \<Rightarrow> string list" where
  "components p = rev (foldl (clean_step (IsAbs p)) [] (Split slash p))"

definition render_path :: "bool \<Rightarrow> string list \<Rightarrow> string" where
  "render_path rooted cs =
     (if rooted then slash # Join ''/'' cs else if cs = [] then ''.'' else Join ''/'' cs)"

definition Clean :: "string \<Rightarrow> string" where
  "Clean p = render_path (IsAbs p) (components p)"

text \<open>\<^verbatim>\<open>filepath.Join\<close>: empty leading elements are skipped, the result is cleaned.\<close>

fun path_Join :: "string list \<Rightarrow> string" where
  "path_Join [] = ''''"
| "path_Join (e # es) = (if e = '''' then path_Join es else Clean (Join ''/'' (e # es)))"

text \<open>The last component; \<open>/\<close> for a path of slashes only.\<close>

definition path_Base :: "string \<Rightarrow> string" where
  "path_Base p =
     (if p = '''' then ''.''
      else let q = rev (dropWhile (\<lambda>c. c = slash) (rev p))
           in if q = '''' then ''/'' else afterLast slash q)"

text \<open>The suffix from the last dot of the last component, or nothing.\<close>

definition path_Ext :: "string \<Rightarrow> string" where
  "path_Ext p =
     (let b = afterLast slash p in if CHR ''.'' \<in> set b then CHR ''.'' # afterLast (CHR ''.'') b else '''')"

subsection \<open>Splitting and joining\<close>

lemma Split_not_Nil [simp]: "Split sep s \<noteq> []"
  by (induction s) (auto split: list.split)

lemma Split_append:
  "Split sep (a @ sep # b) = Split sep a @ Split sep b"
  by (induction a) (auto split: list.split simp: neq_Nil_conv)

lemma Split_atom: "sep \<notin> set a \<Longrightarrow> Split sep a = [a]"
  by (induction a) auto

lemma Split_parts: "x \<in> set (Split sep s) \<Longrightarrow> sep \<notin> set x"
proof (induction s arbitrary: x)
  case (Cons c s)
  then show ?case
    by (cases "Split sep s") (auto split: if_splits)
qed simp

lemma Split_Join:
  "cs \<noteq> [] \<Longrightarrow> \<forall>c \<in> set cs. sep \<notin> set c \<Longrightarrow> Split sep (Join [sep] cs) = cs"
  by (induction "[sep]" cs rule: Join.induct) (auto simp: Split_atom Split_append)

lemma Join_Split: "Join [sep] (Split sep s) = s"
proof (induction s)
  case (Cons c s)
  then show ?case by (cases "Split sep s" rule: list.exhaust; cases "tl (Split sep s)") auto
qed simp

lemma Join_append:
  "a \<noteq> [] \<Longrightarrow> b \<noteq> [] \<Longrightarrow> Join sep (a @ b) = Join sep a @ sep @ Join sep b"
  by (induction sep a rule: Join.induct) (auto simp: neq_Nil_conv)

lemma HasPrefix_append [simp]: "HasPrefix (p @ s) p"
  by (simp add: HasPrefix_def)

lemma HasPrefix_iff: "HasPrefix s p \<longleftrightarrow> (\<exists>r. s = p @ r)"
  by (metis HasPrefix_append HasPrefix_def append_take_drop_id)

subsection \<open>Clean paths\<close>

text \<open>
  A name is a component that \<^verbatim>\<open>Clean\<close> keeps; a clean list of components is some \<open>..\<close>, in a
  relative path only, followed by names.
\<close>

definition path_name :: "string \<Rightarrow> bool" where
  "path_name c \<longleftrightarrow> c \<noteq> '''' \<and> c \<noteq> ''.'' \<and> c \<noteq> ''..'' \<and> slash \<notin> set c"

definition clean_components :: "bool \<Rightarrow> string list \<Rightarrow> bool" where
  "clean_components rooted cs \<longleftrightarrow>
     (\<exists>k ns. cs = replicate k ''..'' @ ns \<and> list_all path_name ns \<and> (rooted \<longrightarrow> k = 0))"

lemma clean_components_step:
  assumes st: "clean_components r (rev st)" and c: "slash \<notin> set c"
  shows "clean_components r (rev (clean_step r st c))"
proof -
  obtain k ns where rv: "rev st = replicate k ''..'' @ ns" "list_all path_name ns" "r \<longrightarrow> k = 0"
    using st by (auto simp: clean_components_def)
  have st_eq: "st = rev ns @ replicate k ''..''"
    using rv(1) by (metis rev_append rev_replicate rev_rev_ident)
  consider "c = '''' \<or> c = ''.''" | "c = ''..''" | "path_name c"
    using c by (auto simp: path_name_def)
  then show ?thesis
  proof cases
    case 1
    then show ?thesis using st by auto
  next
    case 3
    then have "rev (clean_step r st c) = replicate k ''..'' @ (ns @ [c])"
      using rv by (auto simp: path_name_def)
    then show ?thesis
      using rv 3 by (auto simp: clean_components_def intro!: exI[of _ k] exI[of _ "ns @ [c]"])
  next
    case 2
    show ?thesis
    proof (cases ns rule: rev_cases)
      case (snoc ns' d)
      then have "rev (clean_step r st c) = replicate k ''..'' @ ns'"
        using 2 rv st_eq by (auto simp: path_name_def)
      then show ?thesis using rv snoc by (auto simp: clean_components_def)
    next
      case Nil
      then have "clean_step r st c = (if r then [] else replicate (Suc k) ''..'')"
        using 2 rv st_eq by (cases k) auto
      then show ?thesis
        by (cases r) (auto simp: clean_components_def rev_replicate simp del: replicate.simps
            intro: exI[of _ 0] exI[of _ "Suc k"])
    qed
  qed
qed

lemma clean_components_foldl:
  "clean_components r (rev st) \<Longrightarrow> \<forall>c \<in> set cs. slash \<notin> set c \<Longrightarrow>
     clean_components r (rev (foldl (clean_step r) st cs))"
  by (induction cs arbitrary: st) (auto simp del: clean_step.simps intro: clean_components_step)

lemma components_clean: "clean_components (IsAbs p) (components p)"
  unfolding components_def
  by (rule clean_components_foldl) (auto simp: clean_components_def dest: Split_parts)

lemma clean_foldl_names:
  "list_all path_name ns \<Longrightarrow> foldl (clean_step r) st ns = rev ns @ st"
  by (induction ns arbitrary: st) (auto simp: path_name_def)

lemma clean_foldl_dots: "foldl (clean_step False) (replicate j ''..'') (replicate k ''..'') = replicate (k + j) ''..''"
proof (induction k arbitrary: j)
  case (Suc k)
  have "clean_step False (replicate j ''..'') ''..'' = replicate (Suc j) ''..''" by (cases j) auto
  then show ?case using Suc[of "Suc j"] by (simp del: clean_step.simps replicate.simps add: replicate_Suc[of k])
qed simp

lemma clean_foldl_id:
  assumes "clean_components r cs"
  shows "foldl (clean_step r) [] cs = rev cs"
proof -
  obtain k ns where cs: "cs = replicate k ''..'' @ ns" "list_all path_name ns" "r \<longrightarrow> k = 0"
    using assms by (auto simp: clean_components_def)
  have "foldl (clean_step r) [] (replicate k ''..'') = replicate k ''..''"
    using cs(3) clean_foldl_dots[of 0 k] by (cases r) auto
  then show ?thesis using cs by (simp add: clean_foldl_names rev_replicate)
qed

lemma clean_components_cases:
  assumes "clean_components r cs" and "c \<in> set cs"
  shows "c = ''..'' \<or> path_name c"
  using assms unfolding clean_components_def list_all_iff
  by (metis UnE in_set_replicate set_append)

lemma clean_components_no_slash:
  assumes "clean_components r cs"
  shows "\<forall>c \<in> set cs. slash \<notin> set c"
proof
  fix c assume "c \<in> set cs"
  then show "slash \<notin> set c"
    using clean_components_cases[OF assms] by (force simp: path_name_def)
qed

lemma clean_components_nonempty:
  assumes "clean_components r cs"
  shows "\<forall>c \<in> set cs. c \<noteq> ''''"
proof
  fix c assume "c \<in> set cs"
  then show "c \<noteq> ''''"
    using clean_components_cases[OF assms] by (force simp: path_name_def)
qed

lemma clean_step_blank [simp]: "clean_step r st '''' = st" "clean_step r st ''.'' = st"
  by simp_all

lemma IsAbs_render [simp]:
  assumes "clean_components r cs"
  shows "IsAbs (render_path r cs) = r"
proof (cases r)
  case False
  have "IsAbs (Join ''/'' cs) = False" if "cs \<noteq> []"
    using that clean_components_no_slash[OF assms] clean_components_nonempty[OF assms]
    by (cases cs; cases "tl cs"; cases "hd cs") (auto simp: IsAbs_def HasPrefix_def)
  then show ?thesis using False by (auto simp: render_path_def IsAbs_def HasPrefix_def)
qed (simp add: render_path_def IsAbs_def HasPrefix_def)

lemma Split_render:
  assumes "clean_components r cs" and "cs \<noteq> []"
  shows "Split slash (render_path r cs) = (if r then [''''] else []) @ cs"
  using Split_Join[OF assms(2) clean_components_no_slash[OF assms(1)]] assms(2)
  by (simp add: render_path_def)

text \<open>Rendering clean components and splitting them again gives them back.\<close>

lemma components_render [simp]:
  assumes "clean_components r cs"
  shows "components (render_path r cs) = cs"
proof (cases "cs = []")
  case True
  then show ?thesis by (auto simp: components_def render_path_def)
next
  case False
  have "foldl (clean_step r) [] ((if r then [''''] else []) @ cs) = rev cs"
    using clean_foldl_id[OF assms] by (cases r) (simp_all del: clean_step.simps add: clean_step_blank)
  then show ?thesis
    using assms False by (simp add: components_def Split_render)
qed

lemma components_Clean [simp]: "components (Clean p) = components p"
  and IsAbs_Clean [simp]: "IsAbs (Clean p) = IsAbs p"
  by (simp_all add: Clean_def components_clean)

lemma Clean_idem [simp]: "Clean (Clean p) = Clean p"
  by (simp only: Clean_def components_render[OF components_clean] IsAbs_render[OF components_clean])

end
