(* ===== verification/Cache_Key.thy ===== *)
theory Cache_Key
  imports Proto_Messages Go_Strings "HOL-Library.Char_ord" "HOL-Library.List_Lexorder"
begin

text \<open>
  Cache keys, \<^verbatim>\<open>internal/cache/key.go\<close>. A key builder is the bytes written so far; the
  third-party hash is the parameter \<open>H\<close>, from the bytes to 64 bits (writing in pieces equals
  writing the concatenation). Go orders strings bytewise, which is the library's
  lexicographic order on lists of characters; \<^verbatim>\<open>sort.Strings\<close> is \<open>sort\<close>. The iteration order
  of a map of defines or arguments is the parameter \<open>ord\<close>.
\<close>

subsection \<open>The key builder\<close>

type_synonym KeyBuilder = bytes

definition NewKeyBuilder :: KeyBuilder where
  "NewKeyBuilder = []"

definition KeyBuilder_Reset :: "KeyBuilder \<Rightarrow> KeyBuilder" where
  "KeyBuilder_Reset k = []"

definition nul :: char where "nul = CHR 0x00"

definition AddString :: "string \<Rightarrow> KeyBuilder \<Rightarrow> KeyBuilder" where
  "AddString s k = k @ s @ [nul]"

definition AddStrings :: "string list \<Rightarrow> KeyBuilder \<Rightarrow> KeyBuilder" where
  "AddStrings ss k = fold AddString ss k"

definition AddSortedStrings :: "string list \<Rightarrow> KeyBuilder \<Rightarrow> KeyBuilder" where
  "AddSortedStrings ss k = AddStrings (sort ss) k"

definition AddBytes :: "bytes \<Rightarrow> KeyBuilder \<Rightarrow> KeyBuilder" where
  "AddBytes b k = k @ b"

text \<open>Reading a file: it cannot be opened, reading stops after some bytes, or all is read.\<close>

datatype file_read = OpenFailed string | ReadFailed bytes string | ReadAll bytes

fun AddFile :: "file_read \<Rightarrow> KeyBuilder \<Rightarrow> (string, KeyBuilder) outcome \<times> KeyBuilder" where
  "AddFile (OpenFailed e) k = (Err e, k)"
| "AddFile (ReadFailed b e) k = (Err e, AddBytes b k)"
| "AddFile (ReadAll b) k = (Ok (AddBytes b k), AddBytes b k)"

definition hexDigit :: "nat \<Rightarrow> char" where
  "hexDigit n = ''0123456789abcdef'' ! n"

definition hexByte :: "8 word \<Rightarrow> string" where
  "hexByte b = [hexDigit (unat b div 16), hexDigit (unat b mod 16)]"

definition EncodeToString :: "8 word list \<Rightarrow> string" where
  "EncodeToString bs = concat (map hexByte bs)"

definition Sum :: "(bytes \<Rightarrow> 64 word) \<Rightarrow> KeyBuilder \<Rightarrow> string" where
  "Sum H k =
     (let sum = H k
      in EncodeToString
           [ucast (drop_bit 56 sum), ucast (drop_bit 48 sum), ucast (drop_bit 40 sum), ucast (drop_bit 32 sum),
            ucast (drop_bit 24 sum), ucast (drop_bit 16 sum), ucast (drop_bit 8 sum), ucast sum])"

definition SumUint64 :: "(bytes \<Rightarrow> 64 word) \<Rightarrow> KeyBuilder \<Rightarrow> 64 word" where
  "SumUint64 H k = H k"

subsection \<open>Keys\<close>

record CompilationKey =
  ck_Compiler :: string
  ck_CompilerVer :: string
  ck_TargetArch :: string
  ck_Flags :: "string list"
  ck_Defines :: "string list"
  ck_SourceHash :: string

definition CompilationKey_stream :: "CompilationKey \<Rightarrow> KeyBuilder" where
  "CompilationKey_stream c =
     AddString (ck_SourceHash c)
       (AddSortedStrings (ck_Defines c)
         (AddSortedStrings (ck_Flags c)
           (AddString (ck_TargetArch c)
             (AddString (ck_CompilerVer c)
               (AddString (ck_Compiler c) NewKeyBuilder)))))"

definition CompilationKey_Build :: "(bytes \<Rightarrow> 64 word) \<Rightarrow> CompilationKey \<Rightarrow> string" where
  "CompilationKey_Build H c = Sum H (CompilationKey_stream c)"

definition HashFile :: "(bytes \<Rightarrow> 64 word) \<Rightarrow> file_read \<Rightarrow> (string, string) outcome" where
  "HashFile H f =
     (case fst (AddFile f NewKeyBuilder) of Ok k \<Rightarrow> Ok (Sum H k) | Err e \<Rightarrow> Err e | Panic \<Rightarrow> Panic)"

definition HashBytes :: "(bytes \<Rightarrow> 64 word) \<Rightarrow> bytes \<Rightarrow> string" where
  "HashBytes H b = Sum H (AddBytes b NewKeyBuilder)"

definition HashString :: "(bytes \<Rightarrow> 64 word) \<Rightarrow> string \<Rightarrow> string" where
  "HashString H s = Sum H (AddString s NewKeyBuilder)"

definition HashStrings :: "(bytes \<Rightarrow> 64 word) \<Rightarrow> string list \<Rightarrow> string" where
  "HashStrings H ss = Sum H (AddStrings ss NewKeyBuilder)"

definition NormalizePath :: "string \<Rightarrow> string" where
  "NormalizePath path =
     map (\<lambda>c. if c = CHR 0x5C then CHR ''/'' else c) (trimPrefix path ''./'')"

text \<open>
  The sorted keys of a map with their values. The keys come from ranging over the map, so
  each is present; reading a missing key would give the empty string.
\<close>

definition addDefines :: "string list \<Rightarrow> (string, string) fmap \<Rightarrow> KeyBuilder \<Rightarrow> KeyBuilder" where
  "addDefines ord m k =
     fold (\<lambda>x k. AddString (case fmlookup m x of Some v \<Rightarrow> v | None \<Rightarrow> '''') (AddString x k)) (sort ord) k"

definition FlutterCacheKey_stream :: "string list \<Rightarrow> FlutterConfig option \<Rightarrow> string \<Rightarrow> string \<Rightarrow> KeyBuilder" where
  "FlutterCacheKey_stream ord config pubspecHash flutterVersion =
     (let kb = AddString pubspecHash NewKeyBuilder;
          kb = (case config of
                  Some c \<Rightarrow> addDefines ord (fc_DartDefines c) (AddString (fc_Flavor c) (AddString (fc_BuildMode c) kb))
                | None \<Rightarrow> AddString '''' (AddString '''' kb))
      in AddString flutterVersion kb)"

definition FlutterCacheKey ::
    "(bytes \<Rightarrow> 64 word) \<Rightarrow> string list \<Rightarrow> FlutterConfig option \<Rightarrow> string \<Rightarrow> string \<Rightarrow> string" where
  "FlutterCacheKey H ord config pubspecHash flutterVersion =
     Sum H (FlutterCacheKey_stream ord config pubspecHash flutterVersion)"

definition UnityCacheKey_stream ::
    "string list \<Rightarrow> UnityConfig option \<Rightarrow> string \<Rightarrow> string \<Rightarrow> TargetPlatform \<Rightarrow> KeyBuilder" where
  "UnityCacheKey_stream ord config projectHash unityVersion targetPlatform =
     (let kb = AddString (TargetPlatform_String targetPlatform)
                 (AddString unityVersion (AddString projectHash NewKeyBuilder))
      in case config of
           Some c \<Rightarrow> addDefines ord (uc_ExtraArgs c) (AddString (uc_BuildMethod c) (AddString (uc_ScriptingBackend c) kb))
         | None \<Rightarrow> AddString '''' (AddString '''' kb))"

definition UnityCacheKey ::
    "(bytes \<Rightarrow> 64 word) \<Rightarrow> string list \<Rightarrow> UnityConfig option \<Rightarrow> string \<Rightarrow> string \<Rightarrow> TargetPlatform \<Rightarrow> string" where
  "UnityCacheKey H ord config projectHash unityVersion targetPlatform =
     Sum H (UnityCacheKey_stream ord config projectHash unityVersion targetPlatform)"

subsection \<open>Streams of terminated strings\<close>

definition terminated :: "string list \<Rightarrow> bytes" where
  "terminated ss = concat (map (\<lambda>s. s @ [nul]) ss)"

lemma AddString_terminated: "AddString s (terminated ss) = terminated (ss @ [s])"
  by (simp add: AddString_def terminated_def)

lemma AddStrings_terminated: "AddStrings ss (terminated ts) = terminated (ts @ ss)"
  unfolding AddStrings_def by (induction ss arbitrary: ts) (simp_all add: AddString_terminated)

lemma New_terminated: "NewKeyBuilder = terminated []"
  by (simp add: NewKeyBuilder_def terminated_def)

lemma addDefines_terminated:
  "addDefines ord m (terminated ts) =
     terminated (ts @ concat (map (\<lambda>x. [x, case fmlookup m x of Some v \<Rightarrow> v | None \<Rightarrow> '''']) (sort ord)))"
proof -
  have "fold (\<lambda>x k. AddString (f x) (AddString x k)) xs (terminated ts) =
      terminated (ts @ concat (map (\<lambda>x. [x, f x]) xs))" for f xs ts
    by (induction xs arbitrary: ts) (simp_all add: AddString_terminated)
  then show ?thesis by (simp add: addDefines_def)
qed

lemmas to_terminated = New_terminated AddString_terminated AddStrings_terminated addDefines_terminated

lemma CompilationKey_fields:
  "CompilationKey_stream c = terminated ([ck_Compiler c, ck_CompilerVer c, ck_TargetArch c] @
     sort (ck_Flags c) @ sort (ck_Defines c) @ [ck_SourceHash c])"
  by (simp add: CompilationKey_stream_def AddSortedStrings_def to_terminated)

lemma Flutter_fields:
  "FlutterCacheKey_stream ord (Some c) h v = terminated ([h, fc_BuildMode c, fc_Flavor c] @
     concat (map (\<lambda>x. [x, case fmlookup (fc_DartDefines c) x of Some v \<Rightarrow> v | None \<Rightarrow> '''']) (sort ord)) @ [v])"
  by (simp add: FlutterCacheKey_stream_def to_terminated Let_def)

lemma Unity_fields:
  "UnityCacheKey_stream ord (Some c) h v p =
     terminated ([h, v, TargetPlatform_String p, uc_ScriptingBackend c, uc_BuildMethod c] @
       concat (map (\<lambda>x. [x, case fmlookup (uc_ExtraArgs c) x of Some v \<Rightarrow> v | None \<Rightarrow> '''']) (sort ord)))"
  by (simp add: UnityCacheKey_stream_def to_terminated Let_def)

text \<open>Strings without the terminator can be read back from the stream.\<close>

lemma terminated_split:
  assumes "nul \<notin> set s" and "nul \<notin> set t" and "s @ nul # xs = t @ nul # ys"
  shows "s = t \<and> xs = ys"
  using assms
proof (induction s arbitrary: t)
  case Nil
  then show ?case by (cases t) auto
next
  case (Cons c s)
  then show ?case by (cases t) auto
qed

lemma terminated_inj:
  assumes "\<forall>s \<in> set ss. nul \<notin> set s" and "\<forall>t \<in> set ts. nul \<notin> set t"
  shows "terminated ss = terminated ts \<longleftrightarrow> ss = ts"
  using assms
proof (induction ss arbitrary: ts)
  case Nil
  then show ?case by (cases ts) (auto simp: terminated_def)
next
  case (Cons s ss)
  show ?case
  proof (cases ts)
    case Nil
    then show ?thesis by (simp add: terminated_def)
  next
    case (Cons t ts')
    have "terminated (s # ss) = terminated (t # ts') \<longleftrightarrow> s = t \<and> terminated ss = terminated ts'"
      using Cons.prems Cons terminated_split[of s t "terminated ss" "terminated ts'"]
      by (auto simp: terminated_def)
    with Cons.IH[of ts'] Cons.prems Cons show ?thesis by auto
  qed
qed

subsection \<open>The hexadecimal form\<close>

lemma hexDigit_inj: "inj_on hexDigit {..<16}"
proof -
  have "hexDigit ` {..<16} = set ''0123456789abcdef''"
    unfolding hexDigit_def using nth_image[of 16 "''0123456789abcdef''"] by (simp add: lessThan_atLeast0)
  then have "card (hexDigit ` {..<16}) = card {..<16 :: nat}" by simp
  then show ?thesis by (simp add: eq_card_imp_inj_on)
qed

lemma hexByte_inj: "hexByte a = hexByte b \<longleftrightarrow> a = b"
proof
  assume eq: "hexByte a = hexByte b"
  have lt: "unat x div 16 < 16" "unat x mod 16 < 16" for x :: "8 word"
    using unsigned_less[of x] by (simp_all add: div_less_iff_less_mult)
  from eq have "unat a div 16 = unat b div 16" "unat a mod 16 = unat b mod 16"
    using lt inj_onD[OF hexDigit_inj] by (auto simp: hexByte_def)
  then have "unat a = unat b" by (metis div_mult_mod_eq)
  then show "a = b" by (simp only: word_unat_eq_iff)
qed simp

lemma EncodeToString_inj:
  assumes "length as = length bs"
  shows "EncodeToString as = EncodeToString bs \<longleftrightarrow> as = bs"
  using assms
proof (induction rule: list_induct2)
  case (Cons a as b bs)
  then show ?case using hexByte_inj[of a b] by (auto simp: EncodeToString_def hexByte_def)
qed simp

lemma word_bytes_eq:
  fixes v w :: "64 word"
  assumes "\<And>k. k < 8 \<Longrightarrow> (ucast (drop_bit (8 * k) v) :: 8 word) = ucast (drop_bit (8 * k) w)"
  shows "v = w"
proof (rule bit_word_eqI)
  fix n assume "n < LENGTH(64)"
  then have k: "n div 8 < 8" by (simp add: div_less_iff_less_mult)
  have bits: "bit (ucast (drop_bit (8 * (n div 8)) x) :: 8 word) (n mod 8) = bit x n" for x :: "64 word"
    by (simp add: bit_ucast_iff bit_drop_bit_eq)
  show "bit v n = bit w n"
    using assms[OF k] bits[of v] bits[of w] by simp
qed

text \<open>Two keys are equal exactly when the hashes are: the encoding loses nothing.\<close>

lemma Sum_eq_iff: "Sum H k = Sum H' k' \<longleftrightarrow> H k = H' k'"
proof
  assume "Sum H k = Sum H' k'"
  then have b: "(ucast (drop_bit j (H k)) :: 8 word) = ucast (drop_bit j (H' k'))"
    if "j \<in> {56, 48, 40, 32, 24, 16, 8, 0}" for j
    using that by (auto simp: Sum_def Let_def EncodeToString_inj)
  show "H k = H' k'"
  proof (rule word_bytes_eq)
    fix j :: nat assume "j < 8"
    then have "j = 0 \<or> j = 1 \<or> j = 2 \<or> j = 3 \<or> j = 4 \<or> j = 5 \<or> j = 6 \<or> j = 7" by linarith
    then show "(ucast (drop_bit (8 * j) (H k)) :: 8 word) = ucast (drop_bit (8 * j) (H' k'))"
      by (elim disjE) (use b[of 0] in \<open>simp_all add: b\<close>)
  qed
qed (simp add: Sum_def)

definition hexDigits :: "char set" where
  "hexDigits = set ''0123456789abcdef''"

lemma hexByte_digits: "set (hexByte x) \<subseteq> hexDigits"
proof -
  have d: "hexDigit n \<in> hexDigits" if "n < 16" for n
    unfolding hexDigit_def hexDigits_def by (rule nth_mem) (use that in simp)
  have "unat x div 16 < 16"
    using unsigned_less[of x] by (simp add: div_less_iff_less_mult)
  then show ?thesis by (simp add: hexByte_def d)
qed

lemma EncodeToString_shape: "length (EncodeToString bs) = 2 * length bs \<and> set (EncodeToString bs) \<subseteq> hexDigits"
  using hexByte_digits by (induction bs) (auto simp: EncodeToString_def hexByte_def)

lemma Sum_shape: "length (Sum H k) = 16 \<and> set (Sum H k) \<subseteq> hexDigits"
proof -
  obtain bs where bs: "Sum H k = EncodeToString bs" "length bs = 8"
    by (simp add: Sum_def Let_def)
  then show ?thesis using EncodeToString_shape[of bs] by simp
qed

subsection \<open>Properties\<close>

definition nulFree :: "string \<Rightarrow> bool" where
  "nulFree s \<longleftrightarrow> nul \<notin> set s"

text \<open>
  C14. What a compilation key distinguishes, exactly. For strings without NUL bytes and a hash
  that does not collide on the two inputs, two keys are equal if and only if compiler, version,
  architecture and source hash agree and the sorted flags followed by the sorted defines agree.
\<close>

theorem CompilationKey_exact:
  assumes "\<forall>s \<in> {ck_Compiler c, ck_CompilerVer c, ck_TargetArch c, ck_SourceHash c} \<union> set (ck_Flags c) \<union> set (ck_Defines c). nulFree s"
    and "\<forall>s \<in> {ck_Compiler c', ck_CompilerVer c', ck_TargetArch c', ck_SourceHash c'} \<union> set (ck_Flags c') \<union> set (ck_Defines c'). nulFree s"
    and "H (CompilationKey_stream c) = H (CompilationKey_stream c') \<Longrightarrow> CompilationKey_stream c = CompilationKey_stream c'"
  shows "CompilationKey_Build H c = CompilationKey_Build H c' \<longleftrightarrow>
    ck_Compiler c = ck_Compiler c' \<and> ck_CompilerVer c = ck_CompilerVer c' \<and> ck_TargetArch c = ck_TargetArch c' \<and>
    ck_SourceHash c = ck_SourceHash c' \<and>
    sort (ck_Flags c) @ sort (ck_Defines c) = sort (ck_Flags c') @ sort (ck_Defines c')"
proof -
  have "CompilationKey_Build H c = CompilationKey_Build H c' \<longleftrightarrow> CompilationKey_stream c = CompilationKey_stream c'"
    using assms(3) by (auto simp: CompilationKey_Build_def Sum_eq_iff)
  also have "\<dots> \<longleftrightarrow>
      [ck_Compiler c, ck_CompilerVer c, ck_TargetArch c] @ sort (ck_Flags c) @ sort (ck_Defines c) @ [ck_SourceHash c] =
      [ck_Compiler c', ck_CompilerVer c', ck_TargetArch c'] @ sort (ck_Flags c') @ sort (ck_Defines c') @ [ck_SourceHash c']"
    unfolding CompilationKey_fields using assms(1,2) by (intro terminated_inj) (auto simp: nulFree_def)
  finally show ?thesis by (auto simp flip: append_assoc)
qed

definition sampleKey :: "string list \<Rightarrow> string list \<Rightarrow> CompilationKey" where
  "sampleKey flags defines = \<lparr>ck_Compiler = ''gcc'', ck_CompilerVer = '''', ck_TargetArch = ''ARCH_X86_64'',
     ck_Flags = flags, ck_Defines = defines, ck_SourceHash = ''0123''\<rparr>"

lemma CompilationKey_exact_witness:
  "CompilationKey_Build (\<lambda>b. of_nat (length b)) (sampleKey [''-O2''] []) \<noteq>
   CompilationKey_Build (\<lambda>b. of_nat (length b)) (sampleKey [''-Wall''] [])"
proof -
  let ?a = "sampleKey [''-O2''] []" and ?b = "sampleKey [''-Wall''] []"
  have ne: "(of_nat (length (CompilationKey_stream ?a)) :: 64 word) \<noteq> of_nat (length (CompilationKey_stream ?b))"
    by (simp add: CompilationKey_fields sampleKey_def terminated_def)
  have "CompilationKey_Build (\<lambda>b. of_nat (length b)) ?a = CompilationKey_Build (\<lambda>b. of_nat (length b)) ?b \<longleftrightarrow>
      ck_Compiler ?a = ck_Compiler ?b \<and> ck_CompilerVer ?a = ck_CompilerVer ?b \<and> ck_TargetArch ?a = ck_TargetArch ?b \<and>
      ck_SourceHash ?a = ck_SourceHash ?b \<and>
      sort (ck_Flags ?a) @ sort (ck_Defines ?a) = sort (ck_Flags ?b) @ sort (ck_Defines ?b)"
    by (rule CompilationKey_exact) (use ne in \<open>simp_all add: sampleKey_def nulFree_def nul_def\<close>)
  then show ?thesis by (simp add: sampleKey_def)
qed

text \<open>
  Finding: the key is blind to the order of the flags although a compiler is not
  (\<^verbatim>\<open>-O0 -O2\<close> and \<^verbatim>\<open>-O2 -O0\<close> optimise differently), and to the boundary between flags and
  defines: a flag list that sorts last can move into the defines. For every hash, such
  compilations share a key and one is served the object file of the other.
\<close>

theorem CompilationKey_order_blind:
  "CompilationKey_Build H (sampleKey [''-O0'', ''-O2''] []) = CompilationKey_Build H (sampleKey [''-O2'', ''-O0''] []) \<and>
   CompilationKey_Build H (sampleKey [''-DX''] []) = CompilationKey_Build H (sampleKey [] [''-DX''])"
proof -
  have "sort [''-O2'', ''-O0''] = sort [''-O0'', ''-O2'' :: string]"
    by (rule properties_for_sort) (simp_all add: add_mset_commute)
  then show ?thesis by (simp add: CompilationKey_Build_def CompilationKey_fields sampleKey_def)
qed

lemma pairs_inj:
  "concat (map (\<lambda>x. [x, f x]) xs) = concat (map (\<lambda>x. [x, g x]) ys) \<longleftrightarrow>
     map (\<lambda>x. (x, f x)) xs = map (\<lambda>x. (x, g x)) ys"
proof (induction xs arbitrary: ys)
  case Nil
  then show ?case by (cases ys) auto
next
  case (Cons x xs)
  then show ?case by (cases ys) auto
qed

lemma pairs_nulFree:
  assumes "iter_order m ord" and "\<forall>k x. fmlookup m k = Some x \<longrightarrow> nulFree k \<and> nulFree x"
  shows "\<forall>s \<in> set (concat (map (\<lambda>x. [x, case fmlookup m x of Some v \<Rightarrow> v | None \<Rightarrow> '''']) (sort ord))). nul \<notin> set s"
  using assms(2) iter_order_mem[OF assms(1)] by (fastforce simp: nulFree_def split: option.splits)

lemma iter_order_sorted:
  assumes "iter_order m ord" and "iter_order m ord'"
  shows "sort ord = sort ord'"
proof -
  have "set ord = set ord'" "distinct ord" "distinct ord'"
    using assms unfolding iter_order_def by (metis fset_of_list.rep_eq)+
  then show ?thesis by (metis finite_set sorted_list_of_set_sort_remdups distinct_remdups_id)
qed

lemma pairs_determine_map:
  assumes "iter_order m ord" and "iter_order m' ord'"
  shows "map (\<lambda>x. (x, case fmlookup m x of Some v \<Rightarrow> v | None \<Rightarrow> '''')) (sort ord) =
         map (\<lambda>x. (x, case fmlookup m' x of Some v \<Rightarrow> v | None \<Rightarrow> '''')) (sort ord') \<longleftrightarrow> m = m'"
proof
  assume eq: "map (\<lambda>x. (x, case fmlookup m x of Some v \<Rightarrow> v | None \<Rightarrow> '''')) (sort ord) =
    map (\<lambda>x. (x, case fmlookup m' x of Some v \<Rightarrow> v | None \<Rightarrow> '''')) (sort ord')"
  from arg_cong[OF eq, of "map fst"] have s: "sort ord = sort ord'" by (simp add: comp_def)
  then have "set ord = set ord'" by (metis set_sort)
  show "m = m'"
  proof (rule fmap_ext)
    fix x
    show "fmlookup m x = fmlookup m' x"
    proof (cases "x \<in> set ord")
      case True
      then have "(case fmlookup m x of Some v \<Rightarrow> v | None \<Rightarrow> '''') = (case fmlookup m' x of Some v \<Rightarrow> v | None \<Rightarrow> '''')"
        using eq s by (metis (no_types, lifting) map_eq_conv prod.inject set_sort)
      then show ?thesis
        using True \<open>set ord = set ord'\<close> iter_order_mem[OF assms(1), of x] iter_order_mem[OF assms(2), of x]
        by auto
    next
      case False
      then show ?thesis
        using \<open>set ord = set ord'\<close> iter_order_mem[OF assms(1), of x] iter_order_mem[OF assms(2), of x] by auto
    qed
  qed
next
  assume "m = m'"
  with iter_order_sorted[of m ord ord'] assms show
    "map (\<lambda>x. (x, case fmlookup m x of Some v \<Rightarrow> v | None \<Rightarrow> '''')) (sort ord) =
     map (\<lambda>x. (x, case fmlookup m' x of Some v \<Rightarrow> v | None \<Rightarrow> '''')) (sort ord')" by simp
qed

text \<open>
  The Flutter key is a function of the request and tells requests apart: it does not depend on
  the order in which the map of Dart defines is ranged over, and for NUL-free strings and no
  hash collision two requests have the same key exactly when source hash, build mode, flavor,
  defines and SDK version agree. (The target platform is not part of the key.)
\<close>

theorem FlutterCacheKey_exact:
  assumes "iter_order (fc_DartDefines c) ord" and "iter_order (fc_DartDefines c') ord'"
    and "\<forall>s \<in> {h, fc_BuildMode c, fc_Flavor c, v}. nulFree s"
    and "\<forall>s \<in> {h', fc_BuildMode c', fc_Flavor c', v'}. nulFree s"
    and "\<forall>k x. fmlookup (fc_DartDefines c) k = Some x \<longrightarrow> nulFree k \<and> nulFree x"
    and "\<forall>k x. fmlookup (fc_DartDefines c') k = Some x \<longrightarrow> nulFree k \<and> nulFree x"
    and "H (FlutterCacheKey_stream ord (Some c) h v) = H (FlutterCacheKey_stream ord' (Some c') h' v') \<Longrightarrow>
      FlutterCacheKey_stream ord (Some c) h v = FlutterCacheKey_stream ord' (Some c') h' v'"
  shows "FlutterCacheKey H ord (Some c) h v = FlutterCacheKey H ord' (Some c') h' v' \<longleftrightarrow>
    h = h' \<and> v = v' \<and> fc_BuildMode c = fc_BuildMode c' \<and> fc_Flavor c = fc_Flavor c' \<and>
    fc_DartDefines c = fc_DartDefines c'"
proof -
  let ?vals = "\<lambda>m x. case fmlookup m x of Some v \<Rightarrow> v | None \<Rightarrow> ''''"
  let ?pairs = "\<lambda>m ord. concat (map (\<lambda>x. [x, ?vals m x]) (sort ord))"
  have "FlutterCacheKey H ord (Some c) h v = FlutterCacheKey H ord' (Some c') h' v' \<longleftrightarrow>
      FlutterCacheKey_stream ord (Some c) h v = FlutterCacheKey_stream ord' (Some c') h' v'"
    using assms(7) by (auto simp: FlutterCacheKey_def Sum_eq_iff)
  also have "\<dots> \<longleftrightarrow>
      [h, fc_BuildMode c, fc_Flavor c] @ ?pairs (fc_DartDefines c) ord @ [v] =
      [h', fc_BuildMode c', fc_Flavor c'] @ ?pairs (fc_DartDefines c') ord' @ [v']"
    unfolding Flutter_fields
    using assms(3,4) pairs_nulFree[OF assms(1,5)] pairs_nulFree[OF assms(2,6)] by (intro terminated_inj) (auto simp: nulFree_def)
  also have "\<dots> \<longleftrightarrow> h = h' \<and> fc_BuildMode c = fc_BuildMode c' \<and> fc_Flavor c = fc_Flavor c' \<and>
      v = v' \<and> fc_DartDefines c = fc_DartDefines c'"
    by (auto simp: pairs_inj pairs_determine_map[OF assms(1,2)])
  finally show ?thesis by blast
qed

definition sampleFlutter :: "string \<Rightarrow> FlutterConfig" where
  "sampleFlutter mode = \<lparr>fc_FlutterVersion = ''3.0'', fc_BuildMode = mode, fc_Flavor = '''',
     fc_DartDefines = fmupd ''B'' ''2'' (fmupd ''A'' ''1'' fmempty)\<rparr>"

lemma FlutterCacheKey_exact_witness:
  "FlutterCacheKey (\<lambda>b. of_nat (length b)) [''A'', ''B''] (Some (sampleFlutter ''debug'')) ''h'' ''3.0'' =
   FlutterCacheKey (\<lambda>b. of_nat (length b)) [''B'', ''A''] (Some (sampleFlutter ''debug'')) ''h'' ''3.0''"
proof -
  let ?c = "sampleFlutter ''debug''"
  have o: "iter_order (fc_DartDefines ?c) [''A'', ''B'']" "iter_order (fc_DartDefines ?c) [''B'', ''A'']"
    by (auto simp: iter_order_def sampleFlutter_def)
  have same: "FlutterCacheKey_stream [''A'', ''B''] (Some ?c) ''h'' ''3.0'' =
      FlutterCacheKey_stream [''B'', ''A''] (Some ?c) ''h'' ''3.0''"
    using iter_order_sorted[OF o] by (simp add: Flutter_fields)
  have free: "\<forall>k x. fmlookup (fc_DartDefines ?c) k = Some x \<longrightarrow> nulFree k \<and> nulFree x"
    by (auto simp: sampleFlutter_def nulFree_def nul_def split: if_splits)
  have free': "\<forall>s \<in> {''h'', fc_BuildMode ?c, fc_Flavor ?c, ''3.0''}. nulFree s"
    by (simp add: sampleFlutter_def nulFree_def nul_def)
  show ?thesis
    using FlutterCacheKey_exact[OF o free' free' free free, of "\<lambda>b. of_nat (length b)"] same by simp
qed

text \<open>The names and numbers of platforms contain no NUL byte.\<close>

lemma nat_str_nulFree: "nul \<notin> set (nat_str n)"
proof (induction n rule: nat_str.induct)
  case (1 n)
  have "digit_char d \<noteq> nul" if "d < 10" for d
  proof
    assume "digit_char d = nul"
    then have "of_char (char_of (48 + d) :: char) = (0 :: nat)" by (simp add: nul_def)
    with that show False by simp
  qed
  then have d: "nul \<noteq> digit_char (n mod 10)" and d': "n < 10 \<Longrightarrow> nul \<noteq> digit_char n"
    by (metis mod_less_divisor zero_less_numeral, metis)
  show ?case
    using 1 d d' by (subst nat_str.simps) (auto simp del: digit_char.simps)
qed

lemma TargetPlatform_String_nulFree: "nulFree (TargetPlatform_String p)"
proof (cases p)
  case (PLATFORM_UNNAMED i)
  then show ?thesis using nat_str_nulFree by (simp add: nulFree_def int_str_def) (simp add: nul_def)
qed (simp_all add: nulFree_def nul_def)

text \<open>
  The Unity key has the same property with the target platform included: it is independent of
  the map order, and without NUL bytes and hash collisions equal keys mean equal project
  hash, Unity version, platform, scripting backend, build method and extra arguments.
\<close>

theorem UnityCacheKey_exact:
  assumes "iter_order (uc_ExtraArgs c) ord" and "iter_order (uc_ExtraArgs c') ord'"
    and "\<forall>s \<in> {h, uc_ScriptingBackend c, uc_BuildMethod c, v}. nulFree s"
    and "\<forall>s \<in> {h', uc_ScriptingBackend c', uc_BuildMethod c', v'}. nulFree s"
    and "\<forall>k x. fmlookup (uc_ExtraArgs c) k = Some x \<longrightarrow> nulFree k \<and> nulFree x"
    and "\<forall>k x. fmlookup (uc_ExtraArgs c') k = Some x \<longrightarrow> nulFree k \<and> nulFree x"
    and "H (UnityCacheKey_stream ord (Some c) h v p) = H (UnityCacheKey_stream ord' (Some c') h' v' p') \<Longrightarrow>
      UnityCacheKey_stream ord (Some c) h v p = UnityCacheKey_stream ord' (Some c') h' v' p'"
  shows "UnityCacheKey H ord (Some c) h v p = UnityCacheKey H ord' (Some c') h' v' p' \<longleftrightarrow>
    h = h' \<and> v = v' \<and> TargetPlatform_String p = TargetPlatform_String p' \<and>
    uc_ScriptingBackend c = uc_ScriptingBackend c' \<and> uc_BuildMethod c = uc_BuildMethod c' \<and>
    uc_ExtraArgs c = uc_ExtraArgs c'"
proof -
  let ?pairs = "\<lambda>m ord. concat (map (\<lambda>x. [x, case fmlookup m x of Some v \<Rightarrow> v | None \<Rightarrow> '''']) (sort ord))"
  have "UnityCacheKey H ord (Some c) h v p = UnityCacheKey H ord' (Some c') h' v' p' \<longleftrightarrow>
      UnityCacheKey_stream ord (Some c) h v p = UnityCacheKey_stream ord' (Some c') h' v' p'"
    using assms(7) by (auto simp: UnityCacheKey_def Sum_eq_iff)
  also have "\<dots> \<longleftrightarrow>
      [h, v, TargetPlatform_String p, uc_ScriptingBackend c, uc_BuildMethod c] @ ?pairs (uc_ExtraArgs c) ord =
      [h', v', TargetPlatform_String p', uc_ScriptingBackend c', uc_BuildMethod c'] @ ?pairs (uc_ExtraArgs c') ord'"
    unfolding Unity_fields
    using assms(3,4) pairs_nulFree[OF assms(1,5)] pairs_nulFree[OF assms(2,6)]
      TargetPlatform_String_nulFree[of p] TargetPlatform_String_nulFree[of p']
    by (intro terminated_inj) (auto simp: nulFree_def)
  also have "\<dots> \<longleftrightarrow> h = h' \<and> v = v' \<and> TargetPlatform_String p = TargetPlatform_String p' \<and>
      uc_ScriptingBackend c = uc_ScriptingBackend c' \<and> uc_BuildMethod c = uc_BuildMethod c' \<and>
      uc_ExtraArgs c = uc_ExtraArgs c'"
    by (auto simp: pairs_inj pairs_determine_map[OF assms(1,2)])
  finally show ?thesis .
qed

definition sampleUnity :: UnityConfig where
  "sampleUnity = \<lparr>uc_UnityVersion = ''6'', uc_BuildMethod = ''Build'', uc_ScriptingBackend = '''',
     uc_ExtraArgs = fmupd ''B'' ''2'' (fmupd ''A'' ''1'' fmempty)\<rparr>"

lemma UnityCacheKey_exact_witness:
  "UnityCacheKey (\<lambda>b. if CHR ''N'' \<in> set b then 1 else 0) [''A'', ''B''] (Some sampleUnity) ''h'' ''6'' PLATFORM_IOS \<noteq>
   UnityCacheKey (\<lambda>b. if CHR ''N'' \<in> set b then 1 else 0) [''B'', ''A''] (Some sampleUnity) ''h'' ''6'' PLATFORM_ANDROID"
proof -
  have o: "iter_order (uc_ExtraArgs sampleUnity) [''A'', ''B'']" "iter_order (uc_ExtraArgs sampleUnity) [''B'', ''A'']"
    by (auto simp: iter_order_def sampleUnity_def)
  have free: "\<forall>k x. fmlookup (uc_ExtraArgs sampleUnity) k = Some x \<longrightarrow> nulFree k \<and> nulFree x"
    by (auto simp: sampleUnity_def nulFree_def nul_def split: if_splits)
  have free': "\<forall>s \<in> {''h'', uc_ScriptingBackend sampleUnity, uc_BuildMethod sampleUnity, ''6''}. nulFree s"
    by (simp add: sampleUnity_def nulFree_def nul_def)
  have ne: "CHR ''N'' \<notin> set (UnityCacheKey_stream [''A'', ''B''] (Some sampleUnity) ''h'' ''6'' PLATFORM_IOS)"
      "CHR ''N'' \<in> set (UnityCacheKey_stream [''B'', ''A''] (Some sampleUnity) ''h'' ''6'' PLATFORM_ANDROID)"
    by (simp_all add: Unity_fields terminated_def sampleUnity_def nul_def)
  show ?thesis
    using UnityCacheKey_exact[OF o free' free' free free, of "\<lambda>b. if CHR ''N'' \<in> set b then 1 else 0" PLATFORM_IOS PLATFORM_ANDROID] ne
    by simp
qed

text \<open>
  The textual key is faithful to the hash: sixteen hexadecimal digits, and two keys are equal
  exactly when the 64-bit sums are.
\<close>

theorem Sum_faithful:
  "length (Sum H k) = 16 \<and> set (Sum H k) \<subseteq> hexDigits \<and> (Sum H k = Sum H k' \<longleftrightarrow> H k = H k')"
  using Sum_shape Sum_eq_iff by auto

end
