(* ===== verification/Server.thy ===== *)
theory Server
  imports Scheduling Circuit Cache_Key
begin

text \<open>
  The coordinator's server object, \<^verbatim>\<open>internal/coordinator/server\<close>: its configuration and state
  (\<^verbatim>\<open>grpc.go\<close>), the pool of worker connections, the task log (\<^verbatim>\<open>task_log.go\<close>), worker
  registration, and the queries (\<^verbatim>\<open>HealthCheck\<close>, \<^verbatim>\<open>GetWorkerStatus\<close>,
  \<^verbatim>\<open>GetWorkersForBuild\<close>, \<^verbatim>\<open>ReportCacheHit\<close>, \<^verbatim>\<open>StreamBuild\<close> and the dashboard's
  \<^verbatim>\<open>stats.go\<close>). \<^verbatim>\<open>Compile\<close> and \<^verbatim>\<open>Build\<close> have theories of their own.

  The libraries the server is linked with (the matrix library, the circuit breaker and the
  hash) are one argument, the record \<open>libs\<close>. Not part of the state: transport security,
  tracing, logging and the Prometheus metrics.
\<close>

record ('m, 'v, 'b) libs =
  lib_gonum :: "('m, 'v) gonum"
  lib_breaker :: "('b, string, unit) gobreaker"
  lib_hash :: "bytes \<Rightarrow> 64 word"

subsection \<open>Configuration\<close>

record Config =
  cfg_Port :: int
  cfg_AuthToken :: string
  cfg_HeartbeatTTL :: int
  cfg_RequestTimeout :: int
  cfg_EnableRequestID :: bool
  cfg_SchedulerType :: string
  cfg_EpsilonValue :: real
  cfg_AlphaValue :: real
  cfg_TaskLogPath :: string

definition DefaultConfig :: Config where
  "DefaultConfig =
     \<lparr>cfg_Port = 50051, cfg_AuthToken = '''', cfg_HeartbeatTTL = 60 * Second,
      cfg_RequestTimeout = 120 * Second, cfg_EnableRequestID = True,
      cfg_SchedulerType = ''leastloaded'', cfg_EpsilonValue = 0, cfg_AlphaValue = 0,
      cfg_TaskLogPath = ''''\<rparr>"

subsection \<open>The connection pool\<close>

text \<open>
  A connection is the number of the dial that made it. \<open>closedConns\<close> lists the connections on
  which \<^verbatim>\<open>Close\<close> was called, in that order.
\<close>

record connPool =
  conns :: "(string, nat) fmap"
  dialled :: nat
  closedConns :: "nat list"

definition newConnPool :: connPool where
  "newConnPool = \<lparr>conns = fmempty, dialled = 0, closedConns = []\<rparr>"

text \<open>
  \<^verbatim>\<open>get\<close>: a lookup under the lock, the dial outside of it (its outcome, an error text or success,
  is an argument), and an insertion under the lock that prefers a connection made meanwhile.
\<close>

definition connPool_lookup :: "string \<Rightarrow> connPool \<Rightarrow> nat option" where
  "connPool_lookup addr p = fmlookup (conns p) addr"

definition connPool_dial :: "connPool \<Rightarrow> nat \<times> connPool" where
  "connPool_dial p = (dialled p, p\<lparr>dialled := Suc (dialled p)\<rparr>)"

definition connPool_insert :: "string \<Rightarrow> nat \<Rightarrow> connPool \<Rightarrow> nat \<times> connPool" where
  "connPool_insert addr conn p =
     (case fmlookup (conns p) addr of
        Some existing \<Rightarrow> (existing, p\<lparr>closedConns := closedConns p @ [conn]\<rparr>)
      | None \<Rightarrow> (conn, p\<lparr>conns := fmupd addr conn (conns p)\<rparr>))"

definition connPool_get :: "string option \<Rightarrow> string \<Rightarrow> connPool \<Rightarrow> (string + nat) \<times> connPool" where
  "connPool_get dial addr p =
     (case connPool_lookup addr p of
        Some conn \<Rightarrow> (Inr conn, p)
      | None \<Rightarrow>
          (case dial of
             Some err \<Rightarrow> (Inl err, p)
           | None \<Rightarrow>
               let (conn, p1) = connPool_dial p;
                   (conn', p2) = connPool_insert addr conn p1
               in (Inr conn', p2)))"

definition connPool_closeAll :: "string list \<Rightarrow> connPool \<Rightarrow> connPool" where
  "connPool_closeAll ord p =
     p\<lparr>conns := fmempty, closedConns := closedConns p @ range_vals (conns p) ord\<rparr>"

subsection \<open>Events and the task log\<close>

record TaskEvent =
  ev_ID :: string
  ev_BuildType :: string
  ev_Status :: string
  ev_WorkerID :: string
  ev_StartedAt :: int
  ev_CompletedAt :: int
  ev_DurationMs :: int
  ev_ExitCode :: int
  ev_FromCache :: bool
  ev_ErrorMessage :: string

datatype notification = TaskStarted TaskEvent | TaskCompleted TaskEvent

definition runningEvent :: "string \<Rightarrow> string \<Rightarrow> string \<Rightarrow> int \<Rightarrow> TaskEvent" where
  "runningEvent tid bt wid started =
     \<lparr>ev_ID = tid, ev_BuildType = bt, ev_Status = ''running'', ev_WorkerID = wid,
      ev_StartedAt = started, ev_CompletedAt = 0, ev_DurationMs = 0, ev_ExitCode = 0,
      ev_FromCache = False, ev_ErrorMessage = ''''\<rparr>"

record TaskLogRecord =
  tl_TS :: int
  tl_Event :: string
  tl_TaskID :: string
  tl_BuildType :: string
  tl_Scheduler :: string
  tl_WorkerID :: string
  tl_WorkerArch :: string
  tl_WorkerNativeArch :: string
  tl_WorkerCPUCores :: int
  tl_WorkerMemBytes :: int
  tl_WorkerActiveTasksAtDispatch :: int
  tl_WorkerMaxParallel :: int
  tl_WorkerDiscoverySource :: string
  tl_TargetArch :: string
  tl_ClientOS :: string
  tl_SourceSizeBytes :: int
  tl_PreprocessedSizeBytes :: int
  tl_RawSourceSizeBytes :: int
  tl_QueueTimeMs :: int
  tl_CompileTimeMs :: int
  tl_WorkerRPCLatencyMs :: int
  tl_TotalDurationMs :: int
  tl_Success :: bool
  tl_ExitCode :: int
  tl_FromCache :: bool
  tl_QValueAtDispatch :: real
  tl_WasExploration :: bool

text \<open>
  \<open>LogFile\<close> carries the path and whether the file is still open. \<open>logged\<close> is what has been
  written; a failing write (\<open>ok\<close> false) and a write to a closed file leave nothing.
\<close>

datatype log_dest = Stdout | LogFile string bool

record TaskLogger =
  log_w :: log_dest
  logged :: "TaskLogRecord list"

definition NewTaskLogger :: "bool \<Rightarrow> string \<Rightarrow> TaskLogger option" where
  "NewTaskLogger openFails path =
     (if path = '''' \<or> path = ''stdout'' then Some \<lparr>log_w = Stdout, logged = []\<rparr>
      else if openFails then None
      else Some \<lparr>log_w = LogFile path True, logged = []\<rparr>)"

definition TaskLogger_Log :: "bool \<Rightarrow> TaskLogRecord \<Rightarrow> TaskLogger \<Rightarrow> TaskLogger" where
  "TaskLogger_Log ok r l =
     (case log_w l of
        LogFile p False \<Rightarrow> l
      | _ \<Rightarrow> if ok then l\<lparr>logged := logged l @ [r]\<rparr> else l)"

definition TaskLogger_Close :: "TaskLogger \<Rightarrow> (string, unit) outcome \<times> TaskLogger" where
  "TaskLogger_Close l =
     (case log_w l of
        Stdout \<Rightarrow> (Ok (), l)
      | LogFile p True \<Rightarrow> (Ok (), l\<lparr>log_w := LogFile p False\<rparr>)
      | LogFile p False \<Rightarrow> (Err ''file already closed'', l))"

subsection \<open>The server\<close>

record flutterCacheEntry =
  ce_artifacts :: bytes
  ce_artifactList :: "ArtifactInfo list"
  ce_stdout :: string
  ce_stderr :: string
  ce_buildTimeMs :: int

text \<open>The two cache entry types of the source have the same fields.\<close>

type_synonym unityCacheEntry = flutterCacheEntry

text \<open>
  \<open>notifier\<close> says whether an event notifier is set and \<open>events\<close> lists the calls it received.
  The counters are \<^verbatim>\<open>int64\<close> and updated atomically; \<open>activeTasksByWorker\<close> is the \<^verbatim>\<open>sync.Map\<close>
  of per-worker counters.
\<close>

record ('m, 'v, 'b) Server =
  config :: Config
  registry :: InMemoryRegistry
  scheduler :: "('m, 'v) Scheduler"
  circuitManager :: "'b CircuitManager"
  notifier :: bool
  events :: "notification list"
  workerConns :: connPool
  taskLogger :: TaskLogger
  activeTasks :: int
  queuedTasks :: int
  totalTasks :: int
  successTasks :: int
  failedTasks :: int
  cacheHits :: int
  cacheMisses :: int
  flutterBuilds :: int
  flutterCacheHits :: int
  flutterCacheMisses :: int
  flutterCache :: "(string, flutterCacheEntry) fmap"
  unityBuilds :: int
  unityCacheHits :: int
  unityCacheMisses :: int
  unityCache :: "(string, unityCacheEntry) fmap"
  activeTasksByWorker :: "(string, int) fmap"

definition Server_New :: "bool \<Rightarrow> Config \<Rightarrow> ('m, 'v, 'b) Server" where
  "Server_New logOpenFails cfg =
     \<lparr>config = cfg,
      registry = NewInMemoryRegistry (cfg_HeartbeatTTL cfg),
      scheduler = newScheduler (cfg_SchedulerType cfg) (cfg_EpsilonValue cfg) (cfg_AlphaValue cfg),
      circuitManager = OnStateChange (NewCircuitManager DefaultCircuitConfig),
      notifier = False, events = [],
      workerConns = newConnPool,
      taskLogger =
        (case NewTaskLogger logOpenFails (cfg_TaskLogPath cfg) of
           Some l \<Rightarrow> l
         | None \<Rightarrow> the (NewTaskLogger logOpenFails '''')),
      activeTasks = 0, queuedTasks = 0, totalTasks = 0, successTasks = 0, failedTasks = 0,
      cacheHits = 0, cacheMisses = 0, flutterBuilds = 0, flutterCacheHits = 0, flutterCacheMisses = 0,
      flutterCache = fmempty, unityBuilds = 0, unityCacheHits = 0, unityCacheMisses = 0,
      unityCache = fmempty, activeTasksByWorker = fmempty\<rparr>"

definition SetEventNotifier :: "bool \<Rightarrow> ('m, 'v, 'b) Server \<Rightarrow> ('m, 'v, 'b) Server" where
  "SetEventNotifier present s = s\<lparr>notifier := present\<rparr>"

text \<open>\<^verbatim>\<open>if s.eventNotifier != nil { s.eventNotifier.Notify...(event) }\<close>\<close>

definition notifyEvents :: "notification list \<Rightarrow> ('m, 'v, 'b) Server \<Rightarrow> ('m, 'v, 'b) Server" where
  "notifyEvents es s = (if notifier s then s\<lparr>events := events s @ es\<rparr> else s)"

text \<open>
  \<^verbatim>\<open>Stop\<close>, once no call is in progress any more. Stopping twice panics: the registry closes its
  channel again.
\<close>

definition Server_Stop :: "string list \<Rightarrow> ('m, 'v, 'b) Server \<Rightarrow> (string, ('m, 'v, 'b) Server) outcome" where
  "Server_Stop ord s =
     (let s1 = s\<lparr>workerConns := connPool_closeAll ord (workerConns s)\<rparr>
      in case Stop (registry s1) of
           Ok r \<Rightarrow> Ok (s1\<lparr>registry := r, taskLogger := snd (TaskLogger_Close (taskLogger s1))\<rparr>)
         | Err e \<Rightarrow> Panic
         | Panic \<Rightarrow> Panic)"

text \<open>The per-worker counters: \<^verbatim>\<open>LoadOrStore\<close> then add, and \<^verbatim>\<open>Load\<close> then add.\<close>

definition byWorker_inc :: "string \<Rightarrow> (string, int) fmap \<Rightarrow> (string, int) fmap" where
  "byWorker_inc wid m =
     (case fmlookup m wid of
        None \<Rightarrow> fmupd wid (wrap64 (0 + 1)) m
      | Some n \<Rightarrow> fmupd wid (wrap64 (n + 1)) m)"

definition byWorker_dec :: "string \<Rightarrow> (string, int) fmap \<Rightarrow> (string, int) fmap" where
  "byWorker_dec wid m =
     (case fmlookup m wid of None \<Rightarrow> m | Some n \<Rightarrow> fmupd wid (wrap64 (n - 1)) m)"

subsection \<open>Worker registration\<close>

datatype rpc_status = InvalidArgument string | Internal string

text \<open>
  \<open>idNow\<close> is the clock at the naming of the worker, \<open>now\<close> in the registry. The branch for a
  failing \<^verbatim>\<open>Add\<close> is not there: the in-memory registry's \<^verbatim>\<open>Add\<close> always returns nil. The interval
  \<^verbatim>\<open>int32(ttl.Seconds() / 2)\<close> truncates towards zero (for lifetimes below \<open>2 ^ 32\<close> seconds, where
  the conversion is defined).
\<close>

definition handshakeWorker :: "int \<Rightarrow> HandshakeRequest \<Rightarrow> WorkerCapabilities \<Rightarrow> WorkerInfo" where
  "handshakeWorker idNow req caps =
     \<lparr>ID = (if WorkerId caps = '''' then ''worker-'' @ Hostname caps @ ''-'' @ int_str idNow else WorkerId caps),
      Address = (if hs_WorkerAddress req = '''' then Hostname caps @ '':50052'' else hs_WorkerAddress req),
      Capabilities = Some caps,
      State = WorkerStateIdle,
      DiscoverySource = '''',
      LastHeartbeat = 0,
      RegisteredAt = 0,
      MaxParallel = (if MaxParallelTasks caps \<le> 0 then 4 else MaxParallelTasks caps),
      ActiveTasks = 0, TotalTasks = 0, SuccessfulTasks = 0, FailedTasks = 0, AvgCompileTime = 0\<rparr>"

definition Handshake ::
    "int \<Rightarrow> int \<Rightarrow> HandshakeRequest \<Rightarrow> ('m, 'v, 'b) Server \<Rightarrow>
       (rpc_status, HandshakeResponse) outcome \<times> ('m, 'v, 'b) Server" where
  "Handshake idNow now req s =
     (case hs_Capabilities req of
        None \<Rightarrow> (Err (InvalidArgument ''capabilities required''), s)
      | Some caps \<Rightarrow>
          if cfg_AuthToken (config s) \<noteq> '''' \<and> hs_AuthToken req \<noteq> cfg_AuthToken (config s) then
            (Ok \<lparr>hr_Accepted = False, hr_Message = ''invalid auth token'',
                 hr_AssignedWorkerId = '''', hr_HeartbeatIntervalSeconds = 0\<rparr>, s)
          else
            let worker = handshakeWorker idNow req caps
            in (Ok \<lparr>hr_Accepted = True, hr_Message = ''worker registered successfully'',
                    hr_AssignedWorkerId = ID worker,
                    hr_HeartbeatIntervalSeconds = cfg_HeartbeatTTL (config s) sdiv (2 * Second)\<rparr>,
                s\<lparr>registry := Add now worker (registry s)\<rparr>))"

subsection \<open>Queries\<close>

definition clampInt64ToInt32 :: "int \<Rightarrow> int" where
  "clampInt64ToInt32 v =
     (if v > 2 ^ 31 - 1 then 2 ^ 31 - 1 else if v < - (2 ^ 31) then - (2 ^ 31) else v)"

definition workerCapabilitiesOrDefault :: "WorkerInfo option \<Rightarrow> WorkerCapabilities" where
  "workerCapabilitiesOrDefault w =
     (case w of
        Some w' \<Rightarrow> (case Capabilities w' of Some c \<Rightarrow> c | None \<Rightarrow> emptyCapabilities)
      | None \<Rightarrow> emptyCapabilities)"

text \<open>The queries list the workers in the order \<open>ord\<close> and read the clock once, as \<open>now\<close>.\<close>

record HealthResponse =
  he_Healthy :: bool
  he_ActiveTasks :: int
  he_QueuedTasks :: int

definition HealthCheck :: "int \<Rightarrow> string list \<Rightarrow> ('m, 'v, 'b) Server \<Rightarrow> HealthResponse" where
  "HealthCheck now ord s =
     (let ws = ListWorkers ord (registry s);
          healthyCount = length (filter (IsHealthy now (cfg_HeartbeatTTL (config s))) ws)
      in \<lparr>he_Healthy = (healthyCount > 0 \<or> length ws = 0),
          he_ActiveTasks = clampInt64ToInt32 (activeTasks s),
          he_QueuedTasks = clampInt64ToInt32 (queuedTasks s)\<rparr>)"

record WorkerStatusInfo =
  wi_WorkerId :: string
  wi_Host :: string
  wi_NativeArch :: Architecture
  wi_CpuCores :: int
  wi_MemoryBytes :: int
  wi_ActiveTasks :: int
  wi_TotalTasksCompleted :: int
  wi_LastHeartbeatUnix :: int

record WorkerStatusResponse =
  wr_Workers :: "WorkerStatusInfo list"
  wr_TotalWorkers :: int
  wr_HealthyWorkers :: int

text \<open>\<^verbatim>\<open>Time.Unix\<close> counts whole seconds.\<close>

definition Unix :: "int \<Rightarrow> int" where "Unix t = t div Second"

definition workerStatusInfo :: "WorkerInfo \<Rightarrow> WorkerStatusInfo" where
  "workerStatusInfo w =
     (let caps = workerCapabilitiesOrDefault (Some w)
      in \<lparr>wi_WorkerId = ID w, wi_Host = Hostname caps, wi_NativeArch = NativeArch caps,
          wi_CpuCores = CpuCores caps, wi_MemoryBytes = MemoryBytes caps,
          wi_ActiveTasks = ActiveTasks w, wi_TotalTasksCompleted = TotalTasks w,
          wi_LastHeartbeatUnix = Unix (LastHeartbeat w)\<rparr>)"

definition GetWorkerStatus :: "int \<Rightarrow> string list \<Rightarrow> ('m, 'v, 'b) Server \<Rightarrow> WorkerStatusResponse" where
  "GetWorkerStatus now ord s =
     (let ws = ListWorkers ord (registry s);
          healthyCount = length (filter (IsHealthy now (cfg_HeartbeatTTL (config s))) ws)
      in \<lparr>wr_Workers = map workerStatusInfo ws,
          wr_TotalWorkers = wrap32 (int (length ws)),
          wr_HealthyWorkers = wrap32 (int healthyCount)\<rparr>)"

record WorkersForBuildResponse =
  wf_WorkerIds :: "string list"
  wf_AvailableCount :: int

definition GetWorkersForBuild ::
    "int \<Rightarrow> string list \<Rightarrow> BuildType \<Rightarrow> TargetPlatform \<Rightarrow> ('m, 'v, 'b) Server \<Rightarrow> WorkersForBuildResponse" where
  "GetWorkersForBuild now ord buildType targetPlatform s =
     (let ids = map ID (ListByCapability now ord buildType ARCH_UNSPECIFIED (registry s))
      in \<lparr>wf_WorkerIds = ids, wf_AvailableCount = wrap32 (int (length ids))\<rparr>)"

definition ReportCacheHit :: "int \<Rightarrow> ('m, 'v, 'b) Server \<Rightarrow> bool \<times> ('m, 'v, 'b) Server" where
  "ReportCacheHit hits s =
     (True, if hits > 0 then s\<lparr>cacheHits := wrap64 (cacheHits s + hits)\<rparr> else s)"

text \<open>A stream is what \<^verbatim>\<open>Recv\<close> delivers until the end of the file.\<close>

datatype recv = Received BuildChunk | RecvError string

fun StreamBuild_loop ::
    "recv list \<Rightarrow> BuildMetadata option \<Rightarrow> bytes \<Rightarrow> (rpc_status, BuildMetadata option \<times> bytes) outcome" where
  "StreamBuild_loop [] metadata sourceData = Ok (metadata, sourceData)"
| "StreamBuild_loop (RecvError e # rs) metadata sourceData =
     Err (Internal (''failed to receive chunk: '' @ e))"
| "StreamBuild_loop (Received (ChunkMetadata m) # rs) metadata sourceData =
     StreamBuild_loop rs (Some m) sourceData"
| "StreamBuild_loop (Received (SourceChunk b) # rs) metadata sourceData =
     StreamBuild_loop rs metadata (sourceData @ b)"
| "StreamBuild_loop (Received NoPayload # rs) metadata sourceData =
     StreamBuild_loop rs metadata sourceData"

definition StreamBuild :: "recv list \<Rightarrow> (rpc_status, BuildResponse) outcome" where
  "StreamBuild stream =
     (case StreamBuild_loop stream None [] of
        Err e \<Rightarrow> Err e
      | Panic \<Rightarrow> Panic
      | Ok (metadata, sourceData) \<Rightarrow>
          if metadata = None then Err (InvalidArgument ''metadata required'')
          else Ok (emptyBuildResponse\<lparr>bs_Status := STATUS_FAILED, bs_ExitCode := 1,
                     bs_Stderr := ''stream build not implemented yet''\<rparr>))"


subsection \<open>Properties\<close>

text \<open>
  Concurrent use of the pool. A goroutine that found no connection dials and later inserts;
  \<open>pool_reach p P\<close> says that \<open>p\<close> arises with the pairs of address and connection in \<open>P\<close> dialled
  but not yet inserted.
\<close>

inductive pool_reach :: "connPool \<Rightarrow> (string \<times> nat) multiset \<Rightarrow> bool" where
  pool_new: "pool_reach newConnPool {#}"
| pool_dialled: "pool_reach p P \<Longrightarrow> connPool_dial p = (conn, p') \<Longrightarrow> pool_reach p' (add_mset (addr, conn) P)"
| pool_inserted: "pool_reach p (add_mset (addr, conn) P) \<Longrightarrow> connPool_insert addr conn p = (conn', p') \<Longrightarrow>
    pool_reach p' P"
| pool_closed: "pool_reach p P \<Longrightarrow> iter_order (conns p) ord \<Longrightarrow> pool_reach (connPool_closeAll ord p) P"

definition pooledConns :: "connPool \<Rightarrow> nat multiset" where
  "pooledConns p = image_mset (\<lambda>a. the (fmlookup (conns p) a)) (mset_set (fset (fmdom (conns p))))"

lemma pooledConns_insert:
  assumes "fmlookup (conns p) addr = None"
  shows "pooledConns (p\<lparr>conns := fmupd addr conn (conns p)\<rparr>) = add_mset conn (pooledConns p)"
proof -
  have new: "addr \<notin> fset (fmdom (conns p))" using assms by (simp add: fmlookup_dom_iff)
  have "image_mset (\<lambda>a. the (fmlookup (fmupd addr conn (conns p)) a)) (mset_set (fset (fmdom (conns p)))) =
      image_mset (\<lambda>a. the (fmlookup (conns p) a)) (mset_set (fset (fmdom (conns p))))"
    using new by (intro image_mset_cong) auto
  with new show ?thesis by (simp add: pooledConns_def)
qed

lemma pooledConns_close [simp]: "pooledConns (p\<lparr>closedConns := cs\<rparr>) = pooledConns p"
  by (simp add: pooledConns_def)

lemma range_vals_mset:
  "distinct ks \<Longrightarrow> (\<forall>k \<in> set ks. fmlookup m k \<noteq> None) \<Longrightarrow>
     mset (range_vals m ks) = image_mset (\<lambda>k. the (fmlookup m k)) (mset_set (set ks))"
  by (induction ks) (auto split: option.split)

lemma pooledConns_order:
  assumes "iter_order (conns p) ord"
  shows "mset (range_vals (conns p) ord) = pooledConns p"
proof -
  have "set ord = fset (fmdom (conns p))" using assms by (metis fset_of_list.rep_eq iter_order_def)
  then show ?thesis
    using range_vals_mset[of ord "conns p"] assms iter_order_mem[OF assms]
    by (auto simp: pooledConns_def iter_order_def)
qed

lemma pool_balance:
  "pool_reach p P \<Longrightarrow> mset [0..<dialled p] = mset (closedConns p) + pooledConns p + image_mset snd P"
proof (induction rule: pool_reach.induct)
  case pool_new
  then show ?case by (simp add: newConnPool_def pooledConns_def)
next
  case (pool_dialled p P conn p' addr)
  then show ?case by (auto simp: connPool_dial_def pooledConns_def atLeast0_lessThan_Suc)
next
  case (pool_inserted p addr conn P conn' p')
  then show ?case
    by (cases "fmlookup (conns p) addr") (auto simp: connPool_insert_def pooledConns_insert pooledConns_close)
next
  case (pool_closed p P ord)
  then show ?case
    using pooledConns_order[OF pool_closed(2)] by (simp add: connPool_closeAll_def pooledConns_def)
qed

text \<open>
  C39. No connection leaks and none is closed twice, however lookups, dials, insertions and
  \<^verbatim>\<open>closeAll\<close> interleave: of the connections ever dialled, each is in exactly one place, once: in
  the pool, among the closed ones, or in the hands of a caller that is about to insert it.
\<close>

theorem connPool_no_leak:
  assumes "pool_reach p P"
  shows "mset [0..<dialled p] = mset (closedConns p) + pooledConns p + image_mset snd P
    \<and> (P = {#} \<longrightarrow> (\<forall>conn < dialled p. conn \<in> set (closedConns p) \<or> (\<exists>addr. fmlookup (conns p) addr = Some conn)))"
proof (intro conjI impI allI)
  show eq: "mset [0..<dialled p] = mset (closedConns p) + pooledConns p + image_mset snd P"
    using pool_balance[OF assms] .
  fix conn assume "P = {#}" "conn < dialled p"
  then have "conn \<in># mset (closedConns p) + pooledConns p"
    using eq by (metis add.right_neutral atLeastLessThan_iff image_mset_empty set_mset_mset set_upt zero_le)
  then show "conn \<in> set (closedConns p) \<or> (\<exists>addr. fmlookup (conns p) addr = Some conn)"
    by (auto simp: pooledConns_def fmlookup_dom_iff)
qed

lemma connPool_no_leak_witness:
  "\<exists>p. dialled p = 2 \<and> mset [0..<2] = mset (closedConns p) + pooledConns p \<and> closedConns p = [1]"
proof -
  let ?p2 = "\<lparr>conns = fmempty, dialled = 2, closedConns = []\<rparr>"
  let ?p3 = "?p2\<lparr>conns := fmupd ''a:1'' 0 fmempty\<rparr>"
  have "pool_reach (newConnPool\<lparr>dialled := 1\<rparr>) {#(''a:1'', 0)#}"
    by (rule pool_reach.pool_dialled[OF pool_reach.pool_new]) (simp add: connPool_dial_def newConnPool_def)
  then have "pool_reach ?p2 {#(''a:1'', 1), (''a:1'', 0)#}"
    by (rule pool_reach.pool_dialled) (simp add: connPool_dial_def newConnPool_def)
  then have "pool_reach ?p2 (add_mset (''a:1'', 0) {#(''a:1'', 1)#})" by (simp add: add_mset_commute)
  then have "pool_reach ?p3 {#(''a:1'', 1)#}"
    by (rule pool_reach.pool_inserted) (simp add: connPool_insert_def)
  then have "pool_reach (?p3\<lparr>closedConns := [1]\<rparr>) {#}"
    by (rule pool_reach.pool_inserted) (simp add: connPool_insert_def)
  from connPool_no_leak[OF this] show ?thesis
    by (intro exI[of _ "?p3\<lparr>closedConns := [1]\<rparr>"]) simp
qed

text \<open>
  Registration. A request without capabilities is an error and one with a wrong token is turned
  away, both without a trace; any other is accepted, and then the worker is registered under the
  assigned ID with the reported capabilities, counts as healthy for a whole heartbeat
  lifetime, has a positive task limit, and no other worker has changed.
\<close>

theorem Handshake_correct:
  assumes "cfg_HeartbeatTTL (config s) \<ge> 0"
  shows "(case hs_Capabilities req of
       None \<Rightarrow> Handshake idNow now req s = (Err (InvalidArgument ''capabilities required''), s)
     | Some caps \<Rightarrow>
         (\<exists>resp s'. Handshake idNow now req s = (Ok resp, s') \<and>
           (hr_Accepted resp \<longleftrightarrow> cfg_AuthToken (config s) = '''' \<or> hs_AuthToken req = cfg_AuthToken (config s)) \<and>
           (\<not> hr_Accepted resp \<longrightarrow> s' = s) \<and>
           (hr_Accepted resp \<longrightarrow>
              (\<exists>w. Get (hr_AssignedWorkerId resp) (registry s') = Some w \<and> Capabilities w = Some caps \<and>
                 MaxParallel w > 0 \<and>
                 (\<forall>t. now \<le> t \<and> t \<le> now + cfg_HeartbeatTTL (config s) \<longrightarrow>
                    IsHealthy t (cfg_HeartbeatTTL (config s)) w)) \<and>
              (\<forall>v. v \<noteq> hr_AssignedWorkerId resp \<longrightarrow> Get v (registry s') = Get v (registry s)))))"
proof (cases "hs_Capabilities req")
  case None
  then show ?thesis by (simp add: Handshake_def)
next
  case (Some caps)
  let ?w = "handshakeWorker idNow req caps"
  have healthy: "IsHealthy t (cfg_HeartbeatTTL (config s)) w"
    if "State w \<noteq> WorkerStateUnhealthy" "LastHeartbeat w = now" "now \<le> t \<and> t \<le> now + cfg_HeartbeatTTL (config s)"
    for t w
    using that assms by (auto simp: IsHealthy_def time_sub_def minDuration_def maxDuration_def)
  have "\<exists>w. Get (ID ?w) (Add now ?w (registry s)) = Some w \<and> Capabilities w = Some caps \<and> MaxParallel w > 0 \<and>
      State w \<noteq> WorkerStateUnhealthy \<and> LastHeartbeat w = now"
    by (auto simp: Get_def Add_lookup handshakeWorker_def split: option.split)
  with healthy Some show ?thesis
    by (auto simp: Handshake_def Let_def Get_def Add_lookup)
qed

lemma Handshake_correct_witness:
  "\<exists>resp s'. Handshake 0 5 \<lparr>hs_Capabilities = Some sampleCaps, hs_AuthToken = '''', hs_WorkerAddress = ''a:1''\<rparr>
     (Server_New False DefaultConfig :: (unit, unit, unit) Server) = (Ok resp, s') \<and> hr_Accepted resp"
  using Handshake_correct[where s = "Server_New False DefaultConfig :: (unit, unit, unit) Server" and idNow = 0 and now = 5
      and req = "\<lparr>hs_Capabilities = Some sampleCaps, hs_AuthToken = '''', hs_WorkerAddress = ''a:1''\<rparr>"]
  by (auto simp: Server_New_def DefaultConfig_def Second_def)

end
