(* ===== verification/Compile.thy ===== *)
theory Compile
  imports Server
begin

text \<open>
  The handler \<^verbatim>\<open>Compile\<close> of \<^verbatim>\<open>internal/coordinator/server/grpc.go\<close>. Calls run concurrently on
  one server, so the handler is written as the phases between which other calls may change
  the state: \<open>compile_select\<close> (checks, queue counter, choice of a worker),
  \<open>compile_dispatch\<close> (booking of the task), \<open>forwardCompile\<close> (the worker's answer) and
  \<open>compile_finish\<close> (everything after it, deferred functions included). \<open>Compile\<close> composes
  them. What a phase knows of its call is a \<open>compile_ticket\<close>.

  What comes from outside is the record \<open>compile_input\<close>: the scheduler's environment, the
  clock readings in the order the code takes them, the outcome of dialling the worker, the
  worker's answer (an error text or a response, never both: the generated client returns a
  nil response with an error) and whether the task log can be written.
\<close>

subsection \<open>Inputs\<close>

record compile_input =
  in_sched :: sched_env
  in_start :: int
  in_queue :: int
  in_taskStart :: int
  in_callStart :: int
  in_callEnd :: int
  in_completed :: int
  in_logTime :: int
  in_logOk :: bool
  in_dial :: "string option"
  in_reply :: "string + CompileResponse"

record compile_ticket =
  ct_req :: CompileRequest
  ct_worker :: WorkerInfo
  ct_info :: DispatchInfo
  ct_ctx :: TaskContext

fun sched_error_string :: "sched_error \<Rightarrow> string" where
  "sched_error_string ErrNoWorkers = ''no workers available''"
| "sched_error_string ErrNoMatchingWorkers = ''no workers match requirements''"

definition failedCompile :: "string \<Rightarrow> CompileResponse" where
  "failedCompile msg = emptyCompileResponse\<lparr>cs_Status := STATUS_FAILED, cs_ExitCode := 1, cs_Stderr := msg\<rparr>"

subsection \<open>Selecting a worker\<close>

text \<open>Preprocessed source is bound to the client's OS; raw source is not.\<close>

definition clientOSFilter :: "CompileRequest \<Rightarrow> string" where
  "clientOSFilter req =
     (if length (cr_RawSource req) = 0 \<and> length (cr_PreprocessedSource req) > 0 then cr_ClientOs req else '''')"

definition compileContext :: "CompileRequest \<Rightarrow> TaskContext" where
  "compileContext req =
     \<lparr>SourceSizeBytes = int (length (cr_PreprocessedSource req)) + int (length (cr_RawSource req)),
      TaskID = cr_TaskId req\<rparr>"

definition circuitChecker :: "('m, 'v, 'b) libs \<Rightarrow> int \<Rightarrow> ('m, 'v, 'b) Server \<Rightarrow> circuit_checker" where
  "circuitChecker L now s = Some (\<lambda>wid. fst (IsOpen (lib_breaker L) now wid (circuitManager s)))"

definition compile_select ::
    "('m, 'v, 'b) libs \<Rightarrow> sched_env \<Rightarrow> CompileRequest \<Rightarrow> ('m, 'v, 'b) Server \<Rightarrow>
       (rpc_status, CompileResponse + compile_ticket) outcome \<times> ('m, 'v, 'b) Server" where
  "compile_select L env req s =
     (if cr_TaskId req = '''' then (Err (InvalidArgument ''task_id required''), s)
      else
        let s1 = s\<lparr>cacheMisses := wrap64 (cacheMisses s + 1), queuedTasks := wrap64 (queuedTasks s + 1)\<rparr>;
            (sel, sched) = SelectWith (lib_gonum L) (circuitChecker L (env_now env) s1) (registry s1) env
                             BUILD_TYPE_CPP (cr_TargetArch req) (clientOSFilter req) (compileContext req) (scheduler s1);
            s2 = s1\<lparr>scheduler := sched\<rparr>
        in (case sel of
              Panic \<Rightarrow> (Panic, s2)
            | Err e \<Rightarrow>
                (Ok (Inl (failedCompile (''no worker available: '' @ sched_error_string e))),
                 s2\<lparr>queuedTasks := wrap64 (queuedTasks s2 - 1)\<rparr>)
            | Ok (worker, info) \<Rightarrow>
                (Ok (Inr \<lparr>ct_req = req, ct_worker = worker, ct_info = info, ct_ctx = compileContext req\<rparr>), s2)))"

subsection \<open>Booking and forwarding\<close>

text \<open>The booking of a task on a worker and its undoing are shared with \<^verbatim>\<open>Build\<close>.\<close>

definition bookTask :: "string \<Rightarrow> ('m, 'v, 'b) Server \<Rightarrow> ('m, 'v, 'b) Server" where
  "bookTask wid s =
     s\<lparr>registry := or_unchanged (registry s) (IncrementTasks wid (registry s)),
       activeTasks := wrap64 (activeTasks s + 1),
       totalTasks := wrap64 (totalTasks s + 1),
       activeTasksByWorker := byWorker_inc wid (activeTasksByWorker s)\<rparr>"

definition releaseTask :: "string \<Rightarrow> ('m, 'v, 'b) Server \<Rightarrow> ('m, 'v, 'b) Server" where
  "releaseTask wid s =
     s\<lparr>activeTasks := wrap64 (activeTasks s - 1),
       activeTasksByWorker := byWorker_dec wid (activeTasksByWorker s),
       queuedTasks := wrap64 (queuedTasks s - 1)\<rparr>"

definition countOutcome :: "bool \<Rightarrow> ('m, 'v, 'b) Server \<Rightarrow> ('m, 'v, 'b) Server" where
  "countOutcome success s =
     (if success then s\<lparr>successTasks := wrap64 (successTasks s + 1)\<rparr>
      else s\<lparr>failedTasks := wrap64 (failedTasks s + 1)\<rparr>)"

definition unbookTask :: "string \<Rightarrow> bool \<Rightarrow> int \<Rightarrow> ('m, 'v, 'b) Server \<Rightarrow> ('m, 'v, 'b) Server" where
  "unbookTask wid success compileTime s =
     s\<lparr>registry := or_unchanged (registry s) (DecrementTasks wid success compileTime (registry s))\<rparr>"

definition compile_dispatch ::
    "compile_input \<Rightarrow> compile_ticket \<Rightarrow> ('m, 'v, 'b) Server \<Rightarrow> ('m, 'v, 'b) Server" where
  "compile_dispatch i t s =
     notifyEvents [TaskStarted (runningEvent (cr_TaskId (ct_req t)) ''cpp'' (ID (ct_worker t)) (Unix (in_taskStart i)))]
       (bookTask (ID (ct_worker t)) s)"

definition forwardCompile ::
    "compile_input \<Rightarrow> WorkerInfo \<Rightarrow> ('m, 'v, 'b) Server \<Rightarrow> (string + CompileResponse) \<times> ('m, 'v, 'b) Server" where
  "forwardCompile i worker s =
     (case connPool_get (in_dial i) (Address worker) (workerConns s) of
        (Inl e, p) \<Rightarrow> (Inl (''failed to connect to worker: '' @ e), s\<lparr>workerConns := p\<rparr>)
      | (Inr conn, p) \<Rightarrow> (in_reply i, s\<lparr>workerConns := p\<rparr>))"

subsection \<open>After the answer\<close>

text \<open>
  \<^verbatim>\<open>math.Log1p\<close> of a number of milliseconds, special values included, and the reward. The divisor
  is positive because the timeout is.
\<close>

definition log1p :: "int \<Rightarrow> float_value" where
  "log1p ms = (if ms > - 1 then Fin (ln (1 + real_of_int ms)) else if ms = - 1 then NegInf else NaN)"

definition rewardTimeoutMs :: "Config \<Rightarrow> real" where
  "rewardTimeoutMs cfg =
     (let timeoutMs = real_of_int (Milliseconds (cfg_RequestTimeout cfg))
      in if timeoutMs \<le> 0 then 120000 else timeoutMs)"

fun negDiv :: "real \<Rightarrow> float_value \<Rightarrow> float_value" where
  "negDiv denom (Fin x) = Fin (- x / denom)"
| "negDiv denom NegInf = PosInf"
| "negDiv denom PosInf = NegInf"
| "negDiv denom NaN = NaN"

definition compileReward :: "Config \<Rightarrow> bool \<Rightarrow> int \<Rightarrow> float_value" where
  "compileReward cfg success compilationTimeMs =
     (if success then negDiv (ln (1 + rewardTimeoutMs cfg)) (log1p compilationTimeMs) else Fin (- 1))"

definition taskLogRecord ::
    "compile_input \<Rightarrow> compile_ticket \<Rightarrow> Config \<Rightarrow> (string + CompileResponse) \<Rightarrow> bool \<Rightarrow> TaskLogRecord" where
  "taskLogRecord i t cfg reply success =
     (let req = ct_req t; worker = ct_worker t; caps = Capabilities worker;
          arch = (case caps of Some c \<Rightarrow> Architecture_String (NativeArch c) | None \<Rightarrow> '''')
      in \<lparr>tl_TS = in_logTime i,
          tl_Event = ''task_completed'',
          tl_TaskID = cr_TaskId req,
          tl_BuildType = ''cpp'',
          tl_Scheduler = cfg_SchedulerType cfg,
          tl_WorkerID = ID worker,
          tl_WorkerArch = arch,
          tl_WorkerNativeArch = arch,
          tl_WorkerCPUCores = (case caps of Some c \<Rightarrow> CpuCores c | None \<Rightarrow> 0),
          tl_WorkerMemBytes = (case caps of Some c \<Rightarrow> MemoryBytes c | None \<Rightarrow> 0),
          tl_WorkerActiveTasksAtDispatch = ActiveTasks worker,
          tl_WorkerMaxParallel = MaxParallel worker,
          tl_WorkerDiscoverySource = DiscoverySource worker,
          tl_TargetArch = Architecture_String (cr_TargetArch req),
          tl_ClientOS = cr_ClientOs req,
          tl_SourceSizeBytes = int (length (cr_PreprocessedSource req)) + int (length (cr_RawSource req)),
          tl_PreprocessedSizeBytes = int (length (cr_PreprocessedSource req)),
          tl_RawSourceSizeBytes = int (length (cr_RawSource req)),
          tl_QueueTimeMs = Milliseconds (time_sub (in_queue i) (in_start i)),
          tl_CompileTimeMs = (case reply of Inr resp \<Rightarrow> cs_CompilationTimeMs resp | Inl e \<Rightarrow> 0),
          tl_WorkerRPCLatencyMs = Milliseconds (time_sub (in_callEnd i) (in_callStart i)),
          tl_TotalDurationMs = Milliseconds (time_sub (in_completed i) (in_start i)),
          tl_Success = success,
          tl_ExitCode = (case reply of Inr resp \<Rightarrow> cs_ExitCode resp | Inl e \<Rightarrow> 0),
          tl_FromCache = False,
          tl_QValueAtDispatch = QValueAtDispatch (ct_info t),
          tl_WasExploration = WasExploration (ct_info t)\<rparr>)"

definition compileCompletedEvent ::
    "compile_input \<Rightarrow> compile_ticket \<Rightarrow> (string + CompileResponse) \<Rightarrow> bool \<Rightarrow> TaskEvent" where
  "compileCompletedEvent i t reply success =
     (let e = (runningEvent (cr_TaskId (ct_req t)) ''cpp'' (ID (ct_worker t)) (Unix (in_taskStart i)))
                \<lparr>ev_CompletedAt := Unix (in_completed i),
                 ev_DurationMs := Milliseconds (time_sub (in_completed i) (in_taskStart i))\<rparr>
      in (case reply of
            Inr resp \<Rightarrow>
              if success then e\<lparr>ev_Status := ''completed'', ev_ExitCode := cs_ExitCode resp\<rparr>
              else e\<lparr>ev_Status := ''failed'', ev_ExitCode := cs_ExitCode resp, ev_ErrorMessage := cs_Stderr resp\<rparr>
          | Inl err \<Rightarrow> e\<lparr>ev_Status := ''failed'', ev_ExitCode := 1, ev_ErrorMessage := err\<rparr>))"

definition compileSucceeded :: "string + CompileResponse \<Rightarrow> bool" where
  "compileSucceeded reply = (case reply of Inr resp \<Rightarrow> cs_Status resp = STATUS_COMPLETED | Inl e \<Rightarrow> False)"

definition compile_finish ::
    "('m, 'v, 'b) libs \<Rightarrow> compile_input \<Rightarrow> compile_ticket \<Rightarrow> string + CompileResponse \<Rightarrow> ('m, 'v, 'b) Server \<Rightarrow>
       CompileResponse \<times> ('m, 'v, 'b) Server" where
  "compile_finish L i t reply s =
     (let wid = ID (ct_worker t);
          success = compileSucceeded reply;
          compileTimeMs = (case reply of Inr resp \<Rightarrow> cs_CompilationTimeMs resp | Inl e \<Rightarrow> 0);
          s1 = unbookTask wid success (wrap64 (compileTimeMs * Millisecond)) s;
          s2 = (if isLearning (scheduler s1)
                then s1\<lparr>scheduler := RecordOutcome (lib_gonum L) (registry s1) wid
                          (compileReward (config s1) success compileTimeMs) (ct_ctx t) (scheduler s1)\<rparr>
                else s1);
          s3 = s2\<lparr>taskLogger := TaskLogger_Log (in_logOk i) (taskLogRecord i t (config s2) reply success) (taskLogger s2)\<rparr>;
          s4 = countOutcome success s3;
          s5 = notifyEvents [TaskCompleted (compileCompletedEvent i t reply success)] s4;
          s6 = releaseTask wid s5
      in (case reply of
            Inl err \<Rightarrow> (failedCompile (''worker error: '' @ err), s6)
          | Inr resp \<Rightarrow> (resp\<lparr>cs_QueueTimeMs := Milliseconds (time_sub (in_queue i) (in_start i))\<rparr>, s6)))"

subsection \<open>The handler\<close>

definition Compile ::
    "('m, 'v, 'b) libs \<Rightarrow> compile_input \<Rightarrow> CompileRequest \<Rightarrow> ('m, 'v, 'b) Server \<Rightarrow>
       (rpc_status, CompileResponse) outcome \<times> ('m, 'v, 'b) Server" where
  "Compile L i req s =
     (case compile_select L (in_sched i) req s of
        (Err e, s1) \<Rightarrow> (Err e, s1)
      | (Panic, s1) \<Rightarrow> (Panic, s1)
      | (Ok (Inl resp), s1) \<Rightarrow> (Ok resp, s1)
      | (Ok (Inr t), s1) \<Rightarrow>
          let s2 = compile_dispatch i t s1;
              (reply, s3) = forwardCompile i (ct_worker t) s2;
              (resp, s4) = compile_finish L i t reply s3
          in (Ok resp, s4))"


subsection \<open>Properties\<close>

lemma rewardTimeoutMs_pos: "rewardTimeoutMs cfg > 0"
  by (simp add: rewardTimeoutMs_def Let_def)

text \<open>
  The reward of a compilation lies in \<open>[-1, 0]\<close> when it took at most the request timeout, is
  higher the faster it was, and is the failure's \<open>-1\<close> only at the timeout itself.
\<close>

theorem compileReward_ordered:
  assumes "0 \<le> ms" and "ms < ms'" and "real_of_int ms' \<le> rewardTimeoutMs cfg"
  shows "\<exists>x x'. compileReward cfg True ms = Fin x \<and> compileReward cfg True ms' = Fin x' \<and>
    - 1 \<le> x' \<and> x' < x \<and> x \<le> 0 \<and> compileReward cfg False ms = Fin (- 1)"
proof -
  let ?d = "ln (1 + rewardTimeoutMs cfg)"
  have d: "?d > 0" using rewardTimeoutMs_pos[of cfg] by (intro ln_gt_zero) simp
  have "ln (1 + real_of_int ms) < ln (1 + real_of_int ms')" "0 \<le> ln (1 + real_of_int ms)"
    "ln (1 + real_of_int ms') \<le> ?d"
    using assms by simp_all
  with d have "- 1 \<le> - ln (1 + real_of_int ms') / ?d" "- ln (1 + real_of_int ms') / ?d < - ln (1 + real_of_int ms) / ?d"
    "- ln (1 + real_of_int ms) / ?d \<le> 0"
    by (simp_all add: divide_strict_right_mono)
  then show ?thesis
    using assms by (simp add: compileReward_def log1p_def)
qed

lemma compileReward_ordered_witness:
  "\<exists>x x'. compileReward DefaultConfig True 10 = Fin x \<and> compileReward DefaultConfig True 20 = Fin x' \<and> x' < x"
  using compileReward_ordered[of 10 20 DefaultConfig]
  by (auto simp: rewardTimeoutMs_def DefaultConfig_def Milliseconds_def Second_def Millisecond_def)

end
