(* ===== verification/Build.thy ===== *)
theory Build
  imports Compile
begin

text \<open>
  The handler \<^verbatim>\<open>Build\<close> of \<^verbatim>\<open>internal/coordinator/server/grpc.go\<close> with its two in-memory
  artifact caches. \<^verbatim>\<open>handleFlutterBuild\<close> and \<^verbatim>\<open>handleUnityBuild\<close> are the same text up to the names
  of the cache, the counters and the worker selection; here they are the two instances of
  definitions over a \<open>build_kind\<close>. As in \<^verbatim>\<open>Compile\<close>, the phases are separate:
  \<open>build_begin\<close> (cache, queue counter, choice of a worker), \<open>build_connect\<close>,
  \<open>build_dispatch\<close> and \<open>build_finish\<close>.
\<close>

datatype build_kind = FlutterKind | UnityKind

record build_input =
  bi_keyOrder :: "string list"
  bi_order :: "string list"
  bi_now :: int
  bi_start :: int
  bi_answered :: int
  bi_taskStart :: int
  bi_completed :: int
  bi_dial :: "string option"
  bi_reply :: "BuildRequest \<Rightarrow> string + BuildResponse"

record build_ticket =
  bt_req :: BuildRequest
  bt_key :: string
  bt_worker :: WorkerInfo

subsection \<open>The artifact caches\<close>

definition cloneArtifactList :: "ArtifactInfo list \<Rightarrow> ArtifactInfo list" where
  "cloneArtifactList xs =
     map (\<lambda>a. \<lparr>ai_Name = ai_Name a, ai_Path = ai_Path a, ai_SizeBytes = ai_SizeBytes a, ai_Checksum = ai_Checksum a\<rparr>) xs"

definition cacheEntry :: "BuildResponse \<Rightarrow> flutterCacheEntry" where
  "cacheEntry resp =
     \<lparr>ce_artifacts = bs_Artifacts resp, ce_artifactList = cloneArtifactList (bs_ArtifactList resp),
      ce_stdout = bs_Stdout resp, ce_stderr = bs_Stderr resp, ce_buildTimeMs = bs_BuildTimeMs resp\<rparr>"

definition getFlutterCache :: "string \<Rightarrow> ('m, 'v, 'b) Server \<Rightarrow> flutterCacheEntry option" where
  "getFlutterCache key s = fmlookup (flutterCache s) key"

definition setFlutterCache :: "string \<Rightarrow> BuildResponse \<Rightarrow> ('m, 'v, 'b) Server \<Rightarrow> ('m, 'v, 'b) Server" where
  "setFlutterCache key resp s = s\<lparr>flutterCache := fmupd key (cacheEntry resp) (flutterCache s)\<rparr>"

definition getUnityCache :: "string \<Rightarrow> ('m, 'v, 'b) Server \<Rightarrow> unityCacheEntry option" where
  "getUnityCache key s = fmlookup (unityCache s) key"

definition setUnityCache :: "string \<Rightarrow> BuildResponse \<Rightarrow> ('m, 'v, 'b) Server \<Rightarrow> ('m, 'v, 'b) Server" where
  "setUnityCache key resp s = s\<lparr>unityCache := fmupd key (cacheEntry resp) (unityCache s)\<rparr>"

subsection \<open>Choosing a worker\<close>

definition workerSupportsFlutterPlatform :: "WorkerInfo option \<Rightarrow> TargetPlatform \<Rightarrow> bool" where
  "workerSupportsFlutterPlatform worker platform =
     (case worker of
        None \<Rightarrow> False
      | Some w \<Rightarrow>
          (case Capabilities w of
             None \<Rightarrow> False
           | Some c \<Rightarrow>
               (case Flutter c of
                  None \<Rightarrow> False
                | Some f \<Rightarrow> length (fl_Platforms f) = 0 \<or> platform \<in> set (fl_Platforms f))))"

definition workerSupportsUnityPlatform :: "WorkerInfo option \<Rightarrow> TargetPlatform \<Rightarrow> bool" where
  "workerSupportsUnityPlatform worker platform =
     (case worker of
        None \<Rightarrow> False
      | Some w \<Rightarrow>
          (case Capabilities w of
             None \<Rightarrow> False
           | Some c \<Rightarrow>
               (case Unity c of
                  None \<Rightarrow> False
                | Some u \<Rightarrow> length (un_BuildTargets u) = 0 \<or> platform \<in> set (un_BuildTargets u))))"

text \<open>\<^verbatim>\<open>for _, w := range workers { if supports(w) { if w.IsHealthy(ttl) { return w } } }\<close>\<close>

definition selectFlutterWorker ::
    "int \<Rightarrow> string list \<Rightarrow> TargetPlatform \<Rightarrow> ('m, 'v, 'b) Server \<Rightarrow> string + WorkerInfo" where
  "selectFlutterWorker now ord platform s =
     (case find (\<lambda>w. workerSupportsFlutterPlatform (Some w) platform \<and> IsHealthy now (cfg_HeartbeatTTL (config s)) w)
             (ListWorkers ord (registry s)) of
        Some w \<Rightarrow> Inr w
      | None \<Rightarrow> Inl (''no flutter worker available for platform '' @ TargetPlatform_String platform))"

definition selectUnityWorker ::
    "int \<Rightarrow> string list \<Rightarrow> TargetPlatform \<Rightarrow> ('m, 'v, 'b) Server \<Rightarrow> string + WorkerInfo" where
  "selectUnityWorker now ord platform s =
     (case find (\<lambda>w. workerSupportsUnityPlatform (Some w) platform \<and> IsHealthy now (cfg_HeartbeatTTL (config s)) w)
             (ListWorkers ord (registry s)) of
        Some w \<Rightarrow> Inr w
      | None \<Rightarrow> Inl (''no unity worker available for platform '' @ TargetPlatform_String platform))"

subsection \<open>The two kinds\<close>

fun kindName :: "build_kind \<Rightarrow> string" where
  "kindName FlutterKind = ''flutter''"
| "kindName UnityKind = ''unity''"

fun getCache :: "build_kind \<Rightarrow> string \<Rightarrow> ('m, 'v, 'b) Server \<Rightarrow> flutterCacheEntry option" where
  "getCache FlutterKind = getFlutterCache"
| "getCache UnityKind = getUnityCache"

fun setCache :: "build_kind \<Rightarrow> string \<Rightarrow> BuildResponse \<Rightarrow> ('m, 'v, 'b) Server \<Rightarrow> ('m, 'v, 'b) Server" where
  "setCache FlutterKind = setFlutterCache"
| "setCache UnityKind = setUnityCache"

fun selectBuildWorker ::
    "build_kind \<Rightarrow> int \<Rightarrow> string list \<Rightarrow> TargetPlatform \<Rightarrow> ('m, 'v, 'b) Server \<Rightarrow> string + WorkerInfo" where
  "selectBuildWorker FlutterKind = selectFlutterWorker"
| "selectBuildWorker UnityKind = selectUnityWorker"

fun countCacheHit :: "build_kind \<Rightarrow> ('m, 'v, 'b) Server \<Rightarrow> ('m, 'v, 'b) Server" where
  "countCacheHit FlutterKind s =
     s\<lparr>cacheHits := wrap64 (cacheHits s + 1), flutterCacheHits := wrap64 (flutterCacheHits s + 1)\<rparr>"
| "countCacheHit UnityKind s =
     s\<lparr>cacheHits := wrap64 (cacheHits s + 1), unityCacheHits := wrap64 (unityCacheHits s + 1)\<rparr>"

fun countCacheMiss :: "build_kind \<Rightarrow> ('m, 'v, 'b) Server \<Rightarrow> ('m, 'v, 'b) Server" where
  "countCacheMiss FlutterKind s =
     s\<lparr>cacheMisses := wrap64 (cacheMisses s + 1), flutterCacheMisses := wrap64 (flutterCacheMisses s + 1)\<rparr>"
| "countCacheMiss UnityKind s =
     s\<lparr>cacheMisses := wrap64 (cacheMisses s + 1), unityCacheMisses := wrap64 (unityCacheMisses s + 1)\<rparr>"

fun countBuild :: "build_kind \<Rightarrow> ('m, 'v, 'b) Server \<Rightarrow> ('m, 'v, 'b) Server" where
  "countBuild FlutterKind s = s\<lparr>flutterBuilds := wrap64 (flutterBuilds s + 1)\<rparr>"
| "countBuild UnityKind s = s\<lparr>unityBuilds := wrap64 (unityBuilds s + 1)\<rparr>"

definition flutterConfigOf :: "BuildRequest \<Rightarrow> FlutterConfig option" where
  "flutterConfigOf req = (case br_Config req of FlutterConfig c \<Rightarrow> Some c | _ \<Rightarrow> None)"

definition unityConfigOf :: "BuildRequest \<Rightarrow> UnityConfig option" where
  "unityConfigOf req = (case br_Config req of UnityConfig c \<Rightarrow> Some c | _ \<Rightarrow> None)"

text \<open>The getters of a nil configuration return the empty string.\<close>

fun buildCacheKey :: "build_kind \<Rightarrow> (bytes \<Rightarrow> 64 word) \<Rightarrow> string list \<Rightarrow> BuildRequest \<Rightarrow> string" where
  "buildCacheKey FlutterKind H ord req =
     FlutterCacheKey H ord (flutterConfigOf req) (br_SourceHash req)
       (case flutterConfigOf req of Some c \<Rightarrow> fc_FlutterVersion c | None \<Rightarrow> '''')"
| "buildCacheKey UnityKind H ord req =
     UnityCacheKey H ord (unityConfigOf req) (br_SourceHash req)
       (case unityConfigOf req of Some c \<Rightarrow> uc_UnityVersion c | None \<Rightarrow> '''') (br_TargetPlatform req)"

definition failedBuild :: "string \<Rightarrow> BuildResponse" where
  "failedBuild msg = emptyBuildResponse\<lparr>bs_Status := STATUS_FAILED, bs_ExitCode := 1, bs_Stderr := msg\<rparr>"

subsection \<open>The phases\<close>

definition cachedResponse :: "flutterCacheEntry \<Rightarrow> BuildResponse" where
  "cachedResponse cached =
     emptyBuildResponse\<lparr>bs_Status := STATUS_COMPLETED, bs_ExitCode := 0,
       bs_Stdout := ce_stdout cached, bs_Stderr := ce_stderr cached,
       bs_Artifacts := ce_artifacts cached, bs_ArtifactList := cloneArtifactList (ce_artifactList cached),
       bs_BuildTimeMs := ce_buildTimeMs cached, bs_FromCache := True\<rparr>"

text \<open>The pair of events of a build that is answered without a worker.\<close>

definition instantEvents ::
    "build_kind \<Rightarrow> build_input \<Rightarrow> string \<Rightarrow> string \<Rightarrow> int \<Rightarrow> int \<Rightarrow> bool \<Rightarrow> string \<Rightarrow> notification list" where
  "instantEvents k i tid st duration exitCode fromCache msg =
     (let e = runningEvent tid (kindName k) '''' (Unix (bi_start i))
      in [TaskStarted e,
          TaskCompleted (e\<lparr>ev_Status := st, ev_CompletedAt := Unix (bi_answered i), ev_DurationMs := duration,
            ev_ExitCode := exitCode, ev_FromCache := fromCache, ev_ErrorMessage := msg\<rparr>)])"

definition countInstant :: "bool \<Rightarrow> ('m, 'v, 'b) Server \<Rightarrow> ('m, 'v, 'b) Server" where
  "countInstant success s = countOutcome success (s\<lparr>totalTasks := wrap64 (totalTasks s + 1)\<rparr>)"

definition leaveQueue :: "('m, 'v, 'b) Server \<Rightarrow> ('m, 'v, 'b) Server" where
  "leaveQueue s = s\<lparr>queuedTasks := wrap64 (queuedTasks s - 1)\<rparr>"

definition build_begin ::
    "build_kind \<Rightarrow> ('m, 'v, 'b) libs \<Rightarrow> build_input \<Rightarrow> BuildRequest \<Rightarrow> ('m, 'v, 'b) Server \<Rightarrow>
       (BuildResponse + build_ticket) \<times> ('m, 'v, 'b) Server" where
  "build_begin k L i req s =
     (let cacheKey = buildCacheKey k (lib_hash L) (bi_keyOrder i) req
      in case getCache k cacheKey s of
           Some cached \<Rightarrow>
             (Inl (cachedResponse cached),
              notifyEvents
                (instantEvents k i (br_TaskId req) ''completed'' (ce_buildTimeMs cached) 0 True '''')
                (countInstant True (countBuild k (countCacheHit k s))))
         | None \<Rightarrow>
             let s1 = countCacheMiss k s;
                 s2 = s1\<lparr>queuedTasks := wrap64 (queuedTasks s1 + 1)\<rparr>
             in (case selectBuildWorker k (bi_now i) (bi_order i) (br_TargetPlatform req) s2 of
                   Inr worker \<Rightarrow> (Inr \<lparr>bt_req = req, bt_key = cacheKey, bt_worker = worker\<rparr>, s2)
                 | Inl err \<Rightarrow>
                     (Inl (failedBuild (''no worker available: '' @ err)),
                      leaveQueue (notifyEvents
                        (instantEvents k i (br_TaskId req) ''failed'' 0 1 False (''no worker available: '' @ err))
                        (countInstant False s2)))))"

definition build_connect ::
    "build_input \<Rightarrow> build_ticket \<Rightarrow> ('m, 'v, 'b) Server \<Rightarrow> BuildResponse option \<times> ('m, 'v, 'b) Server" where
  "build_connect i t s =
     (case connPool_get (bi_dial i) (Address (bt_worker t)) (workerConns s) of
        (Inl e, p) \<Rightarrow> (Some (failedBuild (''failed to connect to worker: '' @ e)), leaveQueue (s\<lparr>workerConns := p\<rparr>))
      | (Inr conn, p) \<Rightarrow> (None, s\<lparr>workerConns := p\<rparr>))"

definition build_dispatch ::
    "build_kind \<Rightarrow> build_input \<Rightarrow> build_ticket \<Rightarrow> ('m, 'v, 'b) Server \<Rightarrow> ('m, 'v, 'b) Server" where
  "build_dispatch k i t s =
     notifyEvents
       [TaskStarted (runningEvent (br_TaskId (bt_req t)) (kindName k) (ID (bt_worker t)) (Unix (bi_taskStart i)))]
       (countBuild k (bookTask (ID (bt_worker t)) s))"

text \<open>The request sent to the worker carries neither the Docker image nor the priority.\<close>

definition forwardedBuild :: "BuildRequest \<Rightarrow> BuildRequest" where
  "forwardedBuild req =
     \<lparr>br_TaskId = br_TaskId req, br_SourceHash = br_SourceHash req, br_BuildType = br_BuildType req,
      br_TargetPlatform = br_TargetPlatform req, br_SourceArchive = br_SourceArchive req,
      br_Config = br_Config req, br_DockerImage = '''', br_TimeoutSeconds = br_TimeoutSeconds req,
      br_Priority = 0\<rparr>"

definition buildSucceeded :: "string + BuildResponse \<Rightarrow> bool" where
  "buildSucceeded reply = (case reply of Inr resp \<Rightarrow> bs_Status resp = STATUS_COMPLETED | Inl e \<Rightarrow> False)"

definition buildCompletedEvent ::
    "build_kind \<Rightarrow> build_input \<Rightarrow> build_ticket \<Rightarrow> string + BuildResponse \<Rightarrow> bool \<Rightarrow> TaskEvent" where
  "buildCompletedEvent k i t reply success =
     (let e = (runningEvent (br_TaskId (bt_req t)) (kindName k) (ID (bt_worker t)) (Unix (bi_taskStart i)))
                \<lparr>ev_CompletedAt := Unix (bi_completed i),
                 ev_DurationMs := Milliseconds (time_sub (bi_completed i) (bi_taskStart i))\<rparr>
      in (case reply of
            Inr resp \<Rightarrow>
              if success then e\<lparr>ev_Status := ''completed'', ev_ExitCode := bs_ExitCode resp\<rparr>
              else e\<lparr>ev_Status := ''failed'', ev_ExitCode := bs_ExitCode resp, ev_ErrorMessage := bs_Stderr resp\<rparr>
          | Inl err \<Rightarrow> e\<lparr>ev_Status := ''failed'', ev_ExitCode := 1, ev_ErrorMessage := err\<rparr>))"

definition build_finish ::
    "build_kind \<Rightarrow> build_input \<Rightarrow> build_ticket \<Rightarrow> string + BuildResponse \<Rightarrow> ('m, 'v, 'b) Server \<Rightarrow>
       BuildResponse \<times> ('m, 'v, 'b) Server" where
  "build_finish k i t reply s =
     (let wid = ID (bt_worker t);
          success = buildSucceeded reply;
          s1 = unbookTask wid success 0 s;
          s2 = countOutcome success s1;
          s3 = notifyEvents [TaskCompleted (buildCompletedEvent k i t reply success)] s2
      in (case reply of
            Inl err \<Rightarrow> (failedBuild (''worker error: '' @ err), releaseTask wid s3)
          | Inr resp \<Rightarrow>
              (resp, releaseTask wid
                 (if length (bs_Artifacts resp) > 0 then setCache k (bt_key t) resp s3 else s3))))"

subsection \<open>The handlers\<close>

definition handleBuild ::
    "build_kind \<Rightarrow> ('m, 'v, 'b) libs \<Rightarrow> build_input \<Rightarrow> BuildRequest \<Rightarrow> ('m, 'v, 'b) Server \<Rightarrow>
       BuildResponse \<times> ('m, 'v, 'b) Server" where
  "handleBuild k L i req s =
     (case build_begin k L i req s of
        (Inl resp, s1) \<Rightarrow> (resp, s1)
      | (Inr t, s1) \<Rightarrow>
          (case build_connect i t s1 of
             (Some resp, s2) \<Rightarrow> (resp, s2)
           | (None, s2) \<Rightarrow> build_finish k i t (bi_reply i (forwardedBuild req)) (build_dispatch k i t s2)))"

definition handleFlutterBuild ::
    "('m, 'v, 'b) libs \<Rightarrow> build_input \<Rightarrow> BuildRequest \<Rightarrow> ('m, 'v, 'b) Server \<Rightarrow> BuildResponse \<times> ('m, 'v, 'b) Server" where
  "handleFlutterBuild = handleBuild FlutterKind"

definition handleUnityBuild ::
    "('m, 'v, 'b) libs \<Rightarrow> build_input \<Rightarrow> BuildRequest \<Rightarrow> ('m, 'v, 'b) Server \<Rightarrow> BuildResponse \<times> ('m, 'v, 'b) Server" where
  "handleUnityBuild = handleBuild UnityKind"

definition Build ::
    "('m, 'v, 'b) libs \<Rightarrow> build_input \<Rightarrow> BuildRequest \<Rightarrow> ('m, 'v, 'b) Server \<Rightarrow>
       (rpc_status, BuildResponse) outcome \<times> ('m, 'v, 'b) Server" where
  "Build L i req s =
     (if br_TaskId req = '''' then (Err (InvalidArgument ''task_id required''), s)
      else if flutterConfigOf req \<noteq> None then
        (case handleFlutterBuild L i req s of (resp, s') \<Rightarrow> (Ok resp, s'))
      else if unityConfigOf req \<noteq> None then
        (case handleUnityBuild L i req s of (resp, s') \<Rightarrow> (Ok resp, s'))
      else (Ok (failedBuild ''build type not implemented yet''), s))"


subsection \<open>Properties\<close>

fun supportsPlatform :: "build_kind \<Rightarrow> WorkerInfo option \<Rightarrow> TargetPlatform \<Rightarrow> bool" where
  "supportsPlatform FlutterKind = workerSupportsFlutterPlatform"
| "supportsPlatform UnityKind = workerSupportsUnityPlatform"

lemma selectBuildWorker_find:
  "selectBuildWorker k now ord platform s =
     (case find (\<lambda>w. supportsPlatform k (Some w) platform \<and> IsHealthy now (cfg_HeartbeatTTL (config s)) w)
             (ListWorkers ord (registry s)) of
        Some w \<Rightarrow> Inr w
      | None \<Rightarrow> Inl (''no '' @ kindName k @ '' worker available for platform '' @ TargetPlatform_String platform))"
  by (cases k) (simp_all add: selectFlutterWorker_def selectUnityWorker_def split: option.split)

text \<open>
  A Flutter or Unity build gets a worker if and only if some registered worker is healthy and
  supports the target platform, and the worker it gets is such a one. Its load and its task limit
  play no part.
\<close>

theorem selectBuildWorker_exact:
  assumes "iter_order (workers (registry s)) ord" and "registry_inv (registry s)"
  shows "(\<forall>w. selectBuildWorker k now ord platform s = Inr w \<longrightarrow>
            Get (ID w) (registry s) = Some w \<and> supportsPlatform k (Some w) platform \<and>
            IsHealthy now (cfg_HeartbeatTTL (config s)) w)
    \<and> ((\<exists>w. selectBuildWorker k now ord platform s = Inr w) \<longleftrightarrow>
         (\<exists>wid w. Get wid (registry s) = Some w \<and> supportsPlatform k (Some w) platform \<and>
            IsHealthy now (cfg_HeartbeatTTL (config s)) w))"
proof -
  have mem: "w \<in> set (ListWorkers ord (registry s)) \<longleftrightarrow> (\<exists>wid. Get wid (registry s) = Some w)" for w
    using range_vals_mem[OF assms(1)] by (simp add: ListWorkers_def Get_def)
  have own: "Get (ID w) (registry s) = Some w" if "Get wid (registry s) = Some w" for wid w
    using assms(2) that by (auto simp: registry_inv_def worker_inv_def Get_def)
  show ?thesis
    unfolding selectBuildWorker_find
    by (auto simp: find_Some_iff find_None_iff mem dest: own nth_mem split: option.splits)
      (metis mem own nth_mem)+
qed

lemma selectBuildWorker_exact_witness:
  "\<nexists>w. selectBuildWorker FlutterKind 0 [] PLATFORM_IOS (Server_New False DefaultConfig :: (unit, unit, unit) Server) = Inr w"
  using selectBuildWorker_exact[of "Server_New False DefaultConfig :: (unit, unit, unit) Server" "[]" FlutterKind 0 PLATFORM_IOS]
  by (auto simp: Server_New_def NewInMemoryRegistry_def iter_order_def registry_inv_def Get_def)

lemma getCache_setCache: "getCache k key (setCache k key resp s) = Some (cacheEntry resp)"
  by (cases k) (simp_all add: getFlutterCache_def getUnityCache_def setFlutterCache_def setUnityCache_def)

lemma getCache_release [simp]: "getCache k key (releaseTask wid s) = getCache k key s"
  by (cases k) (simp_all add: getFlutterCache_def getUnityCache_def releaseTask_def)

lemma build_finish_caches:
  assumes "bs_Artifacts resp \<noteq> []"
  shows "getCache k (bt_key t) (snd (build_finish k i t (Inr resp) s)) = Some (cacheEntry resp)"
  using assms by (simp add: build_finish_def Let_def getCache_setCache)

lemma handleBuild_hit:
  assumes "getCache k (buildCacheKey k (lib_hash L) (bi_keyOrder j) req) s = Some e"
  shows "fst (handleBuild k L j req s) = cachedResponse e \<and> registry (snd (handleBuild k L j req s)) = registry s"
proof -
  have "registry (countBuild k (countCacheHit k s)) = registry s" by (cases k) simp_all
  with assms show ?thesis
    by (simp add: handleBuild_def build_begin_def Let_def notifyEvents_def countInstant_def countOutcome_def)
qed

text \<open>
  The artifact cache answers. Once a worker has returned artifacts, a request with the same
  cache key is answered with these artifacts and their list, marked as coming from the cache and
  completed with exit code 0, and no worker is involved. This holds whatever status the
  worker had reported: a failed build that left artifacts is served as a completed one.
\<close>

theorem build_cache_serves:
  assumes "bs_Artifacts resp \<noteq> []" and "buildCacheKey k (lib_hash L) (bi_keyOrder j) req = bt_key t"
  shows "(let s' = snd (build_finish k i t (Inr resp) s);
              (r, s'') = handleBuild k L j req s'
          in bs_Status r = STATUS_COMPLETED \<and> bs_ExitCode r = 0 \<and> bs_FromCache r \<and>
             bs_Artifacts r = bs_Artifacts resp \<and> bs_ArtifactList r = bs_ArtifactList resp \<and>
             bs_Stdout r = bs_Stdout resp \<and> registry s'' = registry s')"
proof -
  have "cloneArtifactList xs = xs" for xs by (induction xs) (simp_all add: cloneArtifactList_def)
  with build_finish_caches[OF assms(1), of k t i s] show ?thesis
    using handleBuild_hit[of k L j req "snd (build_finish k i t (Inr resp) s)" "cacheEntry resp"] assms(2)
    by (simp add: Let_def case_prod_beta cachedResponse_def cacheEntry_def)
qed

definition sampleBuild :: "TargetPlatform \<Rightarrow> BuildRequest" where
  "sampleBuild p =
     \<lparr>br_TaskId = ''t'', br_SourceHash = ''h'', br_BuildType = BUILD_TYPE_FLUTTER, br_TargetPlatform = p,
      br_SourceArchive = [], br_Config = FlutterConfig (sampleFlutter ''release''), br_DockerImage = '''',
      br_TimeoutSeconds = 60, br_Priority = 0\<rparr>"

definition sampleInput :: build_input where
  "sampleInput =
     \<lparr>bi_keyOrder = [''A'', ''B''], bi_order = [], bi_now = 0, bi_start = 0, bi_answered = 0, bi_taskStart = 0,
      bi_completed = 0, bi_dial = None, bi_reply = (\<lambda>_. Inl ''lost'')\<rparr>"

definition sampleTicket :: "TargetPlatform \<Rightarrow> (bytes \<Rightarrow> 64 word) \<Rightarrow> build_ticket" where
  "sampleTicket p H =
     \<lparr>bt_req = sampleBuild p, bt_key = buildCacheKey FlutterKind H (bi_keyOrder sampleInput) (sampleBuild p),
      bt_worker = sampleWorker ''w''\<rparr>"

definition sampleLibs :: "((nat \<times> nat) \<times> (nat \<Rightarrow> nat \<Rightarrow> real), nat \<times> (nat \<Rightarrow> real), unit) libs" where
  "sampleLibs =
     \<lparr>lib_gonum = tableGonum,
      lib_breaker = \<lparr>NewCircuitBreaker = (\<lambda>_. ()), gb_Execute = (\<lambda>_ r b. (r, b, [])), gb_State = (\<lambda>_ b. (StateClosed, b, []))\<rparr>,
      lib_hash = (\<lambda>b. of_nat (length b))\<rparr>"

type_synonym sample_server = "((nat \<times> nat) \<times> (nat \<Rightarrow> nat \<Rightarrow> real), nat \<times> (nat \<Rightarrow> real), unit) Server"

definition sampleServer :: sample_server where
  "sampleServer = Server_New False DefaultConfig"

lemma build_cache_serves_witness:
  "bs_Status (fst (handleBuild FlutterKind sampleLibs sampleInput (sampleBuild PLATFORM_IOS)
     (snd (build_finish FlutterKind sampleInput (sampleTicket PLATFORM_IOS (lib_hash sampleLibs))
       (Inr (emptyBuildResponse\<lparr>bs_Status := STATUS_FAILED, bs_Artifacts := ''x''\<rparr>)) sampleServer)))) = STATUS_COMPLETED"
  using build_cache_serves[of "emptyBuildResponse\<lparr>bs_Status := STATUS_FAILED, bs_Artifacts := ''x''\<rparr>" FlutterKind
      sampleLibs sampleInput "sampleBuild PLATFORM_IOS" "sampleTicket PLATFORM_IOS (lib_hash sampleLibs)" sampleInput sampleServer]
  by (simp add: Let_def case_prod_beta sampleTicket_def)

text \<open>
  Finding: the Flutter cache key leaves out the target platform. After a build for one platform
  a request for any other platform, equal otherwise, is answered with the artifacts of the
  first.
\<close>

theorem flutter_cache_ignores_platform:
  assumes "bs_Artifacts resp \<noteq> []"
  shows "bs_Artifacts (fst (handleFlutterBuild L j (req\<lparr>br_TargetPlatform := platform\<rparr>)
    (snd (build_finish FlutterKind i
       \<lparr>bt_req = req, bt_key = buildCacheKey FlutterKind (lib_hash L) (bi_keyOrder j) req, bt_worker = w\<rparr>
       (Inr resp) s)))) = bs_Artifacts resp"
proof -
  let ?t = "\<lparr>bt_req = req, bt_key = buildCacheKey FlutterKind (lib_hash L) (bi_keyOrder j) req, bt_worker = w\<rparr>"
  have key: "buildCacheKey FlutterKind H ord (req\<lparr>br_TargetPlatform := platform\<rparr>) = buildCacheKey FlutterKind H ord req"
    for H ord by (simp add: flutterConfigOf_def)
  have "getCache FlutterKind (buildCacheKey FlutterKind (lib_hash L) (bi_keyOrder j) (req\<lparr>br_TargetPlatform := platform\<rparr>))
      (snd (build_finish FlutterKind i ?t (Inr resp) s)) = Some (cacheEntry resp)"
    using build_finish_caches[OF assms, of FlutterKind ?t i s] unfolding key by simp
  from handleBuild_hit[OF this] show ?thesis
    by (simp add: handleFlutterBuild_def cachedResponse_def cacheEntry_def)
qed

lemma flutter_cache_ignores_platform_witness:
  "bs_Artifacts (fst (handleFlutterBuild sampleLibs sampleInput ((sampleBuild PLATFORM_ANDROID)\<lparr>br_TargetPlatform := PLATFORM_IOS\<rparr>)
     (snd (build_finish FlutterKind sampleInput (sampleTicket PLATFORM_ANDROID (lib_hash sampleLibs))
       (Inr (emptyBuildResponse\<lparr>bs_Artifacts := ''apk''\<rparr>)) sampleServer)))) = ''apk''"
  using flutter_cache_ignores_platform[of "emptyBuildResponse\<lparr>bs_Artifacts := ''apk''\<rparr>" sampleLibs sampleInput
      PLATFORM_IOS "sampleBuild PLATFORM_ANDROID" sampleInput "sampleWorker ''w''" sampleServer]
  by (simp add: sampleTicket_def)

end
