(* ===== verification/Server_Stats.thy ===== *)
theory Server_Stats
  imports Server
begin

text \<open>
  The dashboard's view of the coordinator, \<^verbatim>\<open>internal/coordinator/server/stats.go\<close>: the
  aggregated counters with their hit rates, and the list of workers with what they can build.
  The result types are those of \<^verbatim>\<open>internal/observability/dashboard/api.go\<close>. A nil and an empty slice
  are both the empty list.
\<close>

record statsProvider =
  startTime :: int

record DashboardStats =
  ds_TotalTasks :: int
  ds_SuccessTasks :: int
  ds_FailedTasks :: int
  ds_ActiveTasks :: int
  ds_QueuedTasks :: int
  ds_CacheHits :: int
  ds_CacheMisses :: int
  ds_CacheHitRate :: real
  ds_FlutterBuilds :: int
  ds_FlutterCacheHits :: int
  ds_FlutterCacheMisses :: int
  ds_FlutterCacheHitRate :: real
  ds_UnityBuilds :: int
  ds_UnityCacheHits :: int
  ds_UnityCacheMisses :: int
  ds_UnityCacheHitRate :: real
  ds_TotalWorkers :: nat
  ds_HealthyWorkers :: nat
  ds_UptimeSeconds :: int
  ds_Timestamp :: int

definition NewStatsProvider :: "int \<Rightarrow> statsProvider" where
  "NewStatsProvider now = \<lparr>startTime = now\<rparr>"

definition hitRate :: "int \<Rightarrow> int \<Rightarrow> real" where
  "hitRate hits misses =
     (let total = wrap64 (hits + misses)
      in if total > 0 then real_of_int hits / real_of_int total else 0)"

definition GetStats :: "int \<Rightarrow> string list \<Rightarrow> statsProvider \<Rightarrow> ('m, 'v, 'b) Server \<Rightarrow> DashboardStats" where
  "GetStats now ord p s =
     (let ws = ListWorkers ord (registry s)
      in \<lparr>ds_TotalTasks = totalTasks s,
          ds_SuccessTasks = successTasks s,
          ds_FailedTasks = failedTasks s,
          ds_ActiveTasks = activeTasks s,
          ds_QueuedTasks = queuedTasks s,
          ds_CacheHits = cacheHits s,
          ds_CacheMisses = cacheMisses s,
          ds_CacheHitRate = hitRate (cacheHits s) (cacheMisses s),
          ds_FlutterBuilds = flutterBuilds s,
          ds_FlutterCacheHits = flutterCacheHits s,
          ds_FlutterCacheMisses = flutterCacheMisses s,
          ds_FlutterCacheHitRate = hitRate (flutterCacheHits s) (flutterCacheMisses s),
          ds_UnityBuilds = unityBuilds s,
          ds_UnityCacheHits = unityCacheHits s,
          ds_UnityCacheMisses = unityCacheMisses s,
          ds_UnityCacheHitRate = hitRate (unityCacheHits s) (unityCacheMisses s),
          ds_TotalWorkers = length ws,
          ds_HealthyWorkers = length (filter (IsHealthy now (cfg_HeartbeatTTL (config s))) ws),
          ds_UptimeSeconds = time_sub now (startTime p) sdiv Second,
          ds_Timestamp = Unix now\<rparr>)"

subsection \<open>What a worker can build\<close>

fun addUnique :: "string list \<Rightarrow> string list \<Rightarrow> string list" where
  "addUnique [] acc = acc"
| "addUnique (v # vs) acc = addUnique vs (if v = '''' \<or> v \<in> set acc then acc else acc @ [v])"

definition supportedArchitectures :: "WorkerCapabilities \<Rightarrow> string list" where
  "supportedArchitectures caps =
     addUnique (Architecture_String (NativeArch caps) #
                (case Cpp caps of None \<Rightarrow> [] | Some c \<Rightarrow> cpp_MsvcArchitectures c)) []"

definition supportedBuildTypes :: "WorkerCapabilities \<Rightarrow> string list" where
  "supportedBuildTypes caps =
     (if Cpp caps \<noteq> None then [BuildType_String BUILD_TYPE_CPP] else []) @
     (if Flutter caps \<noteq> None then [BuildType_String BUILD_TYPE_FLUTTER] else []) @
     (if Unity caps \<noteq> None then [BuildType_String BUILD_TYPE_UNITY] else []) @
     (if Rust caps \<noteq> None then [BuildType_String BUILD_TYPE_RUST] else []) @
     (if Go caps \<noteq> None then [BuildType_String BUILD_TYPE_GO] else []) @
     (if Nodejs caps \<noteq> None then [BuildType_String BUILD_TYPE_NODEJS] else [])"

definition flutterSDKVersion :: "WorkerCapabilities \<Rightarrow> string" where
  "flutterSDKVersion caps = (case Flutter caps of Some f \<Rightarrow> fl_SdkVersion f | None \<Rightarrow> '''')"

definition flutterPlatforms :: "WorkerCapabilities \<Rightarrow> string list" where
  "flutterPlatforms caps =
     (case Flutter caps of Some f \<Rightarrow> map TargetPlatform_String (fl_Platforms f) | None \<Rightarrow> [])"

definition unityVersions :: "WorkerCapabilities \<Rightarrow> string list" where
  "unityVersions caps = (case Unity caps of Some u \<Rightarrow> un_Versions u | None \<Rightarrow> [])"

definition unityPlatforms :: "WorkerCapabilities \<Rightarrow> string list" where
  "unityPlatforms caps =
     (case Unity caps of Some u \<Rightarrow> map TargetPlatform_String (un_BuildTargets u) | None \<Rightarrow> [])"

subsection \<open>The list of workers\<close>

record DashboardWorkerInfo =
  dw_ID :: string
  dw_Host :: string
  dw_Address :: string
  dw_OS :: string
  dw_Architecture :: string
  dw_Architectures :: "string list"
  dw_CPUCores :: int
  dw_MemoryGB :: real
  dw_MaxParallelTasks :: int
  dw_ActiveTasks :: int
  dw_TotalTasks :: int
  dw_SuccessRate :: real
  dw_AvgLatencyMs :: real
  dw_CircuitState :: string
  dw_DiscoverySource :: string
  dw_Version :: string
  dw_DockerAvailable :: bool
  dw_FlutterAvailable :: bool
  dw_FlutterSDKVersion :: string
  dw_FlutterPlatforms :: "string list"
  dw_UnityAvailable :: bool
  dw_UnityVersions :: "string list"
  dw_UnityPlatforms :: "string list"
  dw_Compilers :: "string list"
  dw_BuildTypes :: "string list"
  dw_Healthy :: bool
  dw_LastSeen :: int

fun CircuitState_string :: "CircuitState \<Rightarrow> string" where
  "CircuitState_string CircuitClosed = ''CLOSED''"
| "CircuitState_string CircuitHalfOpen = ''HALF_OPEN''"
| "CircuitState_string CircuitOpen = ''OPEN''"

definition dashboardWorker :: "int \<Rightarrow> int \<Rightarrow> CircuitState \<Rightarrow> WorkerInfo \<Rightarrow> DashboardWorkerInfo" where
  "dashboardWorker now heartbeatTTL state w =
     (let caps = workerCapabilitiesOrDefault (Some w)
      in \<lparr>dw_ID = ID w,
          dw_Host = Hostname caps,
          dw_Address = Address w,
          dw_OS = Os caps,
          dw_Architecture = Architecture_String (NativeArch caps),
          dw_Architectures = supportedArchitectures caps,
          dw_CPUCores = CpuCores caps,
          dw_MemoryGB = real_of_int (MemoryBytes caps) / (1024 * 1024 * 1024),
          dw_MaxParallelTasks = MaxParallelTasks caps,
          dw_ActiveTasks = ActiveTasks w,
          dw_TotalTasks = TotalTasks w,
          dw_SuccessRate = (if TotalTasks w > 0
                            then real_of_int (SuccessfulTasks w) / real_of_int (TotalTasks w) else 0),
          dw_AvgLatencyMs = real_of_int (Milliseconds (AvgCompileTime w)),
          dw_CircuitState = CircuitState_string state,
          dw_DiscoverySource = DiscoverySource w,
          dw_Version = Version caps,
          dw_DockerAvailable = DockerAvailable caps,
          dw_FlutterAvailable = (Flutter caps \<noteq> None),
          dw_FlutterSDKVersion = flutterSDKVersion caps,
          dw_FlutterPlatforms = flutterPlatforms caps,
          dw_UnityAvailable = (Unity caps \<noteq> None),
          dw_UnityVersions = unityVersions caps,
          dw_UnityPlatforms = unityPlatforms caps,
          dw_Compilers = (case Cpp caps of Some c \<Rightarrow> cpp_Compilers c | None \<Rightarrow> []),
          dw_BuildTypes = supportedBuildTypes caps,
          dw_Healthy = IsHealthy now heartbeatTTL w,
          dw_LastSeen = Unix (LastHeartbeat w)\<rparr>)"

text \<open>Asking a breaker for its state may move it from open to half-open.\<close>

fun GetWorkers_loop ::
    "('b, string, unit) gobreaker \<Rightarrow> int \<Rightarrow> int \<Rightarrow> WorkerInfo list \<Rightarrow> 'b CircuitManager \<Rightarrow>
       DashboardWorkerInfo list \<times> 'b CircuitManager" where
  "GetWorkers_loop lib now heartbeatTTL [] cm = ([], cm)"
| "GetWorkers_loop lib now heartbeatTTL (w # ws) cm =
     (let (state, cm1) = GetState lib now (ID w) cm;
          (rest, cm2) = GetWorkers_loop lib now heartbeatTTL ws cm1
      in (dashboardWorker now heartbeatTTL state w # rest, cm2))"

definition GetWorkers ::
    "('m, 'v, 'b) libs \<Rightarrow> int \<Rightarrow> string list \<Rightarrow> ('m, 'v, 'b) Server \<Rightarrow> DashboardWorkerInfo list \<times> ('m, 'v, 'b) Server" where
  "GetWorkers L now ord s =
     (let (infos, cm) = GetWorkers_loop (lib_breaker L) now (cfg_HeartbeatTTL (config s))
                          (ListWorkers ord (registry s)) (circuitManager s)
      in (infos, s\<lparr>circuitManager := cm\<rparr>))"

subsection \<open>Properties\<close>

lemma addUnique_spec:
  "distinct acc \<Longrightarrow> distinct (addUnique vs acc) \<and> set (addUnique vs acc) = set acc \<union> (set vs - {''''})"
  by (induction vs acc rule: addUnique.induct) auto

text \<open>
  What the dashboard lists against what the scheduler accepts, for a build of any architecture.
  For Flutter, Rust, Go and Node the two agree. A worker listed for C++ is eligible only if it
  reports a compiler, and a Unity build is matched with every worker, listed or not.
\<close>

theorem supportedBuildTypes_exact:
  "(\<forall>bt \<in> {BUILD_TYPE_FLUTTER, BUILD_TYPE_RUST, BUILD_TYPE_GO, BUILD_TYPE_NODEJS}.
      BuildType_String bt \<in> set (supportedBuildTypes c) \<longleftrightarrow> matchesCapability (Some c) bt ARCH_UNSPECIFIED) \<and>
   (matchesCapability (Some c) BUILD_TYPE_CPP ARCH_UNSPECIFIED \<longleftrightarrow>
      BuildType_String BUILD_TYPE_CPP \<in> set (supportedBuildTypes c) \<and>
      (\<exists>cpp. Cpp c = Some cpp \<and> cpp_Compilers cpp \<noteq> [])) \<and>
   (BuildType_String BUILD_TYPE_UNITY \<in> set (supportedBuildTypes c) \<longleftrightarrow> Unity c \<noteq> None) \<and>
   matchesCapability (Some c) BUILD_TYPE_UNITY ARCH_UNSPECIFIED"
  by (auto simp: supportedBuildTypes_def matchesCapability_def split: option.splits)

lemma supportedBuildTypes_exact_witness:
  "BuildType_String BUILD_TYPE_RUST \<notin> set (supportedBuildTypes emptyCapabilities)"
  using supportedBuildTypes_exact[of emptyCapabilities]
  by (simp add: matchesCapability_def emptyCapabilities_def)

text \<open>
  The architectures shown for a worker are those it reports, native and MSVC, without
  repetition and without empty names.
\<close>

theorem supportedArchitectures_exact:
  "distinct (supportedArchitectures c) \<and>
   set (supportedArchitectures c) =
     insert (Architecture_String (NativeArch c))
       (case Cpp c of None \<Rightarrow> {} | Some cpp \<Rightarrow> set (cpp_MsvcArchitectures cpp)) - {''''}"
  unfolding supportedArchitectures_def
  using addUnique_spec[of "[]"] by (simp del: addUnique.simps split: option.splits)

end
