(* ===== verification/Coordinator.thy ===== *)
theory Coordinator
  imports Ledger Build Server_Stats
begin

text \<open>
  The coordinator as a concurrent system. gRPC runs every call in a goroutine of its own, so
  the phases of different calls interleave on one server. \<open>coord_step\<close> is the step relation:
  its state is the server together with the calls that have a worker but are not booked
  (\<open>sy_selected\<close>) and those whose task is booked (\<open>sy_running\<close>). Every phase of \<^verbatim>\<open>Compile\<close> and
  \<^verbatim>\<open>Build\<close>, registration, the registry's cleanup and the dashboard's queries are steps.

  The refinement: each step is a step of the abstract \<^verbatim>\<open>Ledger\<close> machine or leaves the ledger
  alone, so the invariant of that machine holds of the server.
\<close>

subsection \<open>Reading the ledger off the server\<close>

definition ledger_of :: "('m, 'v, 'b) Server \<Rightarrow> ledger" where
  "ledger_of s =
     \<lparr>lg_active = activeTasks s, lg_queued = queuedTasks s, lg_total = totalTasks s,
      lg_success = successTasks s, lg_failed = failedTasks s,
      lg_byWorker = fmlookup (activeTasksByWorker s),
      lg_load = (\<lambda>w. map_option ActiveTasks (fmlookup (workers (registry s)) w))\<rparr>"

named_theorems unledgered "updates that leave the ledger alone"

lemma ledger_of_events [unledgered, simp]: "ledger_of (notifyEvents es s) = ledger_of s"
  by (simp add: notifyEvents_def ledger_of_def)

lemma ledger_of_fields [unledgered, simp]:
  "ledger_of (s\<lparr>scheduler := x1\<rparr>) = ledger_of s" "ledger_of (s\<lparr>taskLogger := x2\<rparr>) = ledger_of s"
  "ledger_of (s\<lparr>workerConns := x3\<rparr>) = ledger_of s" "ledger_of (s\<lparr>cacheHits := x4\<rparr>) = ledger_of s"
  "ledger_of (s\<lparr>cacheMisses := x4\<rparr>) = ledger_of s" "ledger_of (s\<lparr>circuitManager := x5\<rparr>) = ledger_of s"
  "ledger_of (s\<lparr>notifier := x6\<rparr>) = ledger_of s"
  by (simp_all add: ledger_of_def)

lemma ledger_of_kind [unledgered, simp]:
  "ledger_of (setCache k key resp s) = ledger_of s" "ledger_of (countBuild k s) = ledger_of s"
  "ledger_of (countCacheHit k s) = ledger_of s" "ledger_of (countCacheMiss k s) = ledger_of s"
  by (cases k; simp add: ledger_of_def setFlutterCache_def setUnityCache_def)+

lemma ledger_of_queue [simp]:
  "ledger_of (leaveQueue s) = dequeue (ledger_of s)"
  "ledger_of (s\<lparr>queuedTasks := wrap64 (queuedTasks s + 1)\<rparr>) = enqueue (ledger_of s)"
  "ledger_of (s\<lparr>queuedTasks := wrap64 (queuedTasks s - 1)\<rparr>) = dequeue (ledger_of s)"
  by (simp_all add: ledger_of_def leaveQueue_def dequeue_def enqueue_def)

lemma ledger_of_settle [simp]: "ledger_of (countOutcome ok s) = settle ok (ledger_of s)"
  by (simp add: ledger_of_def countOutcome_def settle_def)

lemma ledger_of_instant [simp]: "ledger_of (countInstant ok s) = instant ok (ledger_of s)"
  by (simp add: countInstant_def instant_def) (simp add: ledger_of_def)

lemma updated_load:
  assumes "\<And>w. ActiveTasks (f w) = g (ActiveTasks w)"
  shows "(\<lambda>v. map_option ActiveTasks (fmlookup (workers (or_unchanged r (updateWorker wid f r))) v)) =
    (\<lambda>v. map_option ActiveTasks (fmlookup (workers r) v))
      (wid := map_option g (map_option ActiveTasks (fmlookup (workers r) wid)))"
  using assms by (auto simp: or_unchanged_def updateWorker_def fun_eq_iff split: option.splits)

lemma ledger_of_book [simp]: "ledger_of (bookTask wid s) = book wid (ledger_of s)"
  using updated_load[of incrementWorker "\<lambda>n. wrap32 (n + 1)" "registry s" wid]
  by (simp add: ledger_of_def bookTask_def book_def IncrementTasks_def incrementWorker_def byWorker_inc_def
      fun_eq_iff split: option.split)

lemma ledger_of_unbook [simp]:
  "ledger_of (releaseTask wid s') = unbook wid (settle ok (ledger_of s))"
  if "ledger_of s' = settle ok (ledger_of (unbookTask wid ok t s))"
proof -
  have "lg_load (ledger_of (unbookTask wid ok t s)) =
      (lg_load (ledger_of s))(wid := map_option (\<lambda>n. if n > 0 then wrap32 (n - 1) else n) (lg_load (ledger_of s) wid))"
    using updated_load[of "decrementWorker ok t" "\<lambda>n. if n > 0 then wrap32 (n - 1) else n" "registry s" wid]
    by (simp add: ledger_of_def unbookTask_def DecrementTasks_def decrementWorker_def Let_def)
  then show ?thesis
    using that
    by (simp add: ledger_of_def releaseTask_def unbookTask_def settle_def unbook_def byWorker_dec_def fun_eq_iff
        split: option.split if_splits)
qed


subsection \<open>The handlers implement the interface\<close>

lemma compile_finish_state:
  "ledger_of (snd (compile_finish L i t reply s)) =
     unbook (ID (ct_worker t)) (settle (compileSucceeded reply) (ledger_of s))"
  unfolding compile_finish_def Let_def
  by (cases reply) (auto intro!: ledger_of_unbook)

lemma build_finish_state:
  "ledger_of (snd (build_finish k i t reply s)) =
     unbook (ID (bt_worker t)) (settle (buildSucceeded reply) (ledger_of s))"
  unfolding build_finish_def Let_def
  by (cases reply) (auto intro!: ledger_of_unbook)

interpretation compiling: booked_call
  "\<lambda>t. ID (ct_worker t)" compile_dispatch "\<lambda>i t r s. snd (compile_finish L i t r s)" compileSucceeded ledger_of
  for L :: "('m, 'v, 'b) libs"
  by unfold_locales (simp_all add: compile_dispatch_def compile_finish_state)

interpretation building: booked_call
  "\<lambda>t. ID (bt_worker t)" "build_dispatch k" "\<lambda>i t r s. snd (build_finish k i t r s)" buildSucceeded ledger_of
  for k :: build_kind
  by unfold_locales (simp_all add: build_dispatch_def build_finish_state)

subsection \<open>The system\<close>

datatype job = CompileJob compile_ticket | BuildJob build_kind build_ticket

fun jobWorker :: "job \<Rightarrow> string" where
  "jobWorker (CompileJob t) = ID (ct_worker t)"
| "jobWorker (BuildJob k t) = ID (bt_worker t)"

record ('m, 'v, 'b) system =
  sy_server :: "('m, 'v, 'b) Server"
  sy_selected :: "job multiset"
  sy_running :: "job multiset"

text \<open>
  The connection of a compile call may be made at any time between booking and answer, and any
  answer may come back: \<open>connects\<close> and the free \<open>reply\<close> of \<open>compile_finished\<close>.
\<close>

inductive coord_step ::
    "('m, 'v, 'b) libs \<Rightarrow> ('m, 'v, 'b) system \<Rightarrow> ('m, 'v, 'b) system \<Rightarrow> bool" for L where
  compile_invalid: "compile_select L env req s = (Err e, s') \<Longrightarrow>
    coord_step L \<lparr>sy_server = s, sy_selected = W, sy_running = R\<rparr>
      \<lparr>sy_server = s', sy_selected = W, sy_running = R\<rparr>"
| compile_refused: "compile_select L env req s = (Ok (Inl resp), s') \<Longrightarrow>
    coord_step L \<lparr>sy_server = s, sy_selected = W, sy_running = R\<rparr>
      \<lparr>sy_server = s', sy_selected = W, sy_running = R\<rparr>"
| compile_selected: "compile_select L env req s = (Ok (Inr t), s') \<Longrightarrow>
    iter_order (workers (registry s)) (env_order env) \<Longrightarrow>
    coord_step L \<lparr>sy_server = s, sy_selected = W, sy_running = R\<rparr>
      \<lparr>sy_server = s', sy_selected = add_mset (CompileJob t) W, sy_running = R\<rparr>"
| compile_started: "size R < 2 ^ 31 - 1 \<Longrightarrow>
    coord_step L \<lparr>sy_server = s, sy_selected = add_mset (CompileJob t) W, sy_running = R\<rparr>
      \<lparr>sy_server = compile_dispatch i t s, sy_selected = W, sy_running = add_mset (CompileJob t) R\<rparr>"
| compile_finished:
    "coord_step L \<lparr>sy_server = s, sy_selected = W, sy_running = add_mset (CompileJob t) R\<rparr>
      \<lparr>sy_server = snd (compile_finish L i t reply s), sy_selected = W, sy_running = R\<rparr>"
| build_answered: "build_begin k L b breq s = (Inl bresp, s') \<Longrightarrow>
    coord_step L \<lparr>sy_server = s, sy_selected = W, sy_running = R\<rparr>
      \<lparr>sy_server = s', sy_selected = W, sy_running = R\<rparr>"
| build_selected: "build_begin k L b breq s = (Inr u, s') \<Longrightarrow>
    iter_order (workers (registry s)) (bi_order b) \<Longrightarrow>
    coord_step L \<lparr>sy_server = s, sy_selected = W, sy_running = R\<rparr>
      \<lparr>sy_server = s', sy_selected = add_mset (BuildJob k u) W, sy_running = R\<rparr>"
| build_unreachable: "build_connect b u s = (Some bresp, s') \<Longrightarrow>
    coord_step L \<lparr>sy_server = s, sy_selected = add_mset (BuildJob k u) W, sy_running = R\<rparr>
      \<lparr>sy_server = s', sy_selected = W, sy_running = R\<rparr>"
| build_started: "build_connect b u s = (None, s') \<Longrightarrow> size R < 2 ^ 31 - 1 \<Longrightarrow>
    coord_step L \<lparr>sy_server = s, sy_selected = add_mset (BuildJob k u) W, sy_running = R\<rparr>
      \<lparr>sy_server = build_dispatch k b u s', sy_selected = W, sy_running = add_mset (BuildJob k u) R\<rparr>"
| build_finished:
    "coord_step L \<lparr>sy_server = s, sy_selected = W, sy_running = add_mset (BuildJob k u) R\<rparr>
      \<lparr>sy_server = snd (build_finish k b u breply s), sy_selected = W, sy_running = R\<rparr>"
| handshake: "Handshake idNow now hreq s = (hres, s') \<Longrightarrow>
    coord_step L \<lparr>sy_server = s, sy_selected = W, sy_running = R\<rparr>
      \<lparr>sy_server = s', sy_selected = W, sy_running = R\<rparr>"
| cleanup:
    "coord_step L \<lparr>sy_server = s, sy_selected = W, sy_running = R\<rparr>
      \<lparr>sy_server = s\<lparr>registry := cleanupStaleWorkers now (registry s)\<rparr>, sy_selected = W, sy_running = R\<rparr>"
| cache_report: "ReportCacheHit hits s = (ack, s') \<Longrightarrow>
    coord_step L \<lparr>sy_server = s, sy_selected = W, sy_running = R\<rparr>
      \<lparr>sy_server = s', sy_selected = W, sy_running = R\<rparr>"
| dashboard: "GetWorkers L now ord s = (infos, s') \<Longrightarrow>
    coord_step L \<lparr>sy_server = s, sy_selected = W, sy_running = R\<rparr>
      \<lparr>sy_server = s', sy_selected = W, sy_running = R\<rparr>"
| connects: "connPool_get dial addr (workerConns s) = (res, p) \<Longrightarrow>
    coord_step L \<lparr>sy_server = s, sy_selected = W, sy_running = R\<rparr>
      \<lparr>sy_server = s\<lparr>workerConns := p\<rparr>, sy_selected = W, sy_running = R\<rparr>"
| notifies:
    "coord_step L \<lparr>sy_server = s, sy_selected = W, sy_running = R\<rparr>
      \<lparr>sy_server = SetEventNotifier present s, sy_selected = W, sy_running = R\<rparr>"

inductive reachable :: "('m, 'v, 'b) libs \<Rightarrow> Config \<Rightarrow> ('m, 'v, 'b) system \<Rightarrow> bool" for L cfg where
  start: "reachable L cfg \<lparr>sy_server = Server_New logOpenFails cfg, sy_selected = {#}, sy_running = {#}\<rparr>"
| step: "reachable L cfg y \<Longrightarrow> coord_step L y y' \<Longrightarrow> reachable L cfg y'"

definition abstract_state :: "('m, 'v, 'b) system \<Rightarrow> lstate" where
  "abstract_state y =
     \<lparr>ls_ledger = ledger_of (sy_server y),
      ls_waiting = image_mset jobWorker (sy_selected y),
      ls_running = image_mset jobWorker (sy_running y)\<rparr>"


subsection \<open>What the phases do\<close>

lemma compile_select_Err: "compile_select L env req s = (Err e, s') \<Longrightarrow> s' = s"
  by (auto simp: compile_select_def Let_def split: if_splits outcome.splits prod.splits)

lemma compile_select_Inl:
  assumes "compile_select L env req s = (Ok (Inl resp), s')"
  shows "ledger_of s' = dequeue (enqueue (ledger_of s)) \<and> registry s' = registry s \<and>
    circuitManager s' = circuitManager s"
  using assms
  by (auto simp: compile_select_def Let_def ledger_of_def enqueue_def dequeue_def
      split: if_splits outcome.splits prod.splits)

lemma compile_select_Inr:
  assumes "compile_select L env req s = (Ok (Inr t), s')"
  shows "ledger_of s' = enqueue (ledger_of s) \<and> registry s' = registry s \<and>
    circuitManager s' = circuitManager s \<and> ct_req t = req \<and>
    fst (SelectWith (lib_gonum L) (circuitChecker L (env_now env) s) (registry s) env BUILD_TYPE_CPP
      (cr_TargetArch req) (clientOSFilter req) (compileContext req) (scheduler s)) = Ok (ct_worker t, ct_info t)"
  using assms
  by (auto simp: compile_select_def Let_def ledger_of_def enqueue_def circuitChecker_def
      split: if_splits outcome.splits prod.splits)

lemma selectBuildWorker_registered:
  assumes "selectBuildWorker k now ord platform s = Inr w" and "registry_inv (registry s)"
  shows "Get (ID w) (registry s) = Some w"
proof -
  have "w \<in> set (ListWorkers ord (registry s))"
    using assms(1)
    by (cases k) (auto simp: selectFlutterWorker_def selectUnityWorker_def find_Some_iff split: option.splits)
  then show ?thesis
    using assms(2) by (auto simp: ListWorkers_def range_vals_set registry_inv_def worker_inv_def Get_def)
qed

lemma registry_of_kind [simp]:
  "registry (setCache k key resp s) = registry s" "registry (countBuild k s) = registry s"
  "registry (countCacheHit k s) = registry s" "registry (countCacheMiss k s) = registry s"
  "circuitManager (setCache k key resp s) = circuitManager s" "circuitManager (countBuild k s) = circuitManager s"
  "circuitManager (countCacheHit k s) = circuitManager s" "circuitManager (countCacheMiss k s) = circuitManager s"
  by (cases k; simp add: setFlutterCache_def setUnityCache_def)+

lemma registry_of_shared [simp]:
  "registry (notifyEvents es s) = registry s" "circuitManager (notifyEvents es s) = circuitManager s"
  "registry (countOutcome ok s) = registry s" "circuitManager (countOutcome ok s) = circuitManager s"
  "registry (countInstant ok s) = registry s" "circuitManager (countInstant ok s) = circuitManager s"
  "registry (leaveQueue s) = registry s" "circuitManager (leaveQueue s) = circuitManager s"
  "registry (releaseTask wid s) = registry s" "circuitManager (releaseTask wid s) = circuitManager s"
  "circuitManager (bookTask wid s) = circuitManager s" "circuitManager (unbookTask wid ok t s) = circuitManager s"
  by (simp_all add: notifyEvents_def countOutcome_def countInstant_def leaveQueue_def releaseTask_def
      bookTask_def unbookTask_def)

lemma build_begin_Inl:
  assumes "build_begin k L i req s = (Inl resp, s')"
  shows "(ledger_of s' = instant True (ledger_of s) \<or> ledger_of s' = dequeue (instant False (enqueue (ledger_of s)))) \<and>
    registry s' = registry s \<and> circuitManager s' = circuitManager s"
  using assms by (auto simp: build_begin_def Let_def split: option.splits sum.splits)

lemma build_begin_Inr:
  assumes "build_begin k L i req s = (Inr t, s')" and "registry_inv (registry s)"
  shows "ledger_of s' = enqueue (ledger_of s) \<and> registry s' = registry s \<and> circuitManager s' = circuitManager s \<and>
    Get (ID (bt_worker t)) (registry s) = Some (bt_worker t)"
proof -
  let ?s = "(countCacheMiss k s)\<lparr>queuedTasks := wrap64 (queuedTasks (countCacheMiss k s) + 1)\<rparr>"
  have "s' = ?s" and sel: "selectBuildWorker k (bi_now i) (bi_order i) (br_TargetPlatform req) ?s = Inr (bt_worker t)"
    using assms(1) by (auto simp: build_begin_def Let_def split: option.splits sum.splits)
  with selectBuildWorker_registered[OF sel] assms(2) show ?thesis by simp
qed

lemma build_connect_Some:
  "build_connect i t s = (Some resp, s') \<Longrightarrow>
     ledger_of s' = dequeue (ledger_of s) \<and> registry s' = registry s \<and> circuitManager s' = circuitManager s"
  by (auto simp: build_connect_def split: prod.splits sum.splits)

lemma build_connect_None:
  "build_connect i t s = (None, s') \<Longrightarrow>
     ledger_of s' = ledger_of s \<and> registry s' = registry s \<and> circuitManager s' = circuitManager s"
  by (auto simp: build_connect_def split: prod.splits sum.splits)


subsection \<open>The refinement\<close>

definition system_inv :: "('m, 'v, 'b) system \<Rightarrow> bool" where
  "system_inv y \<longleftrightarrow>
     ledger_inv (abstract_state y) \<and> registry_inv (registry (sy_server y)) \<and>
     breakers (circuitManager (sy_server y)) = fmempty"

lemma Handshake_cases:
  assumes "Handshake idNow now req s = (res, s')"
  obtains "s' = s" | w where "s' = s\<lparr>registry := Add now w (registry s)\<rparr>" "ActiveTasks w = 0"
  using assms by (auto simp: Handshake_def Let_def handshakeWorker_def split: option.splits if_splits)

lemma ledger_of_Add:
  assumes "ActiveTasks w = 0"
  shows "ledger_of (s\<lparr>registry := Add now w (registry s)\<rparr>) =
    (if lg_load (ledger_of s) (ID w) = None
     then ledger_of s \<lparr>lg_load := (lg_load (ledger_of s))(ID w \<mapsto> 0)\<rparr> else ledger_of s)"
  using assms by (auto simp: ledger_of_def Add_lookup fun_eq_iff split: option.split)

lemma ledger_of_cleanup [simp]:
  "ledger_of (s\<lparr>registry := cleanupStaleWorkers now (registry s)\<rparr>) = ledger_of s"
proof -
  have "ActiveTasks (staleWorker now t w) = ActiveTasks w" for t w by (simp add: staleWorker_def)
  then show ?thesis by (simp add: ledger_of_def cleanupStaleWorkers_def fun_eq_iff option.map_comp comp_def)
qed

lemma GetWorkers_loop_idle:
  "breakers cm = fmempty \<Longrightarrow> snd (GetWorkers_loop lib now heartbeatTTL ws cm) = cm"
  by (induction ws) (auto simp: GetState_def case_prod_beta)

lemma GetWorkers_idle:
  assumes "GetWorkers L now ord s = (infos, s')" and "breakers (circuitManager s) = fmempty"
  shows "s' = s"
  using assms GetWorkers_loop_idle[OF assms(2)] by (auto simp: GetWorkers_def case_prod_beta Let_def)

text \<open>Each step of the system is a step of the ledger machine, or leaves the abstract state as it is.\<close>

lemma coord_step_refines:
  assumes "coord_step L y y'" and "system_inv y"
  shows "abstract_state y' = abstract_state y \<or> ledger_step (abstract_state y) (abstract_state y')"
  using assms
proof (induction rule: coord_step.induct)
  case (compile_refused env req s resp s' W R)
  then show ?case
    using compile_select_Inl[OF compile_refused(1)] by (simp add: abstract_state_def ledger_step.refuse)
next
  case (compile_selected env req s t s' W R)
  note sel = compile_select_Inr[OF compile_selected(1)]
  have "Get (ID (ct_worker t)) (registry s) = Some (ct_worker t)"
    using SelectWith_registered sel compile_selected(2,3) by (metis system_inv_def system.select_convs(1))
  then show ?case
    using sel by (auto simp: abstract_state_def ledger_of_def Get_def intro!: ledger_step.admit)
next
  case (compile_started R s t W i)
  then show ?case by (simp add: abstract_state_def compiling.dispatch_refines)
next
  case (compile_finished s W t R i reply)
  then show ?case by (simp add: abstract_state_def compiling.finish_refines)
next
  case (build_answered k b breq s bresp s' W R)
  then show ?case
    using build_begin_Inl[OF build_answered(1)]
    by (auto simp: abstract_state_def intro: ledger_step.answer ledger_step.turn_away)
next
  case (build_selected k b breq s u s' W R)
  have "Get (ID (bt_worker u)) (registry s) = Some (bt_worker u)" "ledger_of s' = enqueue (ledger_of s)"
    using build_begin_Inr[OF build_selected(1)] build_selected(3) by (simp_all add: system_inv_def)
  then show ?case
    by (auto simp: abstract_state_def ledger_of_def Get_def intro!: ledger_step.admit)
next
  case (build_unreachable b u s bresp s' k W R)
  then show ?case
    using build_connect_Some[OF build_unreachable(1)] by (simp add: abstract_state_def ledger_step.abandon)
next
  case (build_started b u s s' R k W)
  then show ?case
    using build_connect_None[OF build_started(1)] building.dispatch_refines[of "image_mset jobWorker R" s' u]
    by (simp add: abstract_state_def)
next
  case (build_finished s W k u R b breply)
  then show ?case by (simp add: abstract_state_def building.finish_refines)
next
  case (handshake idNow now hreq s hres s' W R)
  from handshake(1) show ?case
    by (cases rule: Handshake_cases) (auto simp: abstract_state_def ledger_of_Add intro: ledger_step.register)
next
  case (dashboard now ord s infos s' W R)
  then show ?case using GetWorkers_idle by (fastforce simp: system_inv_def)
qed (auto simp: abstract_state_def ReportCacheHit_def SetEventNotifier_def dest: compile_select_Err)


text \<open>The concrete parts of the invariant: booking keeps the registry's because no counter is at its limit.\<close>

lemma registry_inv_book:
  assumes "registry_inv (registry s)" and "\<And>w. Get wid (registry s) = Some w \<Longrightarrow> ActiveTasks w < 2 ^ 31 - 1"
  shows "registry_inv (registry (bookTask wid s))"
  using assms unfolding bookTask_def IncrementTasks_def
  by (simp add: or_unchanged_updateWorker_inv incrementWorker_inv Get_def)

lemma registry_inv_unbook: "registry_inv (registry s) \<Longrightarrow> registry_inv (registry (unbookTask wid ok t s))"
  unfolding unbookTask_def DecrementTasks_def
  by (simp add: or_unchanged_updateWorker_inv decrementWorker_inv)

lemma finish_registry [simp]:
  "registry (snd (compile_finish L i t reply s)) =
     registry (unbookTask (ID (ct_worker t)) (compileSucceeded reply)
       (wrap64 ((case reply of Inr resp \<Rightarrow> cs_CompilationTimeMs resp | Inl e \<Rightarrow> 0) * Millisecond)) s)"
  "registry (snd (build_finish k b u breply s)) = registry (unbookTask (ID (bt_worker u)) (buildSucceeded breply) 0 s)"
  "circuitManager (snd (compile_finish L i t reply s)) = circuitManager s"
  "circuitManager (snd (build_finish k b u breply s)) = circuitManager s"
  by (cases reply; simp add: compile_finish_def Let_def)
    (cases breply; simp add: build_finish_def Let_def; fail | cases reply; simp add: compile_finish_def Let_def; fail)+

lemma running_bound:
  assumes "system_inv y" and "size (sy_running y) < 2 ^ 31 - 1"
    and "Get wid (registry (sy_server y)) = Some w"
  shows "ActiveTasks w < 2 ^ 31 - 1"
proof -
  have "load_ok (abstract_state y)" using assms(1) by (simp add: system_inv_def ledger_inv_def)
  from load_ok_cell[OF this, of wid] have "ActiveTasks w = int (count (image_mset jobWorker (sy_running y)) wid)"
    using assms(3) by (simp add: abstract_state_def ledger_of_def Get_def)
  moreover have "count (image_mset jobWorker (sy_running y)) wid \<le> size (sy_running y)"
    using count_le_size[of "image_mset jobWorker (sy_running y)" wid] by simp
  ultimately show ?thesis using assms(2) by simp
qed

lemma coord_step_registry:
  assumes "coord_step L y y'" and "system_inv y"
  shows "registry_inv (registry (sy_server y')) \<and> breakers (circuitManager (sy_server y')) = fmempty"
  using assms
proof (induction rule: coord_step.induct)
  case (compile_refused env req s resp s' W R)
  then show ?case using compile_select_Inl[OF compile_refused(1)] by (simp add: system_inv_def)
next
  case (compile_selected env req s t s' W R)
  then show ?case using compile_select_Inr[OF compile_selected(1)] by (simp add: system_inv_def)
next
  case (compile_started R s t W i)
  then show ?case
    using running_bound[OF compile_started(2)]
    by (simp add: system_inv_def compile_dispatch_def registry_inv_book)
next
  case (build_answered k b breq s bresp s' W R)
  then show ?case using build_begin_Inl[OF build_answered(1)] by (simp add: system_inv_def)
next
  case (build_selected k b breq s u s' W R)
  then show ?case using build_begin_Inr[OF build_selected(1)] by (simp add: system_inv_def)
next
  case (build_unreachable b u s bresp s' k W R)
  then show ?case using build_connect_Some[OF build_unreachable(1)] by (simp add: system_inv_def)
next
  case (build_started b u s s' R k W)
  then show ?case
    using build_connect_None[OF build_started(1)] running_bound[OF build_started(3)] registry_inv_book[of s']
    by (simp add: system_inv_def build_dispatch_def)
next
  case (handshake idNow now hreq s hres s' W R)
  from handshake(1) show ?case
    using handshake(2)
    by (cases rule: Handshake_cases) (auto simp: system_inv_def is_int32_def intro: Add_inv)
next
  case (dashboard now ord s infos s' W R)
  then show ?case using GetWorkers_idle by (fastforce simp: system_inv_def)
qed (auto simp: system_inv_def ReportCacheHit_def SetEventNotifier_def registry_inv_unbook cleanup_inv
    dest: compile_select_Err)

lemma abstract_start:
  "abstract_state \<lparr>sy_server = Server_New f cfg, sy_selected = {#}, sy_running = {#}\<rparr> =
     \<lparr>ls_ledger = emptyLedger, ls_waiting = {#}, ls_running = {#}\<rparr>"
  by (simp add: abstract_state_def ledger_of_def Server_New_def emptyLedger_def NewInMemoryRegistry_def fun_eq_iff)

lemma start_inv:
  "system_inv \<lparr>sy_server = Server_New f cfg, sy_selected = {#}, sy_running = {#}\<rparr>"
  using init_inv New_inv
  by (simp add: system_inv_def abstract_start ledger_init_def) (simp add: Server_New_def OnStateChange_def NewCircuitManager_def)

lemma reachable_inv: "reachable L cfg y \<Longrightarrow> system_inv y"
proof (induction rule: reachable.induct)
  case (step y y')
  then show ?case
    using coord_step_refines[OF step(2)] coord_step_registry[OF step(2)] step_inv by (auto simp: system_inv_def)
qed (rule start_inv)

lemma reachable_refines:
  "reachable L cfg y \<Longrightarrow>
     ledger_step\<^sup>*\<^sup>* \<lparr>ls_ledger = emptyLedger, ls_waiting = {#}, ls_running = {#}\<rparr> (abstract_state y)"
proof (induction rule: reachable.induct)
  case (start f)
  show ?case by (simp add: abstract_start)
next
  case (step y y')
  then show ?case
    using coord_step_refines[OF step(2) reachable_inv[OF step(1)]] by (auto intro: rtranclp.rtrancl_into_rtrancl)
qed


subsection \<open>A concrete run\<close>

text \<open>
  A coordinator with the capacity-aware scheduler \<^verbatim>\<open>p2c\<close> and one worker that takes one task at a
  time; two calls select the worker before either of them books it.
\<close>

definition raceConfig :: Config where
  "raceConfig = DefaultConfig\<lparr>cfg_SchedulerType := ''p2c''\<rparr>"

definition raceHandshake :: HandshakeRequest where
  "raceHandshake = \<lparr>hs_Capabilities = Some (sampleCaps\<lparr>MaxParallelTasks := 1\<rparr>), hs_AuthToken = '''',
     hs_WorkerAddress = ''w1:50052''\<rparr>"

definition raceWorker :: WorkerInfo where
  "raceWorker = (handshakeWorker 0 raceHandshake (sampleCaps\<lparr>MaxParallelTasks := 1\<rparr>))
     \<lparr>RegisteredAt := 5, LastHeartbeat := 5\<rparr>"

definition raceEnv :: sched_env where
  "raceEnv = \<lparr>env_now = 10, env_order = [''w1''], env_draw = (\<lambda>_. None)\<rparr>"

definition raceCompile :: CompileRequest where
  "raceCompile =
     \<lparr>cr_TaskId = ''t'', cr_SourceHash = '''', cr_PreprocessedSource = '''', cr_CompilerArgs = [], cr_Compiler = ''gcc'',
      cr_CompilerVersion = '''', cr_TargetArch = ARCH_X86_64, cr_DockerImage = '''', cr_TimeoutSeconds = 60,
      cr_ClientOs = ''linux'', cr_ClientArch = ARCH_X86_64, cr_RawSource = ''int x;'', cr_SourceFilename = ''a.c'',
      cr_IncludeFiles = fmempty, cr_IncludePaths = []\<rparr>"

definition raceTicket :: compile_ticket where
  "raceTicket = \<lparr>ct_req = raceCompile, ct_worker = raceWorker, ct_info = emptyDispatchInfo,
     ct_ctx = compileContext raceCompile\<rparr>"

definition raceRegistry :: InMemoryRegistry where
  "raceRegistry = Add 5 (handshakeWorker 0 raceHandshake (sampleCaps\<lparr>MaxParallelTasks := 1\<rparr>)) (NewInMemoryRegistry (60 * Second))"

definition raceServer :: "('m, 'v, 'b) Server" where
  "raceServer = snd (Handshake 0 5 raceHandshake (Server_New False raceConfig))"

definition raceInput :: compile_input where
  "raceInput =
     \<lparr>in_sched = raceEnv, in_start = 10, in_queue = 10, in_taskStart = 10, in_callStart = 10, in_callEnd = 20,
      in_completed = 20, in_logTime = 20, in_logOk = True, in_dial = None, in_reply = Inl ''lost''\<rparr>"

lemma raceWorker_fields:
  "ID raceWorker = ''w1''" "MaxParallel raceWorker = 1" "ActiveTasks raceWorker = 0"
  "State raceWorker = WorkerStateIdle" "LastHeartbeat raceWorker = 5"
  "Capabilities raceWorker = Some (sampleCaps\<lparr>MaxParallelTasks := 1\<rparr>)"
  by (simp_all add: raceWorker_def handshakeWorker_def sampleCaps_def)

lemma race_registry:
  "fmlookup (workers (raceRegistry)) wid = (if wid = ''w1'' then Some raceWorker else None)"
  "ttl (raceRegistry) = 60 * Second"
  using raceWorker_fields(1)
  by (auto simp: raceRegistry_def Add_lookup NewInMemoryRegistry_def raceWorker_def handshakeWorker_def Add_def)

lemma race_listed:
  "ListByCapability 10 [''w1''] BUILD_TYPE_CPP ARCH_X86_64 (raceRegistry) = [raceWorker]"
  by (simp add: ListByCapability_def race_registry raceWorker_fields IsHealthy_def time_sub_def maxDuration_def
      minDuration_def Second_def matchesCapability_def sampleCaps_def)

lemma race_select:
  assumes "registry s = raceRegistry" and "scheduler s = P2CS lt" and "breakers (circuitManager s) = fmempty"
  shows "\<exists>s'. compile_select L raceEnv raceCompile s = (Ok (Inr raceTicket), s') \<and> registry s' = raceRegistry \<and>
    scheduler s' = P2CS lt \<and> breakers (circuitManager s') = fmempty"
proof -
  have "P2C_candidates (circuitChecker L 10 s') [raceWorker] = [raceWorker]"
    if "circuitManager s' = circuitManager s" for s' :: "('a, 'b, 'c) Server"
    using assms(3) that
    by (simp add: P2C_candidates_def circuitOpen_def circuitChecker_def IsOpen_def raceWorker_fields maxParallel_def)
  then have "P2CScheduler_Select (circuitChecker L 10 s') lt (registry s) raceEnv BUILD_TYPE_CPP ARCH_X86_64 '''' = Ok raceWorker"
    if "circuitManager s' = circuitManager s" for s' :: "('a, 'b, 'c) Server"
    using that assms(1) by (simp add: P2CScheduler_Select_def matchingWorkers_def raceEnv_def race_listed)
  moreover have "clientOSFilter raceCompile = ''''" "cr_TaskId raceCompile = ''t''" "cr_TargetArch raceCompile = ARCH_X86_64"
    "env_now raceEnv = 10"
    by (simp_all add: clientOSFilter_def raceCompile_def raceEnv_def)
  ultimately show ?thesis
    using assms by (simp add: compile_select_def Let_def raceTicket_def withoutInfo_def)
qed


lemma race_order: "iter_order (workers (raceRegistry)) (env_order raceEnv)"
proof -
  have "fmdom (workers (raceRegistry)) = {|''w1''|}"
    by (rule fset_eqI) (simp add: fmlookup_dom_iff race_registry)
  then show ?thesis by (simp add: iter_order_def raceEnv_def)
qed

lemma race_start:
  "registry raceServer = raceRegistry"
  "scheduler raceServer = P2CS (NewP2CScheduler None)" "breakers (circuitManager raceServer) = fmempty"
  by (simp_all add: raceServer_def Handshake_def raceHandshake_def Server_New_def raceConfig_def DefaultConfig_def
      newScheduler_def OnStateChange_def NewCircuitManager_def Let_def raceRegistry_def)

lemma race_registered: "reachable L raceConfig \<lparr>sy_server = raceServer, sy_selected = {#}, sy_running = {#}\<rparr>"
  unfolding raceServer_def
  by (rule reachable.step[OF reachable.start[of L raceConfig False]], rule coord_step.handshake, rule surjective_pairing)

text \<open>Both calls have selected the worker.\<close>

lemma race_selected:
  "\<exists>s. reachable L raceConfig \<lparr>sy_server = s, sy_selected = {#CompileJob raceTicket, CompileJob raceTicket#}, sy_running = {#}\<rparr> \<and>
     registry s = raceRegistry"
proof -
  obtain s1 where s1: "compile_select L raceEnv raceCompile raceServer = (Ok (Inr raceTicket), s1)"
    "registry s1 = raceRegistry" "scheduler s1 = P2CS (NewP2CScheduler None)"
    "breakers (circuitManager s1) = fmempty"
    using race_select[OF race_start, of L] by blast
  have o0: "iter_order (workers (registry (raceServer :: ('a, 'b, 'c) Server))) (env_order raceEnv)"
    and o1: "iter_order (workers (registry s1)) (env_order raceEnv)"
    using race_order s1(2) by (simp_all add: race_start(1))
  from reachable.step[OF race_registered coord_step.compile_selected[OF s1(1) o0]]
  have r1: "reachable L raceConfig \<lparr>sy_server = s1, sy_selected = {#CompileJob raceTicket#}, sy_running = {#}\<rparr>" .
  obtain s2 where s2: "compile_select L raceEnv raceCompile s1 = (Ok (Inr raceTicket), s2)"
    "registry s2 = raceRegistry"
    using race_select[OF s1(2,3,4), of L] by blast
  from reachable.step[OF r1 coord_step.compile_selected[OF s2(1) o1]] s2(2) show ?thesis by blast
qed

lemma race_booked:
  assumes "registry s = raceRegistry"
  shows "Get ''w1'' (registry (compile_dispatch i raceTicket (compile_dispatch j raceTicket s))) =
    Some (incrementWorker (incrementWorker raceWorker))"
  using assms
  by (simp add: compile_dispatch_def bookTask_def raceTicket_def raceWorker_fields Get_def IncrementTasks_def
      or_unchanged_def updateWorker_def race_registry)

lemma race_reachable:
  "\<exists>y. reachable L raceConfig y \<and> sy_running y = {#CompileJob raceTicket, CompileJob raceTicket#} \<and>
     Get ''w1'' (registry (sy_server y)) = Some (incrementWorker (incrementWorker raceWorker))"
proof -
  obtain s where s: "reachable L raceConfig
      \<lparr>sy_server = s, sy_selected = {#CompileJob raceTicket, CompileJob raceTicket#}, sy_running = {#}\<rparr>"
    "registry s = raceRegistry"
    using race_selected[of L] by blast
  from reachable.step[OF s(1) coord_step.compile_started[where i = raceInput]]
  have "reachable L raceConfig \<lparr>sy_server = compile_dispatch raceInput raceTicket s,
      sy_selected = {#CompileJob raceTicket#}, sy_running = {#CompileJob raceTicket#}\<rparr>" by simp
  from reachable.step[OF this coord_step.compile_started[where i = raceInput]]
  have "reachable L raceConfig \<lparr>sy_server = compile_dispatch raceInput raceTicket (compile_dispatch raceInput raceTicket s),
      sy_selected = {#}, sy_running = {#CompileJob raceTicket, CompileJob raceTicket#}\<rparr>" by simp
  with race_booked[OF s(2)] show ?thesis by (metis system.select_convs(1,3))
qed


subsection \<open>Properties\<close>

text \<open>
  C1. The refinement. Every state the coordinator can reach, whatever calls arrive and however
  their phases interleave, is reached by the abstract ledger machine under the abstraction
  function, and that machine's invariant holds of it.
\<close>

theorem coordinator_refines_ledger:
  assumes "reachable L cfg y"
  shows "ledger_step\<^sup>*\<^sup>* \<lparr>ls_ledger = emptyLedger, ls_waiting = {#}, ls_running = {#}\<rparr> (abstract_state y)
    \<and> ledger_inv (abstract_state y)"
  using reachable_refines[OF assms] reachable_inv[OF assms] by (simp add: system_inv_def)

lemma coordinator_refines_ledger_witness:
  "\<exists>y. reachable sampleLibs raceConfig y \<and> size (sy_running y) = 2 \<and> ledger_inv (abstract_state y)"
proof -
  obtain y where y: "reachable sampleLibs raceConfig y" "sy_running y = {#CompileJob raceTicket, CompileJob raceTicket#}"
    using race_reachable[of sampleLibs] by blast
  from coordinator_refines_ledger[OF y(1)] y show ?thesis by (intro exI[of _ y]) simp
qed

text \<open>
  C3. The counters tell the truth in every reachable state: the active tasks are the booked calls,
  the total is the completed plus the failed plus the active ones, and the queued tasks are
  the calls that wait \<^emph>\<open>and\<close> those that run (the queue counter is decremented only when the
  handler returns, so a running task still counts as queued).
\<close>

theorem coordinator_counters:
  assumes "reachable L cfg y"
  shows "activeTasks (sy_server y) = int (size (sy_running y))
    \<and> queuedTasks (sy_server y) = wrap64 (int (size (sy_selected y)) + int (size (sy_running y)))
    \<and> totalTasks (sy_server y) =
        wrap64 (successTasks (sy_server y) + failedTasks (sy_server y) + int (size (sy_running y)))"
proof -
  have c: "counters_ok (abstract_state y)" and "load_ok (abstract_state y)"
    using reachable_inv[OF assms] by (simp_all add: system_inv_def ledger_inv_def)
  then have "int (size (sy_running y)) < 2 ^ 31" by (simp add: load_ok_def abstract_state_def)
  then have "wrap64 (int (size (sy_running y))) = int (size (sy_running y))"
    by (intro wrap64_id) (simp add: is_int64_def)
  with c show ?thesis by (simp add: counters_ok_def abstract_state_def ledger_of_def)
qed

lemma coordinator_counters_witness:
  "\<exists>y. reachable sampleLibs raceConfig y \<and> activeTasks (sy_server y) = 2"
proof -
  obtain y where y: "reachable sampleLibs raceConfig y" "sy_running y = {#CompileJob raceTicket, CompileJob raceTicket#}"
    using race_reachable[of sampleLibs] by blast
  from coordinator_counters[OF y(1)] y show ?thesis by (intro exI[of _ y]) simp
qed

text \<open>
  C2. The load the schedulers see is exact: in every reachable state each registered worker's task
  count, and its per-worker gauge, equal the number of booked calls on that worker; every
  call that holds a worker holds a registered one.
\<close>

theorem coordinator_loads:
  assumes "reachable L cfg y"
  shows "(\<forall>wid w. Get wid (registry (sy_server y)) = Some w \<longrightarrow>
            ActiveTasks w = int (size (filter_mset (\<lambda>j. jobWorker j = wid) (sy_running y))))
    \<and> (\<forall>wid n. fmlookup (activeTasksByWorker (sy_server y)) wid = Some n \<longrightarrow>
            n = wrap64 (int (size (filter_mset (\<lambda>j. jobWorker j = wid) (sy_running y)))))
    \<and> (\<forall>j \<in># sy_selected y + sy_running y. Get (jobWorker j) (registry (sy_server y)) \<noteq> None)"
proof -
  have load: "load_ok (abstract_state y)" and gauge: "byWorker_ok (abstract_state y)"
    using reachable_inv[OF assms] by (simp_all add: system_inv_def ledger_inv_def)
  have n: "count (image_mset jobWorker M) wid = size (filter_mset (\<lambda>j. jobWorker j = wid) M)" for M wid
    by (induction M) auto
  show ?thesis
  proof (intro conjI allI impI ballI)
    fix wid w assume "Get wid (registry (sy_server y)) = Some w"
    then show "ActiveTasks w = int (size (filter_mset (\<lambda>j. jobWorker j = wid) (sy_running y)))"
      using load_ok_cell[OF load, of wid] by (simp add: abstract_state_def ledger_of_def Get_def n)
  next
    fix wid m assume "fmlookup (activeTasksByWorker (sy_server y)) wid = Some m"
    then show "m = wrap64 (int (size (filter_mset (\<lambda>j. jobWorker j = wid) (sy_running y))))"
      using gauge by (simp add: byWorker_ok_def abstract_state_def ledger_of_def n) (metis byWorker_cell.simps(2))
  next
    fix j assume "j \<in># sy_selected y + sy_running y"
    then have "jobWorker j \<in># image_mset jobWorker (sy_selected y) + image_mset jobWorker (sy_running y)" by auto
    then show "Get (jobWorker j) (registry (sy_server y)) \<noteq> None"
      using load_ok_cell[OF load, of "jobWorker j"]
      by (cases "Get (jobWorker j) (registry (sy_server y))")
        (auto simp: abstract_state_def ledger_of_def Get_def count_eq_zero_iff)
  qed
qed

lemma coordinator_loads_witness:
  "\<exists>y w. reachable sampleLibs raceConfig y \<and> Get ''w1'' (registry (sy_server y)) = Some w \<and> ActiveTasks w = 2"
proof -
  obtain y where y: "reachable sampleLibs raceConfig y" "sy_running y = {#CompileJob raceTicket, CompileJob raceTicket#}"
    "Get ''w1'' (registry (sy_server y)) = Some (incrementWorker (incrementWorker raceWorker))"
    using race_reachable[of sampleLibs] by blast
  have "ActiveTasks (incrementWorker (incrementWorker raceWorker)) = 2"
    using coordinator_loads[OF y(1)] y(2,3) raceWorker_fields(1) by (simp add: raceTicket_def)
  with y show ?thesis by blast
qed

text \<open>
  C40. When the last call has returned, nothing is left behind: no active and no queued task, every
  worker's count is zero and none is marked busy, and the total splits into successes and
  failures.
\<close>

theorem coordinator_quiescent:
  assumes "reachable L cfg y" and "sy_selected y = {#}" and "sy_running y = {#}"
  shows "activeTasks (sy_server y) = 0 \<and> queuedTasks (sy_server y) = 0
    \<and> totalTasks (sy_server y) = wrap64 (successTasks (sy_server y) + failedTasks (sy_server y))
    \<and> (\<forall>wid w. Get wid (registry (sy_server y)) = Some w \<longrightarrow> ActiveTasks w = 0 \<and> State w \<noteq> WorkerStateBusy)"
proof -
  have c: "counters_ok (abstract_state y)" and l: "load_ok (abstract_state y)" and r: "registry_inv (registry (sy_server y))"
    using reachable_inv[OF assms(1)] by (simp_all add: system_inv_def ledger_inv_def)
  have idle: "ActiveTasks w = 0" if "Get wid (registry (sy_server y)) = Some w" for wid w
    using load_ok_cell[OF l, of wid] assms(2,3) that by (simp add: abstract_state_def ledger_of_def Get_def)
  have "State w \<noteq> WorkerStateBusy" if "Get wid (registry (sy_server y)) = Some w" for wid w
    using r idle[OF that] that by (metis Get_def registry_inv_def worker_inv_def less_irrefl)
  with c idle assms(2,3) show ?thesis
    by (simp add: counters_ok_def abstract_state_def ledger_of_def)
qed

lemma coordinator_quiescent_witness:
  "\<exists>y. reachable sampleLibs raceConfig y \<and> Get ''w1'' (registry (sy_server y)) = Some raceWorker \<and>
     queuedTasks (sy_server y) = 0"
proof -
  have "queuedTasks (raceServer :: ((nat \<times> nat) \<times> (nat \<Rightarrow> nat \<Rightarrow> real), nat \<times> (nat \<Rightarrow> real), unit) Server) = 0"
    using coordinator_quiescent[OF race_registered[of sampleLibs]] by simp
  then show ?thesis
    by (intro exI[of _ "\<lparr>sy_server = raceServer, sy_selected = {#}, sy_running = {#}\<rparr>"])
      (simp add: race_registered Get_def race_registry race_start)
qed

text \<open>A call of \<^verbatim>\<open>Compile\<close> that runs alone, in terms of the ledger.\<close>

lemma forwardCompile_conns:
  "workerConns s = workerConns s' \<Longrightarrow> fst (forwardCompile i w s) = fst (forwardCompile i w s')"
  by (simp add: forwardCompile_def split: prod.split sum.split)

lemma forwardCompile_ledger [simp]: "ledger_of (snd (forwardCompile i w s)) = ledger_of s"
  by (simp add: forwardCompile_def split: prod.split sum.split)

lemma compile_dispatch_conns [simp]: "workerConns (compile_dispatch i t s) = workerConns s"
  by (simp add: compile_dispatch_def bookTask_def notifyEvents_def)

lemma compile_select_conns:
  "compile_select L env req s = (res, s') \<Longrightarrow> workerConns s' = workerConns s"
  by (auto simp: compile_select_def Let_def split: if_splits outcome.splits prod.splits)

definition compileReply :: "compile_input \<Rightarrow> string + CompileResponse \<Rightarrow> CompileResponse" where
  "compileReply i reply =
     (case reply of
        Inl err \<Rightarrow> failedCompile (''worker error: '' @ err)
      | Inr resp \<Rightarrow> resp\<lparr>cs_QueueTimeMs := Milliseconds (time_sub (in_queue i) (in_start i))\<rparr>)"

lemma compile_finish_reply: "fst (compile_finish L i t reply s) = compileReply i reply"
  by (simp add: compile_finish_def Let_def compileReply_def split: sum.split)

lemma Compile_dispatched:
  assumes "compile_select L (in_sched i) req s = (Ok (Inr t), s1)"
  shows "\<exists>s'. Compile L i req s = (Ok (compileReply i (fst (forwardCompile i (ct_worker t) s))), s') \<and>
    ledger_of s' = ledger_of (snd (compile_finish L i t (fst (forwardCompile i (ct_worker t) s)) (compile_dispatch i t s1)))"
proof -
  have "fst (forwardCompile i (ct_worker t) (compile_dispatch i t s1)) = fst (forwardCompile i (ct_worker t) s)"
    using compile_select_conns[OF assms] by (intro forwardCompile_conns) simp
  with assms show ?thesis
    by (auto simp: Compile_def Let_def case_prod_beta compile_finish_reply compile_finish_state)
qed

text \<open>
  C15. A compile request served alone. When no worker can be selected, the client is told so in a
  failed compilation, and the request is not counted: the numbers of all, of successful and of
  failed tasks stay as they were. When a worker is selected, the client gets the worker's answer
  with the queue time filled in, or a failure naming the transport error; the total grows by one,
  and of the two outcomes exactly one is counted once: success when the worker answered with the
  status completed, failure otherwise. In either case the active and queued counters and every
  worker's load are back where they were.
\<close>

theorem Compile_alone:
  assumes "registry_inv (registry s)" and "sched_ready (scheduler s)" and "cr_TaskId req \<noteq> ''''"
    and "\<And>wid w. Get wid (registry s) = Some w \<Longrightarrow> ActiveTasks w < 2 ^ 31 - 1"
    and "is_int64 (activeTasks s)" and "is_int64 (queuedTasks s)"
  shows "\<exists>resp s'. Compile L i req s = (Ok resp, s') \<and>
    (\<forall>wid. map_option ActiveTasks (Get wid (registry s')) = map_option ActiveTasks (Get wid (registry s))) \<and>
    activeTasks s' = activeTasks s \<and> queuedTasks s' = queuedTasks s \<and>
    (case fst (SelectWith (lib_gonum L) (circuitChecker L (env_now (in_sched i)) s) (registry s) (in_sched i) BUILD_TYPE_CPP
             (cr_TargetArch req) (clientOSFilter req) (compileContext req) (scheduler s)) of
       Ok (w, info) \<Rightarrow>
         resp = compileReply i (fst (forwardCompile i w s)) \<and> totalTasks s' = wrap64 (totalTasks s + 1) \<and>
         (if compileSucceeded (fst (forwardCompile i w s))
          then successTasks s' = wrap64 (successTasks s + 1) \<and> failedTasks s' = failedTasks s
          else successTasks s' = successTasks s \<and> failedTasks s' = wrap64 (failedTasks s + 1))
     | Err e \<Rightarrow>
         resp = failedCompile (''no worker available: '' @ sched_error_string e) \<and> totalTasks s' = totalTasks s \<and>
         successTasks s' = successTasks s \<and> failedTasks s' = failedTasks s
     | Panic \<Rightarrow> False)"
    (is "\<exists>resp s'. _ \<and> _ \<and> _ \<and> _ \<and> (case ?sel of Ok _ \<Rightarrow> _ | Err _ \<Rightarrow> _ | Panic \<Rightarrow> _)")
proof (cases ?sel)
  case (Ok p)
  then obtain w info where p: "?sel = Ok (w, info)" by (cases p) auto
  then obtain sched where "SelectWith (lib_gonum L) (circuitChecker L (env_now (in_sched i)) s) (registry s) (in_sched i)
      BUILD_TYPE_CPP (cr_TargetArch req) (clientOSFilter req) (compileContext req) (scheduler s) = (Ok (w, info), sched)"
    by (metis prod.collapse)
  then obtain t s1 where t: "compile_select L (in_sched i) req s = (Ok (Inr t), s1)" "ct_worker t = w"
    using assms(3) by (simp add: compile_select_def Let_def circuitChecker_def)
  note sel = compile_select_Inr[OF t(1)]
  obtain s' where s': "Compile L i req s = (Ok (compileReply i (fst (forwardCompile i w s))), s')"
      "ledger_of s' = ledger_of (snd (compile_finish L i t (fst (forwardCompile i w s)) (compile_dispatch i t s1)))"
    using Compile_dispatched[OF t(1)] t(2) by blast
  have bounds: "0 \<le> n \<and> n < 2 ^ 31 - 1" if "lg_load (ledger_of s1) v = Some n" for v n
    using that sel assms(1,4) by (auto simp: ledger_of_def enqueue_def Get_def registry_inv_def worker_inv_def)
  have "lg_load (ledger_of s') = lg_load (ledger_of s)" "lg_active (ledger_of s') = wrap64 (lg_active (ledger_of s))"
    "lg_queued (ledger_of s') = wrap64 (lg_queued (ledger_of s))"
    "lg_total (ledger_of s') = wrap64 (lg_total (ledger_of s) + 1)"
    and outcome: "if compileSucceeded (fst (forwardCompile i w s))
      then lg_success (ledger_of s') = wrap64 (lg_success (ledger_of s) + 1) \<and> lg_failed (ledger_of s') = lg_failed (ledger_of s)
      else lg_success (ledger_of s') = lg_success (ledger_of s) \<and> lg_failed (ledger_of s') = wrap64 (lg_failed (ledger_of s) + 1)"
    unfolding s'(2) using compiling.call_keeps_load[where s = s1, OF bounds] sel
    by (simp_all add: compiling.call_counts enqueue_def)
  then have "\<forall>wid. map_option ActiveTasks (Get wid (registry s')) = map_option ActiveTasks (Get wid (registry s))"
    "activeTasks s' = activeTasks s" "queuedTasks s' = queuedTasks s" "totalTasks s' = wrap64 (totalTasks s + 1)"
    using assms(5,6) by (simp_all add: ledger_of_def Get_def fun_eq_iff wrap64_id)
  moreover have "if compileSucceeded (fst (forwardCompile i w s))
      then successTasks s' = wrap64 (successTasks s + 1) \<and> failedTasks s' = failedTasks s
      else successTasks s' = successTasks s \<and> failedTasks s' = wrap64 (failedTasks s + 1)"
    using outcome by (simp add: ledger_of_def split: if_splits)
  ultimately show ?thesis using s'(1) p by auto
next
  case (Err e)
  then show ?thesis
    using assms(3,5,6)
    by (auto simp: Compile_def compile_select_def Let_def circuitChecker_def wrap64_id split: prod.splits)
next
  case Panic
  then show ?thesis
    using configured.select_no_panic[where s = "(circuitChecker L (env_now (in_sched i)) s, compileContext req, scheduler s)"
        and G = "lib_gonum L"] assms(2) by simp
qed

lemma Compile_alone_witness:
  "\<exists>s'. Compile sampleLibs raceInput raceCompile (raceServer :: sample_server) = (Ok (failedCompile ''worker error: lost''), s') \<and>
     totalTasks s' = 1 \<and> failedTasks s' = 1 \<and> successTasks s' = 0"
proof -
  let ?s = "raceServer :: sample_server"
  obtain s1 where s1: "compile_select sampleLibs raceEnv raceCompile ?s = (Ok (Inr raceTicket), s1)"
    using race_select[OF race_start, of sampleLibs] by blast
  have sel: "fst (SelectWith (lib_gonum sampleLibs) (circuitChecker sampleLibs (env_now raceEnv) ?s) raceRegistry
      raceEnv BUILD_TYPE_CPP (cr_TargetArch raceCompile) (clientOSFilter raceCompile) (compileContext raceCompile)
      (scheduler ?s)) = Ok (raceWorker, emptyDispatchInfo)"
    using compile_select_Inr[OF s1] by (simp add: raceTicket_def race_start(1))
  have small: "ActiveTasks w < 2 ^ 31 - 1" if "Get wid raceRegistry = Some w" for wid w
    using that by (auto simp: Get_def race_registry raceWorker_fields split: if_splits)
  have fwd: "fst (forwardCompile raceInput raceWorker ?s) = Inl ''lost''"
    by (simp add: forwardCompile_def raceInput_def connPool_get_def connPool_lookup_def connPool_dial_def
        connPool_insert_def split: option.split prod.split)
  have inv: "registry_inv (registry ?s)"
    using reachable_inv[OF race_registered[of sampleLibs]] by (simp add: system_inv_def)
  have zero: "totalTasks ?s = 0" "successTasks ?s = 0" "failedTasks ?s = 0"
    "is_int64 (activeTasks ?s)" "is_int64 (queuedTasks ?s)"
    by (simp_all add: raceServer_def Handshake_def raceHandshake_def Server_New_def raceConfig_def DefaultConfig_def
        Let_def is_int64_def)
  have ready: "sched_ready (scheduler ?s)" by (simp add: race_start)
  have tid: "cr_TaskId raceCompile \<noteq> ''''" and env: "in_sched raceInput = raceEnv"
    by (simp_all add: raceCompile_def raceInput_def)
  from Compile_alone[OF inv ready tid, of sampleLibs raceInput] zero sel small fwd show ?thesis
    by (auto simp: env race_start compileReply_def wrap64_def withoutInfo_def compileSucceeded_def)
qed

text \<open>
  Finding: the circuit breakers are wired to the schedulers and to the dashboard but never fed.
  No handler calls \<^verbatim>\<open>Execute\<close>, so in every reachable state every breaker reads as closed: a
  worker that fails all its tasks is never isolated.
\<close>

theorem circuits_never_open:
  assumes "reachable L cfg y"
  shows "\<not> fst (IsOpen (lib_breaker L) now wid (circuitManager (sy_server y)))
    \<and> fst (GetState (lib_breaker L) now wid (circuitManager (sy_server y))) = CircuitClosed"
  using reachable_inv[OF assms] by (simp add: system_inv_def IsOpen_def GetState_def)

lemma circuits_never_open_witness:
  "\<exists>y. reachable sampleLibs raceConfig y \<and> \<not> fst (IsOpen (lib_breaker sampleLibs) 0 ''w1'' (circuitManager (sy_server y)))"
  using circuits_never_open[OF race_registered[of sampleLibs]] race_registered[of sampleLibs] by blast

text \<open>
  C38. A call that books the worker it has just selected stays within the worker's limit, for every
  scheduler that respects capacity.
\<close>

theorem dispatch_within_capacity:
  assumes "registry_inv (registry s)" and "iter_order (workers (registry s)) (env_order env)"
    and "sched_capacity (scheduler s)" and "MaxParallel (ct_worker t) < 2 ^ 31"
    and "compile_select L env req s = (Ok (Inr t), s')"
  shows "\<exists>w. Get (ID (ct_worker t)) (registry (compile_dispatch i t s')) = Some w \<and>
    ActiveTasks w = ActiveTasks (ct_worker t) + 1 \<and> ActiveTasks w \<le> maxParallel w"
proof -
  note sel = compile_select_Inr[OF assms(5)]
  have reg: "Get (ID (ct_worker t)) (registry s) = Some (ct_worker t)"
    using SelectWith_registered[OF assms(1,2)] sel by blast
  have cap: "ActiveTasks (ct_worker t) < maxParallel (ct_worker t)"
    using SelectWith_capacity assms(3) sel by blast
  moreover have "0 \<le> ActiveTasks (ct_worker t)"
    using assms(1) reg by (auto simp: registry_inv_def worker_inv_def Get_def)
  ultimately have "is_int32 (ActiveTasks (ct_worker t) + 1)"
    using assms(4) by (auto simp: is_int32_def maxParallel_def split: if_splits)
  then have "ActiveTasks (incrementWorker (ct_worker t)) = ActiveTasks (ct_worker t) + 1"
    "maxParallel (incrementWorker (ct_worker t)) = maxParallel (ct_worker t)"
    by (simp_all add: incrementWorker_def wrap32_id maxParallel_def)
  moreover have "Get (ID (ct_worker t)) (registry (compile_dispatch i t s')) = Some (incrementWorker (ct_worker t))"
    using reg sel by (simp add: compile_dispatch_def bookTask_def Get_def IncrementTasks_def or_unchanged_def updateWorker_def)
  ultimately show ?thesis using cap by simp
qed

lemma dispatch_within_capacity_witness:
  "\<exists>(s' :: (unit, unit, unit) Server) w.
     Get ''w1'' (registry (compile_dispatch raceInput raceTicket s')) = Some w \<and> ActiveTasks w = 1 \<and> maxParallel w \<ge> 1"
proof -
  fix L :: "(unit, unit, unit) libs"
  obtain s' where s': "compile_select L raceEnv raceCompile raceServer = (Ok (Inr raceTicket), s')"
    using race_select[OF race_start, of L] by blast
  have "registry_inv (registry (raceServer :: (unit, unit, unit) Server))"
    "iter_order (workers (registry (raceServer :: (unit, unit, unit) Server))) (env_order raceEnv)"
    "sched_capacity (scheduler (raceServer :: (unit, unit, unit) Server))"
    using race_order reachable_inv[OF race_registered[of L]] by (simp_all add: race_start system_inv_def)
  from dispatch_within_capacity[OF this _ s', of raceInput] show ?thesis
    using raceWorker_fields by (fastforce simp: raceTicket_def)
qed

text \<open>
  Finding: selection and booking are two separate critical sections. Two concurrent calls can
  select the same free slot, and then a worker runs more tasks than its limit although the
  configured scheduler respects capacity. Here a worker that takes one task is given two.
\<close>

theorem capacity_race:
  "\<exists>y w. reachable L raceConfig y \<and> sched_capacity (newScheduler (cfg_SchedulerType raceConfig) 0 0 :: ('a, 'b) Scheduler) \<and>
     Get ''w1'' (registry (sy_server y)) = Some w \<and> maxParallel w = 1 \<and> ActiveTasks w = 2"
proof -
  obtain y where y: "reachable L raceConfig y"
    "Get ''w1'' (registry (sy_server y)) = Some (incrementWorker (incrementWorker raceWorker))"
    using race_reachable[of L] by blast
  have "maxParallel (incrementWorker (incrementWorker raceWorker)) = 1"
    "ActiveTasks (incrementWorker (incrementWorker raceWorker)) = 2"
    by (simp_all add: maxParallel_def incrementWorker_def raceWorker_fields wrap32_def)
  moreover have "sched_capacity (newScheduler (cfg_SchedulerType raceConfig) 0 0 :: ('a, 'b) Scheduler)"
    by (simp add: raceConfig_def newScheduler_def)
  ultimately show ?thesis using y by blast
qed

end
