(* ===== verification/Compiler.thy ===== *)
theory Compiler
  imports Go_Strings
begin

text \<open>
  Compiler command lines, \<^verbatim>\<open>internal/compiler\<close>: the parser of GCC and Clang command lines and its
  inverse (\<^verbatim>\<open>parser.go\<close>), the command line of the local preprocessor and the handling of its
  output (\<^verbatim>\<open>preprocess.go\<close>), and the translation to MSVC (\<^verbatim>\<open>msvc_flags.go\<close>).
\<close>

subsection \<open>The parser\<close>

datatype CompilerType =
    CompilerUnknown | CompilerGCC | CompilerClang | CompilerGPP | CompilerClangPP | CompilerMSVC

record ParsedArgs =
  Compiler :: string
  CompilerType :: CompilerType
  InputFiles :: "string list"
  OutputFile :: string
  IncludeDirs :: "string list"
  Defines :: "string list"
  Flags :: "string list"
  IsCompileOnly :: bool
  IsPreprocess :: bool
  IsLink :: bool
  TargetArch :: string
  Language :: string
  Standard :: string
  Optimization :: string

definition detectCompilerType :: "string \<Rightarrow> CompilerType" where
  "detectCompilerType compiler =
     (let base = path_Base compiler
      in if Contains base ''clang++'' then CompilerClangPP
         else if Contains base ''clang'' then CompilerClang
         else if Contains base ''g++'' then CompilerGPP
         else if Contains base ''gcc'' then CompilerGCC
         else CompilerUnknown)"

definition isSourceFile :: "string \<Rightarrow> bool" where
  "isSourceFile path \<longleftrightarrow>
     ToLower (path_Ext path) \<in> set [''.c'', ''.cc'', ''.cpp'', ''.cxx'', ''.c++'', ''.m'', ''.mm'', ''.s'', ''.S'']"

definition isObjectFile :: "string \<Rightarrow> bool" where
  "isObjectFile path \<longleftrightarrow> (let ext = ToLower (path_Ext path) in ext = ''.o'' \<or> ext = ''.obj'')"

definition detectLanguage :: "string \<Rightarrow> string" where
  "detectLanguage path =
     (let ext = ToLower (path_Ext path)
      in if ext = ''.c'' then ''c''
         else if ext \<in> set [''.cc'', ''.cpp'', ''.cxx'', ''.c++''] then ''c++''
         else if ext = ''.m'' then ''objective-c''
         else if ext = ''.mm'' then ''objective-c++''
         else if ext \<in> set [''.s'', ''.S''] then ''assembler''
         else '''')"

text \<open>
  One turn of the loop. An option whose value is the next argument and any other argument are
  treated by separate functions; the former matches come first in the source's switch for their
  letter. \<open>addFlag\<close> is \<^verbatim>\<open>p.Flags = append(p.Flags, arg)\<close>.
\<close>

definition addFlag :: "string \<Rightarrow> ParsedArgs \<Rightarrow> ParsedArgs" where
  "addFlag arg p = p\<lparr>Flags := Flags p @ [arg]\<rparr>"

definition takesValue :: "string \<Rightarrow> bool" where
  "takesValue arg \<longleftrightarrow> arg \<in> set [''-o'', ''-I'', ''-D'', ''-x'', ''-march'', ''-mtune'']"

definition parseValue :: "string \<Rightarrow> string \<Rightarrow> ParsedArgs \<Rightarrow> ParsedArgs" where
  "parseValue arg v p =
     (if arg = ''-o'' then p\<lparr>OutputFile := v\<rparr>
      else if arg = ''-I'' then p\<lparr>IncludeDirs := IncludeDirs p @ [v]\<rparr>
      else if arg = ''-D'' then p\<lparr>Defines := Defines p @ [v]\<rparr>
      else if arg = ''-x'' then p\<lparr>Language := v\<rparr>
      else addFlag v (addFlag arg (p\<lparr>TargetArch := v\<rparr>)))"

definition parseArg :: "string \<Rightarrow> ParsedArgs \<Rightarrow> ParsedArgs" where
  "parseArg arg p =
     (if arg = ''-c'' then addFlag arg (p\<lparr>IsCompileOnly := True\<rparr>)
      else if arg = ''-E'' then addFlag arg (p\<lparr>IsPreprocess := True\<rparr>)
      else if arg = ''-S'' then addFlag arg p
      else if HasPrefix arg ''-o'' then p\<lparr>OutputFile := drop 2 arg\<rparr>
      else if HasPrefix arg ''-I'' then p\<lparr>IncludeDirs := IncludeDirs p @ [drop 2 arg]\<rparr>
      else if HasPrefix arg ''-D'' then p\<lparr>Defines := Defines p @ [drop 2 arg]\<rparr>
      else if HasPrefix arg ''-x'' then p\<lparr>Language := drop 2 arg\<rparr>
      else if HasPrefix arg ''-std='' then addFlag arg (p\<lparr>Standard := drop 5 arg\<rparr>)
      else if HasPrefix arg ''-march='' then addFlag arg (p\<lparr>TargetArch := drop 7 arg\<rparr>)
      else if HasPrefix arg ''-O'' then addFlag arg (p\<lparr>Optimization := drop 2 arg\<rparr>)
      else if HasPrefix arg ''-'' then addFlag arg p
      else if isSourceFile arg \<or> isObjectFile arg then p\<lparr>InputFiles := InputFiles p @ [arg]\<rparr>
      else addFlag arg p)"

text \<open>A value option at the end of the line has no value and is ignored.\<close>

fun parse_loop :: "ParsedArgs \<Rightarrow> string list \<Rightarrow> ParsedArgs" where
  "parse_loop p [] = p"
| "parse_loop p (arg # rest) =
     (if takesValue arg
      then (case rest of [] \<Rightarrow> p | v # rest' \<Rightarrow> parse_loop (parseValue arg v p) rest')
      else parse_loop (parseArg arg p) rest)"

definition newParsedArgs :: "string \<Rightarrow> ParsedArgs" where
  "newParsedArgs c =
     \<lparr>Compiler = c, CompilerType = detectCompilerType c, InputFiles = [], OutputFile = '''',
      IncludeDirs = [], Defines = [], Flags = [], IsCompileOnly = False, IsPreprocess = False,
      IsLink = False, TargetArch = '''', Language = '''', Standard = '''', Optimization = ''''\<rparr>"

definition parse_finish :: "ParsedArgs \<Rightarrow> ParsedArgs" where
  "parse_finish p =
     (let p = p\<lparr>IsLink := \<not> IsCompileOnly p \<and> \<not> IsPreprocess p \<and> 0 < length (InputFiles p)\<rparr>
      in if Language p = '''' \<and> 0 < length (InputFiles p)
         then p\<lparr>Language := detectLanguage (hd (InputFiles p))\<rparr> else p)"

fun Parse :: "string list \<Rightarrow> ParsedArgs option" where
  "Parse [] = None"
| "Parse (c # args) = Some (parse_finish (parse_loop (newParsedArgs c) args))"

definition IsDistributable :: "ParsedArgs \<Rightarrow> bool" where
  "IsDistributable p =
     (if \<not> IsCompileOnly p then False
      else if length (InputFiles p) \<noteq> 1 then False
      else if \<not> isSourceFile (hd (InputFiles p)) then False
      else True)"

definition ToArgs :: "ParsedArgs \<Rightarrow> string list" where
  "ToArgs p =
     [Compiler p] @ map (\<lambda>inc. ''-I'' @ inc) (IncludeDirs p) @ map (\<lambda>def. ''-D'' @ def) (Defines p) @
     (if Language p \<noteq> '''' then [''-x'', Language p] else []) @ Flags p @ InputFiles p @
     (if OutputFile p \<noteq> '''' then [''-o'', OutputFile p] else [])"

subsection \<open>Preprocessing\<close>

text \<open>The field \<open>Timeout\<close> of the configuration; the zero value and negative ones mean one minute.\<close>

definition NewPreprocessor :: "int \<Rightarrow> int" where
  "NewPreprocessor timeout = (if timeout \<le> 0 then 60 * Second else timeout)"

definition isPreprocessingFlag :: "string \<Rightarrow> bool" where
  "isPreprocessingFlag flag \<longleftrightarrow>
     list_ex (HasPrefix flag)
       [''-U'', ''-include'', ''-imacros'', ''-isystem'', ''-idirafter'', ''-iprefix'', ''-nostdinc'',
        ''-trigraphs'', ''-fno-'', ''-f''] \<or>
     flag \<in> set [''-nostdinc'', ''-nostdinc++'', ''-trigraphs'', ''-ansi'', ''-traditional'']"

definition buildPreprocessArgs :: "ParsedArgs \<Rightarrow> string \<Rightarrow> string list" where
  "buildPreprocessArgs args sourceFile =
     [''-E''] @ map (\<lambda>inc. ''-I'' @ inc) (IncludeDirs args) @ map (\<lambda>def. ''-D'' @ def) (Defines args) @
     (if Standard args \<noteq> '''' then [''-std='' @ Standard args] else []) @
     (if Language args \<noteq> '''' then [''-x'', Language args] else []) @
     filter isPreprocessingFlag (Flags args) @ [sourceFile]"

abbreviation newline :: char where "newline \<equiv> CHR 0x0A"

definition extractWarnings :: "string \<Rightarrow> string" where
  "extractWarnings stderr =
     Join [newline] (filter (\<lambda>line. line \<noteq> '''' \<and> Contains line ''warning:'')
       (map TrimSpace (Split newline stderr)))"

record PreprocessError =
  pe_SourceFile :: string
  pe_Stderr :: string

definition PreprocessError_Error :: "PreprocessError \<Rightarrow> string" where
  "PreprocessError_Error e =
     ''preprocessing failed for '' @ pe_SourceFile e @ [newline] @
     (if pe_Stderr e \<noteq> ''''
      then concat (map (\<lambda>line. ''  '' @ line @ [newline])
             (filter (\<lambda>line. line \<noteq> '''' \<and> (Contains line ''error:'' \<or> Contains line ''fatal error:''))
               (map TrimSpace (Split newline (pe_Stderr e))))) @
           (if Contains (pe_Stderr e) ''file not found'' \<or> Contains (pe_Stderr e) ''No such file''
            then ''  Hint: Check include paths with -I flag'' @ [newline] else '''')
      else '''')"

text \<open>
  Running the preprocessor: the process is the argument \<open>run\<close>, which maps command, arguments and
  timeout to whether the deadline passed, whether the process failed, and its two outputs.
\<close>

record run_result =
  run_timedOut :: bool
  run_failed :: bool
  run_stdout :: string
  run_stderr :: string

record PreprocessResult =
  PreprocessedSource :: string
  Warnings :: string

datatype preprocess_error = NilArgs | TimedOut int | Failed PreprocessError

definition Preprocess ::
    "(string \<Rightarrow> string list \<Rightarrow> int \<Rightarrow> run_result) \<Rightarrow> int \<Rightarrow> ParsedArgs option \<Rightarrow> string \<Rightarrow>
     (preprocess_error, PreprocessResult) outcome" where
  "Preprocess run defaultTimeout args sourceFile =
     (case args of
        None \<Rightarrow> Err NilArgs
      | Some a \<Rightarrow>
          (let compiler = (if Compiler a = '''' then ''gcc'' else Compiler a);
               r = run compiler (buildPreprocessArgs a sourceFile) defaultTimeout
           in if run_timedOut r then Err (TimedOut defaultTimeout)
              else if run_failed r
              then Err (Failed \<lparr>pe_SourceFile = sourceFile, pe_Stderr = run_stderr r\<rparr>)
              else Ok \<lparr>PreprocessedSource = run_stdout r, Warnings = extractWarnings (run_stderr r)\<rparr>))"

subsection \<open>Translation to MSVC\<close>

definition GCCToMSVCFlags :: "(string \<times> string) list" where
  "GCCToMSVCFlags =
     [(''-c'', ''/c''), (''-o'', ''/Fo''), (''-O0'', ''/Od''), (''-O1'', ''/O1''),
      (''-O2'', ''/O2''), (''-O3'', ''/Ox''), (''-Os'', ''/O1''), (''-Ofast'', ''/Ox /fp:fast''),
      (''-g'', ''/Zi''), (''-g0'', ''''), (''-g1'', ''/Zi''), (''-g2'', ''/Zi''),
      (''-g3'', ''/Zi''), (''-Wall'', ''/W4''), (''-Wextra'', ''/W4''), (''-Werror'', ''/WX''),
      (''-w'', ''/W0''), (''-pedantic'', ''''), (''-Wpedantic'', ''''), (''-Wno-unused'', ''''),
      (''-std=c89'', ''''), (''-std=c99'', ''''), (''-std=c11'', ''/std:c11''),
      (''-std=c17'', ''/std:c17''), (''-std=c++98'', ''''), (''-std=c++03'', ''''),
      (''-std=c++11'', ''/std:c++14''), (''-std=c++14'', ''/std:c++14''),
      (''-std=c++17'', ''/std:c++17''), (''-std=c++20'', ''/std:c++20''),
      (''-std=c++23'', ''/std:c++latest''), (''-std=gnu89'', ''''), (''-std=gnu99'', ''''),
      (''-std=gnu11'', ''/std:c11''), (''-std=gnu17'', ''/std:c17''),
      (''-std=gnu++11'', ''/std:c++14''), (''-std=gnu++14'', ''/std:c++14''),
      (''-std=gnu++17'', ''/std:c++17''), (''-std=gnu++20'', ''/std:c++20''), (''-E'', ''/EP''),
      (''-P'', ''/P''), (''-fexceptions'', ''/EHsc''), (''-fno-exceptions'', ''/EHs-c-''),
      (''-frtti'', ''/GR''), (''-fno-rtti'', ''/GR-''), (''-fPIC'', ''''), (''-fPIE'', ''''),
      (''-fpic'', ''''), (''-fpie'', ''''), (''-fno-pic'', ''''),
      (''-finline-functions'', ''/Ob2''), (''-fno-inline-functions'', ''/Ob0''),
      (''-fno-inline'', ''/Ob0''), (''-fstack-protector'', ''/GS''),
      (''-fstack-protector-all'', ''/GS''), (''-fstack-protector-strong'', ''/GS''),
      (''-fno-stack-protector'', ''/GS-''), (''-pipe'', ''''), (''-pthread'', ''''),
      (''-fdiagnostics-color'', ''''), (''-fcolor-diagnostics'', ''''),
      (''-fvisibility=hidden'', ''''), (''-fvisibility=default'', ''''), (''-m32'', ''''),
      (''-m64'', ''''), (''-march=native'', '''')]"

text \<open>
  What the table gives for an argument: nothing where there is no entry or an empty one.
  \<open>split\<close> says whether the source splits the entry at spaces.
\<close>

definition tableFlag :: "bool \<Rightarrow> string \<Rightarrow> string list" where
  "tableFlag split arg =
     (case map_of GCCToMSVCFlags arg of
        None \<Rightarrow> []
      | Some t \<Rightarrow> if t = '''' then [] else if split then Fields t else [t])"

definition msvcOutput :: "string \<Rightarrow> string" where
  "msvcOutput outFile =
     (if HasSuffix outFile ''.o'' \<or> HasSuffix outFile ''.obj'' then ''/Fo'' @ outFile else ''/Fe'' @ outFile)"

definition msvcValue :: "string \<Rightarrow> string \<Rightarrow> string list" where
  "msvcValue arg v =
     (if arg = ''-o'' then [msvcOutput v]
      else if arg = ''-I'' then [''/I'' @ v]
      else if arg = ''-D'' then [''/D'' @ v]
      else if arg = ''-U'' then [''/U'' @ v]
      else if v = ''c'' then [''/Tc''] else if v = ''c++'' then [''/Tp''] else [])"

definition msvcArg :: "string \<Rightarrow> string list" where
  "msvcArg arg =
     (if HasPrefix arg ''-o'' then [msvcOutput (drop 2 arg)]
      else if HasPrefix arg ''-I'' then [''/I'' @ drop 2 arg]
      else if HasPrefix arg ''-D'' then [''/D'' @ drop 2 arg]
      else if HasPrefix arg ''-U'' then [''/U'' @ drop 2 arg]
      else if HasPrefix arg ''-Wno-'' then []
      else if HasPrefix arg ''-W'' then tableFlag False arg
      else if HasPrefix arg ''-f'' then tableFlag True arg
      else if HasPrefix arg ''-std='' then tableFlag False arg
      else if HasPrefix arg ''-m'' then []
      else if HasPrefix arg ''-O'' then tableFlag True arg
      else if HasPrefix arg ''-g'' then tableFlag False arg
      else if map_of GCCToMSVCFlags arg \<noteq> None then tableFlag True arg
      else if HasPrefix arg ''-'' then []
      else [arg])"

fun TranslateToMSVC :: "string list \<Rightarrow> string list" where
  "TranslateToMSVC [] = []"
| "TranslateToMSVC (arg # args) =
     (if arg \<in> set [''-o'', ''-I'', ''-D'', ''-U'', ''-x''] \<and> args \<noteq> []
      then msvcValue arg (hd args) @ TranslateToMSVC (tl args)
      else msvcArg arg @ TranslateToMSVC args)"

definition MSVCToCLFlags :: "string list \<Rightarrow> string list" where
  "MSVCToCLFlags existing =
     existing @
     (if ''/nologo'' \<notin> set existing then [''/nologo''] else []) @
     (if \<not> list_ex (\<lambda>flag. HasPrefix flag ''/EH'') existing then [''/EHsc''] else []) @
     (if ''/permissive-'' \<notin> set existing then [''/permissive-''] else [])"

definition IsMSVCCompiler :: "string \<Rightarrow> bool" where
  "IsMSVCCompiler compiler \<longleftrightarrow>
     (let base = ToLower compiler in Contains base ''cl.exe'' \<or> base = ''cl'')"

subsection \<open>Printing and parsing again\<close>

text \<open>
  The fields that are computed from arguments which are also kept in \<open>Flags\<close>, copied from
  \<open>p\<close> to \<open>q\<close>; a state in which none of them is set; and what the loop keeps true of its state:
  parsing its flags again from such a state sets just these fields, whatever follows.
\<close>

definition copyFlags :: "ParsedArgs \<Rightarrow> ParsedArgs \<Rightarrow> ParsedArgs" where
  "copyFlags p q =
     q\<lparr>Flags := Flags p, IsCompileOnly := IsCompileOnly p, IsPreprocess := IsPreprocess p,
       TargetArch := TargetArch p, Standard := Standard p, Optimization := Optimization p\<rparr>"

definition noFlags :: "ParsedArgs \<Rightarrow> bool" where
  "noFlags q \<longleftrightarrow> copyFlags (newParsedArgs '''') q = q"

definition reparses :: "ParsedArgs \<Rightarrow> bool" where
  "reparses p \<longleftrightarrow>
     (\<forall>q ys. noFlags q \<longrightarrow> parse_loop q (Flags p @ ys) = parse_loop (copyFlags p q) ys) \<and>
     (\<forall>f \<in> set (InputFiles p). \<not> HasPrefix f ''-'' \<and> (isSourceFile f \<or> isObjectFile f))"

lemma copyFlags_other [simp]:
  "copyFlags (p\<lparr>OutputFile := a\<rparr>) q = copyFlags p q" "copyFlags (p\<lparr>IncludeDirs := b\<rparr>) q = copyFlags p q"
  "copyFlags (p\<lparr>Defines := b\<rparr>) q = copyFlags p q" "copyFlags (p\<lparr>Language := a\<rparr>) q = copyFlags p q"
  "copyFlags (p\<lparr>InputFiles := b\<rparr>) q = copyFlags p q"
  by (simp_all add: copyFlags_def)

lemma reparses_other:
  "reparses p \<Longrightarrow> reparses (p\<lparr>OutputFile := a\<rparr>)" "reparses p \<Longrightarrow> reparses (p\<lparr>IncludeDirs := b\<rparr>)"
  "reparses p \<Longrightarrow> reparses (p\<lparr>Defines := b\<rparr>)" "reparses p \<Longrightarrow> reparses (p\<lparr>Language := a\<rparr>)"
  by (simp_all add: reparses_def)

text \<open>An argument that is kept as a flag has the same effect when it is parsed again.\<close>

lemma reparses_flag:
  assumes p: "reparses p" and nv: "\<not> takesValue arg"
    and same: "\<And>q. parseArg arg (copyFlags p q) = copyFlags (parseArg arg p) q"
    and flags: "Flags (parseArg arg p) = Flags p @ [arg]" and inp: "InputFiles (parseArg arg p) = InputFiles p"
  shows "reparses (parseArg arg p)"
proof -
  have "parse_loop q (Flags (parseArg arg p) @ ys) = parse_loop (copyFlags (parseArg arg p) q) ys"
    if "noFlags q" for q ys
  proof -
    have "parse_loop q (Flags p @ arg # ys) = parse_loop (copyFlags p q) (arg # ys)"
      using p that by (simp add: reparses_def)
    then show ?thesis using nv flags same[of q] by simp
  qed
  then show ?thesis using p inp by (simp add: reparses_def)
qed


lemma reparses_input:
  assumes "reparses p" and "\<not> HasPrefix f ''-''" and "isSourceFile f \<or> isObjectFile f"
  shows "reparses (p\<lparr>InputFiles := InputFiles p @ [f]\<rparr>)"
  using assms by (auto simp: reparses_def)

text \<open>The arguments that end in a field other than \<open>Flags\<close>.\<close>

definition structured :: "string \<Rightarrow> bool" where
  "structured arg \<longleftrightarrow>
     HasPrefix arg ''-o'' \<or> HasPrefix arg ''-I'' \<or> HasPrefix arg ''-D'' \<or> HasPrefix arg ''-x'' \<or>
     \<not> HasPrefix arg ''-'' \<and> (isSourceFile arg \<or> isObjectFile arg)"

lemma parseArg_flag:
  assumes "\<not> structured arg"
  shows "parseArg arg (copyFlags p q) = copyFlags (parseArg arg p) q"
    and "Flags (parseArg arg p) = Flags p @ [arg]" and "InputFiles (parseArg arg p) = InputFiles p"
  using assms by (auto simp: structured_def parseArg_def addFlag_def copyFlags_def)

lemma short_options [simp]:
  "\<not> HasPrefix ''-c'' ''-o''" "\<not> HasPrefix ''-c'' ''-I''" "\<not> HasPrefix ''-c'' ''-D''" "\<not> HasPrefix ''-c'' ''-x''"
  "\<not> HasPrefix ''-E'' ''-o''" "\<not> HasPrefix ''-E'' ''-I''" "\<not> HasPrefix ''-E'' ''-D''" "\<not> HasPrefix ''-E'' ''-x''"
  "\<not> HasPrefix ''-S'' ''-o''" "\<not> HasPrefix ''-S'' ''-I''" "\<not> HasPrefix ''-S'' ''-D''" "\<not> HasPrefix ''-S'' ''-x''"
  "HasPrefix ''-c'' ''-''" "HasPrefix ''-E'' ''-''" "HasPrefix ''-S'' ''-''"
  by (simp_all add: HasPrefix_def)

lemma HasPrefix_dash:
  "HasPrefix arg (CHR ''-'' # s) \<Longrightarrow> HasPrefix arg ''-''"
  by (auto simp: HasPrefix_iff)

lemma reparses_parseArg:
  assumes p: "reparses p" and nv: "\<not> takesValue arg"
  shows "reparses (parseArg arg p)"
proof (cases "structured arg")
  case False
  then show ?thesis using reparses_flag[OF p nv] parseArg_flag by blast
next
  case True
  then have "arg \<noteq> ''-c''" "arg \<noteq> ''-E''" "arg \<noteq> ''-S''" by (auto simp: structured_def)
  moreover have "\<not> HasPrefix arg ''-std=''" "\<not> HasPrefix arg ''-march=''" "\<not> HasPrefix arg ''-O''"
    if "\<not> HasPrefix arg ''-''"
    using that HasPrefix_dash by blast+
  ultimately show ?thesis
    using True reparses_other[OF p] reparses_input[OF p, of arg] by (auto simp: structured_def parseArg_def)
qed

lemma reparses_parseValue:
  assumes p: "reparses p" and v: "takesValue arg"
  shows "reparses (parseValue arg v p)"
proof (cases "arg = ''-march'' \<or> arg = ''-mtune''")
  case True
  let ?p = "parseValue arg v p"
  have fl: "Flags ?p = Flags p @ [arg, v]" "InputFiles ?p = InputFiles p"
    using True by (elim disjE; simp add: parseValue_def addFlag_def)+
  have same: "parseValue arg v (copyFlags p q) = copyFlags ?p q" for q
    using True by (elim disjE; simp add: parseValue_def addFlag_def copyFlags_def)
  have "parse_loop q (Flags p @ arg # v # ys) = parse_loop (copyFlags ?p q) ys" if "noFlags q" for q ys
  proof -
    have "parse_loop q (Flags p @ arg # v # ys) = parse_loop (copyFlags p q) (arg # v # ys)"
      using p that by (simp add: reparses_def)
    then show ?thesis using v same by simp
  qed
  then show ?thesis using p fl by (simp add: reparses_def)
next
  case False
  then show ?thesis using v reparses_other[OF p] by (auto simp: takesValue_def parseValue_def)
qed

lemma reparses_loop: "reparses p \<Longrightarrow> reparses (parse_loop p args)"
proof (induction p args rule: parse_loop.induct)
  case (2 p arg rest)
  then show ?case
    by (cases "takesValue arg"; cases rest) (simp_all add: reparses_parseArg reparses_parseValue)
qed simp

lemma copyFlags_self: "noFlags q \<Longrightarrow> copyFlags (newParsedArgs c) q = q"
  by (simp add: noFlags_def copyFlags_def newParsedArgs_def)

lemma reparses_new: "reparses (newParsedArgs c)"
proof -
  have "Flags (newParsedArgs c) = []" "InputFiles (newParsedArgs c) = []" by (simp_all add: newParsedArgs_def)
  then show ?thesis by (simp add: reparses_def copyFlags_self)
qed


text \<open>The printed parts, parsed again one after the other.\<close>

lemma parse_include:
  "inc \<noteq> '''' \<Longrightarrow> parse_loop q ((''-I'' @ inc) # ys) = parse_loop (q\<lparr>IncludeDirs := IncludeDirs q @ [inc]\<rparr>) ys"
  by (simp add: takesValue_def parseArg_def HasPrefix_def)

lemma parse_define:
  "def \<noteq> '''' \<Longrightarrow> parse_loop q ((''-D'' @ def) # ys) = parse_loop (q\<lparr>Defines := Defines q @ [def]\<rparr>) ys"
  by (simp add: takesValue_def parseArg_def HasPrefix_def)

lemma parse_includes:
  "'''' \<notin> set incs \<Longrightarrow>
     parse_loop q (map (\<lambda>inc. ''-I'' @ inc) incs @ ys) = parse_loop (q\<lparr>IncludeDirs := IncludeDirs q @ incs\<rparr>) ys"
proof (induction incs arbitrary: q)
  case (Cons inc incs)
  then show ?case using parse_include[of inc q "map (\<lambda>inc. ''-I'' @ inc) incs @ ys"] by auto
qed simp

lemma parse_defines:
  "'''' \<notin> set defs \<Longrightarrow>
     parse_loop q (map (\<lambda>def. ''-D'' @ def) defs @ ys) = parse_loop (q\<lparr>Defines := Defines q @ defs\<rparr>) ys"
proof (induction defs arbitrary: q)
  case (Cons def defs)
  then show ?case using parse_define[of def q "map (\<lambda>def. ''-D'' @ def) defs @ ys"] by auto
qed simp

lemma parse_input:
  assumes "\<not> HasPrefix f ''-''" and "isSourceFile f \<or> isObjectFile f"
  shows "parse_loop q (f # ys) = parse_loop (q\<lparr>InputFiles := InputFiles q @ [f]\<rparr>) ys"
proof -
  have no: "\<not> HasPrefix f (CHR ''-'' # s)" for s using assms(1) HasPrefix_dash by blast
  have "\<not> takesValue f" "f \<noteq> ''-c''" "f \<noteq> ''-E''" "f \<noteq> ''-S''"
    using assms(1) by (auto simp: takesValue_def HasPrefix_def)
  then show ?thesis using no assms by (simp add: parseArg_def)
qed

lemma parse_inputs:
  "\<forall>f \<in> set fs. \<not> HasPrefix f ''-'' \<and> (isSourceFile f \<or> isObjectFile f) \<Longrightarrow>
     parse_loop q (fs @ ys) = parse_loop (q\<lparr>InputFiles := InputFiles q @ fs\<rparr>) ys"
proof (induction fs arbitrary: q)
  case (Cons f fs)
  then show ?case using parse_input[of f q "fs @ ys"] by simp
qed simp

text \<open>What the loop does not change.\<close>

lemma parse_loop_compiler:
  "Compiler (parse_loop p args) = Compiler p \<and> CompilerType (parse_loop p args) = CompilerType p \<and>
   IsLink (parse_loop p args) = IsLink p"
proof (induction p args rule: parse_loop.induct)
  case (2 p arg rest)
  have "Compiler (parseArg arg p) = Compiler p" "CompilerType (parseArg arg p) = CompilerType p"
    "IsLink (parseArg arg p) = IsLink p" by (simp_all add: parseArg_def addFlag_def)
  moreover have "Compiler (parseValue arg v p) = Compiler p" "CompilerType (parseValue arg v p) = CompilerType p"
    "IsLink (parseValue arg v p) = IsLink p" for v by (simp_all add: parseValue_def addFlag_def)
  ultimately show ?case using 2 by (cases "takesValue arg"; cases rest) simp_all
qed simp



lemma parse_ToArgs:
  assumes p: "reparses p" and ne: "'''' \<notin> set (IncludeDirs p)" "'''' \<notin> set (Defines p)"
  shows "parse_loop (newParsedArgs (Compiler p)) (tl (ToArgs p)) =
         p\<lparr>CompilerType := detectCompilerType (Compiler p), IsLink := False\<rparr>"
proof -
  let ?q0 = "newParsedArgs (Compiler p)"
  let ?q1 = "?q0\<lparr>IncludeDirs := IncludeDirs p, Defines := Defines p, Language := Language p\<rparr>"
  let ?out = "if OutputFile p \<noteq> '''' then [''-o'', OutputFile p] else []"
  let ?lang = "if Language p \<noteq> '''' then [''-x'', Language p] else []"
  have "parse_loop ?q0 (tl (ToArgs p)) =
        parse_loop (?q0\<lparr>IncludeDirs := IncludeDirs p, Defines := Defines p\<rparr>) (?lang @ Flags p @ InputFiles p @ ?out)"
    unfolding ToArgs_def by (simp add: parse_includes parse_defines ne newParsedArgs_def)
  also have "\<dots> = parse_loop ?q1 (Flags p @ InputFiles p @ ?out)"
    by (simp add: takesValue_def parseValue_def newParsedArgs_def)
  also have "\<dots> = parse_loop (copyFlags p ?q1) (InputFiles p @ ?out)"
    using p by (simp add: reparses_def noFlags_def copyFlags_def newParsedArgs_def)
  also have "\<dots> = parse_loop ((copyFlags p ?q1)\<lparr>InputFiles := InputFiles p\<rparr>) ?out"
    using p by (simp add: reparses_def parse_inputs copyFlags_def newParsedArgs_def)
  also have "\<dots> = p\<lparr>CompilerType := detectCompilerType (Compiler p), IsLink := False\<rparr>"
    by (simp add: takesValue_def parseValue_def copyFlags_def newParsedArgs_def)
  finally show ?thesis .
qed

text \<open>
  C24. Printing a parsed command line and parsing it again gives the same result, unless it contains
  an include directory or a macro definition that is empty.
\<close>
theorem Parse_ToArgs:
  assumes "Parse args = Some p" and "'''' \<notin> set (IncludeDirs p)" and "'''' \<notin> set (Defines p)"
  shows "Parse (ToArgs p) = Some p"
proof -
  obtain c rest where args: "args = c # rest" using assms(1) by (cases args) auto
  define l where "l = parse_loop (newParsedArgs c) rest"
  have p: "p = parse_finish l" using assms(1) by (simp add: args l_def)
  have l: "reparses l" "Compiler l = c" "CompilerType l = detectCompilerType c" "\<not> IsLink l"
    using reparses_loop[OF reparses_new] parse_loop_compiler[of "newParsedArgs c" rest]
    by (simp_all add: l_def newParsedArgs_def)
  have pf: "InputFiles p = InputFiles l" "Flags p = Flags l" "Compiler p = c"
    "CompilerType p = detectCompilerType c" "copyFlags p q = copyFlags l q" for q
    using l by (simp_all add: p parse_finish_def Let_def copyFlags_def)
  have "reparses p" using l(1) by (simp add: reparses_def pf)
  then have "parse_loop (newParsedArgs c) (tl (ToArgs p)) = p\<lparr>IsLink := False\<rparr>"
    using parse_ToArgs[OF _ assms(2,3)] pf(3,4) by simp
  moreover have "ToArgs p = c # tl (ToArgs p)" by (simp add: ToArgs_def pf)
  ultimately have "Parse (ToArgs p) = Some (parse_finish (p\<lparr>IsLink := False\<rparr>))"
    by (metis Parse.simps(2))
  also have "parse_finish (p\<lparr>IsLink := False\<rparr>) = p"
    using l(4) by (simp add: p parse_finish_def Let_def)
  finally show ?thesis .
qed


theorem Parse_ToArgs_witness:
  "Parse (ToArgs (the (Parse [''gcc'', ''-c'', ''-O2'', ''-I'', ''inc'', ''-DN=1'', ''-march'', ''armv8'', ''a.c'', ''-o'', ''a.o'']))) =
   Parse [''gcc'', ''-c'', ''-O2'', ''-I'', ''inc'', ''-DN=1'', ''-march'', ''armv8'', ''a.c'', ''-o'', ''a.o'']"
proof -
  let ?args = "[''gcc'', ''-c'', ''-O2'', ''-I'', ''inc'', ''-DN=1'', ''-march'', ''armv8'', ''a.c'', ''-o'', ''a.o'']"
  obtain p where p: "Parse ?args = Some p" by simp
  have "IncludeDirs (the (Parse ?args)) = [''inc'']" "Defines (the (Parse ?args)) = [''N=1'']" by code_simp+
  then have "'''' \<notin> set (IncludeDirs p)" "'''' \<notin> set (Defines p)" by (simp_all only: p option.sel) simp_all
  then have "Parse (ToArgs p) = Some p" by (rule Parse_ToArgs[OF p])
  then show ?thesis by (simp only: p option.sel)
qed

text \<open>
  The object file named as the target of a dependency rule counts as an input file, so a
  compilation with the usual dependency options is not distributed.
\<close>
theorem dependency_target_is_input:
  "map_option InputFiles (Parse [''gcc'', ''-c'', ''-MD'', ''-MT'', ''a.o'', ''a.c'']) = Some [''a.o'', ''a.c''] \<and>
   map_option IsDistributable (Parse [''gcc'', ''-c'', ''-MD'', ''-MT'', ''a.o'', ''a.c'']) = Some False"
  by (rule conjI; code_simp)

text \<open>
  The preprocessor's command line keeps an option whose operand is a separate argument and drops
  the operand: here the forced include swallows the source file.
\<close>
theorem preprocess_drops_operand:
  "map_option (\<lambda>p. buildPreprocessArgs p ''a.c'') (Parse [''gcc'', ''-include'', ''config.h'', ''-c'', ''a.c'']) =
   Some [''-E'', ''-x'', ''c'', ''-include'', ''a.c'']"
  by code_simp

text \<open>A line ending in \<^verbatim>\<open>-S\<close> asks for assembly, yet it is classified as a link step.\<close>

lemma assembly_is_link: "map_option IsLink (Parse [''gcc'', ''-S'', ''a.c'']) = Some True"
  by code_simp

subsection \<open>What the MSVC compiler is given\<close>

lemma table_slash: "list_all (\<lambda>(_, t). t = '''' \<or> HasPrefix t ''/'') GCCToMSVCFlags"
  by (simp add: GCCToMSVCFlags_def HasPrefix_def)

lemma table_fields_slash: "list_all (\<lambda>(_, t). list_all (\<lambda>a. HasPrefix a ''/'') (Fields t)) GCCToMSVCFlags"
  by (simp add: GCCToMSVCFlags_def Fields_def chunks_ascii spaceChunk_def IsSpace_def HasPrefix_def)

lemma tableFlag_slash:
  assumes "a \<in> set (tableFlag split arg)"
  shows "HasPrefix a ''/''"
proof (cases "map_of GCCToMSVCFlags arg")
  case None
  then show ?thesis using assms by (simp add: tableFlag_def)
next
  case (Some t)
  then have "a = t \<and> t \<noteq> '''' \<or> a \<in> set (Fields t)"
    using assms by (auto simp: tableFlag_def split: if_splits)
  then show ?thesis
    using map_of_SomeD[OF Some] table_slash table_fields_slash by (auto simp: list_all_iff)
qed

lemma slash_flag [simp]: "HasPrefix (slash # s) ''/''"
  by (simp add: HasPrefix_def)

lemma msvcOutput_slash: "HasPrefix (msvcOutput f) ''/''"
  by (simp add: msvcOutput_def)

lemma msvcArg_cases: "a \<in> set (msvcArg arg) \<Longrightarrow> HasPrefix a ''/'' \<or> a = arg \<and> \<not> HasPrefix a ''-''"
  unfolding msvcArg_def using tableFlag_slash[of a] msvcOutput_slash
  by (auto split: if_splits)

lemma msvcValue_slash: "a \<in> set (msvcValue arg v) \<Longrightarrow> HasPrefix a ''/''"
  unfolding msvcValue_def using msvcOutput_slash by (auto split: if_splits)

lemma msvcArg_operand:
  assumes "\<not> HasPrefix arg ''-''"
  shows "msvcArg arg = [arg]"
proof -
  have no: "\<not> HasPrefix arg (CHR ''-'' # s)" for s using assms HasPrefix_dash by blast
  have "list_all (\<lambda>(k, _). HasPrefix k ''-'') GCCToMSVCFlags" by code_simp
  then have "map_of GCCToMSVCFlags arg = None"
    using assms by (auto simp: map_of_eq_None_iff list_all_iff)
  then show ?thesis using no by (simp add: msvcArg_def)
qed

text \<open>The arguments that are neither options nor values of the options that take one.\<close>

fun operands :: "string list \<Rightarrow> string list" where
  "operands [] = []"
| "operands (arg # args) =
     (if arg \<in> set [''-o'', ''-I'', ''-D'', ''-U'', ''-x''] \<and> args \<noteq> [] then operands (tl args)
      else if HasPrefix arg ''-'' then operands args else arg # operands args)"

text \<open>
  The translated command line consists of MSVC options and of the operands of the original one; no
  GNU option is left, and on a line whose operands are relative paths all of them are there, in
  order, next to options only.
\<close>
theorem TranslateToMSVC_operands:
  "(\<forall>a \<in> set (TranslateToMSVC args). HasPrefix a ''/'' \<or> a \<in> set (operands args)) \<and>
   filter (\<lambda>a. \<not> HasPrefix a ''/'') (TranslateToMSVC args) = filter (\<lambda>a. \<not> HasPrefix a ''/'') (operands args)"
proof (induction args rule: TranslateToMSVC.induct)
  case (2 arg args)
  show ?case
  proof (cases "arg \<in> set [''-o'', ''-I'', ''-D'', ''-U'', ''-x''] \<and> args \<noteq> []")
    case True
    have "filter (\<lambda>a. \<not> HasPrefix a ''/'') (msvcValue arg v) = []" for v
      using msvcValue_slash by (auto simp: filter_empty_conv)
    then show ?thesis using 2 True msvcValue_slash by auto
  next
    case False
    then have rest: "TranslateToMSVC (arg # args) = msvcArg arg @ TranslateToMSVC args"
      "operands (arg # args) = (if HasPrefix arg ''-'' then operands args else arg # operands args)"
      by (auto simp del: set_simps)
    have IH: "(\<forall>a \<in> set (TranslateToMSVC args). HasPrefix a ''/'' \<or> a \<in> set (operands args)) \<and>
      filter (\<lambda>a. \<not> HasPrefix a ''/'') (TranslateToMSVC args) = filter (\<lambda>a. \<not> HasPrefix a ''/'') (operands args)"
      using 2 False by blast
    show ?thesis
    proof (cases "HasPrefix arg ''-''")
      case dash: True
      have "\<forall>a \<in> set (msvcArg arg). HasPrefix a ''/''" using msvcArg_cases dash by blast
      then show ?thesis unfolding rest using IH dash by (auto simp: filter_empty_conv)
    next
      case False
      then show ?thesis unfolding rest using IH by (auto simp: msvcArg_operand)
    qed
  qed
qed simp

lemma MSVCToCLFlags_idem: "MSVCToCLFlags (MSVCToCLFlags fs) = MSVCToCLFlags fs"
  by (auto simp: MSVCToCLFlags_def HasPrefix_def)

end
