(* ===== verification/Cache_Store.thy ===== *)
theory Cache_Store
  imports Cache_Key Go_Strings
begin

text \<open>
  The local artifact cache, \<^verbatim>\<open>internal/cache/store.go\<close>: entries in memory, one file per entry
  and an index file on disk, a time to live, and eviction of the least recently used entries.

  The model is of a Unix host with an absolute cache directory: a path is its list of
  components, and \<open>path_join\<close> cleans them as \<^verbatim>\<open>filepath.Join\<close> does. The disk is part of the
  state; which system calls fail during an operation is the argument \<open>faults\<close>. The JSON
  encoding of the index is the parameter record \<open>json_codec\<close>, where a decoded element is
  \<open>None\<close> for a JSON \<^verbatim>\<open>null\<close>. Each operation is one step on the state; \<open>ord\<close> is the order in which
  it ranges over the entries.
\<close>

subsection \<open>State\<close>

record Entry =
  e_Key :: string
  e_Size :: int
  e_CreatedAt :: int
  e_AccessedAt :: int
  e_Hits :: int

record Store =
  st_dir :: "string list"
  st_maxSize :: int
  st_ttl :: int
  st_entries :: "(string, Entry) fmap"
  st_totalSize :: int
  disk :: "(string list, bytes) fmap"

text \<open>
  What goes wrong in the system calls of one operation. Writing a file fails before anything
  is written, or after some bytes: the file is then created or truncated, and short.
\<close>

datatype write_fault = NoFault | OpenFault | ShortWrite nat

record os_faults =
  f_mkdir :: bool
  f_write :: write_fault
  f_rename :: bool
  f_open :: bool
  f_read :: bool
  f_remove :: bool
  f_index :: write_fault

definition noFaults :: os_faults where
  "noFaults = \<lparr>f_mkdir = False, f_write = NoFault, f_rename = False, f_open = False, f_read = False,
     f_remove = False, f_index = NoFault\<rparr>"

text \<open>\<^verbatim>\<open>os.WriteFile\<close> (and creating and copying): the new disk and whether it succeeded.\<close>

fun writeFile :: "write_fault \<Rightarrow> string list \<Rightarrow> bytes \<Rightarrow> (string list, bytes) fmap \<Rightarrow> (string list, bytes) fmap" where
  "writeFile NoFault p data d = fmupd p data d"
| "writeFile OpenFault p data d = d"
| "writeFile (ShortWrite n) p data d = fmupd p (take n data) d"

record json_codec =
  jsonEncode :: "Entry list \<Rightarrow> bytes"
  jsonDecode :: "bytes \<Rightarrow> Entry option list option"

datatype store_error = InvalidKey | MkdirError | CreateError | CopyError | RenameError | IndexError

subsection \<open>Paths and keys\<close>

fun split_path :: "string \<Rightarrow> string list" where
  "split_path [] = [[]]"
| "split_path (c # cs) =
     (if c = CHR ''/'' then [] # split_path cs
      else case split_path cs of [] \<Rightarrow> [[c]] | p # ps \<Rightarrow> (c # p) # ps)"

definition path_push :: "string \<Rightarrow> string list \<Rightarrow> string list" where
  "path_push c p = (if c = '''' \<or> c = ''.'' then p else if c = ''..'' then butlast p else p @ [c])"

definition path_join :: "string list \<Rightarrow> string list \<Rightarrow> string list" where
  "path_join base elems = fold path_push (concat (map split_path elems)) base"

definition keyPath :: "string list \<Rightarrow> string \<Rightarrow> string list" where
  "keyPath dir key = (if length key < 2 then path_join dir [key] else path_join dir [take 2 key, key])"

definition indexPath :: "string list \<Rightarrow> string list" where
  "indexPath dir = path_join dir [''index.json'']"

text \<open>On a system that is not Windows only the empty key is refused.\<close>

definition windowsReservedNames :: "string list" where
  "windowsReservedNames =
     [''CON'', ''PRN'', ''AUX'', ''NUL'',
      ''COM1'', ''COM2'', ''COM3'', ''COM4'', ''COM5'', ''COM6'', ''COM7'', ''COM8'', ''COM9'',
      ''LPT1'', ''LPT2'', ''LPT3'', ''LPT4'', ''LPT5'', ''LPT6'', ''LPT7'', ''LPT8'', ''LPT9'']"

definition hasWindowsInvalidChars :: "string \<Rightarrow> bool" where
  "hasWindowsInvalidChars s = list_ex (\<lambda>c. c \<in> set s) [CHR ''<'', CHR ''>'', CHR '':'', CHR 0x22, CHR ''|'', CHR ''?'', CHR ''*'']"

text \<open>
  \<^verbatim>\<open>ToUpper\<close> on ASCII decides the same: the letters outside ASCII with an ASCII upper case give \<open>I\<close>
  and \<open>S\<close>, which no reserved name contains.
\<close>

definition validateCacheKey :: "bool \<Rightarrow> string \<Rightarrow> bool" where
  "validateCacheKey windows key =
     (if key = '''' then False
      else if windows then
        \<not> hasWindowsInvalidChars key \<and>
        (let keyUpper = ToUpper key
         in \<not> list_ex (\<lambda>res. keyUpper = res \<or> HasPrefix keyUpper (res @ ''.'') \<or> HasPrefix keyUpper (res @ ''/''))
               windowsReservedNames)
      else True)"

subsection \<open>The index file\<close>

definition saveIndex :: "json_codec \<Rightarrow> os_faults \<Rightarrow> string list \<Rightarrow> Store \<Rightarrow> (store_error, unit) outcome \<times> Store" where
  "saveIndex J faults ord s =
     (if f_index faults = NoFault then Ok () else Err IndexError,
      s\<lparr>disk := writeFile (f_index faults) (indexPath (st_dir s))
                  (jsonEncode J (range_vals (st_entries s) ord)) (disk s)\<rparr>)"

text \<open>An element of the index that is \<^verbatim>\<open>null\<close> decodes to a nil pointer, and reading its key panics.\<close>

fun loadEntries :: "Entry option list \<Rightarrow> Store \<Rightarrow> (store_error, Store) outcome" where
  "loadEntries [] s = Ok s"
| "loadEntries (None # es) s = Panic"
| "loadEntries (Some e # es) s =
     loadEntries es (s\<lparr>st_entries := fmupd (e_Key e) e (st_entries s),
                       st_totalSize := wrap64 (st_totalSize s + e_Size e)\<rparr>)"

definition loadIndex :: "json_codec \<Rightarrow> os_faults \<Rightarrow> Store \<Rightarrow> (store_error, Store) outcome" where
  "loadIndex J faults s =
     (case fmlookup (disk s) (indexPath (st_dir s)) of
        None \<Rightarrow> Ok s
      | Some data \<Rightarrow>
          if f_open faults then Err IndexError
          else case jsonDecode J data of
                 None \<Rightarrow> Err IndexError
               | Some es \<Rightarrow> loadEntries es s)"

definition NewStore ::
    "json_codec \<Rightarrow> os_faults \<Rightarrow> string list \<Rightarrow> int \<Rightarrow> int \<Rightarrow> (string list, bytes) fmap \<Rightarrow> (store_error, Store) outcome" where
  "NewStore J faults dir maxSizeMB ttlHours d =
     (if f_mkdir faults then Err MkdirError
      else
        let s = \<lparr>st_dir = dir, st_maxSize = wrap64 (maxSizeMB * 1024 * 1024),
                 st_ttl = wrap64 (ttlHours * (3600 * Second)),
                 st_entries = fmempty, st_totalSize = 0, disk = d\<rparr>
        in case loadIndex J faults s of
             Ok s' \<Rightarrow> Ok s'
           | Err e \<Rightarrow> Ok (s\<lparr>st_entries := fmempty\<rparr>)
           | Panic \<Rightarrow> Panic)"

subsection \<open>Eviction\<close>

text \<open>The exchange sort of the code, by access time.\<close>

definition sort_inner :: "nat \<Rightarrow> (string \<times> Entry) list \<Rightarrow> (string \<times> Entry) list" where
  "sort_inner i xs =
     fold (\<lambda>j xs. if e_AccessedAt (snd (xs ! i)) > e_AccessedAt (snd (xs ! j))
                  then xs[i := xs ! j, j := xs ! i] else xs)
       [Suc i..<length xs] xs"

definition sort_entries :: "(string \<times> Entry) list \<Rightarrow> (string \<times> Entry) list" where
  "sort_entries xs = fold sort_inner [0..<length xs - 1] xs"

definition removeFile :: "os_faults \<Rightarrow> string list \<Rightarrow> Store \<Rightarrow> Store" where
  "removeFile faults p s = (if f_remove faults then s else s\<lparr>disk := fmdrop p (disk s)\<rparr>)"

fun evict_loop :: "os_faults \<Rightarrow> (string \<times> Entry) list \<Rightarrow> Store \<Rightarrow> Store" where
  "evict_loop faults [] s = s"
| "evict_loop faults ((k, e) # kvs) s =
     (if st_totalSize s \<le> wrap64 (st_maxSize s * 8) sdiv 10 then s
      else evict_loop faults kvs
             (removeFile faults (keyPath (st_dir s) k)
               (s\<lparr>st_entries := fmdrop k (st_entries s), st_totalSize := wrap64 (st_totalSize s - e_Size e)\<rparr>)))"

fun entry_list :: "(string, Entry) fmap \<Rightarrow> string list \<Rightarrow> (string \<times> Entry) list" where
  "entry_list m [] = []"
| "entry_list m (k # ks) = (case fmlookup m k of None \<Rightarrow> entry_list m ks | Some e \<Rightarrow> (k, e) # entry_list m ks)"

definition evictIfNeeded :: "os_faults \<Rightarrow> string list \<Rightarrow> Store \<Rightarrow> Store" where
  "evictIfNeeded faults ord s =
     (if st_totalSize s \<le> st_maxSize s then s
      else evict_loop faults (sort_entries (entry_list (st_entries s) ord)) s)"

subsection \<open>Operations\<close>

definition Store_Delete ::
    "json_codec \<Rightarrow> os_faults \<Rightarrow> string list \<Rightarrow> string \<Rightarrow> Store \<Rightarrow> (store_error, unit) outcome \<times> Store" where
  "Store_Delete J faults ord key s =
     (let s1 = (case fmlookup (st_entries s) key of
                  None \<Rightarrow> s
                | Some e \<Rightarrow> s\<lparr>st_entries := fmdrop key (st_entries s),
                               st_totalSize := wrap64 (st_totalSize s - e_Size e)\<rparr>)
      in saveIndex J faults ord (removeFile faults (keyPath (st_dir s) key) s1))"

definition Store_Get ::
    "json_codec \<Rightarrow> os_faults \<Rightarrow> int \<Rightarrow> string list \<Rightarrow> string \<Rightarrow> Store \<Rightarrow> bytes option \<times> Store" where
  "Store_Get J faults now ord key s =
     (case fmlookup (st_entries s) key of
        None \<Rightarrow> (None, s)
      | Some e \<Rightarrow>
          if time_sub now (e_CreatedAt e) > st_ttl s then (None, snd (Store_Delete J faults ord key s))
          else
            (case (if f_open faults then None else fmlookup (disk s) (keyPath (st_dir s) key)) of
               None \<Rightarrow> (None, snd (Store_Delete J faults ord key s))
             | Some data \<Rightarrow>
                 (Some data,
                  s\<lparr>st_entries := fmupd key (e\<lparr>e_AccessedAt := now, e_Hits := wrap64 (e_Hits e + 1)\<rparr>) (st_entries s)\<rparr>)))"

text \<open>Recording a file of \<open>size\<close> bytes under a key: the common tail of the two writers.\<close>

definition record_entry ::
    "json_codec \<Rightarrow> os_faults \<Rightarrow> int \<Rightarrow> string list \<Rightarrow> string list \<Rightarrow> string \<Rightarrow> int \<Rightarrow> Store \<Rightarrow> (store_error, unit) outcome \<times> Store" where
  "record_entry J faults now ord ord' key sz s =
     (let entry = \<lparr>e_Key = key, e_Size = sz, e_CreatedAt = now, e_AccessedAt = now, e_Hits = 0\<rparr>;
          t = (case fmlookup (st_entries s) key of
                 Some old \<Rightarrow> wrap64 (st_totalSize s - e_Size old) | None \<Rightarrow> st_totalSize s);
          s1 = s\<lparr>st_entries := fmupd key entry (st_entries s), st_totalSize := wrap64 (t + sz)\<rparr>
      in saveIndex J faults ord' (evictIfNeeded faults ord s1))"

definition tmpPath :: "string list \<Rightarrow> string list" where
  "tmpPath p = (if p = [] then [''.tmp''] else butlast p @ [last p @ ''.tmp''])"

definition Store_Put ::
    "bool \<Rightarrow> json_codec \<Rightarrow> os_faults \<Rightarrow> int \<Rightarrow> string list \<Rightarrow> string list \<Rightarrow> string \<Rightarrow> bytes \<Rightarrow> Store \<Rightarrow>
       (store_error, unit) outcome \<times> Store" where
  "Store_Put windows J faults now ord ord' key data s =
     (if \<not> validateCacheKey windows key then (Err InvalidKey, s)
      else if f_mkdir faults then (Err MkdirError, s)
      else
        let path = keyPath (st_dir s) key;
            tmp = tmpPath path;
            s1 = s\<lparr>disk := writeFile (f_write faults) tmp data (disk s)\<rparr>
        in if f_write faults = OpenFault then (Err CreateError, s1)
           else if f_write faults \<noteq> NoFault then (Err CopyError, removeFile faults tmp s1)
           else if f_rename faults then (Err RenameError, removeFile faults tmp s1)
           else record_entry J faults now ord ord' key (int (length data))
                  (s1\<lparr>disk := fmupd path data (fmdrop tmp (disk s1))\<rparr>))"

definition Store_PutBytes ::
    "bool \<Rightarrow> json_codec \<Rightarrow> os_faults \<Rightarrow> int \<Rightarrow> string list \<Rightarrow> string list \<Rightarrow> string \<Rightarrow> bytes \<Rightarrow> Store \<Rightarrow>
       (store_error, unit) outcome \<times> Store" where
  "Store_PutBytes windows J faults now ord ord' key data s =
     (if \<not> validateCacheKey windows key then (Err InvalidKey, s)
      else if f_mkdir faults then (Err MkdirError, s)
      else
        let s1 = s\<lparr>disk := writeFile (f_write faults) (keyPath (st_dir s) key) data (disk s)\<rparr>
        in if f_write faults \<noteq> NoFault then (Err CopyError, s1)
           else record_entry J faults now ord ord' key (int (length data)) s1)"

definition Store_GetBytes ::
    "json_codec \<Rightarrow> os_faults \<Rightarrow> int \<Rightarrow> string list \<Rightarrow> string \<Rightarrow> Store \<Rightarrow> bytes option \<times> Store" where
  "Store_GetBytes J faults now ord key s =
     (case Store_Get J faults now ord key s of
        (None, s') \<Rightarrow> (None, s')
      | (Some data, s') \<Rightarrow> (if f_read faults then None else Some data, s'))"

text \<open>
  Removing every child of the cache directory but \<^verbatim>\<open>index.json\<close>, with all that is below it.
\<close>

definition Store_Clear :: "json_codec \<Rightarrow> os_faults \<Rightarrow> string list \<Rightarrow> Store \<Rightarrow> (store_error, unit) outcome \<times> Store" where
  "Store_Clear J faults ord s =
     (let below = (\<lambda>p. length p > length (st_dir s) \<and> take (length (st_dir s)) p = st_dir s);
          keep = (\<lambda>p. \<not> below p \<or> p ! length (st_dir s) = ''index.json'');
          s1 = s\<lparr>st_entries := fmempty, st_totalSize := 0,
                 disk := (if f_remove faults then disk s else fmfilter keep (disk s))\<rparr>
      in saveIndex J faults ord s1)"

record Stats =
  stat_Entries :: nat
  stat_TotalSize :: int
  stat_MaxSize :: int
  stat_TotalHits :: int

definition Store_Stats :: "string list \<Rightarrow> Store \<Rightarrow> Stats" where
  "Store_Stats ord s =
     \<lparr>stat_Entries = map_len (st_entries s), stat_TotalSize = st_totalSize s, stat_MaxSize = st_maxSize s,
      stat_TotalHits = fold (\<lambda>e t. wrap64 (t + e_Hits e)) (range_vals (st_entries s) ord) 0\<rparr>"

subsection \<open>The exchange sort\<close>

abbreviation accessed :: "string \<times> Entry \<Rightarrow> int" where
  "accessed kv \<equiv> e_AccessedAt (snd kv)"

definition exchange :: "nat \<Rightarrow> nat \<Rightarrow> (string \<times> Entry) list \<Rightarrow> (string \<times> Entry) list" where
  "exchange i j xs = (if accessed (xs ! i) > accessed (xs ! j) then xs[i := xs ! j, j := xs ! i] else xs)"

lemma sort_inner_exchange: "sort_inner i xs = fold (exchange i) [Suc i..<length xs] xs"
  by (simp add: sort_inner_def exchange_def[abs_def])

lemma exchange_mset:
  assumes "i < length xs" and "j < length xs"
  shows "mset (exchange i j xs) = mset xs" and "length (exchange i j xs) = length xs"
  using mset_swap[OF assms(2,1)] by (simp_all add: exchange_def)

text \<open>What the inner loop has established when it reaches position \<open>m\<close>.\<close>

definition inner_inv :: "nat \<Rightarrow> nat \<Rightarrow> (string \<times> Entry) list \<Rightarrow> (string \<times> Entry) list \<Rightarrow> bool" where
  "inner_inv i m xs ys \<longleftrightarrow>
     length ys = length xs \<and> mset ys = mset xs \<and> (\<forall>k < i. ys ! k = xs ! k) \<and>
     (\<forall>k. i < k \<longrightarrow> k < m \<longrightarrow> accessed (ys ! i) \<le> accessed (ys ! k)) \<and>
     (\<forall>k. i \<le> k \<longrightarrow> k < length xs \<longrightarrow> (\<exists>c. i \<le> c \<and> c < length xs \<and> ys ! k = xs ! c))"

lemma inner_inv_step:
  assumes inv: "inner_inv i m xs ys" and "i < m" and "m < length xs"
  shows "inner_inv i (Suc m) xs (exchange i m ys)"
proof -
  let ?zs = "exchange i m ys"
  have len: "length ys = length xs" and im: "i < length ys" "m < length ys"
    using assms by (auto simp: inner_inv_def)
  have zi: "accessed (?zs ! i) \<le> accessed (ys ! i)" "accessed (?zs ! i) \<le> accessed (?zs ! m)"
    using im assms(2) by (auto simp: exchange_def)
  have zk: "?zs ! k = ys ! k" if "k \<noteq> i" "k \<noteq> m" for k
    using that by (simp add: exchange_def)
  have "accessed (?zs ! i) \<le> accessed (?zs ! k)" if "i < k" "k < Suc m" for k
  proof (cases "k = m")
    case False
    with that have "accessed (ys ! i) \<le> accessed (ys ! k)" using inv by (simp add: inner_inv_def)
    with zi(1) zk[of k] that False show ?thesis by simp
  qed (use zi in simp)
  moreover have "\<exists>c. i \<le> c \<and> c < length xs \<and> ?zs ! k = xs ! c" if "i \<le> k" "k < length xs" for k
  proof -
    have "\<exists>k'. i \<le> k' \<and> k' < length xs \<and> ?zs ! k = ys ! k'"
    proof -
      have "?zs ! k = ys ! (if accessed (ys ! i) > accessed (ys ! m) then (if k = i then m else if k = m then i else k) else k)"
        using im that len assms(2) by (auto simp: exchange_def)
      moreover define k' where "k' = (if accessed (ys ! i) > accessed (ys ! m) then (if k = i then m else if k = m then i else k) else k)"
      moreover have "i \<le> k'" "k' < length xs" using that assms(2,3) by (auto simp: k'_def)
      ultimately show ?thesis by auto
    qed
    then show ?thesis using inv by (fastforce simp: inner_inv_def)
  qed
  ultimately show ?thesis
    using inv exchange_mset[OF im] zk assms(2) by (auto simp: inner_inv_def)
qed

lemma sort_inner_inv:
  assumes "i < length xs"
  shows "inner_inv i (length xs) xs (sort_inner i xs)"
proof -
  have "inner_inv i (Suc i + n) xs (fold (exchange i) [Suc i..<Suc i + n] xs)" if "Suc i + n \<le> length xs" for n
    using that
  proof (induction n)
    case 0
    then show ?case by (auto simp: inner_inv_def)
  next
    case (Suc n)
    then have "inner_inv i (Suc (Suc i + n)) xs (exchange i (Suc i + n) (fold (exchange i) [Suc i..<Suc i + n] xs))"
      by (intro inner_inv_step) auto
    then show ?case by (simp add: upt_Suc_append)
  qed
  moreover have "Suc i + (length xs - Suc i) = length xs" using assms by simp
  ultimately show ?thesis unfolding sort_inner_exchange by (metis order_refl)
qed

lemma sort_upto:
  assumes "n \<le> length xs"
  shows "length (fold sort_inner [0..<n] xs) = length xs \<and> mset (fold sort_inner [0..<n] xs) = mset xs \<and>
    (\<forall>a b. a < n \<longrightarrow> a < b \<longrightarrow> b < length xs \<longrightarrow>
       accessed (fold sort_inner [0..<n] xs ! a) \<le> accessed (fold sort_inner [0..<n] xs ! b))"
  using assms
proof (induction n)
  case (Suc n)
  let ?ys = "fold sort_inner [0..<n] xs"
  have len: "length ?ys = length xs" and ms: "mset ?ys = mset xs"
    and ord: "\<And>a b. a < n \<Longrightarrow> a < b \<Longrightarrow> b < length xs \<Longrightarrow> accessed (?ys ! a) \<le> accessed (?ys ! b)"
    using Suc by auto
  have inv: "inner_inv n (length xs) ?ys (sort_inner n ?ys)"
    using sort_inner_inv[of n ?ys] len Suc.prems by simp
  have "accessed (sort_inner n ?ys ! a) \<le> accessed (sort_inner n ?ys ! b)"
    if ab: "a < Suc n" "a < b" "b < length xs" for a b
  proof (cases "a = n")
    case True
    with inv ab show ?thesis by (simp add: inner_inv_def)
  next
    case False
    with ab have a: "a < n" by simp
    have "sort_inner n ?ys ! a = ?ys ! a" using inv a by (simp add: inner_inv_def)
    moreover obtain c where "a < c" "c < length xs" "sort_inner n ?ys ! b = ?ys ! c"
    proof (cases "b < n")
      case True
      with inv ab(2,3) show ?thesis by (intro that[of b]) (auto simp: inner_inv_def)
    next
      case False
      then obtain c where "n \<le> c" "c < length xs" "sort_inner n ?ys ! b = ?ys ! c"
        using inv len ab(3) by (auto simp: inner_inv_def not_less)
      with a show ?thesis by (intro that[of c]) auto
    qed
    ultimately show ?thesis using ord a by simp
  qed
  with inv len ms show ?case by (simp add: inner_inv_def)
qed simp

lemma sort_entries_spec: "mset (sort_entries xs) = mset xs \<and> sorted (map accessed (sort_entries xs))"
proof -
  have s: "length (sort_entries xs) = length xs" "mset (sort_entries xs) = mset xs"
    and ord: "\<And>a b. a < length xs - 1 \<Longrightarrow> a < b \<Longrightarrow> b < length xs \<Longrightarrow>
      accessed (sort_entries xs ! a) \<le> accessed (sort_entries xs ! b)"
    using sort_upto[of "length xs - 1" xs] by (auto simp: sort_entries_def)
  have "sorted (map accessed (sort_entries xs))"
    unfolding sorted_iff_nth_mono_less
  proof (intro allI impI)
    fix a b assume "a < b" "b < length (map accessed (sort_entries xs))"
    with ord[of a b] s(1) show "map accessed (sort_entries xs) ! a \<le> map accessed (sort_entries xs) ! b" by simp
  qed
  with s show ?thesis by simp
qed

subsection \<open>Sizes\<close>

definition total_of :: "(string, Entry) fmap \<Rightarrow> int" where
  "total_of m = (\<Sum>k \<in> fset (fmdom m). case fmlookup m k of None \<Rightarrow> 0 | Some e \<Rightarrow> e_Size e)"

text \<open>Every entry is filed under its key with a non-negative size, and the total is theirs.\<close>

definition store_inv :: "Store \<Rightarrow> bool" where
  "store_inv s \<longleftrightarrow>
     st_totalSize s = wrap64 (total_of (st_entries s)) \<and>
     (\<forall>k e. fmlookup (st_entries s) k = Some e \<longrightarrow> e_Key e = k \<and> 0 \<le> e_Size e)"

lemma total_of_empty [simp]: "total_of fmempty = 0"
  by (simp add: total_of_def)

lemma total_of_drop:
  "total_of (fmdrop k m) = total_of m - (case fmlookup m k of None \<Rightarrow> 0 | Some e \<Rightarrow> e_Size e)"
proof (cases "fmlookup m k")
  case None
  then have "fmdrop k m = m" by (intro fmap_ext) (auto simp: fmlookup_drop)
  with None show ?thesis by simp
next
  case (Some e)
  then have k: "k \<in> fset (fmdom m)" by (meson fmdomI)
  let ?f = "\<lambda>k. case fmlookup m k of None \<Rightarrow> 0 | Some e \<Rightarrow> e_Size e"
  have "total_of (fmdrop k m) = (\<Sum>x \<in> fset (fmdom m) - {k}. ?f x)"
    unfolding total_of_def by (intro sum.cong) auto
  also have "\<dots> = total_of m - ?f k"
    unfolding total_of_def using sum.remove[OF finite_fset k, of ?f] by simp
  finally show ?thesis .
qed

lemma total_of_upd:
  "total_of (fmupd k e m) = total_of m - (case fmlookup m k of None \<Rightarrow> 0 | Some e' \<Rightarrow> e_Size e') + e_Size e"
proof -
  have "fmdrop k (fmupd k e m) = fmdrop k m" by (intro fmap_ext) auto
  with total_of_drop[of k "fmupd k e m"] total_of_drop[of k m] show ?thesis by simp
qed

lemma total_of_nonneg:
  assumes "\<forall>k e. fmlookup m k = Some e \<longrightarrow> 0 \<le> e_Size e"
  shows "0 \<le> total_of m"
  unfolding total_of_def using assms by (intro sum_nonneg) (auto split: option.split)

subsection \<open>Eviction\<close>

definition evict_limit :: "Store \<Rightarrow> int" where
  "evict_limit s = wrap64 (st_maxSize s * 8) sdiv 10"

definition dropped :: "(string \<times> Entry) list \<Rightarrow> (string, Entry) fmap \<Rightarrow> (string, Entry) fmap" where
  "dropped kvs m = fmdrop_set (fst ` set kvs) m"

lemma dropped_Nil [simp]: "dropped [] m = m"
  by (simp add: dropped_def)

lemma dropped_Cons: "dropped (kv # kvs) m = dropped kvs (fmdrop (fst kv) m)"
  by (intro fmap_ext) (auto simp: dropped_def fmlookup_drop_set)

lemma dropped_lookup: "fmlookup (dropped kvs m) k = (if k \<in> fst ` set kvs then None else fmlookup m k)"
  by (simp add: dropped_def fmlookup_drop_set)

lemma removeFile_fields [simp]:
  "st_entries (removeFile f p s) = st_entries s" "st_totalSize (removeFile f p s) = st_totalSize s"
  "st_maxSize (removeFile f p s) = st_maxSize s" "st_dir (removeFile f p s) = st_dir s"
  "st_ttl (removeFile f p s) = st_ttl s"
  by (simp_all add: removeFile_def)

lemma store_inv_cong: "st_entries s = st_entries s' \<Longrightarrow> st_totalSize s = st_totalSize s' \<Longrightarrow> store_inv s = store_inv s'"
  by (simp add: store_inv_def)

lemma drop_inv:
  assumes "store_inv s" and "fmlookup (st_entries s) k = Some e"
  shows "store_inv (s\<lparr>st_entries := fmdrop k (st_entries s), st_totalSize := wrap64 (st_totalSize s - e_Size e)\<rparr>)"
  using assms by (auto simp: store_inv_def total_of_drop split: if_splits)

text \<open>
  The loop removes a prefix of the sorted list: it stops at the first point where the total is
  within the limit, or at the end.
\<close>

lemma evict_loop_prefix:
  assumes "store_inv s" and "distinct (map fst kvs)" and "\<forall>(k, e) \<in> set kvs. fmlookup (st_entries s) k = Some e"
  shows "\<exists>n \<le> length kvs.
    st_entries (evict_loop f kvs s) = dropped (take n kvs) (st_entries s) \<and>
    disk (evict_loop f kvs s) =
      (if f_remove f then disk s else fmdrop_set (keyPath (st_dir s) ` fst ` set (take n kvs)) (disk s)) \<and>
    store_inv (evict_loop f kvs s) \<and>
    st_dir (evict_loop f kvs s) = st_dir s \<and> st_maxSize (evict_loop f kvs s) = st_maxSize s \<and>
    st_ttl (evict_loop f kvs s) = st_ttl s \<and>
    (n = length kvs \<or> st_totalSize (evict_loop f kvs s) \<le> evict_limit s) \<and>
    (\<forall>m < n. wrap64 (total_of (dropped (take m kvs) (st_entries s))) > evict_limit s)"
  using assms
proof (induction kvs arbitrary: s)
  case Nil
  then show ?case by simp
next
  case (Cons kv kvs)
  obtain k e where kv: "kv = (k, e)" by (cases kv)
  show ?case
  proof (cases "st_totalSize s \<le> evict_limit s")
    case True
    then have stop: "evict_loop f (kv # kvs) s = s" by (simp add: kv evict_limit_def)
    show ?thesis
      unfolding stop by (rule exI[of _ 0]) (use True Cons.prems(1) in simp)
  next
    case False
    let ?s = "removeFile f (keyPath (st_dir s) k)
      (s\<lparr>st_entries := fmdrop k (st_entries s), st_totalSize := wrap64 (st_totalSize s - e_Size e)\<rparr>)"
    have step: "evict_loop f (kv # kvs) s = evict_loop f kvs ?s" using False by (simp add: kv evict_limit_def)
    have "fmlookup (st_entries s) k = Some e" using Cons.prems(3) kv by simp
    then have "store_inv ?s" using drop_inv[OF Cons.prems(1)] by (simp add: store_inv_def)
    moreover have "\<forall>(k', e') \<in> set kvs. fmlookup (st_entries ?s) k' = Some e'"
      using Cons.prems(2,3) kv by force
    ultimately obtain n where n: "n \<le> length kvs"
        "st_entries (evict_loop f kvs ?s) = dropped (take n kvs) (st_entries ?s)"
        "disk (evict_loop f kvs ?s) =
          (if f_remove f then disk ?s else fmdrop_set (keyPath (st_dir ?s) ` fst ` set (take n kvs)) (disk ?s))"
        "store_inv (evict_loop f kvs ?s)"
        "st_dir (evict_loop f kvs ?s) = st_dir ?s" "st_maxSize (evict_loop f kvs ?s) = st_maxSize ?s"
        "st_ttl (evict_loop f kvs ?s) = st_ttl ?s"
        "n = length kvs \<or> st_totalSize (evict_loop f kvs ?s) \<le> evict_limit ?s"
        "\<forall>m < n. wrap64 (total_of (dropped (take m kvs) (st_entries ?s))) > evict_limit ?s"
      using Cons.IH[of ?s] Cons.prems(2) by auto
    have lim: "evict_limit ?s = evict_limit s" by (simp add: evict_limit_def)
    have "\<forall>m < Suc n. wrap64 (total_of (dropped (take m (kv # kvs)) (st_entries s))) > evict_limit s"
    proof (intro allI impI)
      fix m assume "m < Suc n"
      then show "wrap64 (total_of (dropped (take m (kv # kvs)) (st_entries s))) > evict_limit s"
        using False Cons.prems(1) n(9) lim kv by (cases m) (auto simp: store_inv_def dropped_Cons)
    qed
    moreover have "disk (evict_loop f kvs ?s) =
        (if f_remove f then disk s else fmdrop_set (keyPath (st_dir s) ` fst ` set (take (Suc n) (kv # kvs))) (disk s))"
      using n(3) kv by (auto simp: removeFile_def fmlookup_drop_set intro!: fmap_ext)
    ultimately show ?thesis
      unfolding step using n lim kv by (intro exI[of _ "Suc n"]) (simp add: dropped_Cons)
  qed
qed

lemma entry_list_mem: "(k, e) \<in> set (entry_list m ord) \<longleftrightarrow> k \<in> set ord \<and> fmlookup m k = Some e"
  by (induction ord) (auto split: option.split)

lemma entry_list_distinct: "distinct ord \<Longrightarrow> distinct (map fst (entry_list m ord))"
proof (induction ord)
  case (Cons k ord)
  have "k' \<in> set ord" if "k' \<in> fst ` set (entry_list m ord)" for k'
    using that by (auto simp: entry_list_mem)
  with Cons show ?case by (auto split: option.split)
qed simp

lemma sorted_entries:
  assumes "iter_order m ord"
  shows "distinct (map fst (sort_entries (entry_list m ord)))"
    and "(k, e) \<in> set (sort_entries (entry_list m ord)) \<longleftrightarrow> fmlookup m k = Some e"
    and "sorted (map accessed (sort_entries (entry_list m ord)))"
proof -
  let ?xs = "entry_list m ord"
  have ms: "mset (sort_entries ?xs) = mset ?xs" and "sorted (map accessed (sort_entries ?xs))"
    using sort_entries_spec by simp_all
  then show "sorted (map accessed (sort_entries ?xs))" by simp
  have "mset (map fst (sort_entries ?xs)) = mset (map fst ?xs)" using ms by simp
  then show "distinct (map fst (sort_entries ?xs))"
    using entry_list_distinct[OF iter_order_distinct[OF assms]] by (metis mset_eq_imp_distinct_iff)
  show "(k, e) \<in> set (sort_entries ?xs) \<longleftrightarrow> fmlookup m k = Some e"
    using mset_eq_setD[OF ms] iter_order_mem[OF assms, of k] by (auto simp: entry_list_mem)
qed

text \<open>All that eviction does, when it does something.\<close>

lemma evict_prefix:
  assumes "store_inv s" and "iter_order (st_entries s) ord" and "st_totalSize s > st_maxSize s"
  obtains n where "n \<le> length (sort_entries (entry_list (st_entries s) ord))"
    "st_entries (evictIfNeeded f ord s) = dropped (take n (sort_entries (entry_list (st_entries s) ord))) (st_entries s)"
    "disk (evictIfNeeded f ord s) =
      (if f_remove f then disk s
       else fmdrop_set (keyPath (st_dir s) ` fst ` set (take n (sort_entries (entry_list (st_entries s) ord)))) (disk s))"
    "store_inv (evictIfNeeded f ord s)" "st_dir (evictIfNeeded f ord s) = st_dir s"
    "st_ttl (evictIfNeeded f ord s) = st_ttl s"
    "n = length (sort_entries (entry_list (st_entries s) ord)) \<or> st_totalSize (evictIfNeeded f ord s) \<le> evict_limit s"
    "\<forall>m < n. wrap64 (total_of (dropped (take m (sort_entries (entry_list (st_entries s) ord))) (st_entries s))) > evict_limit s"
proof -
  let ?kvs = "sort_entries (entry_list (st_entries s) ord)"
  have run: "evictIfNeeded f ord s = evict_loop f ?kvs s" using assms(3) by (simp add: evictIfNeeded_def)
  have "\<forall>(k, e) \<in> set ?kvs. fmlookup (st_entries s) k = Some e"
    using sorted_entries(2)[OF assms(2)] by auto
  from evict_loop_prefix[OF assms(1) sorted_entries(1)[OF assms(2)] this, of f] that show ?thesis
    unfolding run by blast
qed

lemma evict_inv:
  assumes "store_inv s" and "iter_order (st_entries s) ord"
  shows "store_inv (evictIfNeeded f ord s)"
proof (cases "st_totalSize s > st_maxSize s")
  case True
  show ?thesis by (rule evict_prefix[OF assms True, where f = f])
next
  case False
  with assms(1) show ?thesis by (simp add: evictIfNeeded_def)
qed

subsection \<open>Paths of keys\<close>

text \<open>Keys whose file lies two levels below the cache directory; every hashed key is one.\<close>

definition safeKey :: "string \<Rightarrow> bool" where
  "safeKey k \<longleftrightarrow> length k \<ge> 3 \<and> CHR ''/'' \<notin> set k \<and> CHR ''.'' \<notin> set (take 2 k)"

lemma split_path_plain: "CHR ''/'' \<notin> set p \<Longrightarrow> split_path p = [p]"
  by (induction p) auto

lemma keyPath_safe:
  assumes "safeKey k"
  shows "keyPath dir k = dir @ [take 2 k, k]"
proof -
  have len: "length k \<ge> 3" and slash: "CHR ''/'' \<notin> set k" and dot: "CHR ''.'' \<notin> set (take 2 k)"
    using assms by (simp_all add: safeKey_def)
  obtain a b c r where k: "k = a # b # c # r"
    using len by (cases k rule: remdups_adj.cases; cases "tl (tl k)") (auto simp: neq_Nil_conv)
  have "CHR ''/'' \<notin> set (take 2 k)" using slash by (meson in_set_takeD)
  then have "split_path (take 2 k) = [take 2 k]" "split_path k = [k]" using slash by (simp_all add: split_path_plain)
  moreover have "path_push (take 2 k) p = p @ [take 2 k]" "path_push k p = p @ [k]" for p
    using dot by (auto simp: path_push_def k numeral_2_eq_2)
  ultimately show ?thesis using len by (simp add: keyPath_def path_join_def)
qed

lemma keyPath_inj:
  assumes "safeKey k" and "safeKey k'"
  shows "keyPath dir k = keyPath dir k' \<longleftrightarrow> k = k'"
  using assms by (auto simp: keyPath_safe)

lemma indexPath_eq: "indexPath dir = dir @ [''index.json'']"
  by (simp add: indexPath_def path_join_def path_push_def)

lemma keyPath_not_index: "safeKey k \<Longrightarrow> keyPath dir k \<noteq> indexPath dir"
  by (simp add: keyPath_safe indexPath_eq)

text \<open>Every key made by the key builder is safe.\<close>

lemma Sum_safeKey: "safeKey (Sum H b)"
proof -
  have "set (Sum H b) \<subseteq> hexDigits" "length (Sum H b) = 16" using Sum_shape by blast+
  moreover have "CHR ''/'' \<notin> hexDigits" "CHR ''.'' \<notin> hexDigits" by (simp_all add: hexDigits_def)
  ultimately show ?thesis unfolding safeKey_def by (auto dest: in_set_takeD)
qed

subsection \<open>The invariant\<close>

lemma saveIndex_fields [simp]:
  "st_entries (snd (saveIndex J f ord s)) = st_entries s" "st_totalSize (snd (saveIndex J f ord s)) = st_totalSize s"
  "st_maxSize (snd (saveIndex J f ord s)) = st_maxSize s" "st_dir (snd (saveIndex J f ord s)) = st_dir s"
  "st_ttl (snd (saveIndex J f ord s)) = st_ttl s"
  by (simp_all add: saveIndex_def)

lemma saveIndex_inv [simp]: "store_inv (snd (saveIndex J f ord s)) = store_inv s"
  by (rule store_inv_cong) simp_all

lemma removeFile_inv [simp]: "store_inv (removeFile f p s) = store_inv s"
  by (rule store_inv_cong) simp_all

lemma disk_inv [simp]: "store_inv (s\<lparr>disk := d\<rparr>) = store_inv s"
  by (rule store_inv_cong) simp_all

lemma Delete_inv: "store_inv s \<Longrightarrow> store_inv (snd (Store_Delete J f ord key s))"
  by (simp add: Store_Delete_def drop_inv split: option.split)

lemma Get_inv: "store_inv s \<Longrightarrow> store_inv (snd (Store_Get J f now ord key s))"
proof -
  assume inv: "store_inv s"
  have "store_inv (s\<lparr>st_entries := fmupd key (e\<lparr>e_AccessedAt := a, e_Hits := h\<rparr>) (st_entries s)\<rparr>)"
    if "fmlookup (st_entries s) key = Some e" for e a h
    using inv that by (auto simp: store_inv_def total_of_upd split: if_splits)
  with inv Delete_inv[OF inv] show ?thesis by (auto simp: Store_Get_def split: option.split)
qed

text \<open>The state just before eviction, and its invariant.\<close>

definition with_entry :: "int \<Rightarrow> string \<Rightarrow> int \<Rightarrow> Store \<Rightarrow> Store" where
  "with_entry now key sz s =
     s\<lparr>st_entries := fmupd key \<lparr>e_Key = key, e_Size = sz, e_CreatedAt = now, e_AccessedAt = now, e_Hits = 0\<rparr> (st_entries s),
       st_totalSize := wrap64 ((case fmlookup (st_entries s) key of
                                  Some old \<Rightarrow> wrap64 (st_totalSize s - e_Size old) | None \<Rightarrow> st_totalSize s) + sz)\<rparr>"

lemma record_entry_alt: "record_entry J f now ord ord' key sz s = saveIndex J f ord' (evictIfNeeded f ord (with_entry now key sz s))"
  by (simp add: record_entry_def with_entry_def Let_def)

lemma with_entry_inv:
  assumes "store_inv s" and "0 \<le> sz"
  shows "store_inv (with_entry now key sz s)"
proof -
  have t: "st_totalSize s = wrap64 (total_of (st_entries s))" using assms(1) by (simp add: store_inv_def)
  have "st_totalSize (with_entry now key sz s) = wrap64 (total_of (st_entries (with_entry now key sz s)))"
    by (cases "fmlookup (st_entries s) key") (simp_all add: with_entry_def t total_of_upd add.commute)
  then show ?thesis using assms by (auto simp: store_inv_def with_entry_def split: if_splits)
qed

lemma record_entry_inv:
  assumes "store_inv s" and "0 \<le> sz" and "iter_order (st_entries (with_entry now key sz s)) ord"
  shows "store_inv (snd (record_entry J f now ord ord' key sz s))"
  using evict_inv[OF with_entry_inv[OF assms(1,2)] assms(3)] by (simp add: record_entry_alt)

subsection \<open>Runs\<close>

definition json_ok :: "json_codec \<Rightarrow> bool" where
  "json_ok J \<longleftrightarrow> (\<forall>es. jsonDecode J (jsonEncode J es) = Some (map Some es))"

text \<open>An index that a store may find at start: absent, unreadable, or one entry per key.\<close>

definition index_ok :: "json_codec \<Rightarrow> string list \<Rightarrow> (string list, bytes) fmap \<Rightarrow> bool" where
  "index_ok J dir d \<longleftrightarrow>
     (case fmlookup d (indexPath dir) of
        None \<Rightarrow> True
      | Some data \<Rightarrow>
          (case jsonDecode J data of
             None \<Rightarrow> True
           | Some es \<Rightarrow> \<exists>xs. es = map Some xs \<and> distinct (map e_Key xs) \<and> (\<forall>x \<in> set xs. 0 \<le> e_Size x)))"

inductive store_reach :: "bool \<Rightarrow> json_codec \<Rightarrow> Store \<Rightarrow> bool" for windows :: bool and J :: json_codec where
  start: "NewStore J f dir mb hours d = Ok s \<Longrightarrow> index_ok J dir d \<Longrightarrow> store_reach windows J s"
| get: "store_reach windows J s \<Longrightarrow> store_reach windows J (snd (Store_Get J f now ord key s))"
| delete: "store_reach windows J s \<Longrightarrow> store_reach windows J (snd (Store_Delete J f ord key s))"
| clear: "store_reach windows J s \<Longrightarrow> store_reach windows J (snd (Store_Clear J f ord s))"
| put: "store_reach windows J s \<Longrightarrow> iter_order (st_entries (with_entry now key (int (length data)) s)) ord \<Longrightarrow>
    store_reach windows J (snd (Store_Put windows J f now ord ord' key data s))"
| put_bytes: "store_reach windows J s \<Longrightarrow> iter_order (st_entries (with_entry now key (int (length data)) s)) ord \<Longrightarrow>
    store_reach windows J (snd (Store_PutBytes windows J f now ord ord' key data s))"

lemma loadEntries_inv:
  assumes "store_inv s" and "distinct (map e_Key xs)" and "\<forall>x \<in> set xs. 0 \<le> e_Size x"
    and "\<forall>x \<in> set xs. fmlookup (st_entries s) (e_Key x) = None"
  shows "\<exists>s'. loadEntries (map Some xs) s = Ok s' \<and> store_inv s' \<and>
    st_entries s' = fold (\<lambda>x. fmupd (e_Key x) x) xs (st_entries s)"
  using assms
proof (induction xs arbitrary: s)
  case (Cons x xs)
  let ?s = "s\<lparr>st_entries := fmupd (e_Key x) x (st_entries s), st_totalSize := wrap64 (st_totalSize s + e_Size x)\<rparr>"
  have "store_inv ?s"
    using Cons.prems by (auto simp: store_inv_def total_of_upd split: if_splits)
  moreover have "\<forall>y \<in> set xs. fmlookup (st_entries ?s) (e_Key y) = None"
    using Cons.prems(2,4) by (auto simp: image_iff)
  ultimately show ?case using Cons.IH[of ?s] Cons.prems(2,3) by simp
qed simp

lemma NewStore_inv:
  assumes "NewStore J f dir mb hours d = Ok s" and "index_ok J dir d"
  shows "store_inv s"
proof -
  let ?s = "\<lparr>st_dir = dir, st_maxSize = wrap64 (mb * 1024 * 1024), st_ttl = wrap64 (hours * (3600 * Second)),
    st_entries = fmempty, st_totalSize = 0, disk = d\<rparr>"
  have empty: "store_inv ?s" by (simp add: store_inv_def wrap64_id is_int64_def)
  show ?thesis
  proof (cases "loadIndex J f ?s")
    case (Ok s')
    then have s: "s = s'" using assms(1) by (auto simp: NewStore_def split: if_splits)
    consider "s' = ?s" | data es where "fmlookup d (indexPath dir) = Some data" "jsonDecode J data = Some es"
        "loadEntries es ?s = Ok s'"
      using Ok by (auto simp: loadIndex_def split: option.splits if_splits)
    then show ?thesis
    proof cases
      case 2
      then obtain xs where "es = map Some xs" "distinct (map e_Key xs)" "\<forall>x \<in> set xs. 0 \<le> e_Size x"
        using assms(2) by (auto simp: index_ok_def)
      with loadEntries_inv[OF empty, of xs] 2(3) s show ?thesis by auto
    qed (use s empty in simp)
  qed (use assms(1) empty in \<open>auto simp: NewStore_def split: if_splits\<close>)
qed

lemma Clear_inv: "store_inv (snd (Store_Clear J f ord s))"
  by (simp add: Store_Clear_def Let_def) (simp add: store_inv_def wrap64_id is_int64_def)

lemma with_entry_disk: "with_entry now key sz (s\<lparr>disk := d\<rparr>) = (with_entry now key sz s)\<lparr>disk := d\<rparr>"
  by (cases s) (simp add: with_entry_def split: option.split)

lemma Put_inv:
  assumes "store_inv s" and "iter_order (st_entries (with_entry now key (int (length data)) s)) ord"
  shows "store_inv (snd (Store_Put windows J f now ord ord' key data s))"
proof -
  have "store_inv (snd (record_entry J f now ord ord' key (int (length data)) (s\<lparr>disk := d\<rparr>)))" for d
    using assms by (intro record_entry_inv) (simp_all add: with_entry_disk)
  with assms(1) show ?thesis by (simp add: Store_Put_def Let_def)
qed

lemma PutBytes_inv:
  assumes "store_inv s" and "iter_order (st_entries (with_entry now key (int (length data)) s)) ord"
  shows "store_inv (snd (Store_PutBytes windows J f now ord ord' key data s))"
proof -
  have "store_inv (snd (record_entry J f now ord ord' key (int (length data)) (s\<lparr>disk := d\<rparr>)))" for d
    using assms by (intro record_entry_inv) (simp_all add: with_entry_disk)
  with assms(1) show ?thesis by (simp add: Store_PutBytes_def Let_def)
qed

lemma store_reach_inv: "store_reach windows J s \<Longrightarrow> store_inv s"
  by (induction rule: store_reach.induct)
    (auto intro: NewStore_inv Get_inv Delete_inv Clear_inv Put_inv PutBytes_inv)

subsection \<open>Properties\<close>

definition sampleStore :: "(string, Entry) fmap \<Rightarrow> int \<Rightarrow> Store" where
  "sampleStore es tot = \<lparr>st_dir = [''cache''], st_maxSize = 10, st_ttl = 100, st_entries = es,
     st_totalSize = tot, disk = fmempty\<rparr>"

definition sampleEntry :: "string \<Rightarrow> int \<Rightarrow> int \<Rightarrow> Entry" where
  "sampleEntry k sz t = \<lparr>e_Key = k, e_Size = sz, e_CreatedAt = t, e_AccessedAt = t, e_Hits = 0\<rparr>"

definition fullStore :: Store where
  "fullStore = sampleStore (fmupd ''bbb'' (sampleEntry ''bbb'' 6 2) (fmupd ''aaa'' (sampleEntry ''aaa'' 6 1) fmempty)) 12"

definition emptyCodec :: json_codec where
  "emptyCodec = \<lparr>jsonEncode = (\<lambda>_. ''[]''), jsonDecode = (\<lambda>_. Some [])\<rparr>"

text \<open>
  C13. Whatever operations run, succeed or fail, the running total is the sum of the sizes of the
  entries and every entry is filed under its own key.
\<close>

theorem store_total_exact:
  "store_reach windows J s \<Longrightarrow>
     st_totalSize s = wrap64 (total_of (st_entries s)) \<and>
     (\<forall>k e. fmlookup (st_entries s) k = Some e \<longrightarrow> e_Key e = k \<and> 0 \<le> e_Size e)"
  using store_reach_inv by (auto simp: store_inv_def)

lemma sample_store_reach:
  "store_reach False emptyCodec \<lparr>st_dir = [''cache''], st_maxSize = 1048576, st_ttl = 3600000000000,
     st_entries = fmempty, st_totalSize = 0, disk = fmempty\<rparr>"
  by (rule store_reach.start[of _ noFaults "[''cache'']" 1 1 fmempty])
    (simp_all add: NewStore_def loadIndex_def noFaults_def index_ok_def Second_def wrap64_def Let_def)

lemma store_total_exact_witness:
  "st_totalSize (snd (Store_PutBytes False emptyCodec noFaults 5 [''abc''] [''abc''] ''abc'' ''xyz''
     \<lparr>st_dir = [''cache''], st_maxSize = 1048576, st_ttl = 3600000000000,
      st_entries = fmempty, st_totalSize = 0, disk = fmempty\<rparr>)) =
   wrap64 (total_of (st_entries (snd (Store_PutBytes False emptyCodec noFaults 5 [''abc''] [''abc''] ''abc'' ''xyz''
     \<lparr>st_dir = [''cache''], st_maxSize = 1048576, st_ttl = 3600000000000,
      st_entries = fmempty, st_totalSize = 0, disk = fmempty\<rparr>))))"
proof -
  let ?s = "\<lparr>st_dir = [''cache''], st_maxSize = 1048576, st_ttl = 3600000000000,
      st_entries = fmempty, st_totalSize = 0, disk = fmempty\<rparr>"
  have "store_reach False emptyCodec (snd (Store_PutBytes False emptyCodec noFaults 5 [''abc''] [''abc''] ''abc'' ''xyz'' ?s))"
    by (rule store_reach.put_bytes[OF sample_store_reach]) (simp add: with_entry_def iter_order_def)
  from store_total_exact[OF this] show ?thesis by blast
qed

lemma wrap_total:
  assumes "store_inv s" and "total_of (st_entries s) < 2 ^ 63"
  shows "st_totalSize s = total_of (st_entries s)"
proof -
  have "0 \<le> total_of (st_entries s)" using assms(1) by (intro total_of_nonneg) (auto simp: store_inv_def)
  with assms show ?thesis by (simp add: store_inv_def wrap64_id is_int64_def)
qed

lemma evict_limit_eq:
  assumes "0 \<le> st_maxSize s" and "st_maxSize s * 8 < 2 ^ 63"
  shows "evict_limit s = st_maxSize s * 8 div 10"
proof -
  have "is_int64 (st_maxSize s * 8)" using assms by (simp add: is_int64_def)
  then show ?thesis
    using assms by (cases "st_maxSize s = 0") (simp_all add: evict_limit_def wrap64_id signed_divide_int_def sgn_mult)
qed

lemma total_of_dropped_le:
  assumes "\<forall>k e. fmlookup m k = Some e \<longrightarrow> 0 \<le> e_Size e"
  shows "0 \<le> total_of (dropped kvs m) \<and> total_of (dropped kvs m) \<le> total_of m"
proof
  show "0 \<le> total_of (dropped kvs m)"
    using assms by (intro total_of_nonneg) (auto simp: dropped_lookup split: if_splits)
  show "total_of (dropped kvs m) \<le> total_of m"
    using assms
  proof (induction kvs arbitrary: m)
    case (Cons kv kvs)
    have "total_of (dropped kvs (fmdrop (fst kv) m)) \<le> total_of (fmdrop (fst kv) m)"
      using Cons.prems by (intro Cons.IH) (auto split: if_splits)
    moreover have "total_of (fmdrop (fst kv) m) \<le> total_of m"
      using Cons.prems by (auto simp: total_of_drop split: option.split)
    ultimately show ?case by (simp add: dropped_Cons)
  qed simp
qed

lemma sorted_take_drop:
  assumes "sorted (map f xs)" and "x \<in> set (take n xs)" and "y \<in> set (drop n xs)"
  shows "f x \<le> f y"
proof -
  have "sorted (map f (take n xs @ drop n xs))" using assms(1) by simp
  then show ?thesis using assms(2,3) unfolding map_append sorted_append by simp
qed

text \<open>
  C12. Eviction frees enough, and only what is needed. A store within its limit is untouched. Over
  the limit, a list of keys is evicted after which the total is at or below 80 percent of the
  limit; none of them was accessed after an entry that stays (least recently used first); and
  without the last of them the total would still be over the 80 percent. (No overflow:
  eight times the limit and the total are \<^verbatim>\<open>int64\<close>.)
\<close>

theorem evict_lru:
  assumes "store_inv s" and "iter_order (st_entries s) ord"
    and "0 \<le> st_maxSize s" and "st_maxSize s * 8 < 2 ^ 63" and "total_of (st_entries s) < 2 ^ 63"
    and "st_totalSize s > st_maxSize s"
  shows "\<exists>ev. st_entries (evictIfNeeded f ord s) = fmdrop_set (set ev) (st_entries s) \<and>
    st_totalSize (evictIfNeeded f ord s) \<le> st_maxSize s * 8 div 10 \<and>
    (\<forall>k \<in> set ev. \<forall>k' e e'. fmlookup (st_entries s) k = Some e \<longrightarrow>
       fmlookup (st_entries (evictIfNeeded f ord s)) k' = Some e' \<longrightarrow> e_AccessedAt e \<le> e_AccessedAt e') \<and>
    (ev \<noteq> [] \<longrightarrow> total_of (fmdrop_set (set (butlast ev)) (st_entries s)) > st_maxSize s * 8 div 10)"
proof -
  let ?kvs = "sort_entries (entry_list (st_entries s) ord)"
  let ?s = "evictIfNeeded f ord s"
  obtain n where n: "n \<le> length ?kvs" "st_entries ?s = dropped (take n ?kvs) (st_entries s)" "store_inv ?s"
      "n = length ?kvs \<or> st_totalSize ?s \<le> evict_limit s"
      "\<forall>m < n. wrap64 (total_of (dropped (take m ?kvs) (st_entries s))) > evict_limit s"
    by (rule evict_prefix[OF assms(1,2,6), where f = f])
  have lim: "evict_limit s = st_maxSize s * 8 div 10" by (rule evict_limit_eq[OF assms(3,4)])
  have sizes: "\<forall>k e. fmlookup (st_entries s) k = Some e \<longrightarrow> 0 \<le> e_Size e" using assms(1) by (simp add: store_inv_def)
  note mem = sorted_entries(2)[OF assms(2)]
  have small: "wrap64 (total_of (dropped kvs (st_entries s))) = total_of (dropped kvs (st_entries s))" for kvs
    using total_of_dropped_le[OF sizes, of kvs] assms(5) by (intro wrap64_id) (simp add: is_int64_def)
  have "st_totalSize ?s \<le> st_maxSize s * 8 div 10"
  proof (cases "n = length ?kvs")
    case True
    have "fmlookup (st_entries ?s) k = None" for k
      using mem True n(2) by (cases "fmlookup (st_entries s) k") (force simp: dropped_lookup)+
    then have "st_entries ?s = fmempty" by (intro fmap_ext) simp
    then have "st_totalSize ?s = 0" using wrap_total[OF n(3)] by simp
    with assms(3) show ?thesis by simp
  qed (use n(4) lim in auto)
  moreover have "e_AccessedAt e \<le> e_AccessedAt e'"
    if ke: "k \<in> set (map fst (take n ?kvs))" "fmlookup (st_entries s) k = Some e" "fmlookup (st_entries ?s) k' = Some e'" for k k' e e'
  proof -
    have "(k, e) \<in> set (take n ?kvs)"
    proof -
      obtain e2 where e2: "(k, e2) \<in> set (take n ?kvs)" using ke(1) by auto
      then have "fmlookup (st_entries s) k = Some e2" using mem in_set_takeD by metis
      with ke(2) e2 show ?thesis by simp
    qed
    moreover have "(k', e') \<in> set (drop n ?kvs)"
    proof -
      have "(k', e') \<in> set ?kvs" "k' \<notin> fst ` set (take n ?kvs)"
        using ke(3) n(2) mem by (auto simp: dropped_lookup split: if_splits)
      then show ?thesis by (metis Un_iff append_take_drop_id fst_conv image_eqI set_append)
    qed
    ultimately show ?thesis using sorted_take_drop[OF sorted_entries(3)[OF assms(2)]] by fastforce
  qed
  moreover have "total_of (fmdrop_set (set (butlast (map fst (take n ?kvs)))) (st_entries s)) > st_maxSize s * 8 div 10"
    if "map fst (take n ?kvs) \<noteq> []"
  proof -
    have "n - 1 < n" using that by (cases n) auto
    then have "total_of (dropped (take (n - 1) ?kvs) (st_entries s)) > evict_limit s" using n(5) small by metis
    moreover have "butlast (map fst (take n ?kvs)) = map fst (take (n - 1) ?kvs)"
      using n(1) by (simp add: map_butlast[symmetric] butlast_take)
    ultimately show ?thesis by (simp add: dropped_def lim)
  qed
  moreover have "st_entries ?s = fmdrop_set (set (map fst (take n ?kvs))) (st_entries s)"
    using n(2) by (simp add: dropped_def)
  ultimately show ?thesis by (intro exI[of _ "map fst (take n ?kvs)"]) blast
qed

lemma fullStore_ready:
  shows "total_of (st_entries fullStore) = 12"
    and "store_inv fullStore" and "iter_order (st_entries fullStore) [''aaa'', ''bbb'']"
proof -
  show total: "total_of (st_entries fullStore) = 12"
    by (simp add: fullStore_def sampleStore_def total_of_upd sampleEntry_def)
  have "wrap64 12 = 12" by (simp add: wrap64_def)
  with total show "store_inv fullStore"
    by (simp add: store_inv_def) (simp add: fullStore_def sampleStore_def sampleEntry_def)
  show "iter_order (st_entries fullStore) [''aaa'', ''bbb'']"
    by (auto simp: fullStore_def sampleStore_def iter_order_def)
qed

lemma evict_lru_witness:
  "st_totalSize (evictIfNeeded noFaults [''aaa'', ''bbb''] fullStore) \<le> 8"
proof -
  have "st_maxSize fullStore = 10" "st_totalSize fullStore = 12" by (simp_all add: fullStore_def sampleStore_def)
  with evict_lru[OF fullStore_ready(2,3), of noFaults] fullStore_ready(1) show ?thesis by auto
qed

text \<open>The most recently written entry is last in line, and eviction stops before it if it fits.\<close>

lemma evict_keeps_newest:
  assumes "store_inv s" and "iter_order (st_entries s) ord"
    and "fmlookup (st_entries s) key = Some e" and "0 \<le> e_Size e" and "e_Size e < 2 ^ 63" and "e_Size e \<le> evict_limit s"
    and "\<forall>k e'. fmlookup (st_entries s) k = Some e' \<longrightarrow> k \<noteq> key \<longrightarrow> e_AccessedAt e' < e_AccessedAt e"
    and "\<forall>k e'. fmlookup (st_entries s) k = Some e' \<longrightarrow> safeKey k"
  shows "fmlookup (st_entries (evictIfNeeded f ord s)) key = Some e \<and>
    fmlookup (disk (evictIfNeeded f ord s)) (keyPath (st_dir s) key) = fmlookup (disk s) (keyPath (st_dir s) key) \<and>
    st_dir (evictIfNeeded f ord s) = st_dir s \<and> st_ttl (evictIfNeeded f ord s) = st_ttl s"
proof (cases "st_totalSize s > st_maxSize s")
  case False
  with assms(3) show ?thesis by (simp add: evictIfNeeded_def)
next
  case True
  let ?kvs = "sort_entries (entry_list (st_entries s) ord)"
  obtain n where n: "n \<le> length ?kvs"
      "st_entries (evictIfNeeded f ord s) = dropped (take n ?kvs) (st_entries s)"
      "disk (evictIfNeeded f ord s) =
        (if f_remove f then disk s else fmdrop_set (keyPath (st_dir s) ` fst ` set (take n ?kvs)) (disk s))"
      "st_dir (evictIfNeeded f ord s) = st_dir s" "st_ttl (evictIfNeeded f ord s) = st_ttl s"
      "\<forall>m < n. wrap64 (total_of (dropped (take m ?kvs) (st_entries s))) > evict_limit s"
    by (rule evict_prefix[OF assms(1,2) True, where f = f])
  note kvs = sorted_entries[OF assms(2)]
  have stays: "key \<notin> fst ` set (take n ?kvs)"
  proof
    assume "key \<in> fst ` set (take n ?kvs)"
    then obtain e2 where "(key, e2) \<in> set (take n ?kvs)" by auto
    then obtain p where p: "p < n" "p < length ?kvs" "?kvs ! p = (key, e2)" by (auto simp: in_set_conv_nth)
    then have e2: "e2 = e" using kvs(2)[of key e2] assms(3) nth_mem[OF p(2)] by simp
    have "p = length ?kvs - 1"
    proof (rule ccontr)
      assume "p \<noteq> length ?kvs - 1"
      then have q: "Suc p < length ?kvs" using p(2) by linarith
      obtain k' e' where kv: "?kvs ! Suc p = (k', e')" by (cases "?kvs ! Suc p")
      then have "fmlookup (st_entries s) k' = Some e'" using kvs(2)[of k' e'] nth_mem[OF q] by simp
      moreover have "k' \<noteq> key"
        using kvs(1) p q kv nth_eq_iff_index_eq[of "map fst ?kvs" p "Suc p"] by auto
      moreover have "e_AccessedAt e \<le> e_AccessedAt e'"
        using sorted_nth_mono[OF kvs(3), of p "Suc p"] p q kv e2 by simp
      ultimately show False using assms(7) by fastforce
    qed
    then have drop1: "drop p ?kvs = [(key, e)]"
      using p e2 Cons_nth_drop_Suc[OF p(2)] by simp
    have "fmlookup (dropped (take p ?kvs) (st_entries s)) k = fmlookup (fmupd key e fmempty) k" for k
    proof (cases "k = key")
      case True
      have "distinct (map fst (take p ?kvs) @ map fst (drop p ?kvs))"
        using kvs(1) by (simp only: map_append[symmetric] append_take_drop_id)
      then have "key \<notin> fst ` set (take p ?kvs)" unfolding drop1 by simp
      with True assms(3) show ?thesis by (simp add: dropped_lookup)
    next
      case False
      have "k \<in> fst ` set (take p ?kvs)" if "fmlookup (st_entries s) k = Some x" for x
      proof -
        have "(k, x) \<in> set (take p ?kvs @ drop p ?kvs)" using that kvs(2) by simp
        with False drop1 show ?thesis by force
      qed
      with False show ?thesis by (cases "fmlookup (st_entries s) k") (auto simp: dropped_lookup)
    qed
    then have "dropped (take p ?kvs) (st_entries s) = fmupd key e fmempty" by (intro fmap_ext) simp
    then have "wrap64 (e_Size e) > evict_limit s" using n(6) p(1) by (fastforce simp: total_of_upd)
    moreover have "wrap64 (e_Size e) = e_Size e" using assms(4,5) by (intro wrap64_id) (simp add: is_int64_def)
    ultimately show False using assms(6) by simp
  qed
  moreover have "keyPath (st_dir s) key \<notin> keyPath (st_dir s) ` fst ` set (take n ?kvs)"
  proof
    assume "keyPath (st_dir s) key \<in> keyPath (st_dir s) ` fst ` set (take n ?kvs)"
    then obtain k x where "(k, x) \<in> set (take n ?kvs)" "keyPath (st_dir s) key = keyPath (st_dir s) k" by auto
    moreover from this have "safeKey k" using kvs(2) assms(8) in_set_takeD by metis
    moreover have "safeKey key" using assms(3,8) by blast
    ultimately show False using keyPath_inj stays by force
  qed
  ultimately show ?thesis using n assms(3) by (simp add: dropped_lookup)
qed

lemma stored_bytes_found:
  assumes "store_inv s" and "iter_order (st_entries (with_entry now key (int (length data)) s)) ord"
    and "safeKey key" and "\<forall>k e. fmlookup (st_entries s) k = Some e \<longrightarrow> safeKey k"
    and "\<forall>k e. fmlookup (st_entries s) k = Some e \<longrightarrow> k \<noteq> key \<longrightarrow> e_AccessedAt e < now"
    and "0 \<le> st_maxSize s" and "st_maxSize s * 8 < 2 ^ 63" and "int (length data) \<le> st_maxSize s * 8 div 10"
    and "time_sub now' now \<le> st_ttl s"
  shows "fst (Store_GetBytes J noFaults now' ord2 key
      (snd (Store_PutBytes False J noFaults now ord ord' key data s))) = Some data"
proof -
  let ?s1 = "s\<lparr>disk := fmupd (keyPath (st_dir s) key) data (disk s)\<rparr>"
  let ?w = "with_entry now key (int (length data)) ?s1"
  let ?e = "\<lparr>e_Key = key, e_Size = int (length data), e_CreatedAt = now, e_AccessedAt = now, e_Hits = 0\<rparr>"
  have "key \<noteq> ''''" using assms(3) by (auto simp: safeKey_def)
  then have run: "snd (Store_PutBytes False J noFaults now ord ord' key data s) =
      snd (saveIndex J noFaults ord' (evictIfNeeded noFaults ord ?w))"
    by (simp add: Store_PutBytes_def validateCacheKey_def noFaults_def record_entry_alt Let_def)
  have w: "store_inv ?w" "iter_order (st_entries ?w) ord" "fmlookup (st_entries ?w) key = Some ?e"
    using with_entry_inv[of s "int (length data)"] assms(1,2)
    by (simp_all add: with_entry_disk) (simp add: with_entry_def)
  have lim: "evict_limit ?w = st_maxSize s * 8 div 10" "st_dir ?w = st_dir s" "st_ttl ?w = st_ttl s"
    using evict_limit_eq[of ?w] assms(6,7) by (simp_all add: with_entry_def)
  have "int (length data) < 2 ^ 63" using assms(6-8) by linarith
  with evict_keeps_newest[OF w, of noFaults] assms(3,4,5,8) lim
  have ev: "fmlookup (st_entries (evictIfNeeded noFaults ord ?w)) key = Some ?e"
      "fmlookup (disk (evictIfNeeded noFaults ord ?w)) (keyPath (st_dir s) key) = fmlookup (disk ?w) (keyPath (st_dir s) key)"
      "st_dir (evictIfNeeded noFaults ord ?w) = st_dir s" "st_ttl (evictIfNeeded noFaults ord ?w) = st_ttl s"
    by (auto simp: with_entry_def split: if_splits)
  have "fmlookup (disk ?w) (keyPath (st_dir s) key) = Some data" by (simp add: with_entry_def)
  with ev keyPath_not_index[OF assms(3), of "st_dir s"] assms(9) show ?thesis
    unfolding run by (simp add: Store_GetBytes_def Store_Get_def saveIndex_def noFaults_def)
qed

text \<open>
  C11. Round trip: bytes that are stored, and fit in 80 percent of the cache, are returned by every
  lookup within the time to live, whatever was evicted to make room. (The keys in use are safe
  file names, which all hashed keys are, and the clock has moved on since the other entries
  were last accessed.)
\<close>

theorem PutBytes_GetBytes:
  assumes "store_inv s" and "iter_order (st_entries (with_entry now key (int (length data)) s)) ord"
    and "safeKey key" and "\<forall>k e. fmlookup (st_entries s) k = Some e \<longrightarrow> safeKey k"
    and "\<forall>k e. fmlookup (st_entries s) k = Some e \<longrightarrow> k \<noteq> key \<longrightarrow> e_AccessedAt e < now"
    and "0 \<le> st_maxSize s" and "st_maxSize s * 8 < 2 ^ 63" and "int (length data) \<le> st_maxSize s * 8 div 10"
    and "time_sub now' now \<le> st_ttl s"
  shows "fst (Store_GetBytes J noFaults now' ord2 key
      (snd (Store_PutBytes False J noFaults now ord ord' key data s))) = Some data"
  using assms by (rule stored_bytes_found)

lemma PutBytes_GetBytes_witness:
  "fst (Store_GetBytes emptyCodec noFaults 50 [''ccc''] ''ccc''
      (snd (Store_PutBytes False emptyCodec noFaults 7 [''aaa'', ''bbb'', ''ccc''] [''ccc''] ''ccc'' ''data'' fullStore))) = Some ''data''"
proof (rule PutBytes_GetBytes[OF fullStore_ready(2)])
  show "iter_order (st_entries (with_entry 7 ''ccc'' (int (length ''data'')) fullStore)) [''aaa'', ''bbb'', ''ccc'']"
    by (auto simp: with_entry_def fullStore_def sampleStore_def iter_order_def)
qed (auto simp: fullStore_def sampleStore_def safeKey_def sampleEntry_def time_sub_def maxDuration_def minDuration_def
      numeral_2_eq_2 split: if_splits)

lemma fold_fmupd_lookup:
  assumes "distinct (map e_Key xs)"
  shows "fmlookup (fold (\<lambda>x. fmupd (e_Key x) x) xs m) k =
    (case find (\<lambda>x. e_Key x = k) xs of Some x \<Rightarrow> Some x | None \<Rightarrow> fmlookup m k)"
  using assms
proof (induction xs arbitrary: m)
  case (Cons x xs)
  have "find (\<lambda>y. e_Key y = e_Key x) xs = None" using Cons.prems by (auto simp: find_None_iff image_iff)
  with Cons show ?case by (auto split: option.split)
qed simp

lemma range_vals_keys:
  assumes "\<forall>k e. fmlookup m k = Some e \<longrightarrow> e_Key e = k"
  shows "set (map e_Key (range_vals m ord)) \<subseteq> set ord" and "distinct ord \<Longrightarrow> distinct (map e_Key (range_vals m ord))"
    and "find (\<lambda>x. e_Key x = k) (range_vals m ord) = (if k \<in> set ord then fmlookup m k else None)"
proof -
  show sub: "set (map e_Key (range_vals m ord)) \<subseteq> set ord"
    using assms by (auto simp: range_vals_set)
  show "distinct ord \<Longrightarrow> distinct (map e_Key (range_vals m ord))"
  proof (induction ord)
    case (Cons k ord)
    have "e_Key e \<in> set ord" if "e \<in> set (range_vals m ord)" for e
      using that assms by (auto simp: range_vals_set)
    with Cons assms show ?case by (auto split: option.split)
  qed simp
  show "find (\<lambda>x. e_Key x = k) (range_vals m ord) = (if k \<in> set ord then fmlookup m k else None)"
  proof (induction ord)
    case (Cons k' ord)
    then show ?case using assms by (cases "fmlookup m k'") auto
  qed simp
qed

text \<open>
  The index survives a restart: opening a store on the disk that \<^verbatim>\<open>saveIndex\<close> left gives back
  the same entries and the same total, whatever order the entries were written in.
\<close>

theorem index_round_trip:
  assumes "json_ok J" and "store_inv s" and "iter_order (st_entries s) ord" and "f_index f = NoFault"
  shows "\<exists>s'. NewStore J noFaults (st_dir s) mb hours (disk (snd (saveIndex J f ord s))) = Ok s' \<and>
    st_entries s' = st_entries s \<and> st_totalSize s' = st_totalSize s"
proof -
  let ?xs = "range_vals (st_entries s) ord"
  let ?s = "\<lparr>st_dir = st_dir s, st_maxSize = wrap64 (mb * 1024 * 1024), st_ttl = wrap64 (hours * (3600 * Second)),
    st_entries = fmempty, st_totalSize = 0, disk = disk (snd (saveIndex J f ord s))\<rparr>"
  have keys: "\<forall>k e. fmlookup (st_entries s) k = Some e \<longrightarrow> e_Key e = k"
    and sizes: "\<forall>x \<in> set ?xs. 0 \<le> e_Size x"
    using assms(2) by (auto simp: store_inv_def range_vals_set)
  have d: "distinct (map e_Key ?xs)" using range_vals_keys(2)[OF keys] iter_order_distinct[OF assms(3)] by blast
  have empty: "store_inv ?s" by (simp add: store_inv_def wrap64_id is_int64_def)
  obtain s' where s': "loadEntries (map Some ?xs) ?s = Ok s'" "store_inv s'"
      "st_entries s' = fold (\<lambda>x. fmupd (e_Key x) x) ?xs fmempty"
    using loadEntries_inv[OF empty d sizes] by auto
  have "fmlookup (st_entries s') k = fmlookup (st_entries s) k" for k
    using iter_order_mem[OF assms(3), of k] s'(3) range_vals_keys(3)[OF keys, of k ord]
    by (auto simp: fold_fmupd_lookup[OF d] split: option.split)
  then have "st_entries s' = st_entries s" by (intro fmap_ext) simp
  moreover from this have "st_totalSize s' = st_totalSize s" using s'(2) assms(2) by (simp add: store_inv_def)
  moreover have "NewStore J noFaults (st_dir s) mb hours (disk (snd (saveIndex J f ord s))) = Ok s'"
    using assms(1,4) s'(1) by (simp add: NewStore_def noFaults_def loadIndex_def saveIndex_def json_ok_def Let_def)
  ultimately show ?thesis by blast
qed

text \<open>A complete codec: numbers in unary, strings with their length in front.\<close>

definition encNat :: "nat \<Rightarrow> bytes" where
  "encNat n = replicate n (CHR ''i'') @ [CHR '';'']"

definition encInt :: "int \<Rightarrow> bytes" where
  "encInt i = (if i < 0 then CHR ''-'' else CHR ''+'') # encNat (nat \<bar>i\<bar>)"

definition encEntry :: "Entry \<Rightarrow> bytes" where
  "encEntry e = encNat (length (e_Key e)) @ e_Key e @ encInt (e_Size e) @ encInt (e_CreatedAt e) @
     encInt (e_AccessedAt e) @ encInt (e_Hits e)"

definition decNat :: "bytes \<Rightarrow> nat \<times> bytes" where
  "decNat b = (let n = length (takeWhile (\<lambda>c. c = CHR ''i'') b) in (n, drop (Suc n) b))"

definition decInt :: "bytes \<Rightarrow> int \<times> bytes" where
  "decInt b = (case b of [] \<Rightarrow> (0, [])
     | c # b' \<Rightarrow> let (n, r) = decNat b' in (if c = CHR ''-'' then - int n else int n, r))"

definition decEntry :: "bytes \<Rightarrow> Entry \<times> bytes" where
  "decEntry b =
     (let (n, b) = decNat b; k = take n b; b = drop n b;
          (sz, b) = decInt b; (cr, b) = decInt b; (ac, b) = decInt b; (hi, b) = decInt b
      in (\<lparr>e_Key = k, e_Size = sz, e_CreatedAt = cr, e_AccessedAt = ac, e_Hits = hi\<rparr>, b))"

fun decEntries :: "nat \<Rightarrow> bytes \<Rightarrow> Entry list" where
  "decEntries 0 b = []"
| "decEntries (Suc n) b = (let (e, b') = decEntry b in e # decEntries n b')"

definition unaryCodec :: json_codec where
  "unaryCodec =
     \<lparr>jsonEncode = (\<lambda>es. encNat (length es) @ concat (map encEntry es)),
      jsonDecode = (\<lambda>b. let (n, b') = decNat b in Some (map Some (decEntries n b')))\<rparr>"

lemma decNat_enc [simp]: "decNat (encNat n @ r) = (n, r)"
proof -
  have "takeWhile (\<lambda>c. c = CHR ''i'') (replicate n (CHR ''i'') @ CHR '';'' # r) = replicate n (CHR ''i'')"
    by (induction n) auto
  then show ?thesis by (simp add: decNat_def encNat_def Let_def)
qed

lemma decInt_enc [simp]: "decInt (encInt i @ r) = (i, r)"
  by (simp add: decInt_def encInt_def)

lemma decEntry_enc [simp]: "decEntry (encEntry e @ r) = (e, r)"
  by (simp add: decEntry_def encEntry_def)

lemma decEntries_enc: "decEntries (length es) (concat (map encEntry es)) = es"
  by (induction es) simp_all

lemma unaryCodec_ok: "json_ok unaryCodec"
  by (simp add: json_ok_def unaryCodec_def decEntries_enc)

lemma index_round_trip_witness:
  "\<exists>s'. NewStore unaryCodec noFaults (st_dir fullStore) 1 1
      (disk (snd (saveIndex unaryCodec noFaults [''aaa'', ''bbb''] fullStore))) = Ok s' \<and>
    st_entries s' = st_entries fullStore \<and> st_totalSize s' = st_totalSize fullStore"
  by (rule index_round_trip[OF unaryCodec_ok fullStore_ready(2,3)]) (simp add: noFaults_def)

text \<open>
  An entry past its time to live is never served: the lookup misses and the entry is gone.
\<close>

theorem expired_not_served:
  assumes "fmlookup (st_entries s) key = Some e" and "time_sub now (e_CreatedAt e) > st_ttl s"
  shows "fst (Store_Get J f now ord key s) = None \<and>
    fmlookup (st_entries (snd (Store_Get J f now ord key s))) key = None"
  using assms by (simp add: Store_Get_def Store_Delete_def)

lemma expired_not_served_witness:
  "fst (Store_Get emptyCodec noFaults 500 [] ''aaa'' fullStore) = None"
proof -
  have "fmlookup (st_entries fullStore) ''aaa'' = Some (sampleEntry ''aaa'' 6 1)"
    by (simp add: fullStore_def sampleStore_def)
  from expired_not_served[OF this, of 500 emptyCodec noFaults "[]"] show ?thesis
    by (simp add: fullStore_def sampleStore_def sampleEntry_def time_sub_def maxDuration_def minDuration_def)
qed

text \<open>
  Finding: a corrupt index is meant to be discarded ("Index corruption, start fresh"), but an
  index that is valid JSON with a \<^verbatim>\<open>null\<close> element decodes to a nil entry, and loading it panics.
\<close>

theorem null_index_panics:
  assumes "fmlookup d (indexPath dir) = Some data" and "jsonDecode J data = Some (map Some xs @ None # es)"
  shows "NewStore J noFaults dir mb hours d = Panic"
proof -
  have "loadEntries (map Some xs @ None # es) s = Panic" for s
    by (induction xs arbitrary: s) auto
  with assms show ?thesis by (simp add: NewStore_def noFaults_def loadIndex_def Let_def)
qed

lemma null_index_panics_witness:
  "NewStore \<lparr>jsonEncode = (\<lambda>_. ''''), jsonDecode = (\<lambda>_. Some [None])\<rparr> noFaults [''cache''] 1 1
     (fmupd [''cache'', ''index.json''] ''[null]'' fmempty) = Panic"
  by (rule null_index_panics[where data = "''[null]''" and xs = "[]" and es = "[]"])
    (simp_all add: indexPath_eq)

text \<open>
  Finding: \<^verbatim>\<open>PutBytes\<close> writes the file in place (\<^verbatim>\<open>Put\<close> writes a temporary file and renames it).
  When the write of a key that is already cached stops short, the call fails but the old
  entry stays and now points to the truncated file, which the next lookup serves as a hit.
\<close>

theorem PutBytes_short_write_served:
  assumes "fmlookup (st_entries s) key = Some e" and "time_sub now' (e_CreatedAt e) \<le> st_ttl s" and "key \<noteq> ''''"
  shows "fst (Store_PutBytes False J (noFaults\<lparr>f_write := ShortWrite n\<rparr>) now ord ord' key data s) = Err CopyError \<and>
    fst (Store_GetBytes J noFaults now' ord2 key
      (snd (Store_PutBytes False J (noFaults\<lparr>f_write := ShortWrite n\<rparr>) now ord ord' key data s))) = Some (take n data)"
  using assms by (simp add: Store_PutBytes_def Store_GetBytes_def Store_Get_def validateCacheKey_def noFaults_def Let_def)

lemma PutBytes_short_write_served_witness:
  "fst (Store_GetBytes emptyCodec noFaults 5 [] ''aaa''
     (snd (Store_PutBytes False emptyCodec (noFaults\<lparr>f_write := ShortWrite 2\<rparr>) 4 [] [] ''aaa'' ''object'' fullStore))) = Some ''ob''"
proof -
  have "fmlookup (st_entries fullStore) ''aaa'' = Some (sampleEntry ''aaa'' 6 1)"
    by (simp add: fullStore_def sampleStore_def)
  from PutBytes_short_write_served[OF this, of 5 emptyCodec 2 4 "[]" "[]" "''object''" "[]"] show ?thesis
    by (simp add: fullStore_def sampleStore_def sampleEntry_def time_sub_def maxDuration_def minDuration_def numeral_2_eq_2)
qed

end
