(* ===== verification/Client.thy ===== *)
theory Client
  imports Compiler Cache_Store
begin

text \<open>
  The client's build service: compiling locally (\<^verbatim>\<open>internal/cli/fallback/local.go\<close>) and the
  distributed compilation with cache, retries and fallback (\<^verbatim>\<open>internal/cli/build/build.go\<close>).

  Everything outside the process is an argument: the record \<open>build_env\<close> holds the file system,
  the processes and the answers of the coordinator for one call of \<^verbatim>\<open>Build\<close>. Logging and metrics
  are left out.
\<close>

subsection \<open>Compiling locally\<close>

record CompileJob =
  job_TaskID :: string
  job_Compiler :: string
  job_Args :: "string list"
  job_PreprocessedSource :: bytes
  job_Timeout :: int

record CompileResult =
  res_ObjectCode :: bytes
  res_Stdout :: string
  res_Stderr :: string
  res_ExitCode :: int
  res_CompilationTime :: int
  res_Fallback :: bool
  res_FallbackReason :: string

record LocalFallback =
  fb_enabled :: bool
  fb_workDir :: string
  fb_maxTimeout :: int

definition LocalFallback_New :: "string \<Rightarrow> bool \<Rightarrow> string \<Rightarrow> int \<Rightarrow> LocalFallback" where
  "LocalFallback_New tempDir isEnabled workDir maxTimeout =
     \<lparr>fb_enabled = isEnabled, fb_workDir = (if workDir = '''' then tempDir else workDir),
      fb_maxTimeout = maxTimeout\<rparr>"

text \<open>The file's own \<^verbatim>\<open>isSourceFile\<close>: case matters here, and an option is none.\<close>

definition isSourceArg :: "string \<Rightarrow> bool" where
  "isSourceArg arg =
     (if length arg = 0 \<or> hd arg = CHR ''-'' then False
      else path_Ext arg \<in> set [''.c'', ''.cpp'', ''.cc'', ''.cxx'', ''.C'', ''.i'', ''.ii'', ''.s'', ''.S'', ''.m'', ''.mm''])"

fun keptArgs :: "string list \<Rightarrow> string list" where
  "keptArgs [] = []"
| "keptArgs (arg # args) =
     (if arg = ''-o'' then keptArgs (tl args)
      else if isSourceArg arg then keptArgs args
      else arg # keptArgs args)"

definition buildArgs :: "string list \<Rightarrow> string \<Rightarrow> string \<Rightarrow> string list" where
  "buildArgs original srcFile outFile =
     (if ''-c'' \<notin> set original then [''-c''] else []) @ keptArgs original @ [srcFile, ''-o'', outFile]"

text \<open>How a process ended: in time or not, with success, an exit code, or not started at all.\<close>

datatype proc_end = ProcOK | ProcExit int | ProcError string

record local_env =
  le_taskDir :: "string option"
  le_writeOK :: bool
  le_run :: "string \<Rightarrow> string list \<Rightarrow> int \<Rightarrow> bool \<times> proc_end"
  le_stdout :: string
  le_stderr :: string
  le_output :: "bytes option"
  le_time :: int

definition LocalFallback_Execute :: "local_env \<Rightarrow> LocalFallback \<Rightarrow> CompileJob \<Rightarrow> (string, CompileResult) outcome" where
  "LocalFallback_Execute env f job =
     (if \<not> fb_enabled f then Err ''local fallback is disabled''
      else case le_taskDir env of
        None \<Rightarrow> Err ''failed to create temp dir''
      | Some taskDir \<Rightarrow>
          if \<not> le_writeOK env then Err ''failed to write source''
          else
            (let srcFile = path_Join [taskDir, ''source.i''];
                 outFile = path_Join [taskDir, ''output.o''];
                 args = buildArgs (job_Args job) srcFile outFile;
                 timeout = (if job_Timeout job > fb_maxTimeout f then fb_maxTimeout f else job_Timeout job);
                 timeout = (if timeout \<le> 0 then fb_maxTimeout f else timeout);
                 (timedOut, ended) = le_run env (job_Compiler job) args timeout;
                 result = \<lparr>res_ObjectCode = [], res_Stdout = le_stdout env, res_Stderr = le_stderr env,
                           res_ExitCode = 0, res_CompilationTime = le_time env, res_Fallback = True,
                           res_FallbackReason = ''remote workers unavailable''\<rparr>
             in if timedOut
                then Ok (result\<lparr>res_ExitCode := - 1, res_Stderr := ''compilation timed out''\<rparr>)
                else case ended of
                  ProcExit code \<Rightarrow> Ok (result\<lparr>res_ExitCode := code\<rparr>)
                | ProcError e \<Rightarrow>
                    Ok (result\<lparr>res_ExitCode := 1,
                          res_Stderr := ''exec error: '' @ e @ [CHR 0x0A] @ res_Stderr result\<rparr>)
                | ProcOK \<Rightarrow>
                    (case le_output env of
                       None \<Rightarrow> Ok (result\<lparr>res_ExitCode := 1,
                                 res_Stderr := ''failed to read output: '' @ [CHR 0x0A] @ res_Stderr result\<rparr>)
                     | Some objectCode \<Rightarrow> Ok (result\<lparr>res_ObjectCode := objectCode, res_ExitCode := 0\<rparr>))))"

subsection \<open>The service\<close>

record Service =
  sv_cache :: "Store option"
  sv_connected :: bool
  sv_fallback :: LocalFallback
  sv_prepTimeout :: int
  sv_maxRetries :: int
  sv_retryDelay :: int
  sv_hitsReported :: nat

record Request =
  rq_TaskID :: string
  rq_SourceFile :: string
  rq_OutputFile :: string
  rq_Args :: ParsedArgs
  rq_TargetArch :: Architecture
  rq_Timeout :: int

record Result =
  rs_ObjectFile :: bytes
  rs_ExitCode :: int
  rs_Stdout :: string
  rs_Stderr :: string
  rs_CacheHit :: bool
  rs_Fallback :: bool
  rs_FallbackReason :: string
  rs_Duration :: int
  rs_CompilationTime :: int
  rs_WorkerID :: string

definition emptyResult :: Result where
  "emptyResult = \<lparr>rs_ObjectFile = [], rs_ExitCode = 0, rs_Stdout = '''', rs_Stderr = '''', rs_CacheHit = False,
     rs_Fallback = False, rs_FallbackReason = '''', rs_Duration = 0, rs_CompilationTime = 0, rs_WorkerID = ''''\<rparr>"

record remoteResult =
  rr_ObjectFile :: bytes
  rr_ExitCode :: int
  rr_Stdout :: string
  rr_Stderr :: string
  rr_CompilationTime :: int
  rr_WorkerID :: string

text \<open>
  \<open>be_call q i\<close> is the coordinator's answer to the \<open>i\<close>-th attempt of this call with request \<open>q\<close>;
  \<open>be_cancelled i\<close> says that the context ended while waiting before it. \<open>be_run i\<close> is the
  \<open>i\<close>-th run of the preprocessor.
\<close>

record build_env =
  be_source :: "bytes option"
  be_walk :: "string \<Rightarrow> (string \<times> bytes) list option"
  be_run :: "nat \<Rightarrow> string \<Rightarrow> string list \<Rightarrow> int \<Rightarrow> run_result"
  be_call :: "CompileRequest \<Rightarrow> nat \<Rightarrow> (string, CompileResponse) outcome"
  be_cancelled :: "nat \<Rightarrow> bool"
  be_local :: local_env
  be_elapsed :: int
  be_goos :: string
  be_goarch :: string
  be_json :: json_codec
  be_getFaults :: os_faults
  be_putFaults :: os_faults
  be_getNow :: int
  be_putNow :: int
  be_getOrd :: "string list"
  be_putOrd :: "string list"
  be_putOrd' :: "string list"

record ClientConfig =
  CacheDir :: string
  CacheMaxSize :: int
  CacheTTLHours :: int
  CoordinatorAddr :: string
  Insecure :: bool
  Timeout :: int
  FallbackEnabled :: bool
  Verbose :: bool
  MaxRetries :: int
  RetryDelay :: int

definition DefaultClientConfig :: "string \<Rightarrow> ClientConfig" where
  "DefaultClientConfig home =
     \<lparr>CacheDir = path_Join [home, ''.hybridgrid'', ''cache''], CacheMaxSize = 10 * 1024 * 1024 * 1024,
      CacheTTLHours = 168, CoordinatorAddr = ''localhost:9000'', Insecure = True, Timeout = 300 * Second,
      FallbackEnabled = True, Verbose = False, MaxRetries = 3, RetryDelay = 100 * Millisecond\<rparr>"

text \<open>
  A cache that cannot be opened is left out; a panic while reading its index is not caught. The disk is an
  argument, as in the model of the store, and its directory is given by the components of the path.
\<close>

definition Service_New ::
    "json_codec \<Rightarrow> os_faults \<Rightarrow> (string list, bytes) fmap \<Rightarrow> string \<Rightarrow> ClientConfig \<Rightarrow> (string, Service) outcome" where
  "Service_New J faults d tempDir cfg =
     (let s = \<lparr>sv_cache = None, sv_connected = False,
               sv_fallback = LocalFallback_New tempDir (FallbackEnabled cfg) '''' (Timeout cfg),
               sv_prepTimeout = NewPreprocessor (60 * Second), sv_maxRetries = MaxRetries cfg,
               sv_retryDelay = RetryDelay cfg, sv_hitsReported = 0\<rparr>
      in case NewStore J faults (components (CacheDir cfg)) (CacheMaxSize cfg) (CacheTTLHours cfg) d of
           Ok store \<Rightarrow> Ok (s\<lparr>sv_cache := Some store\<rparr>)
         | Err _ \<Rightarrow> Ok s
         | Panic \<Rightarrow> Panic)"

definition SetClient :: "Service \<Rightarrow> Service" where
  "SetClient s = s\<lparr>sv_connected := True\<rparr>"

subsection \<open>Requests\<close>

definition getClientArch :: "string \<Rightarrow> Architecture" where
  "getClientArch goarch =
     (if goarch = ''amd64'' then ARCH_X86_64
      else if goarch = ''arm64'' then ARCH_ARM64
      else if goarch = ''arm'' then ARCH_ARMV7
      else ARCH_UNSPECIFIED)"

definition buildRemoteArgs :: "ParsedArgs \<Rightarrow> string list" where
  "buildRemoteArgs args =
     [''-c''] @ filter (\<lambda>flag. \<not> (HasPrefix flag ''-I'' \<or> HasPrefix flag ''-D'')) (Flags args) @
     (if Standard args \<noteq> '''' then [''-std='' @ Standard args] else [])"

definition buildRemoteArgsForRaw :: "ParsedArgs \<Rightarrow> string list" where
  "buildRemoteArgsForRaw args =
     [''-c''] @ Flags args @ (if Standard args \<noteq> '''' then [''-std='' @ Standard args] else [])"

definition emptyCompileRequest :: CompileRequest where
  "emptyCompileRequest =
     \<lparr>cr_TaskId = '''', cr_SourceHash = '''', cr_PreprocessedSource = [], cr_CompilerArgs = [], cr_Compiler = '''',
      cr_CompilerVersion = '''', cr_TargetArch = ARCH_UNSPECIFIED, cr_DockerImage = '''', cr_TimeoutSeconds = 0,
      cr_ClientOs = '''', cr_ClientArch = ARCH_UNSPECIFIED, cr_RawSource = [], cr_SourceFilename = '''',
      cr_IncludeFiles = fmempty, cr_IncludePaths = []\<rparr>"

definition preprocessedRequest :: "build_env \<Rightarrow> Request \<Rightarrow> bytes \<Rightarrow> CompileRequest" where
  "preprocessedRequest env req preprocessed =
     emptyCompileRequest
       \<lparr>cr_TaskId := rq_TaskID req, cr_Compiler := Compiler (rq_Args req),
        cr_CompilerArgs := buildRemoteArgs (rq_Args req), cr_PreprocessedSource := preprocessed,
        cr_SourceFilename := path_Base (rq_SourceFile req), cr_TargetArch := rq_TargetArch req,
        cr_TimeoutSeconds := wrap32 (rq_Timeout req sdiv Second), cr_ClientOs := be_goos env,
        cr_ClientArch := getClientArch (be_goarch env)\<rparr>"

definition rawRequest :: "build_env \<Rightarrow> Request \<Rightarrow> bytes \<Rightarrow> (string, bytes) fmap \<Rightarrow> CompileRequest" where
  "rawRequest env req rawSource includeFiles =
     emptyCompileRequest
       \<lparr>cr_TaskId := rq_TaskID req, cr_Compiler := Compiler (rq_Args req),
        cr_CompilerArgs := buildRemoteArgsForRaw (rq_Args req), cr_RawSource := rawSource,
        cr_SourceFilename := path_Base (rq_SourceFile req), cr_IncludeFiles := includeFiles,
        cr_TargetArch := rq_TargetArch req,
        cr_TimeoutSeconds := wrap32 (rq_Timeout req sdiv Second), cr_ClientOs := be_goos env,
        cr_ClientArch := getClientArch (be_goarch env)\<rparr>"

subsection \<open>Headers of the project\<close>

text \<open>
  \<open>walk d\<close> lists the regular files below \<open>d\<close> that can be opened and read, with their contents, in
  the order of the walk, or is \<open>None\<close> if \<open>d\<close> cannot be opened.
\<close>

definition skippedInclude :: "string \<Rightarrow> bool" where
  "skippedInclude includePath \<longleftrightarrow>
     HasPrefix includePath ''/usr'' \<or> HasPrefix includePath ''/opt'' \<or>
     HasPrefix includePath ''/Library'' \<or> Contains includePath ''sdk''"

definition collectHeader :: "(string, bytes) fmap \<Rightarrow> string \<times> bytes \<Rightarrow> (string, bytes) fmap" where
  "collectHeader m f =
     (let (path, content) = f
      in if path_Ext path \<in> set [''.h'', ''.hpp'', ''.hxx'', ''.hh'']
         then let relPath = Clean path
              in fmupd (if relPath = ''.'' then path_Base path else relPath) content m
         else m)"

definition collectFlag ::
    "(string \<Rightarrow> (string \<times> bytes) list option) \<Rightarrow> (string, bytes) fmap \<Rightarrow> string \<Rightarrow> (string, bytes) fmap" where
  "collectFlag walk m flag =
     (if \<not> HasPrefix flag ''-I'' then m
      else if flag = ''-I'' then m
      else let includePath = trimPrefix flag ''-I'' in
        if skippedInclude includePath then m
        else if \<not> IsAbs includePath \<or> HasPrefix includePath ''.''
        then (case walk includePath of None \<Rightarrow> m | Some files \<Rightarrow> foldl collectHeader m files)
        else m)"

definition collectIncludeFiles ::
    "(string \<Rightarrow> (string \<times> bytes) list option) \<Rightarrow> ParsedArgs \<Rightarrow> (string, bytes) fmap" where
  "collectIncludeFiles walk args = foldl (collectFlag walk) fmempty (Flags args)"

subsection \<open>Remote compilation\<close>

definition isRetryableError :: "string \<Rightarrow> bool" where
  "isRetryableError errStr \<longleftrightarrow>
     list_ex (Contains errStr) [''connection'', ''timeout'', ''deadline'', ''unavailable'', ''reset'', ''EOF'']"

definition responseResult :: "CompileResponse \<Rightarrow> remoteResult" where
  "responseResult resp =
     \<lparr>rr_ObjectFile = cs_ObjectFile resp, rr_ExitCode = cs_ExitCode resp, rr_Stdout = cs_Stdout resp,
      rr_Stderr = cs_Stderr resp, rr_CompilationTime = wrap64 (cs_CompilationTimeMs resp * Millisecond),
      rr_WorkerID = cs_WorkerId resp\<rparr>"

definition nextDelay :: "int \<Rightarrow> int" where
  "nextDelay delay = (let d = wrap64 (delay * 2) in if d > 5 * Second then 5 * Second else d)"

text \<open>
  The retry loop, with \<open>n\<close> attempts left: the result and the delays it waited. The two functions
  that send a request contain it word for word.
\<close>

fun retry_loop ::
    "(nat \<Rightarrow> (string, CompileResponse) outcome) \<Rightarrow> (nat \<Rightarrow> bool) \<Rightarrow> int \<Rightarrow> nat \<Rightarrow> nat \<Rightarrow> int \<Rightarrow> string \<Rightarrow>
     (string, remoteResult) outcome \<times> int list" where
  "retry_loop call cancelled maxRetries 0 attempt delay lastErr =
     (Err (''remote compilation failed after '' @ int_str maxRetries @ '' attempts: '' @ lastErr), [])"
| "retry_loop call cancelled maxRetries (Suc n) attempt delay lastErr =
     (if attempt > 0 \<and> cancelled attempt then (Err ''context canceled'', [])
      else
        let waited = (if attempt > 0 then [delay] else []);
            delay = (if attempt > 0 then nextDelay delay else delay)
        in case call attempt of
             Err e \<Rightarrow>
               if isRetryableError e
               then (let (r, ws) = retry_loop call cancelled maxRetries n (Suc attempt) delay e in (r, waited @ ws))
               else (Err e, waited)
           | Ok resp \<Rightarrow> (Ok (responseResult resp), waited)
           | Panic \<Rightarrow> (Panic, waited))"

definition attempts :: "Service \<Rightarrow> int" where
  "attempts s = (if sv_maxRetries s \<le> 0 then 1 else sv_maxRetries s)"

definition compileRemotePreprocessed ::
    "build_env \<Rightarrow> Service \<Rightarrow> Request \<Rightarrow> bytes \<Rightarrow> (string, remoteResult) outcome \<times> int list" where
  "compileRemotePreprocessed env s req preprocessed =
     retry_loop (be_call env (preprocessedRequest env req preprocessed)) (be_cancelled env)
       (attempts s) (nat (attempts s)) 0 (sv_retryDelay s) ''''"

definition compileRemoteRaw ::
    "build_env \<Rightarrow> Service \<Rightarrow> Request \<Rightarrow> bytes \<Rightarrow> (string, bytes) fmap \<Rightarrow>
     (string, remoteResult) outcome \<times> int list" where
  "compileRemoteRaw env s req rawSource includeFiles =
     retry_loop (be_call env (rawRequest env req rawSource includeFiles)) (be_cancelled env)
       (attempts s) (nat (attempts s)) 0 (sv_retryDelay s) ''''"

definition compileLocal :: "build_env \<Rightarrow> Service \<Rightarrow> Request \<Rightarrow> bytes \<Rightarrow> (string, CompileResult) outcome" where
  "compileLocal env s req preprocessed =
     LocalFallback_Execute (be_local env) (sv_fallback s)
       \<lparr>job_TaskID = rq_TaskID req, job_Compiler = Compiler (rq_Args req), job_Args = buildRemoteArgs (rq_Args req),
        job_PreprocessedSource = preprocessed, job_Timeout = rq_Timeout req\<rparr>"

definition generateCacheKeyRaw :: "(bytes \<Rightarrow> 64 word) \<Rightarrow> Request \<Rightarrow> bytes \<Rightarrow> string" where
  "generateCacheKeyRaw H req rawSource =
     CompilationKey_Build H
       \<lparr>ck_Compiler = Compiler (rq_Args req), ck_CompilerVer = '''',
        ck_TargetArch = Architecture_String (rq_TargetArch req), ck_Flags = Flags (rq_Args req),
        ck_Defines = Defines (rq_Args req), ck_SourceHash = HashBytes H rawSource\<rparr>"

text \<open>\<^verbatim>\<open>generateCacheKey\<close>, over the preprocessed source, has the same body and no caller.\<close>

subsection \<open>Build\<close>

datatype build_error = SourceUnreadable | FallbackDisabled | FallbackPreprocessing preprocess_error | FallbackFailed string

definition cacheGet :: "build_env \<Rightarrow> string \<Rightarrow> Service \<Rightarrow> bytes option \<times> Service" where
  "cacheGet env key s =
     (case sv_cache s of
        None \<Rightarrow> (None, s)
      | Some c \<Rightarrow> (let (d, c') = Store_GetBytes (be_json env) (be_getFaults env) (be_getNow env) (be_getOrd env) key c
                  in (d, s\<lparr>sv_cache := Some c'\<rparr>)))"

text \<open>Storing an object; a failure is logged and ignored.\<close>

definition cachePut :: "build_env \<Rightarrow> string \<Rightarrow> bytes \<Rightarrow> Service \<Rightarrow> Service" where
  "cachePut env key data s =
     (case sv_cache s of
        None \<Rightarrow> s
      | Some c \<Rightarrow>
          if 0 < length data
          then s\<lparr>sv_cache := Some (snd (Store_PutBytes (be_goos env = ''windows'') (be_json env) (be_putFaults env)
                   (be_putNow env) (be_putOrd env) (be_putOrd' env) key data c))\<rparr>
          else s)"

definition remoteStep :: "build_env \<Rightarrow> Service \<Rightarrow> Request \<Rightarrow> bytes \<Rightarrow> (string, remoteResult) outcome" where
  "remoteStep env s req rawSource =
     (case Preprocess (be_run env 0) (sv_prepTimeout s) (Some (rq_Args req)) (rq_SourceFile req) of
        Ok prep \<Rightarrow> fst (compileRemotePreprocessed env s req (PreprocessedSource prep))
      | _ \<Rightarrow> fst (compileRemoteRaw env s req rawSource (collectIncludeFiles (be_walk env) (rq_Args req))))"

definition localStep ::
    "build_env \<Rightarrow> string \<Rightarrow> string \<Rightarrow> Request \<Rightarrow> Service \<Rightarrow> (build_error, Result) outcome \<times> Service" where
  "localStep env reason key req s =
     (if \<not> fb_enabled (sv_fallback s) then (Err FallbackDisabled, s)
      else case Preprocess (be_run env 1) (sv_prepTimeout s) (Some (rq_Args req)) (rq_SourceFile req) of
        Err e \<Rightarrow> (Err (FallbackPreprocessing e), s)
      | Panic \<Rightarrow> (Panic, s)
      | Ok prep \<Rightarrow>
          (case compileLocal env s req (PreprocessedSource prep) of
             Err e \<Rightarrow> (Err (FallbackFailed e), s)
           | Panic \<Rightarrow> (Panic, s)
           | Ok fr \<Rightarrow>
               (Ok (emptyResult\<lparr>rs_ObjectFile := res_ObjectCode fr, rs_ExitCode := res_ExitCode fr,
                      rs_Stdout := res_Stdout fr, rs_Stderr := res_Stderr fr, rs_Fallback := True,
                      rs_FallbackReason := reason, rs_CompilationTime := res_CompilationTime fr,
                      rs_Duration := be_elapsed env\<rparr>),
                if res_ExitCode fr = 0 then cachePut env key (res_ObjectCode fr) s else s)))"

definition Build ::
    "(bytes \<Rightarrow> 64 word) \<Rightarrow> build_env \<Rightarrow> Request \<Rightarrow> Service \<Rightarrow> (build_error, Result) outcome \<times> Service" where
  "Build H env req s =
     (case be_source env of
        None \<Rightarrow> (Err SourceUnreadable, s)
      | Some rawSource \<Rightarrow>
          (let key = generateCacheKeyRaw H req rawSource;
               (cached, s) = cacheGet env key s
           in case cached of
                Some obj \<Rightarrow>
                  (Ok (emptyResult\<lparr>rs_ObjectFile := obj, rs_CacheHit := True, rs_ExitCode := 0,
                         rs_Duration := be_elapsed env\<rparr>),
                   if sv_connected s then s\<lparr>sv_hitsReported := Suc (sv_hitsReported s)\<rparr> else s)
              | None \<Rightarrow>
                  if sv_connected s then
                    (case remoteStep env s req rawSource of
                       Ok cr \<Rightarrow>
                         if rr_ExitCode cr = 0
                         then (Ok (emptyResult\<lparr>rs_ObjectFile := rr_ObjectFile cr, rs_ExitCode := rr_ExitCode cr,
                                     rs_Stdout := rr_Stdout cr, rs_Stderr := rr_Stderr cr,
                                     rs_CompilationTime := rr_CompilationTime cr, rs_WorkerID := rr_WorkerID cr,
                                     rs_Duration := be_elapsed env\<rparr>),
                               cachePut env key (rr_ObjectFile cr) s)
                         else (Ok (emptyResult\<lparr>rs_ObjectFile := rr_ObjectFile cr, rs_ExitCode := rr_ExitCode cr,
                                     rs_Stdout := rr_Stdout cr, rs_Stderr := rr_Stderr cr,
                                     rs_Duration := be_elapsed env\<rparr>), s)
                     | Err e \<Rightarrow> localStep env (''remote error: '' @ e) key req s
                     | Panic \<Rightarrow> (Panic, s))
                  else localStep env ''no coordinator connection'' key req s))"

subsection \<open>Retrying\<close>

text \<open>Attempt \<open>j\<close> failed in a way that is retried.\<close>

definition retried :: "(nat \<Rightarrow> (string, CompileResponse) outcome) \<Rightarrow> nat \<Rightarrow> bool" where
  "retried call j \<longleftrightarrow> (\<exists>e. call j = Err e \<and> isRetryableError e)"

lemma retry_reaches:
  assumes "\<forall>j < i. retried call (a + j)" and "\<not> retried call (a + i)" and "i < n"
    and "\<forall>j \<le> i. 0 < a + j \<longrightarrow> \<not> cancelled (a + j)"
  shows "fst (retry_loop call cancelled m n a d le) =
    (case call (a + i) of Ok resp \<Rightarrow> Ok (responseResult resp) | Err e \<Rightarrow> Err e | Panic \<Rightarrow> Panic)"
  using assms
proof (induction i arbitrary: n a d le)
  case 0
  then obtain n' where n: "n = Suc n'" by (cases n) auto
  show ?case using 0 by (cases "call a") (auto simp: n retried_def Let_def)
next
  case (Suc i)
  then obtain n' where n: "n = Suc n'" by (cases n) auto
  from Suc.prems(1) have "retried call (a + 0)" by blast
  then obtain e where e: "call a = Err e" "isRetryableError e" by (auto simp: retried_def)
  have nc: "\<not> (a > 0 \<and> cancelled a)" using Suc.prems(4)[rule_format, of 0] by auto
  have IH: "fst (retry_loop call cancelled m n' (Suc a) d' e) =
    (case call (Suc a + i) of Ok resp \<Rightarrow> Ok (responseResult resp) | Err e \<Rightarrow> Err e | Panic \<Rightarrow> Panic)" for d'
  proof (rule Suc.IH)
    show "\<forall>j < i. retried call (Suc a + j)" using Suc.prems(1) by (metis Suc_less_eq add_Suc_shift)
    show "\<not> retried call (Suc a + i)" using Suc.prems(2) by simp
    show "i < n'" using Suc.prems(3) n by simp
    show "\<forall>j \<le> i. 0 < Suc a + j \<longrightarrow> \<not> cancelled (Suc a + j)"
      using Suc.prems(4) by (metis Suc_le_mono add_Suc_shift)
  qed
  then show ?case using e nc by (auto simp: n Let_def split_beta)
qed

lemma retry_exhausted:
  assumes "\<forall>j < n. retried call (a + j)" and "\<forall>j < n. 0 < a + j \<longrightarrow> \<not> cancelled (a + j)"
  shows "\<exists>e. fst (retry_loop call cancelled m n a d le) =
    Err (''remote compilation failed after '' @ int_str m @ '' attempts: '' @ e) \<and>
    (e = le \<and> n = 0 \<or> call (a + n - 1) = Err e)"
  using assms
proof (induction n arbitrary: a d le)
  case (Suc n)
  from Suc.prems(1) have "retried call (a + 0)" by blast
  then obtain e where e: "call a = Err e" "isRetryableError e" by (auto simp: retried_def)
  have nc: "\<not> (a > 0 \<and> cancelled a)" using Suc.prems(2)[rule_format, of 0] by auto
  have "\<forall>j < n. retried call (Suc a + j)" "\<forall>j < n. 0 < Suc a + j \<longrightarrow> \<not> cancelled (Suc a + j)"
    using Suc.prems by (metis Suc_less_eq add_Suc_shift)+
  note IH = Suc.IH[OF this, of "if a > 0 then nextDelay d else d" e]
  then show ?case using e nc by (auto simp: Let_def split_beta)
qed simp

lemma nextDelay_le: "nextDelay d \<le> 5 * Second"
  by (simp add: nextDelay_def Let_def)

lemma retry_waits:
  "length (snd (retry_loop call cancelled m n a d le)) \<le> (if a = 0 then n - 1 else n) \<and>
   (\<forall>w \<in> set (snd (retry_loop call cancelled m n a d le)). w \<le> max d (5 * Second))"
proof (induction n arbitrary: a d le)
  case (Suc n)
  show ?case
  proof (cases "call a")
    case (Err e)
    let ?d = "if a > 0 then nextDelay d else d"
    let ?ws = "snd (retry_loop call cancelled m n (Suc a) ?d e)"
    have le: "max ?d (5 * Second) \<le> max d (5 * Second)" using nextDelay_le[of d] by auto
    have ws: "length ?ws \<le> n" "\<forall>w \<in> set ?ws. w \<le> max d (5 * Second)"
      using Suc.IH[of "Suc a" ?d e] order_trans[OF _ le] by simp_all
    have "snd (retry_loop call cancelled m (Suc n) a d le) \<in> {[], if a > 0 then [d] else [], (if a > 0 then [d] else []) @ ?ws}"
      using Err by (cases a) (simp_all add: Let_def split_beta)
    then show ?thesis using ws by (cases a; elim insertE emptyE) (simp_all del: retry_loop.simps)
  qed (cases a; simp add: Let_def)+
qed simp

text \<open>
  C31. A request is sent until an attempt succeeds or fails for good: the answer of the first such attempt
  is the result, provided it is among the allowed ones and the context lasts. When all of
  them fail transiently the error says so and carries the last one. No more than the configured number
  of attempts is made (at least one), and no wait exceeds the initial delay or five seconds.
\<close>
theorem remote_retry_correct:
  fixes env s req src
  defines "call \<equiv> be_call env (preprocessedRequest env req src)" and "n \<equiv> nat (attempts s)"
    and "result \<equiv> compileRemotePreprocessed env s req src"
  assumes live: "\<forall>j. \<not> be_cancelled env j"
  shows "n \<ge> 1 \<and> length (snd result) \<le> n - 1 \<and>
    (\<forall>w \<in> set (snd result). w \<le> max (sv_retryDelay s) (5 * Second)) \<and>
    (\<forall>i < n. (\<forall>j < i. retried call j) \<and> \<not> retried call i \<longrightarrow>
       fst result = (case call i of Ok resp \<Rightarrow> Ok (responseResult resp) | Err e \<Rightarrow> Err e | Panic \<Rightarrow> Panic)) \<and>
    ((\<forall>j < n. retried call j) \<longrightarrow>
       (\<exists>e. call (n - 1) = Err e \<and>
          fst result = Err (''remote compilation failed after '' @ int_str (attempts s) @ '' attempts: '' @ e)))"
proof -
  have res: "result = retry_loop call (be_cancelled env) (attempts s) n 0 (sv_retryDelay s) ''''"
    by (simp add: result_def compileRemotePreprocessed_def call_def n_def)
  have n: "n \<ge> 1" by (simp add: n_def attempts_def Suc_le_eq)
  have "length (snd result) \<le> n - 1 \<and> (\<forall>w \<in> set (snd result). w \<le> max (sv_retryDelay s) (5 * Second))"
    using retry_waits[of call "be_cancelled env" "attempts s" n 0 "sv_retryDelay s" "''''"] unfolding res by simp
  moreover have "fst result = (case call i of Ok resp \<Rightarrow> Ok (responseResult resp) | Err e \<Rightarrow> Err e | Panic \<Rightarrow> Panic)"
    if "i < n" "\<forall>j < i. retried call j" "\<not> retried call i" for i
    unfolding res using retry_reaches[of i call 0 n "be_cancelled env"] that live by simp
  moreover have "\<exists>e. call (n - 1) = Err e \<and>
      fst result = Err (''remote compilation failed after '' @ int_str (attempts s) @ '' attempts: '' @ e)"
    if all: "\<forall>j < n. retried call j"
  proof -
    have "\<exists>e. fst result = Err (''remote compilation failed after '' @ int_str (attempts s) @ '' attempts: '' @ e) \<and>
      (e = '''' \<and> n = 0 \<or> call (0 + n - 1) = Err e)"
      unfolding res using all live by (intro retry_exhausted) simp_all
    then show ?thesis using n by auto
  qed
  ultimately show ?thesis using n by blast
qed

subsection \<open>Where a result comes from\<close>

text \<open>A remote result is the coordinator's answer to one of the attempts.\<close>

lemma retry_loop_Ok:
  "fst (retry_loop call cancelled m n a d le) = Ok r \<Longrightarrow> \<exists>i resp. call i = Ok resp \<and> r = responseResult resp"
proof (induction n arbitrary: a d le)
  case (Suc n)
  then show ?case
    by (cases "call a") (auto simp: Let_def split_beta split: if_splits)
qed simp

lemma remoteStep_Ok:
  assumes "remoteStep env s req raw = Ok r"
  shows "\<exists>q i resp. be_call env q i = Ok resp \<and> r = responseResult resp \<and> cr_TaskId q = rq_TaskID req"
proof (cases "Preprocess (be_run env 0) (sv_prepTimeout s) (Some (rq_Args req)) (rq_SourceFile req)")
  case (Ok p)
  then obtain i resp where "be_call env (preprocessedRequest env req (PreprocessedSource p)) i = Ok resp" "r = responseResult resp"
    using assms retry_loop_Ok by (fastforce simp: remoteStep_def compileRemotePreprocessed_def)
  then show ?thesis by (intro exI conjI) (auto simp: preprocessedRequest_def)
next
  case (Err e)
  let ?q = "rawRequest env req raw (collectIncludeFiles (be_walk env) (rq_Args req))"
  obtain i resp where "be_call env ?q i = Ok resp" "r = responseResult resp"
    using assms retry_loop_Ok Err by (fastforce simp: remoteStep_def compileRemoteRaw_def)
  then show ?thesis by (intro exI conjI) (auto simp: rawRequest_def)
next
  case Panic
  then show ?thesis by (simp add: Preprocess_def Let_def split: if_splits)
qed

lemma cachePut_Nil: "cachePut env key [] s = s"
  by (simp add: cachePut_def split: option.split)

text \<open>
  C16. A result of \<^verbatim>\<open>Build\<close> has one of three origins: the cached object of the request's key, with exit code 0;
  the coordinator's answer to an attempt, passed on whatever its exit code; or, only where there is no
  coordinator or every way to it failed, a local compilation, if that is enabled. The cache receives an
  object only from a compilation that ended with exit code 0.
\<close>
theorem Build_origin:
  assumes "Build H env req s = (Ok r, s')" and "be_source env = Some raw"
  shows "let key = generateCacheKeyRaw H req raw; (hit, s1) = cacheGet env key s in
    (case hit of
       Some obj \<Rightarrow> rs_CacheHit r \<and> rs_ObjectFile r = obj \<and> rs_ExitCode r = 0 \<and> sv_cache s' = sv_cache s1
     | None \<Rightarrow> \<not> rs_CacheHit r \<and>
         sv_cache s' = sv_cache (if rs_ExitCode r = 0 then cachePut env key (rs_ObjectFile r) s1 else s1) \<and>
         (if rs_Fallback r
          then fb_enabled (sv_fallback s1) \<and> (sv_connected s1 \<longrightarrow> (\<exists>e. remoteStep env s1 req raw = Err e)) \<and>
               (\<exists>pre fr. compileLocal env s1 req pre = Ok fr \<and> rs_ObjectFile r = res_ObjectCode fr \<and> rs_ExitCode r = res_ExitCode fr)
          else sv_connected s1 \<and>
               (\<exists>q i resp. be_call env q i = Ok resp \<and> cr_TaskId q = rq_TaskID req \<and>
                  rs_ObjectFile r = cs_ObjectFile resp \<and> rs_ExitCode r = cs_ExitCode resp)))"
proof -
  let ?key = "generateCacheKeyRaw H req raw"
  obtain hit s1 where get: "cacheGet env ?key s = (hit, s1)" by fastforce
  have local: "rs_Fallback r \<and> \<not> rs_CacheHit r \<and> fb_enabled (sv_fallback s1) \<and>
      s' = (if rs_ExitCode r = 0 then cachePut env ?key (rs_ObjectFile r) s1 else s1) \<and>
      (\<exists>pre fr. compileLocal env s1 req pre = Ok fr \<and> rs_ObjectFile r = res_ObjectCode fr \<and> rs_ExitCode r = res_ExitCode fr)"
    if "localStep env reason ?key req s1 = (Ok r, s')" for reason
    using that by (auto simp: localStep_def emptyResult_def split: if_splits outcome.splits) metis+
  show ?thesis
  proof (cases hit)
    case (Some obj)
    then show ?thesis using assms get by (auto simp: Build_def emptyResult_def split: if_splits)
  next
    case None
    show ?thesis
    proof (cases "sv_connected s1")
      case False
      then have "localStep env ''no coordinator connection'' ?key req s1 = (Ok r, s')"
        using assms get None by (simp add: Build_def)
      then show ?thesis using local get None False by (simp add: Let_def)
    next
      case True
      show ?thesis
      proof (cases "remoteStep env s1 req raw")
        case (Ok cr)
        then obtain q i resp where q: "be_call env q i = Ok resp" "cr = responseResult resp" "cr_TaskId q = rq_TaskID req"
          using remoteStep_Ok by blast
        have "rs_ObjectFile r = rr_ObjectFile cr" "rs_ExitCode r = rr_ExitCode cr" "\<not> rs_Fallback r" "\<not> rs_CacheHit r"
          "s' = (if rr_ExitCode cr = 0 then cachePut env ?key (rr_ObjectFile cr) s1 else s1)"
          using assms get None True Ok by (auto simp: Build_def emptyResult_def split: if_splits)
        then show ?thesis using get None True q by (auto simp: Let_def responseResult_def)
      next
        case (Err e)
        then have "localStep env (''remote error: '' @ e) ?key req s1 = (Ok r, s')"
          using assms get None True by (simp add: Build_def)
        then show ?thesis using local get None Err by (simp add: Let_def)
      next
        case Panic
        then show ?thesis using assms get None True by (simp add: Build_def)
      qed
    qed
  qed
qed

text \<open>What a successful compilation leaves in the cache.\<close>

lemma stored_object:
  assumes "Build H env req s = (Ok r, s')" and "\<not> rs_CacheHit r" and "rs_ExitCode r = 0"
    and "be_source env = Some raw" and "cacheGet env (generateCacheKeyRaw H req raw) s = (None, s1)"
  shows "sv_cache s' = sv_cache (cachePut env (generateCacheKeyRaw H req raw) (rs_ObjectFile r) s1)"
  using assms
  by (auto simp: Build_def localStep_def emptyResult_def Let_def split: if_splits outcome.splits)

subsection \<open>Building again\<close>

text \<open>
  What the client's key depends on. The flags and the macros enter it sorted, so that their order does
  not matter; nothing else of the request enters it.
\<close>

lemma generateCacheKeyRaw_cong:
  assumes "Compiler (rq_Args req') = Compiler (rq_Args req)" and "rq_TargetArch req' = rq_TargetArch req"
    and "mset (Flags (rq_Args req')) = mset (Flags (rq_Args req))"
    and "mset (Defines (rq_Args req')) = mset (Defines (rq_Args req))"
  shows "generateCacheKeyRaw H req' raw = generateCacheKeyRaw H req raw"
proof -
  have "sort (Flags (rq_Args req')) = sort (Flags (rq_Args req))"
    "sort (Defines (rq_Args req')) = sort (Defines (rq_Args req))"
    using assms(3,4) by (simp_all add: properties_for_sort)
  then show ?thesis
    using assms(1,2)
    by (simp add: generateCacheKeyRaw_def CompilationKey_Build_def CompilationKey_stream_def AddSortedStrings_def)
qed

text \<open>
  C17. After a compilation that put its object into the cache, a request with the same source file, compiler,
  architecture, flags and macros (in whatever order) is answered with that object as long as it lives,
  without preprocessing or compiling. Whatever else may have changed does not matter: not the headers
  the source includes, not the include directories, not the language given with \<^verbatim>\<open>-x\<close>. The cache is
  assumed to work (no fault of the file system, a clock that orders the accesses) and the object to fit in
  80 percent of its size.
\<close>
theorem Build_again_hits:
  assumes first: "Build H env req s = (Ok r, s')" "\<not> rs_CacheHit r" "rs_ExitCode r = 0" "rs_ObjectFile r \<noteq> []"
    and src: "be_source env = Some raw" "be_source env' = Some raw"
    and args: "Compiler (rq_Args req') = Compiler (rq_Args req)" "rq_TargetArch req' = rq_TargetArch req"
      "mset (Flags (rq_Args req')) = mset (Flags (rq_Args req))"
      "mset (Defines (rq_Args req')) = mset (Defines (rq_Args req))"
    and miss: "cacheGet env (generateCacheKeyRaw H req raw) s = (None, s1)" "sv_cache s1 = Some c"
    and os: "be_goos env \<noteq> ''windows''" "be_putFaults env = noFaults" "be_getFaults env' = noFaults" "be_json env' = be_json env"
    and store: "store_inv c" "iter_order (st_entries (with_entry (be_putNow env) (generateCacheKeyRaw H req raw)
        (int (length (rs_ObjectFile r))) c)) (be_putOrd env)"
      "\<forall>k e. fmlookup (st_entries c) k = Some e \<longrightarrow> safeKey k \<and> (k \<noteq> generateCacheKeyRaw H req raw \<longrightarrow> e_AccessedAt e < be_putNow env)"
      "0 \<le> st_maxSize c" "st_maxSize c * 8 < 2 ^ 63" "int (length (rs_ObjectFile r)) \<le> st_maxSize c * 8 div 10"
    and ttl: "time_sub (be_getNow env') (be_putNow env) \<le> st_ttl c"
  shows "\<exists>r' s''. Build H env' req' s' = (Ok r', s'') \<and> rs_CacheHit r' \<and> rs_ExitCode r' = 0 \<and>
           rs_ObjectFile r' = rs_ObjectFile r"
proof -
  let ?key = "generateCacheKeyRaw H req raw"
  have same: "generateCacheKeyRaw H req' raw = ?key" using args by (rule generateCacheKeyRaw_cong)
  have "sv_cache s' = sv_cache (cachePut env ?key (rs_ObjectFile r) s1)"
    using stored_object[OF first(1-3) src(1) miss(1)] .
  then have c': "sv_cache s' = Some (snd (Store_PutBytes False (be_json env) noFaults (be_putNow env)
      (be_putOrd env) (be_putOrd' env) ?key (rs_ObjectFile r) c))"
    using miss(2) first(4) os by (simp add: cachePut_def)
  have "safeKey ?key" by (simp add: generateCacheKeyRaw_def CompilationKey_Build_def Sum_safeKey)
  then have "fst (Store_GetBytes (be_json env) noFaults (be_getNow env') (be_getOrd env') ?key
      (snd (Store_PutBytes False (be_json env) noFaults (be_putNow env) (be_putOrd env) (be_putOrd' env)
        ?key (rs_ObjectFile r) c))) = Some (rs_ObjectFile r)"
    using store ttl by (intro stored_bytes_found) auto
  then have "fst (cacheGet env' ?key s') = Some (rs_ObjectFile r)"
    using c' os by (simp add: cacheGet_def split_beta)
  then show ?thesis
    using src(2) same by (cases "cacheGet env' ?key s'") (simp add: Build_def emptyResult_def)
qed

subsection \<open>A concrete client\<close>

definition sampleEnvironment :: build_env where
  "sampleEnvironment =
     \<lparr>be_source = Some ''int x;'', be_walk = (\<lambda>_. None),
      be_run = (\<lambda>_ _ _ _. \<lparr>run_timedOut = False, run_failed = False, run_stdout = ''int x;'', run_stderr = ''''\<rparr>),
      be_call = (\<lambda>_ i. if i = 0 then Err ''connection refused''
                       else Ok (emptyCompileResponse\<lparr>cs_ObjectFile := ''obj''\<rparr>)),
      be_cancelled = (\<lambda>_. False),
      be_local = \<lparr>le_taskDir = None, le_writeOK = True, le_run = (\<lambda>_ _ _. (False, ProcOK)), le_stdout = '''',
                  le_stderr = '''', le_output = None, le_time = 0\<rparr>,
      be_elapsed = 7, be_goos = ''linux'', be_goarch = ''amd64'', be_json = emptyCodec,
      be_getFaults = noFaults, be_putFaults = noFaults, be_getNow = 1, be_putNow = 2, be_getOrd = [],
      be_putOrd = [''0000000000000000''], be_putOrd' = []\<rparr>"

definition sampleService :: Service where
  "sampleService =
     \<lparr>sv_cache = Some (sampleStore fmempty 0), sv_connected = True,
      sv_fallback = \<lparr>fb_enabled = True, fb_workDir = ''/tmp'', fb_maxTimeout = 300 * Second\<rparr>,
      sv_prepTimeout = 60 * Second, sv_maxRetries = 3, sv_retryDelay = 100 * Millisecond, sv_hitsReported = 0\<rparr>"

definition sampleBuildRequest :: "string list \<Rightarrow> Request" where
  "sampleBuildRequest incs =
     \<lparr>rq_TaskID = ''t'', rq_SourceFile = ''a.c'', rq_OutputFile = ''a.o'',
      rq_Args = (newParsedArgs ''gcc'')\<lparr>Flags := [''-c''], IsCompileOnly := True, InputFiles := [''a.c''],
                  Language := ''c'', IncludeDirs := incs\<rparr>,
      rq_TargetArch = ARCH_X86_64, rq_Timeout = 60 * Second\<rparr>"

lemma Contains_pre: "Contains (p @ s) p"
proof (cases "p @ s")
  case (Cons a l)
  then have "HasPrefix (a # l) p" by (metis HasPrefix_append)
  then show ?thesis using Cons by simp
qed simp

lemma connection_retryable: "isRetryableError ''connection refused''"
  using Contains_pre[of "''connection''" "'' refused''"] by (simp add: isRetryableError_def)

theorem remote_retry_correct_witness:
  "fst (compileRemotePreprocessed sampleEnvironment sampleService (sampleBuildRequest []) ''int x;'') =
     Ok (responseResult (emptyCompileResponse\<lparr>cs_ObjectFile := ''obj''\<rparr>))"
proof -
  let ?call = "be_call sampleEnvironment (preprocessedRequest sampleEnvironment (sampleBuildRequest []) ''int x;'')"
  have call: "?call 0 = Err ''connection refused''" "?call 1 = Ok (emptyCompileResponse\<lparr>cs_ObjectFile := ''obj''\<rparr>)"
    by (simp_all add: sampleEnvironment_def)
  have live: "\<forall>j. \<not> be_cancelled sampleEnvironment j" by (simp add: sampleEnvironment_def)
  have n: "(1 :: nat) < nat (attempts sampleService)" by (simp add: attempts_def sampleService_def)
  have "\<forall>j < 1. retried ?call j" using call(1) connection_retryable by (auto simp: retried_def)
  moreover have "\<not> retried ?call 1" using call(2) by (simp add: retried_def)
  ultimately have "fst (compileRemotePreprocessed sampleEnvironment sampleService (sampleBuildRequest []) ''int x;'') =
      (case ?call 1 of Ok resp \<Rightarrow> Ok (responseResult resp) | Err e \<Rightarrow> Err e | Panic \<Rightarrow> Panic)"
    using remote_retry_correct[OF live, of sampleService "sampleBuildRequest []" "''int x;''"] n by blast
  then show ?thesis unfolding call(2) by simp
qed

text \<open>A polynomial hash in place of the library's.\<close>

definition sampleHash :: "bytes \<Rightarrow> 64 word" where
  "sampleHash = foldl (\<lambda>h c. 31 * h + of_char c) 7"

definition sampleResult :: Result where
  "sampleResult = emptyResult\<lparr>rs_ObjectFile := ''obj'', rs_Duration := 7\<rparr>"

lemma sample_get: "cacheGet env key sampleService = (None, sampleService)"
  by (simp add: cacheGet_def sampleService_def sampleStore_def Store_GetBytes_def Store_Get_def)

lemma sample_build:
  "fst (Build H (sampleEnvironment\<lparr>be_putOrd := ord\<rparr>) (sampleBuildRequest incs) sampleService) = Ok sampleResult"
proof -
  let ?env = "sampleEnvironment\<lparr>be_putOrd := ord\<rparr>"
  have "remoteStep ?env sampleService (sampleBuildRequest incs) ''int x;'' =
      Ok (responseResult (emptyCompileResponse\<lparr>cs_ObjectFile := ''obj''\<rparr>))"
    using connection_retryable
    by (simp add: remoteStep_def Preprocess_def compileRemotePreprocessed_def attempts_def sampleEnvironment_def
        sampleService_def eval_nat_numeral Let_def)
  moreover have "be_source ?env = Some ''int x;''" "sv_connected sampleService" "be_elapsed ?env = 7"
    by (simp_all add: sampleEnvironment_def sampleService_def)
  ultimately show ?thesis
    by (simp add: Build_def sample_get Let_def responseResult_def emptyCompileResponse_def sampleResult_def
        emptyResult_def wrap64_def)
qed

theorem Build_origin_witness:
  "\<exists>q i resp. be_call sampleEnvironment q i = Ok resp \<and> cs_ObjectFile resp = ''obj''"
proof -
  let ?env = "sampleEnvironment\<lparr>be_putOrd := []\<rparr>"
  obtain s' where b: "Build sampleHash ?env (sampleBuildRequest []) sampleService = (Ok sampleResult, s')"
    using sample_build[of sampleHash "[]" "[]"] by (metis prod.collapse)
  have src: "be_source ?env = Some ''int x;''" "be_call ?env = be_call sampleEnvironment" by (simp_all add: sampleEnvironment_def)
  show ?thesis
    using Build_origin[OF b src(1)] by (auto simp: src(2) sample_get sampleResult_def emptyResult_def) metis
qed

theorem Build_again_hits_witness:
  "\<exists>r'. fst (Build sampleHash (sampleEnvironment\<lparr>be_getNow := 50,
             be_run := (\<lambda>_ _ _ _. \<lparr>run_timedOut = False, run_failed = False, run_stdout = ''long x;'', run_stderr = ''''\<rparr>)\<rparr>)
           ((sampleBuildRequest [''other''])\<lparr>rq_Timeout := 5\<rparr>)
           (snd (Build sampleHash (sampleEnvironment\<lparr>be_putOrd := [generateCacheKeyRaw sampleHash (sampleBuildRequest []) ''int x;'']\<rparr>)
             (sampleBuildRequest []) sampleService))) = Ok r' \<and>
        rs_CacheHit r' \<and> rs_ObjectFile r' = ''obj''"
proof -
  let ?key = "generateCacheKeyRaw sampleHash (sampleBuildRequest []) ''int x;''"
  let ?env = "sampleEnvironment\<lparr>be_putOrd := [?key]\<rparr>"
  let ?env' = "sampleEnvironment\<lparr>be_getNow := 50,
      be_run := (\<lambda>_ _ _ _. \<lparr>run_timedOut = False, run_failed = False, run_stdout = ''long x;'', run_stderr = ''''\<rparr>)\<rparr>"
  let ?req' = "(sampleBuildRequest [''other''])\<lparr>rq_Timeout := 5\<rparr>"
  obtain s' where b: "Build sampleHash ?env (sampleBuildRequest []) sampleService = (Ok sampleResult, s')"
    using sample_build[of sampleHash "[?key]" "[]"] by (metis prod.collapse)
  have r: "\<not> rs_CacheHit sampleResult" "rs_ExitCode sampleResult = 0" "rs_ObjectFile sampleResult = ''obj''"
    "rs_ObjectFile sampleResult \<noteq> []" by (simp_all add: sampleResult_def emptyResult_def)
  have e: "be_source ?env = Some ''int x;''" "be_source ?env' = Some ''int x;''"
    "be_goos ?env \<noteq> ''windows''" "be_putFaults ?env = noFaults"
    "be_getFaults ?env' = noFaults" "be_json ?env' = be_json ?env"
    "be_putNow ?env = 2" "be_getNow ?env' = 50" "be_putOrd ?env = [?key]"
    by (simp_all add: sampleEnvironment_def)
  have q: "Compiler (rq_Args ?req') = Compiler (rq_Args (sampleBuildRequest []))"
    "rq_TargetArch ?req' = rq_TargetArch (sampleBuildRequest [])"
    "mset (Flags (rq_Args ?req')) = mset (Flags (rq_Args (sampleBuildRequest [])))"
    "mset (Defines (rq_Args ?req')) = mset (Defines (rq_Args (sampleBuildRequest [])))"
    by (simp_all add: sampleBuildRequest_def)
  have c: "sv_cache sampleService = Some (sampleStore fmempty 0)" by (simp add: sampleService_def)
  have st: "store_inv (sampleStore fmempty 0)" by (simp add: store_inv_def sampleStore_def total_of_def wrap64_def)
  have "\<exists>r' s''. Build sampleHash ?env' ?req' s' = (Ok r', s'') \<and> rs_CacheHit r' \<and>
      rs_ExitCode r' = 0 \<and> rs_ObjectFile r' = rs_ObjectFile sampleResult"
    by (rule Build_again_hits[OF b r(1,2,4) e(1,2) q sample_get c e(3-6) st])
      (simp_all add: e(7-9) r with_entry_def sampleStore_def iter_order_def time_sub_def maxDuration_def minDuration_def)
  then show ?thesis unfolding b r(3) by auto
qed

subsection \<open>Raw source mode\<close>

definition preprocessorFlag :: "string \<Rightarrow> bool" where
  "preprocessorFlag f \<longleftrightarrow> HasPrefix f ''-I'' \<or> HasPrefix f ''-D''"

lemma parseArg_no_preprocessor:
  "\<forall>f \<in> set (Flags p). \<not> preprocessorFlag f \<Longrightarrow> \<forall>f \<in> set (Flags (parseArg arg p)). \<not> preprocessorFlag f"
  by (auto simp: parseArg_def addFlag_def preprocessorFlag_def)

lemma parse_loop_no_preprocessor:
  assumes "''-march'' \<notin> set args" and "''-mtune'' \<notin> set args" and "\<forall>f \<in> set (Flags p). \<not> preprocessorFlag f"
  shows "\<forall>f \<in> set (Flags (parse_loop p args)). \<not> preprocessorFlag f"
  using assms
proof (induction p args rule: parse_loop.induct)
  case (2 p arg rest)
  show ?case
  proof (cases "takesValue arg")
    case True
    then have "Flags (parseValue arg v p) = Flags p" for v
    proof -
      have "arg \<in> {''-o'', ''-I'', ''-D'', ''-x''}"
        using True "2.prems"(1,2) by (simp add: takesValue_def) metis
      then show ?thesis by (elim insertE emptyE) (simp_all add: parseValue_def)
    qed
    then have fl: "\<forall>f \<in> set (Flags (parseValue arg v p)). \<not> preprocessorFlag f" for v
      using "2.prems"(3) by simp
    show ?thesis
    proof (cases rest)
      case Nil
      then show ?thesis using "2.prems"(3) True by simp
    next
      case (Cons v r)
      then have r: "''-march'' \<notin> set r" "''-mtune'' \<notin> set r" using "2.prems"(1,2) by simp_all
      from "2.IH"(1)[OF True Cons r fl] show ?thesis by (simp only: Cons parse_loop.simps True if_True list.case)
    qed
  next
    case False
    have r: "''-march'' \<notin> set rest" "''-mtune'' \<notin> set rest" using "2.prems"(1,2) by simp_all
    from "2.IH"(2)[OF False r parseArg_no_preprocessor[OF "2.prems"(3)]] show ?thesis
      by (simp only: parse_loop.simps False if_False)
  qed
qed simp

text \<open>
  The parser keeps include directories and macros apart from the flags, so for a parsed command
  line the raw source mode, which is meant to keep \<^verbatim>\<open>-I\<close> and \<^verbatim>\<open>-D\<close> and to send the project's headers
  along, sends neither.
\<close>
theorem raw_mode_loses_includes:
  assumes "Parse args = Some p" and "''-march'' \<notin> set args" and "''-mtune'' \<notin> set args"
  shows "collectIncludeFiles walk p = fmempty \<and>
         (\<forall>f \<in> set (buildRemoteArgsForRaw p). \<not> HasPrefix f ''-I'' \<and> \<not> HasPrefix f ''-D'')"
proof -
  obtain c rest where args: "args = c # rest" using assms(1) by (cases args) auto
  have "Flags p = Flags (parse_loop (newParsedArgs c) rest)"
    using assms(1) by (auto simp: args parse_finish_def Let_def)
  then have no: "\<forall>f \<in> set (Flags p). \<not> preprocessorFlag f"
    using parse_loop_no_preprocessor[of rest "newParsedArgs c"] assms(2,3) by (simp add: args newParsedArgs_def)
  have "foldl (collectFlag walk) m fs = m" if "\<forall>f \<in> set fs. \<not> preprocessorFlag f" for m fs
    using that by (induction fs arbitrary: m) (auto simp: collectFlag_def preprocessorFlag_def)
  then have "collectIncludeFiles walk p = fmempty" using no by (simp add: collectIncludeFiles_def)
  moreover have "\<forall>f \<in> set (buildRemoteArgsForRaw p). \<not> HasPrefix f ''-I'' \<and> \<not> HasPrefix f ''-D''"
    using no by (auto simp: buildRemoteArgsForRaw_def preprocessorFlag_def HasPrefix_def)
  ultimately show ?thesis ..
qed

theorem raw_mode_loses_includes_witness:
  "collectIncludeFiles (\<lambda>_. Some [(''a.h'', ''int y;'')]) (the (Parse [''gcc'', ''-Iinc'', ''-DN=1'', ''-c'', ''a.c''])) = fmempty"
proof -
  obtain p where p: "Parse [''gcc'', ''-Iinc'', ''-DN=1'', ''-c'', ''a.c''] = Some p" by simp
  have "''-march'' \<notin> set [''gcc'', ''-Iinc'', ''-DN=1'', ''-c'', ''a.c'']" "''-mtune'' \<notin> set [''gcc'', ''-Iinc'', ''-DN=1'', ''-c'', ''a.c'']"
    by simp_all
  from raw_mode_loses_includes[OF p this] show ?thesis by (simp only: p option.sel)
qed

subsection \<open>The local command line\<close>

lemma keptArgs_set: "a \<in> set (keptArgs args) \<Longrightarrow> a \<in> set args \<and> a \<noteq> ''-o'' \<and> \<not> isSourceArg a"
proof (induction args rule: keptArgs.induct)
  case (2 arg args)
  then show ?case by (cases args) (auto split: if_splits)
qed simp

lemma keptArgs_compile_only: "''-c'' \<in> set args \<Longrightarrow> ''-o'' \<notin> set args \<Longrightarrow> ''-c'' \<in> set (keptArgs args)"
  by (induction args rule: keptArgs.induct) (auto simp: isSourceArg_def)

text \<open>
  The command line of a local compilation names one source and one output, both given by the fallback, at its
  end; nothing else on it is a source file or an output option, and it asks to compile only.
\<close>
lemma buildArgs_correct:
  assumes "''-o'' \<notin> set original"
  shows "\<exists>args. buildArgs original src out = args @ [src, ''-o'', out] \<and> ''-c'' \<in> set args \<and>
           (\<forall>a \<in> set args. a \<noteq> ''-o'' \<and> \<not> isSourceArg a) \<and> set args \<subseteq> insert ''-c'' (set original)"
proof -
  let ?args = "(if ''-c'' \<notin> set original then [''-c''] else []) @ keptArgs original"
  have dash: "\<not> isSourceArg ''-c''" by (simp add: isSourceArg_def)
  have "''-c'' \<in> set ?args" using keptArgs_compile_only[OF _ assms] by auto
  moreover have "\<forall>a \<in> set ?args. a \<noteq> ''-o'' \<and> \<not> isSourceArg a"
    using keptArgs_set[of _ original] dash by auto
  moreover have "set ?args \<subseteq> insert ''-c'' (set original)" using keptArgs_set[of _ original] by auto
  moreover have "buildArgs original src out = ?args @ [src, ''-o'', out]" by (simp add: buildArgs_def)
  ultimately show ?thesis by blast
qed


subsection \<open>The size of the cache\<close>

text \<open>
  The client's configuration counts bytes, ten gigabytes by default, and the store it opens counts megabytes:
  the limit of the default cache is ten pebibytes, so it never evicts anything.
\<close>
theorem default_cache_unbounded:
  "\<exists>s c. Service_New emptyCodec noFaults fmempty ''/tmp'' (DefaultClientConfig ''/home/u'') = Ok s \<and> sv_cache s = Some c \<and>
     st_maxSize c = 10 * 2 ^ 50"
  by (simp add: Service_New_def DefaultClientConfig_def NewStore_def loadIndex_def noFaults_def wrap64_def Let_def)

end
