(* ===== verification/Go_Paths.thy ===== *)
theory Go_Paths
  imports Go_Strings
begin

text \<open>
  More of Go's \<^verbatim>\<open>path/filepath\<close> for systems with one separator: relative paths and the directory
  of a path, and how the components of cleaned and joined paths relate.
\<close>

subsection \<open>Operations\<close>

text \<open>\<^verbatim>\<open>filepath.Rel\<close> between absolute paths, which always exists.\<close>

fun relComponents :: "string list \<Rightarrow> string list \<Rightarrow> string list" where
  "relComponents (b # bs) (t # ts) =
     (if b = t then relComponents bs ts else replicate (Suc (length bs)) ''..'' @ t # ts)"
| "relComponents bs ts = replicate (length bs) ''..'' @ ts"

definition path_Rel :: "string \<Rightarrow> string \<Rightarrow> string" where
  "path_Rel base targ =
     (if Clean base = Clean targ then ''.'' else Join ''/'' (relComponents (components base) (components targ)))"

text \<open>\<^verbatim>\<open>filepath.Dir\<close>: everything up to the last slash, cleaned.\<close>

definition path_Dir :: "string \<Rightarrow> string" where
  "path_Dir p = Clean (case beforeLast slash p of None \<Rightarrow> '''' | Some d \<Rightarrow> d @ [slash])"

subsection \<open>Relative paths\<close>

lemma relComponents_prefix: "relComponents bs (bs @ ts) = ts"
  by (induction bs) (cases ts; simp)+

lemma relComponents_cases:
  "(\<exists>ts'. ts = bs @ ts' \<and> relComponents bs ts = ts') \<or> (\<exists>r. relComponents bs ts = ''..'' # r)"
proof (induction bs arbitrary: ts)
  case (Cons b bs)
  then show ?case by (cases ts) auto
qed simp

lemma Clean_eq_iff:
  assumes "IsAbs a" and "IsAbs b"
  shows "Clean a = Clean b \<longleftrightarrow> components a = components b"
proof
  assume "Clean a = Clean b"
  then have "components (Clean a) = components (Clean b)" by (rule arg_cong)
  then show "components a = components b" by simp
next
  assume "components a = components b"
  then show "Clean a = Clean b" using assms by (simp add: Clean_def)
qed

lemma HasPrefix_Join_dots: "HasPrefix (Join ''/'' (''..'' # r)) ''..''"
  by (cases r) (simp_all add: HasPrefix_def)

lemma path_Rel_inside:
  assumes "IsAbs b" and "IsAbs t"
  shows "HasPrefix (path_Rel b t) ''..'' \<longleftrightarrow>
         \<not> (\<exists>rest. components t = components b @ rest \<and> \<not> HasPrefix (Join ''/'' rest) ''..'')"
proof (cases "components b = components t")
  case True
  then have "path_Rel b t = ''.''" using assms Clean_eq_iff by (simp add: path_Rel_def)
  then show ?thesis using True by (simp add: HasPrefix_def)
next
  case False
  then have rel: "path_Rel b t = Join ''/'' (relComponents (components b) (components t))"
    using assms Clean_eq_iff by (simp add: path_Rel_def)
  from relComponents_cases[of "components t" "components b"] show ?thesis
  proof
    assume "\<exists>ts'. components t = components b @ ts' \<and> relComponents (components b) (components t) = ts'"
    then show ?thesis unfolding rel by auto
  next
    assume "\<exists>r. relComponents (components b) (components t) = ''..'' # r"
    then obtain r where r: "relComponents (components b) (components t) = ''..'' # r" ..
    have "HasPrefix (Join ''/'' rest) ''..''" if "components t = components b @ rest" for rest
      using r that HasPrefix_Join_dots by (simp add: relComponents_prefix)
    then show ?thesis unfolding rel r using HasPrefix_Join_dots by blast
  qed
qed

subsection \<open>Components of joined paths\<close>

lemma dots_in_render:
  assumes "clean_components r cs"
  shows "''..'' \<in> set (Split slash (render_path r cs)) \<longleftrightarrow> ''..'' \<in> set cs"
proof (cases "cs = []")
  case True
  then show ?thesis by (cases r) (simp_all add: render_path_def)
next
  case False
  then show ?thesis using assms by (cases r) (simp_all add: Split_render)
qed

lemma dots_in_Clean: "''..'' \<in> set (Split slash (Clean p)) \<longleftrightarrow> ''..'' \<in> set (components p)"
  by (simp add: Clean_def dots_in_render components_clean)

lemma names_of_clean:
  assumes "clean_components r cs" and "''..'' \<notin> set cs"
  shows "list_all path_name cs"
  using clean_components_cases[OF assms(1)] assms(2) by (auto simp: list_all_iff)

text \<open>Appending names to a path appends them to its components.\<close>

lemma components_Join_names:
  assumes b: "b \<noteq> ''''" and cs: "clean_components False cs" and nd: "''..'' \<notin> set cs"
  shows "IsAbs (b @ slash # render_path False cs) = IsAbs b"
    and "components (b @ slash # render_path False cs) = components b @ cs"
proof -
  show abs: "IsAbs (b @ slash # render_path False cs) = IsAbs b"
    using b by (cases b) (simp_all add: IsAbs_def HasPrefix_def)
  have "foldl (clean_step r) st (Split slash (render_path False cs)) = rev cs @ st" for r st
  proof (cases "cs = []")
    case True
    then show ?thesis by (simp add: render_path_def)
  next
    case False
    then show ?thesis using cs names_of_clean[OF cs nd] by (simp add: Split_render clean_foldl_names)
  qed
  then show "components (b @ slash # render_path False cs) = components b @ cs"
    using abs by (simp add: components_def Split_append)
qed

lemma clean_components_append:
  assumes "clean_components r bs" and "list_all path_name cs"
  shows "clean_components r (bs @ cs)"
proof -
  obtain k ns where "bs = replicate k ''..'' @ ns" "list_all path_name ns" "r \<longrightarrow> k = 0"
    using assms(1) by (auto simp: clean_components_def)
  then have "bs @ cs = replicate k ''..'' @ (ns @ cs)" "list_all path_name (ns @ cs)" "r \<longrightarrow> k = 0"
    using assms(2) by simp_all
  then show ?thesis unfolding clean_components_def by blast
qed

lemma render_prefix:
  assumes "r \<or> bs \<noteq> []"
  shows "HasPrefix (render_path r (bs @ cs)) (render_path r bs)"
  using assms
  by (cases "bs = []"; cases "cs = []") (auto simp: render_path_def Join_append HasPrefix_iff)

lemma clean_components_butlast:
  assumes "clean_components r (cs @ [c])"
  shows "clean_components r cs"
proof -
  obtain k ns where e: "cs @ [c] = replicate k ''..'' @ ns" "list_all path_name ns" "r \<longrightarrow> k = 0"
    using assms by (auto simp: clean_components_def)
  show ?thesis
  proof (cases ns rule: rev_cases)
    case Nil
    then have "butlast (cs @ [c]) = butlast (replicate k ''..'')" using e(1) by simp
    then have "cs = replicate (k - 1) ''..'' @ []" by (simp add: map_replicate_const[symmetric] butlast_conv_take)
    then show ?thesis using e(3) Nil by (auto simp: clean_components_def intro!: exI[of _ "k - 1"] exI[of _ "[]"])
  next
    case (snoc ns' d)
    then have "cs = replicate k ''..'' @ ns'" "list_all path_name ns'" using e by simp_all
    then show ?thesis using e(3) unfolding clean_components_def by blast
  qed
qed

lemma clean_foldl_plain:
  "''..'' \<notin> set cs \<Longrightarrow> foldl (clean_step r) st cs = rev (filter (\<lambda>c. c \<noteq> '''' \<and> c \<noteq> ''.'') cs) @ st"
  by (induction cs arbitrary: st) auto

definition plain_components :: "string \<Rightarrow> string list" where
  "plain_components p = filter (\<lambda>c. c \<noteq> '''' \<and> c \<noteq> ''.'') (Split slash p)"

text \<open>Joining a path without parent references stays below the directory.\<close>

lemma components_Join_plain:
  assumes "b \<noteq> ''''" and "''..'' \<notin> set (Split slash p)"
  shows "components (path_Join [b, p]) = components b @ plain_components p"
    and "IsAbs (path_Join [b, p]) = IsAbs b"
proof -
  have abs: "IsAbs (b @ slash # p) = IsAbs b"
    using assms(1) by (cases b) (simp_all add: IsAbs_def HasPrefix_def)
  then show "components (path_Join [b, p]) = components b @ plain_components p"
    using assms clean_foldl_plain[OF assms(2)]
    by (simp add: components_def[of "b @ slash # p"] components_def[of b] Split_append plain_components_def)
  show "IsAbs (path_Join [b, p]) = IsAbs b" using abs assms(1) by simp
qed

lemma Clean_path_Join [simp]: "b \<noteq> '''' \<Longrightarrow> Clean (path_Join (b # ps)) = path_Join (b # ps)"
  by simp

lemma beforeLast_append: "c \<notin> set y \<Longrightarrow> beforeLast c (x @ c # y) = Some x"
proof -
  assume "c \<notin> set y"
  then have "dropWhile (\<lambda>d. d \<noteq> c) (rev (x @ c # y)) = c # rev x"
    using dropWhile_append2[of "rev y" "\<lambda>d. d \<noteq> c" "c # rev x"] by fastforce
  then show ?thesis by (simp add: beforeLast_def)
qed

lemma components_append_slash: "components (p @ [slash]) = components p" if "p \<noteq> ''''"
proof -
  have "IsAbs (p @ [slash]) = IsAbs p" using that by (cases p) (simp_all add: IsAbs_def HasPrefix_def)
  then show ?thesis by (simp add: components_def Split_append)
qed

text \<open>The directory of a clean path has its components but the last.\<close>

lemma components_Dir:
  assumes "Clean q = q" and "components q = cs @ [c]"
  shows "components (path_Dir q) = cs"
proof -
  let ?r = "IsAbs q"
  have cl: "clean_components ?r (cs @ [c])" using components_clean[of q] assms(2) by simp
  have c: "slash \<notin> set c" using clean_components_no_slash[OF cl] by simp
  have q: "q = render_path ?r (cs @ [c])" using assms by (simp add: Clean_def)
  show ?thesis
  proof (cases "cs = []")
    case True
    show ?thesis
    proof (cases ?r)
      case True
      then have "q = [] @ slash # c" using q \<open>cs = []\<close> by (simp add: render_path_def)
      then have "path_Dir q = Clean [slash]" unfolding path_Dir_def by (simp only: beforeLast_append[OF c]) simp
      then show ?thesis using \<open>cs = []\<close> by (simp add: components_def[of "[slash]"])
    next
      case False
      then have "q = c" using q \<open>cs = []\<close> by (simp add: render_path_def)
      then have "path_Dir q = Clean ''''" using c by (simp add: path_Dir_def beforeLast_def)
      then show ?thesis using \<open>cs = []\<close> by (simp add: components_def[of "[]"])
    qed
  next
    case False
    let ?d = "render_path ?r cs"
    have "render_path r (cs @ [c]) = render_path r cs @ slash # c" for r
      using False by (simp add: render_path_def Join_append)
    then have "q = ?d @ slash # c" using q by metis
    then have "beforeLast slash q = Some ?d" using beforeLast_append[OF c] by metis
    then have "path_Dir q = Clean (?d @ [slash])" by (simp add: path_Dir_def)
    moreover have "clean_components ?r cs" using cl by (rule clean_components_butlast)
    moreover have "?d \<noteq> ''''"
      using clean_components_nonempty[OF cl] False by (cases cs; cases "tl cs") (auto simp: render_path_def)
    ultimately show ?thesis using components_append_slash[of ?d] by simp
  qed
qed

lemma beforeLast_SomeD: "beforeLast c s = Some d \<Longrightarrow> \<exists>y. s = d @ c # y"
  using beforeLast_append by (metis beforeLast_def option.distinct(1) option.inject split_list_last)

lemma IsAbs_Dir: "IsAbs (path_Dir q) = IsAbs q"
proof (cases "beforeLast slash q")
  case None
  then have "slash \<notin> set q" by (auto simp: beforeLast_def split: if_splits)
  then have "\<not> IsAbs q" by (auto simp: IsAbs_def HasPrefix_iff)
  moreover have "\<not> IsAbs ''''" by (simp add: IsAbs_def HasPrefix_def)
  ultimately show ?thesis using None by (simp add: path_Dir_def)
next
  case (Some d)
  then obtain y where "q = d @ slash # y" using beforeLast_SomeD by blast
  then have "IsAbs (d @ [slash]) = IsAbs q" by (cases d) (simp_all add: IsAbs_def HasPrefix_def)
  then show ?thesis using Some by (simp add: path_Dir_def)
qed

lemma Clean_not_Nil [simp]: "Clean p \<noteq> ''''"
proof -
  have "Join ''/'' cs \<noteq> ''''" if "cs \<noteq> []" "\<forall>c \<in> set cs. c \<noteq> ''''" for cs
    using that by (cases cs; cases "tl cs") auto
  then show ?thesis
    using clean_components_nonempty[OF components_clean[of p]] by (simp add: Clean_def render_path_def)
qed

end
