(* ===== verification/Executor.thy ===== *)
theory Executor
  imports Compiler Go_Paths Proto_Messages "HOL-Library.Sublist"
begin

text \<open>
  The worker's compilation executors, \<^verbatim>\<open>internal/worker/executor\<close>: the manager that chooses an
  executor (\<^verbatim>\<open>executor.go\<close>), the native executor (\<^verbatim>\<open>native.go\<close>), the Docker executor
  (\<^verbatim>\<open>docker.go\<close>) and the command lines of the MSVC executor (\<^verbatim>\<open>msvc.go\<close>).

  An executor writes files into a temporary directory, runs a process or a container there and
  reads the output. What it does to the file system is the list of its operations, each of which
  may fail (\<open>run_ops\<close>); the process is an argument that sees these operations. The Docker daemon
  is a record of its answers, and the calls that change its state are recorded in order.
\<close>

declare path_Join.simps [simp del]

subsection \<open>Requests and results\<close>

record Result =
  er_Success :: bool
  er_ObjectCode :: bytes
  er_Stdout :: string
  er_Stderr :: string
  er_ExitCode :: int
  er_CompilationTime :: int
  er_Artifacts :: "ArtifactInfo list"
  er_ArtifactArchive :: bytes
  er_ArtifactPath :: string

definition zeroResult :: Result where
  "zeroResult = \<lparr>er_Success = False, er_ObjectCode = [], er_Stdout = '''', er_Stderr = '''',
     er_ExitCode = 0, er_CompilationTime = 0, er_Artifacts = [], er_ArtifactArchive = [],
     er_ArtifactPath = ''''\<rparr>"

record Request =
  eq_TaskID :: string
  eq_Compiler :: string
  eq_Args :: "string list"
  eq_PreprocessedSource :: bytes
  eq_TargetArch :: Architecture
  eq_Timeout :: int
  eq_RawSource :: bytes
  eq_SourceFilename :: string
  eq_IncludeFiles :: "(string, bytes) fmap"
  eq_IncludePaths :: "string list"
  eq_ClientOs :: string
  eq_FlutterConfig :: "FlutterConfig option"
  eq_UnityConfig :: "UnityConfig option"
  eq_SourceArchive :: bytes
  eq_TargetPlatform :: TargetPlatform
  eq_BuildType :: BuildType
  eq_TimeoutSeconds :: int

definition zeroRequest :: Request where
  "zeroRequest = \<lparr>eq_TaskID = '''', eq_Compiler = '''', eq_Args = [], eq_PreprocessedSource = [],
     eq_TargetArch = ARCH_UNSPECIFIED, eq_Timeout = 0, eq_RawSource = [], eq_SourceFilename = '''',
     eq_IncludeFiles = fmempty, eq_IncludePaths = [], eq_ClientOs = '''', eq_FlutterConfig = None,
     eq_UnityConfig = None, eq_SourceArchive = [], eq_TargetPlatform = PLATFORM_UNSPECIFIED,
     eq_BuildType = BUILD_TYPE_UNSPECIFIED, eq_TimeoutSeconds = 0\<rparr>"

subsection \<open>The manager\<close>

text \<open>
  An executor behind the interface. The Docker executor carries its image table (in the source
  the package variable itself, which only the worker's one Docker executor uses), the MSVC
  executor the architectures that were detected.
\<close>

datatype executor =
    NativeExecutor
  | DockerExecutor "(Architecture, string) fmap"
  | MSVCExecutor "string list"
  | FlutterExecutor
  | UnityExecutor

definition defaultImages :: "(Architecture, string) fmap" where
  "defaultImages = fmap_of_list
     [(ARCH_X86_64, ''dockcross/linux-x64''), (ARCH_ARM64, ''dockcross/linux-arm64''),
      (ARCH_ARMV7, ''dockcross/linux-armv7'')]"

fun SetImage :: "Architecture \<Rightarrow> string \<Rightarrow> executor \<Rightarrow> executor" where
  "SetImage arch img (DockerExecutor images) = DockerExecutor (fmupd arch img images)"
| "SetImage arch img e = e"

text \<open>\<^verbatim>\<open>strings.EqualFold\<close> on the ASCII letters.\<close>

definition contains_fold :: "string list \<Rightarrow> string \<Rightarrow> bool" where
  "contains_fold ss val \<longleftrightarrow> list_ex (\<lambda>s. ToLower s = ToLower val) ss"

fun msvc_CanExecute :: "string list \<Rightarrow> Architecture \<Rightarrow> bool" where
  "msvc_CanExecute archs ARCH_X86_64 = contains_fold archs ''x64''"
| "msvc_CanExecute archs ARCH_ARMV7 = contains_fold archs ''arm''"
| "msvc_CanExecute archs ARCH_ARM64 = contains_fold archs ''arm64''"
| "msvc_CanExecute archs ARCH_UNSPECIFIED = True"
| "msvc_CanExecute archs (ARCH_UNNAMED n) = False"

definition native_CanExecute :: "Architecture \<Rightarrow> Architecture \<Rightarrow> bool" where
  "native_CanExecute targetArch nativeArch \<longleftrightarrow> targetArch = nativeArch \<or> targetArch = ARCH_UNSPECIFIED"

definition docker_CanExecute :: "(Architecture, string) fmap \<Rightarrow> Architecture \<Rightarrow> bool" where
  "docker_CanExecute images targetArch \<longleftrightarrow> fmlookup images targetArch \<noteq> None"

fun CanExecute :: "executor \<Rightarrow> Architecture \<Rightarrow> Architecture \<Rightarrow> bool" where
  "CanExecute NativeExecutor targ nativeArch = native_CanExecute targ nativeArch"
| "CanExecute (DockerExecutor images) targ nativeArch = docker_CanExecute images targ"
| "CanExecute (MSVCExecutor archs) targ nativeArch = msvc_CanExecute archs targ"
| "CanExecute FlutterExecutor targ nativeArch = True"
| "CanExecute UnityExecutor targ nativeArch = True"

record Manager =
  mg_native :: executor
  mg_docker :: "executor option"
  mg_msvc :: "executor option"
  mg_flutter :: executor
  mg_unity :: executor
  mg_nativeArch :: Architecture

text \<open>
  The arguments say whether the Docker daemon answered and which MSVC architectures were found;
  a failing constructor leaves the field unset.
\<close>

definition NewManager :: "Architecture \<Rightarrow> bool \<Rightarrow> bool \<Rightarrow> string list option \<Rightarrow> Manager" where
  "NewManager nativeArch dockerAvailable dockerOK msvcArchs =
     \<lparr>mg_native = NativeExecutor,
      mg_docker = (if dockerAvailable \<and> dockerOK then Some (DockerExecutor defaultImages) else None),
      mg_msvc = map_option MSVCExecutor msvcArchs,
      mg_flutter = FlutterExecutor, mg_unity = UnityExecutor, mg_nativeArch = nativeArch\<rparr>"

definition Manager_Select :: "Manager \<Rightarrow> Architecture \<Rightarrow> executor" where
  "Manager_Select m targetArch =
     (if targetArch = mg_nativeArch m \<or> targetArch = ARCH_UNSPECIFIED then mg_native m
      else case mg_docker m of
        Some d \<Rightarrow> if CanExecute d targetArch (mg_nativeArch m) then d else mg_native m
      | None \<Rightarrow> mg_native m)"

text \<open>\<open>goos\<close> is \<^verbatim>\<open>runtime.GOOS\<close>.\<close>

definition SelectForRequest :: "string \<Rightarrow> Manager \<Rightarrow> Request \<Rightarrow> executor" where
  "SelectForRequest goos m req =
     (if eq_BuildType req = BUILD_TYPE_FLUTTER then mg_flutter m
      else if eq_BuildType req = BUILD_TYPE_UNITY then mg_unity m
      else if eq_ClientOs req \<noteq> '''' \<and> eq_ClientOs req \<noteq> goos \<and> 0 < length (eq_RawSource req)
      then (case mg_docker m of
              Some d \<Rightarrow> if CanExecute d (eq_TargetArch req) (mg_nativeArch m) then d
                        else Manager_Select m (eq_TargetArch req)
            | None \<Rightarrow> Manager_Select m (eq_TargetArch req))
      else Manager_Select m (eq_TargetArch req))"

definition isMSVCCompiler :: "string \<Rightarrow> bool" where
  "isMSVCCompiler compiler \<longleftrightarrow>
     (let l = ToLower compiler in Contains l ''cl.exe'' \<or> l = ''cl'')"

definition SelectForCompiler :: "Manager \<Rightarrow> string \<Rightarrow> Architecture \<Rightarrow> executor" where
  "SelectForCompiler m compiler targetArch =
     (case mg_msvc m of
        Some v \<Rightarrow> if isMSVCCompiler compiler \<and> CanExecute v targetArch (mg_nativeArch m) then v
                  else Manager_Select m targetArch
      | None \<Rightarrow> Manager_Select m targetArch)"

subsection \<open>Operations on files\<close>

datatype file_op = MkdirAll string | WriteFile string bytes

fun op_path :: "file_op \<Rightarrow> string" where
  "op_path (MkdirAll p) = p"
| "op_path (WriteFile p c) = p"

text \<open>
  The operations in order, each with the message that wraps its error, up to the first that
  fails; the result is the error, if any, and the operations that took effect.
\<close>

fun run_ops :: "('a \<Rightarrow> string option) \<Rightarrow> (string \<times> 'a) list \<Rightarrow> string option \<times> 'a list" where
  "run_ops fault [] = (None, [])"
| "run_ops fault ((msg, a) # rest) =
     (case fault a of
        Some e \<Rightarrow> (Some (msg @ '': '' @ e), [])
      | None \<Rightarrow> (let (e, done) = run_ops fault rest in (e, a # done)))"

text \<open>How a process ended, what it printed and what its files are afterwards.\<close>

datatype run_end = ExitedOK | Exited int | NotRun string

record process =
  pr_timedOut :: bool
  pr_end :: run_end
  pr_stdout :: string
  pr_stderr :: string
  pr_time :: int
  pr_read :: "string \<Rightarrow> string + bytes"

subsection \<open>The native executor\<close>

definition isInputFile :: "string \<Rightarrow> bool" where
  "isInputFile arg =
     (if length arg = 0 \<or> hd arg = CHR ''-'' then False
      else path_Ext arg \<in> set [''.c'', ''.cc'', ''.cpp'', ''.cxx'', ''.C'', ''.i'', ''.ii'', ''.s'', ''.S''])"

text \<open>The loop of \<^verbatim>\<open>buildArgs\<close>; \<open>has\<close> is \<^verbatim>\<open>hasCompileOnly\<close>, and \<^verbatim>\<open>skipNext\<close> drops the next argument.\<close>

fun buildArgs_loop :: "string list \<Rightarrow> string list \<times> bool \<Rightarrow> string list \<times> bool" where
  "buildArgs_loop [] st = st"
| "buildArgs_loop (arg # rest) (args, has) =
     (if arg = ''-c'' then buildArgs_loop rest (args @ [arg], True)
      else if arg = ''-o'' then buildArgs_loop (tl rest) (args, has)
      else if \<not> isInputFile arg then buildArgs_loop rest (args @ [arg], has)
      else buildArgs_loop rest (args, has))"

definition native_buildArgs :: "string list \<Rightarrow> string \<Rightarrow> string \<Rightarrow> string list" where
  "native_buildArgs originalArgs srcFile outFile =
     (let (args, has) = buildArgs_loop originalArgs ([], False);
          args = (if \<not> has then args @ [''-c''] else args)
      in args @ [srcFile] @ [''-o'', outFile])"

fun raw_loop :: "string list \<Rightarrow> string list \<Rightarrow> string list" where
  "raw_loop [] args = args"
| "raw_loop (arg # rest) args =
     (if arg = ''-c'' then raw_loop rest args
      else if arg = ''-o'' then raw_loop (tl rest) args
      else if isInputFile arg then raw_loop rest args
      else raw_loop rest (args @ [arg]))"

definition rawFilename :: "Request \<Rightarrow> string" where
  "rawFilename req = (if eq_SourceFilename req = '''' then ''source.c'' else eq_SourceFilename req)"

text \<open>The files of raw source mode, with the headers in the order of the map iteration.\<close>

definition include_ops :: "string \<Rightarrow> string \<times> bytes \<Rightarrow> (string \<times> file_op) list" where
  "include_ops dir = (\<lambda>(path, content).
     (let fullPath = path_Join [dir, path]
      in [(''failed to create include dir for '' @ path, MkdirAll (path_Dir fullPath)),
          (''failed to write include '' @ path, WriteFile fullPath content)]))"

definition range_entries :: "('k, 'v) fmap \<Rightarrow> 'k list \<Rightarrow> ('k \<times> 'v) list" where
  "range_entries m ks = concat (map (\<lambda>k. case fmlookup m k of None \<Rightarrow> [] | Some v \<Rightarrow> [(k, v)]) ks)"

definition raw_ops :: "string \<Rightarrow> string list \<Rightarrow> Request \<Rightarrow> (string \<times> file_op) list" where
  "raw_ops workDir order req =
     (let includesDir = path_Join [workDir, ''includes'']
      in [(''failed to create includes dir'', MkdirAll includesDir)] @
         concat (map (include_ops includesDir) (range_entries (eq_IncludeFiles req) order)) @
         [(''failed to write source'', WriteFile (path_Join [workDir, rawFilename req]) (eq_RawSource req))])"

definition raw_args :: "string \<Rightarrow> Request \<Rightarrow> string \<Rightarrow> string list" where
  "raw_args workDir req outFile =
     (let includesDir = path_Join [workDir, ''includes''];
          srcFile = path_Join [workDir, rawFilename req];
          args = [''-c''] @ (if 0 < map_len (eq_IncludeFiles req) then [''-I'' @ includesDir] else [])
      in raw_loop (eq_Args req) args @ [srcFile] @ [''-o'', outFile])"

definition setupRawSourceMode ::
    "(file_op \<Rightarrow> string option) \<Rightarrow> string \<Rightarrow> string list \<Rightarrow> Request \<Rightarrow> string \<Rightarrow>
     (string, string list) outcome \<times> file_op list" where
  "setupRawSourceMode fault workDir order req outFile =
     (let (e, done) = run_ops fault (raw_ops workDir order req)
      in (case e of Some msg \<Rightarrow> Err msg | None \<Rightarrow> Ok (raw_args workDir req outFile), done))"

text \<open>
  What happens after the process has run. \<^verbatim>\<open>ExitCode\<close> is converted with \<^verbatim>\<open>int32\<close>. The native and
  the MSVC executor share this text.
\<close>

definition process_result :: "process \<Rightarrow> string \<Rightarrow> (string, Result) outcome" where
  "process_result p outFile =
     (let result = zeroResult\<lparr>er_Stdout := pr_stdout p, er_Stderr := pr_stderr p,
                     er_CompilationTime := pr_time p\<rparr>
      in if pr_timedOut p then Ok (result\<lparr>er_ExitCode := - 1, er_Success := False\<rparr>)
         else case pr_end p of
           Exited code \<Rightarrow> Ok (result\<lparr>er_ExitCode := wrap32 code, er_Success := False\<rparr>)
         | NotRun e \<Rightarrow> Err (''execution failed: '' @ e)
         | ExitedOK \<Rightarrow>
             (case pr_read p outFile of
                Inl e \<Rightarrow> Ok (result\<lparr>er_Stderr := er_Stderr result @ [CHR 0x0A] @ ''Failed to read output: '' @ e,
                                   er_Success := False\<rparr>)
              | Inr objectCode \<Rightarrow>
                  Ok (result\<lparr>er_Success := True, er_ObjectCode := objectCode, er_ExitCode := 0\<rparr>)))"

text \<open>
  The surroundings of an execution: the temporary directory or the error of creating it, the
  faults of file operations, the order in which the header map is visited, and the process.
\<close>

record exec_env =
  xe_mkdirTemp :: "string + string"
  xe_fault :: "file_op \<Rightarrow> string option"
  xe_order :: "string list"
  xe_run :: "string \<Rightarrow> string list \<Rightarrow> file_op list \<Rightarrow> process"

definition native_Execute :: "exec_env \<Rightarrow> Request \<Rightarrow> (string, Result) outcome \<times> file_op list" where
  "native_Execute env req =
     (case xe_mkdirTemp env of
        Inl e \<Rightarrow> (Err (''failed to create temp dir: '' @ e), [])
      | Inr workDir \<Rightarrow>
          (let outFile = path_Join [workDir, ''output.o'']
           in if 0 < length (eq_RawSource req)
              then (case setupRawSourceMode (xe_fault env) workDir (xe_order env) req outFile of
                      (Ok args, done) \<Rightarrow> (process_result (xe_run env (eq_Compiler req) args done) outFile, done)
                    | (Err e, done) \<Rightarrow> (Err (''failed to setup raw source: '' @ e), done)
                    | (Panic, done) \<Rightarrow> (Panic, done))
              else
                (let srcFile = path_Join [workDir, ''source.i'']
                 in case run_ops (xe_fault env)
                           [(''failed to write source'', WriteFile srcFile (eq_PreprocessedSource req))] of
                      (Some e, done) \<Rightarrow> (Err e, done)
                    | (None, done) \<Rightarrow>
                        (process_result
                           (xe_run env (eq_Compiler req) (native_buildArgs (eq_Args req) srcFile outFile) done)
                           outFile, done))))"

subsection \<open>The Docker executor\<close>

record DockerResourceLimits =
  dl_MemoryBytes :: int
  dl_NanoCPUs :: int
  dl_PidsLimit :: int

definition DefaultDockerResourceLimits :: DockerResourceLimits where
  "DefaultDockerResourceLimits = \<lparr>dl_MemoryBytes = 512 * 1024 * 1024, dl_NanoCPUs = 1000000000, dl_PidsLimit = 100\<rparr>"

definition selectImage :: "(Architecture, string) fmap \<Rightarrow> Architecture \<Rightarrow> string" where
  "selectImage images arch = (case fmlookup images arch of Some img \<Rightarrow> img | None \<Rightarrow> '''')"

fun docker_loop :: "string list \<Rightarrow> string list \<Rightarrow> string list" where
  "docker_loop [] cmd = cmd"
| "docker_loop (arg # rest) cmd =
     (if arg = ''-o'' then docker_loop (tl rest) cmd
      else if arg = ''-c'' then docker_loop rest cmd
      else if isInputFile arg then docker_loop rest cmd
      else docker_loop rest (cmd @ [arg]))"

definition buildCommand :: "string \<Rightarrow> string list \<Rightarrow> string \<Rightarrow> string \<Rightarrow> string list" where
  "buildCommand compiler args srcFile outFile =
     docker_loop args ([compiler] @ [''-c'']) @ [srcFile, ''-o'', outFile]"

fun docker_raw_loop :: "string list \<Rightarrow> string list \<Rightarrow> string list" where
  "docker_raw_loop [] cmd = cmd"
| "docker_raw_loop (arg # rest) cmd =
     (if arg = ''-o'' then docker_raw_loop (tl rest) cmd
      else if arg = ''-c'' then docker_raw_loop rest cmd
      else if arg = ''-I'' then docker_raw_loop (tl rest) cmd
      else if HasPrefix arg ''-I'' then docker_raw_loop rest cmd
      else if isInputFile arg then docker_raw_loop rest cmd
      else docker_raw_loop rest (cmd @ [arg]))"

definition buildRawCommand ::
    "string \<Rightarrow> string list \<Rightarrow> string \<Rightarrow> string \<Rightarrow> string list \<Rightarrow> string list" where
  "buildRawCommand compiler args srcFile outFile includePaths =
     docker_raw_loop args ([compiler] @ [''-c''] @ map (\<lambda>p. ''-I/work/'' @ p) includePaths) @
     [srcFile, ''-o'', outFile]"

text \<open>The container that is asked for; everything else of the two structures is left at zero.\<close>

record container =
  ct_Image :: string
  ct_Cmd :: "string list"
  ct_WorkingDir :: string
  ct_Mounts :: "(string \<times> string) list"
  ct_Memory :: int
  ct_MemorySwap :: int
  ct_NanoCPUs :: int
  ct_PidsLimit :: int
  ct_NetworkMode :: string
  ct_CapDrop :: "string list"
  ct_SecurityOpt :: "string list"
  ct_ReadonlyRootfs :: bool

definition dockerContainer ::
    "string \<Rightarrow> DockerResourceLimits \<Rightarrow> string \<Rightarrow> string \<Rightarrow> string list \<Rightarrow> container" where
  "dockerContainer goos limits workDir img compileCmd =
     (let c = \<lparr>ct_Image = img, ct_Cmd = compileCmd, ct_WorkingDir = ''/work'',
                ct_Mounts = [(workDir, ''/work'')], ct_Memory = dl_MemoryBytes limits,
                ct_MemorySwap = dl_MemoryBytes limits, ct_NanoCPUs = dl_NanoCPUs limits,
                ct_PidsLimit = dl_PidsLimit limits, ct_NetworkMode = ''none'', ct_CapDrop = [],
                ct_SecurityOpt = [], ct_ReadonlyRootfs = False\<rparr>
      in if goos \<noteq> ''windows''
         then c\<lparr>ct_CapDrop := [''ALL''], ct_SecurityOpt := [''no-new-privileges''], ct_ReadonlyRootfs := True\<rparr>
         else c)"

text \<open>
  The calls that change the daemon's state, and its answers. \<open>WaitErr None\<close> is a nil error from the
  error channel. The exit status of the container is an \<^verbatim>\<open>int64\<close>.
\<close>

datatype docker_call =
  ImagePull string | ContainerCreate container | ContainerStart string | ContainerKill string
| ContainerRemove string

datatype wait_end = WaitErr "string option" | WaitStatus int

record docker_env =
  de_images :: "string + string list list"
  de_pull :: "string + string option list"
  de_create :: "string + string"
  de_start :: "string option"
  de_wait :: "wait_end"
  de_deadline :: bool
  de_logs :: "string + string \<times> string"
  de_time :: int
  de_read :: "string \<Rightarrow> string + bytes"

text \<open>Reading the progress of a pull until the end or the first error.\<close>

fun pull_read :: "string option list \<Rightarrow> string option" where
  "pull_read [] = None"
| "pull_read (None # reads) = pull_read reads"
| "pull_read (Some e # reads) = Some (''error reading pull response: '' @ e)"

definition pullImage :: "docker_env \<Rightarrow> string \<Rightarrow> string option" where
  "pullImage d imageName =
     (case de_pull d of
        Inl e \<Rightarrow> Some (''failed to pull image '' @ imageName @ '': '' @ e)
      | Inr reads \<Rightarrow> pull_read reads)"

definition ensureImage :: "docker_env \<Rightarrow> string \<Rightarrow> string option \<times> docker_call list" where
  "ensureImage d imageName =
     (let imageName = (if \<not> Contains imageName '':'' then imageName @ '':latest'' else imageName)
      in case de_images d of
           Inl e \<Rightarrow> (Some (''failed to list images: '' @ e), [])
         | Inr images \<Rightarrow>
             if \<not> list_ex (\<lambda>tags. list_ex (\<lambda>tag. tag = imageName) tags) images
             then (pullImage d imageName, [ImagePull imageName]) else (None, []))"

definition docker_source_ops :: "string \<Rightarrow> string list \<Rightarrow> Request \<Rightarrow> (string \<times> file_op) list" where
  "docker_source_ops workDir order req =
     (if 0 < length (eq_RawSource req)
      then [(''failed to write source'', WriteFile (path_Join [workDir, rawFilename req]) (eq_RawSource req))] @
           concat (map (\<lambda>(path, content).
               (let fullPath = path_Join [workDir, path]
                in [(''failed to create include dir'', MkdirAll (path_Dir fullPath)),
                    (''failed to write include file '' @ path, WriteFile fullPath content)]))
             (range_entries (eq_IncludeFiles req) order))
      else [(''failed to write source'',
             WriteFile (path_Join [workDir, ''source.i'']) (eq_PreprocessedSource req))])"

definition docker_command :: "Request \<Rightarrow> string list" where
  "docker_command req =
     (if 0 < length (eq_RawSource req)
      then buildRawCommand (eq_Compiler req) (eq_Args req) (rawFilename req) ''output.o'' (eq_IncludePaths req)
      else buildCommand (eq_Compiler req) (eq_Args req) ''source.i'' ''output.o'')"

text \<open>From the logs to the result; \<open>exitCode\<close> is the local variable, zero where none was received.\<close>

definition docker_result :: "docker_env \<Rightarrow> string \<Rightarrow> int \<Rightarrow> (string, Result) outcome" where
  "docker_result d outPath exitCode =
     (case de_logs d of
        Inl e \<Rightarrow> Err (''failed to get logs: '' @ e)
      | Inr (out, err) \<Rightarrow>
          (let result = zeroResult\<lparr>er_Stdout := out, er_Stderr := err, er_ExitCode := wrap32 exitCode,
                          er_CompilationTime := de_time d\<rparr>
           in if exitCode \<noteq> 0 then Ok (result\<lparr>er_Success := False\<rparr>)
              else case de_read d outPath of
                Inl e \<Rightarrow> Ok (result\<lparr>er_Stderr := er_Stderr result @ [CHR 0x0A] @ ''Failed to read output: '' @ e,
                                   er_Success := False\<rparr>)
              | Inr objectCode \<Rightarrow> Ok (result\<lparr>er_Success := True, er_ObjectCode := objectCode\<rparr>)))"

text \<open>The life of a container: the deferred removal runs on every path after its creation.\<close>

definition docker_run ::
    "docker_env \<Rightarrow> container \<Rightarrow> string \<Rightarrow> (string, Result) outcome \<times> docker_call list" where
  "docker_run d c outPath =
     (case de_create d of
        Inl e \<Rightarrow> (Err (''failed to create container: '' @ e), [ContainerCreate c])
      | Inr cid \<Rightarrow>
          (let (res, calls) =
             (case de_start d of
                Some e \<Rightarrow> (Err (''failed to start container: '' @ e), [])
              | None \<Rightarrow>
                  (case de_wait d of
                     WaitErr (Some e) \<Rightarrow>
                       if de_deadline d
                       then (Ok (zeroResult\<lparr>er_Success := False, er_ExitCode := - 1,
                                   er_Stderr := ''compilation timed out'', er_CompilationTime := de_time d\<rparr>),
                             [ContainerKill cid])
                       else (Err (''container wait error: '' @ e), [])
                   | WaitErr None \<Rightarrow> (docker_result d outPath 0, [])
                   | WaitStatus code \<Rightarrow> (docker_result d outPath code, [])))
           in (res, [ContainerCreate c, ContainerStart cid] @ calls @ [ContainerRemove cid])))"

definition docker_Execute ::
    "string \<Rightarrow> exec_env \<Rightarrow> docker_env \<Rightarrow> (Architecture, string) fmap \<Rightarrow> DockerResourceLimits \<Rightarrow> Request \<Rightarrow>
     (string, Result) outcome \<times> file_op list \<times> docker_call list" where
  "docker_Execute goos env d images limits req =
     (case xe_mkdirTemp env of
        Inl e \<Rightarrow> (Err (''failed to create temp dir: '' @ e), [], [])
      | Inr workDir \<Rightarrow>
          (case run_ops (xe_fault env) (docker_source_ops workDir (xe_order env) req) of
             (Some e, done) \<Rightarrow> (Err e, done, [])
           | (None, done) \<Rightarrow>
               (let img = selectImage images (eq_TargetArch req)
                in if img = ''''
                   then (Err (''no Docker image available for architecture: '' @
                              Architecture_String (eq_TargetArch req)), done, [])
                   else case ensureImage d img of
                     (Some e, calls) \<Rightarrow> (Err (''failed to ensure Docker image: '' @ e), done, calls)
                   | (None, calls) \<Rightarrow>
                       (let (res, calls') =
                          docker_run d (dockerContainer goos limits workDir img (docker_command req))
                            (path_Join [workDir, ''output.o''])
                        in (res, done, calls @ calls')))))"

subsection \<open>Command lines of the MSVC executor\<close>

definition msvc_kept :: "string \<Rightarrow> bool" where
  "msvc_kept arg \<longleftrightarrow> \<not> (HasPrefix arg ''/Fo'' \<or> HasPrefix arg ''/Fe'') \<and> arg \<noteq> ''/c'' \<and> \<not> isInputFile arg"

definition msvc_buildArgs :: "string list \<Rightarrow> string \<Rightarrow> string \<Rightarrow> string list" where
  "msvc_buildArgs originalArgs srcFile outFile =
     [''/c''] @ filter msvc_kept (MSVCToCLFlags (TranslateToMSVC originalArgs)) @ [srcFile] @ [''/Fo'' @ outFile]"

definition msvc_rawArgs :: "string list \<Rightarrow> bool \<Rightarrow> string \<Rightarrow> string \<Rightarrow> string \<Rightarrow> string list" where
  "msvc_rawArgs args hasIncludes includesDir srcFile outFile =
     [''/c''] @ [''/nologo'', ''/EHsc''] @ (if hasIncludes then [''/I'' @ includesDir] else []) @
     filter msvc_kept (TranslateToMSVC args) @ [srcFile] @ [''/Fo'' @ outFile]"

definition validMSVCArchitectures :: "string list" where
  "validMSVCArchitectures = [''x64'', ''x86'', ''arm64'', ''arm'']"

text \<open>The environment captured from the output of \<^verbatim>\<open>vcvars && set\<close>.\<close>

definition vcvars_env :: "string \<Rightarrow> (string, string list) outcome" where
  "vcvars_env output =
     (let lines = map (\<lambda>l. trimPrefix (TrimSpace l) [CHR 0x0D]) (Split (CHR 0x0A) output);
          env = filter (\<lambda>l. Contains l ''='' \<and> \<not> HasPrefix l ''='') lines
      in if length env = 0 then Err ''no environment variables captured from vcvars'' else Ok env)"

subsection \<open>The three compilation command lines\<close>

text \<open>What every executor keeps of the client's arguments.\<close>

fun compileFlags :: "string list \<Rightarrow> string list" where
  "compileFlags [] = []"
| "compileFlags (arg # rest) =
     (if arg = ''-o'' then compileFlags (tl rest)
      else if arg = ''-c'' \<or> isInputFile arg then compileFlags rest
      else arg # compileFlags rest)"

lemma isInputFile_option [simp]: "\<not> isInputFile (CHR ''-'' # s)"
  by (simp add: isInputFile_def)





lemma compileFlags_kept: "a \<in> set (compileFlags args) \<Longrightarrow> a \<noteq> ''-o'' \<and> a \<noteq> ''-c'' \<and> \<not> isInputFile a"
  by (induction args rule: compileFlags.induct) (auto split: if_splits)


text \<open>
  In a container raw source is compiled without the client's include directories, in place of which the
  directories of the request below the working directory are given. A directory may follow its \<^verbatim>\<open>-I\<close> as
  an argument of its own; \<open>joinIncludes\<close> writes it joined, leaving the operand of \<^verbatim>\<open>-o\<close> alone.
\<close>

fun joinIncludes :: "string list \<Rightarrow> string list" where
  "joinIncludes [] = []"
| "joinIncludes (arg # rest) =
     (if arg = ''-o'' then arg # take 1 rest @ joinIncludes (tl rest)
      else if arg = ''-I'' then (''-I'' @ concat (take 1 rest)) # joinIncludes (tl rest)
      else arg # joinIncludes rest)"

definition containerFlags :: "string list \<Rightarrow> string list" where
  "containerFlags args = filter (\<lambda>a. \<not> HasPrefix a ''-I'') (compileFlags (joinIncludes args))"

lemma joinIncludes_joined [simp]: "''-I'' \<notin> set args \<Longrightarrow> joinIncludes args = args"
proof (induction args rule: joinIncludes.induct)
  case (2 arg rest)
  then show ?case by (cases rest) auto
qed simp

lemma containerFlags_simps [simp]:
  "containerFlags [] = []"
  "containerFlags (''-o'' # rest) = containerFlags (tl rest)"
  "containerFlags (''-I'' # rest) = containerFlags (tl rest)"
  by (cases rest; simp add: containerFlags_def HasPrefix_def)+



lemma containerFlags_kept:
  "a \<in> set (containerFlags args) \<Longrightarrow> \<not> HasPrefix a ''-I'' \<and> a \<noteq> ''-o'' \<and> a \<noteq> ''-c'' \<and> \<not> isInputFile a"
  using compileFlags_kept by (auto simp: containerFlags_def)



subsection \<open>Which executor runs a request\<close>

text \<open>
  A manager built for a machine sends Flutter and Unity builds to their executors, and any other
  request to Docker exactly when Docker is available, has an image for the target architecture,
  and the target is foreign or raw source comes from another operating system; everything else
  runs natively. In particular the MSVC executor is never chosen, even for \<^verbatim>\<open>cl.exe\<close>.
\<close>
theorem SelectForRequest_exact:
  "SelectForRequest goos (NewManager nativeArch dockerAvailable dockerOK msvcArchs) req =
     (if eq_BuildType req = BUILD_TYPE_FLUTTER then FlutterExecutor
      else if eq_BuildType req = BUILD_TYPE_UNITY then UnityExecutor
      else if dockerAvailable \<and> dockerOK \<and> eq_TargetArch req \<in> {ARCH_X86_64, ARCH_ARM64, ARCH_ARMV7} \<and>
              (eq_TargetArch req \<noteq> nativeArch \<or>
               eq_ClientOs req \<noteq> '''' \<and> eq_ClientOs req \<noteq> goos \<and> eq_RawSource req \<noteq> [])
      then DockerExecutor defaultImages else NativeExecutor)"
proof -
  have "docker_CanExecute defaultImages a \<longleftrightarrow> a \<in> {ARCH_X86_64, ARCH_ARM64, ARCH_ARMV7}" for a
    by (cases a) (simp_all add: docker_CanExecute_def defaultImages_def fmlookup_of_list)
  then show ?thesis
    by (auto simp: SelectForRequest_def Manager_Select_def NewManager_def)
qed

lemma SelectForRequest_never_msvc:
  "SelectForRequest goos (NewManager nativeArch dockerAvailable dockerOK msvcArchs) req \<noteq> MSVCExecutor archs"
  by (auto simp: SelectForRequest_def Manager_Select_def NewManager_def split: option.split)

subsection \<open>Results\<close>



definition native_ops :: "string \<Rightarrow> string list \<Rightarrow> Request \<Rightarrow> (string \<times> file_op) list" where
  "native_ops workDir order req =
     (if 0 < length (eq_RawSource req) then raw_ops workDir order req
      else [(''failed to write source'', WriteFile (path_Join [workDir, ''source.i'']) (eq_PreprocessedSource req))])"

definition native_args :: "string \<Rightarrow> Request \<Rightarrow> string list" where
  "native_args workDir req =
     (if 0 < length (eq_RawSource req) then raw_args workDir req (path_Join [workDir, ''output.o''])
      else native_buildArgs (eq_Args req) (path_Join [workDir, ''source.i'']) (path_Join [workDir, ''output.o'']))"

lemma run_ops_prefix: "\<exists>rest. map snd ops = snd (run_ops fault ops) @ rest"
proof (induction fault ops rule: run_ops.induct)
  case (2 fault msg a rest)
  then show ?case by (auto split: option.split prod.split)
qed simp

lemma run_ops_faultless: "(\<And>a. fault a = None) \<Longrightarrow> run_ops fault ops = (None, map snd ops)"
  by (induction fault ops rule: run_ops.induct) simp_all

lemma native_Execute_faultless:
  assumes "xe_mkdirTemp env = Inr workDir" and "\<And>a. xe_fault env a = None"
  shows "native_Execute env req =
     (let ops = map snd (native_ops workDir (xe_order env) req)
      in (process_result (xe_run env (eq_Compiler req) (native_args workDir req) ops)
            (path_Join [workDir, ''output.o'']), ops))"
  using assms
  by (simp add: native_Execute_def setupRawSourceMode_def run_ops_faultless native_ops_def native_args_def
      Let_def del: run_ops.simps)

lemma process_result_cases:
  "case process_result p outFile of
     Ok r \<Rightarrow>
       (er_Success r \<longleftrightarrow> \<not> pr_timedOut p \<and> pr_end p = ExitedOK \<and> pr_read p outFile = Inr (er_ObjectCode r)) \<and>
       (er_Success r \<or> er_ObjectCode r = []) \<and>
       er_ExitCode r = (if pr_timedOut p then - 1 else case pr_end p of Exited code \<Rightarrow> wrap32 code | _ \<Rightarrow> 0)
   | Err e \<Rightarrow> \<not> pr_timedOut p \<and> (\<exists>msg. pr_end p = NotRun msg \<and> e = ''execution failed: '' @ msg)
   | Panic \<Rightarrow> False"
  by (simp add: process_result_def zeroResult_def Let_def split: run_end.split sum.split)

text \<open>
  When the files can be written, an execution on the host succeeds exactly when the process ended
  by itself in time with status zero and left a readable output, which is then the object code;
  an error means that the process could not be run. When the output cannot be read the result is
  no success, but it carries no object code and exit code zero.
\<close>
theorem native_Execute_correct:
  assumes "xe_mkdirTemp env = Inr workDir" and "\<And>a. xe_fault env a = None"
    and "p = xe_run env (eq_Compiler req) (native_args workDir req) (map snd (native_ops workDir (xe_order env) req))"
    and "out = pr_read p (path_Join [workDir, ''output.o''])"
  shows "case fst (native_Execute env req) of
     Ok r \<Rightarrow>
       (er_Success r \<longleftrightarrow> \<not> pr_timedOut p \<and> pr_end p = ExitedOK \<and> out = Inr (er_ObjectCode r)) \<and>
       (er_Success r \<or> er_ObjectCode r = []) \<and>
       er_ExitCode r = (if pr_timedOut p then - 1 else case pr_end p of Exited code \<Rightarrow> wrap32 code | _ \<Rightarrow> 0)
   | Err e \<Rightarrow> \<not> pr_timedOut p \<and> (\<exists>msg. pr_end p = NotRun msg \<and> e = ''execution failed: '' @ msg)
   | Panic \<Rightarrow> False"
proof -
  have "fst (native_Execute env req) = process_result p (path_Join [workDir, ''output.o''])"
    using native_Execute_faultless[OF assms(1,2), of req] assms(3) by (simp add: Let_def)
  then show ?thesis unfolding assms(4) by (simp only: process_result_cases)
qed

definition sampleProcess :: process where
  "sampleProcess = \<lparr>pr_timedOut = False, pr_end = ExitedOK, pr_stdout = '''', pr_stderr = '''', pr_time = 5,
     pr_read = (\<lambda>_. Inl ''no such file'')\<rparr>"

definition sampleExecEnv :: "process \<Rightarrow> exec_env" where
  "sampleExecEnv p = \<lparr>xe_mkdirTemp = Inr ''/tmp/w'', xe_fault = (\<lambda>_. None), xe_order = [], xe_run = (\<lambda>_ _ _. p)\<rparr>"

theorem native_Execute_correct_witness:
  "\<exists>r. fst (native_Execute (sampleExecEnv sampleProcess) zeroRequest) = Ok r \<and> \<not> er_Success r \<and> er_ExitCode r = 0"
proof -
  have "fst (native_Execute (sampleExecEnv sampleProcess) zeroRequest) \<noteq> Panic"
    and "\<And>e. fst (native_Execute (sampleExecEnv sampleProcess) zeroRequest) \<noteq> Err e"
    using native_Execute_correct[where env = "sampleExecEnv sampleProcess" and workDir = "''/tmp/w''" and req = zeroRequest,
        OF _ _ refl refl]
    by (auto simp: sampleExecEnv_def sampleProcess_def)
  then obtain r where "fst (native_Execute (sampleExecEnv sampleProcess) zeroRequest) = Ok r"
    by (cases "fst (native_Execute (sampleExecEnv sampleProcess) zeroRequest)") auto
  with native_Execute_correct[where env = "sampleExecEnv sampleProcess" and workDir = "''/tmp/w''" and req = zeroRequest,
      OF _ _ refl refl]
  show ?thesis by (simp add: sampleExecEnv_def sampleProcess_def)
qed

subsection \<open>Where files are written\<close>

text \<open>\<open>below d p\<close>: the path \<open>p\<close> names the directory \<open>d\<close> or something under it.\<close>

definition below :: "string \<Rightarrow> string \<Rightarrow> bool" where
  "below d p \<longleftrightarrow> IsAbs p = IsAbs d \<and> (\<exists>rest. components p = components d @ rest \<and> list_all path_name rest)"

definition no_parent :: "string \<Rightarrow> bool" where
  "no_parent p \<longleftrightarrow> ''..'' \<notin> set (Split slash p)"

lemma plain_names: "no_parent p \<Longrightarrow> list_all path_name (plain_components p)"
  by (auto simp: plain_components_def no_parent_def list_all_iff path_name_def dest: Split_parts)

lemma below_Join:
  assumes "b \<noteq> ''''" and "no_parent p" and "below d b"
  shows "below d (path_Join [b, p])"
  using assms components_Join_plain[OF assms(1), of p] plain_names[OF assms(2)]
  by (auto simp: below_def no_parent_def)

lemma below_refl [simp]: "below d d"
  by (simp add: below_def)

lemma below_Dir:
  assumes "below d q" and "components q \<noteq> components d" and "Clean q = q"
  shows "below d (path_Dir q)"
proof -
  obtain rest where r: "components q = components d @ rest" "list_all path_name rest" "rest \<noteq> []"
    using assms(1,2) by (auto simp: below_def)
  then obtain cs c where "rest = cs @ [c]" by (metis rev_exhaust)
  then have "components (path_Dir q) = components d @ cs" using components_Dir[OF assms(3)] r by simp
  moreover have "IsAbs (path_Dir q) = IsAbs q" by (rule IsAbs_Dir)
  ultimately show ?thesis using assms(1) r \<open>rest = cs @ [c]\<close> by (auto simp: below_def)
qed

lemma run_ops_set:
  assumes "a \<in> set (snd (run_ops fault ops))"
  shows "a \<in> snd ` set ops"
proof -
  obtain rest where "map snd ops = snd (run_ops fault ops) @ rest" using run_ops_prefix by blast
  then have "a \<in> set (map snd ops)" using assms by simp
  then show ?thesis by simp
qed

lemma native_Execute_ops:
  assumes "xe_mkdirTemp env = Inr workDir"
  shows "set (snd (native_Execute env req)) \<subseteq> snd ` set (native_ops workDir (xe_order env) req)"
proof -
  have "snd (native_Execute env req) = snd (run_ops (xe_fault env) (native_ops workDir (xe_order env) req))"
    using assms
    by (simp add: native_Execute_def setupRawSourceMode_def native_ops_def Let_def split: prod.split option.split)
  then show ?thesis using run_ops_set by fastforce
qed

lemma clean_Join [simp]: "b \<noteq> '''' \<Longrightarrow> Clean (path_Join [b, p]) = path_Join [b, p]"
  by (simp add: path_Join.simps)

lemma below_include:
  assumes "b \<noteq> ''''" and "no_parent p" and "below d b" and "plain_components p \<noteq> []"
  shows "below d (path_Dir (path_Join [b, p]))"
proof -
  have "components (path_Join [b, p]) = components b @ plain_components p"
    using components_Join_plain(1)[OF assms(1)] assms(2) by (simp add: no_parent_def)
  moreover obtain r where "components b = components d @ r" using assms(3) by (auto simp: below_def)
  ultimately have "components (path_Join [b, p]) \<noteq> components d" using assms(4) by simp
  then show ?thesis using below_Dir[OF below_Join[OF assms(1-3)]] assms(1) by simp
qed

lemma raw_ops_below:
  assumes w: "workDir \<noteq> ''''" and src: "no_parent (eq_SourceFilename req)"
    and inc: "\<And>p c. fmlookup (eq_IncludeFiles req) p = Some c \<Longrightarrow> no_parent p \<and> plain_components p \<noteq> []"
    and a: "a \<in> snd ` set (raw_ops workDir order req)"
  shows "below workDir (op_path a)"
proof -
  let ?inc = "path_Join [workDir, ''includes'']"
  have np: "no_parent ''includes''" "no_parent ''source.c''" by (simp_all add: no_parent_def)
  have i: "below workDir ?inc" by (rule below_Join[OF w np(1)]) simp
  have ne: "?inc \<noteq> ''''" using w by (simp add: path_Join.simps Clean_not_Nil)
  have s: "below workDir (path_Join [workDir, rawFilename req])"
    using src np(2) by (intro below_Join[OF w]) (simp_all add: rawFilename_def)
  from a consider "a = MkdirAll ?inc" | "a = WriteFile (path_Join [workDir, rawFilename req]) (eq_RawSource req)"
    | p c where "fmlookup (eq_IncludeFiles req) p = Some c"
        "a = MkdirAll (path_Dir (path_Join [?inc, p])) \<or> a = WriteFile (path_Join [?inc, p]) c"
    by (auto simp: raw_ops_def include_ops_def range_entries_def Let_def split: option.splits) metis
  then show ?thesis
  proof cases
    case 3
    then show ?thesis using inc[OF 3(1)] below_Join[OF ne _ i] below_include[OF ne _ i] by auto
  qed (use i s in simp_all)
qed

text \<open>
  In raw source mode every file and directory the native executor creates lies in its temporary
  directory, provided that neither the source file name nor a header path of the request contains
  a parent reference; absolute names are relocated. With a parent reference a request writes
  wherever it likes: nothing on the way to the executor checks the names.
\<close>
theorem native_files_confined:
  assumes "xe_mkdirTemp env = Inr workDir" and "workDir \<noteq> ''''" and "no_parent (eq_SourceFilename req)"
    and "\<And>p c. fmlookup (eq_IncludeFiles req) p = Some c \<Longrightarrow> no_parent p \<and> plain_components p \<noteq> []"
    and "a \<in> set (snd (native_Execute env req))"
  shows "below workDir (op_path a)"
proof -
  have a: "a \<in> snd ` set (native_ops workDir (xe_order env) req)"
    using native_Execute_ops[OF assms(1)] assms(5) by blast
  show ?thesis
  proof (cases "0 < length (eq_RawSource req)")
    case True
    then show ?thesis using raw_ops_below[OF assms(2,3,4)] a by (simp add: native_ops_def)
  next
    case False
    have "no_parent ''source.i''" by (simp add: no_parent_def)
    then show ?thesis using a False below_Join[OF assms(2)] by (simp add: native_ops_def)
  qed
qed

text \<open>A request whose source file is named with parent references overwrites a file outside.\<close>
theorem native_files_escape:
  "WriteFile ''/etc/cron.d/job'' ''x''
     \<in> set (snd (native_Execute (sampleExecEnv sampleProcess)
         (zeroRequest\<lparr>eq_RawSource := ''x'', eq_SourceFilename := ''../../etc/cron.d/job''\<rparr>)))"
proof -
  have "path_Join [''/tmp/w'', ''../../etc/cron.d/job''] = ''/etc/cron.d/job''" by code_simp
  then show ?thesis
    by (simp add: native_Execute_faultless[where workDir = "''/tmp/w''"] sampleExecEnv_def zeroRequest_def
        native_ops_def raw_ops_def rawFilename_def Let_def)
qed

theorem native_files_confined_witness:
  "list_all (\<lambda>a. below ''/tmp/w'' (op_path a))
     (snd (native_Execute (sampleExecEnv sampleProcess)
        (zeroRequest\<lparr>eq_RawSource := ''x'', eq_SourceFilename := ''/etc/passwd'',
           eq_IncludeFiles := fmap_of_list [(''lib/./a.h'', ''y'')]\<rparr>)))"
proof -
  have "no_parent ''/etc/passwd''" "no_parent ''lib/./a.h''" "plain_components ''lib/./a.h'' \<noteq> []"
    by (simp_all add: no_parent_def plain_components_def)
  then show ?thesis
    unfolding list_all_iff
    by (intro ballI native_files_confined[where workDir = "''/tmp/w''"])
      (auto simp: sampleExecEnv_def zeroRequest_def fmlookup_of_list split: if_splits)
qed

subsection \<open>Containers\<close>

text \<open>The calls of one execution that concern a container with a given identifier, in order.\<close>

lemma docker_run_calls:
  "case de_create d of
     Inl e \<Rightarrow> docker_run d c out = (Err (''failed to create container: '' @ e), [ContainerCreate c])
   | Inr cid \<Rightarrow> \<exists>mid. snd (docker_run d c out) = [ContainerCreate c, ContainerStart cid] @ mid @ [ContainerRemove cid] \<and>
       set mid \<subseteq> {ContainerKill cid}"
  by (auto simp: docker_run_def split: sum.split option.split wait_end.split)

lemma ensureImage_calls: "set (snd (ensureImage d img)) \<subseteq> {ImagePull (if Contains img '':'' then img else img @ '':latest'')}"
  by (simp add: ensureImage_def Let_def split: sum.split)

lemma docker_Execute_calls:
  assumes "xe_mkdirTemp env = Inr workDir"
  shows "\<exists>pulls runs. snd (snd (docker_Execute goos env d images limits req)) = pulls @ runs \<and>
     (\<forall>c \<in> set pulls. \<exists>i. c = ImagePull i) \<and>
     (runs = [] \<or>
      runs = snd (docker_run d (dockerContainer goos limits workDir (selectImage images (eq_TargetArch req)) (docker_command req))
              (path_Join [workDir, ''output.o''])))"
proof -
  obtain e ps where en: "ensureImage d (selectImage images (eq_TargetArch req)) = (e, ps)" by fastforce
  have pulls: "\<forall>c \<in> set ps. \<exists>i. c = ImagePull i"
    using ensureImage_calls[of d "selectImage images (eq_TargetArch req)"] en by auto
  have "snd (snd (docker_Execute goos env d images limits req)) \<in>
      {[], ps, ps @ snd (docker_run d (dockerContainer goos limits workDir (selectImage images (eq_TargetArch req))
          (docker_command req)) (path_Join [workDir, ''output.o'']))}"
    using assms en by (auto simp: docker_Execute_def Let_def split: prod.split option.split)
  then show ?thesis using pulls by (auto intro: exI[of _ "[]"] exI[of _ ps])
qed

text \<open>
  C36. Every container the Docker executor asks for has no network, no swap, the configured memory,
  processor and process limits, sees of the host only the temporary directory, and outside Windows
  runs without capabilities on a read-only root. Whatever happens after its creation, the last
  call of the execution removes the container that was created; it is killed before only when the
  deadline passed.
\<close>
theorem docker_container_lifecycle:
  assumes "xe_mkdirTemp env = Inr workDir"
    and "ContainerCreate c \<in> set (snd (snd (docker_Execute goos env d images limits req)))"
  shows "ct_NetworkMode c = ''none'' \<and> ct_Mounts c = [(workDir, ''/work'')] \<and> ct_Memory c = dl_MemoryBytes limits \<and>
     ct_MemorySwap c = dl_MemoryBytes limits \<and> ct_NanoCPUs c = dl_NanoCPUs limits \<and> ct_PidsLimit c = dl_PidsLimit limits \<and>
     (goos = ''windows'' \<or> ct_CapDrop c = [''ALL''] \<and> ct_ReadonlyRootfs c \<and> ct_SecurityOpt c = [''no-new-privileges'']) \<and>
     (case de_create d of
        Inl e \<Rightarrow> last (snd (snd (docker_Execute goos env d images limits req))) = ContainerCreate c
      | Inr cid \<Rightarrow> last (snd (snd (docker_Execute goos env d images limits req))) = ContainerRemove cid)"
proof -
  let ?img = "selectImage images (eq_TargetArch req)"
  let ?c = "dockerContainer goos limits workDir ?img (docker_command req)"
  let ?run = "snd (docker_run d ?c (path_Join [workDir, ''output.o'']))"
  obtain pulls runs where calls: "snd (snd (docker_Execute goos env d images limits req)) = pulls @ runs"
    "\<forall>c \<in> set pulls. \<exists>i. c = ImagePull i" "runs = [] \<or> runs = ?run"
    using docker_Execute_calls[OF assms(1), of goos d images limits req] by (elim exE conjE)
  have "ContainerCreate c \<in> set runs" using assms(2) calls(2) unfolding calls(1) by auto
  then have run: "runs = ?run" "ContainerCreate c \<in> set ?run" using calls(3) by auto
  have c: "c = ?c" and l: "last ?run = (case de_create d of Inl e \<Rightarrow> ContainerCreate ?c | Inr cid \<Rightarrow> ContainerRemove cid)"
    and ne: "?run \<noteq> []"
    using docker_run_calls[of d ?c "path_Join [workDir, ''output.o'']"] run(2) by (auto split: sum.splits)
  have "last (snd (snd (docker_Execute goos env d images limits req))) = last ?run"
    using calls(1) run(1) ne by (metis last_append)
  then show ?thesis
    unfolding l c by (cases "de_create d") (simp_all add: dockerContainer_def Let_def)
qed

definition sampleDocker :: docker_env where
  "sampleDocker = \<lparr>de_images = Inr [], de_pull = Inr [None], de_create = Inr ''c1'', de_start = None,
     de_wait = WaitErr (Some ''deadline''), de_deadline = True, de_logs = Inl ''gone'', de_time = 7,
     de_read = (\<lambda>_. Inl ''no such file'')\<rparr>"

theorem docker_container_lifecycle_witness:
  "last (snd (snd (docker_Execute ''linux'' (sampleExecEnv sampleProcess) sampleDocker defaultImages
     DefaultDockerResourceLimits (zeroRequest\<lparr>eq_TargetArch := ARCH_ARM64\<rparr>)))) = ContainerRemove ''c1''"
proof -
  let ?x = "docker_Execute ''linux'' (sampleExecEnv sampleProcess) sampleDocker defaultImages
     DefaultDockerResourceLimits (zeroRequest\<lparr>eq_TargetArch := ARCH_ARM64\<rparr>)"
  have img: "selectImage defaultImages ARCH_ARM64 = ''dockcross/linux-arm64''"
    by (simp add: selectImage_def defaultImages_def fmlookup_of_list)
  have "\<exists>c. ContainerCreate c \<in> set (snd (snd ?x))"
    by (simp add: docker_Execute_def sampleExecEnv_def sampleDocker_def zeroRequest_def img docker_source_ops_def
        ensureImage_def pullImage_def docker_run_def Let_def)
  then obtain c where c: "ContainerCreate c \<in> set (snd (snd ?x))" ..
  have "xe_mkdirTemp (sampleExecEnv sampleProcess) = Inr ''/tmp/w''" by (simp add: sampleExecEnv_def)
  from docker_container_lifecycle[OF this c] show ?thesis by (simp add: sampleDocker_def)
qed

text \<open>
  A container that reports no status because the error channel delivered nil is taken for one that
  exited with zero; and in both executors a missing output is no success but carries exit code zero.
\<close>
lemma docker_result_cases:
  "case docker_result d out code of
     Ok r \<Rightarrow> (er_Success r \<longleftrightarrow> code = 0 \<and> de_read d out = Inr (er_ObjectCode r)) \<and> er_ExitCode r = wrap32 code
   | Err e \<Rightarrow> isl (de_logs d)
   | Panic \<Rightarrow> False"
  by (auto simp: docker_result_def zeroResult_def Let_def split: sum.split)

text \<open>
  A macro whose value ends like a source file is dropped from an MSVC command line, because the
  translated option starts with a slash and passes for an input file.
\<close>
theorem msvc_drops_macro:
  "msvc_buildArgs [''-DENTRY=main.c'', ''-O2''] ''source.i'' ''output.obj'' =
   [''/c'', ''/O2'', ''/nologo'', ''/EHsc'', ''/permissive-'', ''source.i'', ''/Fooutput.obj'']"
  by code_simp

end
