(* ===== verification/Validation.thy ===== *)
theory Validation
  imports Go_Paths Proto_Messages
begin

text \<open>
  Request validation and sanitising, \<^verbatim>\<open>internal/security/validation\<close> (\<^verbatim>\<open>sanitize.go\<close> and
  \<^verbatim>\<open>request.go\<close>): which compiler arguments are let through, which file a path can name
  below a base directory, and which requests are accepted. A \<^verbatim>\<open>windows\<close> argument is the test
  \<^verbatim>\<open>runtime.GOOS == "windows"\<close>; \<^verbatim>\<open>SanitizePath\<close> is modelled for the other systems, where
  \<^verbatim>\<open>filepath\<close> knows one separator.
\<close>

subsection \<open>The tables\<close>

definition WindowsReservedNames :: "string list" where
  "WindowsReservedNames =
     [''CON'', ''PRN'', ''AUX'', ''NUL'',
      ''COM1'', ''COM2'', ''COM3'', ''COM4'', ''COM5'', ''COM6'', ''COM7'', ''COM8'', ''COM9'',
      ''LPT1'', ''LPT2'', ''LPT3'', ''LPT4'', ''LPT5'', ''LPT6'', ''LPT7'', ''LPT8'', ''LPT9'']"

definition WindowsInvalidChars :: "char list" where
  "WindowsInvalidChars = [CHR ''<'', CHR ''>'', CHR '':'', CHR 0x22, CHR ''|'', CHR ''?'', CHR ''*'']"

definition DangerousFlags :: "string list" where
  "DangerousFlags =
     [''--plugin'', ''-fplugin'', ''-B'', ''-specs'', ''--sysroot'', ''-Xlinker'', ''-Wl,--wrap'',
      ''-Wl,--defsym'', ''-fprofile-generate'', ''-fprofile-use'', ''-frepo'', ''-save-temps'', ''@'']"

definition DangerousFlagPrefixes :: "string list" where
  "DangerousFlagPrefixes =
     [''-fplugin='', ''-fplugin-arg-'', ''-specs='', ''--sysroot='', ''-B/'', ''-B./'', ''-B..'']"

definition ShellMetaCharacters :: "char list" where
  "ShellMetaCharacters =
     [CHR '';'', CHR ''|'', CHR ''&'', CHR ''$'', CHR 0x60, CHR ''('', CHR '')'', CHR ''{'', CHR ''}'',
      CHR ''['', CHR '']'', CHR ''<'', CHR ''>'', CHR 0x0A, CHR 0x0D]"

subsection \<open>Compiler arguments\<close>

definition isDangerousFlag :: "string \<Rightarrow> bool" where
  "isDangerousFlag arg \<longleftrightarrow>
     arg \<in> set DangerousFlags \<or> list_ex (HasPrefix arg) DangerousFlagPrefixes"

definition needsValueArg :: "string \<Rightarrow> bool" where
  "needsValueArg arg \<longleftrightarrow> arg \<in> set [''--plugin'', ''-B'', ''-specs'', ''--sysroot'']"

definition hasShellMetaChars :: "string \<Rightarrow> bool" where
  "hasShellMetaChars s \<longleftrightarrow> list_ex (\<lambda>c. c \<in> set s) ShellMetaCharacters"

definition ToSlash :: "bool \<Rightarrow> string \<Rightarrow> string" where
  "ToSlash windows p = (if windows then map (\<lambda>c. if c = CHR 0x5C then slash else c) p else p)"

definition containsPathTraversal :: "bool \<Rightarrow> string \<Rightarrow> bool" where
  "containsPathTraversal windows path \<longleftrightarrow>
     ''..'' \<in> set (Split slash (ToSlash windows path)) \<or>
     Contains path ''%2e%2e'' \<or> Contains path ''%2E%2E''"

text \<open>One turn of the loop for an argument that is not a dangerous flag: is it kept?\<close>

definition keepArg :: "bool \<Rightarrow> string \<Rightarrow> bool" where
  "keepArg windows arg =
     (if hasShellMetaChars arg then False
      else if HasPrefix arg ''-I'' \<and> containsPathTraversal windows (trimPrefix arg ''-I'') then False
      else if Contains arg ''>>'' \<or> Contains arg ''> '' then False
      else True)"

fun SanitizeCompilerArgs :: "bool \<Rightarrow> string list \<Rightarrow> string list \<times> string list" where
  "SanitizeCompilerArgs windows [] = ([], [])"
| "SanitizeCompilerArgs windows (arg # args) =
     (if isDangerousFlag arg then
        (if needsValueArg arg \<and> args \<noteq> []
         then let (s, r) = SanitizeCompilerArgs windows (tl args) in (s, arg # hd args # r)
         else let (s, r) = SanitizeCompilerArgs windows args in (s, arg # r))
      else if keepArg windows arg
      then let (s, r) = SanitizeCompilerArgs windows args in (arg # s, r)
      else let (s, r) = SanitizeCompilerArgs windows args in (s, arg # r))"

subsection \<open>Paths\<close>

text \<open>
  \<^verbatim>\<open>isWindowsReservedName\<close>. Outside ASCII only two letters have an ASCII upper case, \<open>I\<close> and
  \<open>S\<close>, and no reserved name contains them, so the ASCII \<^verbatim>\<open>ToUpper\<close> decides the same.
\<close>

definition isWindowsReservedName :: "string \<Rightarrow> bool" where
  "isWindowsReservedName name \<longleftrightarrow>
     (let base = ToUpper name
      in (case beforeLast (CHR ''.'') base of None \<Rightarrow> base | Some b \<Rightarrow> b) \<in> set WindowsReservedNames)"

text \<open>Ranging over a string with the byte offset of every rune.\<close>

function range_runes :: "nat \<Rightarrow> string \<Rightarrow> (nat \<times> nat) list" where
  "range_runes i s =
     (if s = [] then []
      else (i, fst (decodeRune s)) # range_runes (i + snd (decodeRune s)) (drop (snd (decodeRune s)) s))"
  by auto

termination
proof (relation "measure (\<lambda>(i, s). length s)")
  fix i and s :: string assume "s \<noteq> []"
  then show "((i + snd (decodeRune s), drop (snd (decodeRune s)) s), i, s) \<in> measure (\<lambda>(i, s). length s)"
    using decodeRune_width[of s] by simp
qed simp

declare range_runes.simps [simp del]

definition hasWindowsInvalidChars :: "string \<Rightarrow> bool" where
  "hasWindowsInvalidChars path \<longleftrightarrow>
     list_ex (\<lambda>(i, r). if r = of_char (CHR '':'') then i \<noteq> 1
                       else r \<in> of_char ` set WindowsInvalidChars) (range_runes 0 path)"

fun firstReserved :: "string list \<Rightarrow> string" where
  "firstReserved [] = ''''"
| "firstReserved (part # parts) =
     (if part = '''' then firstReserved parts
      else if isWindowsReservedName part then ''path contains Windows reserved name: '' @ part
      else firstReserved parts)"

definition ValidatePathForWindows :: "bool \<Rightarrow> string \<Rightarrow> string" where
  "ValidatePathForWindows windows path =
     (if path = '''' then ''''
      else if hasWindowsInvalidChars path then ''path contains invalid Windows characters''
      else firstReserved (Split slash (ToSlash windows path)))"

definition pathStartsWithBase :: "string \<Rightarrow> string \<Rightarrow> bool" where
  "pathStartsWithBase fullPath basePath = HasPrefix (Clean fullPath) (Clean basePath)"

definition SanitizePath :: "string \<Rightarrow> string \<Rightarrow> string" where
  "SanitizePath basePath path =
     (if path = '''' then ''''
      else let cleaned = Clean path in
        if containsPathTraversal False cleaned then ''''
        else if IsAbs cleaned then
          (if basePath \<noteq> '''' \<and> \<not> pathStartsWithBase cleaned basePath then '''' else cleaned)
        else if basePath \<noteq> '''' then
          (let abs = Clean (path_Join [basePath, cleaned])
           in if pathStartsWithBase abs basePath then abs else '''')
        else cleaned)"

definition isAlnum :: "nat \<Rightarrow> bool" where
  "isAlnum r \<longleftrightarrow> 97 \<le> r \<and> r \<le> 122 \<or> 65 \<le> r \<and> r \<le> 90 \<or> 48 \<le> r \<and> r \<le> 57"

definition isRune :: "string \<Rightarrow> nat \<Rightarrow> bool" where
  "isRune cs r \<longleftrightarrow> r \<in> of_char ` set cs"

definition ValidateDockerImage :: "string \<Rightarrow> bool" where
  "ValidateDockerImage img =
     (if img = '''' then True
      else if hasShellMetaChars img then False
      else list_all (\<lambda>r. isAlnum r \<or> isRune ''.-_/:@'' r) (runes img))"

subsection \<open>Requests\<close>

definition MaxSourceArchiveBytes :: nat where "MaxSourceArchiveBytes = 100 * 1024 * 1024"
definition MaxTaskIDLength :: nat where "MaxTaskIDLength = 128"
definition MaxCompilerArgsCount :: nat where "MaxCompilerArgsCount = 256"
definition MaxTimeoutSeconds :: int where "MaxTimeoutSeconds = 3600"

definition taskIDRegex :: "string \<Rightarrow> bool" where
  "taskIDRegex s \<longleftrightarrow> s \<noteq> '''' \<and> list_all (\<lambda>c. isAlnum (of_char c) \<or> c \<in> set ''_-'') s"

record Error =
  Field :: string
  Message :: string

definition Error_Error :: "Error \<Rightarrow> string" where
  "Error_Error e = Field e @ '': '' @ Message e"

type_synonym MultiError = "Error list"

definition MultiError_Error :: "MultiError \<Rightarrow> string" where
  "MultiError_Error m =
     (case m of
        [] \<Rightarrow> ''no errors''
      | [e] \<Rightarrow> Error_Error e
      | e # es \<Rightarrow> Error_Error e @ '' (and '' @ nat_str (length es) @ '' more errors)'')"

definition MultiError_Add :: "string \<Rightarrow> string \<Rightarrow> MultiError \<Rightarrow> MultiError" where
  "MultiError_Add field message m = m @ [\<lparr>Field = field, Message = message\<rparr>]"

definition HasErrors :: "MultiError \<Rightarrow> bool" where
  "HasErrors m \<longleftrightarrow> 0 < length m"

definition ToError :: "MultiError \<Rightarrow> MultiError option" where
  "ToError m = (if \<not> HasErrors m then None else Some m)"

text \<open>The statement \<^verbatim>\<open>if c { errs.Add(field, message) }\<close>.\<close>

definition addIf :: "bool \<Rightarrow> string \<Rightarrow> string \<Rightarrow> MultiError \<Rightarrow> MultiError" where
  "addIf c field message m = (if c then MultiError_Add field message m else m)"

definition isHexDigit :: "char \<Rightarrow> bool" where
  "isHexDigit c \<longleftrightarrow> c \<in> set ''0123456789abcdefABCDEF''"

text \<open>\<^verbatim>\<open>hex.DecodeString\<close> fails on an odd length and on a byte that is no hexadecimal digit.\<close>

definition isHexString :: "string \<Rightarrow> bool" where
  "isHexString s = (if length s = 0 \<or> length s mod 2 \<noteq> 0 then False else list_all isHexDigit s)"

text \<open>
  \<open>uni\<close> says which runes outside ASCII the tables of package \<^verbatim>\<open>unicode\<close> list as letters or
  decimal digits.
\<close>

definition isLetterOrDigit :: "(nat \<Rightarrow> bool) \<Rightarrow> nat \<Rightarrow> bool" where
  "isLetterOrDigit uni r = (if r < 128 then isAlnum r else uni r)"

definition isValidCompiler :: "(nat \<Rightarrow> bool) \<Rightarrow> string \<Rightarrow> bool" where
  "isValidCompiler uni name =
     (if name \<in> set [''gcc'', ''g++'', ''clang'', ''clang++'', ''cc'', ''c++''] then True
      else list_all (\<lambda>r. isLetterOrDigit uni r \<or> isRune ''/-_+.'' r) (runes name))"

text \<open>The check of a task or worker ID, which the three validators share word for word.\<close>

definition checkID :: "string \<Rightarrow> string \<Rightarrow> MultiError \<Rightarrow> MultiError" where
  "checkID field v errs =
     (if v = '''' then MultiError_Add field ''required'' errs
      else addIf (\<not> taskIDRegex v) field ''must contain only alphanumeric, dash, or underscore''
             (addIf (length v > MaxTaskIDLength) field
                (''must be <= '' @ nat_str MaxTaskIDLength @ '' characters'') errs))"

definition checkHash :: "string \<Rightarrow> MultiError \<Rightarrow> MultiError" where
  "checkHash h errs =
     (if h = '''' then MultiError_Add ''source_hash'' ''required'' errs
      else addIf (\<not> isHexString h) ''source_hash'' ''must be a hex string'' errs)"

definition checkTimeout :: "int \<Rightarrow> MultiError \<Rightarrow> MultiError" where
  "checkTimeout t errs =
     addIf (t > MaxTimeoutSeconds) ''timeout_seconds'' (''must be <= '' @ int_str MaxTimeoutSeconds)
       (addIf (t < 0) ''timeout_seconds'' ''must be >= 0'' errs)"

definition validateBuildConfig :: "BuildRequest \<Rightarrow> string option" where
  "validateBuildConfig req =
     (let c = br_Config req in
      case br_BuildType req of
        BUILD_TYPE_CPP \<Rightarrow>
          if c \<noteq> CppConfig then Some ''cpp_config required for BUILD_TYPE_CPP'' else None
      | BUILD_TYPE_FLUTTER \<Rightarrow>
          (case c of FlutterConfig _ \<Rightarrow> None | _ \<Rightarrow> Some ''flutter_config required for BUILD_TYPE_FLUTTER'')
      | BUILD_TYPE_UNITY \<Rightarrow>
          (case c of UnityConfig _ \<Rightarrow> None | _ \<Rightarrow> Some ''unity_config required for BUILD_TYPE_UNITY'')
      | BUILD_TYPE_COCOS \<Rightarrow>
          if c \<noteq> CocosConfig then Some ''cocos_config required for BUILD_TYPE_COCOS'' else None
      | BUILD_TYPE_RUST \<Rightarrow>
          if c \<noteq> RustConfig then Some ''rust_config required for BUILD_TYPE_RUST'' else None
      | BUILD_TYPE_GO \<Rightarrow>
          if c \<noteq> GoConfig then Some ''go_config required for BUILD_TYPE_GO'' else None
      | BUILD_TYPE_NODEJS \<Rightarrow>
          if c \<noteq> NodeConfig then Some ''node_config required for BUILD_TYPE_NODEJS'' else None
      | _ \<Rightarrow> None)"

definition ValidateBuildRequest :: "BuildRequest \<Rightarrow> MultiError option" where
  "ValidateBuildRequest req =
     (let errs = checkID ''task_id'' (br_TaskId req) [];
          errs = checkHash (br_SourceHash req) errs;
          errs = addIf (br_BuildType req = BUILD_TYPE_UNSPECIFIED) ''build_type'' ''required'' errs;
          errs = addIf (br_TargetPlatform req = PLATFORM_UNSPECIFIED) ''target_platform'' ''required'' errs;
          errs = addIf (length (br_SourceArchive req) > MaxSourceArchiveBytes) ''source_archive''
                   (''must be <= '' @ nat_str MaxSourceArchiveBytes @ '' bytes'') errs;
          errs = checkTimeout (br_TimeoutSeconds req) errs;
          errs = addIf (br_Priority req < 0 \<or> br_Priority req > 100) ''priority''
                   ''must be between 0 and 100'' errs;
          errs = (case validateBuildConfig req of
                    None \<Rightarrow> errs | Some e \<Rightarrow> MultiError_Add ''config'' e errs)
      in ToError errs)"

definition ValidateCompileRequest :: "(nat \<Rightarrow> bool) \<Rightarrow> CompileRequest \<Rightarrow> MultiError option" where
  "ValidateCompileRequest uni req =
     (let errs = checkID ''task_id'' (cr_TaskId req) [];
          errs = checkHash (cr_SourceHash req) errs;
          errs = (if cr_Compiler req = '''' then MultiError_Add ''compiler'' ''required'' errs
                  else addIf (\<not> isValidCompiler uni (cr_Compiler req)) ''compiler'' ''invalid compiler name'' errs);
          errs = addIf (length (cr_PreprocessedSource req) = 0) ''preprocessed_source'' ''required'' errs;
          errs = addIf (length (cr_CompilerArgs req) > MaxCompilerArgsCount) ''compiler_args''
                   (''must have <= '' @ nat_str MaxCompilerArgsCount @ '' arguments'') errs;
          errs = checkTimeout (cr_TimeoutSeconds req) errs
      in ToError errs)"

definition ValidateHandshakeRequest :: "HandshakeRequest \<Rightarrow> MultiError option" where
  "ValidateHandshakeRequest req =
     (case hs_Capabilities req of
        None \<Rightarrow> ToError (MultiError_Add ''capabilities'' ''required'' [])
      | Some caps \<Rightarrow>
          (let errs = checkID ''capabilities.worker_id'' (WorkerId caps) [];
               errs = addIf (CpuCores caps \<le> 0) ''capabilities.cpu_cores'' ''must be > 0'' errs;
               errs = addIf (MemoryBytes caps \<le> 0) ''capabilities.memory_bytes'' ''must be > 0'' errs;
               errs = addIf (NativeArch caps = ARCH_UNSPECIFIED) ''capabilities.native_arch'' ''required'' errs;
               errs = addIf (hs_WorkerAddress req = '''') ''worker_address'' ''required'' errs
           in ToError errs))"

subsection \<open>What sanitising keeps\<close>

lemma Contains_mem: "Contains s p \<Longrightarrow> c \<in> set p \<Longrightarrow> c \<in> set s"
proof (induction s p rule: Contains.induct)
  case (2 d s p)
  show ?case
  proof (cases "HasPrefix (d # s) p")
    case True
    then obtain r where "d # s = p @ r" by (auto simp: HasPrefix_iff)
    then have "c \<in> set (d # s)" using "2.prems"(2) by (metis Un_iff set_append)
    then show ?thesis .
  next
    case False
    then show ?thesis using 2 by simp
  qed
qed simp

text \<open>
  The check for output redirection cannot trigger: it comes after the one for shell
  metacharacters, of which \<open>>\<close> is one.
\<close>

lemma keepArg_iff:
  "keepArg windows arg \<longleftrightarrow>
     \<not> hasShellMetaChars arg \<and>
     \<not> (HasPrefix arg ''-I'' \<and> containsPathTraversal windows (trimPrefix arg ''-I''))"
proof -
  have "hasShellMetaChars arg" if "Contains arg ''>>'' \<or> Contains arg ''> ''"
  proof -
    have "CHR ''>'' \<in> set arg" using that by (auto intro: Contains_mem)
    then show ?thesis by (simp add: hasShellMetaChars_def ShellMetaCharacters_def)
  qed
  then show ?thesis by (auto simp: keepArg_def)
qed

definition safeArg :: "bool \<Rightarrow> string \<Rightarrow> bool" where
  "safeArg windows arg \<longleftrightarrow> \<not> isDangerousFlag arg \<and> keepArg windows arg"

lemma sanitize_partition:
  "mset (fst (SanitizeCompilerArgs windows args)) + mset (snd (SanitizeCompilerArgs windows args)) = mset args"
  by (induction windows args rule: SanitizeCompilerArgs.induct)
    (auto simp: split_beta neq_Nil_conv)

lemma sanitize_subseq: "subseq (fst (SanitizeCompilerArgs windows args)) args"
proof (induction windows args rule: SanitizeCompilerArgs.induct)
  case (2 windows arg args)
  have skip: "subseq xs (arg # args)" if "subseq xs args \<or> subseq xs (tl args)" for xs
    using that by (cases args) auto
  show ?case
    using 2 skip by (cases "isDangerousFlag arg"; cases "needsValueArg arg \<and> args \<noteq> []";
        cases "keepArg windows arg") (simp_all add: split_beta)
qed simp

lemma sanitize_safe: "list_all (safeArg windows) (fst (SanitizeCompilerArgs windows args))"
  by (induction windows args rule: SanitizeCompilerArgs.induct)
    (auto simp: split_beta safeArg_def)

lemma sanitize_all_safe:
  "list_all (safeArg windows) args \<Longrightarrow> SanitizeCompilerArgs windows args = (args, [])"
  by (induction args) (auto simp: safeArg_def)

text \<open>A removed argument is unsafe, or it follows a flag that takes it as its value.\<close>

lemma sanitize_removed:
  "v \<in> set (snd (SanitizeCompilerArgs windows args)) \<Longrightarrow>
     \<not> safeArg windows v \<or> (\<exists>xs f ys. args = xs @ f # v # ys \<and> needsValueArg f)"
proof (induction windows args rule: SanitizeCompilerArgs.induct)
  case (2 windows arg args)
  have shift: "\<exists>xs f ys. arg # args = xs @ f # v # ys \<and> needsValueArg f"
    if "args = zs @ xs @ f # v # ys" "needsValueArg f" for zs xs f ys
    using that by (metis append.assoc append_Cons)
  from "2.prems" show ?case
  proof (cases "isDangerousFlag arg \<and> needsValueArg arg \<and> args \<noteq> []")
    case True
    then obtain w ws where args: "args = w # ws" by (auto simp: neq_Nil_conv)
    from "2.prems" True consider "v = arg" | "v = w" | "v \<in> set (snd (SanitizeCompilerArgs windows ws))"
      by (auto simp: args split_beta)
    then show ?thesis
    proof cases
      case 1 then show ?thesis using True by (simp add: safeArg_def)
    next
      case 2 then show ?thesis using True args by (metis append_Nil)
    next
      case 3
      then show ?thesis using "2.IH"(1) True shift[of "[w]"] by (auto simp: args)
    qed
  next
    case False
    then consider "v = arg" "\<not> safeArg windows arg" | "v \<in> set (snd (SanitizeCompilerArgs windows args))"
      using "2.prems" by (auto simp: split_beta safeArg_def split: if_splits)
    then show ?thesis
    proof cases
      case 1 then show ?thesis by simp
    next
      case 2
      have "\<not> safeArg windows v \<or> (\<exists>xs f ys. args = xs @ f # v # ys \<and> needsValueArg f)"
        using 2 "2.IH"(2-4) False by (cases "isDangerousFlag arg"; cases "keepArg windows arg") blast+
      then show ?thesis using shift[of "[]"] by auto
    qed
  qed
qed simp

text \<open>
  C32. Sanitising splits the arguments without losing or inventing any and keeps the order of the
  kept ones. A kept argument is no listed flag, has no shell metacharacter and, as an
  \<^verbatim>\<open>-I\<close> path, no parent reference; a removed one fails one of these or is the value of a flag.
  Sanitising the result again removes nothing.
\<close>
theorem SanitizeCompilerArgs_correct:
  "case SanitizeCompilerArgs windows args of (kept, removed) \<Rightarrow>
     mset kept + mset removed = mset args \<and> subseq kept args \<and>
     (\<forall>a \<in> set kept.
        a \<notin> set DangerousFlags \<and> (\<forall>p \<in> set DangerousFlagPrefixes. \<not> HasPrefix a p) \<and>
        set a \<inter> set ShellMetaCharacters = {} \<and>
        (\<forall>p. a = ''-I'' @ p \<longrightarrow> \<not> containsPathTraversal windows p)) \<and>
     (\<forall>v \<in> set removed.
        isDangerousFlag v \<or> hasShellMetaChars v \<or>
        (\<exists>p. v = ''-I'' @ p \<and> containsPathTraversal windows p) \<or>
        (\<exists>xs f ys. args = xs @ f # v # ys \<and> needsValueArg f)) \<and>
     SanitizeCompilerArgs windows kept = (kept, [])"
proof -
  obtain kept removed where split: "SanitizeCompilerArgs windows args = (kept, removed)"
    by fastforce
  have safe: "\<forall>a \<in> set kept. safeArg windows a"
    using sanitize_safe[of windows args] by (simp add: split list_all_iff)
  have "\<forall>a \<in> set kept.
          a \<notin> set DangerousFlags \<and> (\<forall>p \<in> set DangerousFlagPrefixes. \<not> HasPrefix a p) \<and>
          set a \<inter> set ShellMetaCharacters = {} \<and>
          (\<forall>p. a = ''-I'' @ p \<longrightarrow> \<not> containsPathTraversal windows p)"
    using safe
    by (auto simp: safeArg_def isDangerousFlag_def keepArg_iff hasShellMetaChars_def list_ex_iff
        trimPrefix_def HasPrefix_def)
  moreover have "\<forall>v \<in> set removed.
        isDangerousFlag v \<or> hasShellMetaChars v \<or>
        (\<exists>p. v = ''-I'' @ p \<and> containsPathTraversal windows p) \<or>
        (\<exists>xs f ys. args = xs @ f # v # ys \<and> needsValueArg f)"
  proof
    fix v assume "v \<in> set removed"
    then have "\<not> safeArg windows v \<or> (\<exists>xs f ys. args = xs @ f # v # ys \<and> needsValueArg f)"
      using sanitize_removed[of v windows args] by (simp add: split)
    moreover have "isDangerousFlag v \<or> hasShellMetaChars v \<or>
        (\<exists>p. v = ''-I'' @ p \<and> containsPathTraversal windows p)" if "\<not> safeArg windows v"
      using that by (auto simp: safeArg_def keepArg_iff trimPrefix_def HasPrefix_iff)
    ultimately show "isDangerousFlag v \<or> hasShellMetaChars v \<or>
        (\<exists>p. v = ''-I'' @ p \<and> containsPathTraversal windows p) \<or>
        (\<exists>xs f ys. args = xs @ f # v # ys \<and> needsValueArg f)" by blast
  qed
  ultimately show ?thesis
    using sanitize_partition[of windows args] sanitize_subseq[of windows args]
      sanitize_all_safe[of windows kept] safe
    by (simp add: split list_all_iff)
qed

theorem SanitizeCompilerArgs_correct_witness:
  "SanitizeCompilerArgs False (fst (SanitizeCompilerArgs False [''-O2'', ''-B'', ''/evil'', ''-I../x'', ''a;b'', ''-DX''])) =
   ([''-O2'', ''-DX''], [])"
proof -
  have "SanitizeCompilerArgs False [''-O2'', ''-B'', ''/evil'', ''-I../x'', ''a;b'', ''-DX''] =
    ([''-O2'', ''-DX''], [''-B'', ''/evil'', ''-I../x'', ''a;b''])" by code_simp
  with SanitizeCompilerArgs_correct[where windows = False and args = "[''-O2'', ''-B'', ''/evil'', ''-I../x'', ''a;b'', ''-DX'']"]
  show ?thesis by (simp only: prod.case fst_conv)
qed

text \<open>
  A response file, joined forms of blocked flags, the value of \<^verbatim>\<open>-Xlinker\<close> and a parent
  directory as a separate \<^verbatim>\<open>-I\<close> operand all pass.
\<close>
theorem sanitize_lets_through:
  "SanitizeCompilerArgs False
     [''@evil.rsp'', ''-Xlinker'', ''--wrap=f'', ''-Wl,--wrap=f'', ''-fprofile-use=x'',
      ''-save-temps=obj'', ''--plugin=x.so'', ''-Btools'', ''-I'', ''../../etc''] =
   ([''@evil.rsp'', ''--wrap=f'', ''-Wl,--wrap=f'', ''-fprofile-use=x'', ''-save-temps=obj'',
     ''--plugin=x.so'', ''-Btools'', ''-I'', ''../../etc''], [''-Xlinker''])"
  by code_simp

subsection \<open>Where a sanitised path points\<close>

lemma SanitizePath_relative_eq:
  assumes path: "path \<noteq> ''''" "\<not> IsAbs path" and base: "basePath \<noteq> ''''"
  shows "SanitizePath basePath path =
     (if containsPathTraversal False (Clean path) then ''''
      else let abs = render_path (IsAbs basePath) (components basePath @ components path)
           in if HasPrefix abs (Clean basePath) then abs else '''')"
proof (cases "containsPathTraversal False (Clean path)")
  case True
  then show ?thesis using path by (simp add: SanitizePath_def)
next
  case False
  let ?cs = "components path"
  let ?abs = "render_path (IsAbs basePath) (components basePath @ ?cs)"
  have cl: "clean_components False ?cs" using components_clean[of path] path by simp
  have nd: "''..'' \<notin> set ?cs"
    using False dots_in_Clean[of path] by (simp add: containsPathTraversal_def ToSlash_def)
  note J = components_Join_names[OF base cl nd]
  have "path_Join [basePath, Clean path] = Clean (basePath @ slash # render_path False ?cs)"
    using base path by (simp add: Clean_def[of path])
  also have "\<dots> = ?abs" by (subst Clean_def) (simp only: J)
  finally have join: "path_Join [basePath, Clean path] = ?abs" .
  have ok: "clean_components (IsAbs basePath) (components basePath @ ?cs)"
    using components_clean names_of_clean[OF cl nd] by (rule clean_components_append)
  have "Clean ?abs = ?abs" using ok by (simp add: Clean_def)
  then show ?thesis
    using False path base join by (simp add: SanitizePath_def pathStartsWithBase_def Let_def)
qed

text \<open>
  C25. What becomes of a relative path below a base directory. It is refused in exactly three cases: its
  components, once cleaned, contain a parent reference; the cleaned path contains the text
  \<^verbatim>\<open>%2e%2e\<close> or \<^verbatim>\<open>%2E%2E\<close>, whether or not that would lead upwards; or the base is the current directory and
  the cleaned path does not happen to begin with a dot. In every other case the result is the base
  directory followed by the components of the path, each of which is a plain name.
\<close>
theorem SanitizePath_confined:
  assumes "path \<noteq> ''''" and "\<not> IsAbs path" and "basePath \<noteq> ''''"
  shows "if ''..'' \<in> set (components path) \<or>
       Contains (Clean path) ''%2e%2e'' \<or> Contains (Clean path) ''%2E%2E'' \<or>
       Clean basePath = ''.'' \<and> \<not> HasPrefix (Clean path) ''.''
    then SanitizePath basePath path = ''''
    else SanitizePath basePath path = render_path (IsAbs basePath) (components basePath @ components path) \<and>
         components (SanitizePath basePath path) = components basePath @ components path \<and>
         list_all path_name (components path)"
proof (cases "containsPathTraversal False (Clean path)")
  case True
  then show ?thesis
    using assms by (auto simp: SanitizePath_relative_eq containsPathTraversal_def ToSlash_def dots_in_Clean)
next
  case False
  let ?cs = "components path"
  let ?abs = "render_path (IsAbs basePath) (components basePath @ ?cs)"
  have up: "''..'' \<notin> set ?cs" "\<not> Contains (Clean path) ''%2e%2e''" "\<not> Contains (Clean path) ''%2E%2E''"
    using False dots_in_Clean[of path] by (simp_all add: containsPathTraversal_def ToSlash_def)
  have cl: "clean_components False ?cs" using components_clean[of path] assms(2) by simp
  have names: "list_all path_name ?cs" using cl up(1) by (rule names_of_clean)
  have ok: "clean_components (IsAbs basePath) (components basePath @ ?cs)"
    using components_clean names by (rule clean_components_append)
  have eq: "SanitizePath basePath path = (if HasPrefix ?abs (Clean basePath) then ?abs else '''')"
    using assms False by (simp add: SanitizePath_relative_eq Let_def)
  have "HasPrefix ?abs (Clean basePath) \<longleftrightarrow> \<not> (Clean basePath = ''.'' \<and> \<not> HasPrefix (Clean path) ''.'')"
  proof (cases "Clean basePath = ''.''")
    case True
    have "components (Clean basePath) = []" "\<not> IsAbs (Clean basePath)" unfolding True by code_simp+
    then have "components basePath = []" "\<not> IsAbs basePath" by simp_all
    then have "?abs = Clean path" using assms(2) by (simp add: Clean_def[of path])
    then show ?thesis using True by simp
  next
    case other: False
    then have "IsAbs basePath \<or> components basePath \<noteq> []"
      by (auto simp: Clean_def render_path_def split: if_splits)
    then show ?thesis using other unfolding Clean_def[of basePath] by (simp add: render_prefix)
  qed
  then show ?thesis using eq up ok names by simp
qed

theorem SanitizePath_confined_witness:
  "SanitizePath ''/srv/out'' ''a/./b/../c'' = ''/srv/out/a/c'' \<and>
   components (SanitizePath ''/srv/out'' ''a/./b/../c'') = [''srv'', ''out'', ''a'', ''c'']"
proof -
  let ?p = "''a/./b/../c''" and ?b = "''/srv/out''"
  have h: "?p \<noteq> ''''" "\<not> IsAbs ?p" "?b \<noteq> ''''"
    and n: "\<not> (''..'' \<in> set (components ?p) \<or>
       Contains (Clean ?p) ''%2e%2e'' \<or> Contains (Clean ?p) ''%2E%2E'' \<or>
       Clean ?b = ''.'' \<and> \<not> HasPrefix (Clean ?p) ''.'')"
    and e: "components ?b @ components ?p = [''srv'', ''out'', ''a'', ''c'']"
      "render_path (IsAbs ?b) [''srv'', ''out'', ''a'', ''c''] = ''/srv/out/a/c''"
    by code_simp+
  from SanitizePath_confined[OF h, unfolded if_not_P[OF n] e] show ?thesis by (elim conjE) (intro conjI)
qed

text \<open>
  An absolute path is compared with the base as a string, so a sibling whose name extends the
  base's passes; and the base \<open>.\<close> refuses every ordinary relative path.
\<close>
theorem SanitizePath_prefix_is_textual:
  "SanitizePath ''/srv/out'' ''/srv/output/x'' = ''/srv/output/x'' \<and>
   \<not> prefix (components ''/srv/out'') (components ''/srv/output/x'') \<and>
   SanitizePath ''.'' ''main.c'' = ''''"
proof -
  have "SanitizePath ''/srv/out'' ''/srv/output/x'' = ''/srv/output/x''"
    "SanitizePath ''.'' ''main.c'' = ''''" by code_simp+
  moreover have "components ''/srv/out'' = [''srv'', ''out'']"
    "components ''/srv/output/x'' = [''srv'', ''output'', ''x'']" by code_simp+
  ultimately show ?thesis by simp
qed

subsection \<open>Which requests are accepted\<close>

lemma ToError_None [simp]: "ToError m = None \<longleftrightarrow> m = []"
  by (simp add: ToError_def HasErrors_def)

lemma addIf_Nil [simp]: "addIf c f msg m = [] \<longleftrightarrow> \<not> c \<and> m = []"
  by (simp add: addIf_def MultiError_Add_def)

lemma MultiError_Add_not_Nil [simp]: "MultiError_Add f msg m \<noteq> []"
  by (simp add: MultiError_Add_def)

lemma checkID_Nil [simp]:
  "checkID f v m = [] \<longleftrightarrow> length v \<le> MaxTaskIDLength \<and> taskIDRegex v \<and> m = []"
  by (auto simp: checkID_def taskIDRegex_def)

lemma checkHash_Nil [simp]: "checkHash h m = [] \<longleftrightarrow> isHexString h \<and> m = []"
  by (auto simp: checkHash_def isHexString_def)

lemma checkTimeout_Nil [simp]:
  "checkTimeout t m = [] \<longleftrightarrow> 0 \<le> t \<and> t \<le> MaxTimeoutSeconds \<and> m = []"
  by (auto simp: checkTimeout_def)

text \<open>
  A build request is accepted exactly when its identifier and source hash are well formed, build
  type and platform are given, archive, timeout and priority are within their limits and the
  configuration is the one of the build type.
\<close>
theorem ValidateBuildRequest_exact:
  "ValidateBuildRequest req = None \<longleftrightarrow>
     taskIDRegex (br_TaskId req) \<and> length (br_TaskId req) \<le> 128 \<and>
     isHexString (br_SourceHash req) \<and>
     br_BuildType req \<noteq> BUILD_TYPE_UNSPECIFIED \<and> br_TargetPlatform req \<noteq> PLATFORM_UNSPECIFIED \<and>
     length (br_SourceArchive req) \<le> 104857600 \<and>
     0 \<le> br_TimeoutSeconds req \<and> br_TimeoutSeconds req \<le> 3600 \<and>
     0 \<le> br_Priority req \<and> br_Priority req \<le> 100 \<and>
     (case br_BuildType req of
        BUILD_TYPE_CPP \<Rightarrow> br_Config req = CppConfig
      | BUILD_TYPE_FLUTTER \<Rightarrow> (\<exists>c. br_Config req = FlutterConfig c)
      | BUILD_TYPE_UNITY \<Rightarrow> (\<exists>c. br_Config req = UnityConfig c)
      | BUILD_TYPE_COCOS \<Rightarrow> br_Config req = CocosConfig
      | BUILD_TYPE_RUST \<Rightarrow> br_Config req = RustConfig
      | BUILD_TYPE_GO \<Rightarrow> br_Config req = GoConfig
      | BUILD_TYPE_NODEJS \<Rightarrow> br_Config req = NodeConfig
      | _ \<Rightarrow> True)"
proof -
  have cfg: "validateBuildConfig req = None \<longleftrightarrow>
     (case br_BuildType req of
        BUILD_TYPE_CPP \<Rightarrow> br_Config req = CppConfig
      | BUILD_TYPE_FLUTTER \<Rightarrow> (\<exists>c. br_Config req = FlutterConfig c)
      | BUILD_TYPE_UNITY \<Rightarrow> (\<exists>c. br_Config req = UnityConfig c)
      | BUILD_TYPE_COCOS \<Rightarrow> br_Config req = CocosConfig
      | BUILD_TYPE_RUST \<Rightarrow> br_Config req = RustConfig
      | BUILD_TYPE_GO \<Rightarrow> br_Config req = GoConfig
      | BUILD_TYPE_NODEJS \<Rightarrow> br_Config req = NodeConfig
      | _ \<Rightarrow> True)"
    by (cases "br_BuildType req"; cases "br_Config req") (simp_all add: validateBuildConfig_def Let_def)
  have acc: "ValidateBuildRequest req = None \<longleftrightarrow>
     taskIDRegex (br_TaskId req) \<and> length (br_TaskId req) \<le> MaxTaskIDLength \<and>
     isHexString (br_SourceHash req) \<and>
     br_BuildType req \<noteq> BUILD_TYPE_UNSPECIFIED \<and> br_TargetPlatform req \<noteq> PLATFORM_UNSPECIFIED \<and>
     length (br_SourceArchive req) \<le> MaxSourceArchiveBytes \<and>
     0 \<le> br_TimeoutSeconds req \<and> br_TimeoutSeconds req \<le> MaxTimeoutSeconds \<and>
     0 \<le> br_Priority req \<and> br_Priority req \<le> 100 \<and> validateBuildConfig req = None"
    by (cases "validateBuildConfig req") (auto simp: ValidateBuildRequest_def Let_def)
  show ?thesis
    unfolding acc cfg by (simp add: MaxTaskIDLength_def MaxSourceArchiveBytes_def MaxTimeoutSeconds_def)
qed

text \<open>A compile request is accepted only with a preprocessed source; \<open>raw_source\<close> is not looked at.\<close>

lemma ValidateCompileRequest_exact:
  "ValidateCompileRequest uni req = None \<longleftrightarrow>
     taskIDRegex (cr_TaskId req) \<and> length (cr_TaskId req) \<le> 128 \<and>
     isHexString (cr_SourceHash req) \<and> cr_Compiler req \<noteq> '''' \<and> isValidCompiler uni (cr_Compiler req) \<and>
     cr_PreprocessedSource req \<noteq> [] \<and> length (cr_CompilerArgs req) \<le> 256 \<and>
     0 \<le> cr_TimeoutSeconds req \<and> cr_TimeoutSeconds req \<le> 3600"
  by (auto simp: ValidateCompileRequest_def Let_def MaxTaskIDLength_def MaxCompilerArgsCount_def
      MaxTimeoutSeconds_def)

lemma ValidateHandshakeRequest_exact:
  "ValidateHandshakeRequest req = None \<longleftrightarrow>
     (\<exists>caps. hs_Capabilities req = Some caps \<and> taskIDRegex (WorkerId caps) \<and>
        length (WorkerId caps) \<le> 128 \<and> 0 < CpuCores caps \<and> 0 < MemoryBytes caps \<and>
        NativeArch caps \<noteq> ARCH_UNSPECIFIED \<and> hs_WorkerAddress req \<noteq> '''')"
  by (auto simp: ValidateHandshakeRequest_def Let_def MaxTaskIDLength_def split: option.split)

end
