(* ===== verification/Archive.thy ===== *)
theory Archive
  imports Executor Validation
begin

text \<open>
  Source archives of application builds: how the client packs a project
  (\<^verbatim>\<open>internal/cli/flutter/archive.go\<close>, \<^verbatim>\<open>internal/cli/unity/archive.go\<close>) and how the worker unpacks
  it (\<^verbatim>\<open>extractSourceArchive\<close> and \<^verbatim>\<open>extractTarStream\<close> in \<^verbatim>\<open>internal/worker/executor/flutter.go\<close>).

  A tar file is the sequence of its entries; the byte encoding, the decompressor and the hash are
  arguments. A project is a tree of files, directories and other nodes whose directories list
  their entries in the order in which \<^verbatim>\<open>filepath.WalkDir\<close> visits them; errors of opening or reading
  sit in the tree.
\<close>

declare path_Join.simps [simp del]

subsection \<open>Unpacking\<close>

datatype tar_type = TypeDir | TypeReg | TypeOther

record tar_header =
  th_Name :: string
  th_Typeflag :: tar_type
  th_Mode :: int

text \<open>What successive calls of \<^verbatim>\<open>Next\<close> give; the end of the list is \<^verbatim>\<open>io.EOF\<close>.\<close>

datatype tar_event = TarEntry tar_header bytes | TarError string

datatype x_op = XMkdirAll string | XCreate string int | XCopy string bytes | XClose string

fun x_path :: "x_op \<Rightarrow> string" where
  "x_path (XMkdirAll p) = p"
| "x_path (XCreate p m) = p"
| "x_path (XCopy p c) = p"
| "x_path (XClose p) = p"

text \<open>For an absolute base \<^verbatim>\<open>filepath.Rel\<close> does not fail on a target below a joined path.\<close>

definition isWithinDir :: "string \<Rightarrow> string \<Rightarrow> bool" where
  "isWithinDir base targ =
     (let rel = path_Rel base targ
      in if rel = ''..'' then False else \<not> HasPrefix rel ''../'')"

definition entry_ops :: "string \<Rightarrow> tar_header \<Rightarrow> bytes \<Rightarrow> (string \<times> x_op) list" where
  "entry_ops path h content =
     (case th_Typeflag h of
        TypeDir \<Rightarrow> [(''failed to create directory'', XMkdirAll path)]
      | TypeReg \<Rightarrow>
          [(''failed to create parent dir'', XMkdirAll (path_Dir path)),
           (''failed to create file'', XCreate path (th_Mode h)),
           (''failed to write file'', XCopy path content),
           (''failed to close file'', XClose path)]
      | TypeOther \<Rightarrow> [])"

fun extractTarStream :: "(x_op \<Rightarrow> string option) \<Rightarrow> string \<Rightarrow> tar_event list \<Rightarrow> string option \<times> x_op list" where
  "extractTarStream fault dest [] = (None, [])"
| "extractTarStream fault dest (TarError e # rest) = (Some (''failed to read tar archive: '' @ e), [])"
| "extractTarStream fault dest (TarEntry h content # rest) =
     (let name = Clean (th_Name h); path = path_Join [dest, name]
      in if name = ''.'' then extractTarStream fault dest rest
         else if IsAbs name \<or> HasPrefix name ''..'' then (Some (''invalid archive path: '' @ th_Name h), [])
         else if \<not> isWithinDir dest path then (Some (''invalid archive path: '' @ th_Name h), [])
         else case run_ops fault (entry_ops path h content) of
           (Some e, done) \<Rightarrow> (Some e, done)
         | (None, done) \<Rightarrow> (let (e, done') = extractTarStream fault dest rest in (e, done @ done')))"

definition isZstdArchive :: "bytes \<Rightarrow> bool" where
  "isZstdArchive data =
     (if length data < 4 then False
      else data ! 0 = CHR 0x28 \<and> data ! 1 = CHR 0xB5 \<and> data ! 2 = CHR 0x2F \<and> data ! 3 = CHR 0xFD)"

text \<open>
  The tar reader and the decompressor process, which is looked up, started and waited for;
  \<open>zs_wait\<close> is the error of \<^verbatim>\<open>Wait\<close>.
\<close>

record codec =
  cd_read :: "bytes \<Rightarrow> tar_event list"
  cd_write :: "tar_event list \<Rightarrow> bytes"
  cd_sha256 :: "bytes \<Rightarrow> string"
  cd_zstd :: bool
  cd_start :: "string option"
  cd_unzstd :: "bytes \<Rightarrow> bytes"
  cd_wait :: "string option"

definition extractSourceArchive ::
    "codec \<Rightarrow> (x_op \<Rightarrow> string option) \<Rightarrow> string \<Rightarrow> bytes \<Rightarrow> string option \<times> x_op list" where
  "extractSourceArchive cd fault dest data =
     (if length data = 0 then (None, [])
      else if isZstdArchive data
      then (if \<not> cd_zstd cd then (Some ''zstd not found for compressed archive'', [])
            else case cd_start cd of
              Some e \<Rightarrow> (Some e, [])
            | None \<Rightarrow>
                (case extractTarStream fault dest (cd_read cd (cd_unzstd cd data)) of
                   (Some e, done) \<Rightarrow> (Some e, done)
                 | (None, done) \<Rightarrow>
                     (map_option (\<lambda>e. ''zstd decompression failed: '' @ e) (cd_wait cd), done)))
      else extractTarStream fault dest (cd_read cd data))"

subsection \<open>Packing\<close>

datatype fnode =
    FFile "string + int \<times> bytes"
  | FDir "string + (string \<times> fnode) list"
  | FSpecial "string + bytes"

fun is_dir :: "fnode \<Rightarrow> bool" where
  "is_dir (FDir c) = True"
| "is_dir n = False"

definition flutter_shouldExclude :: "string \<Rightarrow> bool \<Rightarrow> bool" where
  "flutter_shouldExclude relPath isDir =
     (let relPath = trimPrefix relPath ''./''
      in if relPath = '''' then False
         else if hd (Split slash relPath) \<in> set [''build'', ''.dart_tool'', ''.git''] then True
         else if HasPrefix relPath ''android/.gradle'' then True
         else if HasPrefix relPath ''android/app/build/'' then True
         else if HasPrefix relPath ''ios/Pods'' then True
         else if \<not> isDir \<and> HasSuffix relPath ''.DS_Store'' then True
         else False)"

definition unity_shouldExclude :: "string \<Rightarrow> bool \<Rightarrow> bool" where
  "unity_shouldExclude relPath isDir =
     (let relPath = trimPrefix relPath ''./''
      in if relPath = '''' then False
         else if list_ex (\<lambda>part. part \<in> set [''Library'', ''Temp'', ''Build'', ''Logs'', ''.git'', ''obj''])
                   (Split slash relPath) then True
         else if isDir then False
         else if HasSuffix relPath ''.csproj'' then True
         else if HasSuffix relPath ''.sln'' then True
         else if HasSuffix relPath ''.unitypackage'' then True
         else False)"

text \<open>
  A node is a regular file (with its mode and contents, or the error of reading it), a directory
  (with its listing, or the error of listing it), or anything else, such as a link, with what
  opening it would give. The walk below the root: \<open>rel\<close> is the slash-separated path of the node. An excluded directory is
  skipped with its contents; only regular files are packed.
\<close>

fun archive_node :: "(string \<Rightarrow> bool \<Rightarrow> bool) \<Rightarrow> string \<Rightarrow> fnode \<Rightarrow> (string, tar_event list) outcome"
  and archive_children ::
    "(string \<Rightarrow> bool \<Rightarrow> bool) \<Rightarrow> string \<Rightarrow> (string \<times> fnode) list \<Rightarrow> (string, tar_event list) outcome" where
  "archive_node exclude rel (FFile f) =
     (if exclude rel False then Ok []
      else case f of
        Inl e \<Rightarrow> Err e
      | Inr (mode, content) \<Rightarrow> Ok [TarEntry \<lparr>th_Name = rel, th_Typeflag = TypeReg, th_Mode = mode\<rparr> content])"
| "archive_node exclude rel (FDir (Inl e)) = (if exclude rel True then Ok [] else Err e)"
| "archive_node exclude rel (FDir (Inr cs)) =
     (if exclude rel True then Ok [] else archive_children exclude (rel @ [slash]) cs)"
| "archive_node exclude rel (FSpecial f) = Ok []"
| "archive_children exclude pre [] = Ok []"
| "archive_children exclude pre ((name, n) # rest) =
     outcome_bind (archive_node exclude (pre @ name) n) (\<lambda>es.
       outcome_bind (archive_children exclude pre rest) (\<lambda>es'. Ok (es @ es')))"

text \<open>
  \<open>project\<close> is what the path names: the error of resolving or finding it, or the node. The second
  component of the result is the hash that becomes the source hash of the request.
  A project root that is itself a symbolic link, which the walk does not follow, is not represented.
\<close>

definition createSourceArchive ::
    "codec \<Rightarrow> (string \<Rightarrow> bool \<Rightarrow> bool) \<Rightarrow> string + fnode \<Rightarrow> (string, bytes \<times> string) outcome" where
  "createSourceArchive cd exclude project =
     (case project of
        Inl e \<Rightarrow> Err e
      | Inr (FDir listing) \<Rightarrow>
          (case (case listing of Inl e \<Rightarrow> Err e | Inr cs \<Rightarrow> archive_children exclude '''' cs) of
             Err e \<Rightarrow> Err (''failed to archive project: '' @ e)
           | Panic \<Rightarrow> Panic
           | Ok entries \<Rightarrow>
               (let data = cd_write cd entries
                in if length data > MaxSourceArchiveBytes then Err ''source archive too large''
                   else Ok (data, cd_sha256 cd data)))
      | Inr _ \<Rightarrow> Err ''project must be a directory'')"

text \<open>The two packages have the same function with their own exclusions.\<close>

definition flutter_createSourceArchive :: "codec \<Rightarrow> string + fnode \<Rightarrow> (string, bytes \<times> string) outcome" where
  "flutter_createSourceArchive cd project = createSourceArchive cd flutter_shouldExclude project"

definition unity_createSourceArchive :: "codec \<Rightarrow> string + fnode \<Rightarrow> (string, bytes \<times> string) outcome" where
  "unity_createSourceArchive cd project = createSourceArchive cd unity_shouldExclude project"

subsection \<open>Nothing is unpacked outside the destination\<close>

text \<open>The names that the extraction accepts: their cleaned form is relative and does not start with two dots.\<close>

definition archive_name :: "string \<Rightarrow> bool" where
  "archive_name n \<longleftrightarrow> \<not> IsAbs n \<and> \<not> HasPrefix (Clean n) ''..''"

lemma archive_name_components:
  assumes "archive_name n"
  shows "list_all path_name (components n)"
proof -
  have rel: "\<not> IsAbs n" using assms by (simp add: archive_name_def)
  obtain k ns where c: "components n = replicate k ''..'' @ ns" "list_all path_name ns"
    using components_clean[of n] by (auto simp: clean_components_def)
  have "k = 0"
  proof (rule ccontr)
    assume "k \<noteq> 0"
    then obtain r where "components n = ''..'' # r" using c(1) by (cases k) auto
    then have "Clean n = Join ''/'' (''..'' # r)" using rel by (simp add: Clean_def render_path_def)
    then show False using assms HasPrefix_Join_dots[of r] by (simp add: archive_name_def)
  qed
  then show ?thesis using c by simp
qed

lemma archive_path:
  assumes "dest \<noteq> ''''" and "archive_name n"
  shows "components (path_Join [dest, Clean n]) = components dest @ components n"
    and "IsAbs (path_Join [dest, Clean n]) = IsAbs dest"
proof -
  have names: "list_all path_name (components n)" using assms(2) by (rule archive_name_components)
  then have nd: "''..'' \<notin> set (components n)" by (auto simp: list_all_iff path_name_def)
  have rel: "\<not> IsAbs n" using assms(2) by (simp add: archive_name_def)
  have cl: "clean_components False (components n)" using components_clean[of n] rel by simp
  have "path_Join [dest, Clean n] = Clean (dest @ slash # render_path False (components n))"
    using assms(1) rel by (simp add: path_Join.simps Clean_def[of n])
  then show "components (path_Join [dest, Clean n]) = components dest @ components n"
    and "IsAbs (path_Join [dest, Clean n]) = IsAbs dest"
    using components_Join_names[OF assms(1) cl nd] by simp_all
qed

lemma Clean_dot_iff: "\<not> IsAbs n \<Longrightarrow> Clean n = ''.'' \<longleftrightarrow> components n = []"
proof
  assume "\<not> IsAbs n" "Clean n = ''.''"
  then have "components (Clean n) = components ''.''" by simp
  then show "components n = []" by (simp add: components_def[of "''.''"])
qed (simp add: Clean_def render_path_def)

lemma archive_path_below:
  assumes "dest \<noteq> ''''" and "archive_name n" and "Clean n \<noteq> ''.''"
  shows "below dest (path_Join [dest, Clean n])" and "below dest (path_Dir (path_Join [dest, Clean n]))"
proof -
  have rel: "\<not> IsAbs n" using assms(2) by (simp add: archive_name_def)
  show b: "below dest (path_Join [dest, Clean n])"
    using archive_path[OF assms(1,2)] archive_name_components[OF assms(2)] by (simp add: below_def)
  have "components (path_Join [dest, Clean n]) \<noteq> components dest"
    using archive_path(1)[OF assms(1,2)] Clean_dot_iff[OF rel] assms(3) by simp
  then show "below dest (path_Dir (path_Join [dest, Clean n]))"
    using below_Dir[OF b] assms(1) by simp
qed

lemma isWithinDir_below:
  assumes "IsAbs dest" and "archive_name n" and "dest \<noteq> ''''"
  shows "isWithinDir dest (path_Join [dest, Clean n])"
proof -
  let ?p = "path_Join [dest, Clean n]"
  have c: "components ?p = components dest @ components n" and a: "IsAbs ?p"
    using archive_path[OF assms(3,2)] assms(1) by simp_all
  have rel: "path_Rel dest ?p = (if components n = [] then ''.'' else Join ''/'' (components n))"
    using c Clean_eq_iff[OF assms(1) a] relComponents_prefix by (simp add: path_Rel_def)
  have "\<not> HasPrefix (Clean n) ''..''" using assms(2) by (simp add: archive_name_def)
  moreover have "Clean n = Join ''/'' (components n)" if "components n \<noteq> []"
    using that assms(2) by (simp add: Clean_def render_path_def archive_name_def)
  ultimately have "\<not> HasPrefix (path_Rel dest ?p) ''..''"
    using rel by (auto simp: HasPrefix_def)
  then show ?thesis by (auto simp: isWithinDir_def HasPrefix_iff Let_def)
qed

lemma entry_ops_below:
  assumes "below dest path" and "below dest (path_Dir path)" and "a \<in> snd ` set (entry_ops path h c)"
  shows "below dest (x_path a)"
  using assms by (auto simp: entry_ops_def split: tar_type.splits)

lemma extractTarStream_entry:
  "extractTarStream fault dest (TarEntry h content # rest) =
     (if Clean (th_Name h) = ''.'' then extractTarStream fault dest rest
      else if \<not> (archive_name (th_Name h) \<and> isWithinDir dest (path_Join [dest, Clean (th_Name h)]))
      then (Some (''invalid archive path: '' @ th_Name h), [])
      else case run_ops fault (entry_ops (path_Join [dest, Clean (th_Name h)]) h content) of
        (Some e, done) \<Rightarrow> (Some e, done)
      | (None, done) \<Rightarrow>
          (fst (extractTarStream fault dest rest), done @ snd (extractTarStream fault dest rest)))"
  by (auto simp: archive_name_def Let_def split: prod.split option.split)

lemma extractTarStream_below:
  assumes "dest \<noteq> ''''"
  shows "a \<in> set (snd (extractTarStream fault dest evs)) \<Longrightarrow> below dest (x_path a)"
proof (induction evs)
  case (Cons ev evs)
  show ?case
  proof (cases ev)
    case (TarEntry h content)
    let ?p = "path_Join [dest, Clean (th_Name h)]"
    obtain e ds where run: "run_ops fault (entry_ops ?p h content) = (e, ds)" by fastforce
    have "a \<in> snd ` set (entry_ops ?p h content)" if "a \<in> set ds"
      using run_ops_set[of a fault "entry_ops ?p h content"] run that by simp
    then have "below dest (x_path a)"
      if "a \<in> set ds" "Clean (th_Name h) \<noteq> ''.''" "archive_name (th_Name h)"
      using entry_ops_below[OF archive_path_below[OF assms that(3,2)]] that(1) by blast
    then show ?thesis
      using Cons TarEntry run by (auto simp: extractTarStream_entry simp del: extractTarStream.simps
          split: if_splits option.splits)
  qed (use Cons in simp)
qed simp

lemma extractSourceArchive_below:
  assumes "dest \<noteq> ''''" and "a \<in> set (snd (extractSourceArchive cd fault dest data))"
  shows "below dest (x_path a)"
proof -
  obtain evs where "a \<in> set (snd (extractTarStream fault dest evs))"
    using assms(2) by (auto simp: extractSourceArchive_def split: if_splits option.splits prod.splits) (metis snd_conv)+
  then show ?thesis by (rule extractTarStream_below[OF assms(1)])
qed

text \<open>
  C7. Whatever an archive contains, wherever reading it or writing files fails, and whether or not it
  is compressed: no file or directory is touched outside the destination. Every operation of the
  extraction is on the destination or below it, component by component.
\<close>
theorem extract_confined:
  assumes "dest \<noteq> ''''" and "a \<in> set (snd (extractSourceArchive cd fault dest data))"
  shows "below dest (x_path a)"
  using assms by (rule extractSourceArchive_below)

subsection \<open>Packing and unpacking\<close>

text \<open>The regular files of a project with their paths, as lists of names, and the paths that are packed.\<close>

fun node_files :: "fnode \<Rightarrow> (string list \<times> int \<times> bytes) list"
  and children_files :: "(string \<times> fnode) list \<Rightarrow> (string list \<times> int \<times> bytes) list" where
  "node_files (FFile (Inr f)) = [([], f)]"
| "node_files (FDir (Inr cs)) = children_files cs"
| "node_files n = []"
| "children_files [] = []"
| "children_files ((name, n) # rest) = map (\<lambda>(ks, f). (name # ks, f)) (node_files n) @ children_files rest"

fun visible :: "(string \<Rightarrow> bool \<Rightarrow> bool) \<Rightarrow> string \<Rightarrow> string list \<Rightarrow> bool" where
  "visible exclude rel [] \<longleftrightarrow> \<not> exclude rel False"
| "visible exclude rel (k # ks) \<longleftrightarrow> \<not> exclude rel True \<and> visible exclude (rel @ slash # k) ks"

definition sub_path :: "string \<Rightarrow> string list \<Rightarrow> string" where
  "sub_path rel ks = rel @ concat (map (\<lambda>k. slash # k) ks)"

definition file_entry :: "string \<times> int \<times> bytes \<Rightarrow> tar_event" where
  "file_entry = (\<lambda>(rel, mode, content). TarEntry \<lparr>th_Name = rel, th_Typeflag = TypeReg, th_Mode = mode\<rparr> content)"

lemma sub_path_simps [simp]:
  "sub_path rel [] = rel" "sub_path (rel @ slash # k) ks = sub_path rel (k # ks)"
  by (simp_all add: sub_path_def)

lemma children_files_nonempty: "(ks, f) \<in> set (children_files cs) \<Longrightarrow> ks \<noteq> []"
  by (induction cs) auto

lemma archive_files:
  "archive_node exclude rel n = Ok es \<Longrightarrow>
     es = map (\<lambda>(ks, f). file_entry (sub_path rel ks, f)) (filter (\<lambda>(ks, f). visible exclude rel ks) (node_files n))"
  "archive_children exclude pre cs = Ok es \<Longrightarrow>
     es = map (\<lambda>(ks, f). file_entry (sub_path (pre @ hd ks) (tl ks), f))
            (filter (\<lambda>(ks, f). visible exclude (pre @ hd ks) (tl ks)) (children_files cs))"
proof (induction exclude rel n and exclude pre cs arbitrary: es and es rule: archive_node_archive_children.induct)
  case (1 exclude rel f)
  then show ?case by (cases f) (auto simp: file_entry_def split: if_splits)
next
  case (3 exclude rel cs)
  have eq: "visible exclude rel ks = (\<not> exclude rel True \<and> visible exclude ((rel @ [slash]) @ hd ks) (tl ks))"
    "sub_path ((rel @ [slash]) @ hd ks) (tl ks) = sub_path rel ks" if "(ks, f) \<in> set (children_files cs)" for ks f
    using children_files_nonempty[OF that] by (cases ks; simp)+
  show ?case
  proof (cases "exclude rel True")
    case True
    then have "filter (\<lambda>(ks, f). visible exclude rel ks) (children_files cs) = []"
      using eq by (auto simp: filter_empty_conv)
    then show ?thesis using 3 True by simp
  next
    case False
    then have "es = map (\<lambda>(ks, f). file_entry (sub_path ((rel @ [slash]) @ hd ks) (tl ks), f))
        (filter (\<lambda>(ks, f). visible exclude ((rel @ [slash]) @ hd ks) (tl ks)) (children_files cs))"
      using 3 by simp
    also have "\<dots> = map (\<lambda>(ks, f). file_entry (sub_path rel ks, f))
        (filter (\<lambda>(ks, f). visible exclude rel ks) (children_files cs))"
      using eq False by (intro map_cong filter_cong) auto
    finally show ?thesis by simp
  qed
next
  case (6 exclude pre name n rest)
  then show ?case by (auto simp: outcome_bind_eq_Ok filter_map comp_def case_prod_unfold)
qed (auto split: if_splits)

text \<open>A directory listing: every entry has a proper name of its own, at every level.\<close>

fun proper_node :: "fnode \<Rightarrow> bool"
  and proper_children :: "(string \<times> fnode) list \<Rightarrow> bool" where
  "proper_node (FDir (Inr cs)) \<longleftrightarrow> distinct (map fst cs) \<and> proper_children cs"
| "proper_node n \<longleftrightarrow> True"
| "proper_children [] \<longleftrightarrow> True"
| "proper_children ((name, n) # rest) \<longleftrightarrow> path_name name \<and> proper_node n \<and> proper_children rest"

lemma proper_files_names:
  "proper_node n \<Longrightarrow> (ks, f) \<in> set (node_files n) \<Longrightarrow> list_all path_name ks"
  "proper_children cs \<Longrightarrow> (ks, f) \<in> set (children_files cs) \<Longrightarrow> list_all path_name ks"
  by (induction n and cs arbitrary: ks and ks rule: node_files_children_files.induct) fastforce+

lemma children_files_hd: "(ks, f) \<in> set (children_files cs) \<Longrightarrow> ks \<noteq> [] \<and> hd ks \<in> fst ` set cs"
  by (induction cs) auto

lemma proper_files_distinct:
  "proper_node n \<Longrightarrow> distinct (map fst (node_files n))"
  "proper_children cs \<Longrightarrow> distinct (map fst cs) \<Longrightarrow> distinct (map fst (children_files cs))"
proof (induction n and cs rule: node_files_children_files.induct)
  case (5 name n rest)
  have "distinct (map fst (map (\<lambda>(ks, f). (name # ks, f)) (node_files n)))"
    using 5 by (simp add: comp_def case_prod_unfold distinct_map inj_on_def)
  then show ?case using 5 children_files_hd by (force simp: comp_def case_prod_unfold)
qed auto

text \<open>The files that a sequence of operations leaves in an empty directory.\<close>

fun apply_op :: "(string \<rightharpoonup> bytes) \<Rightarrow> x_op \<Rightarrow> (string \<rightharpoonup> bytes)" where
  "apply_op m (XCreate p mode) = m(p \<mapsto> [])"
| "apply_op m (XCopy p c) = m(p := map_option (\<lambda>old. old @ c) (m p))"
| "apply_op m _ = m"

definition files_after :: "x_op list \<Rightarrow> (string \<rightharpoonup> bytes)" where
  "files_after ops = foldl apply_op Map.empty ops"

lemma sub_path_Join: "ks \<noteq> [] \<Longrightarrow> sub_path (hd ks) (tl ks) = Join ''/'' ks"
proof (induction ks rule: induct_list012)
  case (3 x y zs)
  then show ?case by (simp add: sub_path_def)
qed simp_all

lemma names_path:
  assumes "list_all path_name ks" and "ks \<noteq> []"
  shows "components (Join ''/'' ks) = ks" and "\<not> IsAbs (Join ''/'' ks)" and "Clean (Join ''/'' ks) = Join ''/'' ks"
proof -
  have cl: "clean_components False ks" using assms(1) by (auto simp: clean_components_def intro: exI[of _ 0])
  have r: "render_path False ks = Join ''/'' ks" using assms(2) by (simp add: render_path_def)
  show c: "components (Join ''/'' ks) = ks" and a: "\<not> IsAbs (Join ''/'' ks)"
    using components_render[OF cl] IsAbs_render[OF cl] r by simp_all
  show "Clean (Join ''/'' ks) = Join ''/'' ks"
    using c a r by (simp add: Clean_def)
qed

lemma names_archive_name:
  assumes "list_all path_name ks" and "ks \<noteq> []" and "\<not> HasPrefix (hd ks) ''..''"
  shows "archive_name (Join ''/'' ks)" and "Join ''/'' ks \<noteq> ''.''"
proof -
  obtain k r where ks: "ks = k # r" using assms(2) by (cases ks) auto
  have k: "k \<noteq> ''''" "slash \<notin> set k" using assms(1) ks by (auto simp: path_name_def)
  have "\<not> HasPrefix (Join ''/'' (k # r)) ''..''"
  proof
    assume h: "HasPrefix (Join ''/'' (k # r)) ''..''"
    obtain x k' where k': "k = x # k'" using k(1) by (cases k) auto
    show False using h assms(3) ks k k' by (cases r; cases k') (auto simp: HasPrefix_def)
  qed
  then show "archive_name (Join ''/'' ks)" using names_path[OF assms(1,2)] ks by (simp add: archive_name_def)
  show "Join ''/'' ks \<noteq> ''.''"
  proof
    assume "Join ''/'' ks = ''.''"
    then have "components (Join ''/'' ks) = components ''.''" by simp
    then show False using names_path(1)[OF assms(1,2)] assms(2) by (simp add: components_def)
  qed
qed

lemma extract_file_entries:
  assumes "IsAbs dest"
  shows "(\<And>rel f. (rel, f) \<in> set fs \<Longrightarrow> archive_name rel \<and> Clean rel = rel \<and> rel \<noteq> ''.'') \<Longrightarrow>
    extractTarStream (\<lambda>_. None) dest (map file_entry fs) =
      (None, concat (map (\<lambda>(rel, mode, c). [XMkdirAll (path_Dir (path_Join [dest, rel])),
          XCreate (path_Join [dest, rel]) mode, XCopy (path_Join [dest, rel]) c, XClose (path_Join [dest, rel])]) fs))"
proof (induction fs)
  case (Cons x fs)
  obtain rel mode c where x: "x = (rel, mode, c)" by (cases x)
  have ok: "archive_name rel" "Clean rel = rel" "rel \<noteq> ''.''" using Cons.prems x by auto
  have "dest \<noteq> ''''" using assms by (auto simp: IsAbs_def HasPrefix_def)
  then have "isWithinDir dest (path_Join [dest, rel])" using isWithinDir_below[OF assms ok(1)] ok(2) by simp
  then have "extractTarStream (\<lambda>_. None) dest (file_entry x # evs) =
      (fst (extractTarStream (\<lambda>_. None) dest evs),
       [XMkdirAll (path_Dir (path_Join [dest, rel])), XCreate (path_Join [dest, rel]) mode,
        XCopy (path_Join [dest, rel]) c, XClose (path_Join [dest, rel])] @ snd (extractTarStream (\<lambda>_. None) dest evs))" for evs
    using ok by (simp add: x file_entry_def extractTarStream_entry entry_ops_def run_ops_faultless
        del: extractTarStream.simps(3))
  moreover have "extractTarStream (\<lambda>_. None) dest (map file_entry fs) = (None, concat (map (\<lambda>(rel, mode, c).
      [XMkdirAll (path_Dir (path_Join [dest, rel])), XCreate (path_Join [dest, rel]) mode,
       XCopy (path_Join [dest, rel]) c, XClose (path_Join [dest, rel])]) fs))"
    by (rule Cons.IH) (rule Cons.prems, erule list.set_intros(2))
  ultimately show ?case by (simp add: x)
qed simp

lemma files_after_entries:
  "foldl apply_op m (concat (map (\<lambda>(rel, mode, c). [XMkdirAll (path_Dir (P rel)), XCreate (P rel) mode,
      XCopy (P rel) c, XClose (P rel)]) fs)) = m ++ map_of (rev (map (\<lambda>(rel, mode, c). (P rel, c)) fs))"
proof (induction fs arbitrary: m)
  case (Cons x fs)
  obtain rel mode c where x: "x = (rel, mode, c)" by (cases x)
  show ?case by (simp add: x Cons) (rule ext, simp add: map_add_def split: option.split)
qed simp

lemma archive_files_round_trip:
  assumes "archive_children exclude '''' cs = Ok entries"
    and "IsAbs dest" and "distinct (map fst cs)" and "proper_children cs"
    and "\<And>name n. (name, n) \<in> set cs \<Longrightarrow> \<not> HasPrefix name ''..''"
  shows "fst (extractTarStream (\<lambda>_. None) dest entries) = None \<and>
    (files_after (snd (extractTarStream (\<lambda>_. None) dest entries)) p = Some content \<longleftrightarrow>
       (\<exists>ks mode. (ks, mode, content) \<in> set (children_files cs) \<and> visible exclude (hd ks) (tl ks) \<and>
          p = path_Join [dest, Join ''/'' ks]))"
proof -
  let ?vis = "filter (\<lambda>(ks, f). visible exclude (hd ks) (tl ks)) (children_files cs)"
  let ?fs = "map (\<lambda>(ks, f). (Join ''/'' ks, f)) ?vis"
  have good: "list_all path_name ks \<and> ks \<noteq> [] \<and> \<not> HasPrefix (hd ks) ''..''"
    if "(ks, f) \<in> set (children_files cs)" for ks f
    using proper_files_names(2)[OF assms(4) that] children_files_hd[OF that] assms(5) by force
  have "entries = map (\<lambda>(ks, f). file_entry (sub_path (hd ks) (tl ks), f)) ?vis"
    using archive_files(2)[OF assms(1)] by simp
  also have "\<dots> = map file_entry ?fs"
    using good by (auto simp: sub_path_Join)
  finally have e: "entries = map file_entry ?fs" .
  have ok: "archive_name rel \<and> Clean rel = rel \<and> rel \<noteq> ''.''" if m: "(rel, f) \<in> set ?fs" for rel f
  proof -
    obtain ks where ks: "rel = Join ''/'' ks" "(ks, f) \<in> set (children_files cs)" using m by auto
    then show ?thesis using good[OF ks(2)] names_archive_name[of ks] names_path(3)[of ks] by simp
  qed
  note x = extract_file_entries[OF assms(2) ok, of ?fs, folded e]
  let ?tab = "map (\<lambda>(ks, mode, c). (path_Join [dest, Join ''/'' ks], c)) ?vis"
  have "dest \<noteq> ''''" using assms(2) by (auto simp: IsAbs_def HasPrefix_def)
  then have cp: "components (path_Join [dest, Join ''/'' ks]) = components dest @ ks"
    if "(ks, f) \<in> set (children_files cs)" for ks f
    using archive_path(1)[of dest "Join ''/'' ks"] good[OF that] names_archive_name[of ks] names_path[of ks] by simp
  have "distinct (map fst ?vis)"
    using proper_files_distinct(2)[OF assms(4,3)] by (rule distinct_map_filter)
  moreover have "inj_on (\<lambda>ks. path_Join [dest, Join ''/'' ks]) (set (map fst ?vis))"
  proof (rule inj_onI)
    fix ks ks' assume m: "ks \<in> set (map fst ?vis)" "ks' \<in> set (map fst ?vis)"
      and e: "path_Join [dest, Join ''/'' ks] = path_Join [dest, Join ''/'' ks']"
    have c: "components (path_Join [dest, Join ''/'' k]) = components dest @ k" if k: "k \<in> set (map fst ?vis)" for k
    proof -
      obtain x where "x \<in> set ?vis" "k = fst x" using k unfolding set_map by (elim imageE)
      then show ?thesis using cp[of k "snd x"] by simp
    qed
    have "components dest @ ks = components dest @ ks'"
      unfolding c[OF m(1), symmetric] c[OF m(2), symmetric] by (rule arg_cong[OF e])
    then show "ks = ks'" by (rule same_append_eq[THEN iffD1])
  qed
  ultimately have "distinct (map (\<lambda>ks. path_Join [dest, Join ''/'' ks]) (map fst ?vis))"
    by (simp only: distinct_map)
  then have "distinct (map fst ?tab)" by (simp add: comp_def case_prod_unfold)
  then have "map_of (rev ?tab) p = Some content \<longleftrightarrow> (p, content) \<in> set ?tab"
    by (subst map_of_eq_Some_iff) (simp_all add: rev_map[symmetric])
  moreover have "files_after (snd (extractTarStream (\<lambda>_. None) dest entries)) = map_of (rev ?tab)"
    using x files_after_entries[of Map.empty "\<lambda>rel. path_Join [dest, rel]" ?fs]
    by (simp add: files_after_def comp_def case_prod_unfold)
  moreover have "(p, content) \<in> set ?tab \<longleftrightarrow> (\<exists>ks mode. (ks, mode, content) \<in> set (children_files cs) \<and>
      visible exclude (hd ks) (tl ks) \<and> p = path_Join [dest, Join ''/'' ks])"
    by force
  ultimately show ?thesis using x by simp
qed

text \<open>
  C8. Packing a project on the client and unpacking it on the worker gives, below the destination,
  exactly the regular files of the project that are not excluded and lie in no excluded directory,
  with their contents, and nothing else. The project must have no entry at its top whose name
  begins with two dots: the extraction takes such a name for a parent reference and refuses the
  whole archive.
\<close>
theorem archive_round_trip:
  assumes "archive_children exclude '''' cs = Ok entries"
    and "IsAbs dest" and "distinct (map fst cs)" and "proper_children cs"
    and "\<And>name n. (name, n) \<in> set cs \<Longrightarrow> \<not> HasPrefix name ''..''"
  shows "fst (extractTarStream (\<lambda>_. None) dest entries) = None \<and>
    (files_after (snd (extractTarStream (\<lambda>_. None) dest entries)) p = Some content \<longleftrightarrow>
       (\<exists>ks mode. (ks, mode, content) \<in> set (children_files cs) \<and> visible exclude (hd ks) (tl ks) \<and>
          p = path_Join [dest, Join ''/'' ks]))"
  using assms by (rule archive_files_round_trip)

definition sampleProject :: "(string \<times> fnode) list" where
  "sampleProject = [(''.git'', FDir (Inr [(''HEAD'', FFile (Inr (420, ''ref'')))])),
     (''lib'', FDir (Inr [(''main.dart'', FFile (Inr (420, ''void main() {}'')))])),
     (''link'', FSpecial (Inl ''broken'')), (''pubspec.yaml'', FFile (Inr (420, ''name: app'')))]"

theorem archive_round_trip_witness:
  "\<exists>entries. archive_children flutter_shouldExclude '''' sampleProject = Ok entries \<and>
     files_after (snd (extractTarStream (\<lambda>_. None) ''/tmp/w'' entries)) ''/tmp/w/lib/main.dart'' = Some ''void main() {}''"
proof -
  define entries where "entries =
    [TarEntry \<lparr>th_Name = ''lib/main.dart'', th_Typeflag = TypeReg, th_Mode = 420\<rparr> ''void main() {}'',
     TarEntry \<lparr>th_Name = ''pubspec.yaml'', th_Typeflag = TypeReg, th_Mode = 420\<rparr> ''name: app'']"
  have a: "archive_children flutter_shouldExclude '''' sampleProject = Ok entries"
    unfolding entries_def by code_simp
  have p: "proper_children sampleProject" "distinct (map fst sampleProject)" "IsAbs ''/tmp/w''"
    by (simp_all add: sampleProject_def path_name_def IsAbs_def HasPrefix_def)
  have j: "path_Join [''/tmp/w'', Join ''/'' [''lib'', ''main.dart'']] = ''/tmp/w/lib/main.dart''" by code_simp
  have v: "visible flutter_shouldExclude ''lib'' [''main.dart'']" by code_simp
  have "([''lib'', ''main.dart''], 420, ''void main() {}'') \<in> set (children_files sampleProject)"
    by (simp add: sampleProject_def)
  moreover have "\<And>name n. (name, n) \<in> set sampleProject \<Longrightarrow> \<not> HasPrefix name ''..''"
    by (auto simp: sampleProject_def HasPrefix_def)
  ultimately show ?thesis
    using archive_round_trip[OF a p(3,2,1), of "''/tmp/w/lib/main.dart''" "''void main() {}''"] a j v
    by (metis list.sel(1,3))
qed

theorem extract_confined_witness:
  "list_all (\<lambda>a. below ''/tmp/w'' (x_path a))
     (snd (extractSourceArchive
        \<lparr>cd_read = (\<lambda>_. [TarEntry \<lparr>th_Name = ''a/../b'', th_Typeflag = TypeReg, th_Mode = 420\<rparr> ''x'',
                       TarEntry \<lparr>th_Name = ''../../etc/passwd'', th_Typeflag = TypeReg, th_Mode = 420\<rparr> ''y'']),
         cd_write = (\<lambda>_. []), cd_sha256 = (\<lambda>_. []), cd_zstd = False, cd_start = None, cd_unzstd = id, cd_wait = None\<rparr>
        (\<lambda>_. None) ''/tmp/w'' ''tar''))"
  unfolding list_all_iff by (intro ballI extract_confined) simp_all

text \<open>A project with a top-level entry whose name begins with two dots cannot be unpacked.\<close>
lemma dotted_name_refused:
  "fst (extractTarStream (\<lambda>_. None) ''/tmp/w''
     [TarEntry \<lparr>th_Name = ''..notes'', th_Typeflag = TypeReg, th_Mode = 420\<rparr> ''x'']) =
   Some ''invalid archive path: ..notes''"
  by code_simp

end
