(* ===== verification/App_Executors.thy ===== *)
theory App_Executors
  imports Archive Cache_Key
begin

text \<open>
  The worker's executors for application builds: Flutter (\<^verbatim>\<open>internal/worker/executor/flutter.go\<close>) and
  Unity (\<^verbatim>\<open>internal/worker/executor/unity.go\<close>). The \<^verbatim>\<open>flutter\<close> and Unity processes are arguments that
  see their command line and the unpacked files; they give what they printed, in the pieces in
  which it was written, and the file tree of the working directory afterwards. Stopping the Gradle
  daemon is best effort and has no influence on a result.
\<close>

declare path_Join.simps [simp del]

subsection \<open>Bounded output\<close>

definition maxFlutterLogBytes :: int where "maxFlutterLogBytes = 256 * 1024"
definition maxUnityLogBytes :: int where "maxUnityLogBytes = 256 * 1024"

record limitedBuffer =
  lb_max :: int
  lb_buf :: bytes
  lb_truncated :: bool

definition newLimitedBuffer :: "int \<Rightarrow> limitedBuffer" where
  "newLimitedBuffer mx = \<lparr>lb_max = mx, lb_buf = [], lb_truncated = False\<rparr>"

text \<open>The number of bytes reported as written is always the length of the piece.\<close>

definition limitedBuffer_Write :: "bytes \<Rightarrow> limitedBuffer \<Rightarrow> limitedBuffer" where
  "limitedBuffer_Write p b =
     (if lb_max b \<le> 0 then b\<lparr>lb_truncated := True\<rparr>
      else let remaining = lb_max b - int (length (lb_buf b))
           in if remaining \<le> 0 then b\<lparr>lb_truncated := True\<rparr>
              else if int (length p) > remaining
              then b\<lparr>lb_buf := lb_buf b @ take (nat remaining) p, lb_truncated := True\<rparr>
              else b\<lparr>lb_buf := lb_buf b @ p\<rparr>)"

definition limitedBuffer_String :: "limitedBuffer \<Rightarrow> string" where
  "limitedBuffer_String b =
     (if \<not> lb_truncated b then lb_buf b else lb_buf b @ [CHR 0x0A] @ ''[output truncated]'')"

text \<open>What is read after a process has written its pieces.\<close>

definition limited :: "int \<Rightarrow> bytes list \<Rightarrow> string" where
  "limited mx ps = limitedBuffer_String (fold limitedBuffer_Write ps (newLimitedBuffer mx))"

subsection \<open>Flutter command lines\<close>

datatype flutterOutputType = flutterOutputAPK | flutterOutputAppBundle

fun output_string :: "flutterOutputType \<Rightarrow> string" where
  "output_string flutterOutputAPK = ''apk''"
| "output_string flutterOutputAppBundle = ''appbundle''"

text \<open>\<^verbatim>\<open>strings.FieldsFunc\<close> for separators that are single bytes.\<close>

fun FieldsFunc :: "(char \<Rightarrow> bool) \<Rightarrow> string \<Rightarrow> string \<Rightarrow> string list" where
  "FieldsFunc sep cur [] = (if cur = [] then [] else [cur])"
| "FieldsFunc sep cur (c # s) =
     (if sep c then (if cur = [] then [] else [cur]) @ FieldsFunc sep [] s else FieldsFunc sep (cur @ [c]) s)"

definition modeSeparator :: "char \<Rightarrow> bool" where
  "modeSeparator c \<longleftrightarrow> c \<in> set [CHR ''-'', CHR ''_'', CHR '' '']"

definition mode_token :: "string \<Rightarrow> flutterOutputType \<times> string \<Rightarrow> (flutterOutputType \<times> string) option" where
  "mode_token token = (\<lambda>(output, mode).
     (if token = ''apk'' then Some (flutterOutputAPK, mode)
      else if token \<in> set [''aab'', ''appbundle'', ''bundle''] then Some (flutterOutputAppBundle, mode)
      else if token \<in> set [''debug'', ''profile'', ''release''] then Some (output, token)
      else if token = '''' then Some (output, mode)
      else None))"

fun mode_tokens :: "string list \<Rightarrow> flutterOutputType \<times> string \<Rightarrow> (flutterOutputType \<times> string) option" where
  "mode_tokens [] st = Some st"
| "mode_tokens (token # rest) st =
     (case mode_token token st of None \<Rightarrow> None | Some st' \<Rightarrow> mode_tokens rest st')"

text \<open>The error texts contain the value as it is, where the code puts it into quotes.\<close>

definition resolveFlutterBuildOptions :: "string \<Rightarrow> (string, flutterOutputType \<times> string) outcome" where
  "resolveFlutterBuildOptions buildMode =
     (case (if buildMode \<noteq> '''' then mode_tokens (FieldsFunc modeSeparator [] (ToLower buildMode)) (flutterOutputAPK, '''')
            else Some (flutterOutputAPK, '''')) of
        None \<Rightarrow> Err (''unsupported build_mode '' @ buildMode)
      | Some (output, mode) \<Rightarrow> Ok (output, ''--'' @ (if mode = '''' then ''release'' else mode)))"

text \<open>\<open>order\<close> is the iteration order of the map of defines, which are sorted.\<close>

definition buildFlutterArgs :: "string list \<Rightarrow> flutterOutputType \<Rightarrow> string \<Rightarrow> FlutterConfig \<Rightarrow> string list" where
  "buildFlutterArgs order outputType modeFlag cfg =
     [''build'', output_string outputType] @
     (if modeFlag \<noteq> '''' then [modeFlag] else []) @
     (if fc_Flavor cfg \<noteq> '''' then [''--flavor'', fc_Flavor cfg] else []) @
     (if 0 < map_len (fc_DartDefines cfg)
      then concat (map (\<lambda>key. [''--dart-define'',
             key @ ''='' @ (case fmlookup (fc_DartDefines cfg) key of Some v \<Rightarrow> v | None \<Rightarrow> '''')]) (sort order))
      else [])"

subsection \<open>Artifacts\<close>

text \<open>
  The walk below a directory that keeps the files \<open>keep\<close> accepts, with their paths relative to the
  working directory. Reading a kept file may fail.
\<close>

fun artifact_node :: "(string \<Rightarrow> bool) \<Rightarrow> string \<Rightarrow> fnode \<Rightarrow> (string, (string \<times> bytes) list) outcome"
  and artifact_children :: "(string \<Rightarrow> bool) \<Rightarrow> string \<Rightarrow> (string \<times> fnode) list \<Rightarrow> (string, (string \<times> bytes) list) outcome" where
  "artifact_node keep rel (FFile f) =
     (if \<not> keep rel then Ok [] else case f of Inl e \<Rightarrow> Err e | Inr (mode, content) \<Rightarrow> Ok [(rel, content)])"
| "artifact_node keep rel (FSpecial f) =
     (if \<not> keep rel then Ok [] else case f of Inl e \<Rightarrow> Err e | Inr content \<Rightarrow> Ok [(rel, content)])"
| "artifact_node keep rel (FDir (Inl e)) = Err e"
| "artifact_node keep rel (FDir (Inr cs)) = artifact_children keep (rel @ [slash]) cs"
| "artifact_children keep pre [] = Ok []"
| "artifact_children keep pre ((name, n) # rest) =
     outcome_bind (artifact_node keep (pre @ name) n) (\<lambda>es.
       outcome_bind (artifact_children keep pre rest) (\<lambda>es'. Ok (es @ es')))"

definition artifactInfo :: "codec \<Rightarrow> string \<times> bytes \<Rightarrow> ArtifactInfo" where
  "artifactInfo cd = (\<lambda>(rel, content).
     \<lparr>ai_Name = path_Base rel, ai_Path = rel, ai_SizeBytes = int (length content), ai_Checksum = cd_sha256 cd content\<rparr>)"

text \<open>
  The archive of the artifacts, in the order given; \<open>reopen\<close> is the error of opening an artifact
  again or of copying it, and \<open>perm\<close> its permissions.
\<close>

fun archiveArtifacts :: "codec \<Rightarrow> (string \<Rightarrow> string option) \<Rightarrow> (string \<Rightarrow> int) \<Rightarrow> (string \<times> bytes) list \<Rightarrow> (string, bytes) outcome" where
  "archiveArtifacts cd reopen perm entries =
     (case find (\<lambda>(rel, c). reopen rel \<noteq> None) entries of
        Some (rel, c) \<Rightarrow> Err (case reopen rel of Some e \<Rightarrow> e | None \<Rightarrow> '''')
      | None \<Rightarrow> Ok (cd_write cd (map (\<lambda>(rel, c).
                  TarEntry \<lparr>th_Name = rel, th_Typeflag = TypeReg, th_Mode = perm rel\<rparr> c) entries)))"

declare archiveArtifacts.simps [simp del]

record artifact_env =
  ae_codec :: codec
  ae_reopen :: "string \<Rightarrow> string option"
  ae_perm :: "string \<Rightarrow> int"

text \<open>From the entries of the walk to the list and the archive, sorted by path.\<close>

definition finishArtifacts ::
    "artifact_env \<Rightarrow> string \<Rightarrow> (string, (string \<times> bytes) list) outcome \<Rightarrow> (string, ArtifactInfo list \<times> bytes) outcome" where
  "finishArtifacts ae none walked =
     (case walked of
        Err e \<Rightarrow> Err (''failed to scan artifacts: '' @ e)
      | Panic \<Rightarrow> Panic
      | Ok entries \<Rightarrow>
          if entries = [] then Err none
          else let entries = sort_key fst entries
               in case archiveArtifacts (ae_codec ae) (ae_reopen ae) (ae_perm ae) entries of
                    Err e \<Rightarrow> Err (''failed to archive artifacts: '' @ e)
                  | Panic \<Rightarrow> Panic
                  | Ok archive \<Rightarrow> Ok (map (artifactInfo (ae_codec ae)) entries, archive))"

text \<open>\<open>tree\<close> is the listing of the working directory.\<close>

definition stat_ok :: "fnode option \<Rightarrow> bool" where
  "stat_ok n = (case n of None \<Rightarrow> False | Some (FSpecial (Inl e)) \<Rightarrow> False | _ \<Rightarrow> True)"

definition wantExt :: "flutterOutputType \<Rightarrow> string" where
  "wantExt outputType = (if outputType = flutterOutputAppBundle then ''.aab'' else ''.apk'')"

definition collectFlutterArtifacts ::
    "artifact_env \<Rightarrow> (string \<times> fnode) list \<Rightarrow> flutterOutputType \<Rightarrow> (string, ArtifactInfo list \<times> bytes) outcome" where
  "collectFlutterArtifacts ae tree outputType =
     (if \<not> stat_ok (map_of tree ''build'') then Err ''build output directory not found''
      else finishArtifacts ae (''no '' @ wantExt outputType @ '' artifacts found'')
             (artifact_node (\<lambda>rel. path_Ext rel = wantExt outputType) ''build'' (the (map_of tree ''build''))))"

subsection \<open>The Flutter executor\<close>

record app_process =
  ap_timedOut :: bool
  ap_end :: run_end
  ap_stdout :: "bytes list"
  ap_stderr :: "bytes list"
  ap_time :: int
  ap_tree :: "(string \<times> fnode) list"
  ap_log :: "bytes option"

text \<open>\<open>fx_run\<close> takes the timeout in nanoseconds, if any, the command, its arguments and the unpacked files.\<close>

record app_env =
  fx_mkdirTemp :: "string + string"
  fx_fault :: "x_op \<Rightarrow> string option"
  fx_codec :: codec
  fx_order :: "string list"
  fx_run :: "int option \<Rightarrow> string \<Rightarrow> string list \<Rightarrow> x_op list \<Rightarrow> app_process"
  fx_artifacts :: artifact_env

definition unpackSource :: "app_env \<Rightarrow> string \<Rightarrow> Request \<Rightarrow> string option \<times> x_op list" where
  "unpackSource env workDir req =
     (if 0 < length (eq_SourceArchive req)
      then (case extractSourceArchive (fx_codec env) (fx_fault env) workDir (eq_SourceArchive req) of
              (Some e, ops) \<Rightarrow> (Some (''failed to extract source archive: '' @ e), ops)
            | (None, ops) \<Rightarrow> (None, ops))
      else (None, []))"

text \<open>The result where \<^verbatim>\<open>flutter pub get\<close> failed.\<close>

definition pubGetFailed :: "app_process \<Rightarrow> Result" where
  "pubGetFailed p = zeroResult\<lparr>er_Success := False,
     er_ExitCode := (case ap_end p of Exited code \<Rightarrow> wrap32 code | _ \<Rightarrow> 1),
     er_Stderr := limited maxFlutterLogBytes (ap_stderr p)\<rparr>"

definition flutterResult :: "app_env \<Rightarrow> flutterOutputType \<Rightarrow> app_process \<Rightarrow> app_process \<Rightarrow> (string, Result) outcome" where
  "flutterResult env outputType pub p =
     (let result = zeroResult\<lparr>
            er_Stdout := limited maxFlutterLogBytes (ap_stdout pub) @ limited maxFlutterLogBytes (ap_stdout p),
            er_Stderr := limited maxFlutterLogBytes (ap_stderr pub) @ limited maxFlutterLogBytes (ap_stderr p),
            er_CompilationTime := ap_time p\<rparr>
      in if ap_timedOut p then Ok (result\<lparr>er_ExitCode := - 1, er_Success := False\<rparr>)
         else case ap_end p of
           Exited code \<Rightarrow> Ok (result\<lparr>er_ExitCode := wrap32 code, er_Success := False\<rparr>)
         | NotRun e \<Rightarrow> Err (''execution failed: '' @ e)
         | ExitedOK \<Rightarrow>
             (case collectFlutterArtifacts (fx_artifacts env) (ap_tree p) outputType of
                Err e \<Rightarrow> Ok (result\<lparr>er_Success := False, er_ExitCode := 1,
                           er_Stderr := TrimSpace (er_Stderr result @ [CHR 0x0A] @ e)\<rparr>)
              | Panic \<Rightarrow> Panic
              | Ok (artifacts, archive) \<Rightarrow>
                  Ok (result\<lparr>er_ExitCode := 0, er_Success := True, er_Artifacts := artifacts,
                        er_ArtifactArchive := archive,
                        er_ArtifactPath := (if 0 < length artifacts then ai_Path (artifacts ! 0) else '''')\<rparr>)))"

definition flutter_Execute :: "app_env \<Rightarrow> string \<Rightarrow> Request option \<Rightarrow> (string, Result) outcome \<times> x_op list" where
  "flutter_Execute env command r =
     (case r of
        None \<Rightarrow> (Err ''build request required'', [])
      | Some req \<Rightarrow>
          if eq_BuildType req \<noteq> BUILD_TYPE_FLUTTER
          then (Err (''unsupported build type: '' @ BuildType_String (eq_BuildType req)), [])
          else case eq_FlutterConfig req of
            None \<Rightarrow> (Err ''flutter_config required'', [])
          | Some cfg \<Rightarrow>
              if eq_TargetPlatform req \<noteq> PLATFORM_ANDROID
              then (Err (''unsupported target platform: '' @ TargetPlatform_String (eq_TargetPlatform req)), [])
              else
                (let timeout = (if eq_TimeoutSeconds req > 0 then Some (eq_TimeoutSeconds req * Second) else None)
                 in case fx_mkdirTemp env of
                      Inl e \<Rightarrow> (Err (''failed to create temp dir: '' @ e), [])
                    | Inr workDir \<Rightarrow>
                        (case unpackSource env workDir req of
                           (Some e, ops) \<Rightarrow> (Err e, ops)
                         | (None, ops) \<Rightarrow>
                             (case resolveFlutterBuildOptions (fc_BuildMode cfg) of
                                Err e \<Rightarrow> (Err e, ops)
                              | Panic \<Rightarrow> (Panic, ops)
                              | Ok (outputType, modeFlag) \<Rightarrow>
                                  (let pub = fx_run env timeout command [''pub'', ''get''] ops
                                   in if ap_end pub \<noteq> ExitedOK then (Ok (pubGetFailed pub), ops)
                                      else (flutterResult env outputType pub
                                              (fx_run env timeout command
                                                 (buildFlutterArgs (fx_order env) outputType modeFlag cfg) ops),
                                            ops))))))"

subsection \<open>Unity command lines and artifacts\<close>

fun buildTargetToUnityString :: "TargetPlatform \<Rightarrow> (string, string) outcome" where
  "buildTargetToUnityString PLATFORM_ANDROID = Ok ''Android''"
| "buildTargetToUnityString PLATFORM_IOS = Ok ''iOS''"
| "buildTargetToUnityString PLATFORM_WINDOWS = Ok ''StandaloneWindows64''"
| "buildTargetToUnityString PLATFORM_LINUX = Ok ''StandaloneLinux64''"
| "buildTargetToUnityString PLATFORM_MACOS = Ok ''StandaloneOSX''"
| "buildTargetToUnityString PLATFORM_WEBGL = Ok ''WebGL''"
| "buildTargetToUnityString t = Err (''unsupported target platform: '' @ TargetPlatform_String t)"

definition extraArgs :: "string list \<Rightarrow> (string, string) fmap \<Rightarrow> string list" where
  "extraArgs order m =
     (if 0 < map_len m
      then concat (map (\<lambda>key. let value = (case fmlookup m key of Some v \<Rightarrow> v | None \<Rightarrow> '''')
             in [key] @ (if value \<noteq> '''' then [value] else [])) (sort order))
      else [])"

definition buildUnityArgs ::
    "string list \<Rightarrow> Request \<Rightarrow> UnityConfig \<Rightarrow> string \<Rightarrow> string \<Rightarrow> (string, string list) outcome" where
  "buildUnityArgs order req cfg projectPath logPath =
     outcome_bind (buildTargetToUnityString (eq_TargetPlatform req)) (\<lambda>buildTarget.
       Ok ([''-batchmode'', ''-quit'', ''-nographics'', ''-projectPath'', projectPath, ''-logFile'', logPath,
            ''-buildTarget'', buildTarget, ''-executeMethod'', uc_BuildMethod cfg] @
           (if uc_ScriptingBackend cfg \<noteq> '''' then [''-scripting-backend'', uc_ScriptingBackend cfg] else []) @
           extraArgs order (uc_ExtraArgs cfg)))"

fun unityArtifactExtensions :: "TargetPlatform \<Rightarrow> string list" where
  "unityArtifactExtensions PLATFORM_ANDROID = [''.apk'', ''.aab'']"
| "unityArtifactExtensions PLATFORM_IOS = [''.ipa'']"
| "unityArtifactExtensions PLATFORM_WINDOWS = [''.exe'']"
| "unityArtifactExtensions PLATFORM_LINUX = [''.x86_64'', ''.x86'']"
| "unityArtifactExtensions PLATFORM_MACOS = [''.app'']"
| "unityArtifactExtensions PLATFORM_WEBGL = [''.html'', ''.js'', ''.wasm'', ''.data'']"
| "unityArtifactExtensions t = []"

text \<open>The absolute and the relative path have the same extension.\<close>

definition isUnityArtifactMatch :: "string \<Rightarrow> TargetPlatform \<Rightarrow> bool" where
  "isUnityArtifactMatch relPath targ =
     (if targ = PLATFORM_WEBGL \<and> Contains relPath ''Build/'' then True
      else list_ex (\<lambda>candidate. ToLower (path_Ext relPath) = ToLower candidate) (unityArtifactExtensions targ))"

definition collectUnityArtifacts ::
    "artifact_env \<Rightarrow> (string \<times> fnode) list \<Rightarrow> TargetPlatform \<Rightarrow> (string, ArtifactInfo list \<times> bytes) outcome" where
  "collectUnityArtifacts ae tree targ =
     finishArtifacts ae (''no artifacts found for target platform: '' @ TargetPlatform_String targ)
       (if stat_ok (map_of tree ''Build'')
        then artifact_node (\<lambda>rel. isUnityArtifactMatch rel targ) ''Build'' (the (map_of tree ''Build''))
        else artifact_children (\<lambda>rel. isUnityArtifactMatch rel targ) '''' tree)"

text \<open>
  Looking for the editor: the first pattern with an existing match gives its last match in string
  order; \<open>glob\<close> fails or lists matches, \<open>stat\<close> says whether a file exists, \<open>look\<close> searches the path.
\<close>

fun detect_patterns :: "(string \<Rightarrow> string list option) \<Rightarrow> (string \<Rightarrow> bool) \<Rightarrow> string list \<Rightarrow> string option" where
  "detect_patterns glob stat [] = None"
| "detect_patterns glob stat (pattern # rest) =
     (case find stat (rev (sort (case glob pattern of Some ms \<Rightarrow> ms | None \<Rightarrow> []))) of
        Some m \<Rightarrow> Some m
      | None \<Rightarrow> detect_patterns glob stat rest)"

definition unityEditorPathPatterns :: "string \<Rightarrow> string \<Rightarrow> string list" where
  "unityEditorPathPatterns goos home =
     (if goos = ''darwin'' then
        [''/Applications/Unity/Hub/Editor/*/Unity.app/Contents/MacOS/Unity'',
         ''/Applications/Unity/Hub/Editor/*/Editor/Unity'',
         ''/Applications/Unity.app/Contents/MacOS/Unity'',
         ''/Applications/Unity/Unity.app/Contents/MacOS/Unity'']
      else if goos = ''linux'' then
        [path_Join [home, ''Unity/Hub/Editor/*/Editor/Unity''], path_Join [home, ''Unity/Editor/Unity''],
         ''/opt/unity/Editor/Unity'', ''/usr/bin/unity-editor'']
      else if goos = ''windows'' then
        [''C:'' @ [CHR 0x5C] @ ''Program Files'' @ [CHR 0x5C] @ ''Unity'' @ [CHR 0x5C] @ ''Hub'' @ [CHR 0x5C] @ ''Editor'' @
           [CHR 0x5C] @ ''*'' @ [CHR 0x5C] @ ''Editor'' @ [CHR 0x5C] @ ''Unity.exe'',
         ''C:'' @ [CHR 0x5C] @ ''Program Files'' @ [CHR 0x5C] @ ''Unity'' @ [CHR 0x5C] @ ''Editor'' @ [CHR 0x5C] @ ''Unity.exe'']
      else [])"

definition detectUnityCommand ::
    "(string \<Rightarrow> string list option) \<Rightarrow> (string \<Rightarrow> bool) \<Rightarrow> (string \<Rightarrow> string option) \<Rightarrow> string list \<Rightarrow> string" where
  "detectUnityCommand glob stat look patterns =
     (case detect_patterns glob stat patterns of
        Some m \<Rightarrow> m
      | None \<Rightarrow> (case look ''Unity'' of
          Some p \<Rightarrow> p
        | None \<Rightarrow> (case look ''unity'' of Some p \<Rightarrow> p | None \<Rightarrow> '''')))"

definition NewUnityExecutor ::
    "(string \<Rightarrow> string list option) \<Rightarrow> (string \<Rightarrow> bool) \<Rightarrow> (string \<Rightarrow> string option) \<Rightarrow> string list \<Rightarrow> string" where
  "NewUnityExecutor glob stat look patterns =
     (let command = detectUnityCommand glob stat look patterns in if command = '''' then ''Unity'' else command)"

definition readUnityLog :: "bytes option \<Rightarrow> string" where
  "readUnityLog data =
     (case data of
        None \<Rightarrow> ''''
      | Some d \<Rightarrow>
          if length d = 0 then ''''
          else if int (length d) > maxUnityLogBytes
          then take (nat maxUnityLogBytes) d @ [CHR 0x0A] @ ''[output truncated]''
          else d)"

definition joinNonEmpty :: "string list \<Rightarrow> string" where
  "joinNonEmpty parts = Join [CHR 0x0A] (filter (\<lambda>part. TrimSpace part \<noteq> '''') parts)"

subsection \<open>The Unity executor\<close>

text \<open>Adding the editor's log to what a stream holds, where there is a log.\<close>

definition withLog :: "string \<Rightarrow> string \<Rightarrow> string" where
  "withLog unityLog s = (if unityLog \<noteq> '''' then TrimSpace (joinNonEmpty [s, unityLog]) else s)"

definition unityResult :: "app_env \<Rightarrow> TargetPlatform \<Rightarrow> app_process \<Rightarrow> (string, Result) outcome" where
  "unityResult env targ p =
     (let unityLog = readUnityLog (ap_log p);
          err = TrimSpace (limited maxUnityLogBytes (ap_stderr p));
          result = zeroResult\<lparr>
            er_Stdout := withLog unityLog (TrimSpace (limited maxUnityLogBytes (ap_stdout p))),
            er_Stderr := err, er_CompilationTime := ap_time p\<rparr>
      in if ap_timedOut p
         then Ok (result\<lparr>er_ExitCode := - 1, er_Success := False,
                    er_Stderr := withLog unityLog (TrimSpace (joinNonEmpty [err, ''unity build timed out'']))\<rparr>)
         else case ap_end p of
           Exited code \<Rightarrow> Ok (result\<lparr>er_ExitCode := wrap32 code, er_Success := False, er_Stderr := withLog unityLog err\<rparr>)
         | NotRun e \<Rightarrow> Err (''execution failed: '' @ e)
         | ExitedOK \<Rightarrow>
             (case collectUnityArtifacts (fx_artifacts env) (ap_tree p) targ of
                Err e \<Rightarrow> Ok (result\<lparr>er_Success := False, er_ExitCode := 1,
                           er_Stderr := withLog unityLog (TrimSpace (joinNonEmpty [err, e]))\<rparr>)
              | Panic \<Rightarrow> Panic
              | Ok (artifacts, archive) \<Rightarrow>
                  Ok (result\<lparr>er_ExitCode := 0, er_Success := True, er_Artifacts := artifacts,
                        er_ArtifactArchive := archive,
                        er_ArtifactPath := (if 0 < length artifacts then ai_Path (artifacts ! 0) else '''')\<rparr>)))"

definition unity_Execute :: "app_env \<Rightarrow> string \<Rightarrow> Request option \<Rightarrow> (string, Result) outcome \<times> x_op list" where
  "unity_Execute env command r =
     (case r of
        None \<Rightarrow> (Err ''build request required'', [])
      | Some req \<Rightarrow>
          if eq_BuildType req \<noteq> BUILD_TYPE_UNITY
          then (Err (''unsupported build type: '' @ BuildType_String (eq_BuildType req)), [])
          else case eq_UnityConfig req of
            None \<Rightarrow> (Err ''unity_config required'', [])
          | Some cfg \<Rightarrow>
              if TrimSpace (uc_BuildMethod cfg) = '''' then (Err ''unity_config.build_method required'', [])
              else
                (let timeout = (if eq_Timeout req > 0 then Some (eq_Timeout req)
                                else if eq_TimeoutSeconds req > 0 then Some (eq_TimeoutSeconds req * Second) else None)
                 in case fx_mkdirTemp env of
                      Inl e \<Rightarrow> (Err (''failed to create temp dir: '' @ e), [])
                    | Inr workDir \<Rightarrow>
                        (case unpackSource env workDir req of
                           (Some e, ops) \<Rightarrow> (Err e, ops)
                         | (None, ops) \<Rightarrow>
                             (case buildUnityArgs (fx_order env) req cfg workDir (path_Join [workDir, ''unity-build.log'']) of
                                Err e \<Rightarrow> (Err e, ops)
                              | Panic \<Rightarrow> (Panic, ops)
                              | Ok args \<Rightarrow>
                                  (unityResult env (eq_TargetPlatform req) (fx_run env timeout command args ops), ops)))))"

subsection \<open>Bounded output is a prefix\<close>

lemma limited_writes:
  assumes "0 < mx" and "[] \<notin> set ps"
  shows "fold limitedBuffer_Write ps (newLimitedBuffer mx) =
     \<lparr>lb_max = mx, lb_buf = take (nat mx) (concat ps), lb_truncated = (int (length (concat ps)) > mx)\<rparr>"
  using assms(2)
proof (induction ps rule: rev_induct)
  case Nil
  then show ?case using assms(1) by (simp add: newLimitedBuffer_def)
next
  case (snoc p ps)
  let ?b = "fold limitedBuffer_Write ps (newLimitedBuffer mx)"
  have b: "?b = \<lparr>lb_max = mx, lb_buf = take (nat mx) (concat ps), lb_truncated = (int (length (concat ps)) > mx)\<rparr>"
    using snoc by simp
  have p: "0 < length p" using snoc.prems by auto
  have "limitedBuffer_Write p ?b =
      \<lparr>lb_max = mx, lb_buf = take (nat mx) (concat ps @ p), lb_truncated = (int (length (concat ps @ p)) > mx)\<rparr>"
  proof (cases "int (length (concat ps)) \<ge> mx")
    case True
    then have "mx < int (length (concat ps)) + int (length p)" using p by linarith
    then show ?thesis unfolding b using True assms(1) by (simp add: limitedBuffer_Write_def Let_def)
  next
    case False
    then have len: "length (concat ps) < nat mx" by simp
    show ?thesis unfolding b using assms(1) p len False by (simp add: limitedBuffer_Write_def Let_def nat_diff_distrib)
  qed
  then show ?case by simp
qed

text \<open>
  However a process splits its output into non-empty writes, the executor keeps the whole output
  when it fits the limit, and otherwise exactly the first bytes up to the limit with a notice; a
  result therefore never carries more than the limit and the notice.
\<close>
theorem limited_exact:
  assumes "0 < mx" and "[] \<notin> set ps"
  shows "limited mx ps =
     (if int (length (concat ps)) \<le> mx then concat ps
      else take (nat mx) (concat ps) @ [CHR 0x0A] @ ''[output truncated]'') \<and>
     int (length (limited mx ps)) \<le> mx + 19"
proof -
  have "take (nat mx) (concat ps) = concat ps" if "int (length (concat ps)) \<le> mx" using that by simp
  then show ?thesis
    using assms(1) by (auto simp: limited_def limited_writes[OF assms] limitedBuffer_String_def)
qed

theorem limited_exact_witness: "limited 4 [''ab'', ''cde''] = ''abcd'' @ [CHR 0x0A] @ ''[output truncated]''"
  using limited_exact[of 4 "[''ab'', ''cde'']"] by simp

subsection \<open>Artifacts are exactly the matching files\<close>

text \<open>Everything below a node that is not a directory, with its path and what opening it gives.\<close>

fun leaves :: "string \<Rightarrow> fnode \<Rightarrow> (string \<times> (string + bytes)) list"
  and leaves_children :: "string \<Rightarrow> (string \<times> fnode) list \<Rightarrow> (string \<times> (string + bytes)) list" where
  "leaves rel (FFile f) = [(rel, map_sum id snd f)]"
| "leaves rel (FSpecial f) = [(rel, f)]"
| "leaves rel (FDir (Inr cs)) = leaves_children (rel @ [slash]) cs"
| "leaves rel (FDir (Inl e)) = []"
| "leaves_children pre [] = []"
| "leaves_children pre ((name, n) # rest) = leaves (pre @ name) n @ leaves_children pre rest"

lemma artifact_leaves:
  "artifact_node keep rel n = Ok es \<Longrightarrow> map (\<lambda>(p, c). (p, Inr c)) es = filter (\<lambda>(p, x). keep p) (leaves rel n)"
  "artifact_children keep pre cs = Ok es' \<Longrightarrow> map (\<lambda>(p, c). (p, Inr c)) es' = filter (\<lambda>(p, x). keep p) (leaves_children pre cs)"
proof (induction keep rel n and keep pre cs arbitrary: es and es' rule: artifact_node_artifact_children.induct)
  case (1 keep rel f)
  then show ?case by (cases f) (auto split: if_splits)
next
  case (2 keep rel f)
  then show ?case by (cases f) (auto split: if_splits)
next
  case (6 keep pre name n rest)
  then show ?case by (auto simp: outcome_bind_eq_Ok)
qed auto

lemma artifact_set:
  assumes "artifact_node keep rel n = Ok es"
  shows "set es = {(p, c). keep p \<and> (p, Inr c) \<in> set (leaves rel n)}"
proof -
  have "(p, c) \<in> set es \<longleftrightarrow> (p, Inr c) \<in> set (map (\<lambda>(p, c). (p, Inr c :: string + bytes)) es)" for p c
    by force
  then have "(p, c) \<in> set es \<longleftrightarrow> keep p \<and> (p, Inr c) \<in> set (leaves rel n)" for p c
    using artifact_leaves(1)[OF assms] by simp blast
  then show ?thesis by auto
qed

lemma finishArtifacts_Ok:
  assumes "finishArtifacts ae none walked = Ok (arts, archive)"
  shows "\<exists>es. walked = Ok es \<and> es \<noteq> [] \<and> arts = map (artifactInfo (ae_codec ae)) (sort_key fst es) \<and>
     archive = cd_write (ae_codec ae) (map (\<lambda>(rel, c).
        TarEntry \<lparr>th_Name = rel, th_Typeflag = TypeReg, th_Mode = ae_perm ae rel\<rparr> c) (sort_key fst es))"
  using assms
  by (auto simp: finishArtifacts_def archiveArtifacts.simps Let_def split: outcome.splits if_splits option.splits)

definition flutterTimeout :: "Request \<Rightarrow> int option" where
  "flutterTimeout req = (if eq_TimeoutSeconds req > 0 then Some (eq_TimeoutSeconds req * Second) else None)"

text \<open>
  C30. A Flutter build is reported as a success only when the tool ended in time with status zero for
  the command line of the request, and then it carries, sorted by path, an entry with size and
  checksum for exactly the files below \<^verbatim>\<open>build\<close> with the extension of the requested output, at
  least one, together with an archive of these files in the same order.
\<close>
theorem flutter_success:
  assumes "flutter_Execute env command (Some req) = (Ok r, ops)" and "er_Success r"
  shows "\<exists>cfg output flag p es.
     eq_FlutterConfig req = Some cfg \<and> resolveFlutterBuildOptions (fc_BuildMode cfg) = Ok (output, flag) \<and>
     p = fx_run env (flutterTimeout req) command (buildFlutterArgs (fx_order env) output flag cfg) ops \<and>
     \<not> ap_timedOut p \<and> ap_end p = ExitedOK \<and> er_ExitCode r = 0 \<and>
     es \<noteq> [] \<and> sorted (map fst es) \<and>
     set es = {(path, c). path_Ext path = wantExt output \<and> (path, Inr c) \<in> set (leaves ''build'' (the (map_of (ap_tree p) ''build'')))} \<and>
     er_Artifacts r = map (artifactInfo (ae_codec (fx_artifacts env))) es \<and>
     er_ArtifactArchive r = cd_write (ae_codec (fx_artifacts env)) (map (\<lambda>(path, c).
        TarEntry \<lparr>th_Name = path, th_Typeflag = TypeReg, th_Mode = ae_perm (fx_artifacts env) path\<rparr> c) es)"
proof -
  obtain cfg outp flag pub p where run: "eq_FlutterConfig req = Some cfg"
    "resolveFlutterBuildOptions (fc_BuildMode cfg) = Ok (outp, flag)"
    "p = fx_run env (flutterTimeout req) command (buildFlutterArgs (fx_order env) outp flag cfg) ops"
    "flutterResult env outp pub p = Ok r"
    using assms
    by (auto simp: flutter_Execute_def flutterTimeout_def pubGetFailed_def zeroResult_def Let_def
        split: if_splits option.splits sum.splits outcome.splits prod.splits)
  then obtain arts archive where res: "\<not> ap_timedOut p" "ap_end p = ExitedOK" "er_ExitCode r = 0"
    "collectFlutterArtifacts (fx_artifacts env) (ap_tree p) outp = Ok (arts, archive)"
    "er_Artifacts r = arts" "er_ArtifactArchive r = archive"
    using assms(2) by (auto simp: flutterResult_def Let_def split: if_splits run_end.splits outcome.splits)
  let ?walk = "artifact_node (\<lambda>rel. path_Ext rel = wantExt outp) ''build'' (the (map_of (ap_tree p) ''build''))"
  have "finishArtifacts (fx_artifacts env) (''no '' @ wantExt outp @ '' artifacts found'') ?walk = Ok (arts, archive)"
    using res(4) by (auto simp: collectFlutterArtifacts_def split: if_splits)
  from finishArtifacts_Ok[OF this] obtain es where es: "?walk = Ok es" "es \<noteq> []"
    "arts = map (artifactInfo (ae_codec (fx_artifacts env))) (sort_key fst es)"
    "archive = cd_write (ae_codec (fx_artifacts env)) (map (\<lambda>(path, c).
        TarEntry \<lparr>th_Name = path, th_Typeflag = TypeReg, th_Mode = ae_perm (fx_artifacts env) path\<rparr> c) (sort_key fst es))"
    by (elim exE conjE)
  have "sort_key fst es \<noteq> []" using es(2) by (metis set_empty set_sort)
  then show ?thesis
    using run(1-3) res(1-3,5,6) es artifact_set[OF es(1)]
    by (intro exI[of _ cfg] exI[of _ outp] exI[of _ flag] exI[of _ p] exI[of _ "sort_key fst es"]) simp
qed

definition plainCodec :: codec where
  "plainCodec = \<lparr>cd_read = (\<lambda>_. []), cd_write = (\<lambda>_. ''tar''), cd_sha256 = (\<lambda>_. ''sum''), cd_zstd = False,
     cd_start = None, cd_unzstd = id, cd_wait = None\<rparr>"

definition sampleBuildTree :: "(string \<times> fnode) list" where
  "sampleBuildTree = [(''build'', FDir (Inr [(''app.apk'', FFile (Inr (420, ''code''))), (''log.txt'', FFile (Inr (420, ''x'')))]))]"

definition sampleAppEnv :: "(string \<times> fnode) list \<Rightarrow> app_env" where
  "sampleAppEnv tree = \<lparr>fx_mkdirTemp = Inr ''/tmp/w'', fx_fault = (\<lambda>_. None), fx_codec = plainCodec, fx_order = [],
     fx_run = (\<lambda>_ _ _ _. \<lparr>ap_timedOut = False, ap_end = ExitedOK, ap_stdout = [], ap_stderr = [], ap_time = 3,
        ap_tree = tree, ap_log = None\<rparr>),
     fx_artifacts = \<lparr>ae_codec = plainCodec, ae_reopen = (\<lambda>_. None), ae_perm = (\<lambda>_. 420)\<rparr>\<rparr>"

definition sampleFlutterRequest :: Request where
  "sampleFlutterRequest = zeroRequest\<lparr>eq_TaskID := ''t'', eq_BuildType := BUILD_TYPE_FLUTTER,
     eq_TargetPlatform := PLATFORM_ANDROID, eq_FlutterConfig := Some \<lparr>fc_FlutterVersion = '''', fc_BuildMode = ''apk-debug'',
       fc_Flavor = '''', fc_DartDefines = fmempty\<rparr>\<rparr>"

theorem flutter_success_witness:
  "\<exists>r. fst (flutter_Execute (sampleAppEnv sampleBuildTree) ''flutter'' (Some sampleFlutterRequest)) = Ok r \<and>
     er_Success r \<and> er_ExitCode r = 0 \<and> er_Artifacts r \<noteq> []"
proof -
  have m: "resolveFlutterBuildOptions ''apk-debug'' = Ok (flutterOutputAPK, ''--debug'')" by code_simp
  have e: "path_Ext ''build/app.apk'' = ''.apk''" "path_Ext ''build/log.txt'' = ''.txt''" by code_simp+
  have c: "\<exists>a t. collectFlutterArtifacts \<lparr>ae_codec = plainCodec, ae_reopen = (\<lambda>_. None), ae_perm = (\<lambda>_. 420)\<rparr>
      sampleBuildTree flutterOutputAPK = Ok (a, t)"
    using e by (simp add: collectFlutterArtifacts_def sampleBuildTree_def stat_ok_def wantExt_def finishArtifacts_def
        archiveArtifacts.simps)
  then obtain a t where c: "collectFlutterArtifacts \<lparr>ae_codec = plainCodec, ae_reopen = (\<lambda>_. None), ae_perm = (\<lambda>_. 420)\<rparr>
      sampleBuildTree flutterOutputAPK = Ok (a, t)" by blast
  obtain r ops where x: "flutter_Execute (sampleAppEnv sampleBuildTree) ''flutter'' (Some sampleFlutterRequest) = (Ok r, ops)"
    and s: "er_Success r"
    using m c by (auto simp: flutter_Execute_def sampleFlutterRequest_def sampleAppEnv_def zeroRequest_def unpackSource_def
        flutterResult_def Let_def)
  from flutter_success[OF x s] have "er_ExitCode r = 0" "er_Artifacts r \<noteq> []" by auto
  then show ?thesis using x s by simp
qed

lemma unpackSource_below:
  assumes "workDir \<noteq> ''''" and "a \<in> set (snd (unpackSource env workDir req))"
  shows "below workDir (x_path a)"
proof -
  have "a \<in> set (snd (extractSourceArchive (fx_codec env) (fx_fault env) workDir (eq_SourceArchive req)))"
    using assms(2) by (auto simp: unpackSource_def split: if_splits prod.splits option.splits)
  then show ?thesis
    using extractSourceArchive_below[OF assms(1)] by blast
qed

text \<open>The command lines do not depend on the order in which Go's maps are visited.\<close>

lemma sort_iter_order:
  fixes o1 o2 :: "string list"
  assumes "iter_order m o1" and "iter_order m o2"
  shows "sort o1 = sort o2"
  using assms unfolding iter_order_def
  by (metis fset_of_list.rep_eq sorted_list_of_set_sort_remdups distinct_remdups_id)

lemma args_order_independent:
  assumes "iter_order (fc_DartDefines fcfg) o1" and "iter_order (fc_DartDefines fcfg) o2"
  shows "buildFlutterArgs o1 outp flag fcfg = buildFlutterArgs o2 outp flag fcfg"
  using sort_iter_order[OF assms] by (simp add: buildFlutterArgs_def)

text \<open>
  On macOS the product of a Unity build is a directory named \<^verbatim>\<open>*.app\<close>. The walk skips directories
  and no file inside has that extension, so a successful macOS build has no artifacts and is
  reported as failed.
\<close>
theorem unity_macos_bundle_lost:
  "collectUnityArtifacts ae
     [(''Build'', FDir (Inr [(''Game.app'', FDir (Inr [(''Contents'', FDir (Inr [(''Info.plist'', FFile (Inr (420, ''p''))),
        (''MacOS'', FDir (Inr [(''Game'', FFile (Inr (493, ''bin'')))]))]))]))]))] PLATFORM_MACOS =
   Err ''no artifacts found for target platform: PLATFORM_MACOS''"
proof -
  have "\<not> isUnityArtifactMatch ''Build/Game.app/Contents/Info.plist'' PLATFORM_MACOS"
    "\<not> isUnityArtifactMatch ''Build/Game.app/Contents/MacOS/Game'' PLATFORM_MACOS"
    by code_simp+
  then show ?thesis by (simp add: collectUnityArtifacts_def stat_ok_def finishArtifacts_def)
qed

end
