(* ===== verification/App_Client.thy ===== *)
theory App_Client
  imports App_Executors
begin

text \<open>
  The client commands for application builds, \<^verbatim>\<open>internal/cli/flutter/command.go\<close> and
  \<^verbatim>\<open>internal/cli/unity/command.go\<close>: checking the flags, building the request, sending it and
  reporting the answer. The flags arrive parsed; the project, the connection and the randomness
  are arguments. What is printed is a list of lines.
\<close>

declare path_Join.simps [simp del]

subsection \<open>Flags\<close>

definition defaultBuildMode :: string where "defaultBuildMode = ''release''"

definition normalizeBuildMode :: "string \<Rightarrow> (string, string) outcome" where
  "normalizeBuildMode value =
     (let mode = TrimSpace value
      in if mode = '''' then Ok defaultBuildMode
         else let mode = ToLower mode
              in if mode \<in> set [''debug'', ''profile'', ''release''] then Ok mode
                 else Err (''invalid build-mode '' @ value @ '' (supported: debug, profile, release)''))"

definition formatBuildMode :: "string \<Rightarrow> string \<Rightarrow> (string, string) outcome" where
  "formatBuildMode outputType buildMode =
     (if outputType \<in> set [''apk'', ''appbundle'']
      then (let mode = TrimSpace buildMode; mode = (if mode = '''' then defaultBuildMode else mode)
            in Ok (outputType @ ''-'' @ mode))
      else Err (''unsupported output type: '' @ outputType))"

definition parseTargetPlatform :: "string \<Rightarrow> (string, TargetPlatform) outcome" where
  "parseTargetPlatform value =
     (let v = ToLower (TrimSpace value)
      in if v = ''android'' then Ok PLATFORM_ANDROID
         else if v = ''ios'' then Ok PLATFORM_IOS
         else if v = ''windows'' then Ok PLATFORM_WINDOWS
         else if v = ''linux'' then Ok PLATFORM_LINUX
         else if v = ''macos'' then Ok PLATFORM_MACOS
         else if v = ''webgl'' then Ok PLATFORM_WEBGL
         else Err (''invalid platform '' @ value @ '' (supported: android, ios, windows, linux, macos, webgl)''))"

definition normalizeScriptingBackend :: "string \<Rightarrow> (string, string) outcome" where
  "normalizeScriptingBackend value =
     (let backend = TrimSpace value
      in if backend = '''' then Ok ''''
         else let backend = ToLower backend
              in if backend \<in> set [''mono'', ''il2cpp''] then Ok backend
                 else Err (''invalid scripting-backend '' @ value @ '' (supported: mono, il2cpp)''))"

subsection \<open>Requests\<close>

text \<open>Sixteen hexadecimal digits, or the clock alone where no randomness is available.\<close>

definition generateTaskID :: "string option \<Rightarrow> int \<Rightarrow> string" where
  "generateTaskID hex now =
     (case hex of
        None \<Rightarrow> ''task-'' @ int_str now
      | Some h \<Rightarrow> ''task-'' @ h @ ''-'' @ int_str (now smod 10000))"

text \<open>\<^verbatim>\<open>int32(buildTimeout.Seconds())\<close>, where the number of seconds fits.\<close>

definition timeoutSeconds :: "int \<Rightarrow> int" where
  "timeoutSeconds buildTimeout = (if buildTimeout > 0 then wrap32 (buildTimeout sdiv Second) else 0)"

definition emptyBuildRequest :: BuildRequest where
  "emptyBuildRequest = \<lparr>br_TaskId = '''', br_SourceHash = '''', br_BuildType = BUILD_TYPE_UNSPECIFIED,
     br_TargetPlatform = PLATFORM_UNSPECIFIED, br_SourceArchive = [], br_Config = NoConfig, br_DockerImage = '''',
     br_TimeoutSeconds = 0, br_Priority = 0\<rparr>"

definition flutter_buildRequest ::
    "codec \<Rightarrow> string \<Rightarrow> string + fnode \<Rightarrow> string \<Rightarrow> string \<Rightarrow> string \<Rightarrow> int \<Rightarrow> (string, BuildRequest) outcome" where
  "flutter_buildRequest cd taskID project outputType buildMode flavor buildTimeout =
     outcome_bind (flutter_createSourceArchive cd project) (\<lambda>(archive, hash).
     outcome_bind (formatBuildMode outputType buildMode) (\<lambda>mode.
       Ok (emptyBuildRequest\<lparr>br_TaskId := taskID, br_SourceHash := hash, br_BuildType := BUILD_TYPE_FLUTTER,
             br_TargetPlatform := PLATFORM_ANDROID, br_SourceArchive := archive,
             br_Config := FlutterConfig \<lparr>fc_FlutterVersion = '''', fc_BuildMode = mode, fc_Flavor = flavor,
                            fc_DartDefines = fmempty\<rparr>,
             br_TimeoutSeconds := timeoutSeconds buildTimeout\<rparr>)))"

definition unity_buildRequest ::
    "codec \<Rightarrow> string \<Rightarrow> string + fnode \<Rightarrow> TargetPlatform \<Rightarrow> string \<Rightarrow> string \<Rightarrow> string \<Rightarrow> int \<Rightarrow>
     (string, BuildRequest) outcome" where
  "unity_buildRequest cd taskID project platform unityVersion buildMethod backend buildTimeout =
     outcome_bind (unity_createSourceArchive cd project) (\<lambda>(archive, hash).
       Ok (emptyBuildRequest\<lparr>br_TaskId := taskID, br_SourceHash := hash, br_BuildType := BUILD_TYPE_UNITY,
             br_TargetPlatform := platform, br_SourceArchive := archive,
             br_Config := UnityConfig \<lparr>uc_UnityVersion = unityVersion, uc_BuildMethod = buildMethod,
                            uc_ScriptingBackend = backend, uc_ExtraArgs = fmempty\<rparr>,
             br_TimeoutSeconds := timeoutSeconds buildTimeout\<rparr>))"

subsection \<open>Sending and reporting\<close>

text \<open>
  The injected dependencies: the address resolver and the client factory may be missing; a client
  answers a request with a response, which may be nil, or an error.
\<close>

record Dependencies =
  dp_CoordinatorAddr :: "string option"
  dp_NewClient :: "(string \<Rightarrow> int \<Rightarrow> (string, BuildRequest \<Rightarrow> (string, BuildResponse option) outcome) outcome) option"
  dp_RequestTimeout :: int
  dp_BuildTimeout :: int

definition runBuild :: "Dependencies \<Rightarrow> BuildRequest \<Rightarrow> (string, BuildResponse option) outcome" where
  "runBuild deps req =
     (case dp_CoordinatorAddr deps of
        None \<Rightarrow> Err ''coordinator resolver not configured''
      | Some a \<Rightarrow>
          (case dp_NewClient deps of
             None \<Rightarrow> Err ''client factory not configured''
           | Some newClient \<Rightarrow>
               (let addr = TrimSpace a
                in if addr = '''' then Err ''coordinator unavailable''
                   else case newClient addr (dp_RequestTimeout deps) of
                     Err e \<Rightarrow> Err (''failed to connect: '' @ e)
                   | Panic \<Rightarrow> Panic
                   | Ok build \<Rightarrow>
                       (case build req of
                          Err e \<Rightarrow> Err (''build failed: '' @ e)
                        | Panic \<Rightarrow> Panic
                        | Ok resp \<Rightarrow> Ok resp))))"

fun TaskStatus_String :: "TaskStatus \<Rightarrow> string" where
  "TaskStatus_String STATUS_UNSPECIFIED = ''STATUS_UNSPECIFIED''"
| "TaskStatus_String STATUS_QUEUED = ''STATUS_QUEUED''"
| "TaskStatus_String STATUS_RUNNING = ''STATUS_RUNNING''"
| "TaskStatus_String STATUS_COMPLETED = ''STATUS_COMPLETED''"
| "TaskStatus_String STATUS_FAILED = ''STATUS_FAILED''"
| "TaskStatus_String STATUS_TIMEOUT = ''STATUS_TIMEOUT''"
| "TaskStatus_String (STATUS_UNNAMED n) = int_str n"

definition printBuildResult :: "BuildResponse option \<Rightarrow> (string, string list) outcome" where
  "printBuildResult r =
     (case r of
        None \<Rightarrow> Err ''empty build response''
      | Some resp \<Rightarrow>
          if bs_Status resp \<noteq> STATUS_COMPLETED
          then (let message = ''build failed with status '' @ TaskStatus_String (bs_Status resp);
                    message = (if bs_ExitCode resp \<noteq> 0 then message @ '' (exit '' @ int_str (bs_ExitCode resp) @ '')'' else message);
                    message = (if TrimSpace (bs_Stderr resp) \<noteq> '''' then message @ '': '' @ TrimSpace (bs_Stderr resp) else message)
                in Err message)
          else Ok ((if bs_FromCache resp then ''Build completed (cache hit)'' else ''Build completed'') #
                   map (\<lambda>a. ai_Path a @ '' ('' @ int_str (ai_SizeBytes a) @ '' bytes)'') (bs_ArtifactList resp)))"

text \<open>
  The commands. \<open>project\<close> is what the (trimmed) path names: the error of \<^verbatim>\<open>os.Stat\<close> or the node.
\<close>

definition checkProject :: "string \<Rightarrow> string + fnode \<Rightarrow> (string, unit) outcome" where
  "checkProject path project =
     (if path = '''' then Err ''project required''
      else case project of
        Inl e \<Rightarrow> Err (''project not found: '' @ e)
      | Inr n \<Rightarrow> if is_dir n then Ok () else Err ''project must be a directory'')"

definition flutter_command ::
    "codec \<Rightarrow> string \<Rightarrow> Dependencies \<Rightarrow> string \<Rightarrow> string \<Rightarrow> string + fnode \<Rightarrow> string \<Rightarrow> string \<Rightarrow> (string, string list) outcome" where
  "flutter_command cd taskID deps outputType projectPath project buildMode flavor =
     outcome_bind (checkProject (TrimSpace projectPath) project) (\<lambda>_.
     outcome_bind (normalizeBuildMode buildMode) (\<lambda>mode.
     outcome_bind (flutter_buildRequest cd taskID project outputType mode (TrimSpace flavor) (dp_BuildTimeout deps)) (\<lambda>req.
     outcome_bind (runBuild deps req) printBuildResult)))"

definition unity_command ::
    "codec \<Rightarrow> string \<Rightarrow> Dependencies \<Rightarrow> string \<Rightarrow> string \<Rightarrow> string + fnode \<Rightarrow> string \<Rightarrow> string \<Rightarrow> string \<Rightarrow>
     (string, string list) outcome" where
  "unity_command cd taskID deps platformArg projectPath project buildMethod unityVersion backendArg =
     (let projectPath = TrimSpace projectPath; buildMethod = TrimSpace buildMethod
      in if projectPath = '''' then Err ''project required''
         else if buildMethod = '''' then Err ''build-method required''
         else outcome_bind (checkProject projectPath project) (\<lambda>_.
              outcome_bind (parseTargetPlatform platformArg) (\<lambda>platform.
              outcome_bind (normalizeScriptingBackend backendArg) (\<lambda>backend.
              outcome_bind (unity_buildRequest cd taskID project platform (TrimSpace unityVersion) buildMethod backend
                              (dp_BuildTimeout deps)) (\<lambda>req.
              outcome_bind (runBuild deps req) printBuildResult)))))"

end
