(* ===== verification/Worker.thy ===== *)
theory Worker
  imports App_Executors Server
begin

text \<open>
  The worker's server, \<^verbatim>\<open>internal/worker/server/grpc.go\<close>, over the executors. A call passes through
  three phases that other calls may separate: it enters (the active counter is incremented and
  compared with the limit), it settles (its outcome is counted) and it leaves (the deferred
  decrement). The handlers are the sequence of the phases; \<open>worker_step\<close> interleaves them.
  Transport security, tracing and the listener are left out.
\<close>

declare path_Join.simps [simp del]

subsection \<open>Configuration and state\<close>

record WorkerConfig =
  wc_Port :: int
  wc_MaxConcurrent :: int
  wc_DefaultTimeout :: int
  wc_EnableRequestID :: bool

definition WorkerDefaultConfig :: WorkerConfig where
  "WorkerDefaultConfig = \<lparr>wc_Port = 50052, wc_MaxConcurrent = 4, wc_DefaultTimeout = 120 * Second, wc_EnableRequestID = True\<rparr>"

record WorkerServer =
  ws_config :: WorkerConfig
  ws_executor :: Manager
  ws_capabilities :: WorkerCapabilities
  ws_activeTasks :: int
  ws_totalTasks :: int
  ws_successTasks :: int
  ws_failedTasks :: int
  ws_totalTimeMs :: int

text \<open>\<open>caps\<close> are the detected capabilities; the last two arguments are those of \<open>NewManager\<close>.\<close>

definition Worker_New :: "WorkerConfig \<Rightarrow> WorkerCapabilities \<Rightarrow> bool \<Rightarrow> string list option \<Rightarrow> WorkerServer" where
  "Worker_New cfg caps dockerOK msvcArchs =
     \<lparr>ws_config = cfg,
      ws_executor = NewManager (NativeArch caps) (DockerAvailable caps) dockerOK msvcArchs,
      ws_capabilities = caps\<lparr>MaxParallelTasks := wrap32 (wc_MaxConcurrent cfg)\<rparr>,
      ws_activeTasks = 0, ws_totalTasks = 0, ws_successTasks = 0, ws_failedTasks = 0, ws_totalTimeMs = 0\<rparr>"

datatype worker_status = WInvalidArgument string | WResourceExhausted string | WUnimplemented string

subsection \<open>Executing a request\<close>

text \<open>
  What surrounds the executors: the operating system, the host, the Docker daemon and its limits,
  the application tools. Without Windows the MSVC executor is the stub that fails.
\<close>

record worker_env =
  we_goos :: string
  we_exec :: exec_env
  we_docker :: docker_env
  we_limits :: DockerResourceLimits
  we_app :: app_env
  we_flutterCmd :: string
  we_unityCmd :: string

definition Manager_Execute :: "worker_env \<Rightarrow> Manager \<Rightarrow> Request \<Rightarrow> (string, Result) outcome" where
  "Manager_Execute env m req =
     (case SelectForRequest (we_goos env) m req of
        NativeExecutor \<Rightarrow> fst (native_Execute (we_exec env) req)
      | DockerExecutor images \<Rightarrow> fst (docker_Execute (we_goos env) (we_exec env) (we_docker env) images (we_limits env) req)
      | MSVCExecutor archs \<Rightarrow> Err ''MSVC executor not available on this platform''
      | FlutterExecutor \<Rightarrow> fst (flutter_Execute (we_app env) (we_flutterCmd env) (Some req))
      | UnityExecutor \<Rightarrow> fst (unity_Execute (we_app env) (we_unityCmd env) (Some req)))"

subsection \<open>The phases of a call\<close>

definition worker_enter :: "WorkerServer \<Rightarrow> bool \<times> WorkerServer" where
  "worker_enter s =
     (let active = wrap64 (ws_activeTasks s + 1); s = s\<lparr>ws_activeTasks := active\<rparr>
      in if active > wc_MaxConcurrent (ws_config s) then (False, s)
         else (True, s\<lparr>ws_totalTasks := wrap64 (ws_totalTasks s + 1)\<rparr>))"

definition worker_leave :: "WorkerServer \<Rightarrow> WorkerServer" where
  "worker_leave s = s\<lparr>ws_activeTasks := wrap64 (ws_activeTasks s - 1)\<rparr>"

definition countSuccess :: "WorkerServer \<Rightarrow> WorkerServer" where
  "countSuccess s = s\<lparr>ws_successTasks := wrap64 (ws_successTasks s + 1)\<rparr>"

definition countFailure :: "WorkerServer \<Rightarrow> WorkerServer" where
  "countFailure s = s\<lparr>ws_failedTasks := wrap64 (ws_failedTasks s + 1)\<rparr>"

definition addTime :: "int \<Rightarrow> WorkerServer \<Rightarrow> WorkerServer" where
  "addTime elapsed s = s\<lparr>ws_totalTimeMs := wrap64 (ws_totalTimeMs s + Milliseconds elapsed)\<rparr>"

definition callTimeout :: "WorkerServer \<Rightarrow> int \<Rightarrow> int" where
  "callTimeout s secs = (if secs > 0 then wrap64 (secs * Second) else wc_DefaultTimeout (ws_config s))"

subsection \<open>Compile\<close>

definition compileExecRequest :: "WorkerServer \<Rightarrow> CompileRequest \<Rightarrow> Request" where
  "compileExecRequest s req = zeroRequest\<lparr>
     eq_TaskID := cr_TaskId req, eq_Compiler := cr_Compiler req, eq_Args := cr_CompilerArgs req,
     eq_PreprocessedSource := cr_PreprocessedSource req, eq_TargetArch := cr_TargetArch req,
     eq_Timeout := callTimeout s (cr_TimeoutSeconds req), eq_RawSource := cr_RawSource req,
     eq_SourceFilename := cr_SourceFilename req, eq_IncludeFiles := cr_IncludeFiles req,
     eq_IncludePaths := cr_IncludePaths req, eq_ClientOs := cr_ClientOs req\<rparr>"

text \<open>\<open>elapsed\<close> is the time since the call came in.\<close>

definition compile_settle :: "int \<Rightarrow> (string, Result) outcome \<Rightarrow> WorkerServer \<Rightarrow> CompileResponse \<times> WorkerServer" where
  "compile_settle elapsed res s =
     (case res of
        Ok result \<Rightarrow>
          (let resp = emptyCompileResponse\<lparr>cs_ObjectFile := er_ObjectCode result, cs_Stdout := er_Stdout result,
                 cs_Stderr := er_Stderr result, cs_ExitCode := er_ExitCode result,
                 cs_CompilationTimeMs := Milliseconds elapsed\<rparr>
           in if er_Success result
              then (resp\<lparr>cs_Status := STATUS_COMPLETED\<rparr>, countSuccess (addTime elapsed s))
              else (resp\<lparr>cs_Status := STATUS_FAILED\<rparr>, countFailure (addTime elapsed s)))
      | Err e \<Rightarrow>
          (emptyCompileResponse\<lparr>cs_Status := STATUS_FAILED, cs_ExitCode := 1, cs_Stderr := ''execution error: '' @ e\<rparr>,
           countFailure s)
      | Panic \<Rightarrow> (emptyCompileResponse, s))"

definition Worker_Compile ::
    "worker_env \<Rightarrow> int \<Rightarrow> CompileRequest \<Rightarrow> WorkerServer \<Rightarrow> (worker_status, CompileResponse) outcome \<times> WorkerServer" where
  "Worker_Compile env elapsed req s =
     (if cr_TaskId req = '''' then (Err (WInvalidArgument ''task_id required''), s)
      else case worker_enter s of
        (False, s) \<Rightarrow> (Err (WResourceExhausted ''too many concurrent tasks''), worker_leave s)
      | (True, s) \<Rightarrow>
          (case Manager_Execute env (ws_executor s) (compileExecRequest s req) of
             Panic \<Rightarrow> (Panic, worker_leave s)
           | res \<Rightarrow> (let (resp, s) = compile_settle elapsed res s in (Ok resp, worker_leave s))))"

subsection \<open>Build\<close>

definition buildExecRequest :: "WorkerServer \<Rightarrow> FlutterConfig \<Rightarrow> BuildRequest \<Rightarrow> Request" where
  "buildExecRequest s cfg req = zeroRequest\<lparr>
     eq_TaskID := br_TaskId req, eq_BuildType := br_BuildType req, eq_TargetPlatform := br_TargetPlatform req,
     eq_FlutterConfig := Some cfg, eq_SourceArchive := br_SourceArchive req,
     eq_TimeoutSeconds := br_TimeoutSeconds req, eq_Timeout := callTimeout s (br_TimeoutSeconds req)\<rparr>"

definition build_settle :: "int \<Rightarrow> (string, Result) outcome \<Rightarrow> WorkerServer \<Rightarrow> BuildResponse \<times> WorkerServer" where
  "build_settle elapsed res s =
     (case res of
        Ok result \<Rightarrow>
          (let resp = emptyBuildResponse\<lparr>bs_Status := STATUS_FAILED, bs_Artifacts := er_ArtifactArchive result,
                 bs_ArtifactList := er_Artifacts result, bs_ExitCode := er_ExitCode result, bs_Stdout := er_Stdout result,
                 bs_Stderr := er_Stderr result, bs_BuildTimeMs := Milliseconds elapsed\<rparr>
           in if er_Success result
              then (resp\<lparr>bs_Status := STATUS_COMPLETED\<rparr>, countSuccess (addTime elapsed s))
              else (resp, countFailure (addTime elapsed s)))
      | Err e \<Rightarrow>
          (emptyBuildResponse\<lparr>bs_Status := STATUS_FAILED, bs_ExitCode := 1, bs_Stderr := ''execution error: '' @ e\<rparr>,
           countFailure s)
      | Panic \<Rightarrow> (emptyBuildResponse, s))"

definition Worker_Build ::
    "worker_env \<Rightarrow> int \<Rightarrow> BuildRequest option \<Rightarrow> WorkerServer \<Rightarrow> (worker_status, BuildResponse) outcome \<times> WorkerServer" where
  "Worker_Build env elapsed r s =
     (case r of
        None \<Rightarrow> (Err (WInvalidArgument ''build request required''), s)
      | Some req \<Rightarrow>
          if br_TaskId req = '''' then (Err (WInvalidArgument ''task_id required''), s)
          else if br_BuildType req \<noteq> BUILD_TYPE_FLUTTER
          then (Err (WUnimplemented ''use Compile for compilation tasks''), s)
          else case br_Config req of
            FlutterConfig cfg \<Rightarrow>
              (case worker_enter s of
                 (False, s) \<Rightarrow> (Err (WResourceExhausted ''too many concurrent tasks''), worker_leave s)
               | (True, s) \<Rightarrow>
                   (case Manager_Execute env (ws_executor s) (buildExecRequest s cfg req) of
                      Panic \<Rightarrow> (Panic, worker_leave s)
                    | res \<Rightarrow> (let (resp, s) = build_settle elapsed res s in (Ok resp, worker_leave s))))
          | _ \<Rightarrow> (Err (WInvalidArgument ''flutter_config required''), s))"

subsection \<open>Queries\<close>

definition Worker_HealthCheck :: "WorkerServer \<Rightarrow> HealthResponse" where
  "Worker_HealthCheck s =
     \<lparr>he_Healthy = (ws_activeTasks s < wc_MaxConcurrent (ws_config s)),
      he_ActiveTasks = wrap32 (ws_activeTasks s), he_QueuedTasks = 0\<rparr>"

record WorkerSelfInfo =
  si_WorkerId :: string
  si_Host :: string
  si_NativeArch :: Architecture
  si_CpuCores :: int
  si_MemoryBytes :: int
  si_ActiveTasks :: int
  si_TotalTasksCompleted :: int
  si_AvgLatencyMs :: int

definition Worker_GetWorkerStatus :: "WorkerServer \<Rightarrow> WorkerSelfInfo list \<times> int \<times> int" where
  "Worker_GetWorkerStatus s =
     (let total = ws_totalTasks s; success = ws_successTasks s;
          avgTime = (if success > 0 then ws_totalTimeMs s sdiv success else 0);
          caps = ws_capabilities s
      in ([\<lparr>si_WorkerId = WorkerId caps, si_Host = Hostname caps, si_NativeArch = NativeArch caps,
            si_CpuCores = CpuCores caps, si_MemoryBytes = MemoryBytes caps,
            si_ActiveTasks = wrap32 (ws_activeTasks s), si_TotalTasksCompleted = total, si_AvgLatencyMs = avgTime\<rparr>], 1, 1))"

subsection \<open>Executors do not panic\<close>

lemma artifact_no_panic:
  "artifact_node keep rel n \<noteq> Panic" "artifact_children keep pre cs \<noteq> Panic"
proof (induction keep rel n and keep pre cs rule: artifact_node_artifact_children.induct)
  case (6 keep pre name n rest)
  then show ?case
    by (cases "artifact_node keep (pre @ name) n"; cases "artifact_children keep pre rest") simp_all
qed (auto split: sum.split)

lemma finishArtifacts_no_panic: "walked \<noteq> Panic \<Longrightarrow> finishArtifacts ae none walked \<noteq> Panic"
  by (auto simp: finishArtifacts_def archiveArtifacts.simps Let_def split: outcome.split option.split)

lemma process_result_no_panic: "process_result p out \<noteq> Panic"
  using process_result_cases[of p out] by (cases "process_result p out") auto

lemma native_no_panic: "fst (native_Execute env req) \<noteq> Panic"
  using process_result_no_panic
  by (auto simp: native_Execute_def setupRawSourceMode_def Let_def split: sum.split option.split prod.split)

lemma docker_no_panic: "fst (docker_Execute goos env d images limits req) \<noteq> Panic"
proof -
  have r: "docker_result d out code \<noteq> Panic" for out code
    using docker_result_cases[where d = d and out = out and code = code] by (cases "docker_result d out code") auto
  have "fst (docker_run d c out) \<noteq> Panic" for c out
    using r by (auto simp: docker_run_def split: sum.split option.split wait_end.split)
  then show ?thesis
    by (auto simp: docker_Execute_def Let_def split: sum.split option.split prod.split)
      (metis fst_conv)+
qed

lemma resolve_no_panic: "resolveFlutterBuildOptions m \<noteq> Panic"
  by (simp add: resolveFlutterBuildOptions_def split: option.split)

lemma flutter_no_panic: "fst (flutter_Execute env command (Some req)) \<noteq> Panic"
proof -
  have c: "collectFlutterArtifacts ae tree outp \<noteq> Panic" for ae tree outp
    by (simp add: collectFlutterArtifacts_def finishArtifacts_no_panic artifact_no_panic)
  have "flutterResult env outp pub p \<noteq> Panic" for outp pub p
    using c by (auto simp: flutterResult_def Let_def split: run_end.split outcome.split)
  then show ?thesis
    using resolve_no_panic
    by (auto simp: flutter_Execute_def Let_def split: option.split sum.split outcome.split prod.split)
qed

lemma unity_no_panic: "fst (unity_Execute env command (Some req)) \<noteq> Panic"
proof -
  have c: "collectUnityArtifacts ae tree t \<noteq> Panic" for ae tree t
    by (simp add: collectUnityArtifacts_def finishArtifacts_no_panic artifact_no_panic)
  have t: "buildTargetToUnityString t \<noteq> Panic" for t by (cases t) simp_all
  then have "buildUnityArgs ord rq cfg w l \<noteq> Panic" for ord rq cfg w l
    by (cases "buildTargetToUnityString (eq_TargetPlatform rq)") (simp_all add: buildUnityArgs_def)
  moreover have "unityResult env t p \<noteq> Panic" for t p
    using c by (auto simp: unityResult_def Let_def split: run_end.split outcome.split)
  ultimately show ?thesis
    by (auto simp: unity_Execute_def Let_def split: option.split sum.split outcome.split prod.split)
qed

lemma Manager_Execute_no_panic [simp]: "Manager_Execute env m req \<noteq> Panic"
  by (simp add: Manager_Execute_def native_no_panic docker_no_panic flutter_no_panic unity_no_panic split: executor.split)

subsection \<open>Settling a call\<close>

definition succeeded :: "(string, Result) outcome \<Rightarrow> bool" where
  "succeeded res = (case res of Ok r \<Rightarrow> er_Success r | _ \<Rightarrow> False)"

text \<open>What both handlers promise of their last phase: one outcome is counted, nothing else moves.\<close>

locale settling =
  fixes settle :: "int \<Rightarrow> (string, Result) outcome \<Rightarrow> WorkerServer \<Rightarrow> 'resp \<times> WorkerServer"
  assumes settle_frame:
      "ws_activeTasks (snd (settle t res s)) = ws_activeTasks s"
      "ws_totalTasks (snd (settle t res s)) = ws_totalTasks s"
      "ws_config (snd (settle t res s)) = ws_config s"
      "ws_executor (snd (settle t res s)) = ws_executor s"
      "ws_capabilities (snd (settle t res s)) = ws_capabilities s"
    and settle_success: "res \<noteq> Panic \<Longrightarrow>
      ws_successTasks (snd (settle t res s)) = (if succeeded res then wrap64 (ws_successTasks s + 1) else ws_successTasks s)"
    and settle_failure: "res \<noteq> Panic \<Longrightarrow>
      ws_failedTasks (snd (settle t res s)) = (if succeeded res then ws_failedTasks s else wrap64 (ws_failedTasks s + 1))"
begin

text \<open>An admitted call that runs alone returns the slot it took and is counted once.\<close>

lemma admitted_alone:
  assumes "worker_enter s = (True, s1)" and "is_int64 (ws_activeTasks s)" and "res \<noteq> Panic"
    and s2: "s2 = worker_leave (snd (settle t res s1))"
  shows "ws_activeTasks s2 = ws_activeTasks s \<and> ws_totalTasks s2 = wrap64 (ws_totalTasks s + 1) \<and>
     ws_config s2 = ws_config s \<and>
     ws_successTasks s2 = (if succeeded res then wrap64 (ws_successTasks s + 1) else ws_successTasks s) \<and>
     ws_failedTasks s2 = (if succeeded res then ws_failedTasks s else wrap64 (ws_failedTasks s + 1))"
proof -
  have "s1 = s\<lparr>ws_activeTasks := wrap64 (ws_activeTasks s + 1), ws_totalTasks := wrap64 (ws_totalTasks s + 1)\<rparr>"
    using assms(1) by (auto simp: worker_enter_def Let_def split: if_splits)
  then show ?thesis
    using assms(2,3) by (simp add: s2 worker_leave_def settle_frame settle_success settle_failure wrap64_id)
qed

end

interpretation compile_call: settling compile_settle
  by unfold_locales
    (auto simp: compile_settle_def succeeded_def countSuccess_def countFailure_def addTime_def Let_def split: outcome.split)

interpretation build_call: settling build_settle
  by unfold_locales
    (auto simp: build_settle_def succeeded_def countSuccess_def countFailure_def addTime_def Let_def split: outcome.split)

lemma enter_rejected:
  assumes "worker_enter s = (False, s1)" and "is_int64 (ws_activeTasks s)"
  shows "worker_leave s1 = s"
  using assms by (auto simp: worker_enter_def worker_leave_def wrap64_id Let_def split: if_splits)

text \<open>
  C34. A compile call served alone is refused without a task identifier, or when the worker already has
  as many calls as its limit, and then leaves no trace; otherwise it is answered, counted as one
  task and as one success or failure in agreement with its status, and gives its slot back. It
  never panics.
\<close>
theorem Worker_Compile_alone:
  assumes "is_int64 (ws_activeTasks s)" and "ws_activeTasks s < 2 ^ 63 - 1"
  shows "case Worker_Compile env t req s of
     (Err e, s') \<Rightarrow> s' = s \<and> (if cr_TaskId req = '''' then e = WInvalidArgument ''task_id required''
        else ws_activeTasks s \<ge> wc_MaxConcurrent (ws_config s) \<and> e = WResourceExhausted ''too many concurrent tasks'')
   | (Ok resp, s') \<Rightarrow>
       cr_TaskId req \<noteq> '''' \<and> ws_activeTasks s < wc_MaxConcurrent (ws_config s) \<and>
       ws_activeTasks s' = ws_activeTasks s \<and> ws_totalTasks s' = wrap64 (ws_totalTasks s + 1) \<and>
       (if cs_Status resp = STATUS_COMPLETED
        then ws_successTasks s' = wrap64 (ws_successTasks s + 1) \<and> ws_failedTasks s' = ws_failedTasks s
        else cs_Status resp = STATUS_FAILED \<and> ws_failedTasks s' = wrap64 (ws_failedTasks s + 1) \<and>
             ws_successTasks s' = ws_successTasks s)
   | (Panic, s') \<Rightarrow> False"
proof -
  have w: "wrap64 (ws_activeTasks s + 1) = ws_activeTasks s + 1"
    using assms by (intro wrap64_id) (simp add: is_int64_def)
  obtain ok s1 where e: "worker_enter s = (ok, s1)" by fastforce
  have ok: "ok \<longleftrightarrow> ws_activeTasks s < wc_MaxConcurrent (ws_config s)"
    using e w by (auto simp: worker_enter_def Let_def split: if_splits)
  let ?res = "Manager_Execute env (ws_executor s1) (compileExecRequest s1 req)"
  have status: "cs_Status (fst (compile_settle t r s1)) = (if succeeded r then STATUS_COMPLETED else STATUS_FAILED)"
    if "r \<noteq> Panic" for r
    using that by (auto simp: compile_settle_def succeeded_def Let_def split: outcome.split)
  have call: "Worker_Compile env t req s =
      (if cr_TaskId req = '''' then (Err (WInvalidArgument ''task_id required''), s)
       else if \<not> ok then (Err (WResourceExhausted ''too many concurrent tasks''), worker_leave s1)
       else (Ok (fst (compile_settle t ?res s1)), worker_leave (snd (compile_settle t ?res s1))))"
    using Manager_Execute_no_panic[of env "ws_executor s1" "compileExecRequest s1 req"]
    by (auto simp: Worker_Compile_def e case_prod_unfold Let_def split: outcome.split)
  show ?thesis
    using ok enter_rejected[OF _ assms(1), of s1] e status[OF Manager_Execute_no_panic]
      compile_call.admitted_alone[OF _ assms(1) Manager_Execute_no_panic refl, of s1]
    unfolding call by auto
qed

definition sampleWorker :: "int \<Rightarrow> WorkerServer" where
  "sampleWorker mx = Worker_New (WorkerDefaultConfig\<lparr>wc_MaxConcurrent := mx\<rparr>) emptyCapabilities False None"

definition sampleWorkerEnv :: "process \<Rightarrow> worker_env" where
  "sampleWorkerEnv p = \<lparr>we_goos = ''linux'', we_exec = sampleExecEnv p, we_docker = sampleDocker,
     we_limits = DefaultDockerResourceLimits, we_app = sampleAppEnv [], we_flutterCmd = ''flutter'', we_unityCmd = ''Unity''\<rparr>"

definition sampleCompileRequest :: CompileRequest where
  "sampleCompileRequest = \<lparr>cr_TaskId = ''t1'', cr_SourceHash = '''', cr_PreprocessedSource = ''int x;'', cr_CompilerArgs = [],
     cr_Compiler = ''gcc'', cr_CompilerVersion = '''', cr_TargetArch = ARCH_UNSPECIFIED, cr_DockerImage = '''',
     cr_TimeoutSeconds = 0, cr_ClientOs = '''', cr_ClientArch = ARCH_UNSPECIFIED, cr_RawSource = [],
     cr_SourceFilename = '''', cr_IncludeFiles = fmempty, cr_IncludePaths = []\<rparr>"

theorem Worker_Compile_alone_witness:
  "fst (Worker_Compile (sampleWorkerEnv sampleProcess) 7 sampleCompileRequest (sampleWorker 0)) =
     Err (WResourceExhausted ''too many concurrent tasks'') \<and>
   snd (Worker_Compile (sampleWorkerEnv sampleProcess) 7 sampleCompileRequest (sampleWorker 0)) = sampleWorker 0"
proof -
  let ?s = "sampleWorker 0"
  have h: "is_int64 (ws_activeTasks ?s)" "ws_activeTasks ?s < 2 ^ 63 - 1" "ws_activeTasks ?s \<ge> wc_MaxConcurrent (ws_config ?s)"
    by (simp_all add: sampleWorker_def Worker_New_def is_int64_def)
  have t: "cr_TaskId sampleCompileRequest \<noteq> ''''" by (simp add: sampleCompileRequest_def)
  show ?thesis
    using Worker_Compile_alone[OF h(1,2), where env = "sampleWorkerEnv sampleProcess" and t = 7 and req = sampleCompileRequest] h(3) t
    by (cases "Worker_Compile (sampleWorkerEnv sampleProcess) 7 sampleCompileRequest ?s";
        cases "fst (Worker_Compile (sampleWorkerEnv sampleProcess) 7 sampleCompileRequest ?s)") auto
qed

subsection \<open>Concurrent calls\<close>

text \<open>
  The server together with the calls in progress: running (admitted, not yet settled), settled
  (about to leave) and rejected (about to leave), and the outcomes so far.
\<close>

record wsystem =
  wy_server :: WorkerServer
  wy_running :: nat
  wy_settled :: nat
  wy_rejected :: nat
  wy_successes :: nat
  wy_failures :: nat

definition in_progress :: "wsystem \<Rightarrow> nat" where
  "in_progress y = wy_running y + wy_settled y + wy_rejected y"

definition settled_system :: "wsystem \<Rightarrow> bool \<Rightarrow> WorkerServer \<Rightarrow> wsystem" where
  "settled_system y ok s = y\<lparr>wy_server := s, wy_running := wy_running y - 1, wy_settled := wy_settled y + 1,
     wy_successes := wy_successes y + (if ok then 1 else 0), wy_failures := wy_failures y + (if ok then 0 else 1)\<rparr>"

text \<open>A call can only come in while fewer than \<open>2 ^ 63 - 1\<close> are in progress.\<close>

inductive worker_step :: "wsystem \<Rightarrow> wsystem \<Rightarrow> bool" where
  enter: "int (in_progress y) < 2 ^ 63 - 1 \<Longrightarrow> worker_enter (wy_server y) = (True, s) \<Longrightarrow>
    worker_step y (y\<lparr>wy_server := s, wy_running := wy_running y + 1\<rparr>)"
| reject: "int (in_progress y) < 2 ^ 63 - 1 \<Longrightarrow> worker_enter (wy_server y) = (False, s) \<Longrightarrow>
    worker_step y (y\<lparr>wy_server := s, wy_rejected := wy_rejected y + 1\<rparr>)"
| settle_compile: "0 < wy_running y \<Longrightarrow> res \<noteq> Panic \<Longrightarrow> compile_settle t res (wy_server y) = (cresp, s) \<Longrightarrow>
    worker_step y (settled_system y (succeeded res) s)"
| settle_build: "0 < wy_running y \<Longrightarrow> res \<noteq> Panic \<Longrightarrow> build_settle t res (wy_server y) = (bresp, s) \<Longrightarrow>
    worker_step y (settled_system y (succeeded res) s)"
| leave: "0 < wy_settled y \<Longrightarrow>
    worker_step y (y\<lparr>wy_server := worker_leave (wy_server y), wy_settled := wy_settled y - 1\<rparr>)"
| leave_rejected: "0 < wy_rejected y \<Longrightarrow>
    worker_step y (y\<lparr>wy_server := worker_leave (wy_server y), wy_rejected := wy_rejected y - 1\<rparr>)"

definition worker_start :: "WorkerServer \<Rightarrow> wsystem" where
  "worker_start s = \<lparr>wy_server = s, wy_running = 0, wy_settled = 0, wy_rejected = 0, wy_successes = 0, wy_failures = 0\<rparr>"

inductive worker_reachable :: "WorkerConfig \<Rightarrow> wsystem \<Rightarrow> bool" for cfg where
  start: "worker_reachable cfg (worker_start (Worker_New cfg caps dockerOK msvcArchs))"
| step: "worker_reachable cfg y \<Longrightarrow> worker_step y y' \<Longrightarrow> worker_reachable cfg y'"

definition worker_inv :: "WorkerConfig \<Rightarrow> wsystem \<Rightarrow> bool" where
  "worker_inv cfg y \<longleftrightarrow>
     ws_config (wy_server y) = cfg \<and>
     ws_activeTasks (wy_server y) = int (in_progress y) \<and> int (in_progress y) < 2 ^ 63 \<and>
     int (wy_running y + wy_settled y) \<le> max 0 (wc_MaxConcurrent cfg) \<and>
     ws_successTasks (wy_server y) = wrap64 (int (wy_successes y)) \<and>
     ws_failedTasks (wy_server y) = wrap64 (int (wy_failures y)) \<and>
     ws_totalTasks (wy_server y) = wrap64 (int (wy_successes y + wy_failures y + wy_running y))"

lemma active_range: "int n < 2 ^ 63 \<Longrightarrow> wrap64 (int n) = int n"
  by (intro wrap64_id) (simp add: is_int64_def)

lemma worker_enter_cases:
  assumes "worker_inv cfg y" and "int (in_progress y) < 2 ^ 63 - 1" and "worker_enter (wy_server y) = (ok, s)"
  shows "(ok \<longleftrightarrow> int (in_progress y) < wc_MaxConcurrent cfg) \<and>
     s = (wy_server y)\<lparr>ws_activeTasks := int (in_progress y + 1),
          ws_totalTasks := (if ok then wrap64 (ws_totalTasks (wy_server y) + 1) else ws_totalTasks (wy_server y))\<rparr>"
proof -
  have "wrap64 (int (in_progress y) + 1) = int (in_progress y) + 1"
    using assms(2) active_range[of "in_progress y + 1"] by (simp add: add.commute)
  then show ?thesis
    using assms(1,3) by (auto simp: worker_inv_def worker_enter_def Let_def split: if_splits)
qed

lemma worker_leave_inv:
  assumes "worker_inv cfg y" and "0 < in_progress y"
  shows "worker_leave (wy_server y) = (wy_server y)\<lparr>ws_activeTasks := int (in_progress y - 1)\<rparr>"
proof -
  have "wrap64 (int (in_progress y) - 1) = int (in_progress y - 1)"
    using assms active_range[of "in_progress y - 1"] by (simp add: worker_inv_def of_nat_diff)
  then show ?thesis using assms(1) by (simp add: worker_inv_def worker_leave_def)
qed

lemma settled_inv:
  assumes "worker_inv cfg y" and "0 < wy_running y"
    and "ws_activeTasks s = ws_activeTasks (wy_server y)" and "ws_totalTasks s = ws_totalTasks (wy_server y)"
    and "ws_config s = ws_config (wy_server y)"
    and "ws_successTasks s = (if ok then wrap64 (ws_successTasks (wy_server y) + 1) else ws_successTasks (wy_server y))"
    and "ws_failedTasks s = (if ok then ws_failedTasks (wy_server y) else wrap64 (ws_failedTasks (wy_server y) + 1))"
  shows "worker_inv cfg (settled_system y ok s)"
proof -
  have "in_progress (settled_system y ok s) = in_progress y"
    using assms(2) by (simp add: in_progress_def settled_system_def)
  moreover have "wy_running (settled_system y ok s) + wy_settled (settled_system y ok s) = wy_running y + wy_settled y"
    "wy_successes (settled_system y ok s) + wy_failures (settled_system y ok s) + wy_running (settled_system y ok s) =
     wy_successes y + wy_failures y + wy_running y"
    using assms(2) by (simp_all add: settled_system_def)
  moreover have "ws_successTasks s = wrap64 (int (wy_successes (settled_system y ok s)))"
    "ws_failedTasks s = wrap64 (int (wy_failures (settled_system y ok s)))" "wy_server (settled_system y ok s) = s"
    using assms(1,6,7) by (simp_all add: worker_inv_def settled_system_def add.commute)
  ultimately show ?thesis using assms(1,3-5) unfolding worker_inv_def by metis
qed

lemma worker_step_inv: "worker_step y y' \<Longrightarrow> worker_inv cfg y \<Longrightarrow> worker_inv cfg y'"
proof (induction rule: worker_step.induct)
  case (enter y s)
  have "int (in_progress y) < wc_MaxConcurrent cfg"
    and s: "s = (wy_server y)\<lparr>ws_activeTasks := int (in_progress y + 1), ws_totalTasks := wrap64 (ws_totalTasks (wy_server y) + 1)\<rparr>"
    using worker_enter_cases[OF enter(3,1,2)] by simp_all
  then show ?case using enter(1,3) by (simp add: worker_inv_def s in_progress_def add_ac)
next
  case (reject y s)
  have "s = (wy_server y)\<lparr>ws_activeTasks := int (in_progress y + 1)\<rparr>"
    using worker_enter_cases[OF reject(3,1,2)] by simp
  then show ?case using reject(1,3) by (simp add: worker_inv_def in_progress_def)
next
  case (settle_compile y res t cresp s)
  then have "s = snd (compile_settle t res (wy_server y))" by simp
  then show ?case
    using settle_compile(1,2,4) compile_call.settle_frame compile_call.settle_success compile_call.settle_failure
    by (intro settled_inv) simp_all
next
  case (settle_build y res t bresp s)
  then have "s = snd (build_settle t res (wy_server y))" by simp
  then show ?case
    using settle_build(1,2,4) build_call.settle_frame build_call.settle_success build_call.settle_failure
    by (intro settled_inv) simp_all
next
  case (leave y)
  then have "worker_leave (wy_server y) = (wy_server y)\<lparr>ws_activeTasks := int (in_progress y - 1)\<rparr>"
    using worker_leave_inv by (simp add: in_progress_def)
  then show ?case using leave by (simp add: worker_inv_def in_progress_def of_nat_diff)
next
  case (leave_rejected y)
  then have "worker_leave (wy_server y) = (wy_server y)\<lparr>ws_activeTasks := int (in_progress y - 1)\<rparr>"
    using worker_leave_inv by (simp add: in_progress_def)
  then show ?case using leave_rejected by (simp add: worker_inv_def in_progress_def of_nat_diff)
qed

lemma worker_reachable_inv: "worker_reachable cfg y \<Longrightarrow> worker_inv cfg y"
proof (induction rule: worker_reachable.induct)
  case (start caps dockerOK msvcArchs)
  have "wrap64 0 = 0" by (simp add: wrap64_def)
  then show ?case by (simp add: worker_inv_def worker_start_def Worker_New_def in_progress_def)
next
  case (step y y')
  then show ?case using worker_step_inv by blast
qed

text \<open>
  C6. However calls interleave, the worker never executes more tasks at once than its limit; its active
  counter is the number of calls in progress, rejected ones included; the total counts the tasks
  that succeeded, failed or still run; and a call is admitted exactly when fewer calls than the
  limit are in progress.
\<close>
theorem worker_limit:
  assumes "worker_reachable cfg y"
  shows "int (wy_running y) \<le> max 0 (wc_MaxConcurrent cfg) \<and>
     ws_activeTasks (wy_server y) = int (wy_running y + wy_settled y + wy_rejected y) \<and>
     ws_totalTasks (wy_server y) = wrap64 (int (wy_successes y + wy_failures y + wy_running y)) \<and>
     ws_successTasks (wy_server y) = wrap64 (int (wy_successes y)) \<and>
     ws_failedTasks (wy_server y) = wrap64 (int (wy_failures y)) \<and>
     he_Healthy (Worker_HealthCheck (wy_server y)) = (int (in_progress y) < wc_MaxConcurrent cfg) \<and>
     (int (in_progress y) < 2 ^ 63 - 1 \<longrightarrow>
        fst (worker_enter (wy_server y)) = (int (in_progress y) < wc_MaxConcurrent cfg))"
proof -
  have inv: "worker_inv cfg y" using assms by (rule worker_reachable_inv)
  have "fst (worker_enter (wy_server y)) = (int (in_progress y) < wc_MaxConcurrent cfg)"
    if "int (in_progress y) < 2 ^ 63 - 1"
    using worker_enter_cases[OF inv that] by (metis prod.collapse)
  then show ?thesis using inv by (auto simp: worker_inv_def Worker_HealthCheck_def in_progress_def)
qed

text \<open>
  A rejected call occupies a slot until it has returned: with a limit of one, a worker that runs
  nothing refuses a call because another refusal has not returned yet.
\<close>
theorem spurious_rejection:
  "\<exists>y. worker_reachable (WorkerDefaultConfig\<lparr>wc_MaxConcurrent := 1\<rparr>) y \<and> wy_running y = 0 \<and> wy_settled y = 0 \<and>
     \<not> fst (worker_enter (wy_server y))"
proof -
  let ?cfg = "WorkerDefaultConfig\<lparr>wc_MaxConcurrent := 1\<rparr>"
  define y0 where "y0 = worker_start (sampleWorker 1)"
  define y1 where "y1 = y0\<lparr>wy_server := snd (worker_enter (wy_server y0)), wy_running := 1\<rparr>"
  define y2 where "y2 = y1\<lparr>wy_server := snd (worker_enter (wy_server y1)), wy_rejected := 1\<rparr>"
  define y3 where "y3 = settled_system y2 False (snd (compile_settle 0 (Err '''') (wy_server y2)))"
  define y4 where "y4 = y3\<lparr>wy_server := worker_leave (wy_server y3), wy_settled := 0\<rparr>"
  note defs = y0_def y1_def y2_def worker_start_def sampleWorker_def Worker_New_def in_progress_def
    worker_enter_def wrap64_def WorkerDefaultConfig_def
  have r0: "worker_reachable ?cfg y0" unfolding y0_def sampleWorker_def by (rule worker_reachable.start)
  have "worker_step y0 y1"
    using worker_step.enter[of y0 "snd (worker_enter (wy_server y0))"] by (simp add: defs)
  with r0 have r1: "worker_reachable ?cfg y1" by (rule worker_reachable.step)
  have "worker_step y1 y2"
    using worker_step.reject[of y1 "snd (worker_enter (wy_server y1))"] by (simp add: defs)
  with r1 have r2: "worker_reachable ?cfg y2" by (rule worker_reachable.step)
  have "worker_step y2 y3"
    using worker_step.settle_compile[of y2 "Err ''''" 0, OF _ _ surjective_pairing]
    by (simp add: y3_def succeeded_def y2_def y1_def)
  with r2 have r3: "worker_reachable ?cfg y3" by (rule worker_reachable.step)
  have "worker_step y3 y4"
    using worker_step.leave[of y3] by (simp add: y4_def y3_def settled_system_def y2_def y1_def y0_def worker_start_def)
  with r3 have r4: "worker_reachable ?cfg y4" by (rule worker_reachable.step)
  have "wy_running y4 = 0" "wy_settled y4 = 0" "wy_rejected y4 = 1"
    by (simp_all add: y4_def y3_def settled_system_def y2_def y1_def y0_def worker_start_def)
  moreover obtain ok s where e: "worker_enter (wy_server y4) = (ok, s)" by fastforce
  moreover have "in_progress y4 = 1" using calculation by (simp add: in_progress_def)
  then have "\<not> fst (worker_enter (wy_server y4))"
    using worker_enter_cases[OF worker_reachable_inv[OF r4] _ e] e by simp
  ultimately show ?thesis using r4 by blast
qed

theorem worker_limit_witness:
  "int (wy_running (worker_start (sampleWorker 3))) \<le> 3 \<and> fst (worker_enter (wy_server (worker_start (sampleWorker 3))))"
proof -
  have "worker_reachable (WorkerDefaultConfig\<lparr>wc_MaxConcurrent := 3\<rparr>) (worker_start (sampleWorker 3))"
    unfolding sampleWorker_def by (rule worker_reachable.start)
  from worker_limit[OF this] show ?thesis by (simp add: in_progress_def worker_start_def)
qed

text \<open>
  A compilation whose process ended with status zero without leaving an output is answered with
  status failed, but with exit code zero and an empty object file.
\<close>
lemma lost_output:
  assumes native: "SelectForRequest (we_goos env) (ws_executor s) (compileExecRequest s req) = NativeExecutor"
    and files: "xe_mkdirTemp (we_exec env) = Inr workDir" "\<And>a. xe_fault (we_exec env) a = None"
    and run: "p = xe_run (we_exec env) (cr_Compiler req) (native_args workDir (compileExecRequest s req))
      (map snd (native_ops workDir (xe_order (we_exec env)) (compileExecRequest s req)))"
    and lost: "\<not> pr_timedOut p" "pr_end p = ExitedOK" "pr_read p (path_Join [workDir, ''output.o'']) = Inl e"
  shows "\<exists>r. Manager_Execute env (ws_executor s) (compileExecRequest s req) = Ok r \<and>
     cs_Status (fst (compile_settle t (Ok r) s')) = STATUS_FAILED \<and>
     cs_ExitCode (fst (compile_settle t (Ok r) s')) = 0 \<and> cs_ObjectFile (fst (compile_settle t (Ok r) s')) = []"
proof -
  have "eq_Compiler (compileExecRequest s req) = cr_Compiler req"
    by (simp add: compileExecRequest_def zeroRequest_def)
  then have "Manager_Execute env (ws_executor s) (compileExecRequest s req) =
      process_result p (path_Join [workDir, ''output.o''])"
    using native_Execute_faultless[OF files] native by (simp add: Manager_Execute_def Let_def run)
  then show ?thesis
    using lost by (simp add: process_result_def zeroResult_def compile_settle_def emptyCompileResponse_def Let_def)
qed

end
