(* ===== verification/End_To_End.thy ===== *)
theory End_To_End
  imports Coordinator Client App_Client Worker
begin

text \<open>
  Properties that span the client, the coordinator and the worker: what becomes of a client's build
  on the worker that the coordinator forwards it to, and how a worker's answer looks to the client.
\<close>

declare path_Join.simps [simp del]

subsection \<open>Flutter builds from the command line to the tool\<close>

lemma format_resolve:
  assumes "normalizeBuildMode value = Ok mode" and "outputType \<in> {''apk'', ''appbundle''}"
  shows "\<exists>s outp. formatBuildMode outputType mode = Ok s \<and> resolveFlutterBuildOptions s = Ok (outp, ''--'' @ mode) \<and>
     output_string outp = outputType"
proof -
  have all: "resolveFlutterBuildOptions ''apk-debug'' = Ok (flutterOutputAPK, ''--debug'')"
    "resolveFlutterBuildOptions ''apk-profile'' = Ok (flutterOutputAPK, ''--profile'')"
    "resolveFlutterBuildOptions ''apk-release'' = Ok (flutterOutputAPK, ''--release'')"
    "resolveFlutterBuildOptions ''appbundle-debug'' = Ok (flutterOutputAppBundle, ''--debug'')"
    "resolveFlutterBuildOptions ''appbundle-profile'' = Ok (flutterOutputAppBundle, ''--profile'')"
    "resolveFlutterBuildOptions ''appbundle-release'' = Ok (flutterOutputAppBundle, ''--release'')"
    by code_simp+
  have trim: "TrimSpace ''debug'' = ''debug''" "TrimSpace ''profile'' = ''profile''" "TrimSpace ''release'' = ''release''"
    by code_simp+
  have "mode \<in> {''debug'', ''profile'', ''release''}"
    using assms(1) by (auto simp: normalizeBuildMode_def defaultBuildMode_def Let_def split: if_splits)
  then show ?thesis using assms(2) all trim by (auto simp: formatBuildMode_def)
qed

lemma flutter_archive_entries:
  assumes "flutter_buildRequest cd taskID (Inr (FDir (Inr cs))) outputType mode flavor timeout = Ok req"
  shows "\<exists>entries s. archive_children flutter_shouldExclude '''' cs = Ok entries \<and> formatBuildMode outputType mode = Ok s \<and>
     req = emptyBuildRequest\<lparr>br_TaskId := taskID, br_SourceHash := cd_sha256 cd (cd_write cd entries),
       br_BuildType := BUILD_TYPE_FLUTTER, br_TargetPlatform := PLATFORM_ANDROID, br_SourceArchive := cd_write cd entries,
       br_Config := FlutterConfig \<lparr>fc_FlutterVersion = '''', fc_BuildMode = s, fc_Flavor = flavor, fc_DartDefines = fmempty\<rparr>,
       br_TimeoutSeconds := timeoutSeconds timeout\<rparr>"
  using assms
  by (auto simp: flutter_buildRequest_def flutter_createSourceArchive_def createSourceArchive_def outcome_bind_eq_Ok Let_def
      split: outcome.splits if_splits)

text \<open>The tool's command line for a client's flags.\<close>

definition flutterCommandLine :: "string \<Rightarrow> string \<Rightarrow> string \<Rightarrow> string list" where
  "flutterCommandLine outputType mode flavor =
     [''build'', outputType, ''--'' @ mode] @ (if flavor \<noteq> '''' then [''--flavor'', flavor] else [])"

text \<open>
  C5. What the client's flags and project become on the worker. A request that the client builds for a
  project and that the coordinator forwards makes the worker unpack, into its temporary directory,
  exactly the files of the project that are not excluded, run \<^verbatim>\<open>flutter pub get\<close> there and, when that
  succeeds, \<^verbatim>\<open>flutter build\<close> with the output type, the mode and the flavor that were asked for. The
  project must have no entry at its top whose name begins with two dots: such a project is packed by the
  client and refused by the worker (\<open>dotted_name_refused\<close>). The tar format and the file system are
  assumed to work for this archive, which is not compressed.
\<close>
theorem flutter_end_to_end:
  assumes mode: "normalizeBuildMode value = Ok mode" and out: "outputType \<in> {''apk'', ''appbundle''}"
    and req: "flutter_buildRequest cd taskID (Inr (FDir (Inr cs))) outputType mode flavor timeout = Ok req"
    and proj: "proper_children cs" "distinct (map fst cs)" "list_all (\<lambda>(name, n). \<not> HasPrefix name ''..'') cs"
    and cfg: "br_Config (forwardedBuild req) = FlutterConfig cfg"
    and tar: "archive_children flutter_shouldExclude '''' cs = Ok entries" "cd_read cd (cd_write cd entries) = entries"
      "cd_write cd entries \<noteq> []" "\<not> isZstdArchive (cd_write cd entries)"
    and env: "fx_codec env = cd" "fx_mkdirTemp env = Inr workDir" "IsAbs workDir" "\<And>a. fx_fault env a = None"
  shows "\<exists>ops outp t. output_string outp = outputType \<and>
     flutter_Execute env command (Some (buildExecRequest s cfg (forwardedBuild req))) =
       (let pub = fx_run env t command [''pub'', ''get''] ops
        in (if ap_end pub \<noteq> ExitedOK then Ok (pubGetFailed pub)
            else flutterResult env outp pub (fx_run env t command (flutterCommandLine outputType mode flavor) ops), ops)) \<and>
     (\<forall>p content. files_after ops p = Some content \<longleftrightarrow>
        (\<exists>ks perm. (ks, perm, content) \<in> set (children_files cs) \<and> visible flutter_shouldExclude (hd ks) (tl ks) \<and>
           p = path_Join [workDir, Join ''/'' ks]))"
proof -
  obtain entries' m where e': "archive_children flutter_shouldExclude '''' cs = Ok entries'" "formatBuildMode outputType mode = Ok m"
    and r': "req = emptyBuildRequest\<lparr>br_TaskId := taskID, br_SourceHash := cd_sha256 cd (cd_write cd entries'),
       br_BuildType := BUILD_TYPE_FLUTTER, br_TargetPlatform := PLATFORM_ANDROID, br_SourceArchive := cd_write cd entries',
       br_Config := FlutterConfig \<lparr>fc_FlutterVersion = '''', fc_BuildMode = m, fc_Flavor = flavor, fc_DartDefines = fmempty\<rparr>,
       br_TimeoutSeconds := timeoutSeconds timeout\<rparr>"
    using flutter_archive_entries[OF req] by (elim exE conjE)
  have "entries' = entries" using e'(1) tar(1) by simp
  note e = e'[unfolded this] and r = r'[unfolded this]
  obtain outp where o: "resolveFlutterBuildOptions m = Ok (outp, ''--'' @ mode)" "output_string outp = outputType"
    using format_resolve[OF mode out] e(2) by auto
  have c: "cfg = \<lparr>fc_FlutterVersion = '''', fc_BuildMode = m, fc_Flavor = flavor, fc_DartDefines = fmempty\<rparr>"
    using cfg unfolding r forwardedBuild_def by simp
  have bm: "fc_BuildMode cfg = m" by (simp add: c)
  have f: "fx_fault env = (\<lambda>_. None)" using env(4) by auto
  define ops where "ops = snd (extractTarStream (\<lambda>_. None) workDir entries)"
  have names: "\<not> HasPrefix name ''..''" if "(name, n) \<in> set cs" for name n
    using proj(3) that by (auto simp: list_all_iff)
  note rt = archive_files_round_trip[OF e(1) env(3) proj(2,1) names]
  let ?q = "buildExecRequest s cfg (forwardedBuild req)"
  have x: "extractTarStream (\<lambda>_. None) workDir entries = (None, ops)"
    using rt[THEN conjunct1] by (simp add: prod_eq_iff ops_def)
  have u: "unpackSource env workDir ?q = (None, ops)"
    using tar x env(1) f
    by (simp add: unpackSource_def buildExecRequest_def forwardedBuild_def r extractSourceArchive_def zeroRequest_def)
  have a: "buildFlutterArgs (fx_order env) outp (''--'' @ mode) cfg = flutterCommandLine outputType mode flavor"
    by (simp add: buildFlutterArgs_def flutterCommandLine_def o(2) c map_len_def fcard_fempty)
  have q: "eq_BuildType ?q = BUILD_TYPE_FLUTTER" "eq_FlutterConfig ?q = Some cfg" "eq_TargetPlatform ?q = PLATFORM_ANDROID"
    by (simp_all add: buildExecRequest_def forwardedBuild_def r)
  let ?t = "flutterTimeout ?q"
  have "flutter_Execute env command (Some ?q) =
       (let pub = fx_run env ?t command [''pub'', ''get''] ops
        in (if ap_end pub \<noteq> ExitedOK then Ok (pubGetFailed pub)
            else flutterResult env outp pub (fx_run env ?t command (flutterCommandLine outputType mode flavor) ops), ops))"
    unfolding flutter_Execute_def using q env(2) u o(1) a bm by (simp add: flutterTimeout_def Let_def)
  then show ?thesis
    using o(2) rt[THEN conjunct2, folded ops_def]
    by (intro exI[of _ ops] exI[of _ outp] exI[of _ ?t] conjI allI) (assumption | simp)+
qed

definition sentEntries :: "tar_event list" where
  "sentEntries =
    [TarEntry \<lparr>th_Name = ''lib/main.dart'', th_Typeflag = TypeReg, th_Mode = 420\<rparr> ''void main() {}'',
     TarEntry \<lparr>th_Name = ''pubspec.yaml'', th_Typeflag = TypeReg, th_Mode = 420\<rparr> ''name: app'']"

definition sampleCodec :: codec where
  "sampleCodec = plainCodec\<lparr>cd_read := (\<lambda>_. sentEntries)\<rparr>"

theorem flutter_end_to_end_witness:
  "\<exists>req cfg ops. flutter_buildRequest sampleCodec ''t'' (Inr (FDir (Inr sampleProject))) ''apk'' ''debug'' '''' 0 = Ok req \<and>
     snd (flutter_Execute ((sampleAppEnv [])\<lparr>fx_codec := sampleCodec\<rparr>) ''flutter''
       (Some (buildExecRequest (sampleWorker 1) cfg (forwardedBuild req)))) = ops \<and>
     files_after ops ''/tmp/w/lib/main.dart'' = Some ''void main() {}''"
proof -
  have a: "archive_children flutter_shouldExclude '''' sampleProject = Ok sentEntries"
    by code_simp
  have m: "normalizeBuildMode ''debug'' = Ok ''debug''" by code_simp
  have fm: "formatBuildMode ''apk'' ''debug'' = Ok ''apk-debug''" by code_simp
  obtain req where r: "flutter_buildRequest sampleCodec ''t'' (Inr (FDir (Inr sampleProject))) ''apk'' ''debug'' '''' 0 = Ok req"
    and c: "br_Config (forwardedBuild req) = FlutterConfig \<lparr>fc_FlutterVersion = '''', fc_BuildMode = ''apk-debug'', fc_Flavor = '''', fc_DartDefines = fmempty\<rparr>"
    using a fm by (simp add: flutter_buildRequest_def flutter_createSourceArchive_def createSourceArchive_def sampleCodec_def
        plainCodec_def MaxSourceArchiveBytes_def forwardedBuild_def)
  let ?env = "(sampleAppEnv [])\<lparr>fx_codec := sampleCodec\<rparr>"
  have p: "proper_children sampleProject" "distinct (map fst sampleProject)" "IsAbs ''/tmp/w''"
    by (simp_all add: sampleProject_def path_name_def IsAbs_def HasPrefix_def)
  have n: "list_all (\<lambda>(name, n). \<not> HasPrefix name ''..'') sampleProject"
    by (simp add: sampleProject_def HasPrefix_def)
  have t: "cd_read sampleCodec (cd_write sampleCodec sentEntries) = sentEntries" "cd_write sampleCodec sentEntries \<noteq> []"
      "\<not> isZstdArchive (cd_write sampleCodec sentEntries)"
    by (simp_all add: sampleCodec_def plainCodec_def isZstdArchive_def)
  obtain ops where o: "snd (flutter_Execute ?env ''flutter'' (Some (buildExecRequest (sampleWorker 1)
      \<lparr>fc_FlutterVersion = '''', fc_BuildMode = ''apk-debug'', fc_Flavor = '''', fc_DartDefines = fmempty\<rparr> (forwardedBuild req)))) = ops"
    "\<And>p content. files_after ops p = Some content \<longleftrightarrow>
        (\<exists>ks perm. (ks, perm, content) \<in> set (children_files sampleProject) \<and> visible flutter_shouldExclude (hd ks) (tl ks) \<and>
           p = path_Join [''/tmp/w'', Join ''/'' ks])"
  proof -
    have env: "fx_codec ?env = sampleCodec" "fx_mkdirTemp ?env = Inr ''/tmp/w''" "fx_fault ?env a = None" for a
      by (simp_all add: sampleAppEnv_def)
    have out: "''apk'' \<in> {''apk'', ''appbundle''}" by simp
    from flutter_end_to_end[where env = ?env and cs = sampleProject and cd = sampleCodec and command = "''flutter''"
        and s = "sampleWorker 1", OF m out r p(1,2) n c a t env(1,2) p(3) env(3)]
    show thesis
    proof (elim exE conjE)
      fix ops outp t
      assume x: "flutter_Execute ?env ''flutter'' (Some (buildExecRequest (sampleWorker 1)
          \<lparr>fc_FlutterVersion = '''', fc_BuildMode = ''apk-debug'', fc_Flavor = '''', fc_DartDefines = fmempty\<rparr> (forwardedBuild req))) =
        (let pub = fx_run ?env t ''flutter'' [''pub'', ''get''] ops
         in (if ap_end pub \<noteq> ExitedOK then Ok (pubGetFailed pub)
             else flutterResult ?env outp pub (fx_run ?env t ''flutter'' (flutterCommandLine ''apk'' ''debug'' '''') ops), ops))"
        and fa: "\<forall>p content. files_after ops p = Some content \<longleftrightarrow>
          (\<exists>ks perm. (ks, perm, content) \<in> set (children_files sampleProject) \<and> visible flutter_shouldExclude (hd ks) (tl ks) \<and>
             p = path_Join [''/tmp/w'', Join ''/'' ks])"
      show thesis by (rule that[of ops]) (simp only: x Let_def snd_conv, rule fa[rule_format])
    qed
  qed
  have j: "path_Join [''/tmp/w'', Join ''/'' [''lib'', ''main.dart'']] = ''/tmp/w/lib/main.dart''" by code_simp
  have v: "visible flutter_shouldExclude ''lib'' [''main.dart'']" by code_simp
  have "([''lib'', ''main.dart''], 420, ''void main() {}'') \<in> set (children_files sampleProject)"
    by (simp add: sampleProject_def)
  then have "files_after ops ''/tmp/w/lib/main.dart'' = Some ''void main() {}''"
    using o(2)[of "''/tmp/w/lib/main.dart''" "''void main() {}''"] j v by (metis list.sel(1,3))
  then show ?thesis using r o(1) by blast
qed

subsection \<open>Unity builds\<close>

text \<open>
  A Unity build never reaches the Unity executor: the worker's \<^verbatim>\<open>Build\<close> accepts Flutter builds only,
  so every Unity request of the client, forwarded by the coordinator, is refused as unimplemented.
\<close>
theorem unity_builds_refused:
  assumes "unity_buildRequest cd taskID project platform version buildMethod backend timeout = Ok req" and "taskID \<noteq> ''''"
  shows "Worker_Build env t (Some (forwardedBuild req)) s = (Err (WUnimplemented ''use Compile for compilation tasks''), s)"
  using assms by (auto simp: unity_buildRequest_def outcome_bind_eq_Ok Worker_Build_def forwardedBuild_def)

theorem unity_builds_refused_witness:
  "\<exists>req. unity_buildRequest plainCodec ''t'' (Inr (FDir (Inr []))) PLATFORM_ANDROID ''2022'' ''B.Run'' '''' 0 = Ok req \<and>
     fst (Worker_Build (sampleWorkerEnv sampleProcess) 0 (Some (forwardedBuild req)) (sampleWorker 4)) =
       Err (WUnimplemented ''use Compile for compilation tasks'')"
proof -
  obtain req where r: "unity_buildRequest plainCodec ''t'' (Inr (FDir (Inr []))) PLATFORM_ANDROID ''2022'' ''B.Run'' '''' 0 = Ok req"
    by (simp add: unity_buildRequest_def unity_createSourceArchive_def createSourceArchive_def plainCodec_def
        MaxSourceArchiveBytes_def)
  from unity_builds_refused[OF this, of "sampleWorkerEnv sampleProcess" 0 "sampleWorker 4"] r show ?thesis by simp
qed

subsection \<open>A lost object file\<close>

text \<open>
  C37. A lost object file looks like a success. Whenever a worker admits a compile call that its native
  executor runs, the compiler ends with status zero and the output cannot be read, the worker answers with
  status failed and exit code zero. When this answer, forwarded by the coordinator, is what the client's
  remote compilation yields, the client's build reports success: exit code zero, with an empty object file,
  without a local compilation and without a word about the failure besides the standard error. Only the
  cache is spared, which takes no empty objects.
\<close>
theorem lost_object_looks_successful:
  assumes call: "cr_TaskId q \<noteq> ''''" "worker_enter w = (True, w1)"
    and native: "SelectForRequest (we_goos env) (ws_executor w1) (compileExecRequest w1 q) = NativeExecutor"
    and files: "xe_mkdirTemp (we_exec env) = Inr workDir" "\<And>a. xe_fault (we_exec env) a = None"
    and run: "p = xe_run (we_exec env) (cr_Compiler q) (native_args workDir (compileExecRequest w1 q))
      (map snd (native_ops workDir (xe_order (we_exec env)) (compileExecRequest w1 q)))"
    and lost: "\<not> pr_timedOut p" "pr_end p = ExitedOK" "pr_read p (path_Join [workDir, ''output.o'']) = Inl e"
    and client: "be_source benv = Some raw" "cacheGet benv (generateCacheKeyRaw H breq raw) sv = (None, sv1)" "sv_connected sv1"
    and answer: "case fst (Worker_Compile env t q w) of
        Ok resp \<Rightarrow> remoteStep benv sv1 breq raw = Ok (responseResult (compileReply i (Inr resp))) | _ \<Rightarrow> True"
  shows "\<exists>resp r. fst (Worker_Compile env t q w) = Ok resp \<and> cs_Status resp = STATUS_FAILED \<and> cs_ExitCode resp = 0 \<and>
     Build H benv breq sv = (Ok r, sv1) \<and>
     rs_ExitCode r = 0 \<and> rs_ObjectFile r = [] \<and> \<not> rs_CacheHit r \<and> \<not> rs_Fallback r"
proof -
  obtain r where r: "Manager_Execute env (ws_executor w1) (compileExecRequest w1 q) = Ok r"
    "cs_Status (fst (compile_settle t (Ok r) w1)) = STATUS_FAILED" "cs_ExitCode (fst (compile_settle t (Ok r) w1)) = 0"
    "cs_ObjectFile (fst (compile_settle t (Ok r) w1)) = []"
    using lost_output[OF native files run lost, of t w1] by (elim exE conjE)
  define resp where "resp = fst (compile_settle t (Ok r) w1)"
  have ok: "fst (Worker_Compile env t q w) = Ok resp"
    using call r(1) by (simp add: Worker_Compile_def resp_def case_prod_unfold Let_def)
  with answer have "remoteStep benv sv1 breq raw = Ok (responseResult (compileReply i (Inr resp)))" by simp
  moreover have "rr_ExitCode (responseResult (compileReply i (Inr resp))) = 0"
    "rr_ObjectFile (responseResult (compileReply i (Inr resp))) = []"
    using r(3,4) by (simp_all add: responseResult_def compileReply_def resp_def)
  ultimately have "\<exists>b. Build H benv breq sv = (Ok b, sv1) \<and> rs_ExitCode b = 0 \<and> rs_ObjectFile b = [] \<and>
      \<not> rs_CacheHit b \<and> \<not> rs_Fallback b"
    using client by (simp add: Build_def cachePut_def emptyResult_def Let_def split: option.split)
  then show ?thesis using ok r(2,3) by (auto simp: resp_def)
qed

text \<open>A worker without Docker, a compiler that leaves no output, and the client that gets the answer.\<close>

theorem lost_object_looks_successful_witness:
  "\<exists>resp r. fst (Worker_Compile (sampleWorkerEnv sampleProcess) 7 sampleCompileRequest (sampleWorker 4)) = Ok resp \<and>
     cs_Status resp = STATUS_FAILED \<and>
     fst (Build sampleHash (sampleEnvironment\<lparr>be_call := \<lambda>_ _. Ok (compileReply raceInput (Inr resp))\<rparr>) (sampleBuildRequest [])
       sampleService) = Ok r \<and> rs_ExitCode r = 0 \<and> rs_ObjectFile r = []"
proof -
  let ?w1 = "(sampleWorker 4)\<lparr>ws_activeTasks := 1, ws_totalTasks := 1\<rparr>"
  let ?env = "sampleWorkerEnv sampleProcess"
  let ?answer = "case fst (Worker_Compile ?env 7 sampleCompileRequest (sampleWorker 4)) of
      Ok resp \<Rightarrow> Ok (compileReply raceInput (Inr resp)) | _ \<Rightarrow> Err ''''"
  let ?benv = "sampleEnvironment\<lparr>be_call := \<lambda>_ _. ?answer\<rparr>"
  have e: "worker_enter (sampleWorker 4) = (True, ?w1)"
    by (simp add: worker_enter_def sampleWorker_def Worker_New_def wrap64_def)
  have x: "we_exec ?env = sampleExecEnv sampleProcess" "we_goos ?env = ''linux''" by (simp_all add: sampleWorkerEnv_def)
  have n: "SelectForRequest (we_goos ?env) (ws_executor ?w1) (compileExecRequest ?w1 sampleCompileRequest) = NativeExecutor"
    by (simp add: x sampleWorker_def Worker_New_def emptyCapabilities_def SelectForRequest_exact compileExecRequest_def
        zeroRequest_def)
  have f: "xe_mkdirTemp (we_exec ?env) = Inr ''/tmp/w''" "xe_fault (we_exec ?env) a = None"
    "sampleProcess = xe_run (we_exec ?env) c args ops" for a c args ops
    by (simp_all add: x sampleExecEnv_def)
  have c: "be_source ?benv = Some ''int x;''" "sv_connected sampleService"
    by (simp_all add: sampleEnvironment_def sampleService_def)
  have a: "case fst (Worker_Compile ?env 7 sampleCompileRequest (sampleWorker 4)) of
      Ok resp \<Rightarrow> remoteStep ?benv sampleService (sampleBuildRequest []) ''int x;'' =
        Ok (responseResult (compileReply raceInput (Inr resp)))
    | _ \<Rightarrow> True"
    by (simp add: remoteStep_def Preprocess_def compileRemotePreprocessed_def attempts_def sampleEnvironment_def
        sampleService_def eval_nat_numeral Let_def split: outcome.split)
  have p: "\<not> pr_timedOut sampleProcess" "pr_end sampleProcess = ExitedOK"
    "pr_read sampleProcess (path_Join [''/tmp/w'', ''output.o'']) = Inl ''no such file''"
    by (simp_all add: sampleProcess_def)
  have t: "cr_TaskId sampleCompileRequest \<noteq> ''''" by (simp add: sampleCompileRequest_def)
  obtain resp r where b: "fst (Worker_Compile ?env 7 sampleCompileRequest (sampleWorker 4)) = Ok resp" "cs_Status resp = STATUS_FAILED"
    "Build sampleHash ?benv (sampleBuildRequest []) sampleService = (Ok r, sampleService)" "rs_ExitCode r = 0" "rs_ObjectFile r = []"
    using lost_object_looks_successful[OF t e n f(1,2,3) p c(1) sample_get c(2) a, of sampleHash] by (elim exE conjE)
  then show ?thesis by (intro exI[of _ resp] exI[of _ r]) simp
qed

end
