(* ===== verification/Go_Numbers.thy ===== *)
theory Go_Numbers
  imports Go_Strings Proto_Messages
begin

text \<open>
  What the modelled code uses of Go's package \<^verbatim>\<open>strconv\<close>: \<^verbatim>\<open>ParseInt(s, 10, 64)\<close> and
  \<^verbatim>\<open>Atoi\<close>, which agree where an \<^verbatim>\<open>int\<close> has 64 bits, and \<^verbatim>\<open>FormatBool\<close>. Printing is
  \<open>int_str\<close> of \<open>Proto_Messages\<close>; the main fact is that parsing undoes it.
\<close>

subsection \<open>Parsing decimal numerals\<close>

definition digit_val :: "char \<Rightarrow> nat option" where
  "digit_val c =
     (if 48 \<le> (of_char c :: nat) \<and> (of_char c :: nat) \<le> 57 then Some (of_char c - 48) else None)"

text \<open>The digits after those that made up \<open>acc\<close>; anything else is a syntax error.\<close>

fun parse_digits :: "nat \<Rightarrow> string \<Rightarrow> nat option" where
  "parse_digits acc [] = Some acc"
| "parse_digits acc (c # s) =
     (case digit_val c of None \<Rightarrow> None | Some d \<Rightarrow> parse_digits (10 * acc + d) s)"

definition parse_nat :: "string \<Rightarrow> nat option" where
  "parse_nat s = (if s = [] then None else parse_digits 0 s)"

text \<open>
  An optional sign and at least one digit. A value outside the range of the type is an error;
  its magnitude is compared before the sign is applied, so \<open>- 2 ^ 63\<close> is accepted.
\<close>

definition ParseInt :: "string \<Rightarrow> int option" where
  "ParseInt s =
     (case s of
        [] \<Rightarrow> None
      | c # r \<Rightarrow>
          if c = CHR ''-'' then
            (case parse_nat r of
               None \<Rightarrow> None | Some n \<Rightarrow> if n \<le> 2 ^ 63 then Some (- int n) else None)
          else
            (case parse_nat (if c = CHR ''+'' then r else s) of
               None \<Rightarrow> None | Some n \<Rightarrow> if n < 2 ^ 63 then Some (int n) else None))"

abbreviation Atoi :: "string \<Rightarrow> int option" where "Atoi \<equiv> ParseInt"

definition FormatBool :: "bool \<Rightarrow> string" where
  "FormatBool b = (if b then ''true'' else ''false'')"

lemma FormatBool_true [simp]: "FormatBool b = ''true'' \<longleftrightarrow> b"
  by (simp add: FormatBool_def)

subsection \<open>Parsing undoes printing\<close>

lemma digit_char_code: "d < 10 \<Longrightarrow> (of_char (digit_char d) :: nat) = 48 + d"
  by simp

lemma digit_val_char [simp]: "d < 10 \<Longrightarrow> digit_val (digit_char d) = Some d"
  by (simp add: digit_val_def del: digit_char.simps) (simp add: digit_char_code del: digit_char.simps)

lemma digit_val_bound: "digit_val c = Some d \<Longrightarrow> d < 10"
  by (auto simp: digit_val_def split: if_splits)

lemma parse_digits_append:
  "parse_digits acc (s @ t) =
     (case parse_digits acc s of None \<Rightarrow> None | Some n \<Rightarrow> parse_digits n t)"
  by (induction acc s rule: parse_digits.induct) (auto split: option.split)

lemma nat_str_not_Nil [simp]: "nat_str n \<noteq> []"
  by (subst nat_str.simps) simp

lemma parse_digits_nat_str: "parse_digits 0 (nat_str n) = Some n"
proof (induction n rule: nat_str.induct)
  case (1 n)
  show ?case
  proof (cases "n < 10")
    case True
    then show ?thesis by (subst nat_str.simps) (simp del: digit_char.simps)
  next
    case False
    with 1 have "parse_digits 0 (nat_str (n div 10)) = Some (n div 10)" by simp
    with False show ?thesis
      by (subst nat_str.simps) (simp add: parse_digits_append del: digit_char.simps)
  qed
qed

lemma parse_nat_str [simp]: "parse_nat (nat_str n) = Some n"
  by (simp add: parse_nat_def parse_digits_nat_str)

text \<open>Every character of a printed number is a digit, and a sign may come first.\<close>

lemma nat_str_digits: "c \<in> set (nat_str n) \<Longrightarrow> digit_val c \<noteq> None"
proof (induction n rule: nat_str.induct)
  case (1 n)
  have d: "digit_val (digit_char (n mod 10)) = Some (n mod 10)" by (rule digit_val_char) simp
  show ?case
  proof (cases "n < 10")
    case True
    with 1(2) d show ?thesis by (subst (asm) nat_str.simps) (simp del: digit_char.simps)
  next
    case False
    with 1(2) have "c \<in> set (nat_str (n div 10)) \<or> c = digit_char (n mod 10)"
      by (subst (asm) nat_str.simps) (auto simp del: digit_char.simps)
    with 1(1)[OF False] d show ?thesis by (auto simp del: digit_char.simps)
  qed
qed

lemma nat_str_no_sign: "c \<in> {CHR ''-'', CHR ''+'', CHR ''='', CHR ''G'', CHR '','', CHR ''A''} \<Longrightarrow> c \<notin> set (nat_str n)"
  using nat_str_digits[of c n] by (auto simp: digit_val_def)

theorem ParseInt_int_str:
  assumes "is_int64 i"
  shows "ParseInt (int_str i) = Some i"
proof (cases "i < 0")
  case True
  with assms have "nat (- i) \<le> 2 ^ 63" by (simp add: is_int64_def)
  with True show ?thesis by (simp add: ParseInt_def int_str_def)
next
  case False
  with assms have b: "nat i < 2 ^ 63" by (simp add: is_int64_def)
  obtain c r where s: "nat_str (nat i) = c # r" by (cases "nat_str (nat i)") auto
  then have "c \<noteq> CHR ''-''" "c \<noteq> CHR ''+''" using nat_str_no_sign[of _ "nat i"] by force+
  with False b s parse_nat_str[of "nat i"] show ?thesis by (simp add: ParseInt_def int_str_def)
qed

lemma ParseInt_range: "ParseInt s = Some i \<Longrightarrow> is_int64 i"
  by (auto simp: ParseInt_def is_int64_def split: list.splits option.splits if_splits)

lemma int_str_no_special: "c \<in> {CHR ''='', CHR ''G'', CHR '','', CHR ''A''} \<Longrightarrow> c \<notin> set (int_str i)"
  using nat_str_no_sign[of c] by (auto simp: int_str_def)

lemma int_str_not_Nil [simp]: "int_str i \<noteq> []"
  by (simp add: int_str_def)

subsection \<open>Printing durations\<close>

text \<open>
  \<^verbatim>\<open>Duration.String\<close>: below one second in the largest unit that keeps a whole part (the micro sign
  is two bytes), from there on in hours, minutes and seconds, with leading zero units left out. A
  fraction loses its trailing zeros.
\<close>

definition fraction :: "nat \<Rightarrow> nat \<Rightarrow> string" where
  "fraction v prec =
     (let ds = nat_str (v mod 10 ^ prec);
          r = TrimRight ''0'' (replicate (prec - length ds) (CHR ''0'') @ ds)
      in if r = [] then [] else CHR ''.'' # r)"

definition scaled :: "nat \<Rightarrow> nat \<Rightarrow> string" where
  "scaled v prec = nat_str (v div 10 ^ prec) @ fraction v prec"

definition Duration_String :: "int \<Rightarrow> string" where
  "Duration_String d =
     (let u = nat \<bar>d\<bar>;
          body =
            (if u = 0 then ''0s''
             else if u < 1000 then nat_str u @ ''ns''
             else if u < 1000000 then scaled u 3 @ [char_of (194 :: nat), char_of (181 :: nat), CHR ''s'']
             else if u < 1000000000 then scaled u 6 @ ''ms''
             else
               let secs = u div 1000000000; mins = secs div 60; hrs = mins div 60
               in (if hrs > 0 then nat_str hrs @ ''h'' else []) @
                  (if mins > 0 then nat_str (mins mod 60) @ ''m'' else []) @
                  nat_str (secs mod 60) @ fraction u 9 @ ''s'')
      in if d < 0 then CHR ''-'' # body else body)"

end
