(* ===== verification/Settings.thy ===== *)
theory Settings
  imports Go_Numbers Go_Paths Learning
begin

text \<open>
  Configuration: \<^verbatim>\<open>internal/config/config.go\<close>, \<^verbatim>\<open>internal/security/tls\<close> and
  \<^verbatim>\<open>internal/observability/tracing/config.go\<close>. The sections of the configuration with their
  defaults, loading, the conversion for the tracing library, the validation of every section and
  the loading of certificates.

  The library that merges file, environment and defaults (\<^verbatim>\<open>viper\<close>) is an argument: it turns the
  registered defaults, a file and the environment into a configuration. Certificates are parsed by
  \<^verbatim>\<open>crypto/tls\<close>, an argument too.
\<close>

subsection \<open>Numbers with a fraction\<close>

text \<open>
  Comparison of floating point values; every comparison with NaN is false.
\<close>

fun float_less :: "float_value \<Rightarrow> float_value \<Rightarrow> bool" where
  "float_less (Fin x) (Fin y) = (x < y)"
| "float_less NegInf (Fin _) = True"
| "float_less NegInf PosInf = True"
| "float_less (Fin _) PosInf = True"
| "float_less _ _ = False"

text \<open>\<^verbatim>\<open>%f\<close>: six digits after the point, ties to even.\<close>

definition micros :: "real \<Rightarrow> nat" where
  "micros x =
     (let y = x * 1000000; n = nat \<lfloor>y\<rfloor>; d = y - real n
      in if d < 1 / 2 \<or> d = 1 / 2 \<and> even n then n else Suc n)"

fun format_f :: "float_value \<Rightarrow> string" where
  "format_f (Fin x) =
     (let n = micros \<bar>x\<bar>; ds = nat_str (n mod 1000000)
      in (if x < 0 then ''-'' else []) @ nat_str (n div 1000000) @ ''.'' @
         replicate (6 - length ds) (CHR ''0'') @ ds)"
| "format_f PosInf = ''+Inf''"
| "format_f NegInf = ''-Inf''"
| "format_f NaN = ''NaN''"

subsection \<open>The sections\<close>

record TLSConfig =
  tls_Enabled :: bool
  tls_CertFile :: string
  tls_KeyFile :: string
  tls_ClientCA :: string
  tls_RequireClientCert :: bool
  tls_InsecureSkipVerify :: bool

record TracingConfig =
  tr_Enable :: bool
  tr_Endpoint :: string
  tr_ServiceName :: string
  tr_SampleRate :: float_value
  tr_Insecure :: bool
  tr_Headers :: "(string, string) fmap"
  tr_Timeout :: int
  tr_BatchSize :: int

record LogRotationConfig =
  lr_MaxSizeMB :: int
  lr_MaxBackups :: int
  lr_MaxAgeDays :: int
  lr_Compress :: bool

record CoordinatorConfig =
  cc_GRPCPort :: int
  cc_HTTPPort :: int
  cc_AuthToken :: string
  cc_TLSCert :: string
  cc_TLSKey :: string
  cc_MDNSEnable :: bool

record WorkerSettings =
  wk_Port :: int
  wk_CoordinatorAddr :: string
  wk_AuthToken :: string
  wk_MaxParallel :: int
  wk_WorkDir :: string
  wk_Timeout :: int
  wk_HeartbeatSec :: int

record ClientSettings =
  cl_CoordinatorAddr :: string
  cl_AuthToken :: string
  cl_Timeout :: int
  cl_Fallback :: bool

record CacheConfig =
  ch_Enable :: bool
  ch_Dir :: string
  ch_MaxSize :: int
  ch_TTLHours :: int

record LogConfig =
  lg_Level :: string
  lg_Format :: string
  lg_File :: string
  lg_Rotation :: LogRotationConfig

record FullConfig =
  fc_Coordinator :: CoordinatorConfig
  fc_Worker :: WorkerSettings
  fc_Client :: ClientSettings
  fc_Cache :: CacheConfig
  fc_Log :: LogConfig
  fc_TLS :: TLSConfig
  fc_Tracing :: TracingConfig

text \<open>What the defaults take from the machine.\<close>

record machine =
  mc_UserCacheDir :: string
  mc_TempDir :: string
  mc_NumCPU :: int

definition FullDefaultConfig :: "machine \<Rightarrow> FullConfig" where
  "FullDefaultConfig mc =
     \<lparr>fc_Coordinator = \<lparr>cc_GRPCPort = 9000, cc_HTTPPort = 8080, cc_AuthToken = '''', cc_TLSCert = '''',
        cc_TLSKey = '''', cc_MDNSEnable = True\<rparr>,
      fc_Worker = \<lparr>wk_Port = 9001, wk_CoordinatorAddr = '''', wk_AuthToken = '''', wk_MaxParallel = mc_NumCPU mc,
        wk_WorkDir = path_Join [mc_TempDir mc, ''hybridgrid-worker''], wk_Timeout = 5 * 60 * Second,
        wk_HeartbeatSec = 30\<rparr>,
      fc_Client = \<lparr>cl_CoordinatorAddr = '''', cl_AuthToken = '''', cl_Timeout = 30 * Second, cl_Fallback = True\<rparr>,
      fc_Cache = \<lparr>ch_Enable = True, ch_Dir = path_Join [mc_UserCacheDir mc, ''hybridgrid''], ch_MaxSize = 1024,
        ch_TTLHours = 168\<rparr>,
      fc_Log = \<lparr>lg_Level = ''info'', lg_Format = ''console'', lg_File = '''',
        lg_Rotation = \<lparr>lr_MaxSizeMB = 100, lr_MaxBackups = 3, lr_MaxAgeDays = 28, lr_Compress = True\<rparr>\<rparr>,
      fc_TLS = \<lparr>tls_Enabled = False, tls_CertFile = '''', tls_KeyFile = '''', tls_ClientCA = '''',
        tls_RequireClientCert = False, tls_InsecureSkipVerify = False\<rparr>,
      fc_Tracing = \<lparr>tr_Enable = False, tr_Endpoint = ''localhost:4317'', tr_ServiceName = ''hybridgrid'',
        tr_SampleRate = Fin (1 / 10), tr_Insecure = True, tr_Headers = fmempty, tr_Timeout = 10 * Second,
        tr_BatchSize = 512\<rparr>\<rparr>"

subsection \<open>Validation\<close>

text \<open>The first error found, or none.\<close>

type_synonym verdict = "string option"

fun first_error :: "verdict list \<Rightarrow> verdict" where
  "first_error [] = None"
| "first_error (None # vs) = first_error vs"
| "first_error (Some e # vs) = Some e"

abbreviation refuse_if :: "bool \<Rightarrow> string \<Rightarrow> verdict" where
  "refuse_if c e \<equiv> if c then Some e else None"

definition Coordinator_Validate :: "CoordinatorConfig \<Rightarrow> verdict" where
  "Coordinator_Validate c = first_error
     [refuse_if (cc_GRPCPort c < 1 \<or> cc_GRPCPort c > 65535)
        (''config: coordinator.grpc_port must be 1-65535, got '' @ int_str (cc_GRPCPort c)),
      refuse_if (cc_HTTPPort c < 1 \<or> cc_HTTPPort c > 65535)
        (''config: coordinator.http_port must be 1-65535, got '' @ int_str (cc_HTTPPort c)),
      refuse_if (cc_GRPCPort c = cc_HTTPPort c)
        (''config: coordinator.grpc_port and coordinator.http_port must be different, got '' @
           int_str (cc_GRPCPort c) @ '' for both'')]"

definition Worker_Validate :: "WorkerSettings \<Rightarrow> verdict" where
  "Worker_Validate c = first_error
     [refuse_if (wk_Port c < 1 \<or> wk_Port c > 65535)
        (''config: worker.port must be 1-65535, got '' @ int_str (wk_Port c)),
      refuse_if (wk_MaxParallel c < 0)
        (''config: worker.max_parallel must be >= 0, got '' @ int_str (wk_MaxParallel c)),
      refuse_if (wk_Timeout c < 0)
        (''config: worker.timeout must be >= 0, got '' @ Duration_String (wk_Timeout c)),
      refuse_if (wk_Timeout c > 0 \<and> wk_Timeout c < Second)
        (''config: worker.timeout must be > 0s, got '' @ Duration_String (wk_Timeout c)),
      refuse_if (wk_HeartbeatSec c < 0)
        (''config: worker.heartbeat_sec must be >= 0, got '' @ int_str (wk_HeartbeatSec c))]"

definition Client_Validate :: "ClientSettings \<Rightarrow> verdict" where
  "Client_Validate c = first_error
     [refuse_if (cl_Timeout c < 0)
        (''config: client.timeout must be >= 0, got '' @ Duration_String (cl_Timeout c)),
      refuse_if (cl_Timeout c > 0 \<and> cl_Timeout c < Second)
        (''config: client.timeout must be > 0s or 0 (disabled), got '' @ Duration_String (cl_Timeout c))]"

definition Cache_Validate :: "CacheConfig \<Rightarrow> verdict" where
  "Cache_Validate c =
     (if \<not> ch_Enable c then None
      else first_error
        [refuse_if (ch_MaxSize c \<le> 0)
           (''config: cache.max_size_mb must be > 0 when cache is enabled, got '' @ int_str (ch_MaxSize c)),
         refuse_if (ch_TTLHours c \<le> 0)
           (''config: cache.ttl_hours must be > 0 when cache is enabled, got '' @ int_str (ch_TTLHours c)),
         refuse_if (ch_Dir c = '''') ''config: cache.dir must not be empty when cache is enabled''])"

definition LogRotation_Validate :: "LogRotationConfig \<Rightarrow> verdict" where
  "LogRotation_Validate c = first_error
     [refuse_if (lr_MaxSizeMB c \<le> 0)
        (''config: log.rotation.max_size_mb must be > 0, got '' @ int_str (lr_MaxSizeMB c)),
      refuse_if (lr_MaxBackups c < 0)
        (''config: log.rotation.max_backups must be >= 0, got '' @ int_str (lr_MaxBackups c)),
      refuse_if (lr_MaxAgeDays c \<le> 0)
        (''config: log.rotation.max_age_days must be > 0, got '' @ int_str (lr_MaxAgeDays c))]"

definition validLevels :: "string list" where
  "validLevels = [''debug'', ''info'', ''warn'', ''error'', ''fatal'']"

definition validFormats :: "string list" where "validFormats = [''console'', ''json'']"

definition Log_Validate :: "LogConfig \<Rightarrow> verdict" where
  "Log_Validate c = first_error
     [refuse_if (lg_Level c \<notin> set validLevels)
        (''config: log.level must be one of {debug,info,warn,error,fatal}, got '' @ lg_Level c),
      refuse_if (lg_Format c \<notin> set validFormats)
        (''config: log.format must be one of {console,json}, got '' @ lg_Format c),
      (if lg_File c \<noteq> '''' then LogRotation_Validate (lg_Rotation c) else None)]"

definition TLS_Validate :: "TLSConfig \<Rightarrow> verdict" where
  "TLS_Validate c =
     (if \<not> tls_Enabled c then None
      else first_error
        [refuse_if (tls_CertFile c = '''') ''config: tls.cert_file is required when TLS is enabled'',
         refuse_if (tls_KeyFile c = '''') ''config: tls.key_file is required when TLS is enabled'',
         refuse_if (tls_RequireClientCert c \<and> tls_ClientCA c = '''')
           ''config: tls.client_ca is required when tls.require_client_cert is true''])"

definition Tracing_Validate :: "TracingConfig \<Rightarrow> verdict" where
  "Tracing_Validate c =
     (if \<not> tr_Enable c then None
      else first_error
        [refuse_if (tr_Endpoint c = '''') ''config: tracing.endpoint is required when tracing is enabled'',
         refuse_if (float_less (tr_SampleRate c) (Fin 0) \<or> float_less (Fin 1) (tr_SampleRate c))
           (''config: tracing.sample_rate must be 0-1, got '' @ format_f (tr_SampleRate c))])"

definition Config_Validate :: "FullConfig \<Rightarrow> verdict" where
  "Config_Validate c = first_error
     [Coordinator_Validate (fc_Coordinator c), Worker_Validate (fc_Worker c), Client_Validate (fc_Client c),
      Cache_Validate (fc_Cache c), Log_Validate (fc_Log c), TLS_Validate (fc_TLS c), Tracing_Validate (fc_Tracing c)]"

subsection \<open>Loading\<close>

text \<open>
  The value of a setting, of the type of its field.
\<close>

datatype setting =
    SInt int | SBool bool | SString string | SDuration int | SFloat float_value
  | SHeaders "(string, string) fmap"

definition setDefaults :: "FullConfig \<Rightarrow> (string \<times> setting) list" where
  "setDefaults c =
     [(''coordinator.grpc_port'', SInt (cc_GRPCPort (fc_Coordinator c))),
      (''coordinator.http_port'', SInt (cc_HTTPPort (fc_Coordinator c))),
      (''coordinator.mdns_enable'', SBool (cc_MDNSEnable (fc_Coordinator c))),
      (''worker.port'', SInt (wk_Port (fc_Worker c))),
      (''worker.max_parallel'', SInt (wk_MaxParallel (fc_Worker c))),
      (''worker.work_dir'', SString (wk_WorkDir (fc_Worker c))),
      (''worker.timeout'', SDuration (wk_Timeout (fc_Worker c))),
      (''worker.heartbeat_sec'', SInt (wk_HeartbeatSec (fc_Worker c))),
      (''client.timeout'', SDuration (cl_Timeout (fc_Client c))),
      (''client.fallback'', SBool (cl_Fallback (fc_Client c))),
      (''cache.enable'', SBool (ch_Enable (fc_Cache c))),
      (''cache.dir'', SString (ch_Dir (fc_Cache c))),
      (''cache.max_size_mb'', SInt (ch_MaxSize (fc_Cache c))),
      (''cache.ttl_hours'', SInt (ch_TTLHours (fc_Cache c))),
      (''log.level'', SString (lg_Level (fc_Log c))),
      (''log.format'', SString (lg_Format (fc_Log c))),
      (''log.rotation.max_size_mb'', SInt (lr_MaxSizeMB (lg_Rotation (fc_Log c)))),
      (''log.rotation.max_backups'', SInt (lr_MaxBackups (lg_Rotation (fc_Log c)))),
      (''log.rotation.max_age_days'', SInt (lr_MaxAgeDays (lg_Rotation (fc_Log c)))),
      (''log.rotation.compress'', SBool (lr_Compress (lg_Rotation (fc_Log c)))),
      (''tracing.enable'', SBool (tr_Enable (fc_Tracing c))),
      (''tracing.endpoint'', SString (tr_Endpoint (fc_Tracing c))),
      (''tracing.service_name'', SString (tr_ServiceName (fc_Tracing c))),
      (''tracing.sample_rate'', SFloat (tr_SampleRate (fc_Tracing c))),
      (''tracing.insecure'', SBool (tr_Insecure (fc_Tracing c))),
      (''tracing.headers'', SHeaders (tr_Headers (fc_Tracing c))),
      (''tracing.timeout'', SDuration (tr_Timeout (fc_Tracing c))),
      (''tracing.batch_size'', SInt (tr_BatchSize (fc_Tracing c)))]"

text \<open>The fields by their tags, section by section.\<close>

fun setInt :: "(int \<Rightarrow> 'c \<Rightarrow> 'c) \<Rightarrow> setting \<Rightarrow> 'c \<Rightarrow> 'c option" where
  "setInt f (SInt i) c = Some (f i c)"
| "setInt f _ c = None"

fun setBool :: "(bool \<Rightarrow> 'c \<Rightarrow> 'c) \<Rightarrow> setting \<Rightarrow> 'c \<Rightarrow> 'c option" where
  "setBool f (SBool b) c = Some (f b c)"
| "setBool f _ c = None"

fun setString :: "(string \<Rightarrow> 'c \<Rightarrow> 'c) \<Rightarrow> setting \<Rightarrow> 'c \<Rightarrow> 'c option" where
  "setString f (SString s) c = Some (f s c)"
| "setString f _ c = None"

fun setDuration :: "(int \<Rightarrow> 'c \<Rightarrow> 'c) \<Rightarrow> setting \<Rightarrow> 'c \<Rightarrow> 'c option" where
  "setDuration f (SDuration d) c = Some (f d c)"
| "setDuration f _ c = None"

fun setFloat :: "(float_value \<Rightarrow> 'c \<Rightarrow> 'c) \<Rightarrow> setting \<Rightarrow> 'c \<Rightarrow> 'c option" where
  "setFloat f (SFloat x) c = Some (f x c)"
| "setFloat f _ c = None"

fun setHeaders :: "((string, string) fmap \<Rightarrow> 'c \<Rightarrow> 'c) \<Rightarrow> setting \<Rightarrow> 'c \<Rightarrow> 'c option" where
  "setHeaders f (SHeaders h) c = Some (f h c)"
| "setHeaders f _ c = None"

definition coordinatorTags :: "(string \<times> (setting \<Rightarrow> CoordinatorConfig \<Rightarrow> CoordinatorConfig option)) list" where
  "coordinatorTags =
     [(''coordinator.grpc_port'', setInt (\<lambda>v c. c\<lparr>cc_GRPCPort := v\<rparr>)),
      (''coordinator.http_port'', setInt (\<lambda>v c. c\<lparr>cc_HTTPPort := v\<rparr>)),
      (''coordinator.auth_token'', setString (\<lambda>v c. c\<lparr>cc_AuthToken := v\<rparr>)),
      (''coordinator.tls_cert'', setString (\<lambda>v c. c\<lparr>cc_TLSCert := v\<rparr>)),
      (''coordinator.tls_key'', setString (\<lambda>v c. c\<lparr>cc_TLSKey := v\<rparr>)),
      (''coordinator.mdns_enable'', setBool (\<lambda>v c. c\<lparr>cc_MDNSEnable := v\<rparr>))]"

definition workerTags :: "(string \<times> (setting \<Rightarrow> WorkerSettings \<Rightarrow> WorkerSettings option)) list" where
  "workerTags =
     [(''worker.port'', setInt (\<lambda>v c. c\<lparr>wk_Port := v\<rparr>)),
      (''worker.coordinator_addr'', setString (\<lambda>v c. c\<lparr>wk_CoordinatorAddr := v\<rparr>)),
      (''worker.auth_token'', setString (\<lambda>v c. c\<lparr>wk_AuthToken := v\<rparr>)),
      (''worker.max_parallel'', setInt (\<lambda>v c. c\<lparr>wk_MaxParallel := v\<rparr>)),
      (''worker.work_dir'', setString (\<lambda>v c. c\<lparr>wk_WorkDir := v\<rparr>)),
      (''worker.timeout'', setDuration (\<lambda>v c. c\<lparr>wk_Timeout := v\<rparr>)),
      (''worker.heartbeat_sec'', setInt (\<lambda>v c. c\<lparr>wk_HeartbeatSec := v\<rparr>))]"

definition clientTags :: "(string \<times> (setting \<Rightarrow> ClientSettings \<Rightarrow> ClientSettings option)) list" where
  "clientTags =
     [(''client.coordinator_addr'', setString (\<lambda>v c. c\<lparr>cl_CoordinatorAddr := v\<rparr>)),
      (''client.auth_token'', setString (\<lambda>v c. c\<lparr>cl_AuthToken := v\<rparr>)),
      (''client.timeout'', setDuration (\<lambda>v c. c\<lparr>cl_Timeout := v\<rparr>)),
      (''client.fallback'', setBool (\<lambda>v c. c\<lparr>cl_Fallback := v\<rparr>))]"

definition cacheTags :: "(string \<times> (setting \<Rightarrow> CacheConfig \<Rightarrow> CacheConfig option)) list" where
  "cacheTags =
     [(''cache.enable'', setBool (\<lambda>v c. c\<lparr>ch_Enable := v\<rparr>)),
      (''cache.dir'', setString (\<lambda>v c. c\<lparr>ch_Dir := v\<rparr>)),
      (''cache.max_size_mb'', setInt (\<lambda>v c. c\<lparr>ch_MaxSize := v\<rparr>)),
      (''cache.ttl_hours'', setInt (\<lambda>v c. c\<lparr>ch_TTLHours := v\<rparr>))]"

definition logTags :: "(string \<times> (setting \<Rightarrow> LogConfig \<Rightarrow> LogConfig option)) list" where
  "logTags =
     [(''log.level'', setString (\<lambda>v c. c\<lparr>lg_Level := v\<rparr>)),
      (''log.format'', setString (\<lambda>v c. c\<lparr>lg_Format := v\<rparr>)),
      (''log.file'', setString (\<lambda>v c. c\<lparr>lg_File := v\<rparr>)),
      (''log.rotation.max_size_mb'', setInt (\<lambda>v c. c\<lparr>lg_Rotation := lg_Rotation c\<lparr>lr_MaxSizeMB := v\<rparr>\<rparr>)),
      (''log.rotation.max_backups'', setInt (\<lambda>v c. c\<lparr>lg_Rotation := lg_Rotation c\<lparr>lr_MaxBackups := v\<rparr>\<rparr>)),
      (''log.rotation.max_age_days'', setInt (\<lambda>v c. c\<lparr>lg_Rotation := lg_Rotation c\<lparr>lr_MaxAgeDays := v\<rparr>\<rparr>)),
      (''log.rotation.compress'', setBool (\<lambda>v c. c\<lparr>lg_Rotation := lg_Rotation c\<lparr>lr_Compress := v\<rparr>\<rparr>))]"

definition tlsTags :: "(string \<times> (setting \<Rightarrow> TLSConfig \<Rightarrow> TLSConfig option)) list" where
  "tlsTags =
     [(''tls.enabled'', setBool (\<lambda>v c. c\<lparr>tls_Enabled := v\<rparr>)),
      (''tls.cert_file'', setString (\<lambda>v c. c\<lparr>tls_CertFile := v\<rparr>)),
      (''tls.key_file'', setString (\<lambda>v c. c\<lparr>tls_KeyFile := v\<rparr>)),
      (''tls.client_ca'', setString (\<lambda>v c. c\<lparr>tls_ClientCA := v\<rparr>)),
      (''tls.require_client_cert'', setBool (\<lambda>v c. c\<lparr>tls_RequireClientCert := v\<rparr>)),
      (''tls.insecure_skip_verify'', setBool (\<lambda>v c. c\<lparr>tls_InsecureSkipVerify := v\<rparr>))]"

definition tracingTags :: "(string \<times> (setting \<Rightarrow> TracingConfig \<Rightarrow> TracingConfig option)) list" where
  "tracingTags =
     [(''tracing.enable'', setBool (\<lambda>v c. c\<lparr>tr_Enable := v\<rparr>)),
      (''tracing.endpoint'', setString (\<lambda>v c. c\<lparr>tr_Endpoint := v\<rparr>)),
      (''tracing.service_name'', setString (\<lambda>v c. c\<lparr>tr_ServiceName := v\<rparr>)),
      (''tracing.sample_rate'', setFloat (\<lambda>v c. c\<lparr>tr_SampleRate := v\<rparr>)),
      (''tracing.insecure'', setBool (\<lambda>v c. c\<lparr>tr_Insecure := v\<rparr>)),
      (''tracing.headers'', setHeaders (\<lambda>v c. c\<lparr>tr_Headers := v\<rparr>)),
      (''tracing.timeout'', setDuration (\<lambda>v c. c\<lparr>tr_Timeout := v\<rparr>)),
      (''tracing.batch_size'', setInt (\<lambda>v c. c\<lparr>tr_BatchSize := v\<rparr>))]"

definition inSection ::
  "('c \<Rightarrow> 's) \<Rightarrow> ('s \<Rightarrow> 'c \<Rightarrow> 'c) \<Rightarrow> (string \<times> (setting \<Rightarrow> 's \<Rightarrow> 's option)) list \<Rightarrow>
   (string \<times> (setting \<Rightarrow> 'c \<Rightarrow> 'c option)) list" where
  "inSection get put tags = map (\<lambda>(k, f). (k, \<lambda>v c. map_option (\<lambda>s. put s c) (f v (get c)))) tags"

definition configTags :: "(string \<times> (setting \<Rightarrow> FullConfig \<Rightarrow> FullConfig option)) list" where
  "configTags =
     inSection fc_Coordinator (\<lambda>s c. c\<lparr>fc_Coordinator := s\<rparr>) coordinatorTags @
     inSection fc_Worker (\<lambda>s c. c\<lparr>fc_Worker := s\<rparr>) workerTags @
     inSection fc_Client (\<lambda>s c. c\<lparr>fc_Client := s\<rparr>) clientTags @
     inSection fc_Cache (\<lambda>s c. c\<lparr>fc_Cache := s\<rparr>) cacheTags @
     inSection fc_Log (\<lambda>s c. c\<lparr>fc_Log := s\<rparr>) logTags @
     inSection fc_TLS (\<lambda>s c. c\<lparr>fc_TLS := s\<rparr>) tlsTags @
     inSection fc_Tracing (\<lambda>s c. c\<lparr>fc_Tracing := s\<rparr>) tracingTags"

datatype config_source = ConfigFile string | SearchPath "string list"
datatype read_result = ReadOk | FileNotFound | ReadFailed string

text \<open>
  \<^verbatim>\<open>viper\<close>, an argument: the outcome of reading the file, and the decoding of file, environment and
  registered defaults into the structure that is handed over, by the tags of its fields.
\<close>

record viper =
  vp_ReadInConfig :: "config_source \<Rightarrow> read_result"
  vp_Unmarshal :: "config_source \<Rightarrow> (string \<times> setting) list \<Rightarrow> FullConfig \<Rightarrow> (string, FullConfig) outcome"

definition configSource :: "string \<Rightarrow> config_source" where
  "configSource path =
     (if path \<noteq> '''' then ConfigFile path
      else SearchPath [''.'', ''$HOME/.config/hybridgrid'', ''/etc/hybridgrid''])"

definition Load :: "machine \<Rightarrow> viper \<Rightarrow> string \<Rightarrow> (string, FullConfig) outcome" where
  "Load mc v path =
     (let cfg = FullDefaultConfig mc; src = configSource path
      in case vp_ReadInConfig v src of
           ReadFailed e \<Rightarrow> Err (''failed to read config: '' @ e)
         | _ \<Rightarrow>
             (case vp_Unmarshal v src (setDefaults cfg) cfg of
                Err e \<Rightarrow> Err (''failed to unmarshal config: '' @ e)
              | r \<Rightarrow> r))"

subsection \<open>The registered defaults\<close>

lemmas configTags_list =
  configTags_def[unfolded inSection_def coordinatorTags_def workerTags_def clientTags_def cacheTags_def logTags_def
    tlsTags_def tracingTags_def list.map append.simps prod.case]

text \<open>
  Every default is registered once, under the tag of a field, with the type of this field and the
  value it has in the configuration: written back it changes nothing. No default is registered for
  addresses, tokens, the log file and everything about TLS.
\<close>

theorem registered_defaults:
  "list_all (\<lambda>(k, v). case map_of configTags k of None \<Rightarrow> False | Some f \<Rightarrow> f v c = Some c) (setDefaults c)"
  "distinct (map fst (setDefaults c))"
  "filter (\<lambda>k. k \<notin> set (map fst (setDefaults c))) (map fst configTags) =
     [''coordinator.auth_token'', ''coordinator.tls_cert'', ''coordinator.tls_key'',
      ''worker.coordinator_addr'', ''worker.auth_token'', ''client.coordinator_addr'', ''client.auth_token'',
      ''log.file'', ''tls.enabled'', ''tls.cert_file'', ''tls.key_file'', ''tls.client_ca'',
      ''tls.require_client_cert'', ''tls.insecure_skip_verify'']"
  by (simp_all add: setDefaults_def configTags_list)

subsection \<open>What validation accepts\<close>

lemma first_error_None: "first_error vs = None \<longleftrightarrow> list_all (\<lambda>v. v = None) vs"
  by (induction vs rule: first_error.induct) auto

lemmas validates = first_error_None Coordinator_Validate_def Worker_Validate_def Client_Validate_def Cache_Validate_def
  Log_Validate_def LogRotation_Validate_def TLS_Validate_def Tracing_Validate_def validLevels_def validFormats_def

text \<open>The defaults are valid on every machine.\<close>

theorem defaults_valid:
  assumes "0 \<le> mc_NumCPU mc"
  shows "Config_Validate (FullDefaultConfig mc) = None"
proof -
  have "path_Join [d, ''hybridgrid''] \<noteq> ''''" for d
    by (simp add: Clean_not_Nil)
  with assms show ?thesis
    by (simp add: Config_Validate_def FullDefaultConfig_def validates Second_def)
qed

text \<open>
  A sample rate that is not a number passes the range check, which compares it with both ends:
  the check accepts what it was written to refuse.
\<close>

theorem nan_sample_rate_accepted:
  "tr_Endpoint c \<noteq> '''' \<Longrightarrow> Tracing_Validate (c\<lparr>tr_Enable := True, tr_SampleRate := NaN\<rparr>) = None"
  by (simp add: Tracing_Validate_def)

text \<open>
  A worker timeout of half a second is refused with the words that it must be greater than
  zero seconds, which it is.
\<close>

theorem subsecond_timeout_message:
  "1 \<le> wk_Port c \<Longrightarrow> wk_Port c \<le> 65535 \<Longrightarrow> 0 \<le> wk_MaxParallel c \<Longrightarrow>
   Worker_Validate (c\<lparr>wk_Timeout := 500000000\<rparr>) = Some (''config: worker.timeout must be > 0s, got '' @ Duration_String 500000000)"
  by (simp add: Worker_Validate_def Second_def)

text \<open>A valid coordinator section has two usable, different ports; a refused one does not.\<close>

theorem Coordinator_Validate_exact:
  "Coordinator_Validate c = None \<longleftrightarrow>
     cc_GRPCPort c \<in> {1..65535} \<and> cc_HTTPPort c \<in> {1..65535} \<and> cc_GRPCPort c \<noteq> cc_HTTPPort c"
  by (auto simp: Coordinator_Validate_def first_error_None)

subsection \<open>Tracing configuration\<close>

text \<open>The library's own section has the same fields; the conversion copies them.\<close>

definition TracingToLibConfig :: "TracingConfig \<Rightarrow> TracingConfig" where
  "TracingToLibConfig tc =
     \<lparr>tr_Enable = tr_Enable tc, tr_Endpoint = tr_Endpoint tc, tr_ServiceName = tr_ServiceName tc,
      tr_SampleRate = tr_SampleRate tc, tr_Insecure = tr_Insecure tc, tr_Headers = tr_Headers tc,
      tr_Timeout = tr_Timeout tc, tr_BatchSize = tr_BatchSize tc\<rparr>"

definition tracing_DefaultConfig :: TracingConfig where
  "tracing_DefaultConfig =
     \<lparr>tr_Enable = False, tr_Endpoint = ''localhost:4317'', tr_ServiceName = ''hybridgrid'',
      tr_SampleRate = Fin (1 / 10), tr_Insecure = True, tr_Headers = fmempty, tr_Timeout = 10 * Second,
      tr_BatchSize = 512\<rparr>"

definition tracing_CoordinatorConfig :: TracingConfig where
  "tracing_CoordinatorConfig = tracing_DefaultConfig\<lparr>tr_ServiceName := ''hg-coord''\<rparr>"

definition tracing_WorkerConfig :: TracingConfig where
  "tracing_WorkerConfig = tracing_DefaultConfig\<lparr>tr_ServiceName := ''hg-worker''\<rparr>"

definition tracing_ClientConfig :: TracingConfig where
  "tracing_ClientConfig = tracing_DefaultConfig\<lparr>tr_ServiceName := ''hgbuild'', tr_SampleRate := Fin (1 / 100)\<rparr>"

text \<open>This \<^verbatim>\<open>Validate\<close> also fills in a missing service name.\<close>

definition tracing_Validate :: "TracingConfig \<Rightarrow> (string, TracingConfig) outcome" where
  "tracing_Validate c =
     (if \<not> tr_Enable c then Ok c
      else if tr_Endpoint c = '''' then Err ''tracing endpoint required when enabled''
      else if float_less (tr_SampleRate c) (Fin 0) \<or> float_less (Fin 1) (tr_SampleRate c)
      then Err ''sample rate must be between 0 and 1''
      else Ok (if tr_ServiceName c = '''' then c\<lparr>tr_ServiceName := ''hybridgrid''\<rparr> else c))"

text \<open>The two validations accept the same configurations.\<close>

theorem tracing_validations_agree:
  "Tracing_Validate tc = None \<longleftrightarrow> (\<exists>c. tracing_Validate (TracingToLibConfig tc) = Ok c)"
  by (simp add: Tracing_Validate_def tracing_Validate_def TracingToLibConfig_def first_error_None)

subsection \<open>Certificates\<close>

record TLSOptions =
  to_Enabled :: bool
  to_CertFile :: string
  to_KeyFile :: string
  to_ClientCA :: string
  to_InsecureSkipVerify :: bool
  to_MinVersion :: nat
  to_RequireClientCert :: bool

definition VersionTLS12 :: nat where "VersionTLS12 = 0x0303"

definition tls_DefaultConfig :: TLSOptions where
  "tls_DefaultConfig =
     \<lparr>to_Enabled = False, to_CertFile = '''', to_KeyFile = '''', to_ClientCA = '''', to_InsecureSkipVerify = False,
      to_MinVersion = VersionTLS12, to_RequireClientCert = False\<rparr>"

definition tls_Validate :: "TLSOptions \<Rightarrow> verdict" where
  "tls_Validate c =
     (if \<not> to_Enabled c then None
      else first_error
        [refuse_if (\<not> to_InsecureSkipVerify c \<and> to_CertFile c = '''') ''tls: cert_file is required when TLS is enabled'',
         refuse_if (\<not> to_InsecureSkipVerify c \<and> to_KeyFile c = '''') ''tls: key_file is required when TLS is enabled'',
         refuse_if (to_RequireClientCert c \<and> to_ClientCA c = '''')
           ''tls: client_ca is required when require_client_cert is true'',
         refuse_if (to_MinVersion c \<noteq> 0 \<and> to_MinVersion c < VersionTLS12) ''tls: min_version must be at least TLS 1.2''])"

definition IsEnabled :: "TLSOptions \<Rightarrow> bool" where "IsEnabled c = to_Enabled c"

definition IsMTLS :: "TLSOptions \<Rightarrow> bool" where "IsMTLS c \<longleftrightarrow> to_Enabled c \<and> to_RequireClientCert c"

text \<open>The certificate library and the file system.\<close>

record ('cert, 'pool) tls_lib =
  tl_LoadX509KeyPair :: "string \<Rightarrow> string \<Rightarrow> (string, 'cert) outcome"
  tl_ReadFile :: "string \<Rightarrow> (string, bytes) outcome"
  tl_CertsFromPEM :: "bytes \<Rightarrow> 'pool option"

text \<open>What the code sets of a \<^verbatim>\<open>tls.Config\<close>; an unset client authentication does not ask for one.\<close>

record ('cert, 'pool) tls_setup =
  ts_Certificates :: "'cert list"
  ts_MinVersion :: nat
  ts_InsecureSkipVerify :: bool
  ts_ClientCAs :: "'pool option"
  ts_RequireAndVerifyClientCert :: bool
  ts_RootCAs :: "'pool option"

definition loadPool ::
  "('cert, 'pool) tls_lib \<Rightarrow> string \<Rightarrow> string \<Rightarrow> string \<Rightarrow> (string, 'pool) outcome" where
  "loadPool lib path readError parseError =
     (case tl_ReadFile lib path of
        Err e \<Rightarrow> Err (readError @ e)
      | Panic \<Rightarrow> Panic
      | Ok pem \<Rightarrow> (case tl_CertsFromPEM lib pem of None \<Rightarrow> Err parseError | Some pool \<Rightarrow> Ok pool))"

definition loadPair ::
  "('cert, 'pool) tls_lib \<Rightarrow> TLSOptions \<Rightarrow> string \<Rightarrow> (string, 'cert) outcome" where
  "loadPair lib c msg =
     (case tl_LoadX509KeyPair lib (to_CertFile c) (to_KeyFile c) of
        Err e \<Rightarrow> Err (msg @ e) | Panic \<Rightarrow> Panic | Ok cert \<Rightarrow> Ok cert)"

definition LoadServerTLS ::
  "('cert, 'pool) tls_lib \<Rightarrow> TLSOptions \<Rightarrow> (string, ('cert, 'pool) tls_setup option) outcome" where
  "LoadServerTLS lib c =
     (case tls_Validate c of
        Some e \<Rightarrow> Err e
      | None \<Rightarrow>
          if \<not> to_Enabled c then Ok None
          else outcome_bind (loadPair lib c ''failed to load server certificate: '') (\<lambda>cert.
            let t = \<lparr>ts_Certificates = [cert], ts_MinVersion = to_MinVersion c, ts_InsecureSkipVerify = False,
                     ts_ClientCAs = None, ts_RequireAndVerifyClientCert = False, ts_RootCAs = None\<rparr>
            in if to_RequireClientCert c \<and> to_ClientCA c \<noteq> ''''
               then outcome_bind (loadPool lib (to_ClientCA c) ''failed to read client CA: ''
                      ''failed to parse client CA certificate'')
                    (\<lambda>pool. Ok (Some (t\<lparr>ts_ClientCAs := Some pool, ts_RequireAndVerifyClientCert := True\<rparr>)))
               else Ok (Some t)))"

definition LoadClientTLS ::
  "('cert, 'pool) tls_lib \<Rightarrow> TLSOptions \<Rightarrow> (string, ('cert, 'pool) tls_setup option) outcome" where
  "LoadClientTLS lib c =
     (case tls_Validate c of
        Some e \<Rightarrow> Err e
      | None \<Rightarrow>
          if \<not> to_Enabled c then Ok None
          else
            let t = \<lparr>ts_Certificates = [], ts_MinVersion = to_MinVersion c,
                     ts_InsecureSkipVerify = to_InsecureSkipVerify c, ts_ClientCAs = None,
                     ts_RequireAndVerifyClientCert = False, ts_RootCAs = None\<rparr>
            in outcome_bind
                 (if to_CertFile c \<noteq> '''' \<and> to_KeyFile c \<noteq> ''''
                  then outcome_bind (loadPair lib c ''failed to load client certificate: '')
                         (\<lambda>cert. Ok (t\<lparr>ts_Certificates := [cert]\<rparr>))
                  else Ok t)
                 (\<lambda>t. if to_ClientCA c \<noteq> ''''
                      then outcome_bind (loadPool lib (to_ClientCA c) ''failed to read CA certificate: ''
                             ''failed to parse CA certificate'') (\<lambda>pool. Ok (Some (t\<lparr>ts_RootCAs := Some pool\<rparr>)))
                      else Ok (Some t)))"

text \<open>\<open>newTLS\<close> is \<^verbatim>\<open>credentials.NewTLS\<close>.\<close>

definition asCredentials :: "('t \<Rightarrow> 'c) \<Rightarrow> (string, 't option) outcome \<Rightarrow> (string, 'c option) outcome" where
  "asCredentials newTLS r = outcome_bind r (\<lambda>t. Ok (map_option newTLS t))"

definition ServerCredentials ::
  "(('cert, 'pool) tls_setup \<Rightarrow> 'c) \<Rightarrow> ('cert, 'pool) tls_lib \<Rightarrow> TLSOptions \<Rightarrow> (string, 'c option) outcome" where
  "ServerCredentials newTLS lib c = asCredentials newTLS (LoadServerTLS lib c)"

definition ClientCredentials ::
  "(('cert, 'pool) tls_setup \<Rightarrow> 'c) \<Rightarrow> ('cert, 'pool) tls_lib \<Rightarrow> TLSOptions \<Rightarrow> (string, 'c option) outcome" where
  "ClientCredentials newTLS lib c = asCredentials newTLS (LoadClientTLS lib c)"

definition must :: "(string, 'a) outcome \<Rightarrow> (string, 'a) outcome" where
  "must r = (case r of Err e \<Rightarrow> Panic | _ \<Rightarrow> r)"

definition MustLoadServerTLS ::
  "('cert, 'pool) tls_lib \<Rightarrow> TLSOptions \<Rightarrow> (string, ('cert, 'pool) tls_setup option) outcome" where
  "MustLoadServerTLS lib c = must (LoadServerTLS lib c)"

definition MustLoadClientTLS ::
  "('cert, 'pool) tls_lib \<Rightarrow> TLSOptions \<Rightarrow> (string, ('cert, 'pool) tls_setup option) outcome" where
  "MustLoadClientTLS lib c = must (LoadClientTLS lib c)"

text \<open>
  C27. A server's transport security is what was configured, or there is an error. There is no setup
  without an error only when TLS is disabled, so that an error never degrades to plain text. A setup
  exists exactly when TLS is enabled, the options are valid, the key pair loads and, where client
  certificates are required, the file of the authority can be read and holds a certificate. It has the
  configured certificate, the configured minimum version (zero, which leaves the choice to the TLS
  library, or TLS 1.2 and above, as validation refuses lower ones), and it requires client certificates,
  verified against the configured authority, exactly when the configuration does.
\<close>
theorem server_tls_strict:
  "(case LoadServerTLS lib c of
      Ok None \<Rightarrow> \<not> to_Enabled c
    | Ok (Some t) \<Rightarrow>
        to_Enabled c \<and>
        ts_MinVersion t = to_MinVersion c \<and> (ts_MinVersion t = 0 \<or> VersionTLS12 \<le> ts_MinVersion t) \<and>
        (\<exists>cert. tl_LoadX509KeyPair lib (to_CertFile c) (to_KeyFile c) = Ok cert \<and> ts_Certificates t = [cert]) \<and>
        ts_RequireAndVerifyClientCert t = to_RequireClientCert c \<and>
        (if to_RequireClientCert c
         then \<exists>pem. tl_ReadFile lib (to_ClientCA c) = Ok pem \<and> ts_ClientCAs t = tl_CertsFromPEM lib pem \<and> ts_ClientCAs t \<noteq> None
         else ts_ClientCAs t = None)
    | _ \<Rightarrow> to_Enabled c) \<and>
   ((\<exists>t. LoadServerTLS lib c = Ok (Some t)) \<longleftrightarrow>
      to_Enabled c \<and> tls_Validate c = None \<and>
      (\<exists>cert. tl_LoadX509KeyPair lib (to_CertFile c) (to_KeyFile c) = Ok cert) \<and>
      (if to_RequireClientCert c
       then \<exists>pem pool. tl_ReadFile lib (to_ClientCA c) = Ok pem \<and> tl_CertsFromPEM lib pem = Some pool
       else True))"
  by (auto simp: LoadServerTLS_def tls_Validate_def first_error_None loadPair_def loadPool_def Let_def
      split: outcome.splits option.splits if_splits)

end
