(* ===== verification/Discovery.thy ===== *)
theory Discovery
  imports Go_Numbers
begin

text \<open>
  Discovery on the local network: \<^verbatim>\<open>internal/discovery/mdns\<close>. A worker or a coordinator
  announces itself with TXT records (\<^verbatim>\<open>announcer.go\<close>); the worker browser keeps the workers it
  has heard of and forgets those that fall silent (\<^verbatim>\<open>browser.go\<close>); a worker or a client looks for
  the first coordinator that answers (\<^verbatim>\<open>coord_browser.go\<close>).

  The multicast library (\<^verbatim>\<open>zeroconf\<close>) is not under \<^verbatim>\<open>src\<close>: what a registration or a new resolver
  returns, and the entries it delivers, are arguments. An address is given as the string its
  \<^verbatim>\<open>String\<close> method prints.
\<close>

subsection \<open>Announcing a worker\<close>

definition ServiceType :: string where "ServiceType = ''_hybridgrid._tcp''"
definition CoordServiceType :: string where "CoordServiceType = ''_hybridgrid-coord._tcp''"

definition GiB :: int where "GiB = 1024 * 1024 * 1024"

definition buildTXTRecords :: "WorkerCapabilities option \<Rightarrow> string list" where
  "buildTXTRecords c =
     (case c of
        None \<Rightarrow> []
      | Some caps \<Rightarrow>
          (if WorkerId caps \<noteq> '''' then [''id='' @ WorkerId caps] else []) @
          (if Hostname caps \<noteq> '''' then [''host='' @ Hostname caps] else []) @
          [''cpu='' @ int_str (CpuCores caps),
           ''ram='' @ int_str (MemoryBytes caps sdiv GiB) @ ''G'',
           ''arch='' @ Architecture_String (NativeArch caps),
           ''docker='' @ FormatBool (DockerAvailable caps)] @
          (if DockerImages caps \<noteq> []
           then [''images='' @
                   Join '','' (if length (DockerImages caps) > 5 then take 5 (DockerImages caps)
                             else DockerImages caps)]
           else []) @
          [''max_parallel='' @ int_str (MaxParallelTasks caps)] @
          (if Version caps \<noteq> '''' then [''version='' @ Version caps] else []) @
          (if Os caps \<noteq> '''' then [''os='' @ Os caps] else []))"

text \<open>
  An announcer holds the running registration, if there is one. Starting it again while one
  runs is an error; \<^verbatim>\<open>Stop\<close> shuts down the registration and reports it here as its second result.
\<close>

record 's Announcer =
  an_server :: "'s option"
  an_instance :: string
  an_port :: int

definition NewAnnouncer :: "string \<Rightarrow> int \<Rightarrow> 's Announcer" where
  "NewAnnouncer name port = \<lparr>an_server = None, an_instance = name, an_port = port\<rparr>"

definition Announcer_Start ::
  "(string \<Rightarrow> string \<Rightarrow> int \<Rightarrow> string list \<Rightarrow> (string, 's) outcome) \<Rightarrow> WorkerCapabilities option \<Rightarrow>
   's Announcer \<Rightarrow> 's Announcer \<times> (string, unit) outcome" where
  "Announcer_Start register caps a =
     (if an_server a \<noteq> None then (a, Err ''announcer already started'')
      else (case register (an_instance a) ServiceType (an_port a) (buildTXTRecords caps) of
              Ok server \<Rightarrow> (a\<lparr>an_server := Some server\<rparr>, Ok ())
            | Err e \<Rightarrow> (a, Err (''failed to register mDNS service: '' @ e))
            | Panic \<Rightarrow> (a, Panic)))"

definition Announcer_Stop :: "'s Announcer \<Rightarrow> 's Announcer \<times> 's list" where
  "Announcer_Stop a =
     (case an_server a of
        None \<Rightarrow> (a, [])
      | Some server \<Rightarrow> (a\<lparr>an_server := None\<rparr>, [server]))"

subsection \<open>Reading TXT records\<close>

text \<open>\<^verbatim>\<open>strings.SplitN(record, "=", 2)\<close> has two parts exactly when there is an equals sign.\<close>

definition cutRecord :: "string \<Rightarrow> (string \<times> string) option" where
  "cutRecord r =
     (if CHR ''='' \<in> set r
      then Some (takeWhile (\<lambda>c. c \<noteq> CHR ''='') r, tl (dropWhile (\<lambda>c. c \<noteq> CHR ''='') r))
      else None)"

fun ParseTXT_loop :: "(string, string) fmap \<Rightarrow> string list \<Rightarrow> (string, string) fmap" where
  "ParseTXT_loop m [] = m"
| "ParseTXT_loop m (r # rs) =
     ParseTXT_loop (case cutRecord r of None \<Rightarrow> m | Some (k, v) \<Rightarrow> fmupd k v m) rs"

definition ParseTXTRecords :: "string list \<Rightarrow> (string, string) fmap" where
  "ParseTXTRecords txt = ParseTXT_loop fmempty txt"

text \<open>Indexing a map of strings: a missing key reads as the empty string.\<close>

definition txtGet :: "(string, string) fmap \<Rightarrow> string \<Rightarrow> string" where
  "txtGet m k = (case fmlookup m k of None \<Rightarrow> '''' | Some v \<Rightarrow> v)"

text \<open>What the code reads of a \<^verbatim>\<open>zeroconf.ServiceEntry\<close>.\<close>

record ServiceEntry =
  se_Instance :: string
  se_HostName :: string
  se_Port :: int
  se_Text :: "string list"
  se_AddrIPv4 :: "string list"
  se_AddrIPv6 :: "string list"

text \<open>\<^verbatim>\<open>net.JoinHostPort\<close> brackets a host with a colon in it.\<close>

definition JoinHostPort :: "string \<Rightarrow> string \<Rightarrow> string" where
  "JoinHostPort host port =
     (if CHR '':'' \<in> set host then ''['' @ host @ '']:'' @ port else host @ '':'' @ port)"

definition archFromTXT :: "string \<Rightarrow> Architecture" where
  "archFromTXT arch =
     (if arch = ''ARCH_X86_64'' then ARCH_X86_64
      else if arch = ''ARCH_ARM64'' then ARCH_ARM64
      else if arch = ''ARCH_ARMV7'' then ARCH_ARMV7
      else ARCH_UNSPECIFIED)"

definition parseCapsFromTXT ::
  "(string, string) fmap \<Rightarrow> ServiceEntry option \<Rightarrow> WorkerCapabilities" where
  "parseCapsFromTXT txt entry =
     emptyCapabilities
       \<lparr>WorkerId := txtGet txt ''id'',
        Hostname :=
          (if txtGet txt ''host'' = ''''
           then (case entry of None \<Rightarrow> '''' | Some e \<Rightarrow> trimSuffix (se_HostName e) ''.'')
           else txtGet txt ''host''),
        Os := txtGet txt ''os'',
        Version := txtGet txt ''version'',
        CpuCores := (case Atoi (txtGet txt ''cpu'') of None \<Rightarrow> 0 | Some cpu \<Rightarrow> wrap32 cpu),
        MemoryBytes :=
          (if txtGet txt ''ram'' = '''' then 0
           else (case ParseInt (trimSuffix (txtGet txt ''ram'') ''G'') of
                   None \<Rightarrow> 0 | Some gb \<Rightarrow> wrap64 (gb * GiB))),
        NativeArch := archFromTXT (txtGet txt ''arch''),
        DockerAvailable := (txtGet txt ''docker'' = ''true''),
        DockerImages :=
          (if txtGet txt ''images'' = '''' then [] else Split (CHR '','') (txtGet txt ''images'')),
        MaxParallelTasks := (case Atoi (txtGet txt ''max_parallel'') of None \<Rightarrow> 0 | Some m \<Rightarrow> wrap32 m)\<rparr>"

subsection \<open>The worker browser\<close>

record DiscoveredWorker =
  dw_ID :: string
  dw_Address :: string
  dw_Capabilities :: WorkerCapabilities
  dw_DiscoveredAt :: int
  dw_Source :: string

datatype worker_event = Found DiscoveredWorker | Lost DiscoveredWorker

text \<open>
  The callback's calls are a list of events, empty where no callback was given. A browse context
  is a flag that says whether it was cancelled; \<^verbatim>\<open>browseCtx\<close> is the last one made, and the two
  goroutines that \<^verbatim>\<open>Start\<close> launches end when theirs is cancelled.
\<close>

record Browser =
  br_workers :: "(string, DiscoveredWorker) fmap"
  br_callback :: bool
  br_contexts :: "bool list"
  br_running :: bool
  br_ttl :: int

definition DefaultTTL :: int where "DefaultTTL = 60 * Second"

definition NewBrowser :: "int \<Rightarrow> bool \<Rightarrow> Browser" where
  "NewBrowser ttl callback =
     \<lparr>br_workers = fmempty, br_callback = callback, br_contexts = [], br_running = False,
      br_ttl = (if ttl = 0 then DefaultTTL else ttl)\<rparr>"

text \<open>
  \<^verbatim>\<open>Start\<close> claims the running flag under the lock and does the rest without it; \<^verbatim>\<open>Stop\<close> may run in
  between. The second part takes what \<^verbatim>\<open>zeroconf.NewResolver\<close> returned.
\<close>

definition Start_claim :: "Browser \<Rightarrow> Browser \<times> (string, unit) outcome" where
  "Start_claim b =
     (if br_running b then (b, Err ''browser already running'') else (b\<lparr>br_running := True\<rparr>, Ok ()))"

definition Start_launch :: "(string, unit) outcome \<Rightarrow> Browser \<Rightarrow> Browser \<times> (string, unit) outcome" where
  "Start_launch resolver b =
     (case resolver of
        Ok _ \<Rightarrow> (b\<lparr>br_contexts := br_contexts b @ [False]\<rparr>, Ok ())
      | Err e \<Rightarrow> (b, Err (''failed to create resolver: '' @ e))
      | Panic \<Rightarrow> (b, Panic))"

definition Browser_Start :: "(string, unit) outcome \<Rightarrow> Browser \<Rightarrow> Browser \<times> (string, unit) outcome" where
  "Browser_Start resolver b =
     (case Start_claim b of
        (b', Ok _) \<Rightarrow> Start_launch resolver b'
      | (b', r) \<Rightarrow> (b', r))"

text \<open>\<^verbatim>\<open>Stop\<close> cancels the last context, if one was ever made.\<close>

definition Browser_Stop :: "Browser \<Rightarrow> Browser" where
  "Browser_Stop b =
     (if \<not> br_running b then b
      else b\<lparr>br_running := False,
             br_contexts := (if br_contexts b = [] then [] else butlast (br_contexts b) @ [True])\<rparr>)"

text \<open>\<^verbatim>\<open>time.NewTicker(b.ttl / 2)\<close> panics unless the period is positive.\<close>

definition cleanupPeriod :: "Browser \<Rightarrow> (string, int) outcome" where
  "cleanupPeriod b = (if br_ttl b sdiv 2 \<le> 0 then Panic else Ok (br_ttl b sdiv 2))"

definition workerAddress :: "ServiceEntry \<Rightarrow> string" where
  "workerAddress e =
     (case se_AddrIPv4 e of
        ip # _ \<Rightarrow> JoinHostPort ip (int_str (se_Port e))
      | [] \<Rightarrow>
          (case se_AddrIPv6 e of
             ip # _ \<Rightarrow> JoinHostPort ip (int_str (se_Port e))
           | [] \<Rightarrow> JoinHostPort (se_HostName e) (int_str (se_Port e))))"

definition discoveredWorker :: "int \<Rightarrow> ServiceEntry \<Rightarrow> DiscoveredWorker" where
  "discoveredWorker now e =
     (let txtMap = ParseTXTRecords (se_Text e)
      in \<lparr>dw_ID = (if txtGet txtMap ''id'' = '''' then se_Instance e else txtGet txtMap ''id''),
          dw_Address = workerAddress e,
          dw_Capabilities = parseCapsFromTXT txtMap (Some e),
          dw_DiscoveredAt = now,
          dw_Source = ''mdns''\<rparr>)"

text \<open>
  An entry replaces what was known of its worker; only the first sighting is reported, after the
  lock is released.
\<close>

definition handleDiscovery :: "int \<Rightarrow> ServiceEntry \<Rightarrow> Browser \<Rightarrow> Browser \<times> worker_event list" where
  "handleDiscovery now e b =
     (let worker = discoveredWorker now e;
          known = fmlookup (br_workers b) (dw_ID worker) \<noteq> None
      in (b\<lparr>br_workers := fmupd (dw_ID worker) worker (br_workers b)\<rparr>,
          if \<not> known \<and> br_callback b then [Found worker] else []))"

text \<open>
  The loop over the entries channel: nil pointers are skipped, a cancelled context or a closed
  channel ends it. An arrival carries the clock reading of its handling.
\<close>

datatype arrival = Arrived int "ServiceEntry option" | ChannelClosed | ContextDone

fun browse_loop :: "arrival list \<Rightarrow> Browser \<Rightarrow> Browser \<times> worker_event list" where
  "browse_loop [] b = (b, [])"
| "browse_loop (Arrived now (Some e) # as) b =
     (let (b', evs) = handleDiscovery now e b; (b'', evs') = browse_loop as b' in (b'', evs @ evs'))"
| "browse_loop (Arrived now None # as) b = browse_loop as b"
| "browse_loop (ChannelClosed # as) b = (b, [])"
| "browse_loop (ContextDone # as) b = (b, [])"

definition silent :: "int \<Rightarrow> Browser \<Rightarrow> DiscoveredWorker \<Rightarrow> bool" where
  "silent now b w \<longleftrightarrow> br_ttl b < time_sub now (dw_DiscoveredAt w)"

text \<open>One pass over the workers, in the order \<open>ids\<close> of the map.\<close>

fun cleanup_loop :: "int \<Rightarrow> string list \<Rightarrow> Browser \<Rightarrow> Browser \<times> worker_event list" where
  "cleanup_loop now [] b = (b, [])"
| "cleanup_loop now (i # is) b =
     (case fmlookup (br_workers b) i of
        None \<Rightarrow> cleanup_loop now is b
      | Some w \<Rightarrow>
          if silent now b w
          then (let (b', evs) = cleanup_loop now is (b\<lparr>br_workers := fmdrop i (br_workers b)\<rparr>)
                in (b', (if br_callback b then [Lost w] else []) @ evs))
          else cleanup_loop now is b)"

definition Browser_cleanup :: "int \<Rightarrow> string list \<Rightarrow> Browser \<Rightarrow> Browser \<times> worker_event list" where
  "Browser_cleanup now order b = cleanup_loop now order b"

definition Browser_List :: "string list \<Rightarrow> Browser \<Rightarrow> DiscoveredWorker list" where
  "Browser_List order b = range_vals (br_workers b) order"

definition Browser_Get :: "string \<Rightarrow> Browser \<Rightarrow> DiscoveredWorker option" where
  "Browser_Get i b = fmlookup (br_workers b) i"

definition Browser_Count :: "Browser \<Rightarrow> nat" where
  "Browser_Count b = map_len (br_workers b)"

subsection \<open>Announcing and finding a coordinator\<close>

record CoordAnnouncerConfig =
  ca_Instance :: string
  ca_GRPCPort :: int
  ca_HTTPPort :: int
  ca_Version :: string
  ca_InstanceID :: string
  ca_ServiceName :: string

record 's CoordAnnouncer =
  co_server :: "'s option"
  co_cfg :: CoordAnnouncerConfig
  co_serviceName :: string

definition NewCoordAnnouncer :: "CoordAnnouncerConfig \<Rightarrow> 's CoordAnnouncer" where
  "NewCoordAnnouncer cfg =
     \<lparr>co_server = None, co_cfg = cfg,
      co_serviceName = (if ca_ServiceName cfg = '''' then CoordServiceType else ca_ServiceName cfg)\<rparr>"

definition coord_buildTXTRecords :: "CoordAnnouncerConfig \<Rightarrow> string list" where
  "coord_buildTXTRecords cfg =
     [''grpc_port='' @ int_str (ca_GRPCPort cfg), ''http_port='' @ int_str (ca_HTTPPort cfg)] @
     (if ca_Version cfg \<noteq> '''' then [''version='' @ ca_Version cfg] else []) @
     (if ca_InstanceID cfg \<noteq> '''' then [''instance_id='' @ ca_InstanceID cfg] else [])"

definition CoordAnnouncer_Start ::
  "(string \<Rightarrow> string \<Rightarrow> int \<Rightarrow> string list \<Rightarrow> (string, 's) outcome) \<Rightarrow>
   's CoordAnnouncer \<Rightarrow> 's CoordAnnouncer \<times> (string, unit) outcome" where
  "CoordAnnouncer_Start register a =
     (if co_server a \<noteq> None then (a, Err ''coordinator announcer already started'')
      else (case register (ca_Instance (co_cfg a)) (co_serviceName a) (ca_GRPCPort (co_cfg a))
                   (coord_buildTXTRecords (co_cfg a)) of
              Ok server \<Rightarrow> (a\<lparr>co_server := Some server\<rparr>, Ok ())
            | Err e \<Rightarrow> (a, Err (''failed to register coordinator mDNS: '' @ e))
            | Panic \<Rightarrow> (a, Panic)))"

definition CoordAnnouncer_Stop :: "'s CoordAnnouncer \<Rightarrow> 's CoordAnnouncer \<times> 's list" where
  "CoordAnnouncer_Stop a =
     (case co_server a of
        None \<Rightarrow> (a, [])
      | Some server \<Rightarrow> (a\<lparr>co_server := None\<rparr>, [server]))"

record DiscoveredCoordinator =
  dc_Instance :: string
  dc_Address :: string
  dc_GRPCPort :: int
  dc_HTTPPort :: int
  dc_Version :: string
  dc_InstanceID :: string

record CoordBrowser =
  cb_timeout :: int
  cb_serviceName :: string

definition NewCoordBrowser :: "int \<Rightarrow> string \<Rightarrow> CoordBrowser" where
  "NewCoordBrowser timeout name =
     \<lparr>cb_timeout = (if timeout = 0 then 10 * Second else timeout),
      cb_serviceName = (if name = '''' then CoordServiceType else name)\<rparr>"

text \<open>The loops over the addresses take the first; an address never prints as the empty string.\<close>

definition entryHost :: "ServiceEntry \<Rightarrow> string" where
  "entryHost e =
     (let v4 = (case se_AddrIPv4 e of ip # _ \<Rightarrow> ip | [] \<Rightarrow> '''');
          v6 = (if v4 = '''' then (case se_AddrIPv6 e of ip # _ \<Rightarrow> ip | [] \<Rightarrow> '''') else v4)
      in if v6 = '''' then se_HostName e else v6)"

definition parseEntry :: "ServiceEntry \<Rightarrow> DiscoveredCoordinator" where
  "parseEntry e =
     (let txt = ParseTXTRecords (se_Text e);
          grpcPort = (case Atoi (txtGet txt ''grpc_port'') of Some p \<Rightarrow> p | None \<Rightarrow> se_Port e);
          httpPort = (case Atoi (txtGet txt ''http_port'') of Some p \<Rightarrow> p | None \<Rightarrow> 0)
      in \<lparr>dc_Instance = se_Instance e,
          dc_Address = JoinHostPort (entryHost e) (int_str grpcPort),
          dc_GRPCPort = grpcPort, dc_HTTPPort = httpPort,
          dc_Version = txtGet txt ''version'', dc_InstanceID = txtGet txt ''instance_id''\<rparr>)"

text \<open>
  What happens during a discovery, in the order in which \<^verbatim>\<open>Discover\<close> notices it: an entry arrives
  (the channel may carry a nil pointer), browsing fails, or the deadline passes. The call returns
  at the first of them that decides it; \<open>None\<close> stands for a call that is still waiting.
\<close>

datatype discovery_event = Entry "ServiceEntry option" | BrowseFailed string | DeadlinePassed

fun discover_wait ::
  "CoordBrowser \<Rightarrow> discovery_event list \<Rightarrow> (string, DiscoveredCoordinator) outcome option" where
  "discover_wait b [] = None"
| "discover_wait b (Entry None # evs) = discover_wait b evs"
| "discover_wait b (Entry (Some e) # evs) = Some (Ok (parseEntry e))"
| "discover_wait b (BrowseFailed e # evs) = Some (Err (''browse failed: '' @ e))"
| "discover_wait b (DeadlinePassed # evs) =
     Some (Err (''coordinator discovery timeout after '' @ Duration_String (cb_timeout b)))"

definition Discover ::
  "(string, unit) outcome \<Rightarrow> discovery_event list \<Rightarrow> CoordBrowser \<Rightarrow>
   (string, DiscoveredCoordinator) outcome option" where
  "Discover resolver evs b =
     (case resolver of
        Ok _ \<Rightarrow> discover_wait b evs
      | Err e \<Rightarrow> Some (Err (''failed to create resolver: '' @ e))
      | Panic \<Rightarrow> Some Panic)"

definition DiscoverWithFallback ::
  "(string, unit) outcome \<Rightarrow> discovery_event list \<Rightarrow> string \<Rightarrow> CoordBrowser \<Rightarrow>
   (string, string) outcome option" where
  "DiscoverWithFallback resolver evs fallback b =
     (case Discover resolver evs b of
        None \<Rightarrow> None
      | Some (Ok coord) \<Rightarrow> Some (Ok (dc_Address coord))
      | Some (Err e) \<Rightarrow>
          if fallback \<noteq> '''' then Some (Ok fallback)
          else Some (Err (''no coordinator found: mDNS failed ('' @ e @ '') and no fallback provided''))
      | Some Panic \<Rightarrow> Some Panic)"

subsection \<open>Lookups in announced records\<close>

definition txtRecord :: "string \<times> string \<Rightarrow> string" where
  "txtRecord kv = fst kv @ CHR ''='' # snd kv"

lemma cutRecord_txtRecord: "CHR ''='' \<notin> set k \<Longrightarrow> cutRecord (txtRecord (k, v)) = Some (k, v)"
proof -
  assume "CHR ''='' \<notin> set k"
  then have "c \<noteq> CHR ''=''" if "c \<in> set k" for c using that by auto
  then show ?thesis by (simp add: cutRecord_def txtRecord_def takeWhile_append2 dropWhile_append2)
qed

lemma ParseTXT_loop_lookup:
  assumes "\<forall>kv \<in> set kvs. CHR ''='' \<notin> set (fst kv)"
  shows "fmlookup (ParseTXT_loop m (map txtRecord kvs)) k =
    (case map_of (rev kvs) k of None \<Rightarrow> fmlookup m k | Some v \<Rightarrow> Some v)"
  using assms
proof (induction kvs arbitrary: m)
  case (Cons kv kvs)
  obtain a v where kv: "kv = (a, v)" by (cases kv)
  with Cons.prems have "cutRecord (txtRecord kv) = Some (a, v)"
    by (simp add: cutRecord_txtRecord)
  with Cons kv show ?case by (auto simp: map_add_def split: option.split)
qed simp

lemma ParseTXTRecords_lookup:
  assumes "\<forall>kv \<in> set kvs. CHR ''='' \<notin> set (fst kv)" and "distinct (map fst kvs)"
  shows "txtGet (ParseTXTRecords (map txtRecord kvs)) k = (case map_of kvs k of None \<Rightarrow> '''' | Some v \<Rightarrow> v)"
proof -
  have "map_of (rev kvs) = map_of kvs"
    using assms(2) by (subst map_of_inject_set) (simp_all add: rev_map[symmetric])
  then show ?thesis
    using ParseTXT_loop_lookup[OF assms(1), of fmempty k]
    by (simp add: txtGet_def ParseTXTRecords_def split: option.split)
qed

text \<open>The keys and values that a worker announces.\<close>

definition announcedPairs :: "WorkerCapabilities \<Rightarrow> (string \<times> string) list" where
  "announcedPairs caps =
     (if WorkerId caps \<noteq> '''' then [(''id'', WorkerId caps)] else []) @
     (if Hostname caps \<noteq> '''' then [(''host'', Hostname caps)] else []) @
     [(''cpu'', int_str (CpuCores caps)), (''ram'', int_str (MemoryBytes caps sdiv GiB) @ ''G''),
      (''arch'', Architecture_String (NativeArch caps)), (''docker'', FormatBool (DockerAvailable caps))] @
     (if DockerImages caps \<noteq> [] then [(''images'', Join '','' (take 5 (DockerImages caps)))] else []) @
     [(''max_parallel'', int_str (MaxParallelTasks caps))] @
     (if Version caps \<noteq> '''' then [(''version'', Version caps)] else []) @
     (if Os caps \<noteq> '''' then [(''os'', Os caps)] else [])"

lemma buildTXTRecords_pairs: "buildTXTRecords (Some caps) = map txtRecord (announcedPairs caps)"
  by (simp add: buildTXTRecords_def announcedPairs_def txtRecord_def)

lemma announced_lookup:
  "txtGet (ParseTXTRecords (buildTXTRecords (Some caps))) k =
     (case map_of (announcedPairs caps) k of None \<Rightarrow> '''' | Some v \<Rightarrow> v)"
  unfolding buildTXTRecords_pairs
  by (rule ParseTXTRecords_lookup) (auto simp: announcedPairs_def)

lemma map_of_if: "map_of (if c then xs else ys) = (if c then map_of xs else map_of ys)"
  by simp

lemmas announced_simps = announced_lookup announcedPairs_def map_of_append map_of_if map_add_def

lemma announced_values:
  "txtGet (ParseTXTRecords (buildTXTRecords (Some caps))) ''id'' = WorkerId caps"
  "txtGet (ParseTXTRecords (buildTXTRecords (Some caps))) ''host'' = Hostname caps"
  "txtGet (ParseTXTRecords (buildTXTRecords (Some caps))) ''cpu'' = int_str (CpuCores caps)"
  "txtGet (ParseTXTRecords (buildTXTRecords (Some caps))) ''ram'' = int_str (MemoryBytes caps sdiv GiB) @ ''G''"
  "txtGet (ParseTXTRecords (buildTXTRecords (Some caps))) ''arch'' = Architecture_String (NativeArch caps)"
  "txtGet (ParseTXTRecords (buildTXTRecords (Some caps))) ''docker'' = FormatBool (DockerAvailable caps)"
  "txtGet (ParseTXTRecords (buildTXTRecords (Some caps))) ''images'' = Join '','' (take 5 (DockerImages caps))"
  "txtGet (ParseTXTRecords (buildTXTRecords (Some caps))) ''max_parallel'' = int_str (MaxParallelTasks caps)"
  "txtGet (ParseTXTRecords (buildTXTRecords (Some caps))) ''version'' = Version caps"
  "txtGet (ParseTXTRecords (buildTXTRecords (Some caps))) ''os'' = Os caps"
  by (simp_all add: announced_simps)

subsection \<open>What survives the announcement of a worker\<close>

text \<open>An architecture without a name is announced as a number, which the reader does not know.\<close>

definition announcedArch :: "Architecture \<Rightarrow> Architecture" where
  "announcedArch a = (case a of ARCH_UNNAMED _ \<Rightarrow> ARCH_UNSPECIFIED | _ \<Rightarrow> a)"

lemma archFromTXT_String: "archFromTXT (Architecture_String a) = announcedArch a"
proof (cases a)
  case (ARCH_UNNAMED n)
  have "CHR ''A'' \<notin> set (int_str n)" using int_str_no_special[of "CHR ''A''" n] by simp
  then have "int_str n \<noteq> CHR ''A'' # s" for s by (metis list.set_intros(1))
  with ARCH_UNNAMED show ?thesis by (simp add: archFromTXT_def announcedArch_def)
qed (simp_all add: archFromTXT_def announcedArch_def)

lemma trimSuffix_append: "trimSuffix (s @ p) p = s"
  by (simp add: trimSuffix_def HasSuffix_def)

lemma GiB_round_down:
  assumes "is_int64 m"
  shows "is_int64 (m sdiv GiB)" and "wrap64 (m sdiv GiB * GiB) = m sdiv GiB * GiB"
proof -
  have b: "0 \<le> n div GiB \<and> n div GiB \<le> n div GiB * GiB \<and> n div GiB * GiB \<le> n" if "0 \<le> n" for n
    using that unfolding GiB_def by auto
  have s: "m sdiv GiB = (if 0 \<le> m then m div GiB else - (- m div GiB))"
    by (simp add: signed_divide_int_def GiB_def sgn_if)
  show "is_int64 (m sdiv GiB)"
    using assms b[of m] b[of "- m"] unfolding s is_int64_def by auto
  have "is_int64 (m sdiv GiB * GiB)"
    using assms b[of m] b[of "- m"] unfolding s is_int64_def by auto
  then show "wrap64 (m sdiv GiB * GiB) = m sdiv GiB * GiB" by (rule wrap64_id)
qed

lemma Join_Nil_iff: "\<forall>x \<in> set xs. x \<noteq> [] \<Longrightarrow> Join sep xs = [] \<longleftrightarrow> xs = []"
  by (induction sep xs rule: Join.induct) auto

lemma announced_images:
  assumes "\<forall>i \<in> set is. i \<noteq> '''' \<and> CHR '','' \<notin> set i"
  shows "(if Join '','' (take 5 is) = '''' then [] else Split (CHR '','') (Join '','' (take 5 is))) = take 5 is"
proof -
  have t: "\<forall>i \<in> set (take 5 is). i \<noteq> '''' \<and> CHR '','' \<notin> set i" using assms set_take_subset[of 5 "is"] by blast
  show ?thesis
  proof (cases "take 5 is = []")
    case False
    with t show ?thesis using Split_Join[of "take 5 is" "CHR '',''"] Join_Nil_iff[of "take 5 is" "'',''"] by simp
  qed simp
qed

text \<open>
  C28. What a worker announces of itself is read back by the browser, with three losses: the memory
  is rounded down to whole gibibytes, only the first five Docker images are sent, and an
  architecture without a name becomes unspecified. Nothing of the compilers and build systems is
  announced. The identifiers, versions and names may hold any bytes, equals signs included; an
  image name may not be empty or contain a comma. A worker without a host name gets the one that
  the announcement itself carries.
\<close>
theorem txt_round_trip:
  assumes "is_int32 (CpuCores caps)" and "is_int32 (MaxParallelTasks caps)" and "is_int64 (MemoryBytes caps)"
    and "\<forall>i \<in> set (DockerImages caps). i \<noteq> '''' \<and> CHR '','' \<notin> set i"
  shows "parseCapsFromTXT (ParseTXTRecords (buildTXTRecords (Some caps))) entry =
    emptyCapabilities
      \<lparr>WorkerId := WorkerId caps,
       Hostname :=
         (if Hostname caps = '''' then (case entry of None \<Rightarrow> '''' | Some e \<Rightarrow> trimSuffix (se_HostName e) ''.'')
          else Hostname caps),
       CpuCores := CpuCores caps, MemoryBytes := MemoryBytes caps sdiv GiB * GiB,
       NativeArch := announcedArch (NativeArch caps), Os := Os caps,
       DockerAvailable := DockerAvailable caps, DockerImages := take 5 (DockerImages caps),
       MaxParallelTasks := MaxParallelTasks caps, Version := Version caps\<rparr>"
proof -
  have wide: "is_int64 i" if "is_int32 i" for i using that by (simp add: is_int64_def is_int32_def)
  note parsed = ParseInt_int_str[OF wide[OF assms(1)]] ParseInt_int_str[OF wide[OF assms(2)]]
    ParseInt_int_str[OF GiB_round_down(1)[OF assms(3)]]
  show ?thesis
    unfolding parseCapsFromTXT_def announced_values announced_images[OF assms(4)]
    by (simp add: parsed trimSuffix_append archFromTXT_String wrap32_id assms(1,2) GiB_round_down(2)[OF assms(3)])
qed

definition sampleCaps :: WorkerCapabilities where
  "sampleCaps = emptyCapabilities\<lparr>WorkerId := ''w=1'', CpuCores := 8, MemoryBytes := 3 * GiB + 7,
     NativeArch := ARCH_ARM64, DockerImages := [''a'', ''b'', ''c'', ''d'', ''e'', ''f''], MaxParallelTasks := 4\<rparr>"

theorem txt_round_trip_witness:
  "parseCapsFromTXT (ParseTXTRecords (buildTXTRecords (Some sampleCaps))) None =
     sampleCaps\<lparr>MemoryBytes := 3 * GiB, DockerImages := [''a'', ''b'', ''c'', ''d'', ''e'']\<rparr>"
proof -
  have "is_int32 (CpuCores sampleCaps)" "is_int32 (MaxParallelTasks sampleCaps)" "is_int64 (MemoryBytes sampleCaps)"
    "\<forall>i \<in> set (DockerImages sampleCaps). i \<noteq> '''' \<and> CHR '','' \<notin> set i"
    by (simp_all add: sampleCaps_def emptyCapabilities_def is_int32_def is_int64_def GiB_def)
  from txt_round_trip[OF this, of None] show ?thesis
    by (simp add: sampleCaps_def emptyCapabilities_def announcedArch_def GiB_def signed_divide_int_def)
qed

text \<open>An image name with a comma, which a registry digest cannot have but a field can, is read as two.\<close>

lemma comma_image_split:
  "DockerImages (parseCapsFromTXT (ParseTXTRecords (buildTXTRecords
     (Some (sampleCaps\<lparr>DockerImages := [''gcc,12'']\<rparr>)))) None) = [''gcc'', ''12'']"
  by (simp add: parseCapsFromTXT_def announced_values)

subsection \<open>The browser's table and its notifications\<close>

text \<open>
  The two activities that change the table are the handling of an entry and a cleanup pass; both
  hold the lock while they do, so a history of the browser is a sequence of them.
\<close>

datatype browser_op = Sighting int ServiceEntry | Pass int "string list"

fun browser_apply :: "browser_op \<Rightarrow> Browser \<Rightarrow> Browser \<times> worker_event list" where
  "browser_apply (Sighting now e) b = handleDiscovery now e b"
| "browser_apply (Pass now order) b = Browser_cleanup now order b"

fun browser_run :: "browser_op list \<Rightarrow> Browser \<Rightarrow> Browser \<times> worker_event list" where
  "browser_run [] b = (b, [])"
| "browser_run (p # ps) b =
     (let (b', evs) = browser_apply p b; (b'', evs') = browser_run ps b' in (b'', evs @ evs'))"

text \<open>Each pass visits the workers known at that moment, in some order.\<close>

fun orders_ok :: "browser_op list \<Rightarrow> Browser \<Rightarrow> bool" where
  "orders_ok [] b = True"
| "orders_ok (p # ps) b =
     ((case p of Pass _ order \<Rightarrow> iter_order (br_workers b) order | _ \<Rightarrow> True) \<and>
      orders_ok ps (fst (browser_apply p b)))"

fun ev_worker :: "worker_event \<Rightarrow> DiscoveredWorker" where
  "ev_worker (Found w) = w"
| "ev_worker (Lost w) = w"

fun isFound :: "worker_event \<Rightarrow> bool" where
  "isFound (Found _) = True"
| "isFound (Lost _) = False"

text \<open>What one pass does: it removes the silent workers and reports each of them.\<close>

lemma cleanup_loop_frame:
  "br_callback (fst (cleanup_loop now order b)) = br_callback b \<and> br_ttl (fst (cleanup_loop now order b)) = br_ttl b \<and>
   br_running (fst (cleanup_loop now order b)) = br_running b \<and> br_contexts (fst (cleanup_loop now order b)) = br_contexts b"
  by (induction now order b rule: cleanup_loop.induct) (auto split: option.split prod.splits)

lemma silent_cong: "br_ttl b' = br_ttl b \<Longrightarrow> silent now b' w = silent now b w"
  by (simp add: silent_def)

lemma cleanup_loop_lookup:
  "fmlookup (br_workers (fst (cleanup_loop now order b))) i =
     (case fmlookup (br_workers b) i of
        None \<Rightarrow> None
      | Some w \<Rightarrow> if i \<in> set order \<and> silent now b w then None else Some w)"
proof (induction now order b rule: cleanup_loop.induct)
  case (2 now j js b)
  show ?case
  proof (cases "fmlookup (br_workers b) j")
    case None
    with 2(1) show ?thesis by (auto split: option.split)
  next
    case (Some w)
    show ?thesis
    proof (cases "silent now b w")
      case True
      from 2(2)[OF Some True] True Some show ?thesis
        by (auto simp: silent_def split: option.split prod.split)
    next
      case False
      from 2(3)[OF Some False] False Some show ?thesis by (auto split: option.split)
    qed
  qed
qed (auto split: option.split)

lemma cleanup_loop_events:
  assumes "distinct order"
  shows "snd (cleanup_loop now order b) =
    (if br_callback b then map Lost (filter (silent now b) (range_vals (br_workers b) order)) else [])"
  using assms
proof (induction now order b rule: cleanup_loop.induct)
  case (2 now j js b)
  have drop: "range_vals (fmdrop j m) js = range_vals m js" if "j \<notin> set js" for m :: "(string, DiscoveredWorker) fmap"
    using that by (induction js) (auto split: option.split)
  show ?case
  proof (cases "fmlookup (br_workers b) j")
    case None
    with 2 show ?thesis by auto
  next
    case (Some w)
    show ?thesis
    proof (cases "silent now b w")
      case True
      from 2(2)[OF Some True] 2(4) True Some show ?thesis
        by (auto simp: drop silent_def[abs_def] split: prod.split)
    next
      case False
      from 2(3)[OF Some False] 2(4) False Some show ?thesis by auto
    qed
  qed
qed auto

text \<open>The loop over the channel is such a history, up to its end.\<close>

fun sightings :: "arrival list \<Rightarrow> browser_op list" where
  "sightings (Arrived now (Some e) # as) = Sighting now e # sightings as"
| "sightings (Arrived now None # as) = sightings as"
| "sightings _ = []"

lemma browse_loop_run: "browse_loop as b = browser_run (sightings as) b"
  by (induction as b rule: browse_loop.induct) (auto split: prod.splits)

text \<open>
  A listener that keeps its own set of workers: a notification that does not fit what it knows, a
  worker found twice or lost unknown, is an inconsistency.
\<close>

fun listen :: "string set \<Rightarrow> worker_event list \<Rightarrow> string set option" where
  "listen S [] = Some S"
| "listen S (Found w # es) = (if dw_ID w \<in> S then None else listen (insert (dw_ID w) S) es)"
| "listen S (Lost w # es) = (if dw_ID w \<in> S then listen (S - {dw_ID w}) es else None)"

definition known :: "Browser \<Rightarrow> string set" where
  "known b = {i. fmlookup (br_workers b) i \<noteq> None}"

definition filed :: "Browser \<Rightarrow> bool" where
  "filed b \<longleftrightarrow> (\<forall>i w. fmlookup (br_workers b) i = Some w \<longrightarrow> dw_ID w = i)"

lemma listen_append: "listen S (xs @ ys) = (case listen S xs of None \<Rightarrow> None | Some T \<Rightarrow> listen T ys)"
  by (induction S xs rule: listen.induct) auto

lemma listen_Lost:
  assumes "distinct (map dw_ID ws)" and "dw_ID ` set ws \<subseteq> S"
  shows "listen S (map Lost ws) = Some (S - dw_ID ` set ws)"
  using assms
proof (induction ws arbitrary: S)
  case (Cons w ws)
  then have "distinct (map dw_ID ws)" "dw_ID ` set ws \<subseteq> S - {dw_ID w}" by (simp_all add: subset_Diff_insert)
  then have "listen (S - {dw_ID w}) (map Lost ws) = Some (S - {dw_ID w} - dw_ID ` set ws)"
    by (rule Cons.IH)
  with Cons.prems show ?case by auto
qed simp

lemma table_vals_ids:
  assumes "filed b" and "distinct order"
  shows "distinct (map dw_ID (range_vals (br_workers b) order)) \<and>
    dw_ID ` set (range_vals (br_workers b) order) \<subseteq> set order"
  using assms(2)
proof (induction order)
  case (Cons i order)
  show ?case
  proof (cases "fmlookup (br_workers b) i")
    case (Some w)
    with assms(1) have "dw_ID w = i" by (simp add: filed_def)
    with Cons Some show ?thesis by auto
  qed (use Cons in auto)
qed simp

lemma pass_known:
  assumes "iter_order (br_workers b) order" and "filed b"
  shows "filed (fst (Browser_cleanup now order b))"
    and "known (fst (Browser_cleanup now order b)) =
      known b - dw_ID ` set (filter (silent now b) (range_vals (br_workers b) order))"
proof -
  note L = cleanup_loop_lookup[of now order b]
  show "filed (fst (Browser_cleanup now order b))"
    using assms(2) by (auto simp: filed_def Browser_cleanup_def L split: option.splits if_splits)
  show "known (fst (Browser_cleanup now order b)) =
      known b - dw_ID ` set (filter (silent now b) (range_vals (br_workers b) order))"
    using assms iter_order_mem[OF assms(1)]
    by (force simp: known_def filed_def Browser_cleanup_def L range_vals_set image_iff split: option.splits if_splits)
qed

lemma pass_listened:
  assumes "iter_order (br_workers b) order" and "filed b" and "br_callback b"
  shows "listen (known b) (snd (Browser_cleanup now order b)) = Some (known (fst (Browser_cleanup now order b)))"
proof -
  let ?ws = "filter (silent now b) (range_vals (br_workers b) order)"
  have d: "distinct order" using assms(1) by (rule iter_order_distinct)
  note R = table_vals_ids[OF assms(2) d]
  have "distinct (map dw_ID ?ws)" using R by (simp add: distinct_map_filter)
  moreover have "dw_ID ` set ?ws \<subseteq> known b"
    using R iter_order_mem[OF assms(1)] by (auto simp: known_def)
  ultimately have "listen (known b) (map Lost ?ws) = Some (known b - dw_ID ` set ?ws)"
    by (rule listen_Lost)
  with d assms show ?thesis by (simp add: pass_known Browser_cleanup_def[of now order b, symmetric])
      (simp add: Browser_cleanup_def cleanup_loop_events)
qed

lemma handleDiscovery_facts:
  "filed b \<Longrightarrow> filed (fst (handleDiscovery now e b))"
  "known (fst (handleDiscovery now e b)) = insert (dw_ID (discoveredWorker now e)) (known b)"
  "br_callback (fst (handleDiscovery now e b)) = br_callback b"
  "br_ttl (fst (handleDiscovery now e b)) = br_ttl b"
  "br_callback b \<Longrightarrow>
    listen (known b) (snd (handleDiscovery now e b)) = Some (known (fst (handleDiscovery now e b)))"
  by (auto simp: handleDiscovery_def Let_def filed_def known_def)

lemma browser_run_listened:
  assumes "filed b" and "br_callback b" and "orders_ok ps b"
  shows "filed (fst (browser_run ps b)) \<and>
    listen (known b) (snd (browser_run ps b)) = Some (known (fst (browser_run ps b)))"
  using assms
proof (induction ps arbitrary: b)
  case (Cons p ps)
  obtain b' evs where p: "browser_apply p b = (b', evs)" by (cases "browser_apply p b")
  have step: "filed b' \<and> br_callback b' \<and> listen (known b) evs = Some (known b')"
  proof (cases p)
    case (Sighting now e)
    with p Cons.prems handleDiscovery_facts[where b = b and now = now and e = e] show ?thesis by auto
  next
    case (Pass now order)
    with p Cons.prems pass_known(1)[of b order now] pass_listened[of b order now] cleanup_loop_frame[of now order b]
    show ?thesis by (auto simp: Browser_cleanup_def)
  qed
  with Cons.prems p have "filed (fst (browser_run ps b')) \<and>
      listen (known b') (snd (browser_run ps b')) = Some (known (fst (browser_run ps b')))"
    by (intro Cons.IH) auto
  with p step show ?case by (auto simp: listen_append split: prod.split)
qed simp

text \<open>
  C29. Whatever entries arrive and whenever cleanup passes run, the callback's notifications fit
  together: a worker is reported found only while unknown and lost only while known, and a
  listener that follows them knows exactly the workers in the table, each filed under its own
  identifier. This is the order of the table's changes; the found notification of an entry is
  delivered just after its lock is released.
\<close>
theorem browser_notifications:
  assumes "orders_ok ps (NewBrowser ttl True)"
  shows "let (b, evs) = browser_run ps (NewBrowser ttl True)
    in listen {} evs = Some {i. Browser_Get i b \<noteq> None} \<and>
       (\<forall>i w. Browser_Get i b = Some w \<longrightarrow> dw_ID w = i)"
proof -
  have "filed (NewBrowser ttl True)" "br_callback (NewBrowser ttl True)" "known (NewBrowser ttl True) = {}"
    by (simp_all add: filed_def known_def NewBrowser_def)
  with browser_run_listened[OF _ _ assms]
  have "filed (fst (browser_run ps (NewBrowser ttl True)))"
    "listen {} (snd (browser_run ps (NewBrowser ttl True))) = Some (known (fst (browser_run ps (NewBrowser ttl True))))"
    by simp_all
  then show ?thesis by (simp add: case_prod_beta Browser_Get_def filed_def known_def)
qed

definition sampleEntry :: "string \<Rightarrow> ServiceEntry" where
  "sampleEntry name = \<lparr>se_Instance = name, se_HostName = ''box.local.'', se_Port = 9001, se_Text = [],
     se_AddrIPv4 = [''10.0.0.7''], se_AddrIPv6 = []\<rparr>"

definition sampleSightings :: "browser_op list" where
  "sampleSightings = [Sighting 0 (sampleEntry ''a''), Sighting 50 (sampleEntry ''b''),
     Sighting 90 (sampleEntry ''b''), Pass 120 [''b'', ''a''], Sighting 130 (sampleEntry ''a'')]"

lemma sample_txt [simp]: "ParseTXTRecords [] = fmempty" "txtGet fmempty k = ''''"
  by (simp_all add: ParseTXTRecords_def txtGet_def)

lemma sample_ID [simp]:
  "dw_ID (discoveredWorker now (sampleEntry a)) = a"
  "dw_DiscoveredAt (discoveredWorker now (sampleEntry a)) = now"
  by (simp_all add: discoveredWorker_def sampleEntry_def Let_def)

lemma sample_orders: "orders_ok sampleSightings (NewBrowser 100 True)"
  by (simp add: sampleSightings_def NewBrowser_def handleDiscovery_def Let_def iter_order_def)

theorem browser_notifications_witness:
  "listen {} (snd (browser_run sampleSightings (NewBrowser 100 True))) =
     Some {i. Browser_Get i (fst (browser_run sampleSightings (NewBrowser 100 True))) \<noteq> None} \<and>
   length (snd (browser_run sampleSightings (NewBrowser 100 True))) = 4"
proof -
  have "length (snd (browser_run sampleSightings (NewBrowser 100 True))) = 4"
    by (simp add: sampleSightings_def NewBrowser_def handleDiscovery_def Browser_cleanup_def silent_def
        time_sub_def maxDuration_def minDuration_def Let_def)
  with browser_notifications[OF sample_orders] show ?thesis by (simp add: case_prod_beta)
qed

text \<open>
  A worker that was heard is known until a pass more than the time to live after it was last
  heard, provided the clock does not run backwards; and such a pass removes it.
\<close>

definition heardSince :: "string \<Rightarrow> int \<Rightarrow> Browser \<Rightarrow> bool" where
  "heardSince i t b \<longleftrightarrow> (\<exists>w. fmlookup (br_workers b) i = Some w \<and> t \<le> dw_DiscoveredAt w)"

fun not_before :: "int \<Rightarrow> int \<Rightarrow> browser_op \<Rightarrow> bool" where
  "not_before t ttl (Sighting now e) \<longleftrightarrow> t \<le> now"
| "not_before t ttl (Pass now order) \<longleftrightarrow> time_sub now t \<le> ttl"

lemma time_sub_antimono: "u \<le> u' \<Longrightarrow> time_sub t u' \<le> time_sub t u"
  by (simp add: time_sub_def max_def min_def)

lemma heardSince_apply:
  assumes "heardSince i t b" and "not_before t (br_ttl b) p"
  shows "heardSince i t (fst (browser_apply p b)) \<and> br_ttl (fst (browser_apply p b)) = br_ttl b"
proof (cases p)
  case (Sighting now e)
  with assms show ?thesis
    by (auto simp: heardSince_def handleDiscovery_def Let_def discoveredWorker_def)
next
  case (Pass now order)
  obtain w where w: "fmlookup (br_workers b) i = Some w" "t \<le> dw_DiscoveredAt w"
    using assms(1) by (auto simp: heardSince_def)
  have "\<not> silent now b w"
    using time_sub_antimono[OF w(2), of now] assms(2) Pass by (simp add: silent_def)
  with w Pass show ?thesis
    using cleanup_loop_frame[of now order b] by (simp add: heardSince_def Browser_cleanup_def cleanup_loop_lookup)
qed

lemma heardSince_run:
  "heardSince i t b \<Longrightarrow> list_all (not_before t (br_ttl b)) ps \<Longrightarrow> heardSince i t (fst (browser_run ps b))"
proof (induction ps arbitrary: b)
  case (Cons p ps)
  from Cons.prems heardSince_apply[of i t b p] have
    "heardSince i t (fst (browser_apply p b))" "br_ttl (fst (browser_apply p b)) = br_ttl b" by simp_all
  with Cons.IH[of "fst (browser_apply p b)"] Cons.prems show ?case by (simp add: case_prod_beta)
qed simp

theorem heard_worker_kept:
  assumes "list_all (not_before t (br_ttl b)) ps"
  shows "Browser_Get (dw_ID (discoveredWorker t e)) (fst (browser_run (Sighting t e # ps) b)) \<noteq> None"
proof -
  let ?b = "fst (handleDiscovery t e b)"
  have "heardSince (dw_ID (discoveredWorker t e)) t ?b"
    by (simp add: heardSince_def handleDiscovery_def Let_def) (simp add: discoveredWorker_def Let_def)
  moreover have "br_ttl ?b = br_ttl b" by (rule handleDiscovery_facts)
  ultimately have "heardSince (dw_ID (discoveredWorker t e)) t (fst (browser_run ps ?b))"
    using heardSince_run assms by simp
  then show ?thesis by (auto simp: heardSince_def Browser_Get_def case_prod_beta)
qed

lemma pass_exact:
  assumes "iter_order (br_workers b) order"
  shows "Browser_Get i (fst (Browser_cleanup now order b)) =
    (case Browser_Get i b of None \<Rightarrow> None | Some w \<Rightarrow> if silent now b w then None else Some w)"
  using iter_order_mem[OF assms, of i] by (auto simp: Browser_Get_def Browser_cleanup_def cleanup_loop_lookup split: option.split)

subsection \<open>Starting and stopping the browser\<close>

text \<open>
  Without overlap, at most the last browse context is live, and only while the browser runs: a
  stopped browser has no goroutine left.
\<close>

datatype browser_call = CallStart "(string, unit) outcome" | CallStop

fun call_browser :: "browser_call \<Rightarrow> Browser \<Rightarrow> Browser" where
  "call_browser (CallStart r) b = fst (Browser_Start r b)"
| "call_browser CallStop b = Browser_Stop b"

definition contexts_ok :: "Browser \<Rightarrow> bool" where
  "contexts_ok b \<longleftrightarrow> list_all id (butlast (br_contexts b)) \<and> (br_running b \<or> list_all id (br_contexts b))"

lemma contexts_ok_call:
  assumes "contexts_ok b"
  shows "contexts_ok (call_browser c b)"
proof (cases c)
  case (CallStart r)
  with assms show ?thesis
    by (auto simp: contexts_ok_def Browser_Start_def Start_claim_def Start_launch_def list_all_iff
        split: outcome.split dest: in_set_butlastD)
next
  case CallStop
  with assms show ?thesis by (auto simp: contexts_ok_def Browser_Stop_def)
qed

theorem stopped_browser_idle:
  assumes "b = fold call_browser cs (NewBrowser ttl callback)"
  shows "list_all id (br_contexts (Browser_Stop b))"
proof -
  have "contexts_ok (fold call_browser cs b0)" if "contexts_ok b0" for b0
    using that by (induction cs arbitrary: b0) (simp_all add: contexts_ok_call)
  then have "contexts_ok b" using assms by (simp add: contexts_ok_def NewBrowser_def)
  then show ?thesis by (auto simp: contexts_ok_def Browser_Stop_def)
qed

text \<open>
  A \<^verbatim>\<open>Start\<close> whose resolver cannot be made has already claimed the running flag and does not give it
  back, so every later \<^verbatim>\<open>Start\<close> is refused until someone calls \<^verbatim>\<open>Stop\<close>.
\<close>

theorem failed_start_blocks:
  assumes "\<not> br_running b"
  shows "let (b', r) = Browser_Start (Err e) b
    in r = Err (''failed to create resolver: '' @ e) \<and>
       snd (Browser_Start (Ok ()) b') = Err ''browser already running'' \<and>
       snd (Browser_Start (Ok ()) (Browser_Stop b')) = Ok ()"
  using assms by (simp add: Browser_Start_def Start_claim_def Start_launch_def Browser_Stop_def)

text \<open>
  When \<^verbatim>\<open>Stop\<close> runs between the two parts of \<^verbatim>\<open>Start\<close>, the context made afterwards is never
  cancelled, whatever is called later: its goroutines run for good.
\<close>

lemma leaked_kept:
  assumes "i < length (br_contexts b) - 1 \<or> i < length (br_contexts b) \<and> \<not> br_running b" and "\<not> br_contexts b ! i"
  shows "let b' = call_browser c b
    in (i < length (br_contexts b') - 1 \<or> i < length (br_contexts b') \<and> \<not> br_running b') \<and> \<not> br_contexts b' ! i \<or>
       (\<exists>e. c = CallStart (Err e) \<or> c = CallStart Panic) \<and> br_running b' \<and> br_contexts b' = br_contexts b"
  using assms
  by (cases c) (auto simp: Browser_Start_def Start_claim_def Start_launch_def Browser_Stop_def Let_def
      nth_append nth_butlast split: outcome.split if_splits)

theorem start_stop_race:
  assumes "\<not> br_running b" and "br_contexts b = []" and "list_all (\<lambda>c. c \<in> {CallStart (Ok ()), CallStop}) cs"
  defines "b' \<equiv> fst (Start_launch (Ok ()) (Browser_Stop (fst (Start_claim b))))"
  shows "\<not> br_contexts (fold call_browser cs b') ! 0"
proof -
  have "(0 < length (br_contexts b0) - 1 \<or> 0 < length (br_contexts b0) \<and> \<not> br_running b0) \<and> \<not> br_contexts b0 ! 0 \<Longrightarrow>
      (0 < length (br_contexts (fold call_browser cs b0)) - 1 \<or>
       0 < length (br_contexts (fold call_browser cs b0)) \<and> \<not> br_running (fold call_browser cs b0)) \<and>
      \<not> br_contexts (fold call_browser cs b0) ! 0" for b0
    using assms(3)
  proof (induction cs arbitrary: b0)
    case (Cons c cs)
    with leaked_kept[of 0 b0 c] show ?case by (auto simp: Let_def)
  qed simp
  moreover have "br_contexts b' = [False]" "\<not> br_running b'"
    using assms(1,2) by (simp_all add: b'_def Start_claim_def Browser_Stop_def Start_launch_def)
  ultimately show ?thesis by simp
qed

subsection \<open>Finding the coordinator\<close>

definition coordPairs :: "CoordAnnouncerConfig \<Rightarrow> (string \<times> string) list" where
  "coordPairs cfg =
     [(''grpc_port'', int_str (ca_GRPCPort cfg)), (''http_port'', int_str (ca_HTTPPort cfg))] @
     (if ca_Version cfg \<noteq> '''' then [(''version'', ca_Version cfg)] else []) @
     (if ca_InstanceID cfg \<noteq> '''' then [(''instance_id'', ca_InstanceID cfg)] else [])"

lemma coord_values:
  "txtGet (ParseTXTRecords (coord_buildTXTRecords cfg)) ''grpc_port'' = int_str (ca_GRPCPort cfg)"
  "txtGet (ParseTXTRecords (coord_buildTXTRecords cfg)) ''http_port'' = int_str (ca_HTTPPort cfg)"
  "txtGet (ParseTXTRecords (coord_buildTXTRecords cfg)) ''version'' = ca_Version cfg"
  "txtGet (ParseTXTRecords (coord_buildTXTRecords cfg)) ''instance_id'' = ca_InstanceID cfg"
proof -
  have "coord_buildTXTRecords cfg = map txtRecord (coordPairs cfg)"
    by (simp add: coord_buildTXTRecords_def coordPairs_def txtRecord_def)
  moreover have pairs: "\<forall>kv \<in> set (coordPairs cfg). CHR ''='' \<notin> set (fst kv)" "distinct (map fst (coordPairs cfg))"
    by (auto simp: coordPairs_def)
  ultimately have "txtGet (ParseTXTRecords (coord_buildTXTRecords cfg)) k =
      (case map_of (coordPairs cfg) k of None \<Rightarrow> '''' | Some v \<Rightarrow> v)" for k
    using ParseTXTRecords_lookup[of "coordPairs cfg" k] pairs by simp
  then show
    "txtGet (ParseTXTRecords (coord_buildTXTRecords cfg)) ''grpc_port'' = int_str (ca_GRPCPort cfg)"
    "txtGet (ParseTXTRecords (coord_buildTXTRecords cfg)) ''http_port'' = int_str (ca_HTTPPort cfg)"
    "txtGet (ParseTXTRecords (coord_buildTXTRecords cfg)) ''version'' = ca_Version cfg"
    "txtGet (ParseTXTRecords (coord_buildTXTRecords cfg)) ''instance_id'' = ca_InstanceID cfg"
    by (simp_all add: coordPairs_def map_add_def map_of_if)
qed

text \<open>
  A coordinator announces itself and a worker or client finds it. The announcer registers its
  records once; provided the network delivers an entry with the records as they were registered,
  before browsing fails or the deadline passes, discovery gives exactly the announced ports,
  version and instance, and the address to dial is the host that answered with the announced
  gRPC port, whatever port the entry itself carries. A fallback address changes nothing then.
\<close>
theorem coordinator_found:
  assumes "is_int64 (ca_GRPCPort cfg)" and "is_int64 (ca_HTTPPort cfg)"
    and "CoordAnnouncer_Start (\<lambda>name service port txt. Ok (name, service, port, txt)) (NewCoordAnnouncer cfg) = (a, Ok ())"
    and "co_server a = Some (name, service, port, txt)"
    and "se_Instance e = name" and "se_Text e = txt"
  shows "DiscoverWithFallback (Ok ()) (replicate n (Entry None) @ Entry (Some e) # evs) fallback b =
      Some (Ok (JoinHostPort (entryHost e) (int_str (ca_GRPCPort cfg)))) \<and>
    parseEntry e =
      \<lparr>dc_Instance = ca_Instance cfg, dc_Address = JoinHostPort (entryHost e) (int_str (ca_GRPCPort cfg)),
       dc_GRPCPort = ca_GRPCPort cfg, dc_HTTPPort = ca_HTTPPort cfg, dc_Version = ca_Version cfg,
       dc_InstanceID = ca_InstanceID cfg\<rparr>"
proof -
  have reg: "name = ca_Instance cfg" "txt = coord_buildTXTRecords cfg"
    using assms(3,4) by (auto simp: CoordAnnouncer_Start_def NewCoordAnnouncer_def)
  have p: "parseEntry e =
      \<lparr>dc_Instance = ca_Instance cfg, dc_Address = JoinHostPort (entryHost e) (int_str (ca_GRPCPort cfg)),
       dc_GRPCPort = ca_GRPCPort cfg, dc_HTTPPort = ca_HTTPPort cfg, dc_Version = ca_Version cfg,
       dc_InstanceID = ca_InstanceID cfg\<rparr>"
    using assms(1,2,5,6) reg by (simp add: parseEntry_def Let_def coord_values ParseInt_int_str)
  have "discover_wait b (replicate n (Entry None) @ Entry (Some e) # evs) = Some (Ok (parseEntry e))"
    by (induction n) simp_all
  with p show ?thesis by (simp add: DiscoverWithFallback_def Discover_def)
qed

definition sampleCoord :: CoordAnnouncerConfig where
  "sampleCoord = \<lparr>ca_Instance = ''coord'', ca_GRPCPort = 9000, ca_HTTPPort = 8080, ca_Version = ''1=2'',
     ca_InstanceID = '''', ca_ServiceName = ''''\<rparr>"

theorem coordinator_found_witness:
  "DiscoverWithFallback (Ok ())
     (replicate 2 (Entry None) @ [Entry (Some (sampleEntry ''coord''\<lparr>se_Text := coord_buildTXTRecords sampleCoord\<rparr>)), DeadlinePassed])
     ''other:9'' (NewCoordBrowser 0 '''') = Some (Ok (''10.0.0.7:'' @ int_str 9000))"
proof -
  let ?e = "sampleEntry ''coord''\<lparr>se_Text := coord_buildTXTRecords sampleCoord\<rparr>"
  let ?reg = "\<lambda>name service port txt. Ok (name, service, port, txt) :: (string, _) outcome"
  have 1: "is_int64 (ca_GRPCPort sampleCoord)" "is_int64 (ca_HTTPPort sampleCoord)"
    by (simp_all add: sampleCoord_def is_int64_def)
  have 2: "CoordAnnouncer_Start ?reg (NewCoordAnnouncer sampleCoord) =
      ((NewCoordAnnouncer sampleCoord)\<lparr>co_server := Some (''coord'', CoordServiceType, 9000, coord_buildTXTRecords sampleCoord)\<rparr>, Ok ())"
    by (simp add: CoordAnnouncer_Start_def NewCoordAnnouncer_def sampleCoord_def)
  have 3: "se_Instance ?e = ''coord''" "se_Text ?e = coord_buildTXTRecords sampleCoord"
    by (simp_all add: sampleEntry_def)
  from coordinator_found[OF 1 2 _ 3, of CoordServiceType 9000 2 "[DeadlinePassed]" "''other:9''" "NewCoordBrowser 0 ''''"]
  show ?thesis by (simp add: sampleEntry_def sampleCoord_def entryHost_def JoinHostPort_def)
qed

text \<open>
  Discovery always ends once the deadline passes, and with a fallback it then always gives an
  address: one of an entry that arrived, or the fallback.
\<close>

theorem discovery_total:
  assumes "DeadlinePassed \<in> set evs" and "fallback \<noteq> ''''" and "resolver \<noteq> Panic"
  shows "\<exists>addr. DiscoverWithFallback resolver evs fallback b = Some (Ok addr) \<and>
    (addr = fallback \<or> (\<exists>e. Entry (Some e) \<in> set evs \<and> addr = dc_Address (parseEntry e)))"
proof -
  have "(\<exists>e. discover_wait b evs = Some (Ok (parseEntry e)) \<and> Entry (Some e) \<in> set evs) \<or>
      (\<exists>m. discover_wait b evs = Some (Err m))"
    using assms(1) by (induction b evs rule: discover_wait.induct) auto
  with assms(2,3) show ?thesis
    by (cases resolver) (auto simp: DiscoverWithFallback_def Discover_def)
qed

end
