(* ===== verification/Capability.thy ===== *)
theory Capability
  imports Go_Numbers Go_Paths Registry
begin

text \<open>
  Capability detection, \<^verbatim>\<open>internal/capability/detect.go\<close>: what a worker finds out about its machine
  and announces. The machine is an argument: the output of the tools it runs, its files, its
  environment and the results of globbing. Paths are those of systems with one separator, so the
  detection of MSVC itself (\<^verbatim>\<open>msvc.go\<close>, theory \<open>MSVC\<close>) is an argument as well, as it is in
  \<^verbatim>\<open>detectCppForGOOS\<close>.

  The theorems relate the detection to the registry: a worker serves a kind of build exactly when
  the probe for it succeeded.
\<close>

subsection \<open>More of package strings\<close>

text \<open>The text around the first occurrence of a separator; \<^verbatim>\<open>strings.Split(s, sep)[1]\<close>.\<close>

fun cutAt :: "string \<Rightarrow> string \<Rightarrow> (string \<times> string) option" where
  "cutAt sep [] = None"
| "cutAt sep (c # s) =
     (if HasPrefix (c # s) sep then Some ([], drop (length sep) (c # s))
      else map_option (\<lambda>(a, b). (c # a, b)) (cutAt sep s))"

definition secondPart :: "string \<Rightarrow> string \<Rightarrow> string option" where
  "secondPart sep s =
     (case cutAt sep s of
        None \<Rightarrow> None
      | Some (_, rest) \<Rightarrow> Some (case cutAt sep rest of None \<Rightarrow> rest | Some (a, _) \<Rightarrow> a))"

definition Trim :: "char list \<Rightarrow> string \<Rightarrow> string" where
  "Trim cutset s = TrimRight cutset (dropWhile (\<lambda>c. c \<in> set cutset) s)"

text \<open>\<^verbatim>\<open>fmt.Sscanf(s, "%d", &v)\<close> for an \<^verbatim>\<open>int64\<close>: a sign and digits at the start; what follows is left.\<close>

definition Sscanf_d :: "string \<Rightarrow> int option" where
  "Sscanf_d s =
     (let s = dropWhile (\<lambda>c. c = CHR '' '') s;
          (sign, r) = (case s of c # r \<Rightarrow> if c = CHR ''-'' \<or> c = CHR ''+'' then ([c], r) else ([], s) | [] \<Rightarrow> ([], []))
      in ParseInt (sign @ takeWhile (\<lambda>c. digit_val c \<noteq> None) r))"

abbreviation newline :: char where "newline \<equiv> CHR 0x0A"
abbreviation return_char :: char where "return_char \<equiv> CHR 0x0D"

fun replaceCRLF :: "string \<Rightarrow> string" where
  "replaceCRLF (a # b # s) =
     (if a = return_char \<and> b = newline then newline # replaceCRLF s else a # replaceCRLF (b # s))"
| "replaceCRLF s = s"

definition replaceCR :: "string \<Rightarrow> string" where
  "replaceCR = map (\<lambda>c. if c = return_char then newline else c)"

definition keepDigits :: "string \<Rightarrow> string" where
  "keepDigits = filter (\<lambda>c. digit_val c \<noteq> None)"

subsection \<open>The machine\<close>

record MSVCInfo =
  ms_Available :: bool
  ms_Version :: string
  ms_Architectures :: "string list"
  ms_WindowsSDK :: string

text \<open>
  \<open>pe_run\<close> gives the output of a command that ended well, \<open>pe_glob\<close> the matches of a pattern, both
  nothing on an error.
\<close>

record probe =
  pe_GOOS :: string
  pe_GOARCH :: string
  pe_Hostname :: string
  pe_NumCPU :: int
  pe_run :: "string list \<Rightarrow> string option"
  pe_ReadFile :: "string \<Rightarrow> string option"
  pe_LookPath :: "string \<Rightarrow> bool"
  pe_Getenv :: "string \<Rightarrow> string"
  pe_Glob :: "string \<Rightarrow> string list option"
  pe_Stat :: "string \<Rightarrow> bool"
  pe_msvc :: "MSVCInfo option"

subsection \<open>Architecture and memory\<close>

definition detectArchForGOARCH :: "string \<Rightarrow> Architecture" where
  "detectArchForGOARCH goarch =
     (if goarch = ''amd64'' then ARCH_X86_64
      else if goarch = ''arm64'' then ARCH_ARM64
      else if goarch = ''arm'' then ARCH_ARMV7
      else ARCH_UNSPECIFIED)"

text \<open>The value of a line of \<^verbatim>\<open>/proc/meminfo\<close>; both units of the code mean kibibytes.\<close>

definition memTotalLine :: "string \<Rightarrow> int option" where
  "memTotalLine l =
     (let line = TrimSpace l
      in if HasPrefix line ''MemTotal:'' then
           (case Split (CHR '':'') line of
              _ # valueStr # _ \<Rightarrow>
                (case Fields (TrimSpace valueStr) of
                   [] \<Rightarrow> None
                 | f # _ \<Rightarrow> (case Sscanf_d f of None \<Rightarrow> None | Some v \<Rightarrow> Some (wrap64 (v * 1024))))
            | _ \<Rightarrow> None)
         else None)"

fun memTotal_loop :: "string list \<Rightarrow> int" where
  "memTotal_loop [] = 0"
| "memTotal_loop (l # ls) = (case memTotalLine l of Some v \<Rightarrow> v | None \<Rightarrow> memTotal_loop ls)"

definition detectMemoryLinux :: "probe \<Rightarrow> int" where
  "detectMemoryLinux p =
     (case pe_ReadFile p ''/proc/meminfo'' of None \<Rightarrow> 0 | Some text \<Rightarrow> memTotal_loop (Split newline text))"

definition detectMemoryDarwin :: "probe \<Rightarrow> int" where
  "detectMemoryDarwin p =
     (case pe_run p [''sysctl'', ''-n'', ''hw.memsize''] of
        None \<Rightarrow> 0
      | Some txt \<Rightarrow> (case Sscanf_d (TrimSpace txt) of None \<Rightarrow> 0 | Some n \<Rightarrow> n))"

fun wmic_loop :: "string list \<Rightarrow> int" where
  "wmic_loop [] = 0"
| "wmic_loop (l # ls) =
     (let line = TrimSpace l
      in if HasPrefix line ''TotalPhysicalMemory='' then
           (case Sscanf_d (keepDigits (trimPrefix line ''TotalPhysicalMemory='')) of
              Some n \<Rightarrow> n | None \<Rightarrow> wmic_loop ls)
         else wmic_loop ls)"

definition detectMemoryWindows :: "probe \<Rightarrow> int" where
  "detectMemoryWindows p =
     (let ps = (case pe_run p [''powershell'', ''-Command'', ''(Get-CimInstance Win32_ComputerSystem).TotalPhysicalMemory''] of
                  None \<Rightarrow> None | Some txt \<Rightarrow> Sscanf_d (keepDigits (TrimSpace txt)))
      in case ps of
           Some n \<Rightarrow> if n > 0 then n else
             (case pe_run p [''wmic'', ''ComputerSystem'', ''get'', ''TotalPhysicalMemory'', ''/value''] of
                None \<Rightarrow> 0 | Some txt \<Rightarrow> wmic_loop (Split newline (replaceCR (replaceCRLF txt))))
         | None \<Rightarrow>
             (case pe_run p [''wmic'', ''ComputerSystem'', ''get'', ''TotalPhysicalMemory'', ''/value''] of
                None \<Rightarrow> 0 | Some txt \<Rightarrow> wmic_loop (Split newline (replaceCR (replaceCRLF txt)))))"

definition detectMemoryForGOOS :: "string \<Rightarrow> int \<Rightarrow> int \<Rightarrow> int \<Rightarrow> int" where
  "detectMemoryForGOOS goos linux darwin windows =
     (if goos = ''linux'' then linux else if goos = ''darwin'' then darwin
      else if goos = ''windows'' then windows else 0)"

definition detectMemory :: "probe \<Rightarrow> int" where
  "detectMemory p =
     detectMemoryForGOOS (pe_GOOS p) (detectMemoryLinux p) (detectMemoryDarwin p) (detectMemoryWindows p)"

subsection \<open>Tool chains\<close>

definition detectDocker :: "probe \<Rightarrow> bool" where
  "detectDocker p \<longleftrightarrow> pe_run p [''docker'', ''version'', ''--format'', ''{{.Server.Version}}''] \<noteq> None"

definition emptyCpp :: CppCapability where
  "emptyCpp = \<lparr>cpp_Compilers = [], cpp_CrossCompile = False, cpp_DockerImages = [], cpp_MsvcVersion = '''',
     cpp_MsvcArchitectures = [], cpp_HasWindowsSdk = False\<rparr>"

definition cppCompilers :: "string list" where
  "cppCompilers = [''gcc'', ''g++'', ''clang'', ''clang++'']"

definition mingwCompilers :: "string list" where
  "mingwCompilers = [''x86_64-w64-mingw32-gcc'', ''i686-w64-mingw32-gcc'']"

definition crossCompilers :: "string list" where
  "crossCompilers = [''aarch64-linux-gnu-gcc'', ''arm-linux-gnueabihf-gcc'', ''x86_64-linux-gnu-gcc'',
     ''x86_64-w64-mingw32-gcc'', ''aarch64-w64-mingw32-gcc'', ''aarch64-unknown-linux-gnu-gcc'',
     ''x86_64-unknown-linux-gnu-gcc'']"

definition detectCppForGOOS :: "string \<Rightarrow> (string \<Rightarrow> bool) \<Rightarrow> MSVCInfo option \<Rightarrow> CppCapability" where
  "detectCppForGOOS goos lookPath msvcInfo =
     (let cap = emptyCpp\<lparr>cpp_Compilers := filter lookPath cppCompilers\<rparr>
      in if goos = ''windows'' then
           (let cap = (case msvcInfo of
                         Some m \<Rightarrow>
                           if ms_Available m
                           then cap\<lparr>cpp_Compilers := cpp_Compilers cap @ [''cl.exe''], cpp_MsvcVersion := ms_Version m,
                                    cpp_MsvcArchitectures := ms_Architectures m,
                                    cpp_HasWindowsSdk := (ms_WindowsSDK m \<noteq> '''')\<rparr>
                           else cap
                       | None \<Rightarrow> cap);
                mingw = filter lookPath mingwCompilers
            in cap\<lparr>cpp_Compilers := cpp_Compilers cap @ mingw, cpp_CrossCompile := (mingw \<noteq> [])\<rparr>)
         else cap\<lparr>cpp_CrossCompile := list_ex lookPath crossCompilers\<rparr>)"

definition detectCpp :: "probe \<Rightarrow> CppCapability" where
  "detectCpp p = detectCppForGOOS (pe_GOOS p) (pe_LookPath p) (pe_msvc p)"

definition detectGo :: "probe \<Rightarrow> GoCapability option" where
  "detectGo p =
     (case pe_run p [''go'', ''version''] of
        None \<Rightarrow> None
      | Some txt \<Rightarrow>
          (case Fields txt of
             _ # _ # v # _ \<Rightarrow> Some \<lparr>go_Version = trimPrefix v ''go'', go_CrossCompile = True\<rparr>
           | _ \<Rightarrow> None))"

definition nonblank :: "string \<Rightarrow> string list" where
  "nonblank txt = filter (\<lambda>l. l \<noteq> '''') (map TrimSpace (Split newline txt))"

definition detectRust :: "probe \<Rightarrow> RustCapability option" where
  "detectRust p =
     (case pe_run p [''rustc'', ''--version''] of
        None \<Rightarrow> None
      | Some txt \<Rightarrow>
          (let installed = (case pe_run p [''rustup'', ''toolchain'', ''list''] of
                              None \<Rightarrow> []
                            | Some out \<Rightarrow> concat (map (\<lambda>l. case Fields l of [] \<Rightarrow> [] | t # _ \<Rightarrow> [t]) (nonblank out)));
               targets = (case pe_run p [''rustup'', ''target'', ''list'', ''--installed''] of
                            None \<Rightarrow> [] | Some out \<Rightarrow> nonblank out);
               toolchains = (if installed = []
                             then (case Fields txt of _ # v # _ \<Rightarrow> [''stable-'' @ v] | _ \<Rightarrow> [])
                             else installed)
           in Some \<lparr>ru_Toolchains = toolchains, ru_Targets = targets\<rparr>))"

definition detectNode :: "probe \<Rightarrow> NodeCapability option" where
  "detectNode p =
     (case pe_run p [''node'', ''--version''] of
        None \<Rightarrow> None
      | Some txt \<Rightarrow>
          Some \<lparr>nd_Versions = [TrimSpace (trimPrefix txt ''v'')],
                nd_PackageManagers = filter (pe_LookPath p) [''npm'', ''yarn'', ''pnpm'', ''bun'']\<rparr>)"

text \<open>The last line that mentions the framework version and has a colon decides.\<close>

fun flutterVersion_loop :: "string \<Rightarrow> string list \<Rightarrow> string" where
  "flutterVersion_loop v [] = v"
| "flutterVersion_loop v (l # ls) =
     flutterVersion_loop
       (if Contains l ''frameworkVersion''
        then (case Split (CHR '':'') l of _ # x # _ \<Rightarrow> Trim '' \",'' x | _ \<Rightarrow> v) else v) ls"

definition detectFlutter :: "probe \<Rightarrow> FlutterCapability option" where
  "detectFlutter p =
     (case pe_run p [''flutter'', ''--version'', ''--machine''] of
        None \<Rightarrow> None
      | Some txt \<Rightarrow>
          if pe_Getenv p ''ANDROID_HOME'' = '''' \<and> pe_Getenv p ''ANDROID_SDK_ROOT'' = '''' then None
          else Some \<lparr>fl_SdkVersion = flutterVersion_loop '''' (Split newline txt), fl_Platforms = [PLATFORM_ANDROID],
                     fl_AndroidSdk = True, fl_XcodeAvailable = False\<rparr>)"

subsection \<open>Unity\<close>

definition isUnityVersion :: "string \<Rightarrow> bool" where
  "isUnityVersion s \<longleftrightarrow>
     \<not> (length s < 6 \<or> count_list s (CHR ''.'') < 2) \<and> list_all (\<lambda>c. digit_val c \<noteq> None) (take 4 s)"

text \<open>The candidate of the directory after the first \<^verbatim>\<open>Editor\<close> component, for the separator \<open>/\<close>.\<close>

definition editorVersion :: "string \<Rightarrow> string \<Rightarrow> string option" where
  "editorVersion candidate path =
     (case secondPart candidate path of
        None \<Rightarrow> None
      | Some rest \<Rightarrow>
          (let v = hd (Split slash rest); v = (if v = '''' then hd (Split (CHR 0x5C) rest) else v)
           in if isUnityVersion v then Some v else None))"

definition extractUnityVersion :: "string \<Rightarrow> string" where
  "extractUnityVersion path =
     (let parent = path_Base (path_Dir path)
      in if HasSuffix path ''.app'' \<and> isUnityVersion parent then parent
         else (case editorVersion ''/Editor/'' path of
                 Some v \<Rightarrow> v
               | None \<Rightarrow>
                   (case editorVersion (CHR 0x5C # ''Editor'' @ [CHR 0x5C]) path of
                      Some v \<Rightarrow> v
                    | None \<Rightarrow> if isUnityVersion parent then parent else '''')))"

text \<open>A path below Unity's folder on Windows, its components separated by backslashes.\<close>

definition windowsUnity :: "string list \<Rightarrow> string" where
  "windowsUnity parts =
     concat (map (\<lambda>d. d @ [CHR 0x5C]) ([''C:'', ''Program Files'', ''Unity''] @ parts)) @ ''Unity.exe''"

definition unityPatterns :: "probe \<Rightarrow> string list" where
  "unityPatterns p =
     (if pe_GOOS p = ''darwin'' then [''/Applications/Unity/Hub/Editor/*/Unity.app'', ''/Applications/Unity*.app'']
      else if pe_GOOS p = ''linux'' then
        [pe_Getenv p ''HOME'' @ ''/Unity/Hub/Editor/*/Editor/Unity'', pe_Getenv p ''HOME'' @ ''/Unity/Editor/Unity'']
      else if pe_GOOS p = ''windows'' then
        [windowsUnity [''Hub'', ''Editor'', ''*'', ''Editor''], windowsUnity [''Editor'']]
      else [])"

text \<open>Versions in the order of the matches, each once; \<open>versions\<close> serves as the set of those seen.\<close>

fun unityVersions_loop :: "string list \<Rightarrow> string list \<Rightarrow> string list" where
  "unityVersions_loop versions [] = versions"
| "unityVersions_loop versions (m # ms) =
     unityVersions_loop
       (let v = extractUnityVersion m in if v \<noteq> '''' \<and> v \<notin> set versions then versions @ [v] else versions) ms"

definition detectUnityVersions :: "probe \<Rightarrow> string list" where
  "detectUnityVersions p =
     unityVersions_loop []
       (concat (map (\<lambda>pat. case pe_Glob p pat of None \<Rightarrow> [] | Some ms \<Rightarrow> ms) (unityPatterns p)))"

definition hubEditor :: "string \<Rightarrow> string \<Rightarrow> string" where
  "hubEditor home version = home @ ''/Unity/Hub/Editor/'' @ version @ ''/Editor/Unity''"

definition getUnityEditorPath :: "probe \<Rightarrow> string \<Rightarrow> string" where
  "getUnityEditorPath p version =
     (let pattern = (if pe_GOOS p = ''darwin'' then ''/Applications/Unity/Hub/Editor/'' @ version @ ''/Unity.app''
                     else if pe_GOOS p = ''linux''
                     then hubEditor (pe_Getenv p ''HOME'') version
                     else if pe_GOOS p = ''windows'' then windowsUnity [''Hub'', ''Editor'', version, ''Editor'']
                     else '''')
      in if pe_Stat p pattern then pattern
         else if pe_GOOS p = ''darwin'' \<and> pe_Stat p ''/Applications/Unity.app'' then ''/Applications/Unity.app''
         else '''')"

definition detectUnityBuildTargets :: "probe \<Rightarrow> string \<Rightarrow> TargetPlatform list" where
  "detectUnityBuildTargets p editorPath =
     (let mac = (pe_GOOS p = ''darwin'');
          editorDir = (if mac then path_Join [editorPath, ''Contents'', ''PlaybackEngines'']
                       else path_Join [path_Dir editorPath, ''PlaybackEngines'']);
          has = (\<lambda>d. pe_Stat p (path_Join [editorDir, d]))
      in (if has ''AndroidPlayer'' then [PLATFORM_ANDROID] else []) @
         (if mac \<and> has ''iOSSupport'' then [PLATFORM_IOS] else []) @
         (if has ''WindowsStandaloneSupport'' then [PLATFORM_WINDOWS] else []) @
         (if has ''LinuxStandaloneSupport'' then [PLATFORM_LINUX] else []) @
         (if mac \<and> pe_Stat p editorPath then [PLATFORM_MACOS] else []) @
         (if has ''WebGLSupport'' then [PLATFORM_WEBGL] else []))"

definition detectUnity :: "probe \<Rightarrow> UnityCapability option" where
  "detectUnity p =
     (case detectUnityVersions p of
        [] \<Rightarrow> None
      | v # vs \<Rightarrow>
          (let editorPath = getUnityEditorPath p v
           in Some \<lparr>un_Versions = v # vs, un_LicenseType = '''',
                    un_BuildTargets = (if editorPath \<noteq> '''' then detectUnityBuildTargets p editorPath else [])\<rparr>))"

definition Detect :: "probe \<Rightarrow> WorkerCapabilities" where
  "Detect p =
     emptyCapabilities
       \<lparr>Hostname := pe_Hostname p, CpuCores := wrap32 (pe_NumCPU p), MemoryBytes := detectMemory p,
        NativeArch := detectArchForGOARCH (pe_GOARCH p), Os := pe_GOOS p, DockerAvailable := detectDocker p,
        Cpp := Some (detectCpp p), Go := detectGo p, Rust := detectRust p, Nodejs := detectNode p,
        Flutter := detectFlutter p, Unity := detectUnity p\<rparr>"

subsection \<open>What a detected worker can build\<close>

text \<open>The probe behind each kind of build that the registry distinguishes.\<close>

definition toolFound :: "probe \<Rightarrow> BuildType \<Rightarrow> bool" where
  "toolFound p bt =
     (case bt of
        BUILD_TYPE_CPP \<Rightarrow>
          list_ex (pe_LookPath p) cppCompilers \<or>
          pe_GOOS p = ''windows'' \<and>
            (list_ex (pe_LookPath p) mingwCompilers \<or> (\<exists>m. pe_msvc p = Some m \<and> ms_Available m))
      | BUILD_TYPE_GO \<Rightarrow> (\<exists>txt. pe_run p [''go'', ''version''] = Some txt \<and> 3 \<le> length (Fields txt))
      | BUILD_TYPE_RUST \<Rightarrow> pe_run p [''rustc'', ''--version''] \<noteq> None
      | BUILD_TYPE_NODEJS \<Rightarrow> pe_run p [''node'', ''--version''] \<noteq> None
      | BUILD_TYPE_FLUTTER \<Rightarrow>
          pe_run p [''flutter'', ''--version'', ''--machine''] \<noteq> None \<and>
          (pe_Getenv p ''ANDROID_HOME'' \<noteq> '''' \<or> pe_Getenv p ''ANDROID_SDK_ROOT'' \<noteq> '''')
      | _ \<Rightarrow> True)"

definition crossFound :: "probe \<Rightarrow> bool" where
  "crossFound p \<longleftrightarrow> list_ex (pe_LookPath p) (if pe_GOOS p = ''windows'' then mingwCompilers else crossCompilers)"

lemma filter_not_Nil: "filter P xs \<noteq> [] \<longleftrightarrow> list_ex P xs"
  by (induction xs) auto

lemma detectCpp_compilers: "cpp_Compilers (detectCpp p) \<noteq> [] \<longleftrightarrow> toolFound p BUILD_TYPE_CPP"
  by (auto simp: detectCpp_def detectCppForGOOS_def emptyCpp_def toolFound_def Let_def filter_not_Nil[symmetric]
      split: option.splits)

lemma detectCpp_cross: "cpp_CrossCompile (detectCpp p) \<longleftrightarrow> crossFound p"
  by (auto simp: detectCpp_def detectCppForGOOS_def emptyCpp_def crossFound_def Let_def filter_not_Nil[symmetric]
      split: option.splits)

lemma detectGo_found: "detectGo p \<noteq> None \<longleftrightarrow> toolFound p BUILD_TYPE_GO"
  by (auto simp: detectGo_def toolFound_def split: option.splits list.splits)

lemma detected_tools:
  "detectRust p \<noteq> None \<longleftrightarrow> toolFound p BUILD_TYPE_RUST"
  "detectNode p \<noteq> None \<longleftrightarrow> toolFound p BUILD_TYPE_NODEJS"
  "detectFlutter p \<noteq> None \<longleftrightarrow> toolFound p BUILD_TYPE_FLUTTER"
  by (auto simp: detectRust_def detectNode_def detectFlutter_def toolFound_def Let_def split: option.splits)

text \<open>
  Detection and registry agree. A worker that registers what it detected is offered a build of
  C++, Go, Rust, Node.js or Flutter exactly when the probe for that tool chain succeeded, and any
  other build without a probe, Unity included; and a foreign target exactly when Docker answered
  or a cross compiler was found.
\<close>
theorem detected_worker_serves:
  "matchesCapability (Some (Detect p)) bt arch \<longleftrightarrow>
     toolFound p bt \<and>
     (arch = ARCH_UNSPECIFIED \<or> arch = detectArchForGOARCH (pe_GOARCH p) \<or> detectDocker p \<or> crossFound p)"
proof -
  have "length (cpp_Compilers (detectCpp p)) > 0 \<longleftrightarrow> toolFound p BUILD_TYPE_CPP"
    using detectCpp_compilers by simp
  then show ?thesis
    using detectGo_found[of p] detected_tools[of p] detectCpp_cross[of p]
    by (cases bt) (auto simp: matchesCapability_def Detect_def emptyCapabilities_def canCrossCompile_def toolFound_def)
qed

subsection \<open>The memory of a Linux machine\<close>

definition ascii :: "string \<Rightarrow> bool" where
  "ascii s \<longleftrightarrow> (\<forall>c \<in> set s. (of_char c :: nat) < 128)"

definition blank :: "char \<Rightarrow> bool" where
  "blank c = IsSpace (of_char c)"

lemma ascii_simps [simp]:
  "ascii []" "ascii (c # s) \<longleftrightarrow> (of_char c :: nat) < 128 \<and> ascii s" "ascii (s @ t) \<longleftrightarrow> ascii s \<and> ascii t"
  by (auto simp: ascii_def)

lemma chunks_of_ascii: "ascii s \<Longrightarrow> chunks s = map (\<lambda>c. [c]) s"
  by (induction s) (simp_all add: chunks_ascii)

lemma spaceChunk_ascii: "(of_char c :: nat) < 128 \<Longrightarrow> spaceChunk [c] = blank c"
  by (simp add: spaceChunk_def blank_def)

lemma dropWhile_map_single:
  "ascii s \<Longrightarrow> dropWhile spaceChunk (map (\<lambda>c. [c]) s) = map (\<lambda>c. [c]) (dropWhile blank s)"
  by (induction s) (simp_all add: spaceChunk_ascii)

lemma ascii_dropWhile: "ascii s \<Longrightarrow> ascii (dropWhile P s)"
  by (auto simp: ascii_def dest: set_dropWhileD)

lemma ascii_rev: "ascii (rev s) \<longleftrightarrow> ascii s"
  by (simp add: ascii_def)

lemma TrimSpace_ascii:
  assumes "ascii s"
  shows "TrimSpace s = rev (dropWhile blank (rev (dropWhile blank s)))"
  using assms
  by (simp add: TrimSpace_def chunks_of_ascii dropWhile_map_single ascii_dropWhile ascii_rev rev_map
      concat_map_singleton)

text \<open>A text that starts and ends with visible characters stays; the first word ends at a blank.\<close>

lemma TrimSpace_visible:
  "ascii (a # s) \<Longrightarrow> \<not> blank a \<Longrightarrow> \<not> blank (last (a # s)) \<Longrightarrow> TrimSpace (a # s) = a # s"
proof -
  assume a: "ascii (a # s)" "\<not> blank a" "\<not> blank (last (a # s))"
  obtain b r where r: "rev (a # s) = b # r" by (cases "rev (a # s)") auto
  then have "b = last (a # s)" by (metis hd_rev list.sel(1))
  with a(3) r have "dropWhile blank (rev (a # s)) = rev (a # s)" by simp
  with a(1,2) show ?thesis by (simp add: TrimSpace_ascii)
qed

lemma chunk_words_first:
  assumes "w \<noteq> []" and "ascii w" and "\<forall>c \<in> set w. \<not> blank c" and "blank b" and "(of_char b :: nat) < 128"
  shows "chunk_words (map (\<lambda>c. [c]) w @ [b] # cs) = w # chunk_words ([b] # cs)"
  using assms(1-3)
proof (induction w)
  case (Cons a w)
  note IH = Cons.IH and prems = Cons.prems
  have b: "spaceChunk [b]" using assms(4,5) by (simp add: spaceChunk_ascii)
  have a: "\<not> spaceChunk [a]" using prems by (simp add: spaceChunk_ascii)
  show ?case
  proof (cases w)
    case Nil
    with a b show ?thesis by simp
  next
    case (Cons a' w')
    then have "\<not> spaceChunk [a']" using prems by (simp add: spaceChunk_ascii)
    with Cons IH prems a show ?thesis by auto
  qed
qed simp

lemma digit_facts:
  assumes "digit_val c \<noteq> None"
  shows "(of_char c :: nat) < 128" and "\<not> blank c" and "c \<noteq> CHR '':''" and "c \<noteq> newline"
proof -
  have r: "48 \<le> (of_char c :: nat)" "(of_char c :: nat) \<le> 57" using assms by (auto simp: digit_val_def split: if_splits)
  then show "(of_char c :: nat) < 128" "\<not> blank c" by (auto simp: blank_def IsSpace_def)
  have "(of_char (CHR '':'') :: nat) = 58" "(of_char newline :: nat) = 10" by simp_all
  with r show "c \<noteq> CHR '':''" "c \<noteq> newline" by auto
qed

lemma Sscanf_number:
  assumes "n < 2 ^ 63"
  shows "Sscanf_d (nat_str n) = Some (int n)"
proof -
  obtain c r where s: "nat_str n = c # r" by (cases "nat_str n") auto
  have d: "digit_val x \<noteq> None" if "x \<in> set (c # r)" for x using nat_str_digits[of x n] that s by simp
  have "digit_val (CHR '' '') = None" "digit_val (CHR ''-'') = None" "digit_val (CHR ''+'') = None"
    by (simp_all add: digit_val_def)
  with d[of c] have "c \<noteq> CHR '' ''" "c \<noteq> CHR ''-''" "c \<noteq> CHR ''+''" by auto
  moreover have "takeWhile (\<lambda>x. digit_val x \<noteq> None) (c # r) = c # r"
    using d by (subst takeWhile_eq_all_conv) blast
  moreover have "ParseInt (c # r) = Some (int n)"
    using ParseInt_int_str[of "int n"] assms s by (simp add: int_str_def is_int64_def)
  ultimately show ?thesis by (simp add: Sscanf_d_def s)
qed

text \<open>The line of \<^verbatim>\<open>/proc/meminfo\<close> as the kernel prints it.\<close>

definition meminfoLine :: "nat \<Rightarrow> nat \<Rightarrow> string" where
  "meminfoLine pad n = ''MemTotal:'' @ replicate pad (CHR '' '') @ nat_str n @ '' kB''"

lemma meminfoLine_value:
  assumes "n < 2 ^ 63"
  shows "memTotalLine (meminfoLine pad n) = Some (wrap64 (int n * 1024))"
proof -
  have dig: "digit_val c \<noteq> None" if "c \<in> set (nat_str n)" for c using nat_str_digits[OF that] .
  then have num: "ascii (nat_str n)" "\<forall>c \<in> set (nat_str n). \<not> blank c" "CHR '':'' \<notin> set (nat_str n)"
    using digit_facts unfolding ascii_def by metis+
  have sp: "blank (CHR '' '')" "\<not> blank (CHR ''M'')" "\<not> blank (CHR ''B'')" by (simp_all add: blank_def IsSpace_def)
  let ?v = "replicate pad (CHR '' '') @ nat_str n @ '' kB''"
  have asc: "ascii ?v" using num by (auto simp: ascii_def)
  have line: "TrimSpace (meminfoLine pad n) = meminfoLine pad n"
    using TrimSpace_visible[of "CHR ''M''" "''emTotal:'' @ ?v"] asc sp by (simp add: meminfoLine_def)
  have split: "Split (CHR '':'') (meminfoLine pad n) = [''MemTotal'', ?v]"
    using Split_append[of "CHR '':''" "''MemTotal''" ?v] num(3) by (simp add: meminfoLine_def Split_atom)
  have pre: "HasPrefix (meminfoLine pad n) ''MemTotal:''" by (simp add: meminfoLine_def HasPrefix_def)
  obtain a r where s: "nat_str n = a # r" by (cases "nat_str n") auto
  have "dropWhile blank ?v = nat_str n @ '' kB''"
  proof -
    have "dropWhile blank (replicate pad (CHR '' '') @ w) = dropWhile blank w" for w using sp by (induction pad) simp_all
    then show ?thesis using num(2) s by simp
  qed
  then have "TrimSpace ?v = TrimSpace (nat_str n @ '' kB'')"
    using asc num(1,2) s by (simp add: TrimSpace_ascii)
  also have "\<dots> = nat_str n @ '' kB''"
    using TrimSpace_visible[of a "r @ '' kB''"] num s sp by simp
  finally have "Fields (TrimSpace ?v) = nat_str n # Fields '' kB''"
    using chunk_words_first[of "nat_str n" "CHR '' ''" "map (\<lambda>c. [c]) ''kB''"] num sp
    by (simp add: Fields_def chunks_of_ascii)
  then show ?thesis
    using Sscanf_number[OF assms] pre by (simp add: memTotalLine_def line split)
qed

text \<open>
  The memory that a Linux worker announces is the kernel's figure in bytes, wherever in the file
  the line stands, provided no earlier line names the total.
\<close>

theorem detectMemoryLinux_value:
  assumes "pe_ReadFile p ''/proc/meminfo'' = Some (Join [newline] (before @ meminfoLine pad n # after))"
    and "\<forall>l \<in> set (before @ after). newline \<notin> set l" and "\<forall>l \<in> set before. memTotalLine l = None" and "n < 2 ^ 53"
  shows "detectMemoryLinux p = int n * 1024"
proof -
  have "newline \<notin> set (meminfoLine pad n)"
    using nat_str_digits[of newline n] by (auto simp: meminfoLine_def digit_val_def)
  then have lines: "Split newline (Join [newline] (before @ meminfoLine pad n # after)) = before @ meminfoLine pad n # after"
    using assms(2) by (intro Split_Join) auto
  have skip: "memTotal_loop (before @ ls) = memTotal_loop ls" for ls using assms(3) by (induction before) simp_all
  have "n < 2 ^ 63" using assms(4) by simp
  moreover have "wrap64 (int n * 1024) = int n * 1024"
    using assms(4) by (intro wrap64_id) (simp add: is_int64_def)
  ultimately show ?thesis
    using meminfoLine_value[of n pad] by (simp add: detectMemoryLinux_def assms(1) lines skip)
qed

subsection \<open>Unity installations\<close>

lemma cutAt_extend: "cutAt sep s = Some (a, b) \<Longrightarrow> cutAt sep (s @ t) = Some (a, b @ t)"
proof (induction s arbitrary: a)
  case (Cons c s)
  show ?case
  proof (cases "HasPrefix (c # s) sep")
    case True
    then obtain r where r: "c # s = sep @ r" by (auto simp: HasPrefix_iff)
    then have rt: "c # s @ t = sep @ (r @ t)" by (metis append.assoc append_Cons)
    have "HasPrefix (c # s @ t) sep" unfolding rt by simp
    moreover have "drop (length sep) (c # s) = r" unfolding r by simp
    moreover have "drop (length sep) (c # s @ t) = r @ t" unfolding rt by simp
    ultimately show ?thesis using True Cons.prems by simp
  next
    case False
    then obtain a' where a': "a = c # a'" "cutAt sep s = Some (a', b)" using Cons.prems by auto
    have "length sep \<le> length (c # s)"
    proof (rule ccontr)
      assume "\<not> length sep \<le> length (c # s)"
      then have short: "cutAt sep u = None" if "length u \<le> length s" for u
        using that by (induction u) (auto simp: HasPrefix_def)
      from short[of s] a'(2) show False by simp
    qed
    then have "take (length sep) ((c # s) @ t) = take (length sep) (c # s)" unfolding take_append by simp
    with False have "\<not> HasPrefix ((c # s) @ t) sep" unfolding HasPrefix_def by simp
    with a' Cons.IH[of a'] show ?thesis by simp
  qed
qed simp

lemma cutAt_atom:
  assumes "c \<notin> set v"
  shows "cutAt (c # w) (v @ c # w @ t) = Some (v, t)"
  using assms by (induction v) (auto simp: HasPrefix_def)

lemma HasSuffix_append: "length p \<le> length y \<Longrightarrow> HasSuffix (x @ y) p = HasSuffix y p"
  by (simp add: HasSuffix_def)

text \<open>The version of an editor that Unity Hub installed on Linux, below a home without such a directory.\<close>

lemma extract_hub:
  assumes "cutAt ''/Editor/'' (home @ ''/Unity/Hub/Editor/'') = Some (home @ ''/Unity/Hub'', '''')"
    and "isUnityVersion v" and "slash \<notin> set v"
  shows "extractUnityVersion (hubEditor home v) = v"
proof -
  let ?p = "hubEditor home v"
  have "cutAt ''/Editor/'' ?p = Some (home @ ''/Unity/Hub'', v @ ''/Editor/Unity'')"
    using cutAt_extend[OF assms(1), of "v @ ''/Editor/Unity''"] by (simp add: hubEditor_def)
  moreover have "cutAt ''/Editor/'' (v @ ''/Editor/Unity'') = Some (v, ''Unity'')"
    using cutAt_atom[OF assms(3), of "''Editor/''" "''Unity''"] by simp
  ultimately have "secondPart ''/Editor/'' ?p = Some v" by (simp add: secondPart_def)
  moreover have "hd (Split slash v) = v" using assms(3) by (simp add: Split_atom)
  moreover have "v \<noteq> ''''" using assms(2) by (auto simp: isUnityVersion_def)
  ultimately have "editorVersion ''/Editor/'' ?p = Some v" using assms(2) by (simp add: editorVersion_def Let_def)
  moreover have "\<not> HasSuffix ?p ''.app''"
    using HasSuffix_append[of "''.app''" "''/Editor/Unity''" "home @ ''/Unity/Hub/Editor/'' @ v"]
    by (simp add: HasSuffix_def hubEditor_def)
  ultimately show ?thesis by (simp add: extractUnityVersion_def Let_def)
qed

lemma unityVersions_head: "versions \<noteq> [] \<Longrightarrow> \<exists>vs. unityVersions_loop versions ms = hd versions # vs"
  by (induction versions ms rule: unityVersions_loop.induct) (auto simp: Let_def hd_append neq_Nil_conv split: if_splits)

text \<open>
  The comment calls the first version the latest one and takes the build targets from it. The
  first one is the first match, and \<^verbatim>\<open>filepath.Glob\<close> lists matches in lexical order: with editors
  installed side by side the targets are those of the oldest.
\<close>

theorem unity_targets_of_first_match:
  assumes "pe_GOOS p = ''linux''" and "pe_Getenv p ''HOME'' = home"
    and "pe_Glob p (home @ ''/Unity/Hub/Editor/*/Editor/Unity'') =
      Some (hubEditor home v # ms)"
    and "cutAt ''/Editor/'' (home @ ''/Unity/Hub/Editor/'') = Some (home @ ''/Unity/Hub'', '''')"
    and "isUnityVersion v" and "slash \<notin> set v"
    and "pe_Stat p (hubEditor home v)"
  shows "\<exists>u. detectUnity p = Some u \<and> hd (un_Versions u) = v \<and>
    un_BuildTargets u = detectUnityBuildTargets p (hubEditor home v)"
proof -
  have ne: "v \<noteq> ''''" using assms(5) by (auto simp: isUnityVersion_def)
  have "\<exists>vs. detectUnityVersions p = v # vs"
    using unityVersions_head[of "[v]"] ne
    by (simp add: detectUnityVersions_def unityPatterns_def assms(1-3) extract_hub[OF assms(4-6)])
  then obtain vs where "detectUnityVersions p = v # vs" ..
  moreover have "hubEditor home v \<noteq> ''''" by (simp add: hubEditor_def)
  ultimately show ?thesis using assms(1,2,7) by (simp add: detectUnity_def getUnityEditorPath_def Let_def)
qed

text \<open>
  The patterns for an editor installed without Unity Hub find it, but no version can be read off
  its path, so it is dropped.
\<close>

theorem standalone_unity_missed:
  "extractUnityVersion ''/home/u/Unity/Editor/Unity'' = ''''"
  "extractUnityVersion ''/Applications/Unity.app'' = ''''"
  by (simp_all add: extractUnityVersion_def editorVersion_def secondPart_def HasPrefix_def HasSuffix_def isUnityVersion_def
      path_Base_def path_Dir_def beforeLast_def afterLast_def Clean_def components_def IsAbs_def render_path_def Let_def)

end
