(* ===== verification/Programs.thy ===== *)
theory Programs
  imports Worker Settings Discovery Capability
begin

text \<open>
  The two server programs, \<^verbatim>\<open>cmd/hg-coord/main.go\<close> and \<^verbatim>\<open>cmd/hg-worker/main.go\<close>, and the gRPC client
  they use (\<^verbatim>\<open>internal/grpc/client/client.go\<close>): which flags are accepted, which configuration they
  become, how a worker finds its coordinator, registers and stays registered, and which transport
  the connections use. Flags arrive parsed; processes, sockets, tracing set-up and the HTTP
  servers are left out. An error carries the values its message prints.

  The theorems span components: what the flags become, which transport is used, and where the
  limits the two sides work with differ.
\<close>

subsection \<open>Flags\<close>

record tls_flags =
  tf_cert :: string
  tf_key :: string
  tf_ca :: string
  tf_requireClientCert :: bool

definition tlsFromFlags :: "tls_flags \<Rightarrow> TLSOptions \<Rightarrow> TLSOptions" where
  "tlsFromFlags f c =
     c\<lparr>to_CertFile := tf_cert f, to_KeyFile := tf_key f, to_ClientCA := tf_ca f,
       to_RequireClientCert := tf_requireClientCert f,
       to_Enabled := (tf_cert f \<noteq> '''' \<or> tf_key f \<noteq> '''' \<or> tf_ca f \<noteq> '''' \<or> tf_requireClientCert f)\<rparr>"

text \<open>The TLS section of a server's default configuration is the zero value.\<close>

definition zeroTLS :: TLSOptions where
  "zeroTLS = \<lparr>to_Enabled = False, to_CertFile = '''', to_KeyFile = '''', to_ClientCA = '''', to_InsecureSkipVerify = False,
     to_MinVersion = 0, to_RequireClientCert = False\<rparr>"

datatype serve_error =
    InvalidScheduler string | InvalidEpsilon real | InvalidAlpha real
  | PortOutOfRange string int | SamePorts int | TracingFailed string | TLSRefused string
  | DiscoveryFailed string | ConnectFailed string | HandshakeFailed string | RegistrationRejected string

record coord_flags =
  cf_grpcPort :: int
  cf_httpPort :: int
  cf_token :: string
  cf_noMdns :: bool
  cf_scheduler :: string
  cf_taskLog :: string
  cf_epsilon :: real
  cf_alpha :: real
  cf_tls :: tls_flags
  cf_tracing :: TracingConfig

definition validSchedulers :: "string list" where
  "validSchedulers = [''leastloaded'', ''simple'', ''p2c'', ''epsilon-greedy'', ''linucb'', ''heft'']"

definition port_ok :: "int \<Rightarrow> bool" where "port_ok p \<longleftrightarrow> \<not> (p < 1 \<or> p > 65535)"

text \<open>
  \<open>tracingInit\<close> is the outcome of setting up the exporter, asked for only when tracing is enabled.
  The result is the server configuration with its TLS and tracing sections.
\<close>

definition coord_serve ::
  "(TracingConfig \<Rightarrow> (string, unit) outcome) \<Rightarrow> coord_flags \<Rightarrow> (serve_error, Server.Config \<times> TLSOptions \<times> TracingConfig) outcome" where
  "coord_serve tracingInit f =
     (if cf_scheduler f \<notin> set validSchedulers then Err (InvalidScheduler (cf_scheduler f))
      else if cf_epsilon f < 0 \<or> cf_epsilon f > 1 then Err (InvalidEpsilon (cf_epsilon f))
      else if cf_alpha f < 0 \<or> cf_alpha f > 10 then Err (InvalidAlpha (cf_alpha f))
      else if \<not> port_ok (cf_grpcPort f) then Err (PortOutOfRange ''coordinator.grpc_port'' (cf_grpcPort f))
      else if \<not> port_ok (cf_httpPort f) then Err (PortOutOfRange ''coordinator.http_port'' (cf_httpPort f))
      else if cf_grpcPort f = cf_httpPort f then Err (SamePorts (cf_grpcPort f))
      else
        (case (if tr_Enable (cf_tracing f) then tracingInit (TracingToLibConfig (cf_tracing f)) else Ok ()) of
           Err e \<Rightarrow> Err (TracingFailed e)
         | Panic \<Rightarrow> Panic
         | Ok _ \<Rightarrow>
             (let cfg = Server.DefaultConfig\<lparr>cfg_Port := cf_grpcPort f, cfg_AuthToken := cf_token f,
                          cfg_HeartbeatTTL := 60 * Second, cfg_RequestTimeout := 120 * Second,
                          cfg_EnableRequestID := True, cfg_SchedulerType := cf_scheduler f,
                          cfg_TaskLogPath := cf_taskLog f, cfg_EpsilonValue := cf_epsilon f,
                          cfg_AlphaValue := cf_alpha f\<rparr>;
                  tls = tlsFromFlags (cf_tls f) zeroTLS
              in case (if to_Enabled tls then tls_Validate tls else None) of
                   Some e \<Rightarrow> Err (TLSRefused e)
                 | None \<Rightarrow> Ok (cfg, tls, cf_tracing f))))"

text \<open>What the coordinator announces on the network, unless told not to.\<close>

definition coordAnnouncement :: "string \<Rightarrow> string \<Rightarrow> int \<Rightarrow> coord_flags \<Rightarrow> CoordAnnouncerConfig option" where
  "coordAnnouncement hostname version pid f =
     (if cf_noMdns f then None
      else Some \<lparr>ca_Instance = ''hg-coord-'' @ hostname, ca_GRPCPort = cf_grpcPort f, ca_HTTPPort = cf_httpPort f,
                 ca_Version = version, ca_InstanceID = hostname @ ''-'' @ int_str pid, ca_ServiceName = ''''\<rparr>)"

subsection \<open>Transport of the connections\<close>

datatype 'c transport = Plaintext | Secured 'c | NoCredentials

text \<open>
  The coordinator's connections to its workers, chosen in \<^verbatim>\<open>New\<close>: when the credentials cannot be
  loaded it falls back to plain text.
\<close>

definition workerTransport :: "(('cert, 'pool) tls_setup \<Rightarrow> 'c) \<Rightarrow> ('cert, 'pool) tls_lib \<Rightarrow> TLSOptions \<Rightarrow> 'c transport" where
  "workerTransport newTLS lib tls =
     (if to_Enabled tls then
        (case ClientCredentials newTLS lib tls of Ok (Some creds) \<Rightarrow> Secured creds | _ \<Rightarrow> Plaintext)
      else Plaintext)"

record ClientConn =
  cn_Address :: string
  cn_AuthToken :: string
  cn_Timeout :: int
  cn_Insecure :: bool
  cn_EnableTracing :: bool
  cn_TLS :: TLSOptions

definition Client_New ::
  "(('cert, 'pool) tls_setup \<Rightarrow> 'c) \<Rightarrow> ('cert, 'pool) tls_lib \<Rightarrow> (string, unit) outcome \<Rightarrow> ClientConn \<Rightarrow>
   (string, ClientConn \<times> 'c transport) outcome" where
  "Client_New newTLS lib newClient cfg =
     (let cfg = (if cn_Timeout cfg = 0 then cfg\<lparr>cn_Timeout := 30 * Second\<rparr> else cfg);
          creds = (if to_Enabled (cn_TLS cfg)
                   then (case ClientCredentials newTLS lib (cn_TLS cfg) of
                           Err e \<Rightarrow> Err (''failed to load TLS credentials: '' @ e)
                         | Panic \<Rightarrow> Panic
                         | Ok None \<Rightarrow> Ok NoCredentials
                         | Ok (Some c) \<Rightarrow> Ok (Secured c))
                   else Ok (if cn_Insecure cfg then Plaintext else NoCredentials))
      in outcome_bind creds (\<lambda>t.
           case newClient of
             Ok _ \<Rightarrow> Ok (cfg, t) | Err e \<Rightarrow> Err (''failed to connect: '' @ e) | Panic \<Rightarrow> Panic))"

text \<open>The client fills in its own token where the request has none.\<close>

definition Client_Handshake :: "ClientConn \<Rightarrow> HandshakeRequest \<Rightarrow> HandshakeRequest" where
  "Client_Handshake c req = (if hs_AuthToken req = '''' then req\<lparr>hs_AuthToken := cn_AuthToken c\<rparr> else req)"

definition HandshakeWithCaps :: "ClientConn \<Rightarrow> WorkerCapabilities \<Rightarrow> HandshakeRequest" where
  "HandshakeWithCaps c caps =
     Client_Handshake c \<lparr>hs_Capabilities = Some caps, hs_AuthToken = cn_AuthToken c, hs_WorkerAddress = ''''\<rparr>"

text \<open>
  Reading a source: each read gives bytes and possibly an error, the end of the file among them.
  Go's readers may return the since bytes together with the end.
\<close>

datatype read_end = More | AtEOF | ReadError string

fun stream_chunks :: "(bytes \<times> read_end) list \<Rightarrow> (string, BuildChunk list) outcome" where
  "stream_chunks [] = Ok []"
| "stream_chunks ((bs, AtEOF) # rs) = Ok []"
| "stream_chunks ((bs, ReadError e) # rs) = Err (''failed to read source: '' @ e)"
| "stream_chunks ((bs, More) # rs) = outcome_bind (stream_chunks rs) (\<lambda>cs. Ok (SourceChunk bs # cs))"

definition Client_StreamBuild :: "BuildMetadata \<Rightarrow> (bytes \<times> read_end) list \<Rightarrow> (string, BuildChunk list) outcome" where
  "Client_StreamBuild metadata reads = outcome_bind (stream_chunks reads) (\<lambda>cs. Ok (ChunkMetadata metadata # cs))"

subsection \<open>The worker program\<close>

record worker_flags =
  wf_coordinator :: string
  wf_port :: int
  wf_httpPort :: int
  wf_token :: string
  wf_maxParallel :: int
  wf_discoveryTimeout :: int
  wf_advertise :: string
  wf_tls :: tls_flags
  wf_tracing :: TracingConfig

text \<open>
  The worker's surroundings: the machine and what the executors found on it, the library calls on
  the way to the coordinator, and the local address that the system would use to reach a target
  given as an IP address (nothing for a name, or without a route).
\<close>

record ('cert, 'pool, 'c) worker_world =
  ww_hostname :: string
  ww_numCPU :: int
  ww_caps :: WorkerCapabilities
  ww_dockerOK :: bool
  ww_msvcArchs :: "string list option"
  ww_envCoordinator :: string
  ww_resolver :: "(string, unit) outcome"
  ww_entries :: "discovery_event list"
  ww_tracingInit :: "TracingConfig \<Rightarrow> (string, unit) outcome"
  ww_newTLS :: "('cert, 'pool) tls_setup \<Rightarrow> 'c"
  ww_tlsLib :: "('cert, 'pool) tls_lib"
  ww_newClient :: "(string, unit) outcome"
  ww_outboundIP :: "string \<Rightarrow> string"

text \<open>\<^verbatim>\<open>None\<close> is a discovery that is still waiting.\<close>

definition resolveCoordinator ::
  "('cert, 'pool, 'c) worker_world \<Rightarrow> worker_flags \<Rightarrow> (serve_error, string) outcome option" where
  "resolveCoordinator w f =
     (if wf_coordinator f \<noteq> '''' then Some (Ok (wf_coordinator f))
      else (case DiscoverWithFallback (ww_resolver w) (ww_entries w) (ww_envCoordinator w)
                   (NewCoordBrowser (wf_discoveryTimeout f) '''') of
              None \<Rightarrow> None
            | Some (Ok a) \<Rightarrow> Some (Ok a)
            | Some (Err e) \<Rightarrow> Some (Err (DiscoveryFailed e))
            | Some Panic \<Rightarrow> Some Panic))"

definition advertisedAddress :: "('cert, 'pool, 'c) worker_world \<Rightarrow> worker_flags \<Rightarrow> string \<Rightarrow> string" where
  "advertisedAddress w f coordinator =
     (if wf_advertise f \<noteq> '''' then wf_advertise f
      else if ww_outboundIP w coordinator \<noteq> '''' then ww_outboundIP w coordinator @ '':'' @ int_str (wf_port f)
      else ww_hostname w @ '':'' @ int_str (wf_port f))"

text \<open>A worker ready to register: its server, its connection and the request it sends.\<close>

record 'c ready_worker =
  rw_server :: WorkerServer
  rw_conn :: ClientConn
  rw_transport :: "'c transport"
  rw_request :: HandshakeRequest

text \<open>
  \<^verbatim>\<open>srv.Capabilities()\<close> is a pointer, so the fields set on it are set in the server too.
\<close>

definition workerServer :: "('cert, 'pool, 'c) worker_world \<Rightarrow> string \<Rightarrow> int \<Rightarrow> int \<Rightarrow> WorkerServer" where
  "workerServer w version port slots =
     (let s = Worker_New (WorkerDefaultConfig\<lparr>wc_Port := port, wc_MaxConcurrent := slots, wc_EnableRequestID := True\<rparr>)
                (ww_caps w) (ww_dockerOK w) (ww_msvcArchs w)
      in s\<lparr>ws_capabilities := (ws_capabilities s)\<lparr>WorkerId := ''worker-'' @ ww_hostname w,
             MaxParallelTasks := wrap32 slots, Version := version\<rparr>\<rparr>)"

definition worker_connect ::
  "('cert, 'pool, 'c) worker_world \<Rightarrow> string \<Rightarrow> worker_flags \<Rightarrow> string \<Rightarrow> (serve_error, 'c ready_worker) outcome" where
  "worker_connect w version f coordinator =
     (let slots = (if wf_maxParallel f = 0 then ww_numCPU w else wf_maxParallel f);
          tls = tlsFromFlags (wf_tls f) zeroTLS
      in case (if tr_Enable (wf_tracing f) then ww_tracingInit w (TracingToLibConfig (wf_tracing f)) else Ok ()) of
           Err e \<Rightarrow> Err (TracingFailed e)
         | Panic \<Rightarrow> Panic
         | Ok _ \<Rightarrow>
             (case (if to_Enabled tls then tls_Validate tls else None) of
                Some e \<Rightarrow> Err (TLSRefused e)
              | None \<Rightarrow>
                  (let srv = workerServer w version (wf_port f) slots
                   in case Client_New (ww_newTLS w) (ww_tlsLib w) (ww_newClient w)
                             \<lparr>cn_Address = coordinator, cn_AuthToken = wf_token f, cn_Timeout = 30 * Second,
                              cn_Insecure = (\<not> to_Enabled tls), cn_EnableTracing = tr_Enable (wf_tracing f),
                              cn_TLS = tls\<rparr> of
                        Err e \<Rightarrow> Err (ConnectFailed e)
                      | Panic \<Rightarrow> Panic
                      | Ok (conn, t) \<Rightarrow>
                          Ok \<lparr>rw_server = srv, rw_conn = conn, rw_transport = t,
                              rw_request = \<lparr>hs_Capabilities = Some (ws_capabilities srv), hs_AuthToken = wf_token f,
                                hs_WorkerAddress = advertisedAddress w f coordinator\<rparr>\<rparr>)))"

definition worker_serve ::
  "('cert, 'pool, 'c) worker_world \<Rightarrow> string \<Rightarrow> worker_flags \<Rightarrow> (serve_error, 'c ready_worker) outcome option" where
  "worker_serve w version f =
     (if \<not> port_ok (wf_port f) then Some (Err (PortOutOfRange ''worker.port'' (wf_port f)))
      else if \<not> port_ok (wf_httpPort f) then Some (Err (PortOutOfRange ''worker.http_port'' (wf_httpPort f)))
      else if wf_port f = wf_httpPort f then Some (Err (SamePorts (wf_port f)))
      else (case resolveCoordinator w f of
              None \<Rightarrow> None
            | Some (Err e) \<Rightarrow> Some (Err e)
            | Some Panic \<Rightarrow> Some Panic
            | Some (Ok coordinator) \<Rightarrow> Some (worker_connect w version f coordinator)))"

text \<open>
  The answer to the registration: the worker goes on with the interval of its heartbeats, in
  nanoseconds, or gives up. A ticker with an interval that is not positive panics.
\<close>

definition worker_registered :: "(rpc_status, HandshakeResponse) outcome \<Rightarrow> (serve_error, int) outcome" where
  "worker_registered r =
     (case r of
        Err (InvalidArgument e) \<Rightarrow> Err (HandshakeFailed e)
      | Err (Internal e) \<Rightarrow> Err (HandshakeFailed e)
      | Panic \<Rightarrow> Panic
      | Ok resp \<Rightarrow>
          if \<not> hr_Accepted resp then Err (RegistrationRejected (hr_Message resp))
          else if hr_HeartbeatIntervalSeconds resp * Second \<le> 0 then Panic
          else Ok (hr_HeartbeatIntervalSeconds resp * Second))"

text \<open>
  The heartbeat loop sends the registration again at every tick, whatever the answer, until it is
  told to stop. The result lists the requests sent.
\<close>

datatype heartbeat_event = HeartbeatTick | HeartbeatStop

fun heartbeat_loop :: "ClientConn \<Rightarrow> HandshakeRequest \<Rightarrow> heartbeat_event list \<Rightarrow> HandshakeRequest list" where
  "heartbeat_loop c req [] = []"
| "heartbeat_loop c req (HeartbeatTick # es) = Client_Handshake c req # heartbeat_loop c req es"
| "heartbeat_loop c req (HeartbeatStop # es) = []"

subsection \<open>What the coordinator's flags configure\<close>

fun schedulerName :: "('m, 'v) Scheduler \<Rightarrow> string" where
  "schedulerName (SimpleS _) = ''simple''"
| "schedulerName LeastLoadedS = ''leastloaded''"
| "schedulerName (P2CS _) = ''p2c''"
| "schedulerName (EpsilonGreedyS _) = ''epsilon-greedy''"
| "schedulerName (LinUCBS _) = ''linucb''"
| "schedulerName (HEFTS _) = ''heft''"

text \<open>
  A coordinator that starts runs the scheduler that was asked for, and not a substitute; its
  ports are usable and different, TLS is on exactly when a TLS flag was given and then has its
  certificate and key, with the authority where client certificates are required, and a worker
  that registers with it is told to beat every 30 seconds, half the time to live.
\<close>
theorem coord_serve_sound:
  assumes "coord_serve tracingInit f = Ok (cfg, tls, tracing)"
  shows "schedulerName (newScheduler (cfg_SchedulerType cfg) (cfg_EpsilonValue cfg) (cfg_AlphaValue cfg)) = cf_scheduler f \<and>
    cf_grpcPort f \<in> {1..65535} \<and> cf_httpPort f \<in> {1..65535} \<and> cf_grpcPort f \<noteq> cf_httpPort f \<and>
    cfg_Port cfg = cf_grpcPort f \<and> cfg_AuthToken cfg = cf_token f \<and>
    (if cf_tls f = \<lparr>tf_cert = '''', tf_key = '''', tf_ca = '''', tf_requireClientCert = False\<rparr> then \<not> to_Enabled tls
     else to_Enabled tls \<and> to_CertFile tls = tf_cert (cf_tls f) \<and> tf_cert (cf_tls f) \<noteq> '''' \<and>
       to_KeyFile tls = tf_key (cf_tls f) \<and> tf_key (cf_tls f) \<noteq> '''' \<and>
       to_RequireClientCert tls = tf_requireClientCert (cf_tls f) \<and>
       to_ClientCA tls = tf_ca (cf_tls f) \<and>
       (if tf_requireClientCert (cf_tls f) then tf_ca (cf_tls f) \<noteq> '''' else True)) \<and>
    cfg_HeartbeatTTL cfg sdiv (2 * Second) = 30"
proof -
  have ok: "cf_scheduler f \<in> set validSchedulers" "port_ok (cf_grpcPort f)" "port_ok (cf_httpPort f)"
      "cf_grpcPort f \<noteq> cf_httpPort f"
    and tls: "tls = tlsFromFlags (cf_tls f) zeroTLS" "(if to_Enabled tls then tls_Validate tls else None) = None"
    and cfg: "cfg_SchedulerType cfg = cf_scheduler f" "cfg_Port cfg = cf_grpcPort f" "cfg_AuthToken cfg = cf_token f"
      "cfg_HeartbeatTTL cfg = 60 * Second"
    using assms by (auto simp: coord_serve_def Let_def split: if_splits outcome.splits option.splits)
  have "schedulerName (newScheduler (cfg_SchedulerType cfg) (cfg_EpsilonValue cfg) (cfg_AlphaValue cfg)) = cf_scheduler f"
    using ok(1) by (auto simp: cfg validSchedulers_def newScheduler_def)
  moreover have "if cf_tls f = \<lparr>tf_cert = '''', tf_key = '''', tf_ca = '''', tf_requireClientCert = False\<rparr> then \<not> to_Enabled tls
     else to_Enabled tls \<and> to_CertFile tls = tf_cert (cf_tls f) \<and> tf_cert (cf_tls f) \<noteq> '''' \<and>
       to_KeyFile tls = tf_key (cf_tls f) \<and> tf_key (cf_tls f) \<noteq> '''' \<and>
       to_RequireClientCert tls = tf_requireClientCert (cf_tls f) \<and>
       to_ClientCA tls = tf_ca (cf_tls f) \<and>
       (if tf_requireClientCert (cf_tls f) then tf_ca (cf_tls f) \<noteq> '''' else True)"
    using tls by (cases "cf_tls f") (auto simp: tlsFromFlags_def zeroTLS_def tls_Validate_def first_error_None split: if_splits)
  ultimately show ?thesis
    using ok(2-4) cfg by (auto simp: port_ok_def Second_def signed_divide_int_def)
qed

definition sampleCoordFlags :: coord_flags where
  "sampleCoordFlags = \<lparr>cf_grpcPort = 9000, cf_httpPort = 8080, cf_token = ''t'', cf_noMdns = False, cf_scheduler = ''heft'',
     cf_taskLog = '''', cf_epsilon = 1 / 10, cf_alpha = 1,
     cf_tls = \<lparr>tf_cert = ''c'', tf_key = ''k'', tf_ca = '''', tf_requireClientCert = False\<rparr>,
     cf_tracing = tracing_DefaultConfig\<rparr>"

theorem coord_serve_sound_witness:
  "\<exists>cfg tls tracing. coord_serve (\<lambda>_. Ok ()) sampleCoordFlags = Ok (cfg, tls, tracing) \<and>
     to_Enabled tls \<and> to_CertFile tls = ''c'' \<and> cfg_HeartbeatTTL cfg sdiv (2 * Second) = 30"
proof -
  obtain cfg tls tracing where r: "coord_serve (\<lambda>_. Ok ()) sampleCoordFlags = Ok (cfg, tls, tracing)"
    by (simp add: coord_serve_def sampleCoordFlags_def validSchedulers_def port_ok_def tracing_DefaultConfig_def Let_def
        tlsFromFlags_def zeroTLS_def tls_Validate_def)
  from coord_serve_sound[OF r] r show ?thesis by (auto simp: sampleCoordFlags_def)
qed

text \<open>
  Zero is within the documented range of both exploration parameters, but it cannot be had: the
  schedulers replace it by their defaults, and LinUCB's default is not the flag's.
\<close>

theorem zero_exploration_replaced:
  "newScheduler ''epsilon-greedy'' 0 a = newScheduler ''epsilon-greedy'' (1 / 10) a"
  "newScheduler ''linucb'' e 0 = newScheduler ''linucb'' e (1 / 2)"
  by (simp_all add: newScheduler_def NewLinUCBScheduler_def)

subsection \<open>Transport\<close>

text \<open>
  The worker connections of a coordinator with TLS fall back to plain text without a word when the
  client credentials cannot be loaded. A certificate authority that cannot be read suffices: a
  server that does not ask for client certificates does not need it and starts with TLS.
\<close>

theorem worker_transport_downgraded:
  assumes "to_Enabled c" and "to_CertFile c \<noteq> ''''" and "to_KeyFile c \<noteq> ''''" and "to_ClientCA c \<noteq> ''''"
    and "\<not> to_RequireClientCert c" and "to_MinVersion c = 0"
    and "tl_LoadX509KeyPair lib (to_CertFile c) (to_KeyFile c) = Ok cert"
    and "tl_ReadFile lib (to_ClientCA c) = Err e"
  shows "(\<exists>creds. ServerCredentials newTLS lib c = Ok (Some creds)) \<and> workerTransport newTLS lib c = Plaintext"
  using assms
  by (simp add: ServerCredentials_def ClientCredentials_def asCredentials_def LoadServerTLS_def LoadClientTLS_def
      tls_Validate_def loadPair_def loadPool_def workerTransport_def Let_def)

text \<open>The client never does that: with TLS enabled it connects with credentials or not at all.\<close>

theorem client_transport_secured:
  assumes "Client_New newTLS lib nc cfg = Ok (cfg', t)" and "to_Enabled (cn_TLS cfg)"
  shows "\<exists>setup. LoadClientTLS lib (cn_TLS cfg) = Ok (Some setup) \<and> t = Secured (newTLS setup)"
proof -
  have "\<not> LoadClientTLS lib (cn_TLS cfg) = Ok None"
    using assms(2) by (auto simp: LoadClientTLS_def Let_def outcome_bind_eq_Ok split: option.splits if_splits)
  with assms show ?thesis
    by (cases "LoadClientTLS lib (cn_TLS cfg)")
      (auto simp: Client_New_def Let_def ClientCredentials_def asCredentials_def split: if_splits outcome.splits option.splits)
qed

subsection \<open>Streaming a build\<close>

text \<open>
  The chunks of a source whose reader reports the end on its own are put together again by the
  coordinator; a reader that reports it together with the since bytes, as the interface of readers
  allows, loses them.
\<close>

lemma stream_chunks_More:
  "stream_chunks (map (\<lambda>b. (b, More)) bss @ (bs, AtEOF) # rs) = Ok (map SourceChunk bss)"
  by (induction bss) simp_all

lemma StreamBuild_loop_chunks:
  "StreamBuild_loop (map (\<lambda>b. Received (SourceChunk b)) bss) m d = Ok (m, d @ concat bss)"
  by (induction bss arbitrary: d) simp_all

theorem streamed_source:
  "\<exists>cs. Client_StreamBuild m (map (\<lambda>b. (b, More)) bss @ (bs, AtEOF) # rs) = Ok cs \<and>
     StreamBuild_loop (map Received cs) None [] = Ok (Some m, concat bss)"
  by (auto simp: Client_StreamBuild_def stream_chunks_More comp_def StreamBuild_loop_chunks)

subsection \<open>Staying registered\<close>

text \<open>
  The registry's side of staying registered; \<^verbatim>\<open>Availability\<close> runs it against the whole coordinator.
  A schedule of registry calls as a worker with heartbeats sees it: \<open>beats w bound since ops\<close> follows
  the time of its last heartbeat, and fails when it is removed, forced unhealthy, registered
  with other data, or when a cleanup runs more than \<open>bound\<close> after that heartbeat.
\<close>

fun beats :: "WorkerInfo \<Rightarrow> int \<Rightarrow> int \<Rightarrow> registry_op list \<Rightarrow> int option" where
  "beats w bound since [] = Some since"
| "beats w bound since (OpAdd now v # ops) =
     (if ID v = ID w then (if v = w then beats w bound now ops else None) else beats w bound since ops)"
| "beats w bound since (OpHeartbeat now i # ops) = beats w bound (if i = ID w then now else since) ops"
| "beats w bound since (OpRemove i # ops) = (if i = ID w then None else beats w bound since ops)"
| "beats w bound since (OpUpdateState i st # ops) =
     (if i = ID w \<and> st = WorkerStateUnhealthy then None else beats w bound since ops)"
| "beats w bound since (OpCleanup now # ops) = (if time_sub now since > bound then None else beats w bound since ops)"
| "beats w bound since (OpIncrement i # ops) = beats w bound since ops"
| "beats w bound since (OpDecrement i ok t # ops) = beats w bound since ops"

definition alive :: "WorkerInfo \<Rightarrow> int \<Rightarrow> InMemoryRegistry \<Rightarrow> bool" where
  "alive w since r \<longleftrightarrow>
     (\<exists>v. fmlookup (workers r) (ID w) = Some v \<and> ID v = ID w \<and> LastHeartbeat v = since \<and> State v \<noteq> WorkerStateUnhealthy \<and>
          Capabilities v = Capabilities w \<and> Address v = Address w \<and> MaxParallel v = MaxParallel w)"

lemma alive_update:
  assumes "alive w since r"
    and "\<And>v. ID v = ID w \<Longrightarrow> LastHeartbeat v = since \<Longrightarrow> State v \<noteq> WorkerStateUnhealthy \<Longrightarrow> Capabilities v = Capabilities w \<Longrightarrow>
      Address v = Address w \<Longrightarrow> MaxParallel v = MaxParallel w \<Longrightarrow>
      i = ID w \<Longrightarrow> ID (f v) = ID w \<and> LastHeartbeat (f v) = since' \<and> State (f v) \<noteq> WorkerStateUnhealthy \<and>
        Capabilities (f v) = Capabilities w \<and> Address (f v) = Address w \<and> MaxParallel (f v) = MaxParallel w"
    and "i \<noteq> ID w \<Longrightarrow> since' = since"
  shows "alive w since' (or_unchanged r (updateWorker i f r))"
  using assms by (cases "i = ID w") (auto simp: alive_def or_unchanged_def updateWorker_def split: option.splits)

lemma alive_apply:
  assumes "alive w since r" and "beats w (ttl r) since (op # ops) = Some since'"
  shows "\<exists>since1. alive w since1 (registry_apply op r) \<and> ttl (registry_apply op r) = ttl r \<and>
    beats w (ttl r) since1 ops = Some since'"
proof (cases op)
  case (OpAdd now v)
  have "ttl (Add now v r) = ttl r" by (simp add: Add_def split: option.split)
  with OpAdd assms show ?thesis
    by (cases "ID v = ID w") (auto simp: alive_def Add_lookup split: if_splits)
next
  case (OpRemove i)
  with assms show ?thesis by (auto simp: alive_def or_unchanged_def Remove_def split: if_splits)
next
  case (OpUpdateState i st)
  have "alive w since (or_unchanged r (updateWorker i (\<lambda>w. w\<lparr>State := st\<rparr>) r))"
    using assms OpUpdateState by (intro alive_update[where since = since]) (auto split: if_splits)
  with OpUpdateState assms show ?thesis
    by (auto simp: UpdateState_def or_unchanged_def updateWorker_def split: if_splits option.splits outcome.splits)
next
  case (OpHeartbeat now i)
  have "alive w (if i = ID w then now else since) (or_unchanged r (updateWorker i (heartbeatWorker now) r))"
    using assms by (intro alive_update[where since = since]) (auto simp: heartbeatWorker_def)
  with OpHeartbeat assms show ?thesis
    by (auto simp: UpdateHeartbeat_def or_unchanged_def updateWorker_def split: if_splits option.splits outcome.splits)
next
  case (OpIncrement i)
  have "alive w since (or_unchanged r (updateWorker i incrementWorker r))"
    using assms by (intro alive_update[where since = since]) (auto simp: incrementWorker_def)
  with OpIncrement assms show ?thesis
    by (auto simp: IncrementTasks_def or_unchanged_def updateWorker_def split: if_splits option.splits outcome.splits)
next
  case (OpDecrement i ok t)
  have "alive w since (or_unchanged r (updateWorker i (decrementWorker ok t) r))"
    using assms by (intro alive_update[where since = since]) (auto simp: decrementWorker_def Let_def)
  with OpDecrement assms show ?thesis
    by (auto simp: DecrementTasks_def or_unchanged_def updateWorker_def split: if_splits option.splits outcome.splits)
next
  case (OpCleanup now)
  with assms show ?thesis
    by (auto simp: alive_def cleanupStaleWorkers_def staleWorker_def split: if_splits)
qed

lemma alive_run:
  "alive w since r \<Longrightarrow> beats w (ttl r) since ops = Some since' \<Longrightarrow>
   alive w since' (registry_run ops r) \<and> ttl (registry_run ops r) = ttl r"
proof (induction ops arbitrary: r since)
  case (Cons op ops)
  then obtain since1 where s: "alive w since1 (registry_apply op r)" "ttl (registry_apply op r) = ttl r"
      "beats w (ttl r) since1 ops = Some since'"
    using alive_apply by blast
  with Cons.IH[of since1 "registry_apply op r"] show ?case by simp
qed simp

text \<open>Two heartbeat intervals never exceed the time to live.\<close>

lemma interval_fits:
  assumes "0 \<le> t"
  shows "2 * (t sdiv (2 * Second) * Second) \<le> t"
  using assms by (cases "t = 0") (auto simp: signed_divide_int_def Second_def)

lemma beats_mono: "beats w t since ops = Some since' \<Longrightarrow> t \<le> t' \<Longrightarrow> beats w t' since ops = Some since'"
  by (induction w t since ops rule: beats.induct) (auto split: if_splits)

text \<open>Registering again is the same registry call as the first time, as the worker names itself.\<close>

lemma Handshake_registers:
  assumes "Handshake idNow now req s = (Ok resp, s')" and "hr_Accepted resp" and "hs_Capabilities req = Some caps"
    and "WorkerId caps \<noteq> ''''"
  shows "registry s' = registry_apply (OpAdd now (handshakeWorker 0 req caps)) (registry s)"
    and "hr_HeartbeatIntervalSeconds resp = cfg_HeartbeatTTL (config s) sdiv (2 * Second)"
  using assms by (auto simp: Handshake_def handshakeWorker_def Let_def split: if_splits)

text \<open>What the worker program sends and keeps.\<close>

lemma worker_serve_ready:
  assumes "worker_serve w version f = Some (Ok rw)"
  shows "\<exists>coordinator. rw_server rw =
      workerServer w version (wf_port f) (if wf_maxParallel f = 0 then ww_numCPU w else wf_maxParallel f) \<and>
    rw_request rw = \<lparr>hs_Capabilities = Some (ws_capabilities (rw_server rw)), hs_AuthToken = wf_token f,
      hs_WorkerAddress = advertisedAddress w f coordinator\<rparr>"
  using assms
  by (auto simp: worker_serve_def worker_connect_def Let_def split: if_splits option.splits outcome.splits)

lemma workerServer_capabilities:
  "ws_capabilities (workerServer w version port slots) =
     (ww_caps w)\<lparr>MaxParallelTasks := wrap32 slots, WorkerId := ''worker-'' @ ww_hostname w, Version := version\<rparr>"
  by (simp add: workerServer_def Worker_New_def Let_def)

lemma matchesCapability_named:
  "matchesCapability (Some (c\<lparr>MaxParallelTasks := m, WorkerId := i, Version := u\<rparr>)) bt arch = matchesCapability (Some c) bt arch"
  by (cases bt) (simp_all add: matchesCapability_def canCrossCompile_def)

definition sampleProbe :: probe where
  "sampleProbe =
     \<lparr>pe_GOOS = ''linux'', pe_GOARCH = ''amd64'', pe_Hostname = ''box'', pe_NumCPU = 8, pe_run = (\<lambda>_. None),
      pe_ReadFile = (\<lambda>_. None), pe_LookPath = (\<lambda>c. c = ''gcc''), pe_Getenv = (\<lambda>_. ''''), pe_Glob = (\<lambda>_. None),
      pe_Stat = (\<lambda>_. False), pe_msvc = None\<rparr>"

definition sampleWorld :: "(unit, unit, unit) worker_world" where
  "sampleWorld =
     \<lparr>ww_hostname = ''box'', ww_numCPU = 8, ww_caps = Detect sampleProbe, ww_dockerOK = False, ww_msvcArchs = None,
      ww_envCoordinator = '''', ww_resolver = Ok (), ww_entries = [DeadlinePassed], ww_tracingInit = (\<lambda>_. Ok ()),
      ww_newTLS = (\<lambda>_. ()),
      ww_tlsLib = \<lparr>tl_LoadX509KeyPair = (\<lambda>_ _. Ok ()), tl_ReadFile = (\<lambda>_. Err ''no such file''), tl_CertsFromPEM = (\<lambda>_. None)\<rparr>,
      ww_newClient = Ok (), ww_outboundIP = (\<lambda>_. ''10.0.0.7'')\<rparr>"

definition sampleWorkerFlags :: worker_flags where
  "sampleWorkerFlags =
     \<lparr>wf_coordinator = ''coord:9000'', wf_port = 50052, wf_httpPort = 9090, wf_token = '''', wf_maxParallel = 0,
      wf_discoveryTimeout = 0, wf_advertise = '''',
      wf_tls = \<lparr>tf_cert = '''', tf_key = '''', tf_ca = '''', tf_requireClientCert = False\<rparr>,
      wf_tracing = tracing_DefaultConfig\<rparr>"

definition sampleReady :: "unit ready_worker" where
  "sampleReady =
     (let srv = workerServer sampleWorld ''v1'' 50052 8
      in \<lparr>rw_server = srv,
          rw_conn = \<lparr>cn_Address = ''coord:9000'', cn_AuthToken = '''', cn_Timeout = 30 * Second, cn_Insecure = True,
                     cn_EnableTracing = False, cn_TLS = zeroTLS\<rparr>,
          rw_transport = Plaintext,
          rw_request = \<lparr>hs_Capabilities = Some (ws_capabilities srv), hs_AuthToken = '''',
                        hs_WorkerAddress = ''10.0.0.7:'' @ int_str 50052\<rparr>\<rparr>)"

lemma sample_serve: "worker_serve sampleWorld ''v1'' sampleWorkerFlags = Some (Ok sampleReady)"
  by (simp add: worker_serve_def sampleWorkerFlags_def port_ok_def resolveCoordinator_def worker_connect_def
      tracing_DefaultConfig_def tlsFromFlags_def zeroTLS_def sampleReady_def Let_def Client_New_def Second_def)
    (simp add: sampleWorld_def advertisedAddress_def)

subsection \<open>Where the two sides disagree\<close>

text \<open>
  A negative number of parallel tasks is accepted. The coordinator registers such a worker with
  four slots, since it takes a limit that is not positive for an unset one, while the worker
  refuses every call it is sent.
\<close>

theorem negative_limit_refuses_all:
  assumes "worker_serve w version f = Some (Ok rw)" and "wf_maxParallel f < 0" and "is_int32 (wf_maxParallel f)"
  shows "MaxParallel (handshakeWorker n (rw_request rw) (ws_capabilities (rw_server rw))) = 4 \<and>
    (\<forall>env elapsed req. cr_TaskId req \<noteq> '''' \<longrightarrow>
       Worker_Compile env elapsed req (rw_server rw) =
         (Err (WResourceExhausted ''too many concurrent tasks''), rw_server rw))"
proof -
  have srv: "rw_server rw = workerServer w version (wf_port f) (wf_maxParallel f)"
    using worker_serve_ready[OF assms(1)] assms(2) by auto
  have wr: "wrap32 (wf_maxParallel f) = wf_maxParallel f" using assms(3) by (rule wrap32_id)
  have "MaxParallel (handshakeWorker n (rw_request rw) (ws_capabilities (rw_server rw))) = 4"
    using assms(2) by (simp add: handshakeWorker_def srv workerServer_capabilities wr)
  moreover have "Worker_Compile env elapsed req (rw_server rw) =
      (Err (WResourceExhausted ''too many concurrent tasks''), rw_server rw)" if "cr_TaskId req \<noteq> ''''" for env elapsed req
    using that assms(2)
    by (simp add: Worker_Compile_def worker_enter_def worker_leave_def srv workerServer_def Worker_New_def Let_def
        wrap64_def WorkerDefaultConfig_def)
  ultimately show ?thesis by blast
qed

text \<open>
  An IPv6 address is advertised without brackets, so its port cannot be told from it.
\<close>

theorem ipv6_unbracketed:
  assumes "wf_advertise f = ''''" and "CHR '':'' \<in> set (ww_outboundIP w coordinator)"
  shows "advertisedAddress w f coordinator = ww_outboundIP w coordinator @ '':'' @ int_str (wf_port f) \<and>
    advertisedAddress w f coordinator \<noteq> JoinHostPort (ww_outboundIP w coordinator) (int_str (wf_port f))"
proof -
  have "ww_outboundIP w coordinator \<noteq> ''''" using assms(2) by auto
  then show ?thesis
    using assms by (simp add: advertisedAddress_def JoinHostPort_def)
qed

text \<open>
  Two workers on one machine register under the same name: the second takes over the entry of the
  first, so that only its address is ever dialled.
\<close>

theorem same_host_takes_over:
  assumes "worker_serve w version f = Some (Ok rw)" and "worker_serve w version f' = Some (Ok rw')"
    and "Handshake n1 t1 (rw_request rw) s = (Ok resp1, s1)" and "hr_Accepted resp1"
    and "Handshake n2 t2 (rw_request rw') s1 = (Ok resp2, s2)" and "hr_Accepted resp2"
  shows "hr_AssignedWorkerId resp1 = hr_AssignedWorkerId resp2 \<and>
    map_option Address (Get (hr_AssignedWorkerId resp1) (registry s2)) = Some (hs_WorkerAddress (rw_request rw'))"
proof -
  have ready: "hs_Capabilities (rw_request x) = Some (ws_capabilities (rw_server x)) \<and>
      WorkerId (ws_capabilities (rw_server x)) = ''worker-'' @ ww_hostname w \<and> hs_WorkerAddress (rw_request x) \<noteq> ''''"
    if serve: "worker_serve w version g = Some (Ok x)" for g x
  proof -
    obtain coordinator where
      "rw_server x = workerServer w version (wf_port g) (if wf_maxParallel g = 0 then ww_numCPU w else wf_maxParallel g)"
      "rw_request x = \<lparr>hs_Capabilities = Some (ws_capabilities (rw_server x)), hs_AuthToken = wf_token g,
        hs_WorkerAddress = advertisedAddress w g coordinator\<rparr>"
      using worker_serve_ready[OF serve] by blast
    then show ?thesis by (simp add: workerServer_capabilities advertisedAddress_def)
  qed
  have caps: "hs_Capabilities (rw_request rw) = Some (ws_capabilities (rw_server rw))"
      "WorkerId (ws_capabilities (rw_server rw)) = ''worker-'' @ ww_hostname w"
      "hs_Capabilities (rw_request rw') = Some (ws_capabilities (rw_server rw'))"
      "WorkerId (ws_capabilities (rw_server rw')) = ''worker-'' @ ww_hostname w"
      "hs_WorkerAddress (rw_request rw') \<noteq> ''''"
    using ready[OF assms(1)] ready[OF assms(2)] by simp_all
  have "hr_AssignedWorkerId resp1 = ''worker-'' @ ww_hostname w"
    using assms(3,4) caps(1,2) by (auto simp: Handshake_def handshakeWorker_def Let_def split: if_splits)
  moreover have "hr_AssignedWorkerId resp2 = ''worker-'' @ ww_hostname w"
    using assms(5,6) caps(3,4) by (auto simp: Handshake_def handshakeWorker_def Let_def split: if_splits)
  moreover have "registry s2 = Add t2 (handshakeWorker n2 (rw_request rw') (ws_capabilities (rw_server rw'))) (registry s1)"
    using assms(5,6) caps(3) by (auto simp: Handshake_def Let_def split: if_splits)
  ultimately show ?thesis using caps by (simp add: Get_def Add_lookup handshakeWorker_def split: option.split)
qed

end
