(* ===== verification/Availability.thy ===== *)
theory Availability
  imports Coordinator Programs
begin

text \<open>
  A worker and its coordinator over time: what the worker's start-up and heartbeat loop
  (\<^verbatim>\<open>cmd/hg-worker/main.go\<close>) do to the coordinator's registry while calls, cleanup passes
  (\<^verbatim>\<open>registry.go\<close>) and the registrations of other workers interleave.

  A \<open>timeline\<close> runs the coordinator system of \<^verbatim>\<open>Coordinator\<close> and records what happened when. The
  requests that arrive in it are those that \<open>heartbeat_loop\<close> sends, one for each tick; when they
  arrive, and whether, is up to the network. Every step of the system is one of a timeline, unless
  another process registers under the worker's name.
\<close>

subsection \<open>What a step does to the registry\<close>

fun books :: "registry_op \<Rightarrow> bool" where
  "books (OpIncrement i) = True"
| "books (OpDecrement i ok t) = True"
| "books _ = False"

definition handshake_step :: "int \<Rightarrow> int \<Rightarrow> HandshakeRequest \<Rightarrow> ('m, 'v, 'b) system \<Rightarrow> ('m, 'v, 'b) system \<Rightarrow> bool" where
  "handshake_step idNow now req y y' \<longleftrightarrow>
     y' = y\<lparr>sy_server := snd (Handshake idNow now req (sy_server y))\<rparr>"

definition cleanup_step :: "int \<Rightarrow> ('m, 'v, 'b) system \<Rightarrow> ('m, 'v, 'b) system \<Rightarrow> bool" where
  "cleanup_step now y y' \<longleftrightarrow>
     y' = y\<lparr>sy_server := (sy_server y)\<lparr>registry := cleanupStaleWorkers now (registry (sy_server y))\<rparr>\<rparr>"



lemma config_of_kind [simp]:
  "config (setCache k key resp s) = config s" "config (countBuild k s) = config s"
  "config (countCacheHit k s) = config s" "config (countCacheMiss k s) = config s"
  by (cases k; simp add: setFlutterCache_def setUnityCache_def)+

lemma config_of_shared [simp]:
  "config (notifyEvents es s) = config s" "config (countOutcome ok s) = config s"
  "config (countInstant ok s) = config s" "config (leaveQueue s) = config s"
  "config (releaseTask wid s) = config s" "config (bookTask wid s) = config s"
  "config (unbookTask wid ok t s) = config s"
  by (simp_all add: notifyEvents_def countOutcome_def countInstant_def leaveQueue_def releaseTask_def
      bookTask_def unbookTask_def)

lemma compile_select_same:
  "compile_select L env req s = (r, s') \<Longrightarrow> config s' = config s \<and> registry s' = registry s"
  by (auto simp: compile_select_def Let_def split: if_splits outcome.splits prod.splits)

lemma build_begin_same:
  "build_begin k L i req s = (r, s') \<Longrightarrow> config s' = config s \<and> registry s' = registry s"
  by (auto simp: build_begin_def Let_def split: option.splits sum.splits)

lemma build_connect_same:
  "build_connect i t s = (r, s') \<Longrightarrow> config s' = config s \<and> registry s' = registry s"
  by (auto simp: build_connect_def split: prod.splits sum.splits)

lemma finish_config [simp]:
  "config (snd (compile_finish L i t reply s)) = config s"
  "config (snd (build_finish k b u breply s)) = config s"
  by (cases reply; simp add: compile_finish_def Let_def)
    (cases breply; simp add: build_finish_def Let_def)

lemma GetWorkers_same:
  "GetWorkers L now ord s = (infos, s') \<Longrightarrow> config s' = config s \<and> registry s' = registry s"
  by (auto simp: GetWorkers_def Let_def split: prod.splits)

text \<open>A call only books and releases; nothing else but registration and cleanup touches the registry.\<close>

definition only_books :: "('m, 'v, 'b) system \<Rightarrow> ('m, 'v, 'b) system \<Rightarrow> bool" where
  "only_books y y' \<longleftrightarrow>
     config (sy_server y') = config (sy_server y) \<and>
     (\<exists>ops. list_all books ops \<and> registry (sy_server y') = registry_run ops (registry (sy_server y)))"

lemma only_books_same:
  "config (sy_server y') = config (sy_server y) \<Longrightarrow> registry (sy_server y') = registry (sy_server y) \<Longrightarrow> only_books y y'"
  unfolding only_books_def by (intro conjI exI[of _ "[]"]) simp_all

lemma only_books_op:
  "config (sy_server y') = config (sy_server y) \<Longrightarrow> books op \<Longrightarrow>
   registry (sy_server y') = registry_apply op (registry (sy_server y)) \<Longrightarrow> only_books y y'"
  unfolding only_books_def by (intro conjI exI[of _ "[op]"]) simp_all

lemma coord_step_kinds:
  assumes "coord_step L y y'"
  shows "only_books y y' \<or> (\<exists>idNow now req. handshake_step idNow now req y y') \<or> (\<exists>now. cleanup_step now y y')"
  using assms
proof (induction rule: coord_step.induct)
  case (compile_invalid env req s e s' W R)
  then show ?case by (auto intro!: only_books_same dest: compile_select_same)
next
  case (compile_refused env req s resp s' W R)
  then show ?case by (auto intro!: only_books_same dest: compile_select_same)
next
  case (compile_selected env req s t s' W R)
  then show ?case by (auto intro!: only_books_same dest: compile_select_same)
next
  case (compile_started R s t W i)
  show ?case
    by (intro disjI1 only_books_op[where op = "OpIncrement (ID (ct_worker t))"])
      (simp_all add: compile_dispatch_def bookTask_def)
next
  case (compile_finished s W t R i reply)
  show ?case
    by (intro disjI1 only_books_op[where op = "OpDecrement (ID (ct_worker t)) (compileSucceeded reply)
          (wrap64 ((case reply of Inr resp \<Rightarrow> cs_CompilationTimeMs resp | Inl e \<Rightarrow> 0) * Millisecond))"])
      (simp_all add: unbookTask_def)
next
  case (build_answered k b breq s bresp s' W R)
  then show ?case by (auto intro!: only_books_same dest: build_begin_same)
next
  case (build_selected k b breq s u s' W R)
  then show ?case by (auto intro!: only_books_same dest: build_begin_same)
next
  case (build_unreachable b u s bresp s' k W R)
  then show ?case by (auto intro!: only_books_same dest: build_connect_same)
next
  case (build_started b u s s' R k W)
  then show ?case
    using build_connect_same[OF build_started(1)]
    by (intro disjI1 only_books_op[where op = "OpIncrement (ID (bt_worker u))"])
      (simp_all add: build_dispatch_def bookTask_def)
next
  case (build_finished s W k u R b breply)
  show ?case
    by (intro disjI1 only_books_op[where op = "OpDecrement (ID (bt_worker u)) (buildSucceeded breply) 0"])
      (simp_all add: unbookTask_def)
next
  case (handshake idNow now hreq s hres s' W R)
  then have "handshake_step idNow now hreq \<lparr>sy_server = s, sy_selected = W, sy_running = R\<rparr>
      \<lparr>sy_server = s', sy_selected = W, sy_running = R\<rparr>"
    by (simp add: handshake_step_def)
  then show ?case by blast
next
  case (cleanup s W R now)
  have "cleanup_step now \<lparr>sy_server = s, sy_selected = W, sy_running = R\<rparr>
      \<lparr>sy_server = s\<lparr>registry := cleanupStaleWorkers now (registry s)\<rparr>, sy_selected = W, sy_running = R\<rparr>"
    by (simp add: cleanup_step_def)
  then show ?case by blast
next
  case (dashboard now ord s infos s' W R)
  then show ?case by (auto intro!: only_books_same dest: GetWorkers_same)
qed (auto simp: ReportCacheHit_def SetEventNotifier_def intro!: only_books_same)


subsection \<open>Timelines\<close>

text \<open>
  What happens, and when by the coordinator's clock: the request of the heartbeat of a given number
  arrives, the cleanup runs, another worker registers, or a call goes one phase further.
\<close>

datatype happening = Arrives nat | CleanupPass | OtherWorker | CallPhase

definition names_other :: "string \<Rightarrow> int \<Rightarrow> HandshakeRequest \<Rightarrow> bool" where
  "names_other wid idNow req \<longleftrightarrow>
     (case hs_Capabilities req of None \<Rightarrow> True | Some caps \<Rightarrow> ID (handshakeWorker idNow req caps) \<noteq> wid)"

inductive timeline ::
    "('m, 'v, 'b) libs \<Rightarrow> string \<Rightarrow> (nat \<Rightarrow> HandshakeRequest) \<Rightarrow>
       ('m, 'v, 'b) system \<Rightarrow> (int \<times> happening) list \<Rightarrow> ('m, 'v, 'b) system \<Rightarrow> bool" for L wid sent where
  ended: "timeline L wid sent y [] y"
| arrives: "handshake_step idNow t (sent k) y y1 \<Longrightarrow> timeline L wid sent y1 es y' \<Longrightarrow>
    timeline L wid sent y ((t, Arrives k) # es) y'"
| cleans: "cleanup_step t y y1 \<Longrightarrow> timeline L wid sent y1 es y' \<Longrightarrow>
    timeline L wid sent y ((t, CleanupPass) # es) y'"
| other: "handshake_step idNow t req y y1 \<Longrightarrow> names_other wid idNow req \<Longrightarrow> timeline L wid sent y1 es y' \<Longrightarrow>
    timeline L wid sent y ((t, OtherWorker) # es) y'"
| calls: "coord_step L y y1 \<Longrightarrow> only_books y y1 \<Longrightarrow> timeline L wid sent y1 es y' \<Longrightarrow>
    timeline L wid sent y ((t, CallPhase) # es) y'"

text \<open>A timeline leaves out no step of the system but a registration under the worker's own name.\<close>

lemma timeline_covers:
  assumes "coord_step L y y1" and "timeline L wid sent y1 es y'"
  shows "(\<exists>t h. timeline L wid sent y ((t, h) # es) y') \<or>
    (\<exists>idNow now req. handshake_step idNow now req y y1 \<and> \<not> names_other wid idNow req)"
  using coord_step_kinds[OF assms(1)] assms timeline.intros by metis


text \<open>
  \<open>heard_often bound since now es\<close>: every cleanup pass, and \<open>now\<close>, comes at most \<open>bound\<close> after the
  latest heartbeat that has arrived by then, \<open>since\<close> being the time of the one before \<open>es\<close>.
\<close>

fun heard_often :: "int \<Rightarrow> int \<Rightarrow> int \<Rightarrow> (int \<times> happening) list \<Rightarrow> bool" where
  "heard_often bound since now [] \<longleftrightarrow> now - since \<le> bound"
| "heard_often bound since now ((t, Arrives k) # es) \<longleftrightarrow> heard_often bound t now es"
| "heard_often bound since now ((t, CleanupPass) # es) \<longleftrightarrow> t - since \<le> bound \<and> heard_often bound since now es"
| "heard_often bound since now ((t, OtherWorker) # es) \<longleftrightarrow> heard_often bound since now es"
| "heard_often bound since now ((t, CallPhase) # es) \<longleftrightarrow> heard_often bound since now es"

text \<open>
  The ticker fires for heartbeat \<open>k\<close> at \<open>start + (k + 1) * interval\<close>. \<open>punctual\<close>: every request
  arrives, in order, before the next tick, and nothing is dated after the time at which the
  next one must have arrived.
\<close>

fun punctual :: "int \<Rightarrow> int \<Rightarrow> nat \<Rightarrow> int \<Rightarrow> (int \<times> happening) list \<Rightarrow> bool" where
  "punctual start interval n now [] \<longleftrightarrow> now \<le> start + (int n + 2) * interval"
| "punctual start interval n now ((t, h) # es) \<longleftrightarrow>
     t \<le> start + (int n + 2) * interval \<and>
     (case h of Arrives k \<Rightarrow> k = n \<and> start + (int n + 1) * interval \<le> t \<and> punctual start interval (Suc n) now es
      | _ \<Rightarrow> punctual start interval n now es)"

lemma punctual_heard:
  "punctual start interval n now es \<Longrightarrow> start + int n * interval \<le> since \<Longrightarrow>
   heard_often (2 * interval) since now es"
proof (induction "2 * interval" since now es arbitrary: n rule: heard_often.induct)
  case (2 since now t k es)
  then show ?case by (auto simp: algebra_simps)
qed (auto simp: algebra_simps)

subsection \<open>The worker's entry\<close>











subsection \<open>From start-up to dispatch\<close>














end
