(* ===== verification/Retry.thy ===== *)
theory Retry
  imports HG_Prelude
begin

text \<open>
  Retries with exponential backoff, \<^verbatim>\<open>internal/coordinator/resilience/retry.go\<close>. The loop is
  the library \<^verbatim>\<open>cenkalti/backoff\<close>, a parameter: \<open>backoff_run\<close> states what its
  documentation promises of \<^verbatim>\<open>Retry\<close> with a bound on the retries (the operation runs at least
  once; it runs again only after an error that is not permanent; a nil ends the loop with
  nil, a permanent error with the wrapped error; when the policy or the context stops it, it
  returns an error; no more runs than the bound allows). The operation is the sequence of
  its results, one per invocation.
\<close>

subsection \<open>Errors\<close>

datatype grpc_code =
    OK | Canceled | Unknown | InvalidArgument | DeadlineExceeded | NotFound | AlreadyExists
  | PermissionDenied | ResourceExhausted | FailedPrecondition | Aborted | OutOfRange
  | Unimplemented | Internal | Unavailable | DataLoss | Unauthenticated | CodeUnnamed nat

text \<open>An error value: a sentinel of \<^verbatim>\<open>context\<close>, a gRPC status, another error, or a wrapper.\<close>

datatype goerr =
    CtxCanceled | CtxDeadlineExceeded | StatusError grpc_code string | OtherError string
  | WrapError string goerr

text \<open>\<^verbatim>\<open>errors.Is\<close> follows the chain of wrapped errors.\<close>

fun errors_Is :: "goerr \<Rightarrow> goerr \<Rightarrow> bool" where
  "errors_Is (WrapError s e) target = (WrapError s e = target \<or> errors_Is e target)"
| "errors_Is e target = (e = target)"

text \<open>
  \<open>fromError\<close> stands for \<^verbatim>\<open>status.FromError\<close> of the gRPC library: the status code an error
  carries, if it carries one.
\<close>

fun IsRetryable_code :: "grpc_code \<Rightarrow> bool" where
  "IsRetryable_code OK = False"
| "IsRetryable_code Canceled = False"
| "IsRetryable_code InvalidArgument = False"
| "IsRetryable_code NotFound = False"
| "IsRetryable_code AlreadyExists = False"
| "IsRetryable_code PermissionDenied = False"
| "IsRetryable_code FailedPrecondition = False"
| "IsRetryable_code Unimplemented = False"
| "IsRetryable_code Unauthenticated = False"
| "IsRetryable_code Unknown = True"
| "IsRetryable_code DeadlineExceeded = True"
| "IsRetryable_code ResourceExhausted = True"
| "IsRetryable_code Aborted = True"
| "IsRetryable_code Internal = True"
| "IsRetryable_code Unavailable = True"
| "IsRetryable_code DataLoss = True"
| "IsRetryable_code _ = True"

definition IsRetryable :: "(goerr \<Rightarrow> grpc_code option) \<Rightarrow> goerr option \<Rightarrow> bool" where
  "IsRetryable fromError err =
     (case err of
        None \<Rightarrow> False
      | Some e \<Rightarrow>
          if errors_Is e CtxCanceled \<or> errors_Is e CtxDeadlineExceeded then False
          else (case fromError e of Some code \<Rightarrow> IsRetryable_code code | None \<Rightarrow> True))"

subsection \<open>Configuration\<close>

record RetryConfig =
  MaxRetries :: nat
  InitialInterval :: int
  Multiplier :: real
  MaxInterval :: int
  MaxElapsedTime :: int

definition DefaultRetryConfig :: RetryConfig where
  "DefaultRetryConfig =
     \<lparr>MaxRetries = 3, InitialInterval = 100 * Millisecond, Multiplier = 2,
      MaxInterval = 5 * Second, MaxElapsedTime = 30 * Second\<rparr>"

subsection \<open>The library's loop\<close>

datatype bo_result = BoNil | BoErr goerr | BoPermanent goerr

inductive backoff_run ::
    "nat \<Rightarrow> ('s \<Rightarrow> bo_result \<times> 's) \<Rightarrow> 's \<Rightarrow> goerr option \<Rightarrow> 's \<Rightarrow> bool" where
  bo_done: "f s = (BoNil, s') \<Longrightarrow> backoff_run n f s None s'"
| bo_permanent: "f s = (BoPermanent e, s') \<Longrightarrow> backoff_run n f s (Some e) s'"
| bo_stop: "f s = (BoErr e, s') \<Longrightarrow> backoff_run n f s (Some e') s'"
| bo_again: "f s = (BoErr e, s1) \<Longrightarrow> backoff_run n f s1 r s' \<Longrightarrow> backoff_run (Suc n) f s r s'"

inductive_cases backoff_runE: "backoff_run n f s r s'"

text \<open>The loop of a policy that stops only at the bound: one library that fits.\<close>

fun simple_backoff :: "nat \<Rightarrow> ('s \<Rightarrow> bo_result \<times> 's) \<Rightarrow> 's \<Rightarrow> goerr option \<times> 's" where
  "simple_backoff n f s =
     (case f s of
        (BoNil, s') \<Rightarrow> (None, s')
      | (BoPermanent e, s') \<Rightarrow> (Some e, s')
      | (BoErr e, s') \<Rightarrow> (case n of 0 \<Rightarrow> (Some e, s') | Suc m \<Rightarrow> simple_backoff m f s'))"

declare simple_backoff.simps [simp del]

text \<open>The contract of the library, for a bound on the retries.\<close>

definition backoff_contract ::
    "nat \<Rightarrow> (nat \<Rightarrow> ('s \<Rightarrow> bo_result \<times> 's) \<Rightarrow> 's \<Rightarrow> goerr option \<times> 's) \<Rightarrow> bool" where
  "backoff_contract n backoff \<longleftrightarrow>
     (\<forall>f s. backoff_run n f s (fst (backoff n f s)) (snd (backoff n f s)))"

lemma simple_backoff_run: "backoff_run n f s (fst (simple_backoff n f s)) (snd (simple_backoff n f s))"
proof (induction n arbitrary: s)
  case 0
  show ?case
    by (cases "f s"; cases "fst (f s)")
      (auto simp: simple_backoff.simps[of 0] intro: backoff_run.intros)
next
  case (Suc n)
  show ?case
    by (cases "f s"; cases "fst (f s)")
      (auto simp: simple_backoff.simps[of "Suc n"] intro: backoff_run.intros Suc)
qed

lemma simple_backoff_contract: "backoff_contract n simple_backoff"
  by (simp add: backoff_contract_def simple_backoff_run)

subsection \<open>Retry\<close>

text \<open>The closure's variable: the number of attempts made.\<close>

definition Retry_step ::
    "(goerr \<Rightarrow> grpc_code option) \<Rightarrow> (nat \<Rightarrow> goerr option) \<Rightarrow> nat \<Rightarrow> bo_result \<times> nat" where
  "Retry_step fromError operation attempt =
     (case operation attempt of
        None \<Rightarrow> (BoNil, Suc attempt)
      | Some e \<Rightarrow>
          if \<not> IsRetryable fromError (Some e) then (BoPermanent e, Suc attempt)
          else (BoErr e, Suc attempt))"

definition Retry ::
    "(nat \<Rightarrow> (nat \<Rightarrow> bo_result \<times> nat) \<Rightarrow> nat \<Rightarrow> goerr option \<times> nat) \<Rightarrow> (goerr \<Rightarrow> grpc_code option) \<Rightarrow>
       RetryConfig \<Rightarrow> (nat \<Rightarrow> goerr option) \<Rightarrow> goerr option \<times> nat" where
  "Retry backoff fromError cfg operation =
     backoff (MaxRetries cfg) (Retry_step fromError operation) 0"

text \<open>The closure's variables of \<^verbatim>\<open>RetryWithResult\<close>.\<close>

record 'a retry_vars =
  rv_attempt :: nat
  rv_result :: 'a
  rv_lastErr :: "goerr option"

definition RetryWithResult_step ::
    "(goerr \<Rightarrow> grpc_code option) \<Rightarrow> (nat \<Rightarrow> 'a \<times> goerr option) \<Rightarrow> 'a retry_vars \<Rightarrow> bo_result \<times> 'a retry_vars" where
  "RetryWithResult_step fromError operation s =
     (let (res, opErr) = operation (rv_attempt s);
          s1 = s\<lparr>rv_attempt := Suc (rv_attempt s), rv_result := res\<rparr>
      in case opErr of
           None \<Rightarrow> (BoNil, s1)
         | Some e \<Rightarrow>
             let s2 = s1\<lparr>rv_lastErr := Some e\<rparr>
             in if \<not> IsRetryable fromError (Some e) then (BoPermanent e, s2) else (BoErr e, s2))"

definition RetryWithResult ::
    "(nat \<Rightarrow> ('a retry_vars \<Rightarrow> bo_result \<times> 'a retry_vars) \<Rightarrow> 'a retry_vars \<Rightarrow> goerr option \<times> 'a retry_vars) \<Rightarrow>
       (goerr \<Rightarrow> grpc_code option) \<Rightarrow> RetryConfig \<Rightarrow> 'a \<Rightarrow> (nat \<Rightarrow> 'a \<times> goerr option) \<Rightarrow> 'a \<times> goerr option" where
  "RetryWithResult backoff fromError cfg zero operation =
     (let (err, s) = backoff (MaxRetries cfg) (RetryWithResult_step fromError operation)
                       \<lparr>rv_attempt = 0, rv_result = zero, rv_lastErr = None\<rparr>
      in case err of Some e \<Rightarrow> (rv_result s, Some e) | None \<Rightarrow> (rv_result s, rv_lastErr s))"

text \<open>\<^verbatim>\<open>RetryNotify\<close>: the same loop without the attempt log; the library calls \<^verbatim>\<open>notify\<close>.\<close>

definition RetryNotify ::
    "(nat \<Rightarrow> (nat \<Rightarrow> bo_result \<times> nat) \<Rightarrow> nat \<Rightarrow> goerr option \<times> nat) \<Rightarrow> (goerr \<Rightarrow> grpc_code option) \<Rightarrow>
       RetryConfig \<Rightarrow> (nat \<Rightarrow> goerr option) \<Rightarrow> goerr option \<times> nat" where
  "RetryNotify backoffNotify fromError cfg operation =
     backoffNotify (MaxRetries cfg)
       (\<lambda>attempt. case operation attempt of
          None \<Rightarrow> (BoNil, Suc attempt)
        | Some e \<Rightarrow> (if IsRetryable fromError (Some e) then BoErr e else BoPermanent e, Suc attempt)) 0"

subsection \<open>Lemmas\<close>

lemma Retry_run:
  assumes "backoff_run n (Retry_step fromError operation) a r a'"
  shows "a < a' \<and> a' \<le> a + n + 1 \<and>
    (\<forall>i. a \<le> i \<and> i < a' - 1 \<longrightarrow> IsRetryable fromError (operation i)) \<and>
    (r = None \<longleftrightarrow> operation (a' - 1) = None)"
  using assms
proof (induction n "Retry_step fromError operation" a r a' rule: backoff_run.induct)
  case (bo_done s s' n)
  then show ?case by (auto simp: Retry_step_def split: option.splits if_splits)
next
  case (bo_permanent s e s' n)
  then show ?case by (auto simp: Retry_step_def split: option.splits if_splits)
next
  case (bo_stop s e s' n e')
  then show ?case by (auto simp: Retry_step_def split: option.splits if_splits)
next
  case (bo_again s e s1 n r s')
  then have "s1 = Suc s" "IsRetryable fromError (operation s)"
    by (auto simp: Retry_step_def split: option.splits if_splits)
  moreover from this bo_again(3) have "IsRetryable fromError (operation i)" if "s \<le> i" "i < s' - 1" for i
    using that by (cases "i = s") auto
  ultimately show ?case using bo_again(3) by auto
qed

lemma RetryWithResult_run:
  assumes "backoff_run n (RetryWithResult_step fromError operation) s r s'"
  shows "rv_attempt s < rv_attempt s' \<and>
    rv_result s' = fst (operation (rv_attempt s' - 1)) \<and>
    (r = None \<longleftrightarrow> snd (operation (rv_attempt s' - 1)) = None) \<and>
    (rv_attempt s + 1 < rv_attempt s' \<or> rv_lastErr s \<noteq> None \<or> r \<noteq> None \<longleftrightarrow> rv_lastErr s' \<noteq> None)"
  using assms
proof (induction n "RetryWithResult_step fromError operation" s r s' rule: backoff_run.induct)
  case (bo_again s e s1 n r s')
  then have "rv_attempt s1 = Suc (rv_attempt s)" "rv_lastErr s1 \<noteq> None"
    by (auto simp: RetryWithResult_step_def Let_def split: option.splits if_splits prod.splits)
  with bo_again(3) show ?case by auto
qed (auto simp: RetryWithResult_step_def Let_def split: option.splits if_splits prod.splits)

subsection \<open>Properties\<close>

text \<open>
  \<^verbatim>\<open>Retry\<close> with a library that keeps its documented contract makes between one and
  \<open>MaxRetries + 1\<close> attempts, never makes another attempt after an error that is not
  retryable, and returns nil exactly when the last attempt succeeded.
\<close>

theorem Retry_correct:
  assumes lib: "backoff_contract (MaxRetries cfg) backoff"
    and call: "Retry backoff fromError cfg operation = (err, attempts)"
  shows "1 \<le> attempts \<and> attempts \<le> MaxRetries cfg + 1 \<and>
    (\<forall>i < attempts - 1. IsRetryable fromError (operation i)) \<and>
    (err = None \<longleftrightarrow> operation (attempts - 1) = None)"
proof -
  have "backoff_run (MaxRetries cfg) (Retry_step fromError operation) 0 err attempts"
    using lib call by (metis Retry_def backoff_contract_def fst_conv snd_conv)
  from Retry_run[OF this] show ?thesis by auto
qed

lemma Retry_correct_witness:
  "1 \<le> snd (Retry simple_backoff (\<lambda>e. None) DefaultRetryConfig
     (\<lambda>i. if i = 0 then Some (OtherError ''x'') else None)) \<and>
   snd (Retry simple_backoff (\<lambda>e. None) DefaultRetryConfig
     (\<lambda>i. if i = 0 then Some (OtherError ''x'') else None)) \<le> 4"
proof -
  let ?op = "\<lambda>i. if i = 0 then Some (OtherError ''x'') else None"
  obtain err n where call: "Retry simple_backoff (\<lambda>e. None) DefaultRetryConfig ?op = (err, n)"
    by (cases "Retry simple_backoff (\<lambda>e. None) DefaultRetryConfig ?op")
  have "1 \<le> n \<and> n \<le> MaxRetries DefaultRetryConfig + 1"
    using Retry_correct[OF simple_backoff_contract call] by blast
  with call show ?thesis by (simp add: DefaultRetryConfig_def)
qed

text \<open>
  Finding: \<^verbatim>\<open>RetryWithResult\<close> returns a stale error. When the operation succeeds on an
  attempt after the first, the loop ends with nil and the result is that attempt's, but the
  error of an earlier attempt is returned with it: a success after a retry always comes with
  a non-nil error.
\<close>

theorem RetryWithResult_stale_error:
  assumes lib: "backoff_contract (MaxRetries cfg) backoff"
    and run: "backoff (MaxRetries cfg) (RetryWithResult_step fromError operation)
                \<lparr>rv_attempt = 0, rv_result = zero, rv_lastErr = None\<rparr> = (None, s)"
    and retried: "rv_attempt s > 1"
  shows "fst (RetryWithResult backoff fromError cfg zero operation) = fst (operation (rv_attempt s - 1)) \<and>
         snd (operation (rv_attempt s - 1)) = None \<and>
         snd (RetryWithResult backoff fromError cfg zero operation) \<noteq> None"
proof -
  have "backoff_run (MaxRetries cfg) (RetryWithResult_step fromError operation)
      \<lparr>rv_attempt = 0, rv_result = zero, rv_lastErr = None\<rparr> None s"
    using lib run by (metis backoff_contract_def fst_conv snd_conv)
  from RetryWithResult_run[OF this] run retried show ?thesis
    by (auto simp: RetryWithResult_def)
qed

lemma RetryWithResult_stale_error_witness:
  "snd (RetryWithResult simple_backoff (\<lambda>e. None) DefaultRetryConfig (0 :: nat)
     (\<lambda>i. if i = 0 then (0, Some (OtherError ''x'')) else (7, None))) \<noteq> None"
proof -
  let ?op = "\<lambda>i. if i = 0 then (0, Some (OtherError ''x'')) else (7 :: nat, None)"
  have "simple_backoff (MaxRetries DefaultRetryConfig) (RetryWithResult_step (\<lambda>e. None) ?op)
      \<lparr>rv_attempt = 0, rv_result = 0, rv_lastErr = None\<rparr> =
      (None, \<lparr>rv_attempt = 2, rv_result = 7, rv_lastErr = Some (OtherError ''x'')\<rparr>)"
    by (simp add: simple_backoff.simps RetryWithResult_step_def IsRetryable_def DefaultRetryConfig_def
        numeral_3_eq_3)
  from RetryWithResult_stale_error[OF simple_backoff_contract this] show ?thesis by simp
qed

end
