(* ===== verification/Interceptors.thy ===== *)
theory Interceptors
  imports Cache_Key Retry Go_Strings
begin

text \<open>
  The gRPC interceptors: bearer token authentication (\<^verbatim>\<open>internal/security/auth\<close>, files
  \<^verbatim>\<open>token.go\<close> and \<^verbatim>\<open>interceptor.go\<close>) and request identifiers
  (\<^verbatim>\<open>internal/grpc/interceptors/requestid.go\<close>).

  gRPC's metadata package is the argument \<open>api\<close>. A context consists of what gRPC keeps in it
  and of the request identifier stored by \<^verbatim>\<open>context.WithValue\<close>. Handlers, invokers and streamers
  are state-passing functions, so that a theorem can say that one did not run.
\<close>

subsection \<open>Contexts and metadata\<close>

record ('c, 'm) metadata_api =
  FromIncoming :: "'c \<Rightarrow> 'm option"
  mdGet :: "'m \<Rightarrow> string \<Rightarrow> string list"
  AppendToOutgoing :: "'c \<Rightarrow> string \<Rightarrow> string \<Rightarrow> 'c"

record 'c Context =
  ctx_grpc :: 'c
  ctx_requestID :: "string option"

text \<open>
  The documented behaviour of metadata: \<open>out c k\<close> are the values of key \<open>k\<close> in the outgoing
  metadata of \<open>c\<close>, appending adds one at the end, and \<open>send\<close>, the transport, makes the outgoing
  metadata of the caller the incoming metadata of the callee and starts a context with no
  outgoing metadata.
\<close>

definition metadata_laws ::
    "('c, 'm) metadata_api \<Rightarrow> ('c \<Rightarrow> string \<Rightarrow> string list) \<Rightarrow> ('c \<Rightarrow> 'c) \<Rightarrow> bool" where
  "metadata_laws api out send \<longleftrightarrow>
     (\<forall>c k v k'. out (AppendToOutgoing api c k v) k' = out c k' @ (if k' = k then [v] else [])) \<and>
     (\<forall>c k v. FromIncoming api (AppendToOutgoing api c k v) = FromIncoming api c) \<and>
     (\<forall>c. \<exists>m. FromIncoming api (send c) = Some m \<and> (\<forall>k. mdGet api m k = out c k)) \<and>
     (\<forall>c k. out (send c) k = [])"

subsection \<open>Tokens\<close>

definition MinTokenLength :: int where "MinTokenLength = 32"
definition DefaultTokenLength :: int where "DefaultTokenLength = 64"

definition ValidateToken :: "string \<Rightarrow> string \<Rightarrow> bool" where
  "ValidateToken provided expected =
     (if int (length provided) < MinTokenLength then False
      else if int (length expected) < MinTokenLength then False
      else provided = expected)"

text \<open>
  \<^verbatim>\<open>rand.Read\<close> fills the buffer or fails: \<open>rnd n\<close> is its outcome for a buffer of \<open>n\<close> bytes.
\<close>

definition GenerateTokenWithLength ::
    "(nat \<Rightarrow> (string, 8 word list) outcome) \<Rightarrow> int \<Rightarrow> (string, string) outcome" where
  "GenerateTokenWithLength rnd len =
     (if len < MinTokenLength
      then Err (''token length must be at least '' @ int_str MinTokenLength)
      else (case rnd (nat (len sdiv 2)) of
              Ok bytes \<Rightarrow> Ok (EncodeToString bytes)
            | Err e \<Rightarrow> Err (''failed to generate random bytes: '' @ e)
            | Panic \<Rightarrow> Panic))"

definition GenerateToken :: "(nat \<Rightarrow> (string, 8 word list) outcome) \<Rightarrow> (string, string) outcome" where
  "GenerateToken rnd = GenerateTokenWithLength rnd DefaultTokenLength"

definition ParseBearerToken :: "string \<Rightarrow> string \<times> bool" where
  "ParseBearerToken auth =
     (if length auth \<le> length ''Bearer '' then ('''', False)
      else if take (length ''Bearer '') auth \<noteq> ''Bearer '' then ('''', False)
      else (drop (length ''Bearer '') auth, True))"

subsection \<open>Authentication\<close>

definition AuthorizationKey :: string where "AuthorizationKey = ''authorization''"

record AuthConfig =
  ac_Enabled :: bool
  ac_Token :: string
  ac_SkipMethods :: "string list"

definition DefaultAuthConfig :: AuthConfig where
  "DefaultAuthConfig =
     \<lparr>ac_Enabled = False, ac_Token = '''', ac_SkipMethods = [''/grpc.health.v1.Health/Check'']\<rparr>"

record Interceptor =
  enabled :: bool
  token :: string
  skipMethods :: "string list"

text \<open>The set \<^verbatim>\<open>skipMethods\<close> is a list of the methods with value true.\<close>

definition NewInterceptor :: "AuthConfig \<Rightarrow> Interceptor" where
  "NewInterceptor cfg =
     \<lparr>enabled = ac_Enabled cfg, token = ac_Token cfg,
      skipMethods = fold List.insert (ac_SkipMethods cfg) []\<rparr>"

definition validateContext :: "('c, 'm) metadata_api \<Rightarrow> Interceptor \<Rightarrow> 'c Context \<Rightarrow> goerr option" where
  "validateContext api i ctx =
     (case FromIncoming api (ctx_grpc ctx) of
        None \<Rightarrow> Some (StatusError Unauthenticated ''no metadata provided'')
      | Some md \<Rightarrow>
          (case mdGet api md AuthorizationKey of
             [] \<Rightarrow> Some (StatusError Unauthenticated ''authorization token required'')
           | v # _ \<Rightarrow>
               (case ParseBearerToken v of
                  (_, False) \<Rightarrow> Some (StatusError Unauthenticated ''invalid authorization format'')
                | (tok, True) \<Rightarrow>
                    if \<not> ValidateToken tok (token i)
                    then Some (StatusError Unauthenticated ''invalid token'') else None)))"

type_synonym ('c, 'q, 'p, 's) unary = "'c Context \<Rightarrow> 'q \<Rightarrow> 's \<Rightarrow> (goerr, 'p) outcome \<times> 's"

definition UnaryServerInterceptor ::
    "('c, 'm) metadata_api \<Rightarrow> Interceptor \<Rightarrow> string \<Rightarrow> ('c, 'q, 'p, 's) unary \<Rightarrow> ('c, 'q, 'p, 's) unary" where
  "UnaryServerInterceptor api i fullMethod handler ctx req s =
     (if \<not> enabled i then handler ctx req s
      else if fullMethod \<in> set (skipMethods i) then handler ctx req s
      else (case validateContext api i ctx of
              Some err \<Rightarrow> (Err err, s)
            | None \<Rightarrow> handler ctx req s))"

text \<open>A server stream is its context and the rest; the handler gets the server and the stream.\<close>

record ('c, 'st) ServerStream =
  ss_Context :: "'c Context"
  ss_stream :: 'st

type_synonym ('c, 'v, 'st, 's) stream_handler =
  "'v \<Rightarrow> ('c, 'st) ServerStream \<Rightarrow> 's \<Rightarrow> (goerr, unit) outcome \<times> 's"

definition StreamServerInterceptor ::
    "('c, 'm) metadata_api \<Rightarrow> Interceptor \<Rightarrow> string \<Rightarrow> ('c, 'v, 'st, 's) stream_handler \<Rightarrow>
     ('c, 'v, 'st, 's) stream_handler" where
  "StreamServerInterceptor api i fullMethod handler srv ss s =
     (if \<not> enabled i then handler srv ss s
      else if fullMethod \<in> set (skipMethods i) then handler srv ss s
      else (case validateContext api i (ss_Context ss) of
              Some err \<Rightarrow> (Err err, s)
            | None \<Rightarrow> handler srv ss s))"

definition ContextWithToken :: "('c, 'm) metadata_api \<Rightarrow> 'c Context \<Rightarrow> string \<Rightarrow> 'c Context" where
  "ContextWithToken api ctx tok =
     ctx\<lparr>ctx_grpc := AppendToOutgoing api (ctx_grpc ctx) AuthorizationKey (''Bearer '' @ tok)\<rparr>"

text \<open>The remaining arguments of an invoker or streamer are passed on; \<open>'q\<close> stands for them.\<close>

definition UnaryClientInterceptor ::
    "('c, 'm) metadata_api \<Rightarrow> string \<Rightarrow> ('c, 'q, 'p, 's) unary \<Rightarrow> ('c, 'q, 'p, 's) unary" where
  "UnaryClientInterceptor api tok invoker ctx args s =
     invoker (if tok \<noteq> '''' then ContextWithToken api ctx tok else ctx) args s"

definition StreamClientInterceptor ::
    "('c, 'm) metadata_api \<Rightarrow> string \<Rightarrow> ('c, 'q, 'p, 's) unary \<Rightarrow> ('c, 'q, 'p, 's) unary" where
  "StreamClientInterceptor api tok streamer ctx args s =
     streamer (if tok \<noteq> '''' then ContextWithToken api ctx tok else ctx) args s"

subsection \<open>Request identifiers\<close>

definition requestIDMetadataKey :: string where "requestIDMetadataKey = ''x-request-id''"

definition generateRequestID :: "(nat \<Rightarrow> (string, 8 word list) outcome) \<Rightarrow> (goerr, string) outcome" where
  "generateRequestID rnd =
     (case rnd 16 of
        Ok b \<Rightarrow> Ok (EncodeToString b)
      | Err e \<Rightarrow> Err (WrapError ''failed to generate request ID'' (OtherError e))
      | Panic \<Rightarrow> Panic)"

definition RequestIDFromContext :: "'c Context \<Rightarrow> string" where
  "RequestIDFromContext ctx = (case ctx_requestID ctx of None \<Rightarrow> '''' | Some i \<Rightarrow> i)"

definition withRequestIDLogger :: "('c, 'm) metadata_api \<Rightarrow> 'c Context \<Rightarrow> string \<Rightarrow> 'c Context" where
  "withRequestIDLogger api ctx requestID =
     ctx\<lparr>ctx_requestID := Some requestID,
         ctx_grpc := AppendToOutgoing api (ctx_grpc ctx) requestIDMetadataKey requestID\<rparr>"

text \<open>The identifier of an incoming call: the first one sent along, or a new one.\<close>

definition incomingRequestID ::
    "('c, 'm) metadata_api \<Rightarrow> (nat \<Rightarrow> (string, 8 word list) outcome) \<Rightarrow> 'c Context \<Rightarrow> (goerr, string) outcome" where
  "incomingRequestID api rnd ctx =
     (case (case FromIncoming api (ctx_grpc ctx) of None \<Rightarrow> [] | Some md \<Rightarrow> mdGet api md requestIDMetadataKey) of
        v # _ \<Rightarrow> Ok v
      | [] \<Rightarrow> generateRequestID rnd)"

definition UnaryRequestIDInterceptor ::
    "('c, 'm) metadata_api \<Rightarrow> (nat \<Rightarrow> (string, 8 word list) outcome) \<Rightarrow>
     ('c, 'q, 'p, 's) unary \<Rightarrow> ('c, 'q, 'p, 's) unary" where
  "UnaryRequestIDInterceptor api rnd handler ctx req s =
     (case incomingRequestID api rnd ctx of
        Ok requestID \<Rightarrow> handler (withRequestIDLogger api ctx requestID) req s
      | Err e \<Rightarrow> (Err e, s)
      | Panic \<Rightarrow> (Panic, s))"

definition StreamRequestIDInterceptor ::
    "('c, 'm) metadata_api \<Rightarrow> (nat \<Rightarrow> (string, 8 word list) outcome) \<Rightarrow>
     ('c, 'v, 'st, 's) stream_handler \<Rightarrow> ('c, 'v, 'st, 's) stream_handler" where
  "StreamRequestIDInterceptor api rnd handler srv ss s =
     (case incomingRequestID api rnd (ss_Context ss) of
        Ok requestID \<Rightarrow> handler srv (ss\<lparr>ss_Context := withRequestIDLogger api (ss_Context ss) requestID\<rparr>) s
      | Err e \<Rightarrow> (Err e, s)
      | Panic \<Rightarrow> (Panic, s))"

definition UnaryRequestIDClientInterceptor ::
    "('c, 'm) metadata_api \<Rightarrow> ('c, 'q, 'p, 's) unary \<Rightarrow> ('c, 'q, 'p, 's) unary" where
  "UnaryRequestIDClientInterceptor api invoker ctx args s =
     (let requestID = RequestIDFromContext ctx
      in invoker (if requestID \<noteq> ''''
                  then ctx\<lparr>ctx_grpc := AppendToOutgoing api (ctx_grpc ctx) requestIDMetadataKey requestID\<rparr>
                  else ctx) args s)"

definition StreamRequestIDClientInterceptor ::
    "('c, 'm) metadata_api \<Rightarrow> ('c, 'q, 'p, 's) unary \<Rightarrow> ('c, 'q, 'p, 's) unary" where
  "StreamRequestIDClientInterceptor api streamer ctx args s =
     (let requestID = RequestIDFromContext ctx
      in streamer (if requestID \<noteq> ''''
                   then ctx\<lparr>ctx_grpc := AppendToOutgoing api (ctx_grpc ctx) requestIDMetadataKey requestID\<rparr>
                   else ctx) args s)"

subsection \<open>Who is admitted\<close>

lemma ParseBearerToken_Bearer:
  "t \<noteq> '''' \<Longrightarrow> ParseBearerToken (''Bearer '' @ t) = (t, True)"
  by (simp add: ParseBearerToken_def)

lemma ParseBearerToken_iff:
  "ParseBearerToken v = (t, True) \<longleftrightarrow> v = ''Bearer '' @ t \<and> t \<noteq> ''''"
proof
  assume p: "ParseBearerToken v = (t, True)"
  then have len: "length ''Bearer '' < length v" and pre: "take (length ''Bearer '') v = ''Bearer ''"
    and t: "t = drop (length ''Bearer '') v"
    unfolding ParseBearerToken_def by (auto split: if_splits)
  have "v = ''Bearer '' @ t" unfolding t using pre by (metis append_take_drop_id)
  moreover have "t \<noteq> ''''" using len unfolding t by simp
  ultimately show "v = ''Bearer '' @ t \<and> t \<noteq> ''''" ..
next
  assume "v = ''Bearer '' @ t \<and> t \<noteq> ''''"
  then show "ParseBearerToken v = (t, True)" by (metis ParseBearerToken_Bearer)
qed

text \<open>The first authorization value of a context, if it carries any.\<close>

definition authorization :: "('c, 'm) metadata_api \<Rightarrow> 'c Context \<Rightarrow> string option" where
  "authorization api ctx =
     (case FromIncoming api (ctx_grpc ctx) of
        None \<Rightarrow> None
      | Some md \<Rightarrow> (case mdGet api md ''authorization'' of [] \<Rightarrow> None | v # _ \<Rightarrow> Some v))"

lemma validateContext_None:
  "validateContext api i ctx = None \<longleftrightarrow>
     authorization api ctx = Some (''Bearer '' @ token i) \<and> 32 \<le> length (token i)"
proof -
  have "(case ParseBearerToken v of
           (_, False) \<Rightarrow> Some (StatusError Unauthenticated ''invalid authorization format'')
         | (tok, True) \<Rightarrow> if \<not> ValidateToken tok (token i)
             then Some (StatusError Unauthenticated ''invalid token'') else None) = None \<longleftrightarrow>
        v = ''Bearer '' @ token i \<and> 32 \<le> length (token i)" for v
  proof (cases "ParseBearerToken v")
    case (Pair t ok)
    show ?thesis
    proof (cases ok)
      case True
      with Pair have "v = ''Bearer '' @ t" by (simp add: ParseBearerToken_iff)
      with Pair True show ?thesis by (auto simp: ValidateToken_def MinTokenLength_def)
    next
      case False
      have "token i \<noteq> ''''" if "32 \<le> length (token i)" using that by auto
      then have "\<not> (v = ''Bearer '' @ token i \<and> 32 \<le> length (token i))"
        using Pair False ParseBearerToken_Bearer[of "token i"] by (metis prod.inject)
      with Pair False show ?thesis by simp
    qed
  qed
  then show ?thesis
    unfolding validateContext_def authorization_def AuthorizationKey_def
    by (auto split: option.split list.split)
qed

lemma validateContext_Some:
  "validateContext api i ctx = Some e \<Longrightarrow> \<exists>msg. e = StatusError Unauthenticated msg"
  by (auto simp: validateContext_def split: option.splits list.splits prod.splits bool.splits if_splits)

lemma skipMethods_New [simp]: "set (skipMethods (NewInterceptor cfg)) = set (ac_SkipMethods cfg)"
proof -
  have "set (fold List.insert xs ys) = set xs \<union> set ys" for xs ys :: "string list"
    by (induction xs arbitrary: ys) auto
  then show ?thesis by (simp add: NewInterceptor_def)
qed

text \<open>
  C26. With authentication enabled, a call to a method that is not exempt reaches its handler exactly
  when the first authorization value is \<^verbatim>\<open>Bearer \<close> and the configured token and that token has
  at least 32 characters; otherwise the caller gets an \<^verbatim>\<open>Unauthenticated\<close> status and nothing runs.
  Streams are treated alike. With a shorter configured token nobody gets in.
\<close>
theorem auth_exact:
  "let i = NewInterceptor cfg;
       ok = (\<lambda>ctx. \<not> ac_Enabled cfg \<or> fullMethod \<in> set (ac_SkipMethods cfg) \<or>
               authorization api ctx = Some (''Bearer '' @ ac_Token cfg) \<and> 32 \<le> length (ac_Token cfg))
   in (if ok ctx then UnaryServerInterceptor api i fullMethod handler ctx req s = handler ctx req s
       else \<exists>msg. UnaryServerInterceptor api i fullMethod handler ctx req s =
                    (Err (StatusError Unauthenticated msg), s)) \<and>
      (if ok (ss_Context ss) then StreamServerInterceptor api i fullMethod shandler srv ss s = shandler srv ss s
       else \<exists>msg. StreamServerInterceptor api i fullMethod shandler srv ss s =
                    (Err (StatusError Unauthenticated msg), s))"
proof -
  let ?i = "NewInterceptor cfg"
  have [simp]: "enabled ?i = ac_Enabled cfg" "token ?i = ac_Token cfg"
    by (simp_all add: NewInterceptor_def)
  have none: "validateContext api ?i c = None \<longleftrightarrow>
      authorization api c = Some (''Bearer '' @ ac_Token cfg) \<and> 32 \<le> length (ac_Token cfg)" for c
    by (simp add: validateContext_None)
  have some: "\<exists>msg. validateContext api ?i c = Some (StatusError Unauthenticated msg)"
    if "validateContext api ?i c \<noteq> None" for c
    using that validateContext_Some by fastforce
  show ?thesis
    unfolding Let_def UnaryServerInterceptor_def StreamServerInterceptor_def
    using none[of ctx] some[of ctx] none[of "ss_Context ss"] some[of "ss_Context ss"]
    by (cases "validateContext api ?i ctx"; cases "validateContext api ?i (ss_Context ss)") auto
qed

lemma send_append:
  assumes "metadata_laws api out send"
  shows "\<exists>m. FromIncoming api (send (AppendToOutgoing api c k v)) = Some m \<and> mdGet api m k = out c k @ [v]"
proof -
  have "out (AppendToOutgoing api c k v) k = out c k @ [v]"
    using assms by (simp add: metadata_laws_def)
  then show ?thesis using assms unfolding metadata_laws_def by metis
qed

text \<open>
  A client whose interceptor holds the server's token is admitted, provided no other authorization
  value was put into its context before.
\<close>
theorem auth_round_trip:
  assumes "metadata_laws api out send" and "32 \<le> length tok"
    and "out (ctx_grpc ctx) ''authorization'' = []"
  shows "UnaryClientInterceptor api tok
           (\<lambda>c. UnaryServerInterceptor api \<lparr>enabled = True, token = tok, skipMethods = skip\<rparr> fullMethod handler
                  \<lparr>ctx_grpc = send (ctx_grpc c), ctx_requestID = None\<rparr>) ctx req s =
         handler \<lparr>ctx_grpc = send (AppendToOutgoing api (ctx_grpc ctx) ''authorization'' (''Bearer '' @ tok)),
                  ctx_requestID = None\<rparr> req s"
proof -
  let ?c = "send (AppendToOutgoing api (ctx_grpc ctx) ''authorization'' (''Bearer '' @ tok))"
  have "\<exists>m. FromIncoming api ?c = Some m \<and> mdGet api m ''authorization'' = [''Bearer '' @ tok]"
    using send_append[OF assms(1), of "ctx_grpc ctx" "''authorization''" "''Bearer '' @ tok"] assms(3)
    by simp
  then have "authorization api \<lparr>ctx_grpc = ?c, ctx_requestID = None\<rparr> = Some (''Bearer '' @ tok)"
    by (auto simp: authorization_def)
  then have "validateContext api \<lparr>enabled = True, token = tok, skipMethods = skip\<rparr>
      \<lparr>ctx_grpc = ?c, ctx_requestID = None\<rparr> = None"
    using assms(2) by (simp add: validateContext_None)
  then show ?thesis
    using assms(2) by (auto simp: UnaryClientInterceptor_def UnaryServerInterceptor_def ContextWithToken_def
        AuthorizationKey_def)
qed

text \<open>Metadata as a pair of the incoming and the outgoing values, for concrete runs.\<close>

definition pairMetadata ::
    "((string \<Rightarrow> string list) option \<times> (string \<Rightarrow> string list), string \<Rightarrow> string list) metadata_api" where
  "pairMetadata =
     \<lparr>FromIncoming = fst, mdGet = (\<lambda>m. m), AppendToOutgoing = (\<lambda>(i, out) k v. (i, out(k := out k @ [v])))\<rparr>"

definition pairSend ::
    "(string \<Rightarrow> string list) option \<times> (string \<Rightarrow> string list) \<Rightarrow>
     (string \<Rightarrow> string list) option \<times> (string \<Rightarrow> string list)" where
  "pairSend c = (Some (snd c), \<lambda>_. [])"

lemma pairMetadata_laws: "metadata_laws pairMetadata snd pairSend"
  by (auto simp: metadata_laws_def pairMetadata_def pairSend_def)

theorem auth_round_trip_witness:
  "UnaryClientInterceptor pairMetadata (replicate 32 CHR ''a'')
     (\<lambda>c. UnaryServerInterceptor pairMetadata
            \<lparr>enabled = True, token = replicate 32 CHR ''a'', skipMethods = []\<rparr> ''/hg/Build''
            (\<lambda>_ q s. (Ok (Suc q), s + (1 :: nat))) \<lparr>ctx_grpc = pairSend (ctx_grpc c), ctx_requestID = None\<rparr>)
     \<lparr>ctx_grpc = (None, \<lambda>_. []), ctx_requestID = None\<rparr> (7 :: nat) 0 = (Ok 8, 1)"
  using auth_round_trip[OF pairMetadata_laws, where tok = "replicate 32 CHR ''a''" and skip = "[]"
      and fullMethod = "''/hg/Build''" and handler = "\<lambda>_ q s. (Ok (Suc q), s + (1 :: nat))"
      and ctx = "\<lparr>ctx_grpc = (None, \<lambda>_. []), ctx_requestID = None\<rparr>" and req = "7 :: nat" and s = 0]
  by simp

subsection \<open>Generated tokens\<close>

lemma EncodeToString_length: "length (EncodeToString bs) = 2 * length bs"
  by (induction bs) (simp_all add: EncodeToString_def hexByte_def)

text \<open>
  A token of a length of at least 32 is generated whenever the random source delivers; it is
  accepted by a server configured with it, another draw is not, and its length is the
  requested one only if that is even: an odd request yields one character less.
\<close>
theorem GenerateToken_validates:
  assumes len: "32 \<le> len" and rnd: "rnd (nat (len div 2)) = Ok bs" and full: "length bs = nat (len div 2)"
    and other: "length bs' = length bs"
  shows "GenerateTokenWithLength rnd len = Ok (EncodeToString bs) \<and>
         int (length (EncodeToString bs)) = len - len mod 2 \<and>
         (ValidateToken (EncodeToString bs') (EncodeToString bs) \<longleftrightarrow> bs' = bs)"
proof -
  have sd: "len sdiv 2 = len div 2" using len by (simp add: signed_divide_int_def)
  have n: "int (length (EncodeToString bs)) = len - len mod 2"
    using len full by (simp add: EncodeToString_length minus_mod_eq_mult_div)
  moreover have "32 \<le> len - len mod 2" using len by presburger
  ultimately have "32 \<le> int (length (EncodeToString bs))" by simp
  then have "ValidateToken (EncodeToString bs') (EncodeToString bs) \<longleftrightarrow> bs' = bs"
    using EncodeToString_inj[OF other] other
    by (auto simp: ValidateToken_def MinTokenLength_def EncodeToString_length)
  then show ?thesis using n len rnd sd by (simp add: GenerateTokenWithLength_def MinTokenLength_def)
qed

theorem GenerateToken_validates_witness:
  "GenerateTokenWithLength (\<lambda>n. Ok (replicate n 0xAB)) 33 = Ok (EncodeToString (replicate 16 0xAB)) \<and>
   int (length (EncodeToString (replicate 16 0xAB))) = 32 \<and>
   \<not> ValidateToken (EncodeToString (replicate 16 0xCD)) (EncodeToString (replicate 16 0xAB))"
  using GenerateToken_validates[of 33 "\<lambda>n. Ok (replicate n 0xAB)" "replicate 16 0xAB" "replicate 16 0xCD"]
  by simp

subsection \<open>Request identifiers travel along\<close>

text \<open>
  What the request identifier interceptor hands its handler: the caller's identifier if there is
  one, else a fresh one of 32 hexadecimal digits; the handler finds it in its context.
\<close>

lemma request_id_seen:
  "UnaryRequestIDInterceptor api rnd handler ctx req s =
     (case incomingRequestID api rnd ctx of
        Ok i \<Rightarrow> handler (withRequestIDLogger api ctx i) req s | Err e \<Rightarrow> (Err e, s) | Panic \<Rightarrow> (Panic, s)) \<and>
   RequestIDFromContext (withRequestIDLogger api ctx i) = i"
  by (simp add: UnaryRequestIDInterceptor_def RequestIDFromContext_def withRequestIDLogger_def)

text \<open>
  A handler that calls another service hands its own request identifier on: the callee's handler
  runs with the identifier the first server chose. It is sent twice, because the server-side
  interceptor has already put it into the outgoing metadata.
\<close>
theorem request_id_propagates:
  assumes laws: "metadata_laws api out send" and fresh: "out (ctx_grpc ctx) ''x-request-id'' = []"
    and first: "incomingRequestID api rnd ctx = Ok i" and ne: "i \<noteq> ''''"
  shows "\<exists>ctx'. UnaryRequestIDInterceptor api rnd
           (UnaryRequestIDClientInterceptor api
              (\<lambda>c. UnaryRequestIDInterceptor api rnd' handler
                     \<lparr>ctx_grpc = send (ctx_grpc c), ctx_requestID = None\<rparr>)) ctx req s = handler ctx' req s \<and>
         RequestIDFromContext ctx' = i \<and>
         (\<exists>m. FromIncoming api (ctx_grpc ctx') = Some m \<and> mdGet api m ''x-request-id'' = [i, i])"
proof -
  let ?c1 = "AppendToOutgoing api (ctx_grpc ctx) ''x-request-id'' i"
  let ?c2 = "AppendToOutgoing api ?c1 ''x-request-id'' i"
  let ?ctx2 = "\<lparr>ctx_grpc = send ?c2, ctx_requestID = None\<rparr>"
  have "out ?c1 ''x-request-id'' = [i]" using laws fresh by (simp add: metadata_laws_def)
  then obtain m where m: "FromIncoming api (send ?c2) = Some m" "mdGet api m ''x-request-id'' = [i, i]"
    using send_append[OF laws, of ?c1 "''x-request-id''" i] by auto
  then have id2: "incomingRequestID api rnd' ?ctx2 = Ok i"
    by (simp add: incomingRequestID_def requestIDMetadataKey_def)
  have "FromIncoming api (ctx_grpc (withRequestIDLogger api ?ctx2 i)) = Some m"
    using laws m by (simp add: metadata_laws_def withRequestIDLogger_def)
  then show ?thesis
    using first ne id2 m request_id_seen[of api rnd' handler ?ctx2 req s i]
    by (auto simp: UnaryRequestIDInterceptor_def UnaryRequestIDClientInterceptor_def Let_def
        RequestIDFromContext_def withRequestIDLogger_def requestIDMetadataKey_def)
qed


theorem auth_exact_witness:
  "\<exists>msg. UnaryServerInterceptor pairMetadata
     (NewInterceptor \<lparr>ac_Enabled = True, ac_Token = replicate 32 CHR ''a'', ac_SkipMethods = []\<rparr>) ''/hg/Build''
     (\<lambda>_ q s. (Ok (Suc q), s + (1 :: nat)))
     \<lparr>ctx_grpc = (Some ((\<lambda>_. [])(''authorization'' := [''Basic x''])), \<lambda>_. []), ctx_requestID = None\<rparr> (7 :: nat) 0 =
     (Err (StatusError Unauthenticated msg), 0)"
proof -
  let ?ctx = "\<lparr>ctx_grpc = (Some ((\<lambda>_. [])(''authorization'' := [''Basic x''])), \<lambda>_. []), ctx_requestID = None\<rparr>"
  let ?cfg = "\<lparr>ac_Enabled = True, ac_Token = replicate 32 CHR ''a'', ac_SkipMethods = []\<rparr>"
  have "authorization pairMetadata ?ctx = Some ''Basic x''"
    by (simp add: authorization_def pairMetadata_def)
  then have no: "\<not> (\<not> ac_Enabled ?cfg \<or> ''/hg/Build'' \<in> set (ac_SkipMethods ?cfg) \<or>
      authorization pairMetadata ?ctx = Some (''Bearer '' @ ac_Token ?cfg) \<and> 32 \<le> length (ac_Token ?cfg))"
    by simp
  from auth_exact[of ?cfg "''/hg/Build''" pairMetadata ?ctx "\<lambda>_ q s. (Ok (Suc q), s + (1 :: nat))" "7 :: nat" 0]
  show ?thesis unfolding Let_def if_not_P[OF no] by (rule conjunct1)
qed

end
