(* ===== verification/Graph.thy ===== *)
theory Graph
  imports Cache_Key Go_Paths
begin

text \<open>
  The build graph, \<^verbatim>\<open>internal/graph\<close>: the graph and its operations (\<^verbatim>\<open>graph.go\<close>), and its
  extraction from Makefiles and compilation databases (\<^verbatim>\<open>parser.go\<close>). The regular expressions
  have deterministic matchers: the longest run of a target is the only one that can match.
  Files are arguments (\<open>file_read\<close>), as are the working directory and the JSON decoder.
\<close>

subsection \<open>Graphs\<close>

datatype NodeType = NodeSource | NodeHeader | NodeObject | NodeLibrary | NodeExecutable | NodeOther string

datatype EdgeType = EdgeIncludes | EdgeCompilesTo | EdgeLinksTo | EdgeDependsOn | EdgeOther string

record Node =
  nd_ID :: string
  nd_File :: string
  nd_Type :: NodeType
  nd_Compiler :: string
  nd_Flags :: "string list"

record Edge =
  ed_From :: string
  ed_To :: string
  ed_Type :: EdgeType

record Graph =
  Nodes :: "(string, Node) fmap"
  Edges :: "Edge list"

definition Graph_New :: Graph where
  "Graph_New = \<lparr>Nodes = fmempty, Edges = []\<rparr>"

definition AddNode :: "Node \<Rightarrow> Graph \<Rightarrow> Graph" where
  "AddNode node g =
     (let node = (if nd_ID node = '''' then node\<lparr>nd_ID := nd_File node\<rparr> else node)
      in g\<lparr>Nodes := fmupd (nd_ID node) node (Nodes g)\<rparr>)"

definition AddEdge :: "string \<Rightarrow> string \<Rightarrow> EdgeType \<Rightarrow> Graph \<Rightarrow> Graph" where
  "AddEdge from to edgeType g =
     g\<lparr>Edges := Edges g @ [\<lparr>ed_From = from, ed_To = to, ed_Type = edgeType\<rparr>]\<rparr>"

definition GetNode :: "string \<Rightarrow> Graph \<Rightarrow> Node option" where
  "GetNode nid g = fmlookup (Nodes g) nid"

definition NodeCount :: "Graph \<Rightarrow> nat" where "NodeCount g = map_len (Nodes g)"
definition EdgeCount :: "Graph \<Rightarrow> nat" where "EdgeCount g = length (Edges g)"

definition GetNodesByType :: "string list \<Rightarrow> NodeType \<Rightarrow> Graph \<Rightarrow> Node list" where
  "GetNodesByType order nodeType g = filter (\<lambda>n. nd_Type n = nodeType) (range_vals (Nodes g) order)"

definition GetIncomingEdges :: "string \<Rightarrow> Graph \<Rightarrow> Edge list" where
  "GetIncomingEdges nodeID g = filter (\<lambda>e. ed_To e = nodeID) (Edges g)"

definition GetOutgoingEdges :: "string \<Rightarrow> Graph \<Rightarrow> Edge list" where
  "GetOutgoingEdges nodeID g = filter (\<lambda>e. ed_From e = nodeID) (Edges g)"

text \<open>The loop over the other graph's nodes in the order \<open>order\<close>.\<close>

primrec mergeNodes :: "(string, Node) fmap \<Rightarrow> string list \<Rightarrow> (string, Node) fmap \<Rightarrow> (string, Node) fmap" where
  "mergeNodes other [] m = m"
| "mergeNodes other (k # ks) m =
     mergeNodes other ks
       (case fmlookup other k of
          None \<Rightarrow> m
        | Some node \<Rightarrow> if fmlookup m k = None then fmupd k node m else m)"

definition Merge :: "string list \<Rightarrow> Graph \<Rightarrow> Graph \<Rightarrow> Graph" where
  "Merge order other g =
     \<lparr>Nodes = mergeNodes (Nodes other) order (Nodes g), Edges = Edges g @ Edges other\<rparr>"

fun getNodeColor :: "NodeType \<Rightarrow> string" where
  "getNodeColor NodeSource = ''#a8d8ea''"
| "getNodeColor NodeHeader = ''#d4f1f4''"
| "getNodeColor NodeObject = ''#ffcc80''"
| "getNodeColor NodeLibrary = ''#c5e1a5''"
| "getNodeColor NodeExecutable = ''#ef9a9a''"
| "getNodeColor (NodeOther _) = ''#ffffff''"

fun getNodeShape :: "NodeType \<Rightarrow> string" where
  "getNodeShape NodeSource = ''note''"
| "getNodeShape NodeHeader = ''tab''"
| "getNodeShape NodeObject = ''box''"
| "getNodeShape NodeLibrary = ''folder''"
| "getNodeShape NodeExecutable = ''octagon''"
| "getNodeShape (NodeOther _) = ''box''"

fun getEdgeStyle :: "EdgeType \<Rightarrow> string" where
  "getEdgeStyle EdgeIncludes = ''style=dashed, color=gray''"
| "getEdgeStyle EdgeCompilesTo = ''style=solid, color=blue''"
| "getEdgeStyle EdgeLinksTo = ''style=bold, color=green''"
| "getEdgeStyle EdgeDependsOn = ''style=dotted, color=orange''"
| "getEdgeStyle (EdgeOther _) = ''''"

abbreviation nl :: string where "nl \<equiv> [CHR 0x0A]"
abbreviation dq :: string where "dq \<equiv> [CHR 0x22]"

definition nodeDOT :: "Node \<Rightarrow> string" where
  "nodeDOT node =
     (let label = (if length (nd_File node) > 30
                   then ''...'' @ drop (length (nd_File node) - 27) (nd_File node) else nd_File node)
      in ''  '' @ dq @ nd_ID node @ dq @ '' [label='' @ dq @ label @ dq @ '', fillcolor='' @ dq @
         getNodeColor (nd_Type node) @ dq @ '', shape='' @ getNodeShape (nd_Type node) @ ''];'' @ nl)"

definition edgeDOT :: "Edge \<Rightarrow> string" where
  "edgeDOT e =
     ''  '' @ dq @ ed_From e @ dq @ '' -> '' @ dq @ ed_To e @ dq @ '' ['' @ getEdgeStyle (ed_Type e) @ ''];'' @ nl"

definition ToDOT :: "string list \<Rightarrow> Graph \<Rightarrow> string" where
  "ToDOT order g =
     ''digraph BuildGraph {'' @ nl @ ''  rankdir=LR;'' @ nl @ ''  node [shape=box];'' @ nl @ nl @
     ''  // Node styles'' @ nl @ ''  node [style=filled];'' @ nl @
     concat (map nodeDOT (range_vals (Nodes g) order)) @
     nl @ ''  // Edges'' @ nl @ concat (map edgeDOT (Edges g)) @ ''}'' @ nl"

subsection \<open>Kinds of nodes and edges\<close>

definition inferNodeType :: "string \<Rightarrow> NodeType" where
  "inferNodeType file =
     (let ext = ToLower (path_Ext file)
      in if ext \<in> set [''.c'', ''.cpp'', ''.cc'', ''.cxx'', ''.m'', ''.mm''] then NodeSource
         else if ext \<in> set [''.h'', ''.hpp'', ''.hxx'', ''.hh''] then NodeHeader
         else if ext \<in> set [''.o'', ''.obj''] then NodeObject
         else if ext \<in> set [''.a'', ''.so'', ''.dylib'', ''.lib'', ''.dll''] then NodeLibrary
         else if ext \<in> set ['''', ''.exe'', ''.out'']
         then (if \<not> Contains file ''.'' \<or> ext = ''.exe'' \<or> ext = ''.out'' then NodeExecutable else NodeObject)
         else NodeSource)"

definition inferPatternNodeType :: "string \<Rightarrow> NodeType" where
  "inferPatternNodeType pattern = inferNodeType (Replace1 (CHR ''%'') ''file'' pattern)"

definition inferEdgeType :: "NodeType \<Rightarrow> NodeType \<Rightarrow> EdgeType" where
  "inferEdgeType fromType toType =
     (if fromType = NodeHeader then EdgeIncludes
      else if fromType = NodeSource \<and> toType = NodeObject then EdgeCompilesTo
      else if fromType = NodeObject \<and> (toType = NodeExecutable \<or> toType = NodeLibrary) then EdgeLinksTo
      else EdgeDependsOn)"

definition fileNode :: "string \<Rightarrow> NodeType \<Rightarrow> string \<Rightarrow> Node" where
  "fileNode f t compiler = \<lparr>nd_ID = f, nd_File = f, nd_Type = t, nd_Compiler = compiler, nd_Flags = []\<rparr>"

subsection \<open>Makefile rules\<close>

definition skipDep :: "string \<Rightarrow> bool" where
  "skipDep dep \<longleftrightarrow> HasPrefix dep ''$'' \<or> HasPrefix dep ''.''"

fun ruleDeps :: "string \<Rightarrow> NodeType \<Rightarrow> string list \<Rightarrow> Graph \<Rightarrow> Graph" where
  "ruleDeps target targetType [] g = g"
| "ruleDeps target targetType (dep # deps) g =
     ruleDeps target targetType deps
       (if skipDep dep then g
        else let depType = inferNodeType dep
             in AddEdge dep target (inferEdgeType depType targetType) (AddNode (fileNode dep depType '''') g))"

definition processRule :: "string \<Rightarrow> string list \<Rightarrow> string list \<Rightarrow> Graph \<Rightarrow> Graph" where
  "processRule target deps commands g =
     (let targetType = inferNodeType target
      in ruleDeps target targetType deps (AddNode (fileNode target targetType '''') g))"

fun patternDeps :: "string \<Rightarrow> NodeType \<Rightarrow> string list \<Rightarrow> Graph \<Rightarrow> Graph" where
  "patternDeps target targetType [] g = g"
| "patternDeps target targetType (dep # deps) g =
     patternDeps target targetType deps
       (if skipDep dep then g
        else let depType = (if Contains dep ''%'' then inferPatternNodeType dep else inferNodeType dep)
             in AddEdge dep target (inferEdgeType depType targetType) (AddNode (fileNode dep depType '''') g))"

definition processPatternRule :: "string \<Rightarrow> string \<Rightarrow> string list \<Rightarrow> string list \<Rightarrow> Graph \<Rightarrow> Graph" where
  "processPatternRule target stem deps commands g =
     (let targetType = inferPatternNodeType target;
          g = AddNode (fileNode target targetType '''') g;
          g = (if stem \<noteq> ''''
               then let stemType = inferPatternNodeType stem
                    in AddEdge stem target (inferEdgeType stemType targetType) (AddNode (fileNode stem stemType '''') g)
               else g)
      in patternDeps target targetType deps g)"

text \<open>
  The white space \<^verbatim>\<open>\s\<close> of the expressions, the characters of a target, and the two expressions:
  \<^verbatim>\<open>^([^:=\s]+)\s*:\s*(.*)$\<close> and \<^verbatim>\<open>^(%[^:=\s]*)\s*:\s*(%[^:=\s]*)?\s*(.*)$\<close>.
\<close>

definition reSpace :: "char \<Rightarrow> bool" where
  "reSpace c \<longleftrightarrow> c \<in> set [CHR 0x09, CHR 0x0A, CHR 0x0C, CHR 0x0D, CHR 0x20]"

definition reWord :: "char \<Rightarrow> bool" where
  "reWord c \<longleftrightarrow> c \<noteq> CHR '':'' \<and> c \<noteq> CHR ''='' \<and> \<not> reSpace c"

definition afterColon :: "string \<Rightarrow> string option" where
  "afterColon s =
     (case dropWhile reSpace s of
        [] \<Rightarrow> None
      | c # t \<Rightarrow> if c = CHR '':'' then Some (dropWhile reSpace t) else None)"

definition ruleRe :: "string \<Rightarrow> (string \<times> string) option" where
  "ruleRe s =
     (let target = takeWhile reWord s
      in if target = '''' then None
         else map_option (\<lambda>r. (target, r)) (afterColon (dropWhile reWord s)))"

definition patternRuleRe :: "string \<Rightarrow> (string \<times> string \<times> string) option" where
  "patternRuleRe s =
     (case s of
        [] \<Rightarrow> None
      | c # t \<Rightarrow>
          if c \<noteq> CHR ''%'' then None
          else map_option
                 (\<lambda>r. if HasPrefix r ''%''
                      then (c # takeWhile reWord t, CHR ''%'' # takeWhile reWord (tl r),
                            dropWhile reSpace (dropWhile reWord (tl r)))
                      else (c # takeWhile reWord t, '''', r))
                 (afterColon (dropWhile reWord t)))"

definition compileRe :: "string \<Rightarrow> bool" where
  "compileRe s \<longleftrightarrow> list_ex (Contains s) [''$(CC)'', ''$(CXX)'', ''gcc'', ''g++'', ''clang'', ''clang++'']"

subsection \<open>Reading a Makefile\<close>

record mk_state =
  mk_graph :: Graph
  currentTarget :: string
  currentDeps :: "string list"
  inRecipe :: bool
  recipeCommands :: "string list"
  isPatternRule :: bool
  patternStem :: string

definition mk_start :: mk_state where
  "mk_start = \<lparr>mk_graph = Graph_New, currentTarget = '''', currentDeps = [], inRecipe = False,
     recipeCommands = [], isPatternRule = False, patternStem = ''''\<rparr>"

definition mk_process :: "mk_state \<Rightarrow> Graph" where
  "mk_process s =
     (if isPatternRule s
      then processPatternRule (currentTarget s) (patternStem s) (currentDeps s) (recipeCommands s) (mk_graph s)
      else processRule (currentTarget s) (currentDeps s) (recipeCommands s) (mk_graph s))"

text \<open>The statement, repeated in the source, that ends a rule after its recipe.\<close>

definition mk_flush :: "mk_state \<Rightarrow> mk_state" where
  "mk_flush s =
     (if inRecipe s \<and> currentTarget s \<noteq> ''''
      then \<lparr>mk_graph = mk_process s, currentTarget = '''', currentDeps = [], inRecipe = False,
            recipeCommands = [], isPatternRule = False, patternStem = ''''\<rparr>
      else s)"

definition mk_rule :: "string \<Rightarrow> mk_state \<Rightarrow> mk_state" where
  "mk_rule trimmed s =
     (case patternRuleRe trimmed of
        Some (target, stem, rest) \<Rightarrow>
          if Contains target ''='' then s
          else s\<lparr>currentTarget := target, patternStem := stem, currentDeps := Fields rest, isPatternRule := True\<rparr>
      | None \<Rightarrow>
          (case ruleRe trimmed of
             None \<Rightarrow> s
           | Some (target, rest) \<Rightarrow>
               (let deps = Fields rest
                in if Contains target ''='' \<or> target = ''.PHONY'' then s
                   else if compileRe (Join '' '' deps) \<or> 0 < length deps
                   then s\<lparr>currentTarget := target, currentDeps := deps, isPatternRule := False\<rparr>
                   else s)))"

definition mk_line :: "mk_state \<Rightarrow> string \<Rightarrow> mk_state" where
  "mk_line s line =
     (let trimmed = TrimSpace line
      in if trimmed = '''' \<or> HasPrefix trimmed ''#'' then mk_flush s
         else if HasPrefix line [CHR 0x09]
         then s\<lparr>inRecipe := True, recipeCommands := recipeCommands s @ [trimmed]\<rparr>
         else mk_rule trimmed (mk_flush s))"

definition mk_end :: "mk_state \<Rightarrow> Graph" where
  "mk_end s = (if currentTarget s \<noteq> '''' then mk_process s else mk_graph s)"

definition makefileGraph :: "string list \<Rightarrow> Graph" where
  "makefileGraph lines = mk_end (foldl mk_line mk_start lines)"

text \<open>
  \<^verbatim>\<open>bufio.ScanLines\<close>: the lines without their terminators and without one carriage return, no empty
  last line; a line that does not fit the scanner's buffer of 64 KB is an error.
\<close>

definition maxScanTokenSize :: nat where "maxScanTokenSize = 65536"

definition rawLines :: "string \<Rightarrow> string list" where
  "rawLines content =
     (let ls = Split (CHR 0x0A) content in if last ls = '''' then butlast ls else ls)"

definition scanLines :: "string \<Rightarrow> string list option" where
  "scanLines content =
     (if list_ex (\<lambda>l. maxScanTokenSize \<le> length l) (rawLines content) then None
      else Some (map (\<lambda>l. trimSuffix l [CHR 0x0D]) (rawLines content)))"

text \<open>Joining lines that end in a backslash; \<open>cur\<close> is the builder \<^verbatim>\<open>currentLine\<close>.\<close>

fun joinContinuations :: "string \<Rightarrow> string list \<Rightarrow> string list" where
  "joinContinuations cur [] = (if 0 < length cur then [cur] else [])"
| "joinContinuations cur (line # rest) =
     (if HasSuffix (TrimRight [CHR 0x20, CHR 0x09] line) [CHR 0x5C]
      then joinContinuations (cur @ trimSuffix (TrimRight [CHR 0x20, CHR 0x09] line) [CHR 0x5C] @ '' '') rest
      else if 0 < length cur then (cur @ line) # joinContinuations '''' rest
      else line # joinContinuations '''' rest)"

subsection \<open>Path validation\<close>

datatype graph_error =
    InvalidPath | InvalidBuildFile string | InvalidBaseDir | OutsideBase string string
  | OpenError string | ReadError string | DecodeError string | UnknownFileType string

text \<open>\<^verbatim>\<open>filepath.Abs\<close>; the working directory cannot always be determined.\<close>

definition path_Abs :: "string option \<Rightarrow> string \<Rightarrow> string option" where
  "path_Abs cwd path = (if IsAbs path then Some (Clean path) else map_option (\<lambda>d. path_Join [d, path]) cwd)"

definition isBuildFile :: "string \<Rightarrow> bool" where
  "isBuildFile base \<longleftrightarrow>
     base \<in> set [''Makefile'', ''makefile'', ''GNUmakefile'', ''compile_commands.json''] \<or>
     list_ex (HasSuffix base) [''.mk'', ''.make'']"

definition validatePath :: "string option \<Rightarrow> string \<Rightarrow> string \<Rightarrow> graph_error option" where
  "validatePath cwd baseDir path =
     (case path_Abs cwd path of
        None \<Rightarrow> Some InvalidPath
      | Some absPath \<Rightarrow>
          (let base = path_Base absPath
           in if \<not> isBuildFile base then Some (InvalidBuildFile base)
              else if baseDir \<noteq> ''''
              then (case path_Abs cwd baseDir of
                      None \<Rightarrow> Some InvalidBaseDir
                    | Some absBase \<Rightarrow>
                        if HasPrefix (path_Rel absBase absPath) ''..'' then Some (OutsideBase path baseDir) else None)
              else None))"

definition ParseMakefile ::
    "string option \<Rightarrow> (string \<Rightarrow> file_read) \<Rightarrow> string \<Rightarrow> string \<Rightarrow> (graph_error, Graph) outcome" where
  "ParseMakefile cwd fs baseDir path =
     (case validatePath cwd baseDir path of
        Some e \<Rightarrow> Err e
      | None \<Rightarrow>
          (case fs path of
             OpenFailed e \<Rightarrow> Err (OpenError e)
           | ReadFailed _ e \<Rightarrow> Err (ReadError e)
           | ReadAll content \<Rightarrow>
               (case scanLines content of
                  None \<Rightarrow> Err (ReadError ''bufio.Scanner: token too long'')
                | Some ls \<Rightarrow> Ok (makefileGraph (joinContinuations '''' ls)))))"

subsection \<open>Compilation databases\<close>

record CompileCommand =
  cc_Directory :: string
  cc_Command :: string
  cc_File :: string
  cc_Arguments :: "string list"
  cc_Output :: string

fun outputFlag :: "string list \<Rightarrow> string" where
  "outputFlag [] = ''''"
| "outputFlag (part # parts) =
     (if part = ''-o'' \<and> parts \<noteq> [] then hd parts
      else if HasPrefix part ''-o'' \<and> length part > 2 then drop 2 part
      else outputFlag parts)"

definition extractOutputFile :: "string \<Rightarrow> string" where
  "extractOutputFile command = outputFlag (Fields command)"

definition extractCompiler :: "string \<Rightarrow> string list \<Rightarrow> string" where
  "extractCompiler command args =
     (if 0 < length args then path_Base (hd args)
      else let parts = Fields command in if 0 < length parts then path_Base (hd parts) else '''')"

fun includeFlags :: "string list \<Rightarrow> string list" where
  "includeFlags [] = []"
| "includeFlags (arg # args) =
     (if arg = ''-I'' \<and> args \<noteq> [] then hd args # includeFlags args
      else if HasPrefix arg ''-I'' then drop 2 arg # includeFlags args
      else includeFlags args)"

definition extractIncludePaths :: "string \<Rightarrow> string list \<Rightarrow> string list" where
  "extractIncludePaths command args = includeFlags (if length args = 0 then Fields command else args)"

fun includeNodes :: "string \<Rightarrow> string list \<Rightarrow> Graph \<Rightarrow> Graph" where
  "includeNodes sourceFile [] g = g"
| "includeNodes sourceFile (inc # incs) g =
     includeNodes sourceFile incs (AddEdge inc sourceFile EdgeIncludes (AddNode (fileNode inc NodeHeader '''') g))"

definition commandSource :: "CompileCommand \<Rightarrow> string" where
  "commandSource cmd =
     (if \<not> IsAbs (cc_File cmd) then path_Join [cc_Directory cmd, cc_File cmd] else cc_File cmd)"

definition commandOutput :: "CompileCommand \<Rightarrow> string" where
  "commandOutput cmd =
     (if cc_Output cmd = ''''
      then let out = extractOutputFile (cc_Command cmd)
           in if out = ''''
              then let base = path_Base (commandSource cmd) in trimSuffix base (path_Ext base) @ ''.o''
              else out
      else cc_Output cmd)"

definition processCompileCommand :: "CompileCommand \<Rightarrow> Graph \<Rightarrow> Graph" where
  "processCompileCommand cmd g =
     (let sourceFile = commandSource cmd;
          outputFile = commandOutput cmd;
          compiler = extractCompiler (cc_Command cmd) (cc_Arguments cmd);
          includePaths = extractIncludePaths (cc_Command cmd) (cc_Arguments cmd);
          g = AddNode (fileNode sourceFile NodeSource compiler) g;
          g = AddNode (fileNode outputFile NodeObject compiler) g;
          g = AddEdge sourceFile outputFile EdgeCompilesTo g
      in includeNodes sourceFile includePaths g)"

definition ParseCompileCommands ::
    "string option \<Rightarrow> (string \<Rightarrow> file_read) \<Rightarrow> (bytes \<Rightarrow> (string, CompileCommand list) outcome) \<Rightarrow>
     string \<Rightarrow> string \<Rightarrow> (graph_error, Graph) outcome" where
  "ParseCompileCommands cwd fs unmarshal baseDir path =
     (case validatePath cwd baseDir path of
        Some e \<Rightarrow> Err e
      | None \<Rightarrow>
          (case fs path of
             OpenFailed e \<Rightarrow> Err (ReadError e)
           | ReadFailed _ e \<Rightarrow> Err (ReadError e)
           | ReadAll content \<Rightarrow>
               (case unmarshal content of
                  Ok commands \<Rightarrow> Ok (foldl (\<lambda>g cmd. processCompileCommand cmd g) Graph_New commands)
                | Err e \<Rightarrow> Err (DecodeError e)
                | Panic \<Rightarrow> Panic)))"

definition ParseAuto ::
    "string option \<Rightarrow> (string \<Rightarrow> file_read) \<Rightarrow> (bytes \<Rightarrow> (string, CompileCommand list) outcome) \<Rightarrow>
     string \<Rightarrow> string \<Rightarrow> (graph_error, Graph) outcome" where
  "ParseAuto cwd fs unmarshal baseDir path =
     (let base = path_Base path
      in if base = ''compile_commands.json'' then ParseCompileCommands cwd fs unmarshal baseDir path
         else if base = ''Makefile'' \<or> HasSuffix base ''.mk'' then ParseMakefile cwd fs baseDir path
         else Err (UnknownFileType base))"

subsection \<open>Graphs are closed\<close>

text \<open>Nodes are filed under their identifiers and every edge connects two of them.\<close>

definition graph_ok :: "Graph \<Rightarrow> bool" where
  "graph_ok g \<longleftrightarrow>
     (\<forall>k n. fmlookup (Nodes g) k = Some n \<longrightarrow> nd_ID n = k) \<and>
     (\<forall>e \<in> set (Edges g). fmlookup (Nodes g) (ed_From e) \<noteq> None \<and> fmlookup (Nodes g) (ed_To e) \<noteq> None)"

definition has_node :: "string \<Rightarrow> Graph \<Rightarrow> bool" where
  "has_node k g \<longleftrightarrow> fmlookup (Nodes g) k \<noteq> None"

lemma Graph_New_ok [simp]: "graph_ok Graph_New"
  by (simp add: graph_ok_def Graph_New_def)

lemma AddNode_ok [simp]: "graph_ok g \<Longrightarrow> graph_ok (AddNode n g)"
  by (auto simp: graph_ok_def AddNode_def Let_def)

lemma has_node_AddNode [simp]: "has_node k (AddNode (fileNode f t c) g) \<longleftrightarrow> k = f \<or> has_node k g"
  by (auto simp: has_node_def AddNode_def Let_def fileNode_def)

lemma AddEdge_ok [simp]: "graph_ok g \<Longrightarrow> has_node a g \<Longrightarrow> has_node b g \<Longrightarrow> graph_ok (AddEdge a b t g)"
  by (auto simp: graph_ok_def AddEdge_def has_node_def)

lemma has_node_AddEdge [simp]: "has_node k (AddEdge a b t g) = has_node k g"
  by (simp add: has_node_def AddEdge_def)

lemma ruleDeps_ok [simp]:
  "graph_ok g \<Longrightarrow> has_node target g \<Longrightarrow> graph_ok (ruleDeps target tt deps g) \<and> has_node target (ruleDeps target tt deps g)"
  by (induction target tt deps g rule: ruleDeps.induct) (auto simp: Let_def)

lemma patternDeps_ok [simp]:
  "graph_ok g \<Longrightarrow> has_node target g \<Longrightarrow> graph_ok (patternDeps target tt deps g) \<and> has_node target (patternDeps target tt deps g)"
  by (induction target tt deps g rule: patternDeps.induct) (auto simp: Let_def)

lemma includeNodes_ok [simp]:
  "graph_ok g \<Longrightarrow> has_node src g \<Longrightarrow> graph_ok (includeNodes src incs g)"
  by (induction src incs g rule: includeNodes.induct) auto

lemma processRule_ok [simp]: "graph_ok g \<Longrightarrow> graph_ok (processRule target deps cmds g)"
  by (simp add: processRule_def Let_def)

lemma processPatternRule_ok [simp]: "graph_ok g \<Longrightarrow> graph_ok (processPatternRule target stem deps cmds g)"
  by (simp add: processPatternRule_def Let_def)

lemma processCompileCommand_ok [simp]: "graph_ok g \<Longrightarrow> graph_ok (processCompileCommand cmd g)"
  by (simp add: processCompileCommand_def Let_def)

lemma mk_process_ok [simp]: "graph_ok (mk_graph s) \<Longrightarrow> graph_ok (mk_process s)"
  by (simp add: mk_process_def)

lemma mk_rule_graph [simp]: "mk_graph (mk_rule t s) = mk_graph s"
  by (simp add: mk_rule_def Let_def split: option.split prod.split)

lemma mk_line_ok: "graph_ok (mk_graph s) \<Longrightarrow> graph_ok (mk_graph (mk_line s line))"
  by (simp add: mk_line_def Let_def mk_flush_def)

lemma makefileGraph_ok: "graph_ok (makefileGraph ls)"
proof -
  have "graph_ok (mk_graph (foldl mk_line s ls))" if "graph_ok (mk_graph s)" for s
    using that by (induction ls arbitrary: s) (auto intro: mk_line_ok)
  then have "graph_ok (mk_graph (foldl mk_line mk_start ls))" by (simp add: mk_start_def)
  then show ?thesis by (simp add: makefileGraph_def mk_end_def)
qed

lemma foldl_commands_ok: "graph_ok g \<Longrightarrow> graph_ok (foldl (\<lambda>g cmd. processCompileCommand cmd g) g cmds)"
  by (induction cmds arbitrary: g) auto

lemma ParseMakefile_ok: "ParseMakefile cwd fs baseDir path = Ok g \<Longrightarrow> graph_ok g"
  by (auto simp: ParseMakefile_def makefileGraph_ok split: option.splits file_read.splits)

lemma ParseCompileCommands_ok: "ParseCompileCommands cwd fs unmarshal baseDir path = Ok g \<Longrightarrow> graph_ok g"
  by (auto simp: ParseCompileCommands_def foldl_commands_ok split: option.splits file_read.splits outcome.splits)

text \<open>Merging keeps the nodes a graph has and adds the others, in whatever order they are visited.\<close>

lemma mergeNodes_lookup:
  "fmlookup (mergeNodes other ks m) k =
     (case fmlookup m k of Some n \<Rightarrow> Some n | None \<Rightarrow> if k \<in> set ks then fmlookup other k else None)"
  by (induction ks arbitrary: m) (auto split: option.split)

lemma Merge_lookup:
  assumes "iter_order (Nodes other) order"
  shows "fmlookup (Nodes (Merge order other g)) k =
     (case fmlookup (Nodes g) k of Some n \<Rightarrow> Some n | None \<Rightarrow> fmlookup (Nodes other) k)"
  using iter_order_mem[OF assms, of k] by (auto simp: Merge_def mergeNodes_lookup split: option.split)

lemma Merge_ok:
  assumes ord: "iter_order (Nodes other) order" and g: "graph_ok g" and o: "graph_ok other"
  shows "graph_ok (Merge order other g)"
proof -
  have "\<forall>k n. fmlookup (Nodes (Merge order other g)) k = Some n \<longrightarrow> nd_ID n = k"
    using g o by (auto simp: Merge_lookup[OF ord] graph_ok_def split: option.splits)
  moreover have "\<forall>e \<in> set (Edges g) \<union> set (Edges other).
      fmlookup (Nodes (Merge order other g)) (ed_From e) \<noteq> None \<and> fmlookup (Nodes (Merge order other g)) (ed_To e) \<noteq> None"
    using g o by (auto simp: Merge_lookup[OF ord] graph_ok_def split: option.splits)
  ultimately show ?thesis by (simp add: graph_ok_def Merge_def)
qed

text \<open>
  C33. A graph read from a build file and merged with another one read from a build file has both ends
  of every edge among its nodes, files every node under its identifier, and keeps the node of the
  first graph where both have one.
\<close>
theorem parsed_graphs_closed:
  assumes "ParseAuto cwd fs unmarshal baseDir path = Ok g" and "ParseAuto cwd fs unmarshal baseDir path' = Ok g'"
    and "iter_order (Nodes g') order"
  shows "(\<forall>e \<in> set (Edges (Merge order g' g)).
            GetNode (ed_From e) (Merge order g' g) \<noteq> None \<and> GetNode (ed_To e) (Merge order g' g) \<noteq> None) \<and>
         (\<forall>k n. GetNode k (Merge order g' g) = Some n \<longrightarrow> nd_ID n = k) \<and>
         (\<forall>k n. GetNode k g = Some n \<longrightarrow> GetNode k (Merge order g' g) = Some n)"
proof -
  have ok: "graph_ok h" if "ParseAuto cwd fs unmarshal baseDir q = Ok h" for q h
    using that ParseMakefile_ok ParseCompileCommands_ok by (auto simp: ParseAuto_def Let_def split: if_splits)
  have "graph_ok (Merge order g' g)" using Merge_ok[OF assms(3) ok[OF assms(1)] ok[OF assms(2)]] .
  then show ?thesis
    using Merge_lookup[OF assms(3)] by (simp add: graph_ok_def GetNode_def)
qed

definition sampleCommand :: CompileCommand where
  "sampleCommand = \<lparr>cc_Directory = ''/p'', cc_Command = ''gcc -Iinc -c a.c'', cc_File = ''a.c'',
     cc_Arguments = [], cc_Output = ''a.o''\<rparr>"

theorem parsed_graphs_closed_witness:
  "\<exists>order. list_all
     (\<lambda>e. GetNode (ed_From e) (Merge order (processCompileCommand sampleCommand Graph_New)
              (processCompileCommand sampleCommand Graph_New)) \<noteq> None)
     (Edges (Merge order (processCompileCommand sampleCommand Graph_New)
              (processCompileCommand sampleCommand Graph_New)))"
proof -
  let ?g = "processCompileCommand sampleCommand Graph_New"
  have "path_Base ''/p/compile_commands.json'' = ''compile_commands.json''"
    "validatePath None '''' ''/p/compile_commands.json'' = None"
    by code_simp+
  then have p: "ParseAuto None (\<lambda>_. ReadAll '''') (\<lambda>_. Ok [sampleCommand]) '''' ''/p/compile_commands.json'' = Ok ?g"
    by (simp add: ParseAuto_def ParseCompileCommands_def Let_def)
  obtain order where "iter_order (Nodes ?g) order" using iter_order_exists by blast
  from parsed_graphs_closed[OF p p this] show ?thesis by (auto simp: list_all_iff)
qed

subsection \<open>Which paths are read\<close>

lemma path_Abs_IsAbs:
  assumes "IsAbs d" and "path_Abs (Some d) p = Some q"
  shows "IsAbs q"
proof (cases "IsAbs p")
  case True
  then show ?thesis using assms(2) by (auto simp: path_Abs_def)
next
  case False
  obtain x where d: "d = slash # x" using assms(1) by (auto simp: IsAbs_def HasPrefix_iff)
  then have "q = Clean (d @ slash # p)" using assms(2) False by (simp add: path_Abs_def)
  moreover have "IsAbs (d @ slash # p)" by (simp add: d IsAbs_def HasPrefix_def)
  ultimately show ?thesis by simp
qed

text \<open>
  With a base directory a path is accepted exactly when the file has the name of a build file and
  lies below the directory, component by component, and the part below it does not begin with two
  dots. (A directory below the base whose name begins with two dots is refused as well.)
\<close>
theorem validatePath_exact:
  assumes "IsAbs cwd" and "baseDir \<noteq> ''''"
    and "path_Abs (Some cwd) path = Some absPath" and "path_Abs (Some cwd) baseDir = Some absBase"
  shows "validatePath (Some cwd) baseDir path = None \<longleftrightarrow>
           isBuildFile (path_Base absPath) \<and>
           (\<exists>rest. components absPath = components absBase @ rest \<and> \<not> HasPrefix (Join ''/'' rest) ''..'')"
  using path_Rel_inside[OF path_Abs_IsAbs[OF assms(1,4)] path_Abs_IsAbs[OF assms(1,3)]] assms(2-4)
  by (simp add: validatePath_def Let_def)

theorem validatePath_exact_witness:
  "validatePath (Some ''/src'') ''proj'' ''proj/sub/../Makefile'' = None \<and>
   validatePath (Some ''/src'') ''proj'' ''proj/../other/Makefile'' \<noteq> None"
proof -
  have abs: "IsAbs ''/src''" "path_Abs (Some ''/src'') ''proj'' = Some ''/src/proj''"
    "path_Abs (Some ''/src'') ''proj/sub/../Makefile'' = Some ''/src/proj/Makefile''"
    "path_Abs (Some ''/src'') ''proj/../other/Makefile'' = Some ''/src/other/Makefile''"
    by code_simp+
  have comps: "components ''/src/proj'' = [''src'', ''proj'']"
    "components ''/src/proj/Makefile'' = [''src'', ''proj'', ''Makefile'']"
    "components ''/src/other/Makefile'' = [''src'', ''other'', ''Makefile'']"
    "isBuildFile (path_Base ''/src/proj/Makefile'')" "\<not> HasPrefix (Join ''/'' [''Makefile'']) ''..''"
    by code_simp+
  have ne: "''proj'' \<noteq> ''''" by simp
  have "validatePath (Some ''/src'') ''proj'' ''proj/sub/../Makefile'' = None"
    unfolding validatePath_exact[OF abs(1) ne abs(3,2)] comps(1,2) using comps(4,5) by simp
  moreover have "validatePath (Some ''/src'') ''proj'' ''proj/../other/Makefile'' \<noteq> None"
    unfolding validatePath_exact[OF abs(1) ne abs(4,2)] comps(1,3) by simp
  ultimately show ?thesis ..
qed

subsection \<open>What a Makefile yields\<close>

text \<open>A line that starts an ordinary rule with prerequisites, and a line of a recipe.\<close>

definition plainRule :: "string \<Rightarrow> (string \<times> string list) option" where
  "plainRule line =
     (let trimmed = TrimSpace line
      in if HasPrefix line [CHR 0x09] \<or> trimmed = '''' \<or> HasPrefix trimmed ''#'' \<or> patternRuleRe trimmed \<noteq> None
         then None
         else case ruleRe trimmed of
                None \<Rightarrow> None
              | Some (target, rest) \<Rightarrow>
                  if target = ''.PHONY'' \<or> Fields rest = [] then None else Some (target, Fields rest))"

definition recipeLine :: "string \<Rightarrow> bool" where
  "recipeLine line \<longleftrightarrow>
     HasPrefix line [CHR 0x09] \<and> TrimSpace line \<noteq> '''' \<and> \<not> HasPrefix (TrimSpace line) ''#''"

definition ruleEdges :: "string \<times> string list \<Rightarrow> Edge list" where
  "ruleEdges r =
     map (\<lambda>d. \<lparr>ed_From = d, ed_To = fst r, ed_Type = inferEdgeType (inferNodeType d) (inferNodeType (fst r))\<rparr>)
       (filter (\<lambda>d. \<not> skipDep d) (snd r))"

lemma Contains_single: "Contains s [c] \<longleftrightarrow> c \<in> set s"
  by (induction s) (auto simp: HasPrefix_def)

lemma ruleRe_target:
  assumes "ruleRe s = Some (t, r)"
  shows "t \<noteq> ''''" and "\<not> Contains t ''=''"
proof -
  have t: "t = takeWhile reWord s" "t \<noteq> ''''" using assms by (auto simp: ruleRe_def Let_def split: if_splits)
  have "reWord c" if "c \<in> set t" for c using that t(1) by (metis set_takeWhileD)
  then show "\<not> Contains t ''=''" by (auto simp: Contains_single reWord_def)
  show "t \<noteq> ''''" by fact
qed

lemma plainRule_line:
  assumes "plainRule line = Some (t, ds)"
  shows "mk_line s line = (mk_flush s)\<lparr>currentTarget := t, currentDeps := ds, isPatternRule := False\<rparr>"
    and "t \<noteq> ''''"
  using assms ruleRe_target
  by (auto simp: plainRule_def mk_line_def mk_rule_def Let_def split: if_splits option.splits)

lemma recipe_lines:
  assumes "list_all recipeLine rs" and "rs \<noteq> []"
  shows "\<exists>cmds. foldl mk_line s rs = s\<lparr>inRecipe := True, recipeCommands := cmds\<rparr>"
  using assms
proof (induction rs arbitrary: s)
  case (Cons r rs)
  have r: "mk_line s r = s\<lparr>inRecipe := True, recipeCommands := recipeCommands s @ [TrimSpace r]\<rparr>"
    using Cons.prems by (simp add: mk_line_def Let_def recipeLine_def)
  show ?case
  proof (cases "rs = []")
    case True
    then show ?thesis using r by auto
  next
    case False
    then obtain cmds where
      "foldl mk_line (mk_line s r) rs = (mk_line s r)\<lparr>inRecipe := True, recipeCommands := cmds\<rparr>"
      using Cons by auto
    then have "foldl mk_line s (r # rs) = s\<lparr>inRecipe := True, recipeCommands := cmds\<rparr>"
      unfolding r by (simp add: r)
    then show ?thesis ..
  qed
qed simp

lemma ruleDeps_edges: "Edges (ruleDeps t tt ds g) =
   Edges g @ map (\<lambda>d. \<lparr>ed_From = d, ed_To = t, ed_Type = inferEdgeType (inferNodeType d) tt\<rparr>) (filter (\<lambda>d. \<not> skipDep d) ds)"
  by (induction t tt ds g rule: ruleDeps.induct) (auto simp: Let_def AddEdge_def AddNode_def)

lemma processRule_edges: "Edges (processRule t ds cmds g) = Edges g @ ruleEdges (t, ds)"
  by (simp add: processRule_def Let_def ruleDeps_edges ruleEdges_def AddNode_def)

text \<open>The state after some complete rules: the last one is pending, its recipe read.\<close>

definition pending :: "string \<times> string list \<Rightarrow> Edge list \<Rightarrow> mk_state \<Rightarrow> bool" where
  "pending r es s \<longleftrightarrow>
     currentTarget s = fst r \<and> currentDeps s = snd r \<and> fst r \<noteq> '''' \<and> \<not> isPatternRule s \<and> inRecipe s \<and>
     Edges (mk_graph s) = es"

lemma pending_block:
  assumes h: "plainRule h = Some r" and rs: "list_all recipeLine rs" "rs \<noteq> []"
    and flush: "Edges (mk_graph (mk_flush s)) = es"
  shows "pending r es (foldl mk_line s (h # rs))"
proof -
  obtain t ds where r: "r = (t, ds)" by fastforce
  note line = plainRule_line[OF h[unfolded r]]
  obtain cmds where "foldl mk_line (mk_line s h) rs = (mk_line s h)\<lparr>inRecipe := True, recipeCommands := cmds\<rparr>"
    using recipe_lines[OF rs] by blast
  then show ?thesis using line flush by (simp add: pending_def r)
qed

lemma pending_flush: "pending r es s \<Longrightarrow> Edges (mk_graph (mk_flush s)) = es @ ruleEdges r"
  by (auto simp: pending_def mk_flush_def mk_process_def processRule_edges)

lemma pending_blocks:
  assumes "\<forall>(h, rs) \<in> set blocks. plainRule h \<noteq> None \<and> rs \<noteq> [] \<and> list_all recipeLine rs"
    and "pending r es s"
  shows "Edges (mk_end (foldl mk_line s (concat (map (\<lambda>(h, rs). h # rs) blocks)))) =
         es @ ruleEdges r @ concat (map (\<lambda>(h, rs). ruleEdges (the (plainRule h))) blocks)"
  using assms
proof (induction blocks arbitrary: r es s)
  case Nil
  then show ?case by (auto simp: mk_end_def pending_def mk_process_def processRule_edges)
next
  case (Cons b blocks)
  obtain h rs where b: "b = (h, rs)" by fastforce
  from Cons.prems b obtain r' where h: "plainRule h = Some r'" "rs \<noteq> []" "list_all recipeLine rs" by auto
  have "pending r' (es @ ruleEdges r) (foldl mk_line s (h # rs))"
    using pending_block[OF h(1) h(3) h(2) pending_flush[OF Cons.prems(2)]] .
  then show ?case using Cons.IH[of r' "es @ ruleEdges r"] Cons.prems(1) b h(1) by simp
qed

text \<open>
  A Makefile made of ordinary rules, each with prerequisites and a recipe, yields exactly the edges of
  its rules, in order: one from every prerequisite that is no variable and no dot file.
\<close>
theorem makefile_rules_edges:
  assumes "\<forall>(h, rs) \<in> set blocks. plainRule h \<noteq> None \<and> rs \<noteq> [] \<and> list_all recipeLine rs"
  shows "Edges (makefileGraph (concat (map (\<lambda>(h, rs). h # rs) blocks))) =
         concat (map (\<lambda>(h, rs). ruleEdges (the (plainRule h))) blocks)"
proof (cases blocks)
  case Nil
  then show ?thesis by (simp add: makefileGraph_def mk_end_def mk_start_def Graph_New_def)
next
  case (Cons b bs)
  obtain h rs where b: "b = (h, rs)" by fastforce
  from assms Cons b obtain r where h: "plainRule h = Some r" "rs \<noteq> []" "list_all recipeLine rs" by auto
  have "pending r [] (foldl mk_line mk_start (h # rs))"
    by (rule pending_block[OF h(1) h(3) h(2)]) (simp add: mk_flush_def mk_start_def Graph_New_def)
  then show ?thesis
    using pending_blocks[of bs r "[]"] assms Cons b h(1) by (simp add: makefileGraph_def)
qed

theorem makefile_rules_edges_witness:
  "Edges (makefileGraph [''app: main.o'', CHR 0x09 # ''ld'', ''main.o: main.c $(H) a.h'', CHR 0x09 # ''gcc'']) =
   [\<lparr>ed_From = ''main.o'', ed_To = ''app'', ed_Type = EdgeLinksTo\<rparr>,
    \<lparr>ed_From = ''main.c'', ed_To = ''main.o'', ed_Type = EdgeCompilesTo\<rparr>,
    \<lparr>ed_From = ''a.h'', ed_To = ''main.o'', ed_Type = EdgeIncludes\<rparr>]"
proof -
  have r: "plainRule ''app: main.o'' = Some (''app'', [''main.o''])"
    "plainRule ''main.o: main.c $(H) a.h'' = Some (''main.o'', [''main.c'', ''$(H)'', ''a.h''])"
    "list_all recipeLine [CHR 0x09 # ''ld'']" "list_all recipeLine [CHR 0x09 # ''gcc'']"
    by code_simp+
  have e: "ruleEdges (''app'', [''main.o'']) = [\<lparr>ed_From = ''main.o'', ed_To = ''app'', ed_Type = EdgeLinksTo\<rparr>]"
    "ruleEdges (''main.o'', [''main.c'', ''$(H)'', ''a.h'']) =
     [\<lparr>ed_From = ''main.c'', ed_To = ''main.o'', ed_Type = EdgeCompilesTo\<rparr>,
      \<lparr>ed_From = ''a.h'', ed_To = ''main.o'', ed_Type = EdgeIncludes\<rparr>]"
    by code_simp+
  have "\<forall>(h, rs) \<in> set [(''app: main.o'', [CHR 0x09 # ''ld'']), (''main.o: main.c $(H) a.h'', [CHR 0x09 # ''gcc''])].
          plainRule h \<noteq> None \<and> rs \<noteq> [] \<and> list_all recipeLine rs"
    using r by (simp only: list.set ball_simps prod.case option.distinct) simp
  from makefile_rules_edges[OF this] show ?thesis
    by (simp only: list.map concat.simps prod.case append.simps r e option.sel)
qed

text \<open>
  Rules without a recipe are lost unless they come last, and an assignment with \<^verbatim>\<open>:=\<close> is taken for a
  rule, although both kinds of line are meant to be handled.
\<close>
theorem makefile_loses_rules:
  "Edges (makefileGraph [''app: main.o'', ''main.o: main.c'']) =
     [\<lparr>ed_From = ''main.c'', ed_To = ''main.o'', ed_Type = EdgeCompilesTo\<rparr>] \<and>
   Edges (makefileGraph [''CC := gcc'']) =
     [\<lparr>ed_From = ''='', ed_To = ''CC'', ed_Type = EdgeDependsOn\<rparr>,
      \<lparr>ed_From = ''gcc'', ed_To = ''CC'', ed_Type = EdgeDependsOn\<rparr>]"
proof -
  have r: "plainRule ''app: main.o'' = Some (''app'', [''main.o''])"
    "plainRule ''main.o: main.c'' = Some (''main.o'', [''main.c''])"
    "plainRule ''CC := gcc'' = Some (''CC'', [''='', ''gcc''])"
    by code_simp+
  have e: "ruleEdges (''main.o'', [''main.c'']) = [\<lparr>ed_From = ''main.c'', ed_To = ''main.o'', ed_Type = EdgeCompilesTo\<rparr>]"
    "ruleEdges (''CC'', [''='', ''gcc'']) =
     [\<lparr>ed_From = ''='', ed_To = ''CC'', ed_Type = EdgeDependsOn\<rparr>,
      \<lparr>ed_From = ''gcc'', ed_To = ''CC'', ed_Type = EdgeDependsOn\<rparr>]"
    by code_simp+
  show ?thesis
    unfolding makefileGraph_def foldl.simps plainRule_line(1)[OF r(1)] plainRule_line(1)[OF r(2)]
      plainRule_line(1)[OF r(3)]
    by (simp add: mk_flush_def mk_start_def mk_end_def mk_process_def processRule_edges e Graph_New_def)
qed

text \<open>A database entry with an argument list has its output option ignored.\<close>

theorem arguments_output_ignored:
  "commandOutput \<lparr>cc_Directory = ''/p'', cc_Command = '''', cc_File = ''x/a.c'',
     cc_Arguments = [''gcc'', ''-c'', ''x/a.c'', ''-o'', ''obj/x_a.o''], cc_Output = ''''\<rparr> = ''a.o''"
  by code_simp

end
