(* ===== verification/HGBuild.thy ===== *)
theory HGBuild
  imports Programs Client App_Client Graph
begin

text \<open>
  The client program, \<^verbatim>\<open>cmd/hgbuild/main.go\<close>: the compiler wrappers \<^verbatim>\<open>cc\<close> and \<^verbatim>\<open>c++\<close> on top of the
  build service, the build wrappers that put them in the way of \<^verbatim>\<open>make\<close> and \<^verbatim>\<open>ninja\<close>, and the
  commands for single builds, the configuration, the cache and the graph.

  The record \<open>hg_world\<close> holds what one run of the program meets: its environment, the file system
  and the processes it starts, the network. The command line library hands a command its flags
  parsed, except for the wrappers, which ask for all arguments as they stand. Messages and
  durations are left out.
\<close>

subsection \<open>Flags\<close>

record hg_globals =
  hg_cfgFile :: string
  hg_coordinator :: string
  hg_insecure :: bool
  hg_noFallback :: bool
  hg_timeout :: int
  hg_verbose :: bool
  hg_tlsCert :: string
  hg_tlsKey :: string
  hg_tlsCA :: string
  hg_tracingEnable :: bool
  hg_tracingEndpoint :: string
  hg_tracingSampleRate :: float_value

definition defaultGlobals :: hg_globals where
  "defaultGlobals =
     \<lparr>hg_cfgFile = '''', hg_coordinator = '''', hg_insecure = True, hg_noFallback = False, hg_timeout = 120 * Second,
      hg_verbose = False, hg_tlsCert = '''', hg_tlsKey = '''', hg_tlsCA = '''', hg_tracingEnable = False,
      hg_tracingEndpoint = ''localhost:4317'', hg_tracingSampleRate = Fin (1 / 100)\<rparr>"

definition clientSettingsOf :: "hg_globals \<Rightarrow> ClientSettings" where
  "clientSettingsOf g =
     \<lparr>cl_CoordinatorAddr = hg_coordinator g, cl_AuthToken = '''', cl_Timeout = hg_timeout g, cl_Fallback = False\<rparr>"

definition tlsConfigOf :: "hg_globals \<Rightarrow> TLSConfig" where
  "tlsConfigOf g =
     \<lparr>tls_Enabled = (hg_tlsCert g \<noteq> '''' \<or> hg_tlsKey g \<noteq> '''' \<or> hg_tlsCA g \<noteq> ''''), tls_CertFile = hg_tlsCert g,
      tls_KeyFile = hg_tlsKey g, tls_ClientCA = hg_tlsCA g, tls_RequireClientCert = False,
      tls_InsecureSkipVerify = hg_insecure g\<rparr>"

definition tracingConfigOf :: "hg_globals \<Rightarrow> TracingConfig" where
  "tracingConfigOf g =
     \<lparr>tr_Enable = hg_tracingEnable g, tr_Endpoint = hg_tracingEndpoint g, tr_ServiceName = '''',
      tr_SampleRate = hg_tracingSampleRate g, tr_Insecure = False, tr_Headers = fmempty, tr_Timeout = 0,
      tr_BatchSize = 0\<rparr>"

text \<open>What runs before every command.\<close>

definition preRun :: "(TracingConfig \<Rightarrow> (string, unit) outcome) \<Rightarrow> hg_globals \<Rightarrow> (string, unit) outcome" where
  "preRun tracingInit g =
     (case first_error [Client_Validate (clientSettingsOf g), TLS_Validate (tlsConfigOf g),
                        Tracing_Validate (tracingConfigOf g)] of
        Some e \<Rightarrow> Err (''invalid configuration: '' @ e)
      | None \<Rightarrow>
          if hg_tracingEnable g
          then (case tracingInit (TracingToLibConfig ((tracingConfigOf g)
                       \<lparr>tr_ServiceName := ''hgbuild'', tr_Insecure := True, tr_Timeout := 10 * Second, tr_BatchSize := 512\<rparr>)) of
                  Err e \<Rightarrow> Err (''failed to initialize tracing: '' @ e)
                | Ok _ \<Rightarrow> Ok ()
                | Panic \<Rightarrow> Panic)
          else Ok ())"

definition newClientConfig :: "hg_globals \<Rightarrow> string \<Rightarrow> int \<Rightarrow> ClientConn" where
  "newClientConfig g address requestTimeout =
     (let cfg = \<lparr>cn_Address = address, cn_AuthToken = '''', cn_Timeout = requestTimeout, cn_Insecure = hg_insecure g,
                 cn_EnableTracing = hg_tracingEnable g, cn_TLS = zeroTLS\<rparr>
      in if hg_tlsCert g \<noteq> '''' \<and> hg_tlsKey g \<noteq> ''''
         then cfg\<lparr>cn_TLS := zeroTLS\<lparr>to_Enabled := True, to_CertFile := hg_tlsCert g, to_KeyFile := hg_tlsKey g,
                     to_ClientCA := hg_tlsCA g\<rparr>, cn_Insecure := False\<rparr>
         else cfg)"

definition fallbackEnabled :: "(string \<Rightarrow> string) \<Rightarrow> hg_globals \<Rightarrow> bool" where
  "fallbackEnabled getenv g \<longleftrightarrow> \<not> hg_noFallback g \<and> TrimSpace (getenv ''HG_NO_FALLBACK'') = ''''"

text \<open>
  The wrappers' own flags among the arguments. The first function also swallows the value of
  \<^verbatim>\<open>-C\<close> and \<^verbatim>\<open>--timeout\<close>; neither of them is stored anywhere.
\<close>

fun filterHgbuildFlags :: "string list \<Rightarrow> hg_globals \<Rightarrow> string list \<times> hg_globals" where
  "filterHgbuildFlags [] g = ([], g)"
| "filterHgbuildFlags (arg # args) g =
     (if arg = ''--coordinator'' \<or> arg = ''-C'' then filterHgbuildFlags (tl args) g
      else if HasPrefix arg ''--coordinator='' then filterHgbuildFlags args g
      else if arg = ''--timeout'' then filterHgbuildFlags (tl args) g
      else if HasPrefix arg ''--timeout='' then filterHgbuildFlags args g
      else if arg = ''--insecure'' then filterHgbuildFlags args g
      else if arg = ''--no-fallback'' then filterHgbuildFlags args (g\<lparr>hg_noFallback := True\<rparr>)
      else if arg = ''--verbose'' \<or> arg = ''-v'' then filterHgbuildFlags args (g\<lparr>hg_verbose := True\<rparr>)
      else (let (rest, g) = filterHgbuildFlags args g in (arg # rest, g)))"

text \<open>Package \<^verbatim>\<open>strconv\<close>.\<close>

definition ParseBool :: "string \<Rightarrow> bool option" where
  "ParseBool s =
     (if s \<in> set [''1'', ''t'', ''T'', ''TRUE'', ''true'', ''True''] then Some True
      else if s \<in> set [''0'', ''f'', ''F'', ''FALSE'', ''false'', ''False''] then Some False
      else None)"

fun filterHgbuildWrapperFlags :: "string list \<Rightarrow> hg_globals \<Rightarrow> string list \<times> hg_globals" where
  "filterHgbuildWrapperFlags [] g = ([], g)"
| "filterHgbuildWrapperFlags (arg # args) g =
     (let keep = (let (rest, g) = filterHgbuildWrapperFlags args g in (arg # rest, g))
      in if arg = ''--no-fallback'' then filterHgbuildWrapperFlags args (g\<lparr>hg_noFallback := True\<rparr>)
         else if HasPrefix arg ''--no-fallback='' then
           (case ParseBool (TrimSpace (trimPrefix arg ''--no-fallback='')) of
              Some parsed \<Rightarrow> filterHgbuildWrapperFlags args (if parsed then g\<lparr>hg_noFallback := True\<rparr> else g)
            | None \<Rightarrow> keep)
         else keep)"


subsection \<open>The world of one run\<close>

text \<open>
  \<open>None\<close> is success among the outcomes of writing a file. \<open>hw_events\<close> is what discovery meets
  before the deadline. \<open>hw_run\<close> runs a program to its end.
\<close>

record output_faults =
  ow_MkdirAll :: "string option"
  ow_OpenRoot :: "string option"
  ow_OpenFile :: "string option"
  ow_Write :: "string option"
  ow_Sync :: "string option"

record ('cert, 'pool, 'c) hg_world =
  hw_getenv :: "string \<Rightarrow> string"
  hw_goarch :: string
  hw_resolverError :: "string option"
  hw_events :: "discovery_event list"
  hw_newTLS :: "('cert, 'pool) tls_setup \<Rightarrow> 'c"
  hw_tlsLib :: "('cert, 'pool) tls_lib"
  hw_newClient :: "(string, unit) outcome"
  hw_home :: string
  hw_tempDir :: string
  hw_json :: json_codec
  hw_storeFaults :: os_faults
  hw_disk :: "(string list, bytes) fmap"
  hw_hash :: "bytes \<Rightarrow> 64 word"
  hw_build :: build_env
  hw_getwd :: "string + string"
  hw_lookPath :: "string \<Rightarrow> string + string"
  hw_statDir :: "string \<Rightarrow> string + bool"
  hw_run :: "string \<Rightarrow> string list \<Rightarrow> proc_end"
  hw_random :: "string option"
  hw_now :: int
  hw_output :: output_faults

subsection \<open>Paths\<close>

definition resolveOutputPath :: "string + string \<Rightarrow> string \<Rightarrow> (string, string) outcome" where
  "resolveOutputPath getwd outputFile =
     (if outputFile = '''' then Err ''output path cannot be empty''
      else case getwd of
        Inl e \<Rightarrow> Err (''failed to get working directory: '' @ e)
      | Inr baseDir \<Rightarrow>
          (let cleanPath = SanitizePath baseDir outputFile
           in if cleanPath = '''' then Err (''invalid output path: '' @ outputFile)
              else Ok (if \<not> IsAbs cleanPath then path_Join [baseDir, cleanPath] else cleanPath)))"

text \<open>The file that was written, with its contents.\<close>

definition writeOutputFile ::
    "string + string \<Rightarrow> output_faults \<Rightarrow> string \<Rightarrow> bytes \<Rightarrow> (string, string \<times> bytes) outcome" where
  "writeOutputFile getwd faults outputFile data =
     outcome_bind (resolveOutputPath getwd outputFile) (\<lambda>cleanPath.
       case ow_MkdirAll faults of
         Some e \<Rightarrow> Err (''failed to create output directory: '' @ e)
       | None \<Rightarrow>
      (case ow_OpenRoot faults of
         Some e \<Rightarrow> Err (''failed to open output directory: '' @ e)
       | None \<Rightarrow>
      (case ow_OpenFile faults of
         Some e \<Rightarrow> Err (''failed to open output file: '' @ e)
       | None \<Rightarrow>
      (case ow_Write faults of
         Some e \<Rightarrow> Err (''failed to write output file: '' @ e)
       | None \<Rightarrow>
      (case ow_Sync faults of
         Some e \<Rightarrow> Err (''failed to write output file: '' @ e)
       | None \<Rightarrow> Ok (path_Join [path_Dir cleanPath, path_Base cleanPath], data))))))"

text \<open>A letter or digit of ASCII or one of four marks; a byte of a longer rune is none of them.\<close>

definition isSafeExecutableName :: "string \<Rightarrow> bool" where
  "isSafeExecutableName name = list_all (\<lambda>c. isAlnum (of_char c) \<or> c \<in> set ''._-+'') name"

definition resolveLocalCompilerPath :: "('cert, 'pool, 'c) hg_world \<Rightarrow> string \<Rightarrow> (string, string) outcome" where
  "resolveLocalCompilerPath w compiler =
     (if compiler = '''' then Err ''compiler cannot be empty''
      else if CHR 0x0D \<in> set compiler \<or> CHR 0x0A \<in> set compiler then Err ''compiler contains invalid characters''
      else if slash \<in> set compiler \<or> CHR 0x5C \<in> set compiler then
        (let cleanPath = SanitizePath '''' compiler
         in if cleanPath = '''' then Err (''invalid compiler path: '' @ compiler)
            else case path_Abs (case hw_getwd w of Inl _ \<Rightarrow> None | Inr d \<Rightarrow> Some d) cleanPath of
              None \<Rightarrow> Err ''failed to resolve compiler path''
            | Some absPath \<Rightarrow>
                (case hw_statDir w absPath of
                   Inl e \<Rightarrow> Err (''failed to stat compiler path: '' @ e)
                 | Inr isDir \<Rightarrow> if isDir then Err (''compiler path is a directory: '' @ compiler) else Ok absPath))
      else if \<not> isSafeExecutableName compiler then Err (''invalid compiler name: '' @ compiler)
      else case hw_lookPath w compiler of
        Inl e \<Rightarrow> Err (''failed to find compiler '' @ compiler @ '': '' @ e)
      | Inr path \<Rightarrow> Ok path)"

definition getCoordinatorAddress :: "('cert, 'pool, 'c) hg_world \<Rightarrow> hg_globals \<Rightarrow> string" where
  "getCoordinatorAddress w g =
     (if hg_coordinator g \<noteq> '''' then hg_coordinator g
      else if hw_getenv w ''HG_COORDINATOR'' \<noteq> '''' then hw_getenv w ''HG_COORDINATOR''
      else case Discover (case hw_resolverError w of None \<Rightarrow> Ok () | Some e \<Rightarrow> Err e) (hw_events w @ [DeadlinePassed])
                  (NewCoordBrowser (3 * Second) '''') of
             Some (Ok coord) \<Rightarrow> dc_Address coord
           | _ \<Rightarrow> '''')"

subsection \<open>The compiler wrappers\<close>

definition getLocalArch :: "string \<Rightarrow> Architecture" where
  "getLocalArch goarch =
     (if goarch = ''amd64'' then ARCH_X86_64
      else if goarch = ''arm64'' then ARCH_ARM64
      else if goarch = ''arm'' then ARCH_ARMV7
      else ARCH_UNSPECIFIED)"

definition parseArch :: "string \<Rightarrow> string \<Rightarrow> Architecture" where
  "parseArch goarch arch =
     (let a = ToLower arch
      in if a \<in> set [''x86_64'', ''amd64'', ''x64''] then ARCH_X86_64
         else if a \<in> set [''arm64'', ''aarch64''] then ARCH_ARM64
         else if a \<in> set [''arm'', ''armv7''] then ARCH_ARMV7
         else if a = '''' then getLocalArch goarch
         else ARCH_UNSPECIFIED)"

text \<open>
  How a run of a wrapper ends: with an error, with the local compiler, with the exit code of a
  compilation, or with an object file.
\<close>

datatype cc_error =
    ParseFailed | NoCoordinator string | ServiceFailed string | BuildFailed build_error
  | OutputFailed string | LocalRefused string

datatype cc_end =
    CcFailed cc_error | CcPanic | RanLocally string "string list" proc_end | CcExit int
  | CcWrote string bytes Result

definition runLocalCompiler :: "('cert, 'pool, 'c) hg_world \<Rightarrow> string \<Rightarrow> string list \<Rightarrow> cc_end" where
  "runLocalCompiler w compiler args =
     (case resolveLocalCompilerPath w compiler of
        Ok resolved \<Rightarrow> RanLocally resolved args (hw_run w resolved args)
      | Err e \<Rightarrow> CcFailed (LocalRefused e)
      | Panic \<Rightarrow> CcPanic)"

definition defaultObject :: "string \<Rightarrow> string" where
  "defaultObject input = trimSuffix input (path_Ext input) @ ''.o''"

definition objectFile :: "ParsedArgs \<Rightarrow> string" where
  "objectFile parsed =
     (if OutputFile parsed = '''' \<and> 0 < length (InputFiles parsed) then defaultObject (InputFiles parsed ! 0)
      else OutputFile parsed)"

text \<open>A distributable command line has an input file, so that the first one exists.\<close>

definition ccRequest :: "('cert, 'pool, 'c) hg_world \<Rightarrow> ParsedArgs \<Rightarrow> Client.Request" where
  "ccRequest w parsed =
     \<lparr>rq_TaskID = generateTaskID (hw_random w) (hw_now w), rq_SourceFile = InputFiles parsed ! 0,
      rq_OutputFile = objectFile parsed, rq_Args = parsed,
      rq_TargetArch = parseArch (hw_goarch w) (Compiler.TargetArch parsed), rq_Timeout = 300 * Second\<rparr>"

definition ccService :: "('cert, 'pool, 'c) hg_world \<Rightarrow> hg_globals \<Rightarrow> string \<Rightarrow> (string, Service) outcome" where
  "ccService w g coordAddr =
     Service_New (hw_json w) (hw_storeFaults w) (hw_disk w) (hw_tempDir w)
       ((DefaultClientConfig (hw_home w))
          \<lparr>CoordinatorAddr := coordAddr, Insecure := hg_insecure g, Client.Timeout := 300 * Second,
           FallbackEnabled := fallbackEnabled (hw_getenv w) g, Verbose := hg_verbose g\<rparr>)"

definition ccFinish :: "('cert, 'pool, 'c) hg_world \<Rightarrow> ParsedArgs \<Rightarrow> Service \<Rightarrow> cc_end" where
  "ccFinish w parsed svc =
     (case fst (Build (hw_hash w) (hw_build w) (ccRequest w parsed) (SetClient svc)) of
        Err e \<Rightarrow> CcFailed (BuildFailed e)
      | Panic \<Rightarrow> CcPanic
      | Ok result \<Rightarrow>
          if rs_ExitCode result \<noteq> 0 then CcExit (rs_ExitCode result)
          else case writeOutputFile (hw_getwd w) (hw_output w) (objectFile parsed) (rs_ObjectFile result) of
            Ok (path, data) \<Rightarrow> CcWrote path data result
          | Err e \<Rightarrow> CcFailed (OutputFailed (''failed to write output: '' @ e))
          | Panic \<Rightarrow> CcPanic)"

definition runDistributed ::
    "('cert, 'pool, 'c) hg_world \<Rightarrow> hg_globals \<Rightarrow> string \<Rightarrow> string list \<Rightarrow> ParsedArgs \<Rightarrow> cc_end" where
  "runDistributed w g cc compilerArgs parsed =
     (let coordAddr = getCoordinatorAddress w g
      in if coordAddr = '''' then
           (if \<not> fallbackEnabled (hw_getenv w) g
            then CcFailed (NoCoordinator ''coordinator unavailable and fallback disabled'')
            else runLocalCompiler w cc compilerArgs)
         else case ccService w g coordAddr of
             Err e \<Rightarrow> CcFailed (ServiceFailed (''failed to create build service: '' @ e))
           | Panic \<Rightarrow> CcPanic
           | Ok svc \<Rightarrow>
               (case Client_New (hw_newTLS w) (hw_tlsLib w) (hw_newClient w) (newClientConfig g coordAddr (hg_timeout g)) of
                  Err e \<Rightarrow>
                    (if \<not> fallbackEnabled (hw_getenv w) g
                     then CcFailed (NoCoordinator (''coordinator unavailable and fallback disabled: '' @ e))
                     else runLocalCompiler w cc compilerArgs)
                | Panic \<Rightarrow> CcPanic
                | Ok _ \<Rightarrow> ccFinish w parsed svc))"

definition chosenCompiler :: "('cert, 'pool, 'c) hg_world \<Rightarrow> string \<Rightarrow> string \<Rightarrow> string" where
  "chosenCompiler w defaultCompiler envVar =
     (if hw_getenv w envVar = '''' then defaultCompiler else hw_getenv w envVar)"

definition runCompiler ::
    "('cert, 'pool, 'c) hg_world \<Rightarrow> string \<Rightarrow> string \<Rightarrow> string list \<Rightarrow> hg_globals \<Rightarrow> cc_end" where
  "runCompiler w defaultCompiler envVar args g =
     (let g = (if hw_getenv w ''HG_VERBOSE'' = ''1'' then g\<lparr>hg_verbose := True\<rparr> else g);
          (compilerArgs, g) = filterHgbuildFlags args g;
          cc = chosenCompiler w defaultCompiler envVar
      in case Parse (cc # compilerArgs) of
           None \<Rightarrow> CcFailed ParseFailed
         | Some parsed \<Rightarrow>
             if \<not> IsDistributable parsed then runLocalCompiler w cc compilerArgs
             else runDistributed w g cc compilerArgs parsed)"

text \<open>
  The status the process ends with. An error of a command ends it with 1, that of the local
  compiler included, whatever its own status was. Of a code that is handed to \<^verbatim>\<open>os.Exit\<close> a process
  on Unix keeps the low eight bits.
\<close>

fun cc_status :: "cc_end \<Rightarrow> int" where
  "cc_status (CcFailed _) = 1"
| "cc_status CcPanic = 2"
| "cc_status (RanLocally _ _ ProcOK) = 0"
| "cc_status (RanLocally _ _ _) = 1"
| "cc_status (CcExit code) = code mod 256"
| "cc_status (CcWrote _ _ _) = 0"


subsection \<open>The build wrappers\<close>

text \<open>Environments are lists of \<^verbatim>\<open>key=value\<close> strings; the first entry of a key counts.\<close>

definition Getenv :: "string list \<Rightarrow> string \<Rightarrow> string" where
  "Getenv env key =
     (case find (\<lambda>e. HasPrefix e (key @ ''='')) env of None \<Rightarrow> '''' | Some e \<Rightarrow> drop (length key + 1) e)"

fun setEnv :: "string list \<Rightarrow> string \<Rightarrow> string \<Rightarrow> string list" where
  "setEnv [] key value = [key @ ''='' @ value]"
| "setEnv (e # env) key value =
     (if HasPrefix e (key @ ''='') then (key @ ''='' @ value) # env else e # setEnv env key value)"

text \<open>The shell script of a wrapper; \<open>quoted\<close> is the path of the program as \<^verbatim>\<open>%q\<close> prints it.\<close>

definition wrapperScript :: "string \<Rightarrow> string \<Rightarrow> string" where
  "wrapperScript quoted modeEnv =
     ''#!/bin/sh'' @ [CHR 0x0A] @ ''export '' @ modeEnv @ ''=1'' @ [CHR 0x0A] @
     ''exec '' @ quoted @ '' '' @ [CHR 0x22] @ ''$@'' @ [CHR 0x22, CHR 0x0A]"

record wrap_world =
  wo_environ :: "string list"
  wo_executable :: "string + string"
  wo_quoted :: string
  wo_mkdirTemp :: "string + string"
  wo_writeFile :: "string \<Rightarrow> string option"

definition createCompilerWrapper ::
    "wrap_world \<Rightarrow> string \<Rightarrow> string \<Rightarrow> string \<Rightarrow> (string, string \<times> string) outcome" where
  "createCompilerWrapper w dir name modeEnv =
     (let path = path_Join [dir, name]
      in case wo_writeFile w path of
           Some e \<Rightarrow> Err (''failed to write compiler wrapper '' @ name @ '': '' @ e)
         | None \<Rightarrow> Ok (path, wrapperScript (wo_quoted w) modeEnv))"

text \<open>The command to run, its environment, and the scripts written before.\<close>

record wrapped =
  wd_command :: string
  wd_args :: "string list"
  wd_env :: "string list"
  wd_scripts :: "(string \<times> string) list"

definition wrapBuildCommand ::
    "wrap_world \<Rightarrow> hg_globals \<Rightarrow> string \<Rightarrow> string list \<Rightarrow> (string, wrapped) outcome" where
  "wrapBuildCommand w g command args =
     (case wo_executable w of
        Inl e \<Rightarrow> Err (''failed to find hgbuild executable: '' @ e)
      | Inr _ \<Rightarrow>
     (case wo_mkdirTemp w of
        Inl e \<Rightarrow> Err (''failed to create wrapper dir: '' @ e)
      | Inr wrapperDir \<Rightarrow>
     outcome_bind (createCompilerWrapper w wrapperDir ''hgcc'' ''HG_WRAP_CC_MODE'') (\<lambda>(ccValue, ccScript).
     outcome_bind (createCompilerWrapper w wrapperDir ''hgcxx'' ''HG_WRAP_CXX_MODE'') (\<lambda>(cxxValue, cxxScript).
       let env = setEnv (setEnv (wo_environ w) ''CC'' ccValue) ''CXX'' cxxValue;
           env = (if hg_coordinator g \<noteq> '''' then setEnv env ''HG_COORDINATOR'' (hg_coordinator g) else env);
           env = (if \<not> fallbackEnabled (Getenv (wo_environ w)) g then setEnv env ''HG_NO_FALLBACK'' ''1'' else env);
           env = (if hg_verbose g then setEnv env ''HG_VERBOSE'' ''1'' else env);
           finalArgs = (if command = ''make'' then [''CC='' @ ccValue, ''CXX='' @ cxxValue] @ args else args)
       in Ok \<lparr>wd_command = command, wd_args = finalArgs, wd_env = env,
              wd_scripts = [(ccValue, ccScript), (cxxValue, cxxScript)]\<rparr>))))"

text \<open>The commands: \<^verbatim>\<open>make\<close> and \<^verbatim>\<open>ninja\<close> by name, \<^verbatim>\<open>wrap\<close> with the command as its first argument.\<close>

definition makeCmd :: "wrap_world \<Rightarrow> hg_globals \<Rightarrow> string \<Rightarrow> string list \<Rightarrow> (string, wrapped) outcome" where
  "makeCmd w g command args = (let (args, g) = filterHgbuildWrapperFlags args g in wrapBuildCommand w g command args)"

definition wrapCmd :: "wrap_world \<Rightarrow> hg_globals \<Rightarrow> string list \<Rightarrow> (string, wrapped) outcome" where
  "wrapCmd w g args =
     (case filterHgbuildWrapperFlags args g of
        ([], _) \<Rightarrow> Err ''no command specified''
      | (command # args, g) \<Rightarrow> wrapBuildCommand w g command args)"

text \<open>A program started through a wrapper script inserts the mode before its arguments.\<close>

definition injectWrappedCompilerMode :: "(string \<Rightarrow> string) \<Rightarrow> string list \<Rightarrow> string list" where
  "injectWrappedCompilerMode getenv osArgs =
     (let mode = (if getenv ''HG_WRAP_CC_MODE'' = ''1'' then ''cc''
                  else if getenv ''HG_WRAP_CXX_MODE'' = ''1'' then ''c++''
                  else '''')
      in if mode = '''' then osArgs
         else if 1 < length osArgs \<and> (osArgs ! 1 = ''cc'' \<or> osArgs ! 1 = ''c++'') then osArgs
         else hd osArgs # mode # tl osArgs)"

text \<open>
  The wrappers turn flag parsing off, so that they are handed every argument and see the flags'
  default values.
\<close>

definition ccMain :: "('cert, 'pool, 'c) hg_world \<Rightarrow> string list \<Rightarrow> cc_end option" where
  "ccMain w osArgs =
     (case injectWrappedCompilerMode (hw_getenv w) osArgs of
        _ # command # args \<Rightarrow>
          if command = ''cc'' then Some (runCompiler w ''gcc'' ''HG_CC'' args defaultGlobals)
          else if command = ''c++'' then Some (runCompiler w ''g++'' ''HG_CXX'' args defaultGlobals)
          else None
      | _ \<Rightarrow> None)"


subsection \<open>Environments\<close>

locale environment =
  fixes get :: "'e \<Rightarrow> string \<Rightarrow> string"
    and put :: "'e \<Rightarrow> string \<Rightarrow> string \<Rightarrow> 'e"
    and key :: "string \<Rightarrow> bool"
  assumes get_put_same: "key k \<Longrightarrow> get (put e k v) k = v"
    and get_put_other: "key k \<Longrightarrow> key k' \<Longrightarrow> k \<noteq> k' \<Longrightarrow> get (put e k v) k' = get e k'"
begin

lemma get_put: "key k \<Longrightarrow> key k' \<Longrightarrow> get (put e k v) k' = (if k = k' then v else get e k')"
  by (simp add: get_put_same get_put_other)

text \<open>Setting several variables, some of them on a condition.\<close>

lemma get_put_if:
  "key k \<Longrightarrow> key k' \<Longrightarrow> get (if b then put e k v else e) k' = (if b \<and> k = k' then v else get e k')"
  by (simp add: get_put)

lemma get_puts:
  "\<forall>(k, v) \<in> set kvs. key k \<Longrightarrow> key k' \<Longrightarrow>
   get (foldr (\<lambda>(k, v) e. put e k v) kvs e) k' = (case map_of kvs k' of None \<Rightarrow> get e k' | Some v \<Rightarrow> v)"
  by (induction kvs) (auto simp: get_put)

end

definition plainKey :: "string \<Rightarrow> bool" where
  "plainKey k \<longleftrightarrow> CHR ''='' \<notin> set k"

lemma HasPrefix_entry:
  "plainKey k \<Longrightarrow> plainKey k' \<Longrightarrow> HasPrefix (k @ ''='' @ v) (k' @ ''='') \<longleftrightarrow> k = k'"
proof
  assume keys: "plainKey k" "plainKey k'" and pre: "HasPrefix (k @ ''='' @ v) (k' @ ''='')"
  then obtain r where "k @ CHR ''='' # v = k' @ CHR ''='' # r"
    by (auto simp: HasPrefix_iff)
  moreover have "takeWhile (\<lambda>c. c \<noteq> CHR ''='') (x @ CHR ''='' # y) = x" if "plainKey x" for x y
    using that by (induction x) (auto simp: plainKey_def)
  ultimately show "k = k'" using keys by metis
qed (simp add: HasPrefix_def)

lemma HasPrefix_entry':
  assumes "HasPrefix e (k @ ''='')" and "plainKey k" and "plainKey k'" and "k \<noteq> k'"
  shows "\<not> HasPrefix e (k' @ ''='')"
proof -
  obtain v where "e = k @ ''='' @ v" using assms(1) by (auto simp: HasPrefix_iff)
  then show ?thesis using assms(2-4) HasPrefix_entry by blast
qed

interpretation proc_env: environment Getenv setEnv plainKey
proof
  fix k v e assume k: "plainKey k"
  show "Getenv (setEnv e k v) k = v"
    using HasPrefix_entry[OF k k, of v]
    by (induction e k v rule: setEnv.induct) (auto simp: Getenv_def)
next
  fix k k' v e assume k: "plainKey k" "plainKey k'" "k \<noteq> k'"
  show "Getenv (setEnv e k v) k' = Getenv e k'"
    using k HasPrefix_entry[OF k(1,2), of v] HasPrefix_entry'[OF _ k]
    by (induction e k v rule: setEnv.induct) (auto simp: Getenv_def)
qed

lemma variable_names [simp]:
  "plainKey ''CC''" "plainKey ''CXX''" "plainKey ''HG_COORDINATOR''" "plainKey ''HG_NO_FALLBACK''"
  "plainKey ''HG_VERBOSE''" "plainKey ''HG_WRAP_CC_MODE''" "plainKey ''HG_WRAP_CXX_MODE''" "plainKey ''HG_CC''"
  "plainKey ''HG_CXX''"
  by (simp_all add: plainKey_def)


subsection \<open>Where an object file goes\<close>

lemma takeWhile_to_slash:
  "slash \<notin> set y \<Longrightarrow> takeWhile (\<lambda>d. d \<noteq> slash) (y @ slash # r) = y"
  "slash \<notin> set y \<Longrightarrow> takeWhile (\<lambda>d. d \<noteq> slash) y = y"
  by (induction y) auto

lemma path_Base_last:
  assumes "Clean q = q" and "components q = cs @ [c]"
  shows "path_Base q = c"
proof -
  have cl: "clean_components (IsAbs q) (cs @ [c])" using components_clean[of q] assms(2) by simp
  have c: "slash \<notin> set c" "c \<noteq> ''''"
    using clean_components_no_slash[OF cl] clean_components_nonempty[OF cl] by simp_all
  have "q = render_path (IsAbs q) (cs @ [c])" using assms by (simp add: Clean_def)
  then have "q = c \<or> (\<exists>d. q = d @ slash # c)"
    by (cases "cs = []") (auto simp: render_path_def Join_append split: if_splits)
  moreover obtain x y where xy: "rev c = x # y" "x \<noteq> slash"
    using c by (metis in_set_conv_decomp list.exhaust rev.simps(1) rev_is_Nil_conv set_rev list.set_intros(1))
  moreover have "takeWhile (\<lambda>d. d \<noteq> slash) (rev c @ slash # r) = rev c" "takeWhile (\<lambda>d. d \<noteq> slash) (rev c) = rev c" for r
    using c(1) takeWhile_to_slash[of "rev c"] by simp_all
  ultimately show ?thesis
    by (elim disjE exE) (simp_all add: path_Base_def afterLast_def)
qed

lemma Join_Dir_Base:
  assumes "Clean q = q" and "IsAbs q"
  shows "path_Join [path_Dir q, path_Base q] = q"
proof (cases "components q" rule: rev_cases)
  case Nil
  then have "q = ''/''" using assms by (simp add: Clean_def render_path_def)
  moreover have "path_Join [path_Dir ''/'', path_Base ''/''] = ''/''" by code_simp
  ultimately show ?thesis by simp
next
  case (snoc cs c)
  have cl: "clean_components True (cs @ [c])" using components_clean[of q] assms(2) snoc by simp
  then have c: "path_name c" by (auto simp: clean_components_def)
  have d: "path_Dir q \<noteq> ''''" by (simp add: path_Dir_def)
  have split: "Split slash c = [c]" using c by (simp add: path_name_def Split_atom)
  have nd: "''..'' \<notin> set (Split slash c)" using c split by (auto simp: path_name_def)
  have "components (path_Join [path_Dir q, c]) = components (path_Dir q) @ plain_components c"
    by (rule components_Join_plain(1)[OF d nd])
  moreover have abs: "IsAbs (path_Join [path_Dir q, c]) = IsAbs q"
    using components_Join_plain(2)[OF d nd] IsAbs_Dir by simp
  moreover have "plain_components c = [c]" using c split by (simp add: plain_components_def path_name_def)
  ultimately have "components (path_Join [path_Dir q, c]) = components q"
    using components_Dir[OF assms(1) snoc] snoc by simp
  then have "Clean (path_Join [path_Dir q, c]) = Clean q" using abs by (simp only: Clean_def)
  then show ?thesis
    using path_Base_last[OF assms(1) snoc] assms(1) d by simp
qed

lemma SanitizePath_ok:
  assumes "SanitizePath d out = p" and "p \<noteq> ''''" and "IsAbs d"
  shows "Clean p = p" and "IsAbs p" and "HasPrefix p (Clean d)"
    and "\<not> IsAbs out \<Longrightarrow> components p = components d @ components out \<and> ''..'' \<notin> set (components out)"
    and "IsAbs out \<Longrightarrow> p = Clean out"
proof -
  have d: "d \<noteq> ''''" using assms(3) by (auto simp: IsAbs_def HasPrefix_def)
  have out: "out \<noteq> ''''" using assms(1,2) by (auto simp: SanitizePath_def)
  have abs: "p = Clean out \<and> HasPrefix p (Clean d)" if r: "IsAbs out"
  proof -
    have "clean_components True (components out)" using components_clean[of out] r by simp
    then have "IsAbs (Clean out)" using r by (simp add: Clean_def)
    then show ?thesis
      using assms(1,2) d out by (auto simp: SanitizePath_def Let_def pathStartsWithBase_def split: if_splits)
  qed
  have rel: "p = render_path True (components d @ components out) \<and> HasPrefix p (Clean d) \<and>
      ''..'' \<notin> set (components out) \<and> clean_components True (components d @ components out)" if r: "\<not> IsAbs out"
  proof -
    have nt: "\<not> containsPathTraversal False (Clean out)"
      and p: "p = render_path True (components d @ components out)" "HasPrefix p (Clean d)"
      using assms r out d by (auto simp: SanitizePath_relative_eq Let_def split: if_splits)
    have nd: "''..'' \<notin> set (components out)"
      using nt dots_in_Clean[of out] by (simp add: containsPathTraversal_def ToSlash_def)
    moreover have "clean_components True (components d @ components out)"
      using components_clean[of d] assms(3) components_clean[of out] r nd
      by (intro clean_components_append names_of_clean) auto
    ultimately show ?thesis using p by blast
  qed
  show "Clean p = p"
  proof (cases "IsAbs out")
    case True
    then show ?thesis using abs by simp
  next
    case False
    then show ?thesis using rel by (simp add: Clean_def)
  qed
  show "IsAbs p"
  proof (cases "IsAbs out")
    case True
    have "clean_components True (components out)" using components_clean[of out] True by simp
    then show ?thesis using abs True by (simp add: Clean_def)
  next
    case False
    then show ?thesis using rel by simp
  qed
  show "HasPrefix p (Clean d)" using abs rel by blast
  show "components p = components d @ components out \<and> ''..'' \<notin> set (components out)" if "\<not> IsAbs out"
    using rel[OF that] by simp
  show "p = Clean out" if "IsAbs out" using abs[OF that] by simp
qed


lemma writeOutputFile_ok:
  assumes "writeOutputFile (Inr d) faults out data = Ok (path, data')" and "IsAbs d"
  shows "data' = data" and "resolveOutputPath (Inr d) out = Ok path" and "SanitizePath d out = path" and "path \<noteq> ''''"
proof -
  obtain p where p: "resolveOutputPath (Inr d) out = Ok p"
    and w: "path = path_Join [path_Dir p, path_Base p]" "data' = data"
    using assms(1) by (cases "resolveOutputPath (Inr d) out")
      (simp_all add: writeOutputFile_def split: option.splits)
  have s: "SanitizePath d out \<noteq> ''''" using p by (auto simp: resolveOutputPath_def Let_def split: if_splits)
  note ok = SanitizePath_ok[OF refl s assms(2)]
  have "p = SanitizePath d out" using p s ok(2) by (auto simp: resolveOutputPath_def Let_def split: if_splits)
  with ok w Join_Dir_Base[of p] have "path = p" by metis
  with p w s \<open>p = _\<close> show "data' = data" and "resolveOutputPath (Inr d) out = Ok path" and "SanitizePath d out = path"
    and "path \<noteq> ''''" by simp_all
qed

subsection \<open>The wrappers' own flags\<close>

lemma filter_subseq: "subseq (fst (filterHgbuildFlags args g)) args"
proof (induction args arbitrary: g rule: length_induct)
  case (1 args)
  show ?case
  proof (cases args)
    case (Cons arg rest)
    have "subseq (fst (filterHgbuildFlags rest g')) rest" for g' using 1 Cons by simp
    then have rest: "subseq (fst (filterHgbuildFlags rest g')) (a # rest)" for g' a by auto
    have "subseq (fst (filterHgbuildFlags (tl rest) g')) (tl rest)" for g' using 1 Cons by simp
    then have "subseq (fst (filterHgbuildFlags (tl rest) g')) (a # rest)" for g' a
      by (cases rest) (auto intro: list_emb_Cons)
    with rest Cons \<open>\<And>g'. subseq (fst (filterHgbuildFlags rest g')) rest\<close> show ?thesis
      by (simp add: split_beta)
  qed simp
qed

text \<open>Only two of the globals ever change: the coordinator, the timeout and the TLS files do not.\<close>

lemma filter_globals:
  "\<exists>a b. snd (filterHgbuildFlags args g) = g\<lparr>hg_noFallback := a, hg_verbose := b\<rparr>"
proof (induction args g rule: filterHgbuildFlags.induct)
  case (1 g)
  have "g = g\<lparr>hg_noFallback := hg_noFallback g, hg_verbose := hg_verbose g\<rparr>" by simp
  then show ?case by (metis filterHgbuildFlags.simps(1) snd_conv)
next
  case (2 arg args g)
  then show ?case by (simp add: split_beta)
qed

definition ownFlag :: "string \<Rightarrow> bool" where
  "ownFlag arg \<longleftrightarrow>
     arg \<in> set [''--coordinator'', ''-C'', ''--timeout'', ''--insecure'', ''--no-fallback'', ''--verbose'', ''-v''] \<or>
     HasPrefix arg ''--coordinator='' \<or> HasPrefix arg ''--timeout=''"

lemma filter_foreign: "\<forall>a \<in> set args. \<not> ownFlag a \<Longrightarrow> filterHgbuildFlags args g = (args, g)"
  by (induction args g rule: filterHgbuildFlags.induct) (auto simp: ownFlag_def)

lemma wrapperFlags_mono:
  "hg_noFallback g \<Longrightarrow> hg_noFallback (snd (filterHgbuildWrapperFlags args g))"
  by (induction args g rule: filterHgbuildWrapperFlags.induct)
    (auto simp: Let_def split_beta split: option.splits if_splits)

text \<open>The arguments that ask a build wrapper not to fall back.\<close>

definition asksNoFallback :: "string \<Rightarrow> bool" where
  "asksNoFallback arg \<longleftrightarrow>
     arg = ''--no-fallback'' \<or>
     HasPrefix arg ''--no-fallback='' \<and> ParseBool (TrimSpace (trimPrefix arg ''--no-fallback='')) = Some True"

lemma wrapperFlags_given:
  "list_ex asksNoFallback args \<Longrightarrow> hg_noFallback (snd (filterHgbuildWrapperFlags args g))"
proof (induction args g rule: filterHgbuildWrapperFlags.induct)
  case (2 arg args g)
  show ?case
  proof (cases "asksNoFallback arg")
    case True
    then show ?thesis by (auto simp: asksNoFallback_def Let_def wrapperFlags_mono)
  next
    case False
    with 2 show ?thesis by (auto simp: Let_def split_beta split: option.splits)
  qed
qed simp


lemma filter_args: "fst (filterHgbuildFlags args g) = fst (filterHgbuildFlags args g')"
proof (induction args arbitrary: g g' rule: length_induct)
  case (1 args)
  show ?case
  proof (cases args)
    case (Cons arg rest)
    have "fst (filterHgbuildFlags rest a) = fst (filterHgbuildFlags rest b)"
      "fst (filterHgbuildFlags (tl rest) a) = fst (filterHgbuildFlags (tl rest) b)" for a b
      using 1[rule_format, of rest a b] 1[rule_format, of "tl rest" a b] Cons by simp_all
    then show ?thesis using Cons by (simp add: split_beta)
  qed simp
qed

subsection \<open>What the compiler wrappers do\<close>

lemma Build_without_fallback:
  assumes "fst (Build H env req s) = Ok r" and "\<not> fb_enabled (sv_fallback s)"
  shows "\<not> rs_Fallback r"
proof -
  have "sv_fallback (snd (cacheGet env key s)) = sv_fallback s" for key
    by (simp add: cacheGet_def split_beta split: option.split)
  with assms show ?thesis
    by (auto simp: Build_def localStep_def emptyResult_def split_beta Let_def
        split: option.splits outcome.splits if_splits)
qed

lemma ccService_fallback:
  "ccService w g addr = Ok svc \<Longrightarrow> fb_enabled (sv_fallback (SetClient svc)) \<longleftrightarrow> fallbackEnabled (hw_getenv w) g"
  by (auto simp: ccService_def Service_New_def LocalFallback_New_def SetClient_def Let_def split: outcome.splits)

lemma ccFinish_cases:
  "(\<exists>e. ccFinish w parsed svc = CcFailed e) \<or> ccFinish w parsed svc = CcPanic \<or>
   (\<exists>res. rs_ExitCode res \<noteq> 0 \<and> ccFinish w parsed svc = CcExit (rs_ExitCode res) \<and>
      fst (Build (hw_hash w) (hw_build w) (ccRequest w parsed) (SetClient svc)) = Ok res) \<or>
   (\<exists>path data res. ccFinish w parsed svc = CcWrote path data res \<and>
      fst (Build (hw_hash w) (hw_build w) (ccRequest w parsed) (SetClient svc)) = Ok res \<and> rs_ExitCode res = 0 \<and>
      writeOutputFile (hw_getwd w) (hw_output w) (objectFile parsed) (rs_ObjectFile res) = Ok (path, data))"
  by (auto simp: ccFinish_def split: outcome.split)

lemma runLocal_cases:
  "(\<exists>e. runLocalCompiler w cc args = CcFailed e) \<or> runLocalCompiler w cc args = CcPanic \<or>
   (\<exists>path. runLocalCompiler w cc args = RanLocally path args (hw_run w path args) \<and> resolveLocalCompilerPath w cc = Ok path)"
  by (auto simp: runLocalCompiler_def split: outcome.split)

text \<open>How a distributable command line can end.\<close>

lemma runDistributed_cases:
  "(\<exists>e. runDistributed w g cc args parsed = CcFailed e) \<or> runDistributed w g cc args parsed = CcPanic \<or>
   fallbackEnabled (hw_getenv w) g \<and> runDistributed w g cc args parsed = runLocalCompiler w cc args \<or>
   (\<exists>svc. ccService w g (getCoordinatorAddress w g) = Ok svc \<and> runDistributed w g cc args parsed = ccFinish w parsed svc)"
  by (auto simp: runDistributed_def Let_def split: outcome.split)

definition verboseGlobals :: "('cert, 'pool, 'c) hg_world \<Rightarrow> hg_globals \<Rightarrow> hg_globals" where
  "verboseGlobals w g = (if hw_getenv w ''HG_VERBOSE'' = ''1'' then g\<lparr>hg_verbose := True\<rparr> else g)"

lemma runCompiler_eq:
  "runCompiler w def var args g =
     (let as = fst (filterHgbuildFlags args g); g' = snd (filterHgbuildFlags args (verboseGlobals w g));
          cc = chosenCompiler w def var; parsed = the (Parse (cc # as))
      in if IsDistributable parsed then runDistributed w g' cc as parsed else runLocalCompiler w cc as)"
  using filter_args[of args "verboseGlobals w g" g]
  by (simp add: runCompiler_def verboseGlobals_def[symmetric] split_beta Let_def)

text \<open>
  The place of an output file: below the working directory for a relative name, otherwise a path
  that starts with the text of the directory's.
\<close>

definition placed :: "string \<Rightarrow> string \<Rightarrow> string \<Rightarrow> bool" where
  "placed d out path \<longleftrightarrow>
     HasPrefix path (Clean d) \<and>
     (if IsAbs out then path = Clean out
      else components path = components d @ components out \<and> ''..'' \<notin> set (components out))"

lemma writeOutputFile_placed:
  assumes "writeOutputFile (Inr d) faults out data = Ok (path, data')" and "IsAbs d"
  shows "data' = data \<and> placed d out path"
  using writeOutputFile_ok[OF assms] SanitizePath_ok[of d out path] assms(2) by (auto simp: placed_def)

text \<open>One argument of the wrappers' filter; which flags are on does not matter for what is kept.\<close>

lemma filterHgbuildFlags_step:
  "fst (filterHgbuildFlags (arg # rest) g) =
     (if ownFlag arg
      then fst (filterHgbuildFlags (if arg \<in> {''--coordinator'', ''-C'', ''--timeout''} then tl rest else rest) g)
      else arg # fst (filterHgbuildFlags rest g))"
proof -
  have e: "fst (filterHgbuildFlags rest (g\<lparr>hg_noFallback := True\<rparr>)) = fst (filterHgbuildFlags rest g)"
    "fst (filterHgbuildFlags rest (g\<lparr>hg_verbose := True\<rparr>)) = fst (filterHgbuildFlags rest g)"
    by (rule filter_args)+
  show ?thesis by (simp add: ownFlag_def split_beta e HasPrefix_def)
qed

lemma filterHgbuildFlags_subseq: "subseq (fst (filterHgbuildFlags args g)) args"
proof (induction args rule: length_induct)
  case (1 args)
  show ?case
  proof (cases args)
    case (Cons arg rest)
    have "subseq (tl rest) rest" by (cases rest) auto
    moreover have "subseq (fst (filterHgbuildFlags rest g)) rest" "subseq (fst (filterHgbuildFlags (tl rest) g)) (tl rest)"
      using 1[rule_format, of rest] 1[rule_format, of "tl rest"] Cons by simp_all
    ultimately show ?thesis
      unfolding Cons filterHgbuildFlags_step by (auto intro: subseq_order.trans)
  qed simp
qed

lemma filterHgbuildFlags_kept: "list_all (\<lambda>a. \<not> ownFlag a) (fst (filterHgbuildFlags args g))"
proof (induction args rule: length_induct)
  case (1 args)
  show ?case
  proof (cases args)
    case (Cons arg rest)
    then show ?thesis
      using 1[rule_format, of rest] 1[rule_format, of "tl rest"] unfolding Cons filterHgbuildFlags_step by simp
  qed simp
qed

text \<open>How a wrapper that ends with status 0 ended.\<close>

definition cc_delivered :: "('cert, 'pool, 'c) hg_world \<Rightarrow> string list \<Rightarrow> hg_globals \<Rightarrow> string \<Rightarrow> ParsedArgs \<Rightarrow> Result \<Rightarrow> bool" where
  "cc_delivered w as g cc parsed res \<longleftrightarrow>
     Parse (cc # as) = Some parsed \<and> IsDistributable parsed \<and>
     (\<exists>svc. ccService w g (getCoordinatorAddress w g) = Ok svc \<and>
        fst (Build (hw_hash w) (hw_build w) (ccRequest w parsed) (SetClient svc)) = Ok res)"

text \<open>
  C18. What success of a compiler wrapper means. Its arguments are the given ones in order, without
  those it takes for its own and their operands; without any of these they are exactly the given
  ones. It ends with status 0 only in three cases. The compiler on this machine was run with
  these arguments and ended well. Or the build service delivered a result with exit code 0, and
  its object is what was written to the file: the one asked for, or the source's name with the
  extension \<^verbatim>\<open>.o\<close>, below the working directory for a relative name, while an absolute name must
  begin with the text of the working directory's path. Or the service delivered an exit code that
  is not 0 but a multiple of 256, of which the operating system keeps nothing.
\<close>
theorem cc_success_sound:
  fixes w :: "('cert, 'pool, 'c) hg_world"
  assumes "cc_status (runCompiler w def var args g) = 0" and "hw_getwd w = Inr d" and "IsAbs d"
    and as: "as = fst (filterHgbuildFlags args g)" and g': "g' = snd (filterHgbuildFlags args (verboseGlobals w g))"
    and cc: "cc = chosenCompiler w def var"
  shows "subseq as args \<and> list_all (\<lambda>a. \<not> ownFlag a) as \<and> (list_all (\<lambda>a. \<not> ownFlag a) args \<longrightarrow> as = args) \<and>
    (case runCompiler w def var args g of
      RanLocally path as' st \<Rightarrow>
        as' = as \<and> st = ProcOK \<and> hw_run w path as = ProcOK \<and> resolveLocalCompilerPath w cc = Ok path
    | CcWrote path data res \<Rightarrow>
        (\<exists>parsed. cc_delivered w as g' cc parsed res \<and> rs_ExitCode res = 0 \<and> data = rs_ObjectFile res \<and>
           placed d (objectFile parsed) path)
    | CcExit code \<Rightarrow>
        code \<noteq> 0 \<and> 256 dvd code \<and> (\<exists>parsed res. cc_delivered w as g' cc parsed res \<and> rs_ExitCode res = code)
    | _ \<Rightarrow> False)"
proof -
  let ?run = "runCompiler w def var args g"
  obtain parsed where parsed: "Parse (cc # as) = Some parsed" by simp
  have run: "?run = (if IsDistributable parsed then runDistributed w g' cc as parsed else runLocalCompiler w cc as)"
    unfolding runCompiler_eq Let_def as[symmetric] g'[symmetric] cc[symmetric] parsed by simp
  let ?ends = "case ?run of
      RanLocally path as' st \<Rightarrow>
        as' = as \<and> st = ProcOK \<and> hw_run w path as = ProcOK \<and> resolveLocalCompilerPath w cc = Ok path
    | CcWrote path data res \<Rightarrow>
        (\<exists>parsed. cc_delivered w as g' cc parsed res \<and> rs_ExitCode res = 0 \<and> data = rs_ObjectFile res \<and>
           placed d (objectFile parsed) path)
    | CcExit code \<Rightarrow>
        code \<noteq> 0 \<and> 256 dvd code \<and> (\<exists>parsed res. cc_delivered w as g' cc parsed res \<and> rs_ExitCode res = code)
    | _ \<Rightarrow> False"
  have ran: ?ends if "?run = runLocalCompiler w cc as"
    using runLocal_cases[of w cc as] assms(1) unfolding that
    by (elim disjE exE conjE) (auto elim: cc_status.elims)
  have finished: ?ends
    if svc: "ccService w g' (getCoordinatorAddress w g') = Ok svc" and d: "IsDistributable parsed" and f: "?run = ccFinish w parsed svc"
    for svc
    using ccFinish_cases[of w parsed svc]
  proof (elim disjE exE conjE)
    fix res
    assume r: "rs_ExitCode res \<noteq> 0" "ccFinish w parsed svc = CcExit (rs_ExitCode res)"
      "fst (Build (hw_hash w) (hw_build w) (ccRequest w parsed) (SetClient svc)) = Ok res"
    have "cc_delivered w as g' cc parsed res" using parsed d svc r(3) by (auto simp: cc_delivered_def)
    then show ?thesis using r(1) assms(1) unfolding f r(2) by (auto simp: dvd_eq_mod_eq_0)
  next
    fix path data res
    assume r: "ccFinish w parsed svc = CcWrote path data res" "rs_ExitCode res = 0"
      "fst (Build (hw_hash w) (hw_build w) (ccRequest w parsed) (SetClient svc)) = Ok res"
      "writeOutputFile (hw_getwd w) (hw_output w) (objectFile parsed) (rs_ObjectFile res) = Ok (path, data)"
    have "cc_delivered w as g' cc parsed res" using parsed d svc r(3) by (auto simp: cc_delivered_def)
    moreover have "data = rs_ObjectFile res \<and> placed d (objectFile parsed) path"
      using writeOutputFile_placed r(4) assms(2,3) by metis
    ultimately show ?thesis unfolding f r(1) cc_end.case using r(2) by blast
  qed (use f assms(1) in simp_all)
  have ?ends
  proof (cases "IsDistributable parsed")
    case True
    then have eq: "?run = runDistributed w g' cc as parsed" using run by simp
    have "?run = runLocalCompiler w cc as \<or>
        (\<exists>svc. ccService w g' (getCoordinatorAddress w g') = Ok svc \<and> ?run = ccFinish w parsed svc)"
      using runDistributed_cases[of w g' cc as parsed] assms(1) unfolding eq by auto
    then show ?thesis using ran finished True by blast
  next
    case False
    with run ran show ?thesis by simp
  qed
  then show ?thesis
    using filterHgbuildFlags_subseq filterHgbuildFlags_kept filter_foreign by (auto simp: as list_all_iff)
qed


text \<open>A machine with a coordinator in its environment, no usable cache and a preprocessor.\<close>

definition sampleHG :: "(unit, unit, unit) hg_world" where
  "sampleHG =
     \<lparr>hw_getenv = (\<lambda>k. if k = ''HG_COORDINATOR'' then ''coord:9000'' else ''''), hw_goarch = ''amd64'',
      hw_resolverError = None, hw_events = [], hw_newTLS = (\<lambda>_. ()),
      hw_tlsLib = \<lparr>tl_LoadX509KeyPair = (\<lambda>_ _. Ok ()), tl_ReadFile = (\<lambda>_. Err ''no such file''), tl_CertsFromPEM = (\<lambda>_. None)\<rparr>,
      hw_newClient = Ok (), hw_home = ''/home/u'', hw_tempDir = ''/tmp'', hw_json = emptyCodec,
      hw_storeFaults = noFaults\<lparr>f_mkdir := True\<rparr>, hw_disk = fmempty, hw_hash = (\<lambda>_. 0), hw_build = sampleEnvironment,
      hw_getwd = Inr ''/work'', hw_lookPath = (\<lambda>c. Inr (''/usr/bin/'' @ c)), hw_statDir = (\<lambda>_. Inr False),
      hw_run = (\<lambda>_ _. ProcOK), hw_random = None, hw_now = 1,
      hw_output = \<lparr>ow_MkdirAll = None, ow_OpenRoot = None, ow_OpenFile = None, ow_Write = None, ow_Sync = None\<rparr>\<rparr>"

lemma connected_uncached_build:
  assumes "sv_cache s = None" and "sv_connected s" and "sv_maxRetries s = 3"
  shows "fst (Build H sampleEnvironment req s) = Ok sampleResult"
proof -
  have "remoteStep sampleEnvironment s req ''int x;'' =
      Ok (responseResult (emptyCompileResponse\<lparr>cs_ObjectFile := ''obj''\<rparr>))"
    using connection_retryable assms(3)
    by (simp add: remoteStep_def Preprocess_def compileRemotePreprocessed_def attempts_def sampleEnvironment_def
        eval_nat_numeral Let_def)
  moreover have "be_source sampleEnvironment = Some ''int x;''" "be_elapsed sampleEnvironment = 7"
    by (simp_all add: sampleEnvironment_def)
  ultimately show ?thesis
    using assms(1,2)
    by (simp add: Build_def cacheGet_def Let_def responseResult_def emptyCompileResponse_def sampleResult_def
        emptyResult_def wrap64_def)
qed

lemma sample_service:
  "\<exists>svc. ccService sampleHG g addr = Ok svc \<and> sv_cache (SetClient svc) = None \<and> sv_connected (SetClient svc) \<and>
     sv_maxRetries (SetClient svc) = 3"
  by (simp add: ccService_def Service_New_def NewStore_def sampleHG_def noFaults_def SetClient_def
      DefaultClientConfig_def Let_def)

lemma sample_write:
  "writeOutputFile (hw_getwd sampleHG) (hw_output sampleHG) ''a.o'' data = Ok (''/work/a.o'', data)"
proof -
  have "resolveOutputPath (Inr ''/work'') ''a.o'' = Ok ''/work/a.o''" by code_simp
  moreover have "path_Join [path_Dir ''/work/a.o'', path_Base ''/work/a.o''] = ''/work/a.o''" by code_simp
  ultimately show ?thesis by (simp add: writeOutputFile_def sampleHG_def del: path_Join.simps)
qed

lemma sample_cc:
  "runCompiler sampleHG ''gcc'' ''HG_CC'' [''-c'', ''a.c''] defaultGlobals = CcWrote ''/work/a.o'' ''obj'' sampleResult"
proof -
  let ?p = "parse_finish (parse_loop (newParsedArgs ''gcc'') [''-c'', ''a.c''])"
  have f: "filterHgbuildFlags [''-c'', ''a.c''] g = ([''-c'', ''a.c''], g)" for g
    by (simp add: HasPrefix_def)
  have p: "IsDistributable ?p" "objectFile ?p = ''a.o''" by code_simp+
  have c: "chosenCompiler sampleHG ''gcc'' ''HG_CC'' = ''gcc''" "verboseGlobals sampleHG defaultGlobals = defaultGlobals"
    "getCoordinatorAddress sampleHG defaultGlobals = ''coord:9000''"
    by (simp_all add: chosenCompiler_def sampleHG_def verboseGlobals_def getCoordinatorAddress_def defaultGlobals_def)
  have conn: "\<exists>x. Client_New (hw_newTLS sampleHG) (hw_tlsLib sampleHG) (hw_newClient sampleHG)
      (newClientConfig defaultGlobals ''coord:9000'' (hg_timeout defaultGlobals)) = Ok x"
    by (simp add: Client_New_def newClientConfig_def defaultGlobals_def zeroTLS_def sampleHG_def Let_def)
  obtain svc where svc: "ccService sampleHG defaultGlobals ''coord:9000'' = Ok svc"
    and b: "fst (Build (hw_hash sampleHG) (hw_build sampleHG) (ccRequest sampleHG ?p) (SetClient svc)) = Ok sampleResult"
    using sample_service[of defaultGlobals "''coord:9000''"] connected_uncached_build
    by (auto simp: sampleHG_def)
  have "ccFinish sampleHG ?p svc = CcWrote ''/work/a.o'' ''obj'' sampleResult"
    using b sample_write p(2) by (simp add: ccFinish_def) (simp add: sampleResult_def emptyResult_def)
  with svc conn c have "runDistributed sampleHG defaultGlobals ''gcc'' [''-c'', ''a.c''] ?p =
      CcWrote ''/work/a.o'' ''obj'' sampleResult"
    by (auto simp: runDistributed_def)
  then show ?thesis using p(1) c f by (simp only: runCompiler_eq Parse.simps Let_def fst_conv snd_conv option.sel if_True)
qed

theorem cc_success_sound_witness:
  "\<exists>parsed. Parse [''gcc'', ''-c'', ''a.c''] = Some parsed \<and> placed ''/work'' (objectFile parsed) ''/work/a.o''"
proof -
  have h: "cc_status (runCompiler sampleHG ''gcc'' ''HG_CC'' [''-c'', ''a.c''] defaultGlobals) = 0"
    by (simp only: sample_cc cc_status.simps)
  have d: "hw_getwd sampleHG = Inr ''/work''" "IsAbs ''/work''"
    "chosenCompiler sampleHG ''gcc'' ''HG_CC'' = ''gcc''"
    "fst (filterHgbuildFlags [''-c'', ''a.c''] defaultGlobals) = [''-c'', ''a.c'']"
    by (simp_all add: sampleHG_def IsAbs_def HasPrefix_def chosenCompiler_def)
  from cc_success_sound[OF h d(1,2) refl refl refl] show ?thesis
    unfolding sample_cc cc_end.case d(3,4) cc_delivered_def by blast
qed


subsection \<open>What the build wrappers hand on\<close>

lemma wrapBuildCommand_ok:
  assumes "wrapBuildCommand w g command args = Ok r"
  obtains dir where "wo_mkdirTemp w = Inr dir"
    "wd_env r =
       (let env = setEnv (setEnv (wo_environ w) ''CC'' (path_Join [dir, ''hgcc''])) ''CXX'' (path_Join [dir, ''hgcxx'']);
            env = (if hg_coordinator g \<noteq> '''' then setEnv env ''HG_COORDINATOR'' (hg_coordinator g) else env);
            env = (if \<not> fallbackEnabled (Getenv (wo_environ w)) g then setEnv env ''HG_NO_FALLBACK'' ''1'' else env)
        in if hg_verbose g then setEnv env ''HG_VERBOSE'' ''1'' else env)"
    "wd_command r = command" "suffix args (wd_args r)"
    "wd_scripts r = [(path_Join [dir, ''hgcc''], wrapperScript (wo_quoted w) ''HG_WRAP_CC_MODE''),
       (path_Join [dir, ''hgcxx''], wrapperScript (wo_quoted w) ''HG_WRAP_CXX_MODE'')]"
proof -
  from assms obtain self dir where io: "wo_executable w = Inr self" "wo_mkdirTemp w = Inr dir"
    "wo_writeFile w (path_Join [dir, ''hgcc'']) = None" "wo_writeFile w (path_Join [dir, ''hgcxx'']) = None"
    by (auto simp: wrapBuildCommand_def createCompilerWrapper_def Let_def outcome_bind_eq_Ok
        simp del: path_Join.simps split: sum.splits option.splits)
  show ?thesis
    by (rule that[OF io(2)])
      (use assms io in \<open>auto simp: wrapBuildCommand_def createCompilerWrapper_def Let_def suffix_def simp del: path_Join.simps\<close>)
qed

text \<open>Every variable of the wrapped command.\<close>

lemma wrapped_variables:
  assumes "wrapBuildCommand w g command args = Ok r" and "wo_mkdirTemp w = Inr dir" and "plainKey k"
  shows "Getenv (wd_env r) k =
    (if k = ''HG_VERBOSE'' \<and> hg_verbose g then ''1''
     else if k = ''HG_NO_FALLBACK'' \<and> \<not> fallbackEnabled (Getenv (wo_environ w)) g then ''1''
     else if k = ''HG_COORDINATOR'' \<and> hg_coordinator g \<noteq> '''' then hg_coordinator g
     else if k = ''CXX'' then path_Join [dir, ''hgcxx'']
     else if k = ''CC'' then path_Join [dir, ''hgcc'']
     else Getenv (wo_environ w) k)"
proof -
  obtain dir' where "wo_mkdirTemp w = Inr dir'" and env: "wd_env r =
       (let env = setEnv (setEnv (wo_environ w) ''CC'' (path_Join [dir', ''hgcc''])) ''CXX'' (path_Join [dir', ''hgcxx'']);
            env = (if hg_coordinator g \<noteq> '''' then setEnv env ''HG_COORDINATOR'' (hg_coordinator g) else env);
            env = (if \<not> fallbackEnabled (Getenv (wo_environ w)) g then setEnv env ''HG_NO_FALLBACK'' ''1'' else env)
        in if hg_verbose g then setEnv env ''HG_VERBOSE'' ''1'' else env)"
    using wrapBuildCommand_ok[OF assms(1)] by metis
  then have "dir' = dir" using assms(2) by simp
  define cc cxx where "cc = path_Join [dir, ''hgcc'']" and "cxx = path_Join [dir, ''hgcxx'']"
  from \<open>dir' = dir\<close> show ?thesis
    using assms(3) unfolding env Let_def cc_def[symmetric] cxx_def[symmetric]
    by (simp only: proc_env.get_put_if proc_env.get_put variable_names cc_def[symmetric] cxx_def[symmetric] split: if_split)
      auto
qed

text \<open>Each of the two scripts sets one of the two modes.\<close>

lemma wrapped_script_mode:
  assumes "wrapBuildCommand w g command args = Ok r" and "(path, wrapperScript (wo_quoted w) mode) \<in> set (wd_scripts r)"
  shows "mode = ''HG_WRAP_CC_MODE'' \<or> mode = ''HG_WRAP_CXX_MODE''"
proof -
  have "wrapperScript q m = wrapperScript q m' \<longleftrightarrow> m = m'" for q m m' by (simp add: wrapperScript_def)
  with assms show ?thesis
    by (auto simp: wrapBuildCommand_def createCompilerWrapper_def outcome_bind_eq_Ok Let_def
        split: sum.splits option.splits prod.splits)
qed

lemma runCompiler_no_fallback:
  assumes "\<And>g. \<not> fallbackEnabled (hw_getenv w) g"
  shows "case runCompiler w def var args g of
      RanLocally path as st \<Rightarrow> \<exists>cc parsed. Parse (cc # as) = Some parsed \<and> \<not> IsDistributable parsed
    | CcWrote path data res \<Rightarrow> \<not> rs_Fallback res
    | _ \<Rightarrow> True"
proof -
  let ?as = "fst (filterHgbuildFlags args g)" and ?cc = "chosenCompiler w def var"
  let ?g = "snd (filterHgbuildFlags args (verboseGlobals w g))"
  obtain parsed where parsed: "Parse (?cc # ?as) = Some parsed" by simp
  have run: "runCompiler w def var args g =
      (if IsDistributable parsed then runDistributed w ?g ?cc ?as parsed else runLocalCompiler w ?cc ?as)"
    unfolding runCompiler_eq Let_def parsed by simp
  show ?thesis
  proof (cases "IsDistributable parsed")
    case False
    then have eq: "runCompiler w def var args g = runLocalCompiler w ?cc ?as" using run by simp
    show ?thesis
      unfolding eq using runLocal_cases[of w ?cc ?as] False parsed
      by (elim disjE exE conjE) (auto simp del: Parse.simps)
  next
    case True
    then have eq: "runCompiler w def var args g = runDistributed w ?g ?cc ?as parsed" using run by simp
    let ?addr = "getCoordinatorAddress w ?g"
    have "\<not> rs_Fallback res" if "ccService w ?g ?addr = Ok svc"
      "fst (Build (hw_hash w) (hw_build w) (ccRequest w parsed) (SetClient svc)) = Ok res" for svc res
      using Build_without_fallback[OF that(2)] ccService_fallback[OF that(1)] assms by simp
    then have finish: "case ccFinish w parsed svc of RanLocally _ _ _ \<Rightarrow> False | CcWrote _ _ res \<Rightarrow> \<not> rs_Fallback res | _ \<Rightarrow> True"
      if "ccService w ?g ?addr = Ok svc" for svc
      using ccFinish_cases[of w parsed svc] that by auto
    have "(\<exists>e. runCompiler w def var args g = CcFailed e) \<or> runCompiler w def var args g = CcPanic \<or>
        (\<exists>svc. ccService w ?g ?addr = Ok svc \<and> runCompiler w def var args g = ccFinish w parsed svc)"
      unfolding eq using runDistributed_cases[of w ?g ?cc ?as parsed] assms by blast
    then show ?thesis
    proof (elim disjE exE conjE)
      fix svc
      assume "ccService w ?g ?addr = Ok svc" and r: "runCompiler w def var args g = ccFinish w parsed svc"
      then show ?thesis using finish[of svc] unfolding r by (cases "ccFinish w parsed svc") simp_all
    qed simp_all
  qed
qed

lemma ccMain_wrapped:
  assumes "hw_getenv w ''HG_WRAP_CC_MODE'' = ''1'' \<or> hw_getenv w ''HG_WRAP_CXX_MODE'' = ''1''"
  shows "\<exists>def var as. ccMain w (self # cargs) = Some (runCompiler w def var as defaultGlobals)"
proof -
  have "\<exists>mode args. injectWrappedCompilerMode (hw_getenv w) (self # cargs) = self # mode # args \<and>
      (mode = ''cc'' \<or> mode = ''c++'')"
    using assms by (cases cargs) (auto simp: injectWrappedCompilerMode_def Let_def)
  then show ?thesis unfolding ccMain_def by (elim exE conjE disjE) (simp_all, blast+)
qed

text \<open>
  C19. Asked not to fall back, by \<^verbatim>\<open>--no-fallback\<close>, by \<^verbatim>\<open>--no-fallback=\<close> with a true value or by a variable
  that is already set, \<^verbatim>\<open>hgbuild make\<close>, \<^verbatim>\<open>ninja\<close> and \<^verbatim>\<open>wrap\<close> hand the wish on to the compilers that are
  started through the two wrapper scripts. A start of such a script, whose own variable is then set, by a
  build tool that passes \<^verbatim>\<open>HG_NO_FALLBACK\<close> on, runs the program in a compiler mode, and this runs the
  local compiler only for command lines that are never distributed, such as linking; an object it
  writes comes from the cache or the coordinator, never from a local compilation. Compilers that a
  build file names itself are not started through the scripts and are outside this claim.
\<close>
theorem no_fallback_reaches_compilers:
  assumes "makeCmd w g command args = Ok r \<or> wrapCmd w g args = Ok r"
    and "list_ex asksNoFallback args \<or> \<not> fallbackEnabled (Getenv (wo_environ w)) g"
    and script: "(path, wrapperScript (wo_quoted w) mode) \<in> set (wd_scripts r)" "hw_getenv w' mode = ''1''"
    and "hw_getenv w' ''HG_NO_FALLBACK'' = Getenv (wd_env r) ''HG_NO_FALLBACK''"
  shows "\<exists>e. ccMain w' (self # cargs) = Some e \<and>
    (case e of
       RanLocally path as st \<Rightarrow> \<exists>cc parsed. Parse (cc # as) = Some parsed \<and> \<not> IsDistributable parsed
     | CcWrote path data res \<Rightarrow> \<not> rs_Fallback res
     | _ \<Rightarrow> True)"
proof -
  let ?g = "snd (filterHgbuildWrapperFlags args g)"
  obtain cmd as where wrap: "wrapBuildCommand w ?g cmd as = Ok r"
    using assms(1) by (auto simp: makeCmd_def wrapCmd_def split_beta split: list.splits prod.splits)
  obtain dir where dir: "wo_mkdirTemp w = Inr dir" using wrapBuildCommand_ok[OF wrap] by metis
  have mode: "hw_getenv w' ''HG_WRAP_CC_MODE'' = ''1'' \<or> hw_getenv w' ''HG_WRAP_CXX_MODE'' = ''1''"
    using wrapped_script_mode[OF wrap script(1)] script(2) by auto
  have "\<not> fallbackEnabled (Getenv (wo_environ w)) ?g"
    using assms(2) wrapperFlags_given[of args g] wrapperFlags_mono[of g args] by (auto simp: fallbackEnabled_def)
  then have one: "hw_getenv w' ''HG_NO_FALLBACK'' = ''1''"
    using wrapped_variables[OF wrap dir variable_names(4)] assms(5) by simp
  have "TrimSpace ''1'' \<noteq> ''''" by code_simp
  then have off: "\<not> fallbackEnabled (hw_getenv w') g" for g using one by (simp add: fallbackEnabled_def)
  obtain def var as where e: "ccMain w' (self # cargs) = Some (runCompiler w' def var as defaultGlobals)"
    using ccMain_wrapped[OF mode] by blast
  show ?thesis using runCompiler_no_fallback[of w' def var as defaultGlobals, OF off] unfolding e by blast
qed


definition sampleWrap :: wrap_world where
  "sampleWrap = \<lparr>wo_environ = [''PATH=/bin'', ''CC=clang''], wo_executable = Inr ''/opt/hgbuild'', wo_quoted = ''/opt/hgbuild'',
     wo_mkdirTemp = Inr ''/tmp/w'', wo_writeFile = (\<lambda>_. None)\<rparr>"

theorem no_fallback_reaches_compilers_witness:
  "\<exists>r e. wrapCmd sampleWrap defaultGlobals [''./build.sh'', ''--no-fallback=yes'', ''--no-fallback= true''] = Ok r \<and>
     ccMain (sampleHG\<lparr>hw_getenv := Getenv (setEnv (wd_env r) ''HG_WRAP_CC_MODE'' ''1'')\<rparr>) [''hgbuild'', ''-c'', ''a.c''] = Some e \<and>
     (case e of CcWrote path data res \<Rightarrow> \<not> rs_Fallback res | _ \<Rightarrow> True)"
proof -
  have f: "filterHgbuildWrapperFlags [''./build.sh'', ''--no-fallback=yes'', ''--no-fallback= true''] defaultGlobals =
      ([''./build.sh'', ''--no-fallback=yes''], defaultGlobals\<lparr>hg_noFallback := True\<rparr>)"
    "list_ex asksNoFallback [''./build.sh'', ''--no-fallback=yes'', ''--no-fallback= true'']"
    by code_simp+
  obtain r where r: "wrapCmd sampleWrap defaultGlobals [''./build.sh'', ''--no-fallback=yes'', ''--no-fallback= true''] = Ok r"
      "(path_Join [''/tmp/w'', ''hgcc''], wrapperScript (wo_quoted sampleWrap) ''HG_WRAP_CC_MODE'') \<in> set (wd_scripts r)"
    unfolding wrapCmd_def f(1)
    by (auto simp: wrapBuildCommand_def createCompilerWrapper_def sampleWrap_def Let_def
        simp del: path_Join.simps)
  let ?w = "sampleHG\<lparr>hw_getenv := Getenv (setEnv (wd_env r) ''HG_WRAP_CC_MODE'' ''1'')\<rparr>"
  have env: "hw_getenv ?w ''HG_NO_FALLBACK'' = Getenv (wd_env r) ''HG_NO_FALLBACK''"
    "hw_getenv ?w ''HG_WRAP_CC_MODE'' = ''1''"
    by (simp_all add: proc_env.get_put)
  have "\<exists>e. ccMain ?w [''hgbuild'', ''-c'', ''a.c''] = Some e \<and>
      (case e of
         RanLocally path as st \<Rightarrow> \<exists>cc parsed. Parse (cc # as) = Some parsed \<and> \<not> IsDistributable parsed
       | CcWrote path data res \<Rightarrow> \<not> rs_Fallback res
       | _ \<Rightarrow> True)"
    by (rule no_fallback_reaches_compilers[OF disjI2[OF r(1)] disjI1[OF f(2)] r(2) env(2,1)])
  with r(1) show ?thesis by (auto split: cc_end.splits)
qed

subsection \<open>Connections\<close>

text \<open>
  C20. Commands that parse their flags talk to the coordinator as the TLS flags ask. Once the flags
  have been accepted, a connection is secured exactly when one of the TLS flags was given; it then
  presents the given certificate, verifies the server's, against the given authority if there is
  one, and \<^verbatim>\<open>--insecure\<close>, which is on by default, does not weaken it.
\<close>
theorem client_tls_as_asked:
  assumes "preRun tracingInit g = Ok ()"
    and "Client_New newTLS lib newClient (newClientConfig g addr t) = Ok (conn, transport)"
  shows "if hg_tlsCert g = '''' \<and> hg_tlsKey g = '''' \<and> hg_tlsCA g = ''''
    then transport = (if hg_insecure g then Plaintext else NoCredentials)
    else \<exists>cert conf. tl_LoadX509KeyPair lib (hg_tlsCert g) (hg_tlsKey g) = Ok cert \<and>
      transport = Secured (newTLS conf) \<and> ts_Certificates conf = [cert] \<and> \<not> ts_InsecureSkipVerify conf \<and>
      (if hg_tlsCA g = '''' then ts_RootCAs conf = None
       else \<exists>pem pool. tl_ReadFile lib (hg_tlsCA g) = Ok pem \<and> tl_CertsFromPEM lib pem = Some pool \<and>
         ts_RootCAs conf = Some pool)"
proof -
  have valid: "TLS_Validate (tlsConfigOf g) = None"
    using assms(1) by (auto simp: preRun_def first_error_None split: option.splits)
  show ?thesis
  proof (cases "hg_tlsCert g = '''' \<and> hg_tlsKey g = '''' \<and> hg_tlsCA g = ''''")
    case True
    then show ?thesis
      using assms(2) by (auto simp: Client_New_def newClientConfig_def zeroTLS_def Let_def split: outcome.splits if_splits)
  next
    case False
    then have pair: "hg_tlsCert g \<noteq> ''''" "hg_tlsKey g \<noteq> ''''"
      using valid by (auto simp: TLS_Validate_def tlsConfigOf_def first_error_None)
    obtain creds where creds: "ClientCredentials newTLS lib (cn_TLS (newClientConfig g addr t)) = Ok creds"
      and tr: "transport = (case creds of None \<Rightarrow> NoCredentials | Some c \<Rightarrow> Secured c)"
      using assms(2) pair
      by (auto simp: Client_New_def newClientConfig_def zeroTLS_def Let_def split: outcome.splits option.splits if_splits)
    then obtain conf where "LoadClientTLS lib (cn_TLS (newClientConfig g addr t)) = Ok conf" "creds = map_option newTLS conf"
      by (auto simp: ClientCredentials_def asCredentials_def outcome_bind_eq_Ok)
    then show ?thesis
      using False pair tr
      by (auto simp: LoadClientTLS_def newClientConfig_def zeroTLS_def loadPair_def loadPool_def outcome_bind_eq_Ok Let_def
          split: outcome.splits option.splits if_splits)
  qed
qed

theorem client_tls_as_asked_witness:
  "\<exists>conf. Client_New (\<lambda>s :: (unit, unit) tls_setup. s) (hw_tlsLib sampleHG) (Ok ())
      (newClientConfig (defaultGlobals\<lparr>hg_tlsCert := ''c.pem'', hg_tlsKey := ''k.pem''\<rparr>) ''coord:9000'' 1) =
    Ok (newClientConfig (defaultGlobals\<lparr>hg_tlsCert := ''c.pem'', hg_tlsKey := ''k.pem''\<rparr>) ''coord:9000'' 1, Secured conf) \<and>
    ts_Certificates conf = [()] \<and> \<not> ts_InsecureSkipVerify conf"
proof -
  let ?g = "defaultGlobals\<lparr>hg_tlsCert := ''c.pem'', hg_tlsKey := ''k.pem''\<rparr>"
  have "preRun (\<lambda>_. Ok ()) ?g = Ok ()"
    by (simp add: preRun_def defaultGlobals_def clientSettingsOf_def tlsConfigOf_def tracingConfigOf_def Client_Validate_def
        TLS_Validate_def Tracing_Validate_def Second_def)
  moreover obtain conf where new: "Client_New (\<lambda>s :: (unit, unit) tls_setup. s) (hw_tlsLib sampleHG) (Ok ())
      (newClientConfig ?g ''coord:9000'' 1) = Ok (newClientConfig ?g ''coord:9000'' 1, Secured conf)"
    by (simp add: Client_New_def newClientConfig_def zeroTLS_def defaultGlobals_def ClientCredentials_def asCredentials_def
        LoadClientTLS_def tls_Validate_def loadPair_def sampleHG_def Let_def)
  ultimately show ?thesis
    using client_tls_as_asked[of "\<lambda>_. Ok ()" ?g "\<lambda>s. s" "hw_tlsLib sampleHG" "Ok ()" "''coord:9000''" 1]
    by (fastforce simp: defaultGlobals_def)
qed

text \<open>
  The compiler wrappers do not parse flags. Whatever TLS flags are among their arguments, they
  connect in plain text, and a coordinator given by flag is not used.
\<close>

theorem wrappers_connect_in_plain_text:
  "Client_New newTLS lib (Ok ()) (newClientConfig (snd (filterHgbuildFlags args (verboseGlobals w defaultGlobals))) addr t) =
     Ok (conn, transport) \<Longrightarrow> transport = Plaintext"
  "hg_coordinator (snd (filterHgbuildFlags args (verboseGlobals w defaultGlobals))) = ''''"
proof -
  obtain a b where g: "snd (filterHgbuildFlags args (verboseGlobals w defaultGlobals)) =
      defaultGlobals\<lparr>hg_noFallback := a, hg_verbose := b\<rparr>"
    using filter_globals[of args "verboseGlobals w defaultGlobals"] by (auto simp: verboseGlobals_def)
  show "Client_New newTLS lib (Ok ()) (newClientConfig (snd (filterHgbuildFlags args (verboseGlobals w defaultGlobals))) addr t) =
      Ok (conn, transport) \<Longrightarrow> transport = Plaintext"
    unfolding g by (auto simp: Client_New_def newClientConfig_def defaultGlobals_def zeroTLS_def Let_def split: if_splits)
  show "hg_coordinator (snd (filterHgbuildFlags args (verboseGlobals w defaultGlobals))) = ''''"
    unfolding g by (simp add: defaultGlobals_def)
qed


subsection \<open>Building single files\<close>

definition detectCompiler :: "string \<Rightarrow> string" where
  "detectCompiler file =
     (let ext = ToLower (path_Ext file)
      in if ext = ''.c'' then ''gcc''
         else if ext \<in> set [''.cpp'', ''.cc'', ''.cxx''] then ''g++''
         else if ext = ''.m'' then ''clang''
         else if ext = ''.mm'' then ''clang++''
         else ''gcc'')"

record build_flags =
  bf_output :: string
  bf_compiler :: string
  bf_args :: "string list"
  bf_arch :: string

text \<open>
  What one file needs: \<open>Inl\<close> is an error; \<open>bw_compile i\<close> answers the \<open>i\<close>-th request, and \<open>None\<close> is a
  file that was written.
\<close>

record build_world =
  bw_read :: "string \<Rightarrow> string + bytes"
  bw_compile :: "nat \<Rightarrow> CompileRequest \<Rightarrow> string + CompileResponse"
  bw_write :: "string \<Rightarrow> bytes \<Rightarrow> string option"
  bw_goarch :: string
  bw_random :: "nat \<Rightarrow> string option"
  bw_now :: "nat \<Rightarrow> int"

datatype file_result =
    Unreadable string | RequestFailed string | WriteFailed string | CompileFailed int string | Compiled string bytes

definition build_request :: "build_world \<Rightarrow> build_flags \<Rightarrow> nat \<Rightarrow> string \<Rightarrow> bytes \<Rightarrow> CompileRequest" where
  "build_request w f i file source =
     emptyCompileRequest
       \<lparr>cr_TaskId := generateTaskID (bw_random w i) (bw_now w i),
        cr_Compiler := (if bf_compiler f = '''' then detectCompiler file else bf_compiler f),
        cr_CompilerArgs := bf_args f, cr_PreprocessedSource := source,
        cr_TargetArch := parseArch (bw_goarch w) (bf_arch f), cr_TimeoutSeconds := 300\<rparr>"

definition build_file :: "build_world \<Rightarrow> build_flags \<Rightarrow> nat \<Rightarrow> string \<Rightarrow> file_result" where
  "build_file w f i file =
     (case bw_read w file of
        Inl e \<Rightarrow> Unreadable e
      | Inr source \<Rightarrow>
          (let outFile = (if bf_output f = '''' then trimSuffix file (path_Ext file) @ ''.o'' else bf_output f)
           in case bw_compile w i (build_request w f i file source) of
                Inl e \<Rightarrow> RequestFailed e
              | Inr resp \<Rightarrow>
                  if cs_Status resp = STATUS_COMPLETED then
                    (case bw_write w outFile (cs_ObjectFile resp) of
                       Some e \<Rightarrow> WriteFailed e
                     | None \<Rightarrow> Compiled outFile (cs_ObjectFile resp))
                  else CompileFailed (cs_ExitCode resp) (cs_Stderr resp)))"

fun build_files :: "build_world \<Rightarrow> build_flags \<Rightarrow> nat \<Rightarrow> string list \<Rightarrow> file_result list" where
  "build_files w f i [] = []"
| "build_files w f i (file # files) = build_file w f i file # build_files w f (Suc i) files"

fun succeeded :: "file_result \<Rightarrow> bool" where
  "succeeded (Compiled _ _) = True"
| "succeeded _ = False"

text \<open>
  The outcome of dialling comes first. Here as in the commands below the coordinator's address is
  that of the flag alone.
\<close>

definition buildCmd ::
    "(string, unit) outcome \<Rightarrow> build_world \<Rightarrow> build_flags \<Rightarrow> string list \<Rightarrow> file_result list \<times> (string, unit) outcome" where
  "buildCmd connect w f files =
     (case connect of
        Err e \<Rightarrow> ([], Err (''failed to connect: '' @ e))
      | Panic \<Rightarrow> ([], Panic)
      | Ok _ \<Rightarrow>
          (let results = build_files w f 0 files;
               failCount = length (filter (\<lambda>r. \<not> succeeded r) results)
           in (results,
               if failCount > 0 then Err (int_str (int failCount) @ '' files failed to compile'') else Ok ())))"

subsection \<open>Asking the coordinator\<close>

record worker_row =
  row_ID :: string
  row_Arch :: string
  row_Cores :: int
  row_MemoryGB :: real
  row_ActiveTasks :: int

text \<open>The rows of the table; the coordinator never fills in the state of a worker's circuit.\<close>

definition workerRow :: "WorkerStatusInfo \<Rightarrow> worker_row" where
  "workerRow w =
     \<lparr>row_ID = wi_WorkerId w, row_Arch = Architecture_String (wi_NativeArch w), row_Cores = wi_CpuCores w,
      row_MemoryGB = real_of_int (wi_MemoryBytes w) / (1024 * 1024 * 1024), row_ActiveTasks = wi_ActiveTasks w\<rparr>"

definition askCoordinator ::
    "(ClientConn \<Rightarrow> (string, 'r) outcome) \<Rightarrow> (ClientConn \<Rightarrow> (string, unit) outcome) \<Rightarrow> string \<Rightarrow> hg_globals \<Rightarrow> (string, 'r) outcome" where
  "askCoordinator ask connect failure g =
     (let cfg = newClientConfig g (hg_coordinator g) (hg_timeout g)
      in case connect cfg of
           Err e \<Rightarrow> Err (''failed to connect: '' @ e)
         | Panic \<Rightarrow> Panic
         | Ok _ \<Rightarrow> (case ask cfg of Err e \<Rightarrow> Err (failure @ e) | r \<Rightarrow> r))"

definition statusCmd where
  "statusCmd ask connect g =
     outcome_bind (askCoordinator ask connect ''health check failed: '' g)
       (\<lambda>resp :: HealthResponse. Ok (hg_coordinator g, he_Healthy resp, he_ActiveTasks resp, he_QueuedTasks resp))"

definition workersCmd where
  "workersCmd ask connect g =
     outcome_bind (askCoordinator ask connect ''failed to get workers: '' g)
       (\<lambda>resp. Ok (map workerRow (wr_Workers resp), wr_TotalWorkers resp, wr_HealthyWorkers resp))"

subsection \<open>Configuration and cache\<close>

definition configShow :: "machine \<Rightarrow> viper \<Rightarrow> hg_globals \<Rightarrow> string list" where
  "configShow mc v g =
     (let cfg = (case Load mc v (hg_cfgFile g) of Ok c \<Rightarrow> c | _ \<Rightarrow> FullDefaultConfig mc);
          coordAddr = cl_CoordinatorAddr (fc_Client cfg);
          coordAddr = (if coordAddr = '''' then ''localhost:'' @ int_str (cc_GRPCPort (fc_Coordinator cfg)) else coordAddr)
      in (case Load mc v (hg_cfgFile g) of Ok _ \<Rightarrow> [] | _ \<Rightarrow> [''No config file found, using defaults'']) @
         [''Coordinator: '' @ coordAddr, ''Cache Dir:   '' @ ch_Dir (fc_Cache cfg),
          ''Cache Size:  '' @ int_str (ch_MaxSize (fc_Cache cfg)) @ '' MB'', ''Log Level:   '' @ lg_Level (fc_Log cfg)])"

definition configInit ::
    "string \<Rightarrow> (string \<Rightarrow> string option) \<Rightarrow> (string \<Rightarrow> string option) \<Rightarrow> hg_globals \<Rightarrow> (string, string) outcome" where
  "configInit home mkdirAll writeExample g =
     (let path = (if hg_cfgFile g = '''' then path_Join [home, ''.hybridgrid'', ''config.yaml''] else hg_cfgFile g)
      in case mkdirAll (path_Dir path) of
           Some e \<Rightarrow> Err e
         | None \<Rightarrow> (case writeExample path of Some e \<Rightarrow> Err e | None \<Rightarrow> Ok path))"

definition openCache ::
    "json_codec \<Rightarrow> os_faults \<Rightarrow> (string list, bytes) fmap \<Rightarrow> string \<Rightarrow> (string, Store) outcome" where
  "openCache J faults d home =
     (let cfg = DefaultClientConfig home
      in case NewStore J faults (components (CacheDir cfg)) (CacheMaxSize cfg) (CacheTTLHours cfg) d of
           Ok s \<Rightarrow> Ok s
         | Err _ \<Rightarrow> Err ''failed to open cache''
         | Panic \<Rightarrow> Panic)"

definition cacheStats where
  "cacheStats J faults ord d home = outcome_bind (openCache J faults d home) (\<lambda>s. Ok (Store_Stats ord s))"

definition cacheClear where
  "cacheClear J faults ord d home =
     outcome_bind (openCache J faults d home) (\<lambda>s.
       case Store_Clear J faults ord s of
         (Ok _, s') \<Rightarrow> Ok s'
       | (Err _, _) \<Rightarrow> Err ''failed to clear cache''
       | (Panic, _) \<Rightarrow> Panic)"


subsection \<open>The graph command\<close>

text \<open>
  The renderers of \<^verbatim>\<open>internal/graph/render.go\<close>. \<open>page\<close> fills the embedded page with the graph's
  JSON; \<open>write\<close> is the outcome of writing a file, and creating one may fail before.
\<close>

definition RenderDOT :: "string list \<Rightarrow> (string \<Rightarrow> string \<Rightarrow> string option) \<Rightarrow> Graph \<Rightarrow> string \<Rightarrow> string option" where
  "RenderDOT order write g path = write path (ToDOT order g)"

definition RenderJSON ::
    "(Graph \<Rightarrow> string + string) \<Rightarrow> (string \<Rightarrow> string \<Rightarrow> string option) \<Rightarrow> Graph \<Rightarrow> string \<Rightarrow> string option" where
  "RenderJSON toJSON write g path =
     (case toJSON g of Inl e \<Rightarrow> Some (''failed to marshal graph: '' @ e) | Inr data \<Rightarrow> write path data)"

definition RenderHTML ::
    "(Graph \<Rightarrow> string + string) \<Rightarrow> (string \<Rightarrow> string + string) \<Rightarrow> (string \<Rightarrow> string option) \<Rightarrow>
     (string \<Rightarrow> string \<Rightarrow> string option) \<Rightarrow> Graph \<Rightarrow> string \<Rightarrow> string option" where
  "RenderHTML toJSON page create write g path =
     (case toJSON g of
        Inl e \<Rightarrow> Some (''failed to convert graph to JSON: '' @ e)
      | Inr json \<Rightarrow>
          (case create path of
             Some e \<Rightarrow> Some (''failed to create output file: '' @ e)
           | None \<Rightarrow>
               (case page json of
                  Inl e \<Rightarrow> Some (''failed to execute template: '' @ e)
                | Inr html \<Rightarrow> map_option ((@) ''failed to execute template: '') (write path html))))"

record graph_world =
  gw_exists :: "string \<Rightarrow> bool"
  gw_cwd :: "string option"
  gw_fs :: "string \<Rightarrow> file_read"
  gw_unmarshal :: "bytes \<Rightarrow> (string, CompileCommand list) outcome"
  gw_order :: "string list"
  gw_toJSON :: "Graph \<Rightarrow> string + string"
  gw_page :: "string \<Rightarrow> string + string"
  gw_create :: "string \<Rightarrow> string option"
  gw_write :: "string \<Rightarrow> string \<Rightarrow> string option"

datatype graph_failure =
    NoBuildFile | ParseFailure string graph_error | RenderFailure string | UnknownFormat string | GraphPanic

definition buildFileOf :: "graph_world \<Rightarrow> string \<Rightarrow> string option" where
  "buildFileOf w inputFile =
     (if inputFile \<noteq> '''' then Some inputFile
      else if gw_exists w ''Makefile'' then Some ''Makefile''
      else if gw_exists w ''compile_commands.json'' then Some ''compile_commands.json''
      else None)"

definition parsedMessage :: "Graph \<Rightarrow> string" where
  "parsedMessage g =
     (if NodeCount g = 0 then ''Warning: no dependencies found in build file'' @ [CHR 0x0A] else '''') @
     ''Parsed '' @ int_str (int (NodeCount g)) @ '' nodes and '' @ int_str (int (EdgeCount g)) @ '' edges'' @ [CHR 0x0A]"

definition rendered :: "string \<Rightarrow> string \<Rightarrow> string option \<Rightarrow> (graph_failure, string) outcome" where
  "rendered failure outputFile r =
     (case r of
        Some e \<Rightarrow> Err (RenderFailure (failure @ e))
      | None \<Rightarrow> Ok (''Generated: '' @ outputFile @ [CHR 0x0A]))"

text \<open>What the command prints on standard output; files are written on the way.\<close>

definition graphCmd :: "graph_world \<Rightarrow> string \<Rightarrow> string \<Rightarrow> string \<Rightarrow> (graph_failure, string) outcome" where
  "graphCmd w inputFile outputFile format =
     (case buildFileOf w inputFile of
        None \<Rightarrow> Err NoBuildFile
      | Some input \<Rightarrow>
          (case ParseAuto (gw_cwd w) (gw_fs w) (gw_unmarshal w) '''' input of
             Err e \<Rightarrow> Err (ParseFailure input e)
           | Panic \<Rightarrow> Err GraphPanic
           | Ok g \<Rightarrow>
               outcome_bind
                 (if format = '''' \<or> format = ''html'' then
                    (let out = (if outputFile = '''' then ''build-graph.html'' else outputFile)
                     in rendered ''failed to render HTML: '' out
                          (RenderHTML (gw_toJSON w) (gw_page w) (gw_create w) (gw_write w) g out))
                  else if format = ''dot'' then
                    (if outputFile = '''' then Ok (ToDOT (gw_order w) g)
                     else rendered ''failed to render DOT: '' outputFile (RenderDOT (gw_order w) (gw_write w) g outputFile))
                  else if format = ''json'' then
                    (if outputFile = ''''
                     then Ok ((case gw_toJSON w g of Inl _ \<Rightarrow> '''' | Inr data \<Rightarrow> data) @ [CHR 0x0A])
                     else rendered ''failed to render JSON: '' outputFile (RenderJSON (gw_toJSON w) (gw_write w) g outputFile))
                  else Err (UnknownFormat format))
                 (\<lambda>printed. Ok (parsedMessage g @ printed))))"

subsection \<open>Surprises\<close>

text \<open>
  The wrappers take \<^verbatim>\<open>-C\<close> with the argument after it and \<^verbatim>\<open>-v\<close> for their own, which are options of
  the compiler: preprocessing with comments loses its source file, and asking the compiler for its
  version runs it without arguments.
\<close>

theorem compiler_flags_swallowed:
  "fst (filterHgbuildFlags [''-E'', ''-C'', ''a.c''] g) = [''-E'']"
  "fst (filterHgbuildFlags [''-v''] g) = []"
  by (simp_all add: HasPrefix_def)

text \<open>The build wrappers know one flag only: the others, documented in front of \<^verbatim>\<open>make\<close>, go to \<^verbatim>\<open>make\<close>.\<close>

theorem client_flags_go_to_make:
  "filterHgbuildWrapperFlags [''--coordinator=10.0.0.1:9000'', ''--timeout=2m'', ''-v'', ''-j8''] g =
     ([''--coordinator=10.0.0.1:9000'', ''--timeout=2m'', ''-v'', ''-j8''], g)"
  by (simp add: HasPrefix_def)

theorem no_fallback_zero:
  "\<not> fallbackEnabled (\<lambda>k. if k = ''HG_NO_FALLBACK'' then ''0'' else '''') g"
proof -
  have "TrimSpace ''0'' \<noteq> ''''" by code_simp
  then show ?thesis by (simp add: fallbackEnabled_def)
qed

text \<open>GCC puts the object of \<^verbatim>\<open>dir/a.c\<close> into the working directory; the wrapper puts it beside the source.\<close>

theorem object_beside_source: "defaultObject ''dir/a.c'' = ''dir/a.o''"
  by code_simp

text \<open>
  A relative output above the working directory is refused, after the compilation has succeeded.
  An absolute one is accepted when the text of its path starts with the directory's.
\<close>

theorem output_above_refused:
  assumes "\<not> IsAbs out" and "''..'' \<in> set (components out)" and "IsAbs d"
  shows "\<exists>e. resolveOutputPath (Inr d) out = Err e"
proof -
  have "SanitizePath d out = ''''"
    using SanitizePath_ok(4)[of d out "SanitizePath d out"] assms by blast
  then show ?thesis by (simp add: resolveOutputPath_def)
qed

theorem output_beside_accepted: "resolveOutputPath (Inr ''/work'') ''/work2/a.o'' = Ok ''/work2/a.o''"
  by code_simp

text \<open>
  The value of \<^verbatim>\<open>-march\<close> is taken for the target architecture. \<^verbatim>\<open>native\<close> is none that the
  coordinator knows, so that any worker may compile, for its own processor.
\<close>

theorem march_native_any_worker:
  assumes "Parse [cc, ''-c'', ''-march=native'', ''a.c''] = Some parsed"
  shows "rq_TargetArch (ccRequest w parsed) = ARCH_UNSPECIFIED \<and> ''-march=native'' \<in> set (Compiler.Flags parsed)"
proof -
  have t: "Compiler.TargetArch parsed = ''native''" "''-march=native'' \<in> set (Compiler.Flags parsed)"
    using assms by (auto simp: newParsedArgs_def takesValue_def parseArg_def addFlag_def parse_finish_def HasPrefix_def Let_def
        isSourceFile_def path_Ext_def afterLast_def ToLower_def lower_def)
  have "parseArch goarch ''native'' = ARCH_UNSPECIFIED" for goarch by (simp add: parseArch_def ToLower_def lower_def)
  with t show ?thesis by (simp add: ccRequest_def)
qed

text \<open>Without flag, variable and announcement there is no coordinator, although a default is documented.\<close>

theorem no_default_coordinator:
  "hw_getenv w ''HG_COORDINATOR'' = '''' \<Longrightarrow> hw_events w = [] \<Longrightarrow> getCoordinatorAddress w defaultGlobals = ''''"
  by (simp add: getCoordinatorAddress_def defaultGlobals_def Discover_def split: option.split)

text \<open>
  A single build sends the file as it is in the place of preprocessed source, so that the worker
  compiles it without preprocessing.
\<close>

theorem build_sends_source_unpreprocessed:
  "bw_read w file = Inr source \<Longrightarrow>
   cr_PreprocessedSource (build_request w f i file source) = source \<and> cr_RawSource (build_request w f i file source) = []"
  by (simp add: build_request_def emptyCompileRequest_def)

text \<open>With an output name all files of a build are written to it, one over the other.\<close>

lemma build_file_output:
  "bf_output f \<noteq> '''' \<Longrightarrow> build_file w f i file = Compiled path data \<Longrightarrow> path = bf_output f"
  by (auto simp: build_file_def Let_def split: sum.splits option.splits if_splits)

theorem one_output_for_all:
  "bf_output f \<noteq> '''' \<Longrightarrow> Compiled path data \<in> set (build_files w f i files) \<Longrightarrow> path = bf_output f"
  by (induction files arbitrary: i) (auto dest: build_file_output[OF _ sym])

text \<open>
  The build succeeds exactly when every file was read, compiled and written; otherwise the number
  of the others is reported, and all of them have been tried.
\<close>

theorem buildCmd_exact:
  "snd (buildCmd (Ok ()) w f files) = Ok () \<longleftrightarrow> list_all succeeded (build_files w f 0 files)"
  "length (fst (buildCmd (Ok ()) w f files)) = length files"
proof -
  have "length (build_files w f i files) = length files" for i
    by (induction files arbitrary: i) auto
  then show "length (fst (buildCmd (Ok ()) w f files)) = length files" by (simp add: buildCmd_def Let_def)
  show "snd (buildCmd (Ok ()) w f files) = Ok () \<longleftrightarrow> list_all succeeded (build_files w f 0 files)"
    by (auto simp: buildCmd_def Let_def list_all_iff filter_empty_conv)
qed

text \<open>The status commands dial the coordinator of the flag, without looking for one.\<close>

theorem status_without_discovery:
  "askCoordinator (\<lambda>cfg. Ok (cn_Address cfg)) (\<lambda>_. Ok ()) failure defaultGlobals = Ok ''''"
  by (simp add: askCoordinator_def newClientConfig_def defaultGlobals_def Let_def)

text \<open>Redirecting the DOT output into a file, as documented, puts a message in front of the graph.\<close>

theorem dot_output_has_message:
  assumes "graphCmd w input '''' ''dot'' = Ok out"
  shows "\<not> HasPrefix out ''digraph'' \<and> (\<exists>g. out = parsedMessage g @ ToDOT (gw_order w) g)"
proof -
  obtain g where out: "out = parsedMessage g @ ToDOT (gw_order w) g"
    using assms by (auto simp: graphCmd_def split: option.splits outcome.splits)
  have "\<exists>c r. parsedMessage g = c # r \<and> c \<noteq> CHR ''d''"
    by (cases "NodeCount g = 0") (simp_all add: parsedMessage_def)
  then have "\<not> HasPrefix out ''digraph''" using out by (auto simp: HasPrefix_def)
  then show ?thesis using out by blast
qed


subsection \<open>Application builds\<close>

text \<open>
  What the program injects into the Flutter and the Unity command. \<open>call\<close> is the coordinator
  behind a connection.
\<close>

definition appDependencies ::
    "('cert, 'pool, 'c) hg_world \<Rightarrow> (ClientConn \<Rightarrow> 'c transport \<Rightarrow> BuildRequest \<Rightarrow> (string, BuildResponse option) outcome) \<Rightarrow>
     int \<Rightarrow> hg_globals \<Rightarrow> Dependencies" where
  "appDependencies w call buildMinutes g =
     \<lparr>dp_CoordinatorAddr = Some (getCoordinatorAddress w g),
      dp_NewClient = Some (\<lambda>address requestTimeout.
        outcome_bind (Client_New (hw_newTLS w) (hw_tlsLib w) (hw_newClient w) (newClientConfig g address requestTimeout))
          (\<lambda>(conn, transport). Ok (call conn transport))),
      dp_RequestTimeout = 25 * 60 * Second, dp_BuildTimeout = buildMinutes * 60 * Second\<rparr>"

definition newFlutterCmd where "newFlutterCmd w call g = appDependencies w call 20 g"
definition newUnityCmd where "newUnityCmd w call g = appDependencies w call 30 g"

text \<open>
  A Unity build may take thirty minutes on the worker, but the request that waits for it is given
  up after twenty-five.
\<close>

theorem unity_request_shorter_than_build:
  "dp_RequestTimeout (newUnityCmd w call g) < dp_BuildTimeout (newUnityCmd w call g)"
  "dp_BuildTimeout (newFlutterCmd w call g) < dp_RequestTimeout (newFlutterCmd w call g)"
  by (simp_all add: newUnityCmd_def newFlutterCmd_def appDependencies_def Second_def)

lemma Client_New_address: "Client_New nt lib nc cfg = Ok (conn, transport) \<Longrightarrow> cn_Address conn = cn_Address cfg"
  by (cases nc) (auto simp: Client_New_def outcome_bind_eq_Ok Let_def split: if_splits)

text \<open>Application builds reach the coordinator that was announced when neither flag nor variable names one.\<close>

theorem app_build_answered:
  assumes "runBuild (appDependencies w call m g) req = Ok resp"
  shows "\<exists>conn transport. call conn transport req = Ok resp \<and>
    cn_Address conn = TrimSpace (getCoordinatorAddress w g) \<and> cn_Address conn \<noteq> ''''"
proof -
  let ?addr = "TrimSpace (getCoordinatorAddress w g)"
  have addr: "cn_Address conn = a" if "Client_New nt lib nc (newClientConfig g a t) = Ok (conn, transport)" for nt lib nc a t conn transport
    using Client_New_address[OF that] by (simp add: newClientConfig_def Let_def split: if_splits)
  obtain build where ne: "?addr \<noteq> ''''" and b: "build req = Ok resp"
    and new: "outcome_bind (Client_New (hw_newTLS w) (hw_tlsLib w) (hw_newClient w) (newClientConfig g ?addr (25 * 60 * Second)))
      (\<lambda>(conn, transport). Ok (call conn transport)) = Ok build"
    using assms by (auto simp: runBuild_def appDependencies_def Let_def split: outcome.splits if_splits)
  obtain conn transport where "Client_New (hw_newTLS w) (hw_tlsLib w) (hw_newClient w) (newClientConfig g ?addr (25 * 60 * Second)) =
      Ok (conn, transport)" and c: "build = call conn transport"
    using new by (auto simp: outcome_bind_eq_Ok)
  then have "cn_Address conn = ?addr" using addr by metis
  then show ?thesis using ne b c by metis
qed

end
