(* ===== verification/Terminal_Output.thy ===== *)
theory Terminal_Output
  imports HGBuild
begin

text \<open>
  What the client program prints, \<^verbatim>\<open>internal/cli/output\<close>: the tables of \<^verbatim>\<open>table.go\<close> and the labels of
  \<^verbatim>\<open>colors.go\<close>, and the commands of \<^verbatim>\<open>cmd/hgbuild/main.go\<close> that print them. A cell keeps its style
  apart from its text; the escape sequences, the layout of a table by the table library and the
  progress bars are left out. A number printed with a fixed count of decimals stays a number, with
  the count.
\<close>

subsection \<open>Cells\<close>

datatype style = Success | Error | Warning | Info | Bold | Dim

datatype piece = Text string | Fixed nat float_value

datatype cell = Plain "piece list" | Styled style "piece list"

datatype printed = Blank | Underline nat | Line "cell list" | Bullet string | Table "string list" "cell list list"

abbreviation word :: "string \<Rightarrow> cell" where "word s \<equiv> Plain [Text s]"
abbreviation number :: "int \<Rightarrow> cell" where "number n \<equiv> Plain [Text (int_str n)]"

definition checkMark :: string where
  "checkMark = [char_of (226 :: nat), char_of (156 :: nat), char_of (147 :: nat)]"

definition crossMark :: string where
  "crossMark = [char_of (226 :: nat), char_of (156 :: nat), char_of (151 :: nat)]"

definition StatusLabel :: "string \<Rightarrow> cell" where
  "StatusLabel status =
     (if status = ''remote'' then Styled Info [Text ''[remote]'']
      else if status = ''cache'' then Styled Success [Text ''[cache]'']
      else if status = ''local'' then Styled Warning [Text ''[local]'']
      else if status = ''failed'' then Styled Error [Text ''[failed]'']
      else if status = ''healthy'' then Styled Success [Text ''[healthy]'']
      else if status = ''unhealthy'' then Styled Error [Text ''[unhealthy]'']
      else if status = ''pending'' then Styled Dim [Text ''[pending]'']
      else if status = ''running'' then Styled Info [Text ''[running]'']
      else if status = ''success'' then Styled Success [Text ''[success]'']
      else word (''['' @ status @ '']''))"

definition StatusIcon :: "bool \<Rightarrow> cell" where
  "StatusIcon good = (if good then Styled Success [Text checkMark] else Styled Error [Text crossMark])"

definition Healthy :: "bool \<Rightarrow> cell" where
  "Healthy healthy =
     (if healthy then Styled Success [Text (''healthy '' @ checkMark)]
      else Styled Error [Text (''unhealthy '' @ crossMark)])"

definition WorkerStatus :: "string \<Rightarrow> cell" where
  "WorkerStatus circuitState =
     (if circuitState = '''' \<or> circuitState = ''CLOSED'' then Styled Success [Text ''healthy'']
      else if circuitState = ''OPEN'' then Styled Error [Text circuitState]
      else Styled Warning [Text circuitState])"

text \<open>Comparisons of floating point numbers; those with NaN are false.\<close>

fun float_ge :: "float_value \<Rightarrow> real \<Rightarrow> bool" where
  "float_ge (Fin x) b \<longleftrightarrow> x \<ge> b"
| "float_ge PosInf b \<longleftrightarrow> True"
| "float_ge _ b \<longleftrightarrow> False"

fun float_gt :: "float_value \<Rightarrow> real \<Rightarrow> bool" where
  "float_gt (Fin x) b \<longleftrightarrow> x > b"
| "float_gt PosInf b \<longleftrightarrow> True"
| "float_gt _ b \<longleftrightarrow> False"

definition byRate :: "float_value \<Rightarrow> piece list \<Rightarrow> cell" where
  "byRate value formatted =
     (if float_ge value 80 then Styled Success formatted
      else if float_ge value 50 then Styled Warning formatted
      else Styled Error formatted)"

definition Percent :: "float_value \<Rightarrow> cell" where
  "Percent value = byRate value [Fixed 1 value, Text ''%'']"

definition ByteSize :: "int \<Rightarrow> cell" where
  "ByteSize bytes =
     (let KB = 1024; MB = KB * 1024; GB = MB * 1024;
          units = (\<lambda>u. Fixed 2 (Fin (real_of_int bytes / real_of_int u)))
      in if bytes \<ge> GB then Styled Bold [units GB, Text '' GB'']
         else if bytes \<ge> MB then Styled Bold [units MB, Text '' MB'']
         else if bytes \<ge> KB then Styled Bold [units KB, Text '' KB'']
         else Styled Bold [Text (int_str bytes), Text '' B''])"

subsection \<open>Helpers of the tables\<close>

text \<open>A slice that ends below zero panics.\<close>

definition truncateString :: "string \<Rightarrow> int \<Rightarrow> (string, string) outcome" where
  "truncateString s limit =
     (if int (length s) \<le> limit then Ok s
      else if limit - 3 < 0 then Panic
      else Ok (take (nat (limit - 3)) s @ ''...''))"

definition Minute :: int where
  "Minute = 60 * Second"

definition Hour :: int where
  "Hour = 60 * Minute"

definition formatDuration :: "int \<Rightarrow> piece list" where
  "formatDuration d =
     (if d < Minute then [Fixed 0 (Fin (real_of_int d / real_of_int Second)), Text ''s'']
      else if d < Hour then
        [Text (int_str (d sdiv Minute)), Text ''m'', Text (int_str ((d sdiv Second) smod 60)), Text ''s'']
      else if d < 24 * Hour then
        [Text (int_str (d sdiv Hour)), Text ''h'', Text (int_str ((d sdiv Minute) smod 60)), Text ''m'']
      else
        [Text (int_str ((d sdiv Hour) sdiv 24)), Text ''d'', Text (int_str ((d sdiv Hour) smod 24)), Text ''h''])"

subsection \<open>The tables\<close>

record BuildStats =
  bst_Total :: int
  bst_Remote :: int
  bst_CacheHits :: int
  bst_Local :: int
  bst_Failed :: int
  bst_Duration :: int
  bst_TimeSaved :: int
  bst_BytesSaved :: int
  bst_TasksFailed :: "string list"

definition optionalRow :: "bool \<Rightarrow> cell list \<Rightarrow> cell list list" where
  "optionalRow b row = (if b then [row] else [])"

definition seconds :: "nat \<Rightarrow> int \<Rightarrow> piece list" where
  "seconds n d = [Fixed n (Fin (real_of_int d / real_of_int Second)), Text ''s'']"

definition PrintBuildSummary :: "BuildStats \<Rightarrow> printed list" where
  "PrintBuildSummary stats =
     [Blank, Line [Styled Bold [Text ''Build Summary'']], Underline 13,
      Table [''Metric'', ''Value'']
        ([[word ''Total Files'', number (bst_Total stats)]] @
         optionalRow (bst_Remote stats > 0) [word ''Remote'', Styled Success [Text (int_str (bst_Remote stats))]] @
         optionalRow (bst_CacheHits stats > 0) [word ''Cache Hits'', Styled Success [Text (int_str (bst_CacheHits stats))]] @
         optionalRow (bst_Local stats > 0) [word ''Local Fallback'', Styled Warning [Text (int_str (bst_Local stats))]] @
         optionalRow (bst_Failed stats > 0) [word ''Failed'', Styled Error [Text (int_str (bst_Failed stats))]] @
         [[word ''Duration'', Plain (seconds 2 (bst_Duration stats))]] @
         optionalRow (bst_TimeSaved stats > 0) [word ''Time Saved'', Styled Success (seconds 1 (bst_TimeSaved stats))])] @
     (if bst_TasksFailed stats \<noteq> [] \<and> length (bst_TasksFailed stats) \<le> 5
      then [Blank, Line [Styled Error [Text ''Failed files:'']]] @ map Bullet (bst_TasksFailed stats) else []) @
     [Blank]"

record WorkerRow = worker_row +
  row_Status :: string
  row_CircuitState :: string

definition workersLine :: "int \<Rightarrow> int \<Rightarrow> printed" where
  "workersLine ntotal healthy =
     Line [word ''Workers: '', Styled Bold [Text (int_str ntotal)], word '' total, '',
           Styled Success [Text (int_str healthy)], word '' healthy'']"

definition workerCells :: "WorkerRow \<Rightarrow> (string, cell list) outcome" where
  "workerCells w =
     outcome_bind (truncateString (row_ID w) 20) (\<lambda>name.
       Ok [word name, word (row_Arch w), number (row_Cores w), Plain [Fixed 1 (Fin (row_MemoryGB w)), Text '' GB''],
           number (row_ActiveTasks w), WorkerStatus (row_CircuitState w)])"

definition workerCellsCompact :: "WorkerRow \<Rightarrow> (string, cell list) outcome" where
  "workerCellsCompact w =
     outcome_bind (truncateString (row_ID w) 20) (\<lambda>name.
       Ok [word name, word (row_Arch w), number (row_Cores w), WorkerStatus (row_CircuitState w)])"

fun allRows :: "('w \<Rightarrow> (string, 'r) outcome) \<Rightarrow> 'w list \<Rightarrow> (string, 'r list) outcome" where
  "allRows f [] = Ok []"
| "allRows f (w # ws) = outcome_bind (f w) (\<lambda>r. outcome_bind (allRows f ws) (\<lambda>rs. Ok (r # rs)))"

definition PrintWorkersTable :: "WorkerRow list \<Rightarrow> int \<Rightarrow> int \<Rightarrow> (string, printed list) outcome" where
  "PrintWorkersTable ws ntotal healthy =
     (if ws = [] then Ok [Line [Styled Warning [Text ''No workers connected'']]]
      else outcome_bind (allRows workerCells ws) (\<lambda>rows.
        Ok [workersLine ntotal healthy, Blank, Table [''ID'', ''ARCH'', ''CORES'', ''MEMORY'', ''TASKS'', ''STATUS''] rows]))"

definition PrintWorkersTableCompact :: "WorkerRow list \<Rightarrow> int \<Rightarrow> int \<Rightarrow> (string, printed list) outcome" where
  "PrintWorkersTableCompact ws ntotal healthy =
     (if ws = [] then Ok [Line [Styled Warning [Text ''No workers connected'']]]
      else outcome_bind (allRows workerCellsCompact ws) (\<lambda>rows.
        Ok [workersLine ntotal healthy, Blank, Table [''ID'', ''ARCH'', ''CORES'', ''STATUS''] rows]))"

record StatusInfo =
  sti_Address :: string
  sti_Healthy :: bool
  sti_ActiveTasks :: int
  sti_QueuedTasks :: int
  sti_Workers :: int
  sti_CacheHits :: int
  sti_Uptime :: int

definition PrintStatus :: "StatusInfo \<Rightarrow> printed list" where
  "PrintStatus s =
     [Line [Styled Bold [Text ''Coordinator Status'']], Underline 18,
      Table []
        ([[word ''Address:'', Styled Info [Text (sti_Address s)]], [word ''Status:'', Healthy (sti_Healthy s)],
          [word ''Active Tasks:'', number (sti_ActiveTasks s)], [word ''Queued Tasks:'', number (sti_QueuedTasks s)]] @
         optionalRow (sti_Workers s > 0) [word ''Workers:'', number (sti_Workers s)] @
         optionalRow (sti_CacheHits s > 0) [word ''Cache Hits:'', Styled Success [Text (int_str (sti_CacheHits s))]] @
         optionalRow (sti_Uptime s > 0) [word ''Uptime:'', Plain (formatDuration (sti_Uptime s))])]"

record CacheStats =
  cst_Directory :: string
  cst_Entries :: int
  cst_TotalSize :: int
  cst_MaxSize :: int
  cst_TotalHits :: int
  cst_TotalMiss :: int

text \<open>The division of two integers as floating point numbers, times a hundred.\<close>

definition percentage :: "int \<Rightarrow> int \<Rightarrow> float_value" where
  "percentage a b =
     (if b = 0 then (if a = 0 then NaN else if a > 0 then PosInf else NegInf)
      else Fin (real_of_int a / real_of_int b * 100))"

definition megabytes :: "int \<Rightarrow> float_value" where
  "megabytes n = Fin (real_of_int n / (1024 * 1024))"

definition PrintCacheStats :: "CacheStats \<Rightarrow> printed list" where
  "PrintCacheStats s =
     (let usedPercent = percentage (cst_TotalSize s) (cst_MaxSize s);
          sizeStr = [Fixed 2 (megabytes (cst_TotalSize s)), Text '' MB / '', Fixed 0 (megabytes (cst_MaxSize s)),
                     Text '' MB ('', Fixed 1 usedPercent, Text ''%)''];
          looked = wrap64 (cst_TotalHits s + cst_TotalMiss s);
          hitRate = percentage (cst_TotalHits s) looked
      in [Line [Styled Bold [Text ''Cache Statistics'']], Underline 16,
          Table []
            ([[word ''Directory:'', Styled Info [Text (cst_Directory s)]], [word ''Entries:'', number (cst_Entries s)],
              [word ''Size:'', if float_gt usedPercent 90 then Styled Warning sizeStr else Plain sizeStr],
              [word ''Total Hits:'', Styled Success [Text (int_str (cst_TotalHits s))]]] @
             optionalRow (cst_TotalMiss s > 0) [word ''Total Miss:'', number (cst_TotalMiss s)] @
             optionalRow (looked > 0) [word ''Hit Rate:'', byRate hitRate [Fixed 1 hitRate, Text ''%'']])])"

subsection \<open>The commands that print\<close>

definition statusPrinted where
  "statusPrinted ask connect g =
     outcome_bind (statusCmd ask connect g) (\<lambda>(address, healthy, active, queued).
       Ok (PrintStatus \<lparr>sti_Address = address, sti_Healthy = healthy, sti_ActiveTasks = active,
             sti_QueuedTasks = queued, sti_Workers = 0, sti_CacheHits = 0, sti_Uptime = 0\<rparr>))"

text \<open>The coordinator leaves the state of the circuit out of its answer.\<close>

definition printedWorker :: "worker_row \<Rightarrow> WorkerRow" where
  "printedWorker w =
     \<lparr>row_ID = row_ID w, row_Arch = row_Arch w, row_Cores = row_Cores w, row_MemoryGB = row_MemoryGB w,
      row_ActiveTasks = row_ActiveTasks w, row_Status = '''', row_CircuitState = ''''\<rparr>"

definition workersPrinted where
  "workersPrinted verbose ask connect g =
     outcome_bind (workersCmd ask connect g) (\<lambda>(ws, ntotal, healthy).
       (if verbose then PrintWorkersTable else PrintWorkersTableCompact) (map printedWorker ws) ntotal healthy)"

definition cacheStatsPrinted where
  "cacheStatsPrinted J faults ord d home =
     outcome_bind (cacheStats J faults ord d home) (\<lambda>s.
       Ok (PrintCacheStats \<lparr>cst_Directory = CacheDir (DefaultClientConfig home), cst_Entries = int (stat_Entries s),
             cst_TotalSize = stat_TotalSize s, cst_MaxSize = stat_MaxSize s, cst_TotalHits = stat_TotalHits s,
             cst_TotalMiss = 0\<rparr>))"

subsection \<open>Properties\<close>

lemma sdiv_nonneg: "0 \<le> d \<Longrightarrow> 0 < u \<Longrightarrow> (d :: int) sdiv u = d div u"
  by (cases "d = 0") (simp_all add: signed_divide_int_def)

lemma split_units:
  assumes "0 < (u :: int)" "0 < k"
  shows "d div (u * k) * (u * k) + d div u mod k * u \<le> d" "d < d div (u * k) * (u * k) + d div u mod k * u + u"
    "0 \<le> d div u mod k" "d div u mod k < k"
proof -
  let ?q = "d div u"
  have q: "d div (u * k) = ?q div k" using assms by (simp add: zdiv_zmult2_eq)
  have "a * (u * k) + b * u = (a * k + b) * u" for a b :: int by (simp add: algebra_simps)
  from this[of "?q div k" "?q mod k"] have e: "d div (u * k) * (u * k) + ?q mod k * u = ?q * u"
    by (simp only: q div_mult_mod_eq)
  have "?q * u + d mod u = d" "0 \<le> d mod u" "d mod u < u" using assms by simp_all
  then show "d div (u * k) * (u * k) + ?q mod k * u \<le> d" "d < d div (u * k) * (u * k) + ?q mod k * u + u"
    unfolding e by linarith+
  show "0 \<le> ?q mod k" "?q mod k < k" using assms by simp_all
qed

text \<open>
  The units of a duration that is not shorter than a minute: the two numbers printed stand for the
  duration rounded down to the smaller unit, and the second number stays below the size of the
  larger unit.
\<close>

theorem formatDuration_exact:
  assumes "Minute \<le> d"
  shows "\<exists>a b u v. formatDuration d = [Text (int_str a), Text [u], Text (int_str b), Text [v]] \<and> 0 \<le> b \<and>
    ((u, v) = (CHR ''m'', CHR ''s'') \<and> d < Hour \<and> b < 60 \<and> a * Minute + b * Second \<le> d \<and>
        d < a * Minute + b * Second + Second \<or>
     (u, v) = (CHR ''h'', CHR ''m'') \<and> Hour \<le> d \<and> d < 24 * Hour \<and> b < 60 \<and> a * Hour + b * Minute \<le> d \<and>
        d < a * Hour + b * Minute + Minute \<or>
     (u, v) = (CHR ''d'', CHR ''h'') \<and> 24 * Hour \<le> d \<and> b < 24 \<and> (24 * a + b) * Hour \<le> d \<and>
        d < (24 * a + b) * Hour + Hour)"
proof -
  have d: "0 \<le> d" "\<And>u. 0 < u \<Longrightarrow> 0 \<le> d div u"
    using assms by (simp_all add: Minute_def Second_def pos_imp_zdiv_nonneg_iff)
  have pos: "0 < Second" "0 < Minute" "0 < Hour" and units: "Minute = Second * 60" "Hour = Minute * 60"
    by (simp_all add: Second_def Minute_def Hour_def)
  consider "d < Hour" | "Hour \<le> d" "d < 24 * Hour" | "24 * Hour \<le> d" by linarith
  then show ?thesis
  proof cases
    case 1
    have "formatDuration d = [Text (int_str (d div Minute)), Text ''m'', Text (int_str (d div Second mod 60)), Text ''s'']"
      using 1 assms d pos by (simp add: formatDuration_def sdiv_nonneg smod_nonneg)
    moreover note split_units[OF pos(1), of 60 d, folded units(1)]
    ultimately show ?thesis using 1 by fastforce
  next
    case 2
    have "formatDuration d = [Text (int_str (d div Hour)), Text ''h'', Text (int_str (d div Minute mod 60)), Text ''m'']"
      using 2 assms d pos by (simp add: formatDuration_def sdiv_nonneg smod_nonneg)
    moreover note split_units[OF pos(2), of 60 d, folded units(2)]
    ultimately show ?thesis using 2 by fastforce
  next
    case 3
    have f: "formatDuration d = [Text (int_str (d div Hour div 24)), Text ''d'', Text (int_str (d div Hour mod 24)), Text ''h'']"
      using 3 assms d pos by (simp add: formatDuration_def sdiv_nonneg smod_nonneg)
    have q: "24 * (d div Hour div 24) + d div Hour mod 24 = d div Hour" by simp
    have b: "d div Hour * Hour \<le> d" "d < d div Hour * Hour + Hour"
      using pos(3) div_mult_mod_eq[of d Hour] pos_mod_bound[of Hour d] pos_mod_sign[of Hour d] by linarith+
    show ?thesis
      by (intro exI[of _ "d div Hour div 24"] exI[of _ "d div Hour mod 24"] exI[of _ "CHR ''d''"] exI[of _ "CHR ''h''"])
        (use f q b 3 in simp)
  qed
qed

text \<open>A name is shown whole or cut to the limit, its end marked.\<close>

theorem truncateString_fits:
  assumes "3 \<le> limit"
  shows "\<exists>t. truncateString s limit = Ok t \<and> int (length t) \<le> limit \<and>
    (t = s \<or> (\<exists>p. t = p @ ''...'' \<and> prefix p s \<and> int (length t) = limit))"
  using assms by (auto simp: truncateString_def take_is_prefix)

text \<open>
  Counting bytes, the cut may fall inside a character: what is printed is not valid UTF-8 then.
\<close>

lemma truncateString_splits_character:
  "truncateString [CHR ''a'', char_of (195 :: nat), char_of (169 :: nat), CHR ''b'', CHR ''c'', CHR ''d''] 5 =
     Ok [CHR ''a'', char_of (195 :: nat), CHR ''.'', CHR ''.'', CHR ''.'']"
  by (simp add: truncateString_def)

text \<open>Every table of workers is printed: the names are cut to twenty characters, and nothing panics.\<close>

lemma allRows_Ok: "(\<And>w. w \<in> set ws \<Longrightarrow> \<exists>r. f w = Ok r) \<Longrightarrow> \<exists>rs. allRows f ws = Ok rs \<and> length rs = length ws"
  by (induction ws) force+

theorem workers_always_printed:
  "\<exists>out. PrintWorkersTable ws n h = Ok out" "\<exists>out. PrintWorkersTableCompact ws n h = Ok out"
proof -
  have c: "\<exists>r. workerCells w = Ok r" "\<exists>r. workerCellsCompact w = Ok r" for w
    using truncateString_fits[of 20 "row_ID w"] by (auto simp: workerCells_def workerCellsCompact_def)
  show "\<exists>out. PrintWorkersTable ws n h = Ok out"
    using allRows_Ok[of ws workerCells] c(1) by (auto simp: PrintWorkersTable_def)
  show "\<exists>out. PrintWorkersTableCompact ws n h = Ok out"
    using allRows_Ok[of ws workerCellsCompact] c(2) by (auto simp: PrintWorkersTableCompact_def)
qed

text \<open>
  The command that lists the workers shows every one of them as healthy: the circuit's state is not
  in the coordinator's answer, and no state counts as a closed circuit.
\<close>

theorem listed_as_healthy: "WorkerStatus (row_CircuitState (printedWorker w)) = Styled Success [Text ''healthy'']"
  by (simp add: WorkerStatus_def printedWorker_def)

text \<open>
  The hit rate that \<^verbatim>\<open>cache stats\<close> prints is a hundred percent as soon as there was a hit: the
  command passes no count of misses.
\<close>

theorem hit_rate_always_full:
  assumes "cst_TotalMiss s = 0" "0 < cst_TotalHits s" "is_int64 (cst_TotalHits s)"
  shows "\<exists>rows. PrintCacheStats s = [Line [Styled Bold [Text ''Cache Statistics'']], Underline 16, Table [] rows] \<and>
    [word ''Hit Rate:'', Styled Success [Fixed 1 (Fin 100), Text ''%'']] \<in> set rows"
  using assms by (simp add: PrintCacheStats_def optionalRow_def wrap64_id percentage_def byRate_def Let_def)

text \<open>More than five failed files are not listed at all, only counted.\<close>

lemma many_failures_unlisted:
  "5 < length (bst_TasksFailed stats) \<Longrightarrow> Bullet f \<notin> set (PrintBuildSummary stats)"
  by (auto simp: PrintBuildSummary_def)

text \<open>Eighty percent counts as good, though the comment asks for more.\<close>

lemma eighty_is_green: "Percent (Fin 80) = Styled Success [Fixed 1 (Fin 80), Text ''%'']"
  by (simp add: Percent_def byRate_def)

end
