(* ===== verification/Dashboard.thy ===== *)
theory Dashboard
  imports Server_Stats
begin

text \<open>
  The dashboard, \<^verbatim>\<open>internal/observability/dashboard\<close>: the hub that passes events to websocket clients
  (\<^verbatim>\<open>websocket.go\<close>), the handlers of the HTTP interface (\<^verbatim>\<open>api.go\<close>) and the server around them
  (\<^verbatim>\<open>server.go\<close>), with the adapter of \<^verbatim>\<open>cmd/hg-coord/main.go\<close> through which the coordinator reports.

  The loop of the hub, the callers that publish, and the reader and the writer of every client are
  goroutines that share channels. Their interleavings are runs of the step relation \<open>dstep\<close>, whose
  steps are the channel operations. The bytes of a message are of a type \<open>'d\<close> that the JSON library
  maps messages to. Sockets, deadlines, logging and the HTTP server itself are left out; a read or a
  write that fails is a step that may always happen.
\<close>

subsection \<open>Messages\<close>

text \<open>A decoded message may be of any type.\<close>

datatype MessageType =
    MessageTypeStats | MessageTypeWorkerAdded | MessageTypeWorkerRemove | MessageTypeTaskStarted
  | MessageTypeTaskComplete | MessageTypePing | MessageTypePong | MessageTypeOther string

record TaskInfo =
  ti_ID :: string
  ti_BuildType :: string
  ti_Status :: string
  ti_WorkerID :: string
  ti_StartedAt :: int
  ti_CompletedAt :: int
  ti_DurationMs :: int
  ti_ExitCode :: int
  ti_FromCache :: bool
  ti_ErrorMessage :: string

text \<open>What the code puts into the field \<^verbatim>\<open>Data\<close>.\<close>

datatype payload =
    NoData
  | StatsPayload DashboardStats
  | WorkerPayload DashboardWorkerInfo
  | WorkerIDPayload string
  | TaskPayload TaskInfo

record Message =
  msg_Type :: MessageType
  msg_Timestamp :: int
  msg_Data :: payload

text \<open>
  What the code looks at of a decoded message: its type and, if the data is an object, the strings,
  the numbers (converted to integers) and the booleans among its fields.
\<close>

datatype jvalue = JString string | JNumber int | JBool bool

record decodedMessage =
  dm_Type :: MessageType
  dm_Data :: "(string \<times> jvalue) list option"

text \<open>The fields of a task by their tags; some are omitted when they have the zero value.\<close>

definition taskFields :: "TaskInfo \<Rightarrow> (string \<times> jvalue) list" where
  "taskFields t =
     [(''id'', JString (ti_ID t)), (''build_type'', JString (ti_BuildType t)), (''status'', JString (ti_Status t)),
      (''worker_id'', JString (ti_WorkerID t)), (''started_at'', JNumber (ti_StartedAt t))] @
     (if ti_CompletedAt t = 0 then [] else [(''completed_at'', JNumber (ti_CompletedAt t))]) @
     (if ti_DurationMs t = 0 then [] else [(''duration_ms'', JNumber (ti_DurationMs t))]) @
     (if ti_ExitCode t = 0 then [] else [(''exit_code'', JNumber (ti_ExitCode t))]) @
     [(''from_cache'', JBool (ti_FromCache t))] @
     (if ti_ErrorMessage t = '''' then [] else [(''error_message'', JString (ti_ErrorMessage t))])"

text \<open>
  The JSON library. Numbers come back as floating point numbers and strings as valid UTF-8, so that
  it gives a task back if its numbers are among the integers a \<^verbatim>\<open>float64\<close> holds exactly and
  its strings are ASCII.
\<close>

record 'd message_codec =
  mc_Marshal :: "Message \<Rightarrow> string + 'd"
  mc_Unmarshal :: "'d \<Rightarrow> decodedMessage option"

definition exactNumber :: "int \<Rightarrow> bool" where
  "exactNumber n \<longleftrightarrow> \<bar>n\<bar> \<le> 2 ^ 53"

definition plainString :: "string \<Rightarrow> bool" where
  "plainString s \<longleftrightarrow> (\<forall>c \<in> set s. (of_char c :: nat) < 128)"

definition exactTask :: "TaskInfo \<Rightarrow> bool" where
  "exactTask t \<longleftrightarrow>
     list_all plainString [ti_ID t, ti_BuildType t, ti_Status t, ti_WorkerID t, ti_ErrorMessage t] \<and>
     list_all exactNumber [ti_StartedAt t, ti_CompletedAt t, ti_DurationMs t, ti_ExitCode t]"

definition codec_ok :: "'d message_codec \<Rightarrow> bool" where
  "codec_ok J \<longleftrightarrow>
     (\<forall>m t. msg_Data m = TaskPayload t \<longrightarrow> exactTask t \<longrightarrow>
        (\<exists>d dm fs. mc_Marshal J m = Inr d \<and> mc_Unmarshal J d = Some dm \<and> dm_Type dm = msg_Type m \<and>
           dm_Data dm = Some fs \<and> map_of fs = map_of (taskFields t)))"

subsection \<open>The hub\<close>

record 'd chan =
  ch_buf :: "'d list"
  ch_closed :: bool

text \<open>
  Clients are numbered; \<open>hub_sends\<close> holds the channel \<^verbatim>\<open>send\<close> of every client there ever was, and
  \<open>hub_done\<close> says that the channel \<^verbatim>\<open>done\<close> is closed.
\<close>

record 'd Hub =
  hub_clients :: "nat list"
  hub_sends :: "nat \<Rightarrow> 'd chan option"
  hub_broadcast :: "'d list"
  hub_recentEvents :: "'d list"
  hub_maxEvents :: nat
  hub_done :: bool

definition broadcastCapacity :: nat where
  "broadcastCapacity = 256"

definition sendCapacity :: nat where
  "sendCapacity = 256"

definition NewHub :: "'d Hub" where
  "NewHub = \<lparr>hub_clients = [], hub_sends = (\<lambda>_. None), hub_broadcast = [], hub_recentEvents = [],
     hub_maxEvents = 100, hub_done = False\<rparr>"

text \<open>
  A send with a default case: it panics on a closed channel and otherwise says whether the
  channel took the value. Closing a closed channel panics.
\<close>

definition trySend :: "'d \<Rightarrow> 'd chan \<Rightarrow> (string, 'd chan \<times> bool) outcome" where
  "trySend d c =
     (if ch_closed c then Panic
      else if length (ch_buf c) < sendCapacity then Ok (c\<lparr>ch_buf := ch_buf c @ [d]\<rparr>, True)
      else Ok (c, False))"

definition closeChan :: "'d chan \<Rightarrow> (string, 'd chan) outcome" where
  "closeChan c = (if ch_closed c then Panic else Ok (c\<lparr>ch_closed := True\<rparr>))"

definition setSend :: "nat \<Rightarrow> 'd chan \<Rightarrow> 'd Hub \<Rightarrow> 'd Hub" where
  "setSend i c h = h\<lparr>hub_sends := (hub_sends h)(i \<mapsto> c)\<rparr>"

definition sendTo :: "nat \<Rightarrow> 'd \<Rightarrow> 'd Hub \<Rightarrow> (string, 'd Hub \<times> bool) outcome" where
  "sendTo i d h =
     (case hub_sends h i of
        None \<Rightarrow> Panic
      | Some c \<Rightarrow>
          outcome_bind (trySend d c) (\<lambda>(c', taken). Ok (setSend i c' h, taken)))"

definition dropClient :: "nat \<Rightarrow> 'd Hub \<Rightarrow> (string, 'd Hub) outcome" where
  "dropClient i h =
     (case hub_sends h i of
        None \<Rightarrow> Panic
      | Some c \<Rightarrow>
          outcome_bind (closeChan c) (\<lambda>c'.
            Ok ((setSend i c' h)\<lparr>hub_clients := remove1 i (hub_clients h)\<rparr>)))"

text \<open>
  The loop \<^verbatim>\<open>Run\<close>: it waits in its select, is at work in one of the cases with the sends that
  are left, or has returned. The map of the clients is ranged over in any order \<open>ord\<close>.
\<close>

datatype 'd work = Waiting | Replaying nat "'d list" | Delivering 'd "nat list" | Stopped

definition onRegister :: "nat \<Rightarrow> 'd Hub \<Rightarrow> 'd Hub \<times> 'd work" where
  "onRegister i h = (h\<lparr>hub_clients := List.insert i (hub_clients h)\<rparr>, Replaying i (hub_recentEvents h))"

definition onUnregister :: "nat \<Rightarrow> 'd Hub \<Rightarrow> (string, 'd Hub) outcome" where
  "onUnregister i h = (if i \<in> set (hub_clients h) then dropClient i h else Ok h)"

definition onBroadcast :: "nat list \<Rightarrow> 'd Hub \<Rightarrow> 'd Hub \<times> 'd work" where
  "onBroadcast ord h =
     (case hub_broadcast h of
        [] \<Rightarrow> (h, Waiting)
      | d # ds \<Rightarrow> (h\<lparr>hub_broadcast := ds\<rparr>, Delivering d ord))"

definition deliver :: "'d \<Rightarrow> nat \<Rightarrow> 'd Hub \<Rightarrow> (string, 'd Hub) outcome" where
  "deliver d i h = outcome_bind (sendTo i d h) (\<lambda>(h', taken). if taken then Ok h' else dropClient i h')"

fun resume :: "'d work \<Rightarrow> 'd Hub \<Rightarrow> (string, 'd Hub \<times> 'd work) outcome" where
  "resume Waiting h = Ok (h, Waiting)"
| "resume Stopped h = Ok (h, Stopped)"
| "resume (Replaying i []) h = Ok (h, Waiting)"
| "resume (Replaying i (d # ds)) h = outcome_bind (sendTo i d h) (\<lambda>(h', _). Ok (h', Replaying i ds))"
| "resume (Delivering d []) h = Ok (h, Waiting)"
| "resume (Delivering d (i # ord)) h = outcome_bind (deliver d i h) (\<lambda>h'. Ok (h', Delivering d ord))"

definition Hub_Stop :: "'d Hub \<Rightarrow> (string, 'd Hub) outcome" where
  "Hub_Stop h = (if hub_done h then Panic else Ok (h\<lparr>hub_done := True\<rparr>))"

definition ClientCount :: "'d Hub \<Rightarrow> nat" where
  "ClientCount h = length (hub_clients h)"

definition GetRecentEvents :: "'d Hub \<Rightarrow> 'd list" where
  "GetRecentEvents h = hub_recentEvents h"

subsection \<open>Publishing\<close>

definition isTaskEvent :: "MessageType \<Rightarrow> bool" where
  "isTaskEvent t \<longleftrightarrow> t = MessageTypeTaskStarted \<or> t = MessageTypeTaskComplete"

definition keepLast :: "nat \<Rightarrow> 'a list \<Rightarrow> 'a list" where
  "keepLast n xs = (if length xs > n then drop (length xs - n) xs else xs)"

text \<open>The two effects of \<open>Broadcast\<close>, between which other goroutines may run.\<close>

definition remember :: "MessageType \<Rightarrow> 'd \<Rightarrow> 'd Hub \<Rightarrow> 'd Hub" where
  "remember t d h =
     (if isTaskEvent t then h\<lparr>hub_recentEvents := keepLast (hub_maxEvents h) (hub_recentEvents h @ [d])\<rparr> else h)"

definition Hub_enqueue :: "'d \<Rightarrow> 'd Hub \<Rightarrow> 'd Hub" where
  "Hub_enqueue d h =
     (if length (hub_broadcast h) < broadcastCapacity then h\<lparr>hub_broadcast := hub_broadcast h @ [d]\<rparr> else h)"

definition Broadcast :: "'d message_codec \<Rightarrow> int \<Rightarrow> Message \<Rightarrow> 'd Hub \<Rightarrow> 'd Hub" where
  "Broadcast J now msg h =
     (case mc_Marshal J (msg\<lparr>msg_Timestamp := Unix now\<rparr>) of
        Inl _ \<Rightarrow> h
      | Inr d \<Rightarrow> Hub_enqueue d (remember (msg_Type msg) d h))"

definition newMessage :: "MessageType \<Rightarrow> payload \<Rightarrow> Message" where
  "newMessage t p = \<lparr>msg_Type = t, msg_Timestamp = 0, msg_Data = p\<rparr>"

definition BroadcastStats :: "'d message_codec \<Rightarrow> int \<Rightarrow> DashboardStats \<Rightarrow> 'd Hub \<Rightarrow> 'd Hub" where
  "BroadcastStats J now stats = Broadcast J now (newMessage MessageTypeStats (StatsPayload stats))"

definition BroadcastWorkerAdded :: "'d message_codec \<Rightarrow> int \<Rightarrow> DashboardWorkerInfo \<Rightarrow> 'd Hub \<Rightarrow> 'd Hub" where
  "BroadcastWorkerAdded J now worker = Broadcast J now (newMessage MessageTypeWorkerAdded (WorkerPayload worker))"

definition BroadcastWorkerRemoved :: "'d message_codec \<Rightarrow> int \<Rightarrow> string \<Rightarrow> 'd Hub \<Rightarrow> 'd Hub" where
  "BroadcastWorkerRemoved J now workerID =
     Broadcast J now (newMessage MessageTypeWorkerRemove (WorkerIDPayload workerID))"

definition BroadcastTaskStarted :: "'d message_codec \<Rightarrow> int \<Rightarrow> TaskInfo \<Rightarrow> 'd Hub \<Rightarrow> 'd Hub" where
  "BroadcastTaskStarted J now task = Broadcast J now (newMessage MessageTypeTaskStarted (TaskPayload task))"

definition BroadcastTaskCompleted :: "'d message_codec \<Rightarrow> int \<Rightarrow> TaskInfo \<Rightarrow> 'd Hub \<Rightarrow> 'd Hub" where
  "BroadcastTaskCompleted J now task = Broadcast J now (newMessage MessageTypeTaskComplete (TaskPayload task))"

subsection \<open>Tasks read back\<close>

definition stringField :: "(string \<times> jvalue) list \<Rightarrow> string \<Rightarrow> string" where
  "stringField fs k = (case map_of fs k of Some (JString s) \<Rightarrow> s | _ \<Rightarrow> '''')"

text \<open>A field that is missing or of another type leaves the zero value.\<close>

definition numberField :: "(string \<times> jvalue) list \<Rightarrow> string \<Rightarrow> int" where
  "numberField fs k = (case map_of fs k of Some (JNumber n) \<Rightarrow> n | _ \<Rightarrow> 0)"

definition boolField :: "(string \<times> jvalue) list \<Rightarrow> string \<Rightarrow> bool" where
  "boolField fs k = (case map_of fs k of Some (JBool b) \<Rightarrow> b | _ \<Rightarrow> False)"

definition taskOf :: "(string \<times> jvalue) list \<Rightarrow> TaskInfo" where
  "taskOf fs =
     \<lparr>ti_ID = stringField fs ''id'', ti_BuildType = stringField fs ''build_type'', ti_Status = stringField fs ''status'',
      ti_WorkerID = stringField fs ''worker_id'', ti_StartedAt = numberField fs ''started_at'',
      ti_CompletedAt = numberField fs ''completed_at'', ti_DurationMs = numberField fs ''duration_ms'',
      ti_ExitCode = numberField fs ''exit_code'', ti_FromCache = boolField fs ''from_cache'',
      ti_ErrorMessage = stringField fs ''error_message''\<rparr>"

definition taskOfEvent :: "'d message_codec \<Rightarrow> 'd \<Rightarrow> TaskInfo list" where
  "taskOfEvent J d =
     (case mc_Unmarshal J d of
        None \<Rightarrow> []
      | Some m \<Rightarrow>
          if \<not> isTaskEvent (dm_Type m) then []
          else (case dm_Data m of Some fs \<Rightarrow> [taskOf fs] | None \<Rightarrow> []))"

definition GetTasks :: "'d message_codec \<Rightarrow> 'd Hub \<Rightarrow> TaskInfo list" where
  "GetTasks J h = concat (map (taskOfEvent J) (hub_recentEvents h))"

subsection \<open>The server\<close>

record DashboardConfig =
  dc_Port :: int
  dc_ReadTimeout :: int
  dc_WriteTimeout :: int
  dc_ShutdownTimeout :: int

definition DefaultConfig_dashboard :: DashboardConfig where
  "DefaultConfig_dashboard = \<lparr>dc_Port = 8080, dc_ReadTimeout = 15 * Second, dc_WriteTimeout = 15 * Second,
     dc_ShutdownTimeout = 10 * Second\<rparr>"

text \<open>The provider may be nil; it reads the coordinator's state.\<close>

record DashboardProvider =
  sp_GetStats :: DashboardStats
  sp_GetWorkers :: "DashboardWorkerInfo list"

record 'd DashboardServer =
  dsrv_config :: DashboardConfig
  dsrv_hub :: "'d Hub"
  dsrv_provider :: "DashboardProvider option"

definition New_dashboard :: "DashboardConfig \<Rightarrow> DashboardProvider option \<Rightarrow> 'd DashboardServer" where
  "New_dashboard cfg provider = \<lparr>dsrv_config = cfg, dsrv_hub = NewHub, dsrv_provider = provider\<rparr>"

text \<open>
  The routes of the multiplexer: a path that is registered, and the static files for any other.
  The endpoints for health, metrics and the log level and the files are answered without the hub.
\<close>

datatype route = RouteHealth | RouteMetrics | RouteLogLevel | RouteStats | RouteWorkers | RouteEvents
  | RouteTasks | RouteWebSocket | RouteAssets

definition routeOf :: "string \<Rightarrow> route" where
  "routeOf path =
     (if path = ''/health'' then RouteHealth
      else if path = ''/metrics'' then RouteMetrics
      else if path = ''/log-level'' then RouteLogLevel
      else if path = ''/api/v1/stats'' then RouteStats
      else if path = ''/api/v1/workers'' then RouteWorkers
      else if path = ''/api/v1/events'' then RouteEvents
      else if path = ''/api/v1/tasks'' then RouteTasks
      else if path = ''/ws'' then RouteWebSocket
      else RouteAssets)"

datatype 'd api_reply =
    MethodNotAllowed
  | StatsReply DashboardStats
  | WorkersReply "DashboardWorkerInfo list" nat int
  | EventsReply "'d list" nat int
  | TasksReply "TaskInfo list" nat int

definition emptyStats :: "int \<Rightarrow> DashboardStats" where
  "emptyStats now =
     \<lparr>ds_TotalTasks = 0, ds_SuccessTasks = 0, ds_FailedTasks = 0, ds_ActiveTasks = 0, ds_QueuedTasks = 0,
      ds_CacheHits = 0, ds_CacheMisses = 0, ds_CacheHitRate = 0, ds_FlutterBuilds = 0, ds_FlutterCacheHits = 0,
      ds_FlutterCacheMisses = 0, ds_FlutterCacheHitRate = 0, ds_UnityBuilds = 0, ds_UnityCacheHits = 0,
      ds_UnityCacheMisses = 0, ds_UnityCacheHitRate = 0, ds_TotalWorkers = 0, ds_HealthyWorkers = 0,
      ds_UptimeSeconds = 0, ds_Timestamp = Unix now\<rparr>"

definition handleStats :: "int \<Rightarrow> string \<Rightarrow> 'd DashboardServer \<Rightarrow> 'd api_reply" where
  "handleStats now meth s =
     (if meth \<noteq> ''GET'' then MethodNotAllowed
      else (case dsrv_provider s of Some p \<Rightarrow> StatsReply (sp_GetStats p) | None \<Rightarrow> StatsReply (emptyStats now)))"

definition handleWorkers :: "int \<Rightarrow> string \<Rightarrow> 'd DashboardServer \<Rightarrow> 'd api_reply" where
  "handleWorkers now meth s =
     (if meth \<noteq> ''GET'' then MethodNotAllowed
      else (let workers = (case dsrv_provider s of Some p \<Rightarrow> sp_GetWorkers p | None \<Rightarrow> [])
            in WorkersReply workers (length workers) (Unix now)))"

definition handleEvents :: "int \<Rightarrow> string \<Rightarrow> 'd DashboardServer \<Rightarrow> 'd api_reply" where
  "handleEvents now meth s =
     (if meth \<noteq> ''GET'' then MethodNotAllowed
      else (let events = GetRecentEvents (dsrv_hub s) in EventsReply events (length events) (Unix now)))"

definition handleTasks :: "'d message_codec \<Rightarrow> int \<Rightarrow> string \<Rightarrow> 'd DashboardServer \<Rightarrow> 'd api_reply" where
  "handleTasks J now meth s =
     (if meth \<noteq> ''GET'' then MethodNotAllowed
      else (let tasks = GetTasks J (dsrv_hub s) in TasksReply tasks (length tasks) (Unix now)))"

text \<open>
  The tick of \<open>broadcastLoop\<close>, the callbacks of \<open>CreateEventNotifier\<close> and the adapter that passes
  the coordinator's events to them. The callbacks have no argument for the field \<^verbatim>\<open>FromCache\<close>.
\<close>

definition broadcastTick :: "'d message_codec \<Rightarrow> int \<Rightarrow> 'd DashboardServer \<Rightarrow> 'd DashboardServer" where
  "broadcastTick J now s =
     (case dsrv_provider s of
        Some p \<Rightarrow> s\<lparr>dsrv_hub := BroadcastStats J now (sp_GetStats p) (dsrv_hub s)\<rparr>
      | None \<Rightarrow> s)"

definition onStart ::
    "'d message_codec \<Rightarrow> int \<Rightarrow> string \<Rightarrow> string \<Rightarrow> string \<Rightarrow> string \<Rightarrow> int \<Rightarrow> 'd Hub \<Rightarrow> 'd Hub" where
  "onStart J now tid buildType status workerID startedAt =
     BroadcastTaskStarted J now
       \<lparr>ti_ID = tid, ti_BuildType = buildType, ti_Status = status, ti_WorkerID = workerID, ti_StartedAt = startedAt,
        ti_CompletedAt = 0, ti_DurationMs = 0, ti_ExitCode = 0, ti_FromCache = False, ti_ErrorMessage = ''''\<rparr>"

definition onComplete ::
    "'d message_codec \<Rightarrow> int \<Rightarrow> string \<Rightarrow> string \<Rightarrow> string \<Rightarrow> string \<Rightarrow> int \<Rightarrow> int \<Rightarrow> int \<Rightarrow> int \<Rightarrow> string \<Rightarrow>
       'd Hub \<Rightarrow> 'd Hub" where
  "onComplete J now tid buildType status workerID startedAt completedAt durationMs exitCode errorMsg =
     BroadcastTaskCompleted J now
       \<lparr>ti_ID = tid, ti_BuildType = buildType, ti_Status = status, ti_WorkerID = workerID, ti_StartedAt = startedAt,
        ti_CompletedAt = completedAt, ti_DurationMs = durationMs, ti_ExitCode = exitCode, ti_FromCache = False,
        ti_ErrorMessage = errorMsg\<rparr>"

fun notifyDashboard :: "'d message_codec \<Rightarrow> int \<Rightarrow> notification \<Rightarrow> 'd Hub \<Rightarrow> 'd Hub" where
  "notifyDashboard J now (TaskStarted e) h =
     onStart J now (ev_ID e) (ev_BuildType e) (ev_Status e) (ev_WorkerID e) (ev_StartedAt e) h"
| "notifyDashboard J now (TaskCompleted e) h =
     onComplete J now (ev_ID e) (ev_BuildType e) (ev_Status e) (ev_WorkerID e) (ev_StartedAt e)
       (ev_CompletedAt e) (ev_DurationMs e) (ev_ExitCode e) (ev_ErrorMessage e) h"

subsection \<open>The goroutines\<close>

text \<open>
  The reader of a client: \<open>handleWebSocket\<close> waits for the hub to take the registration and then
  starts it; it leaves when a read fails or the channel is full, and waits for the hub to take it
  off. A message that is not a ping is ignored.
\<close>

datatype reader = NotConnected | Registering | Reading | Leaving | Gone

definition emptyChan :: "'d chan" where
  "emptyChan = \<lparr>ch_buf = [], ch_closed = False\<rparr>"

definition handleWebSocket :: "nat \<Rightarrow> 'd Hub \<Rightarrow> 'd Hub" where
  "handleWebSocket i h = setSend i emptyChan h"

definition readPump_message ::
    "'d message_codec \<Rightarrow> int \<Rightarrow> 'd \<Rightarrow> nat \<Rightarrow> 'd Hub \<Rightarrow> (string, 'd Hub \<times> bool) outcome" where
  "readPump_message J now raw i h =
     (case mc_Unmarshal J raw of
        None \<Rightarrow> Ok (h, True)
      | Some m \<Rightarrow>
          if dm_Type m = MessageTypePing
          then (case mc_Marshal J \<lparr>msg_Type = MessageTypePong, msg_Timestamp = Unix now, msg_Data = NoData\<rparr> of
                  Inl _ \<Rightarrow> Ok (h, True)
                | Inr d \<Rightarrow> sendTo i d h)
          else Ok (h, True))"

text \<open>The writer takes one message from the channel, whether it opens a frame or joins one.\<close>

definition writePump_receive :: "nat \<Rightarrow> 'd Hub \<Rightarrow> 'd Hub" where
  "writePump_receive i h =
     (case hub_sends h i of
        None \<Rightarrow> h
      | Some c \<Rightarrow> setSend i (c\<lparr>ch_buf := tl (ch_buf c)\<rparr>) h)"

text \<open>
  \<open>w_callers\<close> holds the messages of the calls of \<open>Broadcast\<close> that have not offered them yet. A panic
  in any of the goroutines ends the process, once its deferred calls are done.
\<close>

record 'd World =
  w_hub :: "'d Hub"
  w_work :: "'d work"
  w_reader :: "nat \<Rightarrow> reader"
  w_callers :: "'d list"
  w_panicked :: bool

definition initialWorld :: "'d World" where
  "initialWorld = \<lparr>w_hub = NewHub, w_work = Waiting, w_reader = (\<lambda>_. NotConnected), w_callers = [], w_panicked = False\<rparr>"

definition commit :: "(string, 'd Hub \<times> 'd work) outcome \<Rightarrow> 'd World \<Rightarrow> 'd World" where
  "commit r w = (case r of Ok (h, k) \<Rightarrow> w\<lparr>w_hub := h, w_work := k\<rparr> | _ \<Rightarrow> w\<lparr>w_panicked := True\<rparr>)"

definition commitHub :: "(string, 'd Hub) outcome \<Rightarrow> 'd World \<Rightarrow> 'd World" where
  "commitHub r w = (case r of Ok h \<Rightarrow> w\<lparr>w_hub := h\<rparr> | _ \<Rightarrow> w\<lparr>w_panicked := True\<rparr>)"

definition setReader :: "nat \<Rightarrow> reader \<Rightarrow> 'd World \<Rightarrow> 'd World" where
  "setReader i r w = w\<lparr>w_reader := (w_reader w)(i := r)\<rparr>"

definition commitReader :: "nat \<Rightarrow> (string, 'd Hub \<times> bool) outcome \<Rightarrow> 'd World \<Rightarrow> 'd World" where
  "commitReader i r w =
     (case r of
        Ok (h, goes_on) \<Rightarrow> (if goes_on then w\<lparr>w_hub := h\<rparr> else setReader i Leaving (w\<lparr>w_hub := h\<rparr>))
      | _ \<Rightarrow> w\<lparr>w_panicked := True\<rparr>)"

definition isReplaying :: "'d work \<Rightarrow> bool" where
  "isReplaying k \<longleftrightarrow> (case k of Replaying _ _ \<Rightarrow> True | _ \<Rightarrow> False)"

text \<open>
  While the hub replays events it holds the read lock of the recent events, which keeps
  publishers of task events waiting.
\<close>

inductive dstep :: "'d message_codec \<Rightarrow> 'd World \<Rightarrow> 'd World \<Rightarrow> bool" for J where
  connect:
    "\<not> w_panicked w \<Longrightarrow> w_reader w i = NotConnected \<Longrightarrow>
       dstep J w (setReader i Registering (w\<lparr>w_hub := handleWebSocket i (w_hub w)\<rparr>))"
| register:
    "\<not> w_panicked w \<Longrightarrow> w_work w = Waiting \<Longrightarrow> w_reader w i = Registering \<Longrightarrow>
       dstep J w (setReader i Reading (commit (Ok (onRegister i (w_hub w))) w))"
| unregister:
    "\<not> w_panicked w \<Longrightarrow> w_work w = Waiting \<Longrightarrow> w_reader w i = Leaving \<Longrightarrow>
       dstep J w (setReader i Gone (commitHub (onUnregister i (w_hub w)) w))"
| broadcast:
    "\<not> w_panicked w \<Longrightarrow> w_work w = Waiting \<Longrightarrow> hub_broadcast (w_hub w) \<noteq> [] \<Longrightarrow> distinct ord \<Longrightarrow>
       set ord = set (hub_clients (w_hub w)) \<Longrightarrow> dstep J w (commit (Ok (onBroadcast ord (w_hub w))) w)"
| work:
    "\<not> w_panicked w \<Longrightarrow> dstep J w (commit (resume (w_work w) (w_hub w)) w)"
| quit:
    "\<not> w_panicked w \<Longrightarrow> w_work w = Waiting \<Longrightarrow> hub_done (w_hub w) \<Longrightarrow> dstep J w (w\<lparr>w_work := Stopped\<rparr>)"
| publish:
    "\<not> w_panicked w \<Longrightarrow> (isTaskEvent (msg_Type msg) \<longrightarrow> \<not> isReplaying (w_work w)) \<Longrightarrow>
     mc_Marshal J (msg\<lparr>msg_Timestamp := Unix now\<rparr>) = Inr d \<Longrightarrow>
       dstep J w (w\<lparr>w_hub := remember (msg_Type msg) d (w_hub w), w_callers := d # w_callers w\<rparr>)"
| offer:
    "\<not> w_panicked w \<Longrightarrow> d \<in> set (w_callers w) \<Longrightarrow>
       dstep J w (w\<lparr>w_hub := Hub_enqueue d (w_hub w), w_callers := remove1 d (w_callers w)\<rparr>)"
| message:
    "\<not> w_panicked w \<Longrightarrow> w_reader w i = Reading \<Longrightarrow>
       dstep J w (commitReader i (readPump_message J now raw i (w_hub w)) w)"
| read_error:
    "\<not> w_panicked w \<Longrightarrow> w_reader w i = Reading \<Longrightarrow> dstep J w (setReader i Leaving w)"
| writing:
    "\<not> w_panicked w \<Longrightarrow> w_reader w i \<notin> {NotConnected, Registering} \<Longrightarrow>
       dstep J w (w\<lparr>w_hub := writePump_receive i (w_hub w)\<rparr>)"
| stop:
    "\<not> w_panicked w \<Longrightarrow> dstep J w (commitHub (Hub_Stop (w_hub w)) w)"

definition dreachable :: "'d message_codec \<Rightarrow> 'd World \<Rightarrow> bool" where
  "dreachable J w \<longleftrightarrow> (dstep J)\<^sup>*\<^sup>* initialWorld w"

subsection \<open>The invariant of the hub\<close>

definition openChannel :: "'d Hub \<Rightarrow> nat \<Rightarrow> bool" where
  "openChannel h i \<longleftrightarrow> (\<exists>c. hub_sends h i = Some c \<and> \<not> ch_closed c)"

definition channels_bounded :: "'d Hub \<Rightarrow> bool" where
  "channels_bounded h \<longleftrightarrow> (\<forall>i c. hub_sends h i = Some c \<longrightarrow> length (ch_buf c) \<le> sendCapacity)"

fun work_ok :: "'d work \<Rightarrow> nat set \<Rightarrow> bool" where
  "work_ok (Replaying i ds) I \<longleftrightarrow> i \<in> I"
| "work_ok (Delivering d ord) I \<longleftrightarrow> distinct ord \<and> set ord \<subseteq> I"
| "work_ok _ I \<longleftrightarrow> True"

definition hub_ok :: "'d Hub \<Rightarrow> bool" where
  "hub_ok h \<longleftrightarrow> distinct (hub_clients h) \<and> (\<forall>i \<in> set (hub_clients h). openChannel h i) \<and> channels_bounded h \<and>
     length (hub_broadcast h) \<le> broadcastCapacity \<and> hub_maxEvents h = 100 \<and> length (hub_recentEvents h) \<le> 100"

definition readers_ok :: "(nat \<Rightarrow> reader) \<Rightarrow> 'd Hub \<Rightarrow> bool" where
  "readers_ok R h \<longleftrightarrow>
     (\<forall>i. (R i = Registering \<longrightarrow> openChannel h i) \<and>
          (R i \<in> {NotConnected, Registering} \<longrightarrow> i \<notin> set (hub_clients h)))"

definition world_inv :: "'d World \<Rightarrow> bool" where
  "world_inv w \<longleftrightarrow>
     hub_ok (w_hub w) \<and> work_ok (w_work w) (set (hub_clients (w_hub w))) \<and> readers_ok (w_reader w) (w_hub w)"

lemma keepLast_length: "length (keepLast n xs) = min n (length xs)"
  by (simp add: keepLast_def)

lemma setSend_simps [simp]:
  "hub_clients (setSend i c h) = hub_clients h" "hub_broadcast (setSend i c h) = hub_broadcast h"
  "hub_recentEvents (setSend i c h) = hub_recentEvents h" "hub_maxEvents (setSend i c h) = hub_maxEvents h"
  "hub_sends (setSend i c h) = (hub_sends h)(i \<mapsto> c)" "hub_done (setSend i c h) = hub_done h"
  by (simp_all add: setSend_def)

text \<open>Sending to and dropping a client with an open channel.\<close>

lemma openChannel_setSend [simp]:
  "openChannel (setSend i c h) j \<longleftrightarrow> (if j = i then \<not> ch_closed c else openChannel h j)"
  by (simp add: openChannel_def)

lemma openChannel_clients [simp]: "openChannel (h\<lparr>hub_clients := cs\<rparr>) j = openChannel h j"
  by (simp add: openChannel_def)

lemma channels_bounded_setSend [intro]:
  "channels_bounded h \<Longrightarrow> length (ch_buf c) \<le> sendCapacity \<Longrightarrow> channels_bounded (setSend i c h)"
  by (simp add: channels_bounded_def)

lemma channels_bounded_clients [simp]: "channels_bounded (h\<lparr>hub_clients := cs\<rparr>) = channels_bounded h"
  by (simp add: channels_bounded_def)

lemma sendTo_open:
  assumes "openChannel h i" "channels_bounded h"
  obtains c taken where "sendTo i d h = Ok (setSend i c h, taken)" "\<not> ch_closed c" "length (ch_buf c) \<le> sendCapacity"
proof -
  from assms obtain c where c: "hub_sends h i = Some c" "\<not> ch_closed c" "length (ch_buf c) \<le> sendCapacity"
    by (auto simp: openChannel_def channels_bounded_def)
  show thesis
  proof (cases "length (ch_buf c) < sendCapacity")
    case True
    then show thesis using c that[of "c\<lparr>ch_buf := ch_buf c @ [d]\<rparr>" True] by (simp add: sendTo_def trySend_def)
  next
    case False
    then show thesis using c that[of c False] by (simp add: sendTo_def trySend_def)
  qed
qed

lemma dropClient_open:
  assumes "openChannel h i" "channels_bounded h"
  obtains c where "length (ch_buf c) \<le> sendCapacity"
    "dropClient i h = Ok ((setSend i c h)\<lparr>hub_clients := remove1 i (hub_clients h)\<rparr>)"
proof -
  from assms obtain c where c: "hub_sends h i = Some c" "\<not> ch_closed c" "length (ch_buf c) \<le> sendCapacity"
    by (auto simp: openChannel_def channels_bounded_def)
  then show thesis using that[of "c\<lparr>ch_closed := True\<rparr>"] by (simp add: dropClient_def closeChan_def)
qed

lemma hub_okD:
  assumes "hub_ok h"
  shows "distinct (hub_clients h)" "channels_bounded h" "i \<in> set (hub_clients h) \<Longrightarrow> openChannel h i"
  using assms by (auto simp: hub_ok_def)

text \<open>Three changes of the hub that keep it in order.\<close>

lemma hub_ok_setSend:
  "hub_ok h \<Longrightarrow> \<not> ch_closed c \<or> i \<notin> set (hub_clients h) \<Longrightarrow> length (ch_buf c) \<le> sendCapacity \<Longrightarrow>
     hub_ok (setSend i c h)"
  by (auto simp: hub_ok_def)

lemma hub_ok_drop:
  "hub_ok h \<Longrightarrow> length (ch_buf c) \<le> sendCapacity \<Longrightarrow>
     hub_ok ((setSend i c h)\<lparr>hub_clients := remove1 i (hub_clients h)\<rparr>)"
  by (auto simp: hub_ok_def)

lemma hub_ok_insert:
  "hub_ok h \<Longrightarrow> openChannel h i \<Longrightarrow> hub_ok (h\<lparr>hub_clients := List.insert i (hub_clients h)\<rparr>)"
  by (auto simp: hub_ok_def)

text \<open>Delivering to a client keeps it open or takes it off.\<close>

lemma deliver_ok:
  assumes "hub_ok h" "i \<in> set (hub_clients h)"
  obtains h' where "deliver d i h = Ok h'" "hub_ok h'" "set (hub_clients h) - {i} \<subseteq> set (hub_clients h')"
    "set (hub_clients h') \<subseteq> set (hub_clients h)" "\<And>j. j \<noteq> i \<Longrightarrow> openChannel h' j = openChannel h j"
proof -
  note ok = hub_okD[OF assms(1)]
  obtain c taken where c: "sendTo i d h = Ok (setSend i c h, taken)" "\<not> ch_closed c" "length (ch_buf c) \<le> sendCapacity"
    using sendTo_open[OF ok(3)[OF assms(2)] ok(2)] by blast
  let ?h = "setSend i c h"
  have h: "hub_ok ?h" using assms(1) c by (simp add: hub_ok_setSend)
  show thesis
  proof (cases taken)
    case True
    then show thesis using c h by (intro that[of ?h]) (auto simp: deliver_def)
  next
    case False
    obtain c' where c': "length (ch_buf c') \<le> sendCapacity"
        "dropClient i ?h = Ok ((setSend i c' ?h)\<lparr>hub_clients := remove1 i (hub_clients ?h)\<rparr>)"
      using dropClient_open[OF hub_okD(3)[OF h] hub_okD(2)[OF h]] assms(2) by auto
    then show thesis using False c hub_ok_drop[OF h c'(1)] ok(1)
      by (intro that[of "(setSend i c' ?h)\<lparr>hub_clients := remove1 i (hub_clients ?h)\<rparr>"]) (auto simp: deliver_def)
  qed
qed

lemma readers_ok_mono:
  "readers_ok R h \<Longrightarrow> set (hub_clients h') \<subseteq> set (hub_clients h) \<Longrightarrow>
     (\<And>j. R j = Registering \<Longrightarrow> openChannel h j \<Longrightarrow> j \<notin> set (hub_clients h) \<Longrightarrow> openChannel h' j) \<Longrightarrow> readers_ok R h'"
  by (auto simp: readers_ok_def)

text \<open>The loop goes on with its case.\<close>

lemma resume_ok:
  assumes "hub_ok h" "work_ok k (set (hub_clients h))" "readers_ok R h"
  shows "\<exists>h' k'. resume k h = Ok (h', k') \<and> hub_ok h' \<and> work_ok k' (set (hub_clients h')) \<and> readers_ok R h'"
  using assms
proof (induction k h rule: resume.induct)
  case (4 i d ds h)
  then obtain c taken where c: "sendTo i d h = Ok (setSend i c h, taken)" "\<not> ch_closed c" "length (ch_buf c) \<le> sendCapacity"
    using sendTo_open[of h i d] by (auto simp: hub_ok_def)
  with 4 show ?case by (auto simp: hub_ok_setSend readers_ok_def)
next
  case (6 d i ord h)
  then have i: "i \<in> set (hub_clients h)" by simp
  obtain h' where h': "deliver d i h = Ok h'" "hub_ok h'" "set (hub_clients h) - {i} \<subseteq> set (hub_clients h')"
    "set (hub_clients h') \<subseteq> set (hub_clients h)" "\<And>j. j \<noteq> i \<Longrightarrow> openChannel h' j = openChannel h j"
    using deliver_ok[OF 6(1) i] by metis
  have "readers_ok R h'" by (rule readers_ok_mono[OF 6(3) h'(4)]) (use h'(5) i in metis)
  with 6 h' show ?case by auto
qed auto

lemma onUnregister_ok:
  assumes "hub_ok h" "readers_ok R h"
  shows "\<exists>h'. onUnregister i h = Ok h' \<and> hub_ok h' \<and> readers_ok R h' \<and> i \<notin> set (hub_clients h')"
proof (cases "i \<in> set (hub_clients h)")
  case True
  obtain c where c: "length (ch_buf c) \<le> sendCapacity"
      "dropClient i h = Ok ((setSend i c h)\<lparr>hub_clients := remove1 i (hub_clients h)\<rparr>)"
    using dropClient_open[OF hub_okD(3)[OF assms(1) True] hub_okD(2)[OF assms(1)]] .
  have "readers_ok R ((setSend i c h)\<lparr>hub_clients := remove1 i (hub_clients h)\<rparr>)"
    by (rule readers_ok_mono[OF assms(2)]) (use True hub_okD(1)[OF assms(1)] in \<open>auto simp: set_remove1_eq\<close>)
  then show ?thesis using True c hub_ok_drop[OF assms(1) c(1)] hub_okD(1)[OF assms(1)] by (simp add: onUnregister_def)
qed (use assms in \<open>simp add: onUnregister_def\<close>)

text \<open>The reader and the writer of a client change what its channel holds, and never close it.\<close>

lemma refill_inv:
  assumes "world_inv w" "hub_sends (w_hub w) i = Some c" "ch_closed c' = ch_closed c"
    "length (ch_buf c) \<le> sendCapacity \<Longrightarrow> length (ch_buf c') \<le> sendCapacity"
  shows "world_inv (w\<lparr>w_hub := setSend i c' (w_hub w)\<rparr>)"
proof -
  let ?h = "w_hub w"
  have o: "openChannel (setSend i c' ?h) j = openChannel ?h j" for j
    using assms(2,3) by (auto simp: openChannel_def)
  have b: "channels_bounded (setSend i c' ?h)"
    using assms by (auto simp: world_inv_def hub_ok_def channels_bounded_def)
  have "hub_ok (setSend i c' ?h)" using assms(1) b o by (simp add: world_inv_def hub_ok_def)
  moreover have "readers_ok (w_reader w) (setSend i c' ?h)"
    using assms(1) o by (auto simp: world_inv_def readers_ok_def)
  ultimately show ?thesis using assms(1) by (simp add: world_inv_def)
qed

lemma setReader_inv:
  "world_inv w \<Longrightarrow> w_reader w i \<notin> {NotConnected, Registering} \<Longrightarrow> r \<notin> {NotConnected, Registering} \<Longrightarrow>
     world_inv (setReader i r w)"
  by (auto simp: world_inv_def setReader_def readers_ok_def)

lemma message_inv:
  assumes "world_inv w" "w_reader w i = Reading"
  shows "world_inv (commitReader i (readPump_message J now raw i (w_hub w)) w)"
proof -
  have panic: "world_inv (w\<lparr>w_panicked := True\<rparr>)" using assms(1) by (simp add: world_inv_def)
  have send: "world_inv (commitReader i (sendTo i d (w_hub w)) w)" for d
  proof (cases "hub_sends (w_hub w) i")
    case None
    then show ?thesis using panic by (simp add: sendTo_def commitReader_def)
  next
    case (Some c)
    have l: "world_inv (setReader i Leaving (w\<lparr>w_hub := setSend i c (w_hub w)\<rparr>))"
      by (rule setReader_inv[OF refill_inv[OF assms(1) Some]]) (simp_all add: assms(2))
    have g: "length (ch_buf c) < sendCapacity \<Longrightarrow>
        world_inv (w\<lparr>w_hub := setSend i (c\<lparr>ch_buf := ch_buf c @ [d]\<rparr>) (w_hub w)\<rparr>)"
      by (rule refill_inv[OF assms(1) Some]) simp_all
    show ?thesis using Some panic l g by (simp add: sendTo_def trySend_def commitReader_def)
  qed
  show ?thesis using assms(1) send
    by (simp add: readPump_message_def commitReader_def split: option.split sum.split)
qed

lemma dstep_inv:
  assumes "dstep J w w'" "world_inv w"
  shows "world_inv w'"
  using assms
proof (induction rule: dstep.induct)
  case (connect w i)
  then show ?case
    by (auto simp: world_inv_def setReader_def handleWebSocket_def readers_ok_def emptyChan_def
        intro!: hub_ok_setSend)
next
  case (register w i)
  then show ?case
    using hub_ok_insert[of "w_hub w" i]
    by (auto simp: world_inv_def setReader_def commit_def onRegister_def readers_ok_def)
next
  case (unregister w i)
  then obtain h' where h': "onUnregister i (w_hub w) = Ok h'" "hub_ok h'" "readers_ok (w_reader w) h'"
      "i \<notin> set (hub_clients h')"
    using onUnregister_ok[of "w_hub w" "w_reader w" i] by (auto simp: world_inv_def)
  then show ?case using unregister
    by (auto simp: world_inv_def setReader_def commitHub_def readers_ok_def)
next
  case (broadcast w ord)
  then show ?case
    by (auto simp: world_inv_def commit_def onBroadcast_def hub_ok_def readers_ok_def openChannel_def
        channels_bounded_def split: list.split)
next
  case (work w)
  then obtain h' k' where "resume (w_work w) (w_hub w) = Ok (h', k')" "hub_ok h'" "work_ok k' (set (hub_clients h'))"
      "readers_ok (w_reader w) h'"
    using resume_ok[of "w_hub w" "w_work w" "w_reader w"] by (auto simp: world_inv_def)
  then show ?case by (simp add: world_inv_def commit_def)
next
  case (quit w)
  then show ?case by (simp add: world_inv_def)
next
  case (publish w msg now d)
  then show ?case
    by (auto simp: world_inv_def remember_def hub_ok_def readers_ok_def openChannel_def channels_bounded_def
        keepLast_length)
next
  case (offer w d)
  then show ?case
    by (auto simp: world_inv_def Hub_enqueue_def hub_ok_def readers_ok_def openChannel_def channels_bounded_def)
next
  case (message w i now raw)
  then show ?case by (simp add: message_inv)
next
  case (read_error w i)
  then show ?case by (auto simp: world_inv_def setReader_def readers_ok_def)
next
  case (writing w i)
  then show ?case
    by (cases "hub_sends (w_hub w) i") (auto simp: writePump_receive_def intro: refill_inv)
next
  case (stop w)
  then show ?case
    by (auto simp: world_inv_def commitHub_def Hub_Stop_def hub_ok_def readers_ok_def openChannel_def channels_bounded_def)
qed

lemma dreachable_inv: "dreachable J w \<Longrightarrow> world_inv w"
  unfolding dreachable_def
proof (induction rule: rtranclp_induct)
  case base
  show ?case
    by (simp add: world_inv_def initialWorld_def NewHub_def hub_ok_def channels_bounded_def readers_ok_def)
qed (rule dstep_inv)

lemma dreachable_step: "dreachable J w \<Longrightarrow> dstep J w w' \<Longrightarrow> dreachable J w'"
  by (auto simp: dreachable_def intro: rtranclp.rtrancl_into_rtrancl)

text \<open>
  C21. However the goroutines of the dashboard interleave, every client in the hub's map has an open
  channel with at most 256 messages, at most 256 messages wait to be sent out and at most 100 events
  are kept, and neither the next step of the hub's loop nor its taking off any client panics: the
  hub never sends on a channel it closed and never closes one twice.
\<close>

theorem hub_safe:
  assumes "dreachable J w"
  shows "distinct (hub_clients (w_hub w)) \<and>
    (\<forall>i \<in> set (hub_clients (w_hub w)).
       \<exists>c. hub_sends (w_hub w) i = Some c \<and> \<not> ch_closed c \<and> length (ch_buf c) \<le> 256) \<and>
    length (hub_broadcast (w_hub w)) \<le> 256 \<and> length (hub_recentEvents (w_hub w)) \<le> 100 \<and>
    (\<exists>h k. resume (w_work w) (w_hub w) = Ok (h, k)) \<and> (\<forall>i. \<exists>h. onUnregister i (w_hub w) = Ok h)"
proof -
  have inv: "world_inv w" by (rule dreachable_inv[OF assms])
  have ok: "hub_ok (w_hub w)" using inv by (simp add: world_inv_def)
  have "\<exists>c. hub_sends (w_hub w) i = Some c \<and> \<not> ch_closed c \<and> length (ch_buf c) \<le> 256"
    if "i \<in> set (hub_clients (w_hub w))" for i
    using that ok by (fastforce simp: hub_ok_def openChannel_def channels_bounded_def sendCapacity_def)
  moreover have "\<exists>h k. resume (w_work w) (w_hub w) = Ok (h, k)"
    using resume_ok[of "w_hub w" "w_work w" "w_reader w"] inv by (auto simp: world_inv_def)
  moreover have "\<exists>h. onUnregister i (w_hub w) = Ok h" for i
    using onUnregister_ok[of "w_hub w" "w_reader w" i] inv by (auto simp: world_inv_def)
  ultimately show ?thesis using ok by (simp add: hub_ok_def broadcastCapacity_def)
qed

lemma connected_reachable:
  "dreachable J (setReader i Reading (commit (Ok (onRegister i (handleWebSocket i NewHub)))
     (setReader i Registering (initialWorld\<lparr>w_hub := handleWebSocket i NewHub\<rparr>))))"
proof -
  have "dreachable J initialWorld" by (simp add: dreachable_def)
  then have "dreachable J (setReader i Registering (initialWorld\<lparr>w_hub := handleWebSocket i (w_hub initialWorld)\<rparr>))"
    by (rule dreachable_step) (rule dstep.connect, simp_all add: initialWorld_def)
  then have *: "dreachable J (setReader i Registering (initialWorld\<lparr>w_hub := handleWebSocket i NewHub\<rparr>))"
    by (simp add: initialWorld_def)
  have "dstep J (setReader i Registering (initialWorld\<lparr>w_hub := handleWebSocket i NewHub\<rparr>))
     (setReader i Reading (commit (Ok (onRegister i (handleWebSocket i NewHub)))
     (setReader i Registering (initialWorld\<lparr>w_hub := handleWebSocket i NewHub\<rparr>))))"
    using dstep.register[of "setReader i Registering (initialWorld\<lparr>w_hub := handleWebSocket i NewHub\<rparr>)" i J]
    by (simp add: initialWorld_def setReader_def)
  then show ?thesis by (rule dreachable_step[OF *])
qed

theorem hub_safe_witness:
  "\<exists>h k. resume (Replaying 7 []) (w_hub (setReader 7 Reading (commit (Ok (onRegister 7 (handleWebSocket 7 NewHub)))
     (setReader 7 Registering ((initialWorld :: string World)\<lparr>w_hub := handleWebSocket 7 NewHub\<rparr>))))) = Ok (h, k)"
  using hub_safe[OF connected_reachable[of "\<lparr>mc_Marshal = (\<lambda>_. Inr []), mc_Unmarshal = (\<lambda>_. None)\<rparr>" 7]]
  by (simp add: setReader_def commit_def onRegister_def NewHub_def)

subsection \<open>What the dashboard shows of the tasks\<close>

text \<open>The calls that publish.\<close>

datatype publication =
    Notify notification
  | Stats DashboardStats
  | WorkerAdded DashboardWorkerInfo
  | WorkerRemoved string

fun publishAt :: "'d message_codec \<Rightarrow> int \<times> publication \<Rightarrow> 'd Hub \<Rightarrow> 'd Hub" where
  "publishAt J (now, Notify n) h = notifyDashboard J now n h"
| "publishAt J (now, Stats s) h = BroadcastStats J now s h"
| "publishAt J (now, WorkerAdded w) h = BroadcastWorkerAdded J now w h"
| "publishAt J (now, WorkerRemoved i) h = BroadcastWorkerRemoved J now i h"

fun notifications :: "(int \<times> publication) list \<Rightarrow> notification list" where
  "notifications [] = []"
| "notifications ((now, Notify n) # ps) = n # notifications ps"
| "notifications (_ # ps) = notifications ps"

text \<open>The task that an event should be shown as. Every task is shown as not from the cache.\<close>

fun shownTask :: "notification \<Rightarrow> TaskInfo" where
  "shownTask (TaskStarted e) =
     \<lparr>ti_ID = ev_ID e, ti_BuildType = ev_BuildType e, ti_Status = ev_Status e, ti_WorkerID = ev_WorkerID e,
      ti_StartedAt = ev_StartedAt e, ti_CompletedAt = 0, ti_DurationMs = 0, ti_ExitCode = 0, ti_FromCache = False,
      ti_ErrorMessage = ''''\<rparr>"
| "shownTask (TaskCompleted e) =
     \<lparr>ti_ID = ev_ID e, ti_BuildType = ev_BuildType e, ti_Status = ev_Status e, ti_WorkerID = ev_WorkerID e,
      ti_StartedAt = ev_StartedAt e, ti_CompletedAt = ev_CompletedAt e, ti_DurationMs = ev_DurationMs e,
      ti_ExitCode = ev_ExitCode e, ti_FromCache = False, ti_ErrorMessage = ev_ErrorMessage e\<rparr>"

lemma taskFields_back: "map_of fs = map_of (taskFields t) \<Longrightarrow> taskOf fs = t"
  by (cases t) (simp add: taskOf_def stringField_def numberField_def boolField_def taskFields_def)

lemma broadcast_task:
  assumes "codec_ok J" "exactTask t" "isTaskEvent ty"
  obtains d where "taskOfEvent J d = [t]"
    "Broadcast J now (newMessage ty (TaskPayload t)) h = Hub_enqueue d (remember ty d h)"
proof -
  let ?m = "newMessage ty (TaskPayload t)\<lparr>msg_Timestamp := Unix now\<rparr>"
  have "msg_Data ?m = TaskPayload t" by (simp add: newMessage_def)
  then obtain d dm fs where d: "mc_Marshal J ?m = Inr d" "mc_Unmarshal J d = Some dm" "dm_Type dm = msg_Type ?m"
      "dm_Data dm = Some fs" "map_of fs = map_of (taskFields t)"
    using assms(1,2) unfolding codec_ok_def by blast
  have "taskOfEvent J d = [t]" using d assms(3) by (simp add: taskOfEvent_def taskFields_back newMessage_def)
  moreover have "Broadcast J now (newMessage ty (TaskPayload t)) h = Hub_enqueue d (remember ty d h)"
    using d(1) by (simp add: Broadcast_def newMessage_def)
  ultimately show thesis by (rule that)
qed

lemma keepLast_map: "keepLast n (map f xs) = map f (keepLast n xs)"
  by (simp add: keepLast_def drop_map)

lemma keepLast_snoc: "0 < n \<Longrightarrow> keepLast n (keepLast n xs @ [x]) = keepLast n (xs @ [x])"
  by (auto simp: keepLast_def Suc_diff_le)

lemma enqueue_recent [simp]: "hub_recentEvents (Hub_enqueue d h) = hub_recentEvents h" "hub_maxEvents (Hub_enqueue d h) = hub_maxEvents h"
  by (simp_all add: Hub_enqueue_def)

lemma remember_recent:
  "isTaskEvent ty \<Longrightarrow> hub_recentEvents (remember ty d h) = keepLast (hub_maxEvents h) (hub_recentEvents h @ [d])"
  "hub_maxEvents (remember ty d h) = hub_maxEvents h" "\<not> isTaskEvent ty \<Longrightarrow> remember ty d h = h"
  by (simp_all add: remember_def)

lemma publish_other:
  assumes "\<And>n. p \<noteq> Notify n"
  shows "hub_recentEvents (publishAt J (now, p) h) = hub_recentEvents h"
    "hub_maxEvents (publishAt J (now, p) h) = hub_maxEvents h"
  using assms by (cases p; simp add: BroadcastStats_def BroadcastWorkerAdded_def BroadcastWorkerRemoved_def
    Broadcast_def newMessage_def remember_recent isTaskEvent_def split: sum.split)+

lemma publish_notification:
  assumes "codec_ok J" "exactTask (shownTask n)"
  obtains d where "taskOfEvent J d = [shownTask n]"
    "hub_recentEvents (publishAt J (now, Notify n) h) = keepLast (hub_maxEvents h) (hub_recentEvents h @ [d])"
    "hub_maxEvents (publishAt J (now, Notify n) h) = hub_maxEvents h"
proof -
  obtain ty where ty: "isTaskEvent ty" "publishAt J (now, Notify n) h = Broadcast J now (newMessage ty (TaskPayload (shownTask n))) h"
    by (cases n) (auto simp: onStart_def onComplete_def BroadcastTaskStarted_def BroadcastTaskCompleted_def isTaskEvent_def)
  obtain d where "taskOfEvent J d = [shownTask n]"
      "Broadcast J now (newMessage ty (TaskPayload (shownTask n))) h = Hub_enqueue d (remember ty d h)"
    by (rule broadcast_task[OF assms ty(1)])
  then show thesis using ty by (intro that[of d]) (simp_all add: remember_recent)
qed

lemma publications_recent:
  assumes "codec_ok J" "list_all (\<lambda>n. exactTask (shownTask n)) (notifications ps)"
  shows "hub_maxEvents (fold (publishAt J) ps NewHub) = 100 \<and>
    (\<exists>ds. hub_recentEvents (fold (publishAt J) ps NewHub) = keepLast 100 ds \<and>
       map (taskOfEvent J) ds = map (\<lambda>n. [shownTask n]) (notifications ps))"
  using assms(2)
proof (induction ps rule: rev_induct)
  case Nil
  show ?case by (simp add: NewHub_def keepLast_def)
next
  case (snoc p ps)
  have split: "notifications (ps @ [p]) = notifications ps @ notifications [p]"
    by (induction ps rule: notifications.induct) (cases p; cases "snd p"; simp)+
  obtain ds where ds: "hub_maxEvents (fold (publishAt J) ps NewHub) = 100"
      "hub_recentEvents (fold (publishAt J) ps NewHub) = keepLast 100 ds"
      "map (taskOfEvent J) ds = map (\<lambda>n. [shownTask n]) (notifications ps)"
    using snoc split by auto
  obtain now q where p: "p = (now, q)" by (cases p)
  show ?case
  proof (cases "\<exists>n. q = Notify n")
    case True
    then obtain n where n: "q = Notify n" by blast
    have "exactTask (shownTask n)" using snoc.prems split p n by simp
    then obtain d where d: "taskOfEvent J d = [shownTask n]"
      "hub_recentEvents (publishAt J (now, Notify n) (fold (publishAt J) ps NewHub)) = keepLast 100 (keepLast 100 ds @ [d])"
      "hub_maxEvents (publishAt J (now, Notify n) (fold (publishAt J) ps NewHub)) = 100"
      using publish_notification[OF assms(1), of n now "fold (publishAt J) ps NewHub"] ds by metis
    then show ?thesis using ds split p n by (auto simp: keepLast_snoc intro!: exI[of _ "ds @ [d]"])
  next
    case False
    then have "notifications [p] = []" using p by (cases q) auto
    then show ?thesis using ds split p False by (auto simp: publish_other)
  qed
qed

text \<open>
  C22. Whatever is published in whatever order, the dashboard's list of tasks is exactly the last
  hundred task events that the coordinator reported, in order, each with its fields, as long as
  their numbers are exact as floating point numbers and their strings are ASCII; statistics and
  worker messages do not push a task out.
\<close>

theorem tasks_shown:
  assumes "codec_ok J" "list_all (\<lambda>n. exactTask (shownTask n)) (notifications ps)"
  shows "handleTasks J now ''GET'' (New_dashboard cfg provider\<lparr>dsrv_hub := fold (publishAt J) ps NewHub\<rparr>) =
    (let tasks = map shownTask (keepLast 100 (notifications ps)) in TasksReply tasks (length tasks) (Unix now))"
proof -
  obtain ds where ds: "hub_recentEvents (fold (publishAt J) ps NewHub) = keepLast 100 ds"
      "map (taskOfEvent J) ds = map (\<lambda>n. [shownTask n]) (notifications ps)"
    using publications_recent[OF assms] by blast
  have "map (taskOfEvent J) (keepLast 100 ds) = map (\<lambda>n. [shownTask n]) (keepLast 100 (notifications ps))"
    using ds(2) by (metis keepLast_map)
  then have "GetTasks J (fold (publishAt J) ps NewHub) = map shownTask (keepLast 100 (notifications ps))"
    using ds(1) by (simp add: GetTasks_def)
  then show ?thesis by (simp add: handleTasks_def)
qed

text \<open>A codec that keeps the message as it is.\<close>

definition messageCodec :: "Message message_codec" where
  "messageCodec =
     \<lparr>mc_Marshal = Inr,
      mc_Unmarshal = (\<lambda>m. Some \<lparr>dm_Type = msg_Type m,
        dm_Data = (case msg_Data m of TaskPayload t \<Rightarrow> Some (taskFields t) | _ \<Rightarrow> None)\<rparr>)\<rparr>"

lemma messageCodec_ok: "codec_ok messageCodec"
  by (auto simp: codec_ok_def messageCodec_def)

theorem tasks_shown_witness:
  "\<exists>t. handleTasks messageCodec 0 ''GET'' (New_dashboard DefaultConfig_dashboard None\<lparr>dsrv_hub :=
       fold (publishAt messageCodec) [(0, Notify (TaskStarted (runningEvent ''t1'' ''cpp'' ''w1'' 5))), (1, WorkerRemoved ''w2'')] NewHub\<rparr>) =
     TasksReply [t] 1 (Unix 0) \<and> ti_ID t = ''t1'' \<and> ti_StartedAt t = 5"
  using tasks_shown[OF messageCodec_ok, of "[(0, Notify (TaskStarted (runningEvent ''t1'' ''cpp'' ''w1'' 5))), (1, WorkerRemoved ''w2'')]" 0 DefaultConfig_dashboard None]
  by (simp add: runningEvent_def exactTask_def exactNumber_def plainString_def keepLast_def)

text \<open>
  A build that the coordinator answers from its cache is reported with the flag set and shown without.
\<close>

lemma cached_task_shown_uncached:
  "ev_FromCache e \<Longrightarrow> \<not> ti_FromCache (shownTask (TaskCompleted e))"
  by simp

subsection \<open>What goes wrong\<close>

text \<open>Runs of the goroutines around one client, number 0, whose reader is running.\<close>

definition oneClient :: "nat list \<Rightarrow> 'd chan \<Rightarrow> 'd list \<Rightarrow> 'd work \<Rightarrow> 'd list \<Rightarrow> 'd World" where
  "oneClient cs c queue k callers =
     \<lparr>w_hub = \<lparr>hub_clients = cs, hub_sends = (\<lambda>_. None)(0 \<mapsto> c), hub_broadcast = queue, hub_recentEvents = [],
        hub_maxEvents = 100, hub_done = False\<rparr>,
      w_work = k, w_reader = (\<lambda>_. NotConnected)(0 := Reading), w_callers = callers, w_panicked = False\<rparr>"

lemma oneClient_connected: "dreachable J (oneClient [0] emptyChan [] Waiting [])"
proof -
  have "dreachable J (oneClient [0] emptyChan [] (Replaying 0 []) [])"
    using connected_reachable[of J 0]
    by (simp add: oneClient_def setReader_def commit_def onRegister_def handleWebSocket_def setSend_def NewHub_def
        initialWorld_def)
  then show ?thesis
  proof (rule dreachable_step)
    show "dstep J (oneClient [0] emptyChan [] (Replaying 0 []) []) (oneClient [0] emptyChan [] Waiting [])"
      using dstep.work[of "oneClient [0] emptyChan [] (Replaying 0 []) []" J] by (simp add: oneClient_def commit_def)
  qed
qed

text \<open>Statistics that are published come to the head of the hub's work.\<close>

lemma oneClient_published:
  assumes "mc_Marshal J (newMessage MessageTypeStats (StatsPayload s)\<lparr>msg_Timestamp := Unix now\<rparr>) = Inr d"
    "dreachable J (oneClient [0] c [] Waiting [])"
  shows "dreachable J (oneClient [0] c [] (Delivering d [0]) [])"
proof -
  have "dstep J (oneClient [0] c [] Waiting []) (oneClient [0] c [] Waiting [d])"
    using dstep.publish[of "oneClient [0] c [] Waiting []" "newMessage MessageTypeStats (StatsPayload s)" J now d] assms(1)
    by (simp add: oneClient_def remember_def newMessage_def isTaskEvent_def)
  then have 1: "dreachable J (oneClient [0] c [] Waiting [d])" by (rule dreachable_step[OF assms(2)])
  have "dstep J (oneClient [0] c [] Waiting [d]) (oneClient [0] c [d] Waiting [])"
    using dstep.offer[of "oneClient [0] c [] Waiting [d]" d J]
    by (simp add: oneClient_def Hub_enqueue_def broadcastCapacity_def)
  then have 2: "dreachable J (oneClient [0] c [d] Waiting [])" by (rule dreachable_step[OF 1])
  have "dstep J (oneClient [0] c [d] Waiting []) (oneClient [0] c [] (Delivering d [0]) [])"
    using dstep.broadcast[of "oneClient [0] c [d] Waiting []" "[0]" J]
    by (simp add: oneClient_def onBroadcast_def commit_def)
  then show ?thesis by (rule dreachable_step[OF 2])
qed

lemma oneClient_filled:
  assumes "mc_Marshal J (newMessage MessageTypeStats (StatsPayload s)\<lparr>msg_Timestamp := Unix now\<rparr>) = Inr d" "n \<le> sendCapacity"
  shows "dreachable J (oneClient [0] \<lparr>ch_buf = replicate n d, ch_closed = False\<rparr> [] Waiting [])"
  using assms(2)
proof (induction n)
  case 0
  show ?case using oneClient_connected[of J] by (simp add: emptyChan_def)
next
  case (Suc n)
  let ?c = "\<lambda>n. \<lparr>ch_buf = replicate n d, ch_closed = False\<rparr>"
  have 1: "dreachable J (oneClient [0] (?c n) [] (Delivering d [0]) [])"
    using Suc by (intro oneClient_published[OF assms(1)]) simp
  have "dstep J (oneClient [0] (?c n) [] (Delivering d [0]) []) (oneClient [0] (?c (Suc n)) [] (Delivering d []) [])"
    using dstep.work[of "oneClient [0] (?c n) [] (Delivering d [0]) []" J] Suc.prems
    by (simp add: oneClient_def commit_def deliver_def sendTo_def trySend_def setSend_def replicate_append_same)
  then have 2: "dreachable J (oneClient [0] (?c (Suc n)) [] (Delivering d []) [])" by (rule dreachable_step[OF 1])
  have "dstep J (oneClient [0] (?c (Suc n)) [] (Delivering d []) []) (oneClient [0] (?c (Suc n)) [] Waiting [])"
    using dstep.work[of "oneClient [0] (?c (Suc n)) [] (Delivering d []) []" J] by (simp add: oneClient_def commit_def)
  then show ?case by (rule dreachable_step[OF 2])
qed

text \<open>
  A slow client crashes the coordinator: the hub closes the full channel, the reader of the client
  still runs, and the answer to the client's next ping is a send on a closed channel.
\<close>

theorem slow_client_crashes:
  assumes "mc_Marshal J (newMessage MessageTypeStats (StatsPayload s)\<lparr>msg_Timestamp := Unix now\<rparr>) = Inr d"
    "mc_Unmarshal J ping = Some m" "dm_Type m = MessageTypePing"
    "mc_Marshal J \<lparr>msg_Type = MessageTypePong, msg_Timestamp = Unix now, msg_Data = NoData\<rparr> = Inr pong"
  shows "\<exists>w. dreachable J w \<and> w_panicked w \<and> \<not> hub_done (w_hub w)"
proof -
  let ?c = "\<lambda>b. \<lparr>ch_buf = replicate sendCapacity d, ch_closed = b\<rparr>"
  have 1: "dreachable J (oneClient [0] (?c False) [] (Delivering d [0]) [])"
    by (intro oneClient_published[OF assms(1)] oneClient_filled[OF assms(1)]) simp
  have "dstep J (oneClient [0] (?c False) [] (Delivering d [0]) []) (oneClient [] (?c True) [] (Delivering d []) [])"
    using dstep.work[of "oneClient [0] (?c False) [] (Delivering d [0]) []" J]
    by (simp add: oneClient_def commit_def deliver_def sendTo_def trySend_def setSend_def dropClient_def closeChan_def)
  then have 2: "dreachable J (oneClient [] (?c True) [] (Delivering d []) [])" by (rule dreachable_step[OF 1])
  have "dstep J (oneClient [] (?c True) [] (Delivering d []) [])
      (oneClient [] (?c True) [] (Delivering d []) []\<lparr>w_panicked := True\<rparr>)"
    using dstep.message[of "oneClient [] (?c True) [] (Delivering d []) []" 0 J now ping] assms(2-4)
    by (simp add: oneClient_def commitReader_def readPump_message_def sendTo_def trySend_def)
  then have "dreachable J (oneClient [] (?c True) [] (Delivering d []) []\<lparr>w_panicked := True\<rparr>)"
    by (rule dreachable_step[OF 2])
  then show ?thesis by (intro exI[of _ "oneClient [] (?c True) [] (Delivering d []) []\<lparr>w_panicked := True\<rparr>"])
    (simp add: oneClient_def)
qed

text \<open>
  An event that still waits to be sent out when a client registers reaches it twice: once among the
  events replayed and once from the queue.
\<close>

theorem event_delivered_twice:
  assumes "isTaskEvent ty" "hub_sends h i = Some emptyChan" "hub_clients h = []"
    "hub_broadcast h = []" "hub_recentEvents h = []" "hub_maxEvents h = 100"
  shows "\<exists>h1 h2 h3 k3.
    onRegister i (Hub_enqueue d (remember ty d h)) = (h1, Replaying i [d]) \<and>
    resume (Replaying i [d]) h1 = Ok (h2, Replaying i []) \<and> onBroadcast [i] h2 = (h3, Delivering d [i]) \<and>
    resume (Delivering d [i]) h3 = Ok (k3, Delivering d []) \<and> map_option ch_buf (hub_sends k3 i) = Some [d, d]"
  using assms
  by (simp add: remember_def Hub_enqueue_def onRegister_def keepLast_def broadcastCapacity_def sendTo_def trySend_def
      setSend_def emptyChan_def sendCapacity_def onBroadcast_def deliver_def)

text \<open>Once the hub's loop has returned, a client that connects and a reader that leaves wait for ever.\<close>

theorem stopped_hub_strands:
  assumes "(dstep J)\<^sup>*\<^sup>* w w'" "w_work w = Stopped" "w_reader w i \<in> {Registering, Leaving}"
  shows "w_work w' = Stopped \<and> w_reader w' i = w_reader w i"
  using assms
proof (induction rule: rtranclp_induct)
  case (step w1 w2)
  from step(2) step(3)[OF step(4,5)] step(5) show ?case
    by (cases rule: dstep.cases)
      (auto simp: setReader_def commit_def commitHub_def commitReader_def split: outcome.splits prod.splits)
qed simp

text \<open>
  Stopping the hub twice panics. The statistics are under \<^verbatim>\<open>/api/v1\<close>; the documented path is
  answered by the file server.
\<close>

lemma stop_twice: "Hub_Stop h = Ok h' \<Longrightarrow> Hub_Stop h' = Panic"
  by (auto simp: Hub_Stop_def split: if_splits)

lemma documented_stats_path: "routeOf ''/api/stats'' = RouteAssets" "routeOf ''/api/v1/stats'' = RouteStats"
  by (simp_all add: routeOf_def)

end
