(* ===== verification/Build_Service.thy ===== *)
theory Build_Service
  imports Programs
begin

text \<open>
  The stand-alone build service of \<^verbatim>\<open>internal/grpc/server/server.go\<close>: it registers workers and
  answers which of them can handle a build, and refuses every build as not implemented. It is a
  second implementation of the protocol, beside the coordinator's of theory \<open>Server\<close>, and the
  theorems compare the two. Listening and serving are left out.
\<close>

subsection \<open>State\<close>

record BuildServiceConfig =
  sc_Port :: int
  sc_AuthToken :: string
  sc_MaxConcurrent :: int
  sc_EnableTracing :: bool

record BuildService =
  sv_config :: BuildServiceConfig
  sv_workers :: "(string, WorkerCapabilities) fmap"

definition BuildService_New :: "BuildServiceConfig \<Rightarrow> BuildService" where
  "BuildService_New cfg = \<lparr>sv_config = cfg, sv_workers = fmempty\<rparr>"

subsection \<open>Handlers\<close>

definition serviceWorkerID :: "WorkerCapabilities \<Rightarrow> string" where
  "serviceWorkerID caps = (if WorkerId caps = '''' then ''worker-'' @ Hostname caps else WorkerId caps)"

definition BuildService_Handshake ::
    "HandshakeRequest \<Rightarrow> BuildService \<Rightarrow> (rpc_status, HandshakeResponse) outcome \<times> BuildService" where
  "BuildService_Handshake req s =
     (case hs_Capabilities req of
        None \<Rightarrow> (Err (InvalidArgument ''capabilities required''), s)
      | Some caps \<Rightarrow>
          if sc_AuthToken (sv_config s) \<noteq> '''' \<and> hs_AuthToken req \<noteq> sc_AuthToken (sv_config s) then
            (Ok \<lparr>hr_Accepted = False, hr_Message = ''invalid auth token'',
                 hr_AssignedWorkerId = '''', hr_HeartbeatIntervalSeconds = 0\<rparr>, s)
          else
            (Ok \<lparr>hr_Accepted = True, hr_Message = ''worker registered successfully'',
                 hr_AssignedWorkerId = serviceWorkerID caps, hr_HeartbeatIntervalSeconds = 30\<rparr>,
             s\<lparr>sv_workers := fmupd (serviceWorkerID caps) caps (sv_workers s)\<rparr>))"

definition BuildService_Build :: "BuildRequest \<Rightarrow> (rpc_status, BuildResponse) outcome" where
  "BuildService_Build req =
     (if br_TaskId req = '''' then Err (InvalidArgument ''task_id required'')
      else Ok (emptyBuildResponse\<lparr>bs_Status := STATUS_FAILED, bs_ExitCode := 1,
                 bs_Stderr := ''build not implemented yet''\<rparr>))"

text \<open>The loop that receives the chunks is the one of the coordinator's handler, word for word.\<close>

definition BuildService_StreamBuild :: "recv list \<Rightarrow> (rpc_status, BuildResponse) outcome" where
  "BuildService_StreamBuild stream =
     outcome_bind (StreamBuild_loop stream None []) (\<lambda>(metadata, sourceData).
       if metadata = None then Err (InvalidArgument ''metadata required'')
       else Ok (emptyBuildResponse\<lparr>bs_Status := STATUS_FAILED, bs_ExitCode := 1,
                  bs_Stderr := ''stream build not implemented yet''\<rparr>))"

definition BuildService_Compile :: "CompileRequest \<Rightarrow> (rpc_status, CompileResponse) outcome" where
  "BuildService_Compile req =
     (if cr_TaskId req = '''' then Err (InvalidArgument ''task_id required'')
      else Ok (emptyCompileResponse\<lparr>cs_Status := STATUS_FAILED, cs_ExitCode := 1,
                 cs_Stderr := ''compile not implemented yet''\<rparr>))"

definition BuildService_HealthCheck :: HealthResponse where
  "BuildService_HealthCheck = \<lparr>he_Healthy = True, he_ActiveTasks = 0, he_QueuedTasks = 0\<rparr>"

text \<open>The map of the workers is ranged over in any order \<open>ord\<close>.\<close>

definition serviceStatusInfo :: "string \<times> WorkerCapabilities \<Rightarrow> WorkerStatusInfo" where
  "serviceStatusInfo = (\<lambda>(wid, caps).
     \<lparr>wi_WorkerId = wid, wi_Host = Hostname caps, wi_NativeArch = NativeArch caps, wi_CpuCores = CpuCores caps,
      wi_MemoryBytes = MemoryBytes caps, wi_ActiveTasks = 0, wi_TotalTasksCompleted = 0, wi_LastHeartbeatUnix = 0\<rparr>)"

definition BuildService_GetWorkerStatus :: "string list \<Rightarrow> BuildService \<Rightarrow> WorkerStatusResponse" where
  "BuildService_GetWorkerStatus ord s =
     (let infos = map serviceStatusInfo (range_entries (sv_workers s) ord)
      in \<lparr>wr_Workers = infos, wr_TotalWorkers = wrap32 (int (length infos)),
          wr_HealthyWorkers = wrap32 (int (length infos))\<rparr>)"

definition workerCanHandle :: "WorkerCapabilities \<Rightarrow> BuildType \<Rightarrow> TargetPlatform \<Rightarrow> bool" where
  "workerCanHandle caps buildType platform =
     (case buildType of
        BUILD_TYPE_CPP \<Rightarrow> (case Cpp caps of None \<Rightarrow> False | Some c \<Rightarrow> length (cpp_Compilers c) > 0)
      | BUILD_TYPE_FLUTTER \<Rightarrow> (case Flutter caps of None \<Rightarrow> False | Some f \<Rightarrow> platform \<in> set (fl_Platforms f))
      | BUILD_TYPE_UNITY \<Rightarrow> (case Unity caps of None \<Rightarrow> False | Some u \<Rightarrow> platform \<in> set (un_BuildTargets u))
      | BUILD_TYPE_COCOS \<Rightarrow> (case Cocos caps of None \<Rightarrow> False | Some c \<Rightarrow> platform \<in> set (co_Platforms c))
      | BUILD_TYPE_RUST \<Rightarrow> (case Rust caps of None \<Rightarrow> False | Some r \<Rightarrow> length (ru_Toolchains r) > 0)
      | BUILD_TYPE_GO \<Rightarrow> (case Go caps of None \<Rightarrow> False | Some g \<Rightarrow> go_Version g \<noteq> '''')
      | BUILD_TYPE_NODEJS \<Rightarrow> (case Nodejs caps of None \<Rightarrow> False | Some n \<Rightarrow> length (nd_Versions n) > 0)
      | _ \<Rightarrow> False)"

definition BuildService_GetWorkersForBuild ::
    "string list \<Rightarrow> BuildType \<Rightarrow> TargetPlatform \<Rightarrow> BuildService \<Rightarrow> WorkersForBuildResponse" where
  "BuildService_GetWorkersForBuild ord buildType platform s =
     (let capable = map fst (filter (\<lambda>(wid, caps). workerCanHandle caps buildType platform)
                       (range_entries (sv_workers s) ord))
      in \<lparr>wf_WorkerIds = capable, wf_AvailableCount = wrap32 (int (length capable))\<rparr>)"

subsection \<open>Properties\<close>

lemma range_entries_mem:
  assumes "iter_order m ks"
  shows "(k, v) \<in> set (range_entries m ks) \<longleftrightarrow> fmlookup m k = Some v"
  using iter_order_mem[OF assms]
  by (fastforce simp: range_entries_def split: option.splits)

text \<open>The workers of a service after a sequence of registrations.\<close>

fun accepted :: "string \<Rightarrow> HandshakeRequest \<Rightarrow> (string \<times> WorkerCapabilities) option" where
  "accepted token req =
     (case hs_Capabilities req of
        None \<Rightarrow> None
      | Some caps \<Rightarrow> if token \<noteq> '''' \<and> hs_AuthToken req \<noteq> token then None else Some (serviceWorkerID caps, caps))"

definition register :: "HandshakeRequest \<Rightarrow> BuildService \<Rightarrow> BuildService" where
  "register req s = snd (BuildService_Handshake req s)"

lemma register_state:
  "sv_config (register req s) = sv_config s"
  "sv_workers (register req s) =
     (case accepted (sc_AuthToken (sv_config s)) req of None \<Rightarrow> sv_workers s | Some (i, c) \<Rightarrow> fmupd i c (sv_workers s))"
  by (auto simp: register_def BuildService_Handshake_def split: option.split)

lemma registrations_lookup:
  "sv_config (fold register reqs s) = sv_config s \<and>
   fmlookup (sv_workers (fold register reqs s)) i =
     (case map_of (rev (List.map_filter (accepted (sc_AuthToken (sv_config s))) reqs)) i of
        Some c \<Rightarrow> Some c | None \<Rightarrow> fmlookup (sv_workers s) i)"
proof (induction reqs arbitrary: s)
  case Nil
  show ?case by (simp add: List.map_filter_simps)
next
  case (Cons req reqs)
  have "List.map_filter (accepted t) (req # reqs) =
      (case accepted t req of None \<Rightarrow> [] | Some a \<Rightarrow> [a]) @ List.map_filter (accepted t) reqs" for t
    by (simp add: List.map_filter_simps split: option.split)
  with Cons[of "register req s"] show ?case
    by (auto simp: register_state map_add_def split: option.splits simp del: accepted.simps)
qed

text \<open>
  The workers offered for a build are those whose last accepted registration under their
  identifier can handle it: a later registration replaces an earlier one and a refused one changes
  nothing.
\<close>

theorem offered_workers:
  assumes "iter_order (sv_workers s) ord" "s = fold register reqs (BuildService_New cfg)"
  shows "i \<in> set (wf_WorkerIds (BuildService_GetWorkersForBuild ord bt p s)) \<longleftrightarrow>
    (\<exists>caps. map_of (rev (List.map_filter (accepted (sc_AuthToken cfg)) reqs)) i = Some caps \<and> workerCanHandle caps bt p)"
proof -
  have "fmlookup (sv_workers s) i = map_of (rev (List.map_filter (accepted (sc_AuthToken cfg)) reqs)) i"
    using registrations_lookup[of reqs "BuildService_New cfg" i] assms(2)
    by (simp add: BuildService_New_def split: option.splits)
  then show ?thesis
    using range_entries_mem[OF assms(1), of i]
    by (force simp: BuildService_GetWorkersForBuild_def image_iff)
qed

text \<open>
  A worker this service offers for a build is one the coordinator's registry would match as well, of
  whatever platform: the checks here are stricter, and they know the platform.
\<close>

theorem workerCanHandle_matches:
  "workerCanHandle caps bt p \<Longrightarrow> matchesCapability (Some caps) bt ARCH_UNSPECIFIED"
  by (cases bt) (auto simp: workerCanHandle_def matchesCapability_def split: option.splits)

text \<open>
  The converse fails: the coordinator offers a worker with Flutter for a platform it cannot build for,
  and any worker for Unity.
\<close>

lemma matches_unable_worker:
  "matchesCapability (Some emptyCapabilities) BUILD_TYPE_UNITY ARCH_UNSPECIFIED \<and>
   \<not> workerCanHandle emptyCapabilities BUILD_TYPE_UNITY p"
  by (simp add: matchesCapability_def workerCanHandle_def emptyCapabilities_def)

text \<open>
  Two workers without an identifier on hosts of the same name take each other's place, where the
  coordinator appends the time of the registration to the name.
\<close>

lemma unnamed_workers_collide:
  assumes "WorkerId a = ''''" "WorkerId b = ''''" "Hostname a = Hostname b"
  shows "serviceWorkerID a = serviceWorkerID b"
  using assms by (simp add: serviceWorkerID_def)

text \<open>
  A client's stream reaches the service whole and is answered, as a failure; the two services give
  the same answer to every stream.
\<close>

theorem BuildService_StreamBuild_coordinator: "BuildService_StreamBuild stream = StreamBuild stream"
  by (cases "StreamBuild_loop stream None []") (auto simp: BuildService_StreamBuild_def StreamBuild_def)

end
