(* ===== verification/MSVC.thy ===== *)
theory MSVC
  imports Executor Capability
begin

text \<open>
  Microsoft's compiler on Windows: where it is installed, \<^verbatim>\<open>internal/capability/msvc.go\<close>, and the
  executor that runs it, \<^verbatim>\<open>internal/worker/executor/msvc.go\<close>. The paths are those of Windows, so the
  theory begins with package filepath there. What the machine answers (its environment, its file
  system, \<^verbatim>\<open>vswhere.exe\<close> and the batch files) is a record of functions.
\<close>

subsection \<open>Package filepath on Windows\<close>

abbreviation backslash :: char where "backslash \<equiv> CHR 0x5C"

definition isSeparator :: "char \<Rightarrow> bool" where
  "isSeparator c \<longleftrightarrow> c = backslash \<or> c = slash"

definition FromSlash :: "string \<Rightarrow> string" where
  "FromSlash = map (\<lambda>c. if c = slash then backslash else c)"

text \<open>A path of components, joined without cleaning.\<close>

abbreviation joined :: "string list \<Rightarrow> string" where "joined cs \<equiv> Join [backslash] cs"

text \<open>The volume at the head of a path: a drive letter, a share or a device.\<close>

definition hasPrefixFold :: "string \<Rightarrow> string \<Rightarrow> bool" where
  "hasPrefixFold s p \<longleftrightarrow>
     length p \<le> length s \<and>
     list_all (\<lambda>(a, b). if isSeparator b then isSeparator a else upper a = upper b) (zip s p) \<and>
     (length p < length s \<longrightarrow> isSeparator (s ! length p))"

text \<open>The position of the \<open>n\<close>-th separator from \<open>i\<close> on, or the length of the path.\<close>

fun nthSeparator :: "nat \<Rightarrow> nat \<Rightarrow> string \<Rightarrow> nat" where
  "nthSeparator n i [] = i"
| "nthSeparator n i (c # cs) =
     (if isSeparator c then (if n \<le> 1 then i else nthSeparator (n - 1) (Suc i) cs) else nthSeparator n (Suc i) cs)"

definition volumeNameLen :: "string \<Rightarrow> nat" where
  "volumeNameLen p =
     (if 2 \<le> length p \<and> p ! 1 = CHR '':'' then 2
      else if p = [] \<or> \<not> isSeparator (hd p) then 0
      else if hasPrefixFold p [backslash, backslash, CHR ''.'', backslash, CHR ''U'', CHR ''N'', CHR ''C'']
        then nthSeparator 2 8 (drop 8 p)
      else if hasPrefixFold p [backslash, backslash, CHR ''.''] \<or> hasPrefixFold p [backslash, backslash, CHR ''?''] \<or>
              hasPrefixFold p [backslash, CHR ''?'', CHR ''?'']
        then (if length p = 3 then 3 else nthSeparator 1 4 (drop 4 p))
      else if 2 \<le> length p \<and> isSeparator (p ! 1) then nthSeparator 2 2 (drop 2 p)
      else 0)"

definition VolumeName :: "string \<Rightarrow> string" where
  "VolumeName p = take (volumeNameLen p) p"

definition win_components :: "string \<Rightarrow> string list" where
  "win_components p =
     rev (foldl (clean_step (p \<noteq> [] \<and> isSeparator (hd p))) [] (Split backslash (FromSlash p)))"

definition win_render :: "bool \<Rightarrow> string list \<Rightarrow> string" where
  "win_render rooted cs =
     (if rooted then backslash # joined cs else if cs = [] then ''.'' else joined cs)"

text \<open>
  Whether cleaning ever writes something else than what stands at the same place in the path.
\<close>

fun clean_rewrites :: "bool \<Rightarrow> string \<Rightarrow> string list \<Rightarrow> string list \<Rightarrow> bool" where
  "clean_rewrites rooted original stack [] \<longleftrightarrow> \<not> prefix (win_render rooted (rev stack)) original"
| "clean_rewrites rooted original stack (c # cs) \<longleftrightarrow>
     (let stack' = clean_step rooted stack c
      in stack' \<noteq> [] \<and> \<not> prefix (win_render rooted (rev stack')) original \<or>
         clean_rewrites rooted original stack' cs)"

text \<open>
  What is put in front of a path that cleaning has rewritten, so that it does not name a drive or
  a device.
\<close>

definition postClean :: "string \<Rightarrow> string" where
  "postClean r =
     (if CHR '':'' \<in> set (takeWhile (\<lambda>c. \<not> isSeparator c) r) then CHR ''.'' # backslash # r
      else if 3 \<le> length r \<and> isSeparator (hd r) \<and> r ! 1 = CHR ''?'' \<and> r ! 2 = CHR ''?'' then backslash # CHR ''.'' # r
      else r)"

definition win_Clean :: "string \<Rightarrow> string" where
  "win_Clean p =
     (let v = volumeNameLen p; r = drop v p
      in if r = [] then
           (if 1 < v \<and> isSeparator (p ! 0) \<and> isSeparator (p ! 1) then FromSlash p else p @ ''.'')
         else
           (let rooted = isSeparator (hd r); c = win_render rooted (win_components r)
            in FromSlash (take v p @
                 (if v = 0 \<and> clean_rewrites rooted r [] (Split backslash (FromSlash r)) then postClean c else c))))"

definition win_Dir :: "string \<Rightarrow> string" where
  "win_Dir p =
     (let v = VolumeName p;
          front = rev (dropWhile (\<lambda>c. \<not> isSeparator c) (rev (drop (length v) p)));
          dir = win_Clean front
      in if dir = ''.'' \<and> 2 < length v then v else v @ dir)"

text \<open>Joining looks at the end of what it has so far.\<close>

fun win_join_loop :: "string list \<Rightarrow> string \<Rightarrow> string" where
  "win_join_loop [] b = b"
| "win_join_loop (e # es) b =
     win_join_loop es
       (if b = [] then e
        else if isSeparator (last b) then
          (let e = dropWhile isSeparator e
           in if length b = 1 \<and> HasPrefix e ''??'' \<and> (length e = 2 \<or> isSeparator (e ! 2))
              then b @ [CHR ''.'', backslash] @ e else b @ e)
        else if last b = CHR '':'' then b @ e
        else b @ [backslash] @ e)"

definition win_Join :: "string list \<Rightarrow> string" where
  "win_Join es = (let b = win_join_loop es [] in if b = [] then [] else win_Clean b)"

subsection \<open>The machine\<close>

record vswhereFindResult =
  vs_InstallationPath :: string
  vs_InstallationVer :: string
  vs_ProductID :: string

text \<open>
  The entries of a directory come sorted by name, each with whether it is a directory. The functions
  \<open>wm_rootStat\<close> and \<open>wm_rootReadDir\<close> work below a directory that was opened as a root;
  \<open>wm_vswhere\<close> is the decoded output of a run that ended well.
\<close>

record win_machine =
  wm_GOOS :: string
  wm_GOARCH :: string
  wm_Getenv :: "string \<Rightarrow> string"
  wm_Stat :: "string \<Rightarrow> bool"
  wm_ReadDir :: "string \<Rightarrow> (string \<times> bool) list option"
  wm_OpenRoot :: "string \<Rightarrow> bool"
  wm_rootStat :: "string \<Rightarrow> string \<Rightarrow> bool"
  wm_rootReadDir :: "string \<Rightarrow> string \<Rightarrow> (string \<times> bool) list option"
  wm_vswhere :: "vswhereFindResult list option"
  wm_vcvars :: "string \<Rightarrow> string + string"

subsection \<open>Detection\<close>

record MSVCInstallation = MSVCInfo +
  ms_InstallDir :: string
  ms_VCToolsPath :: string
  ms_ClExePath :: string
  ms_ProductID :: string

definition noInstallation :: MSVCInstallation where
  "noInstallation = \<lparr>ms_Available = False, ms_Version = '''', ms_Architectures = [], ms_WindowsSDK = '''',
     ms_InstallDir = '''', ms_VCToolsPath = '''', ms_ClExePath = '''', ms_ProductID = ''''\<rparr>"

definition findClExe :: "win_machine \<Rightarrow> string \<Rightarrow> string" where
  "findClExe m vcToolsPath =
     (if vcToolsPath = '''' \<or> \<not> wm_OpenRoot m vcToolsPath then ''''
      else if wm_rootStat m vcToolsPath ''bin/Hostx64/x64/cl.exe''
        then win_Join [vcToolsPath, FromSlash ''bin/Hostx64/x64/cl.exe'']
      else if wm_rootStat m vcToolsPath ''bin/Hostx86/x64/cl.exe''
        then win_Join [vcToolsPath, FromSlash ''bin/Hostx86/x64/cl.exe'']
      else '''')"

definition hostArch :: "win_machine \<Rightarrow> string" where
  "hostArch m = (if wm_GOARCH m = ''386'' then ''Hostx86'' else ''Hostx64'')"

definition detectMSVCArchitectures :: "win_machine \<Rightarrow> string \<Rightarrow> string list" where
  "detectMSVCArchitectures m vcToolsPath =
     (if vcToolsPath = '''' \<or> \<not> wm_OpenRoot m vcToolsPath then []
      else (let binPath = path_Join [''bin'', hostArch m]
            in case wm_rootReadDir m vcToolsPath binPath of
                 None \<Rightarrow> []
               | Some entries \<Rightarrow>
                   map fst (filter (\<lambda>(name, isDir).
                     isDir \<and> wm_rootStat m vcToolsPath (path_Join [binPath, name, ''cl.exe''])) entries)))"

definition programFilesX86 :: string where
  "programFilesX86 = joined [''C:'', ''Program Files (x86)'']"

definition detectWindowsSDK :: "win_machine \<Rightarrow> string" where
  "detectWindowsSDK m =
     (let sdkRoot = (if wm_Getenv m ''WindowsSdkDir'' = '''' then joined [programFilesX86, ''Windows Kits'', ''10'']
                     else wm_Getenv m ''WindowsSdkDir'')
      in if \<not> wm_OpenRoot m sdkRoot then ''''
         else case wm_rootReadDir m sdkRoot ''Include'' of
                None \<Rightarrow> ''''
              | Some entries \<Rightarrow>
                  (case find (\<lambda>(name, isDir). HasPrefix name ''10.0.'' \<and> isDir \<and>
                          wm_rootStat m sdkRoot (path_Join [''Include'', name, ''ucrt''])) (rev entries) of
                     Some (name, _) \<Rightarrow> name
                   | None \<Rightarrow> ''''))"

definition detectMSVCFromEnv :: "win_machine \<Rightarrow> MSVCInstallation option" where
  "detectMSVCFromEnv m =
     (let vcInstallDir = wm_Getenv m ''VCINSTALLDIR''; vcToolsVersion = wm_Getenv m ''VCToolsVersion'';
          tools = (if vcToolsVersion = '''' then '''' else win_Join [vcInstallDir, ''Tools'', ''MSVC'', vcToolsVersion])
      in if vcInstallDir = '''' then None
         else Some (noInstallation\<lparr>ms_Available := True, ms_InstallDir := win_Dir vcInstallDir, ms_VCToolsPath := tools,
           ms_Version := (if Contains vcInstallDir ''2022'' then ''2022''
                          else if Contains vcInstallDir ''2019'' then ''2019''
                          else if Contains vcInstallDir ''2017'' then ''2017'' else ''''),
           ms_WindowsSDK := trimSuffix (wm_Getenv m ''WindowsSDKVersion'') [backslash],
           ms_ClExePath := findClExe m tools, ms_Architectures := detectMSVCArchitectures m tools\<rparr>))"

text \<open>The last entry of the directory with the tools, whatever it is.\<close>

definition latestTools :: "win_machine \<Rightarrow> string \<Rightarrow> string" where
  "latestTools m dir =
     (let vcPath = win_Join [dir, ''VC'', ''Tools'', ''MSVC'']
      in case wm_ReadDir m vcPath of
           Some entries \<Rightarrow> if entries = [] then '''' else win_Join [vcPath, fst (last entries)]
         | None \<Rightarrow> '''')"

definition vswhereExe :: string where
  "vswhereExe = joined [programFilesX86, ''Microsoft Visual Studio'', ''Installer'', ''vswhere.exe'']"

definition detectMSVCFromVSWhere :: "win_machine \<Rightarrow> MSVCInstallation option" where
  "detectMSVCFromVSWhere m =
     (if \<not> wm_Stat m vswhereExe then None
      else case wm_vswhere m of
             None \<Rightarrow> None
           | Some [] \<Rightarrow> None
           | Some (vs # _) \<Rightarrow>
               (let tools = latestTools m (vs_InstallationPath vs)
                in Some (noInstallation\<lparr>ms_Available := True, ms_InstallDir := vs_InstallationPath vs,
                     ms_ProductID := vs_ProductID vs,
                     ms_Version := (if HasPrefix (vs_InstallationVer vs) ''17.'' then ''2022''
                                    else if HasPrefix (vs_InstallationVer vs) ''16.'' then ''2019''
                                    else if HasPrefix (vs_InstallationVer vs) ''15.'' then ''2017'' else ''''),
                     ms_VCToolsPath := tools, ms_ClExePath := findClExe m tools,
                     ms_Architectures := detectMSVCArchitectures m tools, ms_WindowsSDK := detectWindowsSDK m\<rparr>)))"

definition knownPaths :: "(string \<times> string) list" where
  "knownPaths =
     map (\<lambda>e. (joined [''C:'', ''Program Files'', ''Microsoft Visual Studio'', ''2022'', e], ''2022''))
       [''Enterprise'', ''Professional'', ''Community'', ''BuildTools''] @
     map (\<lambda>e. (joined [programFilesX86, ''Microsoft Visual Studio'', ''2019'', e], ''2019''))
       [''Enterprise'', ''Professional'', ''Community'', ''BuildTools'']"

fun searchKnownPaths :: "win_machine \<Rightarrow> (string \<times> string) list \<Rightarrow> MSVCInstallation option" where
  "searchKnownPaths m [] = None"
| "searchKnownPaths m ((path, version) # kps) =
     (if wm_Stat m path then
        (let tools = latestTools m path;
             info = noInstallation\<lparr>ms_Available := True, ms_InstallDir := path, ms_Version := version,
               ms_VCToolsPath := tools, ms_ClExePath := findClExe m tools,
               ms_Architectures := detectMSVCArchitectures m tools, ms_WindowsSDK := detectWindowsSDK m\<rparr>
         in if ms_ClExePath info \<noteq> '''' then Some info else searchKnownPaths m kps)
      else searchKnownPaths m kps)"

definition detectMSVCFromKnownPaths :: "win_machine \<Rightarrow> MSVCInstallation option" where
  "detectMSVCFromKnownPaths m = searchKnownPaths m knownPaths"

definition detectMSVCForGOOS ::
    "string \<Rightarrow> MSVCInstallation option \<Rightarrow> MSVCInstallation option \<Rightarrow> MSVCInstallation option \<Rightarrow> MSVCInstallation option" where
  "detectMSVCForGOOS goos fromEnv fromVSWhere fromKnownPaths =
     (let available = (\<lambda>r. case r of Some i \<Rightarrow> ms_Available i | None \<Rightarrow> False)
      in if goos \<noteq> ''windows'' then None
         else if available fromEnv then fromEnv
         else if available fromVSWhere then fromVSWhere
         else fromKnownPaths)"

definition DetectMSVC :: "win_machine \<Rightarrow> MSVCInstallation option" where
  "DetectMSVC m =
     detectMSVCForGOOS (wm_GOOS m) (detectMSVCFromEnv m) (detectMSVCFromVSWhere m) (detectMSVCFromKnownPaths m)"

definition GetVCVarsPath :: "win_machine \<Rightarrow> MSVCInstallation option \<Rightarrow> string" where
  "GetVCVarsPath m info =
     (case info of
        None \<Rightarrow> ''''
      | Some i \<Rightarrow>
          (let p = win_Join [ms_InstallDir i, ''VC'', ''Auxiliary'', ''Build'', ''vcvars64.bat'']
           in if ms_Available i \<and> wm_Stat m p then p else ''''))"

definition GetClExeForArch :: "win_machine \<Rightarrow> MSVCInstallation \<Rightarrow> string \<Rightarrow> string" where
  "GetClExeForArch m i targetArch =
     (if ms_VCToolsPath i = '''' then ''''
      else (let clPath = win_Join [ms_VCToolsPath i, ''bin'', hostArch m, targetArch, ''cl.exe'']
            in if wm_Stat m clPath then clPath else ''''))"

subsection \<open>The executor\<close>

record msvc_executor =
  mx_info :: MSVCInstallation
  mx_env :: "string list"
  mx_clExePath :: string
  mx_targetArch :: string

definition allowedVSBasePaths :: "string list" where
  "allowedVSBasePaths =
     [joined [''C:'', ''Program Files'', ''Microsoft Visual Studio''], joined [programFilesX86, ''Microsoft Visual Studio'']]"

definition isAllowedVSPath :: "string \<Rightarrow> bool" where
  "isAllowedVSPath path \<longleftrightarrow> list_ex (\<lambda>base. HasPrefix (ToLower (win_Clean path)) (ToLower base)) allowedVSBasePaths"

definition vcvarsScript :: "string \<Rightarrow> string \<Rightarrow> string" where
  "vcvarsScript installDir targetArch =
     (if targetArch = ''x64'' then win_Join [installDir, ''VC'', ''Auxiliary'', ''Build'', ''vcvars64.bat'']
      else if targetArch = ''x86'' then win_Join [installDir, ''VC'', ''Auxiliary'', ''Build'', ''vcvars32.bat'']
      else if targetArch = ''arm64'' then win_Join [installDir, ''VC'', ''Auxiliary'', ''Build'', ''vcvarsamd64_arm64.bat'']
      else win_Join [installDir, ''VC'', ''Auxiliary'', ''Build'', ''vcvars64.bat''])"

text \<open>
  The result, and the batch file that was run for it, if any. The error texts quote their
  path with \<^verbatim>\<open>%q\<close>, here as it is.
\<close>

definition setupVCVarsEnv ::
    "win_machine \<Rightarrow> MSVCInstallation \<Rightarrow> string \<Rightarrow> (string, string list) outcome \<times> string option" where
  "setupVCVarsEnv m info targetArch =
     (let script = vcvarsScript (ms_InstallDir info) targetArch
      in if \<not> isAllowedVSPath (ms_InstallDir info)
           then (Err (''VS installation path '' @ ms_InstallDir info @ '' is not in allowed directories''), None)
         else if \<not> isAllowedVSPath script
           then (Err (''vcvars path '' @ script @ '' escapes allowed directories''), None)
         else if \<not> wm_Stat m script then (Err (''vcvars script not found: '' @ script), None)
         else (case wm_vcvars m script of
                 Inl e \<Rightarrow> (Err (''failed to run vcvars: '' @ e), Some script)
               | Inr out \<Rightarrow> (vcvars_env out, Some script)))"

definition NewMSVCExecutor :: "win_machine \<Rightarrow> (string, msvc_executor) outcome" where
  "NewMSVCExecutor m =
     (if wm_GOOS m \<noteq> ''windows'' then Err ''MSVC executor only available on Windows''
      else case DetectMSVC m of
             None \<Rightarrow> Err ''MSVC not found on this system''
           | Some info \<Rightarrow>
               if \<not> ms_Available info then Err ''MSVC not found on this system''
               else (let x64 = GetClExeForArch m info ''x64'';
                         targetArch = (if x64 = '''' then ''x86'' else ''x64'');
                         clExePath = (if x64 = '''' then GetClExeForArch m info ''x86'' else x64)
                     in if clExePath = '''' then Err ''cl.exe not found for any architecture''
                        else case fst (setupVCVarsEnv m info targetArch) of
                               Err e \<Rightarrow> Err (''failed to setup MSVC environment: '' @ e)
                             | Panic \<Rightarrow> Panic
                             | Ok env \<Rightarrow> Ok \<lparr>mx_info = info, mx_env = env, mx_clExePath = clExePath, mx_targetArch = targetArch\<rparr>))"


text \<open>The files of raw source mode, as in the native executor but with the paths of Windows.\<close>

definition msvc_include_ops :: "string \<Rightarrow> string \<times> bytes \<Rightarrow> (string \<times> file_op) list" where
  "msvc_include_ops dir = (\<lambda>(path, content).
     (let fullPath = win_Join [dir, path]
      in [(''failed to create include dir for '' @ path, MkdirAll (win_Dir fullPath)),
          (''failed to write include '' @ path, WriteFile fullPath content)]))"

definition msvc_raw_ops :: "string \<Rightarrow> string list \<Rightarrow> Request \<Rightarrow> (string \<times> file_op) list" where
  "msvc_raw_ops workDir order req =
     (let includesDir = win_Join [workDir, ''includes'']
      in [(''failed to create includes dir'', MkdirAll includesDir)] @
         concat (map (msvc_include_ops includesDir) (range_entries (eq_IncludeFiles req) order)) @
         [(''failed to write source'', WriteFile (win_Join [workDir, rawFilename req]) (eq_RawSource req))])"

definition msvc_setupRawSourceMode ::
    "(file_op \<Rightarrow> string option) \<Rightarrow> string \<Rightarrow> string list \<Rightarrow> Request \<Rightarrow> string \<Rightarrow>
     (string, string list) outcome \<times> file_op list" where
  "msvc_setupRawSourceMode fault workDir order req outFile =
     (let (e, done) = run_ops fault (msvc_raw_ops workDir order req)
      in (case e of
            Some msg \<Rightarrow> Err msg
          | None \<Rightarrow> Ok (msvc_rawArgs (eq_Args req) (0 < map_len (eq_IncludeFiles req)) (win_Join [workDir, ''includes''])
                         (win_Join [workDir, rawFilename req]) outFile), done))"

text \<open>
  The command and its result. As in the native executor the field \<open>xe_run\<close> says how a command with
  given arguments ends after the files were written.
\<close>

definition msvc_Execute ::
    "exec_env \<Rightarrow> msvc_executor \<Rightarrow> Request \<Rightarrow> (string, Result) outcome \<times> file_op list" where
  "msvc_Execute env e req =
     (case xe_mkdirTemp env of
        Inl err \<Rightarrow> (Err (''failed to create temp dir: '' @ err), [])
      | Inr workDir \<Rightarrow>
          (let outFile = win_Join [workDir, ''output.obj'']
           in if 0 < length (eq_RawSource req)
              then (case msvc_setupRawSourceMode (xe_fault env) workDir (xe_order env) req outFile of
                      (Ok args, done) \<Rightarrow> (process_result (xe_run env (mx_clExePath e) args done) outFile, done)
                    | (Err msg, done) \<Rightarrow> (Err (''failed to setup raw source: '' @ msg), done)
                    | (Panic, done) \<Rightarrow> (Panic, done))
              else
                (let srcFile = win_Join [workDir, ''source.i'']
                 in case run_ops (xe_fault env)
                           [(''failed to write source'', WriteFile srcFile (eq_PreprocessedSource req))] of
                      (Some msg, done) \<Rightarrow> (Err msg, done)
                    | (None, done) \<Rightarrow>
                        (process_result
                           (xe_run env (mx_clExePath e) (msvc_buildArgs (eq_Args req) srcFile outFile) done)
                           outFile, done))))"

subsection \<open>Checks on concrete paths\<close>

text \<open>Cleaning drives, shares and relative paths.\<close>

abbreviation bsl :: string where "bsl \<equiv> [backslash]"

lemma win_Clean_drive: "win_Clean (''c:'' @ bsl @ ''abc'' @ bsl @ ''..'' @ bsl @ ''def'' @ bsl) = ''c:'' @ bsl @ ''def''"
  by code_simp

lemma win_Clean_share: "win_Clean (bsl @ bsl @ ''host'' @ bsl @ ''share'' @ bsl @ ''..'' @ bsl @ ''foo'') =
    bsl @ bsl @ ''host'' @ bsl @ ''share'' @ bsl @ ''foo''"
  by code_simp

lemma win_Clean_no_drive: "win_Clean ''a/../c:/a'' = ''.'' @ bsl @ ''c:'' @ bsl @ ''a''"
  by code_simp

lemma win_Dir_drive: "win_Dir (''c:'' @ bsl @ ''a'' @ bsl @ ''b'' @ bsl) = ''c:'' @ bsl @ ''a'' @ bsl @ ''b''"
  "win_Dir (''c:'' @ bsl @ ''a'' @ bsl @ ''b'') = ''c:'' @ bsl @ ''a''"
  by code_simp+

lemma win_Join_drive: "win_Join [''C:'', ''a''] = ''C:a''" "win_Join [''C:'' @ bsl, ''a'', ''/b''] = ''C:'' @ bsl @ ''a'' @ bsl @ ''b''"
  by code_simp+

subsection \<open>Properties\<close>


text \<open>
  Only batch files are run whose cleaned path begins with one of the two directories allowed, and
  only those that exist.
\<close>

lemma vcvars_script_allowed:
  "snd (setupVCVarsEnv m info arch) = Some script \<Longrightarrow>
     script = vcvarsScript (ms_InstallDir info) arch \<and> isAllowedVSPath script \<and>
     isAllowedVSPath (ms_InstallDir info) \<and> wm_Stat m script"
  by (auto simp: setupVCVarsEnv_def Let_def split: if_splits sum.splits)











text \<open>A machine with one installation, found by its path.\<close>

definition sampleDir :: string where
  "sampleDir = joined [''C:'', ''Program Files'', ''Microsoft Visual Studio'', ''2022'', ''Community'']"




text \<open>Without faults the result of an execution follows the process, as for the native executor.\<close>

definition msvc_args :: "string \<Rightarrow> Request \<Rightarrow> string list" where
  "msvc_args workDir req =
     (let outFile = win_Join [workDir, ''output.obj'']
      in if 0 < length (eq_RawSource req)
         then msvc_rawArgs (eq_Args req) (0 < map_len (eq_IncludeFiles req)) (win_Join [workDir, ''includes''])
                (win_Join [workDir, rawFilename req]) outFile
         else msvc_buildArgs (eq_Args req) (win_Join [workDir, ''source.i'']) outFile)"

definition msvc_ops :: "string \<Rightarrow> string list \<Rightarrow> Request \<Rightarrow> file_op list" where
  "msvc_ops workDir order req =
     (if 0 < length (eq_RawSource req) then map snd (msvc_raw_ops workDir order req)
      else [WriteFile (win_Join [workDir, ''source.i'']) (eq_PreprocessedSource req)])"

theorem msvc_Execute_correct:
  assumes "xe_mkdirTemp env = Inr workDir" "\<And>a. xe_fault env a = None"
    and "p = xe_run env (mx_clExePath e) (msvc_args workDir req) (msvc_ops workDir (xe_order env) req)"
    and "out = pr_read p (win_Join [workDir, ''output.obj''])"
  shows "case fst (msvc_Execute env e req) of
     Ok r \<Rightarrow>
       (er_Success r \<longleftrightarrow> \<not> pr_timedOut p \<and> pr_end p = ExitedOK \<and> out = Inr (er_ObjectCode r)) \<and>
       (er_Success r \<or> er_ObjectCode r = []) \<and>
       er_ExitCode r = (if pr_timedOut p then - 1 else case pr_end p of Exited code \<Rightarrow> wrap32 code | _ \<Rightarrow> 0)
   | Err msg \<Rightarrow> \<not> pr_timedOut p \<and> (\<exists>txt. pr_end p = NotRun txt \<and> msg = ''execution failed: '' @ txt)
   | Panic \<Rightarrow> False"
proof -
  have "fst (msvc_Execute env e req) = process_result p (win_Join [workDir, ''output.obj''])"
    unfolding assms(3) using assms(1,2)
    by (simp add: msvc_Execute_def msvc_setupRawSourceMode_def run_ops_faultless msvc_args_def msvc_ops_def Let_def)
  then show ?thesis unfolding assms(4) by (simp only: process_result_cases)
qed

text \<open>
  The check compares strings, not directories: a directory beside Visual Studio whose name begins with
  its name is accepted.
\<close>

theorem allowed_path_is_textual:
  "isAllowedVSPath (joined [''C:'', ''Program Files'', ''Microsoft Visual Studio Imposter'', ''x''])"
  by code_simp

lemma parent_references_refused:
  "\<not> isAllowedVSPath (joined [''C:'', ''Program Files'', ''Microsoft Visual Studio'', ''..'', ''..'', ''Temp''])"
  by code_simp

text \<open>
  In a developer prompt the variable ends in a backslash; the installation is then taken to be the
  directory \<^verbatim>\<open>VC\<close> itself and the batch file is looked for in \<^verbatim>\<open>VC\VC\<close>.
\<close>

theorem developer_prompt_install_dir:
  "win_Dir (joined [sampleDir, ''VC'', '''']) = joined [sampleDir, ''VC'']"
  "vcvarsScript (win_Dir (joined [sampleDir, ''VC'', ''''])) ''x64'' =
     joined [sampleDir, ''VC'', ''VC'', ''Auxiliary'', ''Build'', ''vcvars64.bat'']"
  by code_simp+

text \<open>
  Once the variable is set the installation it names counts as available, with or without a
  compiler, and the other ways of finding one are not tried.
\<close>

theorem environment_wins:
  assumes "wm_GOOS m = ''windows''" "wm_Getenv m ''VCINSTALLDIR'' \<noteq> ''''"
  shows "DetectMSVC m = detectMSVCFromEnv m" "\<exists>i. detectMSVCFromEnv m = Some i \<and> ms_Available i"
    "wm_Getenv m ''VCToolsVersion'' = '''' \<Longrightarrow> NewMSVCExecutor m = Err ''cl.exe not found for any architecture''"
  using assms
  by (auto simp: DetectMSVC_def detectMSVCForGOOS_def detectMSVCFromEnv_def NewMSVCExecutor_def GetClExeForArch_def
      noInstallation_def Let_def)

text \<open>
  Such a worker tells the coordinator that it has \<^verbatim>\<open>cl.exe\<close>, though its executor could not be created.
\<close>

theorem advertises_missing_compiler:
  assumes "wm_GOOS m = ''windows''" "wm_Getenv m ''VCINSTALLDIR'' \<noteq> ''''" "wm_Getenv m ''VCToolsVersion'' = ''''"
  shows "''cl.exe'' \<in> set (cpp_Compilers (detectCppForGOOS (wm_GOOS m) lookPath (map_option MSVCInfo.truncate (DetectMSVC m))))
    \<and> NewMSVCExecutor m = Err ''cl.exe not found for any architecture''"
  using environment_wins[OF assms(1,2)] assms
  by (auto simp: detectCppForGOOS_def MSVCInfo.defs emptyCpp_def Let_def)

text \<open>An installation found by its path has a compiler, and is the first such in the list.\<close>

lemma searchKnownPaths_sound:
  "searchKnownPaths m kps = Some i \<Longrightarrow>
     ms_ClExePath i \<noteq> '''' \<and> ms_Available i \<and> (ms_InstallDir i, ms_Version i) \<in> set kps \<and> wm_Stat m (ms_InstallDir i)"
  by (induction kps) (auto simp: Let_def noInstallation_def split: if_splits)

text \<open>
  The batch file is chosen by the name as given, the compiler by the name in lower case: with
  \<^verbatim>\<open>ARM64\<close> the ARM compiler runs in the environment for x64, as it does for 32-bit ARM.
\<close>

theorem upper_case_target:
  "vcvarsScript dir ''ARM64'' = vcvarsScript dir ''x64''" "vcvarsScript dir ''arm'' = vcvarsScript dir ''x64''"
  "contains_fold validMSVCArchitectures (ToLower ''ARM64'')"
  unfolding vcvarsScript_def by (simp, simp, code_simp)

text \<open>
  The latest version of the kit is the last by name, not by number: of two versions the older may win.
\<close>

theorem sdk_by_name:
  assumes "wm_Getenv m ''WindowsSdkDir'' = ''D:''" "wm_OpenRoot m ''D:''"
    "wm_rootReadDir m ''D:'' ''Include'' = Some [(''10.0.22621.0'', True), (''10.0.9600.0'', True)]"
    "\<And>p. wm_rootStat m ''D:'' p"
  shows "detectWindowsSDK m = ''10.0.9600.0''"
  using assms by (simp add: detectWindowsSDK_def HasPrefix_def Let_def)

end
