(* ===== verification/Logging.thy ===== *)
theory Logging
  imports Settings
begin

text \<open>
  Logging, \<^verbatim>\<open>internal/logging\<close>: where a program's log goes (\<^verbatim>\<open>writer.go\<close>, \<^verbatim>\<open>rotation.go\<close>) and the HTTP
  endpoint that changes its level while it runs (\<^verbatim>\<open>handler.go\<close>). The logging library is a parameter: its
  names of levels, and its documented rule that an event is written if its level is at least that of
  the logger and the global one. The decoding of a request's body is an argument.
\<close>

subsection \<open>Levels\<close>

type_synonym Level = int

definition validLevels :: "(string \<times> Level) list" where
  "validLevels = [(''trace'', - 1), (''debug'', 0), (''info'', 1), (''warn'', 2), (''error'', 3), (''fatal'', 4), (''panic'', 5)]"

record zerolog =
  zl_String :: "Level \<Rightarrow> string"
  zl_ParseLevel :: "string \<Rightarrow> Level option"

definition zerolog_ok :: "zerolog \<Rightarrow> bool" where
  "zerolog_ok Z \<longleftrightarrow> (\<forall>(name, l) \<in> set validLevels. zl_String Z l = name \<and> zl_ParseLevel Z name = Some l)"

definition written :: "Level \<Rightarrow> Level \<Rightarrow> Level \<Rightarrow> bool" where
  "written loggerLevel globalLevel l \<longleftrightarrow> loggerLevel \<le> l \<and> globalLevel \<le> l"

subsection \<open>The endpoint\<close>

datatype log_reply =
    MethodRefused string
  | BadRequest string
  | LevelIs string
  | LevelChanged string string

definition handleGetLogLevel :: "zerolog \<Rightarrow> Level \<Rightarrow> log_reply" where
  "handleGetLogLevel Z global = LevelIs (zl_String Z global)"

text \<open>The body is read, or fails, and decodes to the level asked for, or not at all.\<close>

definition handleSetLogLevel :: "zerolog \<Rightarrow> string + string option \<Rightarrow> Level \<Rightarrow> log_reply \<times> Level" where
  "handleSetLogLevel Z body global =
     (case body of
        Inl _ \<Rightarrow> (BadRequest ''failed to read request body'', global)
      | Inr None \<Rightarrow> (BadRequest ''invalid JSON'', global)
      | Inr (Some name) \<Rightarrow>
          (case map_of validLevels name of
             None \<Rightarrow> (BadRequest (''invalid level: '' @ name @ '' (must be one of: trace, debug, info, warn, error, fatal, panic)''), global)
           | Some l \<Rightarrow> (LevelChanged name (zl_String Z global), l)))"

definition LogLevelHandler :: "zerolog \<Rightarrow> string \<Rightarrow> string + string option \<Rightarrow> Level \<Rightarrow> log_reply \<times> Level" where
  "LogLevelHandler Z meth body global =
     (if meth = ''GET'' then (handleGetLogLevel Z global, global)
      else if meth = ''PUT'' \<or> meth = ''POST'' then handleSetLogLevel Z body global
      else (MethodRefused ''method not allowed'', global))"

subsection \<open>The writers\<close>

datatype sink = ConsoleStderr | PlainFile string | RotatingFile string LogRotationConfig

record logger =
  lgr_level :: Level
  lgr_sinks :: "sink list"
  lgr_closes :: "sink option"

definition InfoLevel :: Level where
  "InfoLevel = 1"

text \<open>\<open>open_error\<close> is the outcome of opening the file. Rotation is on if any of its limits is positive.\<close>

definition SetupLogger :: "zerolog \<Rightarrow> string option \<Rightarrow> LogConfig \<Rightarrow> (string, logger) outcome" where
  "SetupLogger Z open_error cfg =
     (let level = (case zl_ParseLevel Z (lg_Level cfg) of Some l \<Rightarrow> l | None \<Rightarrow> InfoLevel);
          r = lg_Rotation cfg;
          rotates = (lr_MaxSizeMB r > 0 \<or> lr_MaxBackups r > 0 \<or> lr_MaxAgeDays r > 0);
          file = (if rotates then RotatingFile (lg_File cfg) r else PlainFile (lg_File cfg));
          sinks = (if lg_Format cfg = ''json'' then [file] else [ConsoleStderr, file])
      in if lg_File cfg = '''' then Ok \<lparr>lgr_level = level, lgr_sinks = [ConsoleStderr], lgr_closes = None\<rparr>
         else (case (if rotates then None else open_error) of
                 Some e \<Rightarrow> Err e
               | None \<Rightarrow> Ok \<lparr>lgr_level = level, lgr_sinks = sinks, lgr_closes = Some file\<rparr>))"

text \<open>The writer of a plain file: it syncs after every write that went well.\<close>

definition syncedFileWriter_Write :: "nat \<times> string option \<Rightarrow> (nat \<times> string option) \<times> bool" where
  "syncedFileWriter_Write result = (result, snd result = None)"

subsection \<open>Properties\<close>

lemma validLevels_distinct: "distinct (map fst validLevels)" "distinct (map snd validLevels)"
  by (simp_all add: validLevels_def)

text \<open>The level after a sequence of requests.\<close>

definition serve_requests :: "zerolog \<Rightarrow> (string \<times> (string + string option)) list \<Rightarrow> Level \<Rightarrow> Level" where
  "serve_requests Z rs global = fold (\<lambda>(meth, body) l. snd (LogLevelHandler Z meth body l)) rs global"

definition asks_for :: "string \<times> (string + string option) \<Rightarrow> Level option" where
  "asks_for = (\<lambda>(meth, body).
     if meth = ''PUT'' \<or> meth = ''POST'' then (case body of Inr (Some name) \<Rightarrow> map_of validLevels name | _ \<Rightarrow> None) else None)"

lemma handler_level: "snd (LogLevelHandler Z meth body l) = (case asks_for (meth, body) of Some l' \<Rightarrow> l' | None \<Rightarrow> l)"
  by (auto simp: LogLevelHandler_def handleSetLogLevel_def asks_for_def split: sum.split option.split)

text \<open>
  The global level is the one of the last request that asked for a valid level, and a query answers with
  its name; a refused request changes nothing.
\<close>

theorem log_level_last_wins:
  "serve_requests Z rs global = (case List.map_filter asks_for (rev rs) of [] \<Rightarrow> global | l # _ \<Rightarrow> l)"
proof (induction rs rule: rev_induct)
  case Nil
  show ?case by (simp add: serve_requests_def List.map_filter_simps)
next
  case (snoc r rs)
  obtain meth body where r: "r = (meth, body)" by (cases r)
  show ?case
    using snoc handler_level[of Z meth body]
    by (auto simp: serve_requests_def List.map_filter_simps r split: option.split)
qed

theorem log_level_reported:
  assumes "zerolog_ok Z" "asks_for (meth, body) = Some l"
  shows "\<exists>name. (name, l) \<in> set validLevels \<and>
    LogLevelHandler Z meth body global = (LevelChanged name (zl_String Z global), l) \<and>
    fst (LogLevelHandler Z ''GET'' b l) = LevelIs name"
  using assms
  by (auto simp: asks_for_def LogLevelHandler_def handleSetLogLevel_def handleGetLogLevel_def zerolog_ok_def
      split: if_splits sum.splits option.splits dest: map_of_SomeD)

text \<open>
  The endpoint cannot make a program more verbose than it was set up: the logger keeps its own
  level, below which nothing is written whatever the global level is.
\<close>

theorem verbosity_bounded_by_setup:
  assumes "SetupLogger Z open_error cfg = Ok lg" "zl_ParseLevel Z (lg_Level cfg) = Some InfoLevel"
  shows "\<not> written (lgr_level lg) (snd (LogLevelHandler Z ''PUT'' (Inr (Some ''debug'')) global)) 0"
  using assms by (auto simp: SetupLogger_def Let_def written_def InfoLevel_def split: if_splits option.splits)

text \<open>
  An unknown level counts as info. A file that cannot be opened is an error without rotation only; with
  rotation it is found out at the first write.
\<close>

lemma SetupLogger_cases:
  "SetupLogger Z open_error cfg = Err e \<longleftrightarrow>
     lg_File cfg \<noteq> '''' \<and> open_error = Some e \<and>
     lr_MaxSizeMB (lg_Rotation cfg) \<le> 0 \<and> lr_MaxBackups (lg_Rotation cfg) \<le> 0 \<and> lr_MaxAgeDays (lg_Rotation cfg) \<le> 0"
  by (auto simp: SetupLogger_def Let_def split: option.splits)

theorem log_file_kept:
  assumes "SetupLogger Z open_error cfg = Ok lg" "lg_File cfg \<noteq> ''''"
  shows "\<exists>f \<in> set (lgr_sinks lg). lgr_closes lg = Some f \<and> (f = PlainFile (lg_File cfg) \<or> f = RotatingFile (lg_File cfg) (lg_Rotation cfg))
    \<and> (ConsoleStderr \<in> set (lgr_sinks lg) \<longleftrightarrow> lg_Format cfg \<noteq> ''json'')"
  using assms by (auto simp: SetupLogger_def Let_def split: if_splits option.splits)

end
