(* ===== verification/Spec2Isabelle.thy ===== *)
theory Spec2Isabelle
  imports End_To_End Availability Interceptors Terminal_Output Dashboard Build_Service MSVC Logging
begin

text \<open>
  \<^bold>\<open>A verification of the hybridgrid distributed build system.\<close>

  hybridgrid is a build cluster written in Go. Clients (\<^verbatim>\<open>cmd/hgbuild\<close>) hand compilations and
  Flutter or Unity builds to a coordinator (\<^verbatim>\<open>cmd/hg-coord\<close>), which chooses a worker
  (\<^verbatim>\<open>cmd/hg-worker\<close>), forwards the request and returns the answer. A client consults a local
  cache before it asks. This development models the programs end to end: what a client sends and
  how it treats the answer, the coordinator, the worker and its executors, the cache, and what
  surrounds them (validation, authentication, discovery, configuration, the build graph).

  \<^bold>\<open>The theories\<close>, in the order of import, with the code under \<^verbatim>\<open>src/\<close> they model.

  \<^item> \<open>HG_Prelude\<close>: how Go appears in HOL: machine integers with their wrap-around, outcomes
    (value, error, panic), maps with an explicit iteration order, clock readings, the "keep the
    best element" loop.
  \<^item> \<open>Proto_Messages\<close>: the messages of \<^verbatim>\<open>proto/hybridgrid/v1/build.proto\<close>.
  \<^item> \<open>Registry\<close>: \<^verbatim>\<open>internal/coordinator/registry/registry.go\<close>. The worker table; its invariant, what
    the capability query returns, what the background cleanup changes.
  \<^item> \<open>Latency\<close>: \<^verbatim>\<open>metrics/ewma.go\<close> and \<^verbatim>\<open>metrics/latency.go\<close>. Closed form and bounds of the average.
  \<^item> \<open>Circuit\<close>, \<open>Retry\<close>: \<^verbatim>\<open>resilience/circuit.go\<close> and \<^verbatim>\<open>resilience/retry.go\<close>, over the third-party
    breaker and backoff as parameters.
  \<^item> \<open>Scheduler\<close>: \<^verbatim>\<open>scheduler/scheduler.go\<close>. Round robin, least loaded, power of two choices; the
    locales \<open>scheduler\<close> and \<open>capacity_scheduler\<close> are the contract of the Go interface.
  \<^item> \<open>Learning\<close>, \<open>Epsilon_Greedy\<close>, \<open>HEFT\<close>, \<open>LinUCB\<close>: the learning schedulers of
    \<^verbatim>\<open>scheduler/feedback.go\<close>, \<^verbatim>\<open>epsilon_greedy.go\<close>, \<^verbatim>\<open>heft.go\<close>, \<^verbatim>\<open>linucb.go\<close>, interpretations of the
    locale \<open>learning_scheduler\<close>. The matrix library is a parameter with its documented laws.
  \<^item> \<open>Scheduling\<close>: the factory and the dispatch over all of them; every configured scheduler meets
    the contract.
  \<^item> \<open>Cache_Key\<close>, \<open>Cache_Store\<close>: \<^verbatim>\<open>internal/cache/key.go\<close> and \<^verbatim>\<open>store.go\<close>. What keys
    distinguish; the store's accounting, its eviction, round trips through memory and disk.
  \<^item> \<open>Server\<close>, \<open>Server_Stats\<close>, \<open>Compile\<close>, \<open>Build\<close>: \<^verbatim>\<open>internal/coordinator/server\<close>. The server
    object with its counters and caches, the connection pool, registration, the queries, and the
    two big handlers split into the phases between which other calls may run.
  \<^item> \<open>Ledger\<close>: the abstract machine of the coordinator's bookkeeping with its invariant, and the
    locale \<open>booked_call\<close> of a handler that books tasks.
  \<^item> \<open>Coordinator\<close>: the step relation of the concurrent system and the proof that it refines the
    ledger machine; its consequences for the counters, the workers' loads and the limits.

  \<^item> \<open>Go_Strings\<close>, \<open>Go_Paths\<close>, \<open>Go_Numbers\<close>: what the code uses of Go's \<^verbatim>\<open>strings\<close>,
    \<^verbatim>\<open>path/filepath\<close> and \<^verbatim>\<open>strconv\<close>.
  \<^item> \<open>Validation\<close>: \<^verbatim>\<open>internal/security/validation\<close>. What sanitised paths and arguments cannot contain.
  \<^item> \<open>Interceptors\<close>: \<^verbatim>\<open>internal/security/auth\<close> and \<^verbatim>\<open>internal/grpc/interceptors/requestid.go\<close>.
  \<^item> \<open>Compiler\<close>: \<^verbatim>\<open>internal/compiler\<close>. The parser of compiler command lines, its round trip with the
    printer, the preprocessor's command lines, the translation to MSVC options.
  \<^item> \<open>Graph\<close>: \<^verbatim>\<open>internal/graph/graph.go\<close> and \<^verbatim>\<open>parser.go\<close>. The build graph and the parsers of Makefiles
    and compilation databases.
  \<^item> \<open>Client\<close>: \<^verbatim>\<open>internal/cli/build/build.go\<close> and \<^verbatim>\<open>internal/cli/fallback/local.go\<close>. Where the result
    of a build comes from: cache, coordinator with retries, or the local compiler.
  \<^item> \<open>Executor\<close>: the compilation executors of \<^verbatim>\<open>internal/worker/executor\<close>: selection, command lines,
    the files they write, Docker containers.
  \<^item> \<open>Archive\<close>, \<open>App_Executors\<close>, \<open>App_Client\<close>: Flutter and Unity builds on both sides
    (\<^verbatim>\<open>flutter.go\<close> and \<^verbatim>\<open>unity.go\<close> of the executors, \<^verbatim>\<open>internal/cli/flutter\<close>, \<^verbatim>\<open>internal/cli/unity\<close>):
    packing and confined unpacking of source archives, the builds and their artifacts.
  \<^item> \<open>Worker\<close>: \<^verbatim>\<open>internal/worker/server/grpc.go\<close>. Its handlers split into phases, the step relation of
    concurrent calls with its invariant, the handlers served alone.
  \<^item> \<open>End_To_End\<close>: client, coordinator and worker composed.
  \<^item> \<open>Discovery\<close>: \<^verbatim>\<open>internal/discovery/mdns\<close>. Announcements read back, the browser's table and its
    notifications, how a coordinator is found.
  \<^item> \<open>Settings\<close>: \<^verbatim>\<open>internal/config/config.go\<close>, \<^verbatim>\<open>internal/security/tls\<close>,
    \<^verbatim>\<open>internal/observability/tracing/config.go\<close>. Loading, validation, transport security.
  \<^item> \<open>Capability\<close>, \<open>MSVC\<close>: \<^verbatim>\<open>internal/capability/detect.go\<close> over the outputs of the probed tools, and
    Microsoft's compiler: the search for it in \<^verbatim>\<open>internal/capability/msvc.go\<close> and its executor
    \<^verbatim>\<open>internal/worker/executor/msvc.go\<close>, over package filepath on Windows.
  \<^item> \<open>Programs\<close>: \<^verbatim>\<open>cmd/hg-coord/main.go\<close>, \<^verbatim>\<open>cmd/hg-worker/main.go\<close>, \<^verbatim>\<open>internal/grpc/client/client.go\<close>.
    Flags, configuration, registration and heartbeats.
  \<^item> \<open>Availability\<close>: worker and coordinator over time. A timeline is a run of the coordinator's step
    relation in which the requests of a worker's heartbeat loop arrive when the network delivers them;
    while they do the worker stays registered, healthy and a candidate for what it can build.
  \<^item> \<open>HGBuild\<close>: \<^verbatim>\<open>cmd/hgbuild/main.go\<close> and \<^verbatim>\<open>internal/graph/render.go\<close>. The compiler wrappers, the wrapped
    build tools and the environment they are started in (locale \<open>environment\<close>), the build, cache,
    configuration and graph commands; when a wrapper reports success.
  \<^item> \<open>Terminal_Output\<close>: \<^verbatim>\<open>internal/cli/output\<close>. The rows and labels the client prints.
  \<^item> \<open>Dashboard\<close>: \<^verbatim>\<open>internal/observability/dashboard\<close>. The websocket hub with the goroutines around it as a
    step relation, its invariant and the ways it fails, the HTTP handlers, the tasks shown.
  \<^item> \<open>Logging\<close>: \<^verbatim>\<open>internal/logging\<close>. The endpoint that changes the level of the log, and where the log goes.
  \<^item> \<open>Build_Service\<close>: \<^verbatim>\<open>internal/grpc/server/server.go\<close>, the stand-alone implementation of the protocol,
    compared with the coordinator's.

  \<^bold>\<open>State and interleaving.\<close> A structure is a record with the fields of the Go type; an operation
  that holds a mutex is one function on it. Where the code leaves a critical section and enters
  another (\<^verbatim>\<open>getOrCreate\<close>, \<^verbatim>\<open>connPool.get\<close>, selection and booking of a worker) the sections are
  separate definitions and the theorems interleave them. Inside a phase of a handler several
  atomic additions on different counters are one step; they commute with every other step, so
  merging them hides no reachable combination of completed phases.

  \<^bold>\<open>Bounds.\<close> Counters keep their width. The task count of a worker is an \<^verbatim>\<open>int32\<close> that the code
  increments unchecked; the step relation books a task only while fewer than \<open>2 ^ 31 - 1\<close> calls
  run, which no process with a request in memory per call can exceed; the worker's 64-bit task
  counters are bounded alike. There is no fuel: every loop is structural or has a termination
  proof; a discovery that is still waiting is the value \<open>None\<close>.

  \<^bold>\<open>Idealisations.\<close> A \<^verbatim>\<open>float64\<close> is a real number (with the special values where the code tests for
  them); a query that reads the clock once per worker reads it once; the listing and the count
  inside one \<^verbatim>\<open>Select\<close> see the same registry. Randomness, clocks, dial and call outcomes, map orders
  and file system faults are arguments, and so are the libraries and programs outside the
  repository: JSON, tar, zstd, SHA-256 and the 64-bit hash, X.509, viper, mDNS, the gRPC transport,
  compilers, Flutter, Unity, the Docker daemon. Strings are byte sequences; case conversion is that
  of ASCII; paths are those of systems whose only separator is the slash, except in \<open>MSVC\<close>. An error message is the
  text the code formats where it reaches another component, and otherwise a constructor.

  \<^bold>\<open>Not modelled.\<close> Tracing, Prometheus metrics and the log messages have no influence on results. Of what the
  programs print, escape sequences, the layout of tables and the progress bars belong to libraries,
  and the page that shows a graph is a template, a parameter of \<open>HGBuild\<close>. Listening, serving and
  sockets are the system's; in \<open>Dashboard\<close> a read or a write that fails may happen at any time. The
  Windows services (\<^verbatim>\<open>service_windows.go\<close>) are not reached by either program. The command line library
  is a parameter.
\<close>

end
